(* ===== verification/Prelude.thy ===== *)
theory Prelude
  imports Main "HOL-Library.Word"
begin

text \<open>
  Shared vocabulary of the development: Go's machine integers as words, the outcome of a Go
  call (a value, an \<open>error\<close> value, a run-time panic), Go's slice primitives with their bounds
  checks, the big-endian accessors of \<open>encoding/binary\<close>, the loop shape that every
  type-length-value decoder of the program has, and the contracts (locales) the components
  implement.
\<close>

unbundle bit_operations_syntax

section \<open>Machine integers\<close>

type_synonym byte = "8 word"
type_synonym u8 = "8 word"
type_synonym u16 = "16 word"
type_synonym u32 = "32 word"

text \<open>Go's \<open>int32\<close>: an integer read back from 32-bit two's complement.\<close>

definition to_i32 :: "int \<Rightarrow> int" where
  "to_i32 x = sint (word_of_int x :: 32 word)"

text \<open>Go's integer division truncates towards zero.\<close>

definition tdiv :: "int \<Rightarrow> int \<Rightarrow> int" where
  "tdiv a b = sgn a * sgn b * (\<bar>a\<bar> div \<bar>b\<bar>)"

section \<open>Outcomes of a Go call\<close>

text \<open>
  \<open>Ok v\<close>: the call returned \<open>v\<close> and a nil error; \<open>Error e\<close>: it returned the error \<open>e\<close>;
  \<open>Panic\<close>: the run-time panicked (index out of range, slice bounds, nil dereference).
  A call that may also fail to return has type \<open>('e, 'a) outcome option\<close>, with \<open>None\<close> for
  divergence.
\<close>

datatype ('e, 'a) outcome = Ok (the_Ok: 'a) | Error 'e | Panic

fun obind :: "('e, 'a) outcome \<Rightarrow> ('a \<Rightarrow> ('e, 'b) outcome) \<Rightarrow> ('e, 'b) outcome" where
  "obind (Ok a) f = f a"
| "obind (Error e) f = Error e"
| "obind Panic f = Panic"

definition rbind ::
  "('e, 'a) outcome option \<Rightarrow> ('a \<Rightarrow> ('e, 'b) outcome option) \<Rightarrow> ('e, 'b) outcome option" where
  "rbind m f = Option.bind m (\<lambda>r. case r of Ok a \<Rightarrow> f a | Error e \<Rightarrow> Some (Error e) | Panic \<Rightarrow> Some Panic)"

text \<open>A loop that applies a fallible call to every element and stops at the first failure.\<close>

fun omap :: "('a \<Rightarrow> ('e, 'b) outcome) \<Rightarrow> 'a list \<Rightarrow> ('e, 'b list) outcome" where
  "omap f [] = Ok []"
| "omap f (x # xs) = obind (f x) (\<lambda>y. obind (omap f xs) (\<lambda>ys. Ok (y # ys)))"

section \<open>Slices\<close>

text \<open>
  A slice is a list of its elements; its capacity is its length unless stated otherwise (the
  slices whose capacity the program reads are built with \<open>make\<close>, \<open>ParseIP\<close> or \<open>To4\<close>,
  which give exactly that).
\<close>

definition idx :: "'a list \<Rightarrow> nat \<Rightarrow> ('e, 'a) outcome" where
  "idx xs i = (if i < length xs then Ok (xs ! i) else Panic)"

definition slice :: "'a list \<Rightarrow> nat \<Rightarrow> nat \<Rightarrow> ('e, 'a list) outcome" where
  "slice xs i j = (if i \<le> j \<and> j \<le> length xs then Ok (take (j - i) (drop i xs)) else Panic)"

definition slice_from :: "'a list \<Rightarrow> nat \<Rightarrow> ('e, 'a list) outcome" where
  "slice_from xs i = (if i \<le> length xs then Ok (drop i xs) else Panic)"

text \<open>
  A slice of a network buffer may have spare capacity behind its length, and Go bounds
  \<open>xs[i:j]\<close> by the capacity: \<open>spare\<close> holds the bytes between the two.
\<close>

definition slice_cap :: "'a list \<Rightarrow> 'a list \<Rightarrow> nat \<Rightarrow> nat \<Rightarrow> ('e, 'a list) outcome" where
  "slice_cap xs spare i j = slice (xs @ spare) i j"

text \<open>\<open>copy(dst[off:], src)\<close>: panics when \<open>off\<close> is past the end, copies what fits.\<close>

definition copy_at :: "'a list \<Rightarrow> nat \<Rightarrow> 'a list \<Rightarrow> ('e, 'a list) outcome" where
  "copy_at dst off src =
     (if off \<le> length dst
      then Ok (take off dst @ take (length dst - off) src @ drop (off + length src) dst)
      else Panic)"

text \<open>\<open>pkt[i] = v\<close>.\<close>

definition set_idx :: "'a list \<Rightarrow> nat \<Rightarrow> 'a \<Rightarrow> ('e, 'a list) outcome" where
  "set_idx xs i v = (if i < length xs then Ok (xs[i := v]) else Panic)"

section \<open>Big-endian accessors\<close>

definition be16 :: "byte \<Rightarrow> byte \<Rightarrow> u16" where
  "be16 a b = push_bit 8 (ucast a) OR ucast b"

definition be32 :: "byte \<Rightarrow> byte \<Rightarrow> byte \<Rightarrow> byte \<Rightarrow> u32" where
  "be32 a b c d =
     push_bit 24 (ucast a) OR push_bit 16 (ucast b) OR push_bit 8 (ucast c) OR ucast d"

definition put16 :: "u16 \<Rightarrow> byte list" where
  "put16 w = [ucast (drop_bit 8 w), ucast w]"

definition put32 :: "u32 \<Rightarrow> byte list" where
  "put32 w = [ucast (drop_bit 24 w), ucast (drop_bit 16 w), ucast (drop_bit 8 w), ucast w]"

text \<open>\<open>binary.BigEndian.Uint16(b)\<close> and \<open>Uint32(b)\<close> read the first bytes of a slice.\<close>

fun Uint16 :: "byte list \<Rightarrow> ('e, u16) outcome" where
  "Uint16 (a # b # _) = Ok (be16 a b)"
| "Uint16 _ = Panic"

fun Uint32 :: "byte list \<Rightarrow> ('e, u32) outcome" where
  "Uint32 (a # b # c # d # _) = Ok (be32 a b c d)"
| "Uint32 _ = Panic"

text \<open>\<open>binary.BigEndian.PutUint16(pkt[off:], w)\<close> and its 32-bit variant.\<close>

definition write_at :: "byte list \<Rightarrow> nat \<Rightarrow> byte list \<Rightarrow> ('e, byte list) outcome" where
  "write_at pkt off bs =
     (if off + length bs \<le> length pkt
      then Ok (take off pkt @ bs @ drop (off + length bs) pkt) else Panic)"

definition PutUint16 :: "byte list \<Rightarrow> nat \<Rightarrow> u16 \<Rightarrow> ('e, byte list) outcome" where
  "PutUint16 pkt off w = write_at pkt off (put16 w)"

definition PutUint32 :: "byte list \<Rightarrow> nat \<Rightarrow> u32 \<Rightarrow> ('e, byte list) outcome" where
  "PutUint32 pkt off w = write_at pkt off (put32 w)"

section \<open>Collections of facts\<close>

named_theorems go_simps \<open>Go's primitives: unfolding rules for bind, slices and accessors\<close>
named_theorems codec_simps \<open>lengths and round trips of encoders\<close>

section \<open>Generic lemmas\<close>

lemma rbind_simps [simp, go_simps]:
  "rbind (Some (Ok a)) f = f a"
  "rbind (Some (Error e)) f = Some (Error e)"
  "rbind (Some Panic) f = Some Panic"
  "rbind None f = None"
  by (simp_all add: rbind_def)

lemma rbind_mono [partial_function_mono]:
  assumes "mono_option B" and "\<And>y. mono_option (\<lambda>f. C y f)"
  shows "mono_option (\<lambda>f. rbind (B f) (\<lambda>y. C y f))"
  unfolding rbind_def
proof (rule bind_mono [OF assms(1)])
  fix r
  show "mono_option (\<lambda>f. case r of Ok a \<Rightarrow> C a f | Error e \<Rightarrow> Some (Error e) | Panic \<Rightarrow> Some Panic)"
    by (cases r) (auto intro: assms(2) option.const_mono)
qed

lemma obind_eq_Ok [simp]: "obind m f = Ok b \<longleftrightarrow> (\<exists>a. m = Ok a \<and> f a = Ok b)"
  by (cases m) auto

lemma obind_eq_Panic: "obind m f = Panic \<longleftrightarrow> m = Panic \<or> (\<exists>a. m = Ok a \<and> f a = Panic)"
  by (cases m) auto

lemma nil_eq_Ok [simp]:
  "(case x of None \<Rightarrow> Panic | Some y \<Rightarrow> f y) = Ok r \<longleftrightarrow> (\<exists>y. x = Some y \<and> f y = Ok r)"
  by (cases x) simp_all

lemma rbind_eq_Ok:
  "rbind m f = Some (Ok b) \<longleftrightarrow> (\<exists>a. m = Some (Ok a) \<and> f a = Some (Ok b))"
  by (cases m) (auto simp: rbind_def split: outcome.splits)

lemma rbind_returns: "m \<noteq> None \<Longrightarrow> (\<And>a. m = Some (Ok a) \<Longrightarrow> f a \<noteq> None) \<Longrightarrow> rbind m f \<noteq> None"
  by (cases m) (auto simp: rbind_def split: outcome.split)

lemma omap_Ok [simp]: "\<forall>x \<in> set xs. f x = Ok (g x) \<Longrightarrow> omap f xs = Ok (map g xs)"
  by (induction xs) simp_all

lemma obind_assoc: "obind (obind m f) g = obind m (\<lambda>x. obind (f x) g)"
  by (cases m) simp_all

lemma unat_byte_less: "unat (b :: byte) < 256"
proof -
  have "unat b < 2 ^ LENGTH(8)" by (rule unsigned_less)
  then show ?thesis by simp
qed

lemma unat_u16_less: "unat (h :: u16) < 65536"
proof -
  have "unat h < 2 ^ LENGTH(16)" by (rule unsigned_less)
  then show ?thesis by simp
qed

lemma unat_u32_less: "unat (w :: u32) < 4294967296"
proof -
  have "unat w < 2 ^ LENGTH(32)" by (rule unsigned_less)
  then show ?thesis by simp
qed

lemma unat_ucast_byte [simp]:
  "unat (ucast (b :: byte) :: u16) = unat b" "unat (ucast (b :: byte) :: u32) = unat b"
  using unat_byte_less [of b]
  by (simp_all only: unsigned_ucast_eq) (simp_all add: take_bit_nat_eq_self)

lemma unat_ucast_u16_u32 [simp]: "unat (ucast (h :: u16) :: u32) = unat h"
  using unat_u16_less [of h] by (simp only: unsigned_ucast_eq) (simp add: take_bit_nat_eq_self)

lemma ucast_byte_id [simp]:
  "ucast (ucast (b :: byte) :: u16) = b" "ucast (ucast (b :: byte) :: u32) = b"
  by (rule ucast_up_ucast_id; simp add: is_up)+

lemma idx_Ok [simp]: "i < length xs \<Longrightarrow> idx xs i = Ok (xs ! i)"
  by (simp add: idx_def)

lemma slice_from_Ok [simp]: "i \<le> length xs \<Longrightarrow> slice_from xs i = Ok (drop i xs)"
  by (simp add: slice_from_def)

lemma slice_Ok [simp]: "i \<le> j \<Longrightarrow> j \<le> length xs \<Longrightarrow> slice xs i j = Ok (take (j - i) (drop i xs))"
  by (simp add: slice_def)

lemma idx_append [simp]: "i < length xs \<Longrightarrow> idx (xs @ ys) i = idx xs i"
  by (simp add: idx_def nth_append)

lemma length_put [simp, codec_simps]: "length (put16 w) = 2" "length (put32 x) = 4"
  by (simp_all add: put16_def put32_def)

lemma bit_byte_high [simp]:
  "\<not> bit (a :: byte) (8 + n)" "\<not> bit (a :: byte) (16 + n)" "\<not> bit (a :: byte) (24 + n)"
  by (auto dest: bit_imp_le_length)

lemma be16_put16 [simp, codec_simps]: "be16 (ucast (drop_bit 8 w)) (ucast w) = w"
  by (rule bit_word_eqI) (auto simp: be16_def bit_simps)

lemma be32_put32 [simp, codec_simps]:
  "be32 (ucast (drop_bit 24 w)) (ucast (drop_bit 16 w)) (ucast (drop_bit 8 w)) (ucast w) = w"
proof (rule bit_word_eqI)
  fix n :: nat assume "n < LENGTH(32)"
  then have "n < 32" by simp
  then consider "n < 8" | "8 \<le> n" "n < 16" | "16 \<le> n" "n < 24" | "24 \<le> n" "n < 32"
    by (metis not_less)
  then show "bit (be32 (ucast (drop_bit 24 w)) (ucast (drop_bit 16 w)) (ucast (drop_bit 8 w)) (ucast w)) n = bit w n"
    by cases (auto simp: be32_def bit_simps)
qed

lemma put16_be16 [simp, codec_simps]: "put16 (be16 a b) = [a, b]"
  by (auto simp: put16_def be16_def bit_simps intro!: bit_word_eqI)

lemma put32_be32 [simp, codec_simps]: "put32 (be32 a b c d) = [a, b, c, d]"
  by (auto simp: put32_def be32_def bit_simps intro!: bit_word_eqI)

lemma Uint16_put16 [simp, codec_simps]: "Uint16 (put16 w @ rest) = Ok w"
  by (simp add: put16_def)

lemma Uint32_put32 [simp, codec_simps]: "Uint32 (put32 w @ rest) = Ok w"
  by (simp add: put32_def)

lemma Uint_put [simp, codec_simps]: "Uint16 (put16 w) = Ok w" "Uint32 (put32 x) = Ok x"
  by (simp_all add: put16_def put32_def)

lemma put16_neq_Nil [simp]: "put16 w \<noteq> []" and put32_neq_Nil [simp]: "put32 x \<noteq> []"
  by (simp_all add: put16_def put32_def)

lemma Uint16_total: "2 \<le> length bs \<Longrightarrow> \<exists>w. Uint16 bs = Ok w"
  by (cases bs rule: Uint16.cases) auto

lemma Uint32_total: "4 \<le> length bs \<Longrightarrow> \<exists>w. Uint32 bs = Ok w"
  by (cases bs rule: Uint32.cases) auto

lemma Uint16_eq_Panic [simp]: "Uint16 bs = Panic \<longleftrightarrow> length bs < 2"
  by (cases bs rule: Uint16.cases) auto

lemma Uint32_eq_Panic [simp]: "Uint32 bs = Panic \<longleftrightarrow> length bs < 4"
  by (cases bs rule: Uint32.cases) auto

subsection \<open>Fields packed into words\<close>

lemma bit_small:
  assumes "bit (w :: 'a::len word) n" and "w < 2 ^ k"
  shows "n < k"
proof (rule ccontr)
  assume k: "\<not> n < k"
  have n: "n < LENGTH('a)" using assms(1) by (rule bit_imp_le_length)
  with k have "k < size w" by (simp add: word_size)
  with assms(2) have "uint w < 2 ^ k" by (simp add: word_2p_lem)
  also have "(2::int) ^ k \<le> 2 ^ n" using k by simp
  finally have "\<not> bit (uint w) n" by (simp add: bit_iff_odd)
  with assms(1) n show False by (simp add: bit_unsigned_iff)
qed

lemma split_join_hi:
  fixes v t :: "'a::len word"
  assumes "t < 2 ^ k" "v < 2 ^ (LENGTH('a) - k)"
  shows "drop_bit k (push_bit k v OR t) = v"
  using bit_small [OF _ assms(1)] bit_small [OF _ assms(2)]
  by (intro bit_word_eqI) (fastforce simp: bit_simps)

lemma split_join_lo:
  fixes v t :: "'a::len word"
  assumes "t < 2 ^ k"
  shows "(push_bit k v OR t) AND mask k = t"
  using bit_small [OF _ assms]
  by (intro bit_word_eqI) (fastforce simp: bit_simps)

lemma unat_byte_shift: "unat (push_bit 8 (ucast (a::byte)) :: u32) = unat a * 256"
  using unat_byte_less [of a] by (simp add: push_bit_eq_mult unat_word_ariths)

lemma unat_low_mask: "unat (x AND 0xffff :: u32) = unat x mod 65536"
  using take_bit_eq_mod [of 16 "unat x"]
  by (simp add: unsigned_and_eq take_bit_eq_mask mask_eq_exp_minus_1)

lemma unat_high_half: "unat (drop_bit 16 x :: u32) = unat x div 65536"
  using unat_drop_bit_eq [of 16 x] by (simp add: drop_bit_eq_div)

lemma unat_not_u16: "unat (NOT w :: u16) = 65535 - unat w"
proof -
  have "NOT w = 65535 - w" by (simp add: not_eq_complement)
  moreover have "w \<le> 65535" using unat_u16_less [of w] by (simp add: word_le_nat_alt)
  ultimately show ?thesis by (simp add: unat_sub)
qed

lemma unat_low16: "unat (ucast (x :: u32) :: u16) = unat x mod 65536"
  by (simp add: unsigned_ucast_eq take_bit_eq_mod)

lemma to_i32_id: "- 2147483648 \<le> x \<Longrightarrow> x < 2147483648 \<Longrightarrow> to_i32 x = x"
  unfolding to_i32_def by (subst sint_sbintrunc') (simp add: signed_take_bit_int_eq_self)

lemma small_word: "0 \<le> x \<Longrightarrow> x < 2 ^ LENGTH('a) \<Longrightarrow> uint (word_of_int x :: 'a::len word) = x"
  by (simp add: uint_word_of_int take_bit_int_eq_self)

section \<open>Timers\<close>

text \<open>
  A \<open>*time.Timer\<close>: \<open>NoTimer\<close> is \<open>nil\<close>, on which \<open>Reset\<close> and \<open>Stop\<close> panic; otherwise it waits for
  some duration or is idle (stopped or expired).
\<close>

datatype timer = NoTimer | Idle | Armed int

definition armed :: "timer \<Rightarrow> bool" where
  "armed t \<longleftrightarrow> (\<exists>d. t = Armed d)"

lemma armed_simps [simp]: "armed (Armed d)" "\<not> armed NoTimer" "\<not> armed Idle"
  by (simp_all add: armed_def)

lemma armed_code [code]: "armed t = (case t of Armed _ \<Rightarrow> True | _ \<Rightarrow> False)"
  by (cases t) simp_all

definition timer_Reset :: "timer \<Rightarrow> int \<Rightarrow> ('e, timer) outcome" where
  "timer_Reset t d = (if t = NoTimer then Panic else Ok (Armed d))"

definition timer_Stop :: "timer \<Rightarrow> ('e, timer) outcome" where
  "timer_Stop t = (if t = NoTimer then Panic else Ok Idle)"

lemma timer_ops [simp]:
  "t \<noteq> NoTimer \<Longrightarrow> timer_Reset t d = Ok (Armed d)" "t \<noteq> NoTimer \<Longrightarrow> timer_Stop t = Ok Idle"
  "timer_Reset NoTimer d = Panic" "timer_Stop NoTimer = Panic"
  by (simp_all add: timer_Reset_def timer_Stop_def)

end
