(* ===== verification/GoNet.thy ===== *)
theory GoNet
  imports Prelude
begin

text \<open>
  The part of Go's standard packages \<open>net\<close>, \<open>bytes\<close> and \<open>strconv\<close> that the daemons call:
  addresses as byte slices (4 or 16 bytes, the empty list is \<open>nil\<close>), their textual forms, and
  the comparison of byte slices. The textual forms are those of the Go releases the program was
  written for (decimal octets may carry leading zeros).
\<close>

type_synonym ip = "byte list"

definition IPv4len :: nat where "IPv4len = 4"
definition IPv6len :: nat where "IPv6len = 16"

definition v4InV6Prefix :: "byte list" where
  "v4InV6Prefix = replicate 10 0 @ [0xff, 0xff]"

section \<open>Address forms\<close>

definition To4 :: "ip \<Rightarrow> ip" where
  "To4 x = (if length x = 4 then x
            else if length x = 16 \<and> take 12 x = v4InV6Prefix then drop 12 x else [])"

definition To16 :: "ip \<Rightarrow> ip" where
  "To16 x = (if length x = 4 then v4InV6Prefix @ x else if length x = 16 then x else [])"

text \<open>\<open>bytes.Compare\<close>: -1, 0 or 1, lexicographic on unsigned bytes.\<close>

fun bytes_Compare :: "byte list \<Rightarrow> byte list \<Rightarrow> int" where
  "bytes_Compare [] [] = 0"
| "bytes_Compare [] (b # bs) = -1"
| "bytes_Compare (a # as) [] = 1"
| "bytes_Compare (a # as) (b # bs) =
     (if a < b then -1 else if b < a then 1 else bytes_Compare as bs)"

section \<open>Numbers in text\<close>

definition ch :: "nat \<Rightarrow> char" where "ch n = char_of n"

definition digit_val :: "char \<Rightarrow> nat option" where
  "digit_val c = (let n = of_char c in if 48 \<le> n \<and> n \<le> 57 then Some (n - 48) else None)"

definition xdigit_val :: "char \<Rightarrow> nat option" where
  "xdigit_val c =
     (let n = of_char c in
      if 48 \<le> n \<and> n \<le> 57 then Some (n - 48)
      else if 97 \<le> n \<and> n \<le> 102 then Some (n - 87)
      else if 65 \<le> n \<and> n \<le> 70 then Some (n - 55) else None)"

text \<open>\<open>dtoi\<close> and \<open>xtoi\<close>: value, characters read, and whether a number was read.\<close>

fun toi_loop ::
  "(char \<Rightarrow> nat option) \<Rightarrow> nat \<Rightarrow> string \<Rightarrow> nat \<Rightarrow> nat \<Rightarrow> nat \<times> nat \<times> bool" where
  "toi_loop dv base [] n i = (n, i, True)"
| "toi_loop dv base (c # cs) n i =
     (case dv c of
        None \<Rightarrow> (n, i, True)
      | Some d \<Rightarrow> (let n' = n * base + d in
                    if 0xFFFFFF \<le> n' then (0xFFFFFF, i, False)
                    else toi_loop dv base cs n' (Suc i)))"

definition toi :: "(char \<Rightarrow> nat option) \<Rightarrow> nat \<Rightarrow> string \<Rightarrow> (nat \<times> nat) option" where
  "toi dv base s = (case toi_loop dv base s 0 0 of (n, i, ok) \<Rightarrow>
     if \<not> ok \<or> i = 0 then None else Some (n, i))"

definition dtoi :: "string \<Rightarrow> (nat \<times> nat) option" where "dtoi = toi digit_val 10"
definition xtoi :: "string \<Rightarrow> (nat \<times> nat) option" where "xtoi = toi xdigit_val 16"

definition digit_char :: "nat \<Rightarrow> char" where
  "digit_char d = ch (if d < 10 then 48 + d else 87 + d)"

fun itobase :: "nat \<Rightarrow> nat \<Rightarrow> string" where
  "itobase base n =
     (if base < 2 \<or> n < base then [digit_char n]
      else itobase base (n div base) @ [digit_char (n mod base)])"

declare itobase.simps [simp del]

definition itod :: "nat \<Rightarrow> string" where "itod = itobase 10"
definition itox :: "nat \<Rightarrow> string" where "itox = itobase 16"

section \<open>Parsing addresses\<close>

text \<open>The four octets of a dotted quad: \<open>k\<close> counts the octets already read.\<close>

fun parse_octets :: "nat \<Rightarrow> nat \<Rightarrow> string \<Rightarrow> (byte list \<times> string) option" where
  "parse_octets 0 k s = Some ([], s)"
| "parse_octets (Suc m) k s =
     (if s = [] \<or> (k > 0 \<and> hd s \<noteq> CHR ''.'') then None
      else let s' = (if k > 0 then tl s else s) in
        case dtoi s' of
          None \<Rightarrow> None
        | Some (n, c) \<Rightarrow>
            if n > 255 then None
            else map_option (\<lambda>(bs, r). (of_nat n # bs, r)) (parse_octets m (Suc k) (drop c s')))"

definition parseIPv4 :: "string \<Rightarrow> ip" where
  "parseIPv4 s = (case parse_octets 4 0 s of
     Some (bs, []) \<Rightarrow> v4InV6Prefix @ bs | _ \<Rightarrow> [])"

text \<open>
  The loop of \<open>parseIPv6\<close>: \<open>acc\<close> holds the bytes read so far (at most 16), \<open>ell\<close> the position of
  the \<open>::\<close>. The first argument bounds the eight rounds the loop can make.
\<close>

fun parse6_loop ::
  "nat \<Rightarrow> string \<Rightarrow> byte list \<Rightarrow> nat option \<Rightarrow> (string \<times> byte list \<times> nat option) option" where
  "parse6_loop 0 s acc ell = Some (s, acc, ell)"
| "parse6_loop (Suc m) s acc ell =
     (case xtoi s of
        None \<Rightarrow> None
      | Some (n, c) \<Rightarrow>
          if n > 0xFFFF then None
          else if c < length s \<and> s ! c = CHR ''.'' then
            (if ell = None \<and> length acc \<noteq> IPv6len - IPv4len then None
             else if length acc + IPv4len > IPv6len then None
             else case parseIPv4 s of [] \<Rightarrow> None
                  | ip4 \<Rightarrow> Some ([], acc @ drop 12 ip4, ell))
          else let acc' = acc @ [of_nat (n div 256), of_nat (n mod 256)]; s' = drop c s in
            case s' of
              [] \<Rightarrow> Some ([], acc', ell)
            | x # s2 \<Rightarrow>
                if x \<noteq> CHR '':'' \<or> s2 = [] then None
                else if hd s2 = CHR '':'' then
                  (if ell \<noteq> None then None
                   else if tl s2 = [] then Some ([], acc', Some (length acc'))
                   else parse6_loop m (tl s2) acc' (Some (length acc')))
                else parse6_loop m s2 acc' ell)"

definition parseIPv6 :: "string \<Rightarrow> ip" where
  "parseIPv6 s =
     (let lead = (length s \<ge> 2 \<and> take 2 s = ''::'');
          s1 = (if lead then drop 2 s else s);
          ell0 = (if lead then Some 0 else None) in
      if lead \<and> s1 = [] then replicate 16 0
      else case parse6_loop 8 s1 [] ell0 of
        None \<Rightarrow> []
      | Some (rest, acc, ell) \<Rightarrow>
          if rest \<noteq> [] then []
          else if length acc < IPv6len then
            (case ell of None \<Rightarrow> []
             | Some e \<Rightarrow> take e acc @ replicate (IPv6len - length acc) 0 @ drop e acc)
          else if ell \<noteq> None then [] else acc)"

fun first_sep :: "string \<Rightarrow> char option" where
  "first_sep [] = None"
| "first_sep (c # cs) = (if c = CHR ''.'' \<or> c = CHR '':'' then Some c else first_sep cs)"

definition ParseIP :: "string \<Rightarrow> ip" where
  "ParseIP s = (case first_sep s of
     None \<Rightarrow> [] | Some c \<Rightarrow> if c = CHR ''.'' then parseIPv4 s else parseIPv6 s)"

text \<open>\<open>ip, _, _ := net.ParseCIDR(s)\<close>: the address, \<open>nil\<close> on any error.\<close>

definition ParseCIDR :: "string \<Rightarrow> ip" where
  "ParseCIDR s =
     (let addr = takeWhile (\<lambda>c. c \<noteq> CHR ''/'') s; rest = dropWhile (\<lambda>c. c \<noteq> CHR ''/'') s in
      if rest = [] then []
      else let mask = tl rest; a4 = parseIPv4 addr;
               addr_len = (if a4 \<noteq> [] then IPv4len else IPv6len);
               a = (if a4 \<noteq> [] then a4 else parseIPv6 addr) in
        case dtoi mask of
          None \<Rightarrow> []
        | Some (n, i) \<Rightarrow> if a = [] \<or> i \<noteq> length mask \<or> n > 8 * addr_len then [] else a)"

text \<open>\<open>hw, _ := net.ParseMAC(s)\<close>: the address, \<open>nil\<close> on any error.\<close>

definition xtoi2 :: "string \<Rightarrow> char option \<Rightarrow> byte option" where
  "xtoi2 s e =
     (if length s > 2 \<and> Some (s ! 2) \<noteq> e then None
      else case xtoi (take 2 s) of
        Some (n, ei) \<Rightarrow> if ei = 2 then Some (of_nat n) else None
      | None \<Rightarrow> None)"

definition all_some :: "'a option list \<Rightarrow> 'a list" where
  "all_some os = (if None \<in> set os then [] else map the os)"

definition ParseMAC :: "string \<Rightarrow> byte list" where
  "ParseMAC s =
     (if length s < 14 then []
      else if s ! 2 = CHR '':'' \<or> s ! 2 = CHR ''-'' then
        (if (length s + 1) mod 3 \<noteq> 0 then []
         else let n = (length s + 1) div 3 in
           if n \<noteq> 6 \<and> n \<noteq> 8 \<and> n \<noteq> 20 then []
           else all_some (map (\<lambda>i. xtoi2 (drop (3 * i) s) (Some (s ! 2))) [0..<n]))
      else if s ! 4 = CHR ''.'' then
        (if (length s + 1) mod 5 \<noteq> 0 then []
         else let n = 2 * (length s + 1) div 5 in
           if n \<noteq> 6 \<and> n \<noteq> 8 \<and> n \<noteq> 20 then []
           else all_some (concat (map (\<lambda>k. [xtoi2 (take 2 (drop (5 * k) s)) None,
                                           xtoi2 (drop (5 * k + 2) s) (Some (s ! 4))])
                                     [0..<n div 2])))
      else [])"

section \<open>Printing addresses\<close>

fun join :: "string \<Rightarrow> string list \<Rightarrow> string" where
  "join sep [] = []"
| "join sep [x] = x"
| "join sep (x # y # zs) = x @ sep @ join sep (y # zs)"

fun groups :: "byte list \<Rightarrow> nat list" where
  "groups (a # b # rest) = (unat a * 256 + unat b) # groups rest"
| "groups _ = []"

text \<open>The longest run of zero groups, first one on a tie: start and end.\<close>

function zero_run :: "nat \<Rightarrow> nat list \<Rightarrow> nat \<times> nat \<Rightarrow> nat \<times> nat" where
  "zero_run i gs best =
     (if gs = [] then best
      else let n = length (takeWhile (\<lambda>g. g = 0) gs) in
        if n > 0 \<and> n > snd best - fst best then zero_run (i + n + 1) (drop (n + 1) gs) (i, i + n)
        else zero_run (i + 1) (tl gs) best)"
  by pat_completeness auto
termination
  by (relation "measure (\<lambda>(i, gs, best). length gs)") auto

declare zero_run.simps [simp del]

definition hexDigit2 :: "byte \<Rightarrow> string" where
  "hexDigit2 b = [digit_char (unat b div 16), digit_char (unat b mod 16)]"

definition ip_String :: "ip \<Rightarrow> string" where
  "ip_String x =
     (if x = [] then ''<nil>''
      else if To4 x \<noteq> [] then join ''.'' (map (itod \<circ> unat) (To4 x))
      else if length x \<noteq> 16 then ''?'' @ concat (map hexDigit2 x)
      else let gs = groups x; (e0, e1) = zero_run 0 gs (0, 0) in
        if e1 - e0 \<le> 1 then join '':'' (map itox gs)
        else join '':'' (map itox (take e0 gs)) @ ''::'' @ join '':'' (map itox (drop e1 gs)))"

text \<open>\<open>HardwareAddr.String\<close>.\<close>

definition mac_String :: "byte list \<Rightarrow> string" where
  "mac_String m = join '':'' (map hexDigit2 m)"

section \<open>Lemmas\<close>

lemma length_v4InV6Prefix [simp]: "length v4InV6Prefix = 12"
  by (simp add: v4InV6Prefix_def)

lemma To4_len4 [simp]: "length x = 4 \<Longrightarrow> To4 x = x"
  by (simp add: To4_def)

lemma To4_mapped [simp]: "length x = 4 \<Longrightarrow> To4 (v4InV6Prefix @ x) = x"
  by (simp add: To4_def)

lemma length_To4: "length (To4 x) = 4 \<or> To4 x = []"
  by (auto simp: To4_def)

lemma length_To16: "length (To16 x) = 16 \<or> To16 x = []"
  by (auto simp: To16_def)

lemma bytes_Compare_refl [simp]: "bytes_Compare xs xs = 0"
  by (induction xs) auto

lemma bytes_Compare_antisym: "bytes_Compare xs ys > 0 \<longleftrightarrow> bytes_Compare ys xs < 0"
  by (induction xs ys rule: bytes_Compare.induct) auto

lemma bytes_Compare_eq_0: "bytes_Compare xs ys = 0 \<longleftrightarrow> xs = ys"
  by (induction xs ys rule: bytes_Compare.induct) (auto simp: order.order_iff_strict)

lemma parse_octets_length: "parse_octets m k s = Some (bs, r) \<Longrightarrow> length bs = m"
  by (induction m k s arbitrary: bs r rule: parse_octets.induct)
     (auto simp: Let_def split: if_splits option.splits prod.splits)

lemma length_parseIPv4: "parseIPv4 s = [] \<or> length (parseIPv4 s) = 16"
  by (auto simp: parseIPv4_def dest: parse_octets_length split: option.splits list.splits)

lemma parse6_loop_length:
  "parse6_loop m s acc ell = Some (r, a, e) \<Longrightarrow> length acc + 2 * m = 16 \<Longrightarrow>
   \<forall>k. ell = Some k \<longrightarrow> k \<le> length acc \<Longrightarrow> length a \<le> 16 \<and> (\<forall>k. e = Some k \<longrightarrow> k \<le> length a)"
proof (induction m arbitrary: s acc ell)
  case 0 then show ?case by simp
next
  case (Suc m)
  note IH = Suc.IH
  have *: "parse6_loop m s' (acc @ [x, y]) ell' = Some (r, a, e) \<Longrightarrow>
           ell' = ell \<or> ell' = Some (Suc (Suc (length acc))) \<Longrightarrow>
           length a \<le> 16 \<and> (\<forall>k. e = Some k \<longrightarrow> k \<le> length a)" for s' x y ell'
    using IH [of s' "acc @ [x, y]" ell'] Suc.prems(2,3) by (cases ell') auto
  show ?case
    using Suc.prems length_parseIPv4 [of s]
    by (auto simp: Let_def IPv4len_def IPv6len_def dest!: *
             split: option.splits prod.splits if_splits list.splits)
qed

lemma length_parseIPv6: "parseIPv6 s = [] \<or> length (parseIPv6 s) = 16"
proof -
  define lead where "lead = (length s \<ge> 2 \<and> take 2 s = ''::'')"
  define s1 where "s1 = (if lead then drop 2 s else s)"
  define ell0 where "ell0 = (if lead then Some (0::nat) else None)"
  show ?thesis
  proof (cases "parse6_loop 8 s1 [] ell0")
    case None
    then show ?thesis
      by (simp add: parseIPv6_def lead_def [symmetric] s1_def [symmetric] ell0_def [symmetric])
  next
    case (Some q)
    obtain r a e where q: "q = (r, a, e)" by (cases q)
    with Some have "length a \<le> 16 \<and> (\<forall>k. e = Some k \<longrightarrow> k \<le> length a)"
      using parse6_loop_length [of 8 s1 "[]" ell0 r a e] by (simp add: ell0_def)
    with Some q show ?thesis
      by (auto simp: parseIPv6_def IPv6len_def lead_def [symmetric] s1_def [symmetric]
            ell0_def [symmetric] split: option.split)
  qed
qed

lemma length_ParseIP: "ParseIP s = [] \<or> length (ParseIP s) = 16"
  using length_parseIPv4 [of s] length_parseIPv6 [of s]
  by (auto simp: ParseIP_def split: option.splits)

lemma length_ParseCIDR: "ParseCIDR s = [] \<or> length (ParseCIDR s) = 16"
  using length_parseIPv4 length_parseIPv6
  by (auto simp: ParseCIDR_def Let_def split: option.splits prod.splits)

lemma digit_val_digit_char [simp]: "d < 10 \<Longrightarrow> digit_val (digit_char d) = Some d"
  by (simp add: digit_val_def digit_char_def ch_def)

definition no_digit :: "string \<Rightarrow> bool" where
  "no_digit r \<longleftrightarrow> r = [] \<or> digit_val (hd r) = None"

lemma dtoi_itod: "n < 256 \<Longrightarrow> no_digit r \<Longrightarrow> dtoi (itod n @ r) = Some (n, length (itod n))"
proof -
  assume n: "n < 256" and r: "no_digit r"
  have stop: "toi_loop digit_val 10 r m i = (m, i, True)" for m i
    using r by (cases r) (auto simp: no_digit_def)
  consider "n < 10" | "10 \<le> n" "n < 100" | "100 \<le> n" by linarith
  then show ?thesis
    using n by cases (auto simp: dtoi_def toi_def itod_def itobase.simps stop Let_def)
qed

lemma parse_octet_step:
  assumes "no_digit r"
  shows "parse_octets (Suc m) 0 (itod (unat b) @ r) = map_option (\<lambda>(bs, r). (b # bs, r)) (parse_octets m (Suc 0) r)"
    and "parse_octets (Suc m) (Suc k) (CHR ''.'' # itod (unat b) @ r) = map_option (\<lambda>(bs, r). (b # bs, r)) (parse_octets m (Suc (Suc k)) r)"
proof -
  have b: "unat (b::byte) < 256" using unsigned_less [of b] by simp
  have ne: "itod (unat b) \<noteq> []" by (subst itod_def, subst itobase.simps, simp)
  show "parse_octets (Suc m) 0 (itod (unat b) @ r) = map_option (\<lambda>(bs, r). (b # bs, r)) (parse_octets m (Suc 0) r)"
     "parse_octets (Suc m) (Suc k) (CHR ''.'' # itod (unat b) @ r) = map_option (\<lambda>(bs, r). (b # bs, r)) (parse_octets m (Suc (Suc k)) r)"
    using b ne dtoi_itod [OF b assms] by (auto simp: Let_def)
qed

lemma no_digit_dot [simp]: "no_digit (CHR ''.'' # r)" "no_digit []"
  by (simp_all add: no_digit_def digit_val_def)

lemma parse_octet_last:
  "parse_octets (Suc m) (Suc k) (CHR ''.'' # itod (unat b)) =
   map_option (\<lambda>(bs, r). (b # bs, r)) (parse_octets m (Suc (Suc k)) [])"
  using parse_octet_step(2) [of "[]" m k b] by (simp only: append_Nil2 no_digit_dot simp_thms)

lemma digit_char_sep [simp]: "d < 10 \<Longrightarrow> digit_char d \<noteq> CHR ''.'' \<and> digit_char d \<noteq> CHR '':''"
  using digit_val_digit_char [of d] by (auto simp: digit_val_def)

lemma first_sep_digits: "first_sep (itobase 10 n @ r) = first_sep r"
proof (induction n arbitrary: r rule: less_induct)
  case (less n)
  then show ?case by (cases "n < 10") (simp_all add: itobase.simps [of 10 n])
qed

lemma ParseIP_String_v4:
  "ParseIP (ip_String [a, b, c, d]) = v4InV6Prefix @ [a, b, c, d]"
proof -
  have nosep: "first_sep (itod (unat x) @ CHR ''.'' # r) = Some CHR ''.''" for x :: byte and r
    by (simp add: itod_def first_sep_digits)
  show ?thesis
    using nosep
    by (simp add: ip_String_def ParseIP_def parseIPv4_def numeral_eq_Suc parse_octet_step
          parse_octet_last del: parse_octets.simps(2))
qed

lemma ParseCIDR_no_slash: "CHR ''/'' \<notin> set s \<Longrightarrow> ParseCIDR s = []"
proof -
  assume "CHR ''/'' \<notin> set s"
  then have "dropWhile (\<lambda>c. c \<noteq> CHR ''/'') s = []" by (auto simp: dropWhile_eq_Nil_conv)
  then show ?thesis by (simp add: ParseCIDR_def)
qed

lemma digit_char_no_slash: "d < 10 \<Longrightarrow> digit_char d \<noteq> CHR ''/''"
  using digit_val_digit_char [of d] by (auto simp: digit_val_def)

lemma slash_notin_itobase: "CHR ''/'' \<notin> set (itobase 10 n)"
proof (induction n rule: less_induct)
  case (less n)
  then show ?case
    using digit_char_no_slash [of n] digit_char_no_slash [of "n mod 10"]
    by (cases "n < 10") (auto simp: itobase.simps [of 10 n])
qed

lemma slash_notin_v4: "CHR ''/'' \<notin> set (ip_String [a, b, c, d])"
  by (simp add: ip_String_def itod_def slash_notin_itobase)

lemma bytes_Compare_prefix: "bytes_Compare (p @ a) (p @ b) = bytes_Compare a b"
  by (induction p) auto

lemma length_4: "length a = 4 \<Longrightarrow> \<exists>w x y z. a = [w, x, y, z]"
  by (auto simp: length_Suc_conv numeral_eq_Suc)

lemma ip_String_v4_inj: "length a = 4 \<Longrightarrow> length b = 4 \<Longrightarrow> ip_String a = ip_String b \<longleftrightarrow> a = b"
proof (intro iffI)
  assume len: "length a = 4" "length b = 4" and eq: "ip_String a = ip_String b"
  obtain w x y z where a: "a = [w, x, y, z]" using length_4 [OF len(1)] by blast
  obtain w' x' y' z' where b: "b = [w', x', y', z']" using length_4 [OF len(2)] by blast
  have "v4InV6Prefix @ a = v4InV6Prefix @ b"
    using ParseIP_String_v4 [of w x y z] ParseIP_String_v4 [of w' x' y' z'] eq by (simp only: a b)
  then show "a = b" by simp
qed simp

lemma ip_String_mapped: "length a = 4 \<Longrightarrow> ip_String (v4InV6Prefix @ a) = ip_String a"
  by (auto simp: ip_String_def To4_def)

end
