(* ===== verification/Contracts.thy ===== *)
theory Contracts
  imports Prelude
begin

text \<open>
  The contracts the components implement, stated once: a wire codec with a round trip, a decoder
  loop over self-delimiting elements, and a state machine with an inductive invariant. Each is
  interpreted on the definitions of the components that provide it.
\<close>

section \<open>Wire codecs\<close>

locale codec =
  fixes enc :: "'a \<Rightarrow> ('e, byte list) outcome"
    and dec :: "byte list \<Rightarrow> ('e, 'a) outcome"
    and wf :: "'a \<Rightarrow> bool"
  assumes round_trip: "wf x \<Longrightarrow> \<exists>bs. enc x = Ok bs \<and> dec bs = Ok x"
begin

lemma enc_total: "wf x \<Longrightarrow> \<exists>bs. enc x = Ok bs"
  using round_trip by blast

lemma dec_enc: "wf x \<Longrightarrow> enc x = Ok bs \<Longrightarrow> dec bs = Ok x"
  using round_trip by force

lemma enc_inj: "wf x \<Longrightarrow> wf y \<Longrightarrow> enc x = enc y \<Longrightarrow> x = y"
  using round_trip by (metis outcome.inject(1))

end

section \<open>Decoder loops\<close>

text \<open>
  The shape of the type-length-value loops of the program: while bytes remain, decode the element
  at the offset, append it, and advance the offset (in the width of the source's variable, hence
  the parameter \<open>adv\<close>) and the remaining length by the element's length. The loop returns the
  elements and the final remaining length; it diverges when an element claims length zero.
\<close>

partial_function (option) tlv_loop ::
  "(byte list \<Rightarrow> nat \<Rightarrow> ('e, 'a) outcome option) \<Rightarrow> (nat \<Rightarrow> 'a \<Rightarrow> nat) \<Rightarrow> ('a \<Rightarrow> nat) \<Rightarrow>
   byte list \<Rightarrow> nat \<Rightarrow> int \<Rightarrow> 'a list \<Rightarrow> ('e, 'a list \<times> int) outcome option" where
  "tlv_loop dec adv len pkt off rem acc =
     (if rem \<le> 0 then Some (Ok (acc, rem))
      else rbind (dec pkt off) (\<lambda>x.
             tlv_loop dec adv len pkt (adv off x) (rem - int (len x)) (acc @ [x])))"

text \<open>The loop ends, whatever the bytes, when no element can claim length zero.\<close>

lemma tlv_loop_total:
  assumes total: "\<And>o'. dec pkt o' \<noteq> None"
    and pos: "\<And>o' x. dec pkt o' = Some (Ok x) \<Longrightarrow> 0 < len x"
  shows "tlv_loop dec adv len pkt off rem acc \<noteq> None"
proof (induction "nat rem" arbitrary: off rem acc rule: less_induct)
  case less
  show ?case
  proof (cases "rem \<le> 0")
    case True
    then show ?thesis by (simp add: tlv_loop.simps)
  next
    case False
    obtain r where r: "dec pkt off = Some r" using total by blast
    show ?thesis
    proof (cases r)
      case (Ok x)
      then have "nat (rem - int (len x)) < nat rem"
        using pos [of off x] r False by simp
      then show ?thesis
        using less r Ok False by (subst tlv_loop.simps) simp
    qed (use r False in \<open>simp_all add: tlv_loop.simps\<close>)
  qed
qed

text \<open>
  It never ends when every element it meets claims length zero and leaves the offset where it is.
\<close>

lemma tlv_loop_stuck:
  fixes dec :: "byte list \<Rightarrow> nat \<Rightarrow> ('e, 'a) outcome option"
  assumes "tlv_loop dec adv len pkt off rem acc = Some r"
  shows "dec pkt off = Some (Ok x) \<longrightarrow> len x = 0 \<longrightarrow> adv off x = off \<longrightarrow> rem \<le> 0"
proof (rule tlv_loop.raw_induct [where P = "\<lambda>dec adv len pkt off rem acc r.
    dec pkt off = Some (Ok x) \<longrightarrow> len x = 0 \<longrightarrow> adv off x = off \<longrightarrow> rem \<le> 0", OF _ assms])
  fix loop :: "(byte list \<Rightarrow> nat \<Rightarrow> ('e, 'a) outcome option) \<Rightarrow> (nat \<Rightarrow> 'a \<Rightarrow> nat) \<Rightarrow> ('a \<Rightarrow> nat) \<Rightarrow>
    byte list \<Rightarrow> nat \<Rightarrow> int \<Rightarrow> 'a list \<Rightarrow> ('e, 'a list \<times> int) outcome option"
    and dec :: "byte list \<Rightarrow> nat \<Rightarrow> ('e, 'a) outcome option" and adv len pkt off rem acc r
  assume IH: "\<And>dec adv len pkt off rem acc r. loop dec adv len pkt off rem acc = Some r \<Longrightarrow>
      dec pkt off = Some (Ok x) \<longrightarrow> len x = 0 \<longrightarrow> adv off x = off \<longrightarrow> rem \<le> 0"
    and eq: "(if rem \<le> 0 then Some (Ok (acc, rem))
      else rbind (dec pkt off) (\<lambda>x. loop dec adv len pkt (adv off x) (rem - int (len x)) (acc @ [x])))
        = Some r"
  show "dec pkt off = Some (Ok x) \<longrightarrow> len x = 0 \<longrightarrow> adv off x = off \<longrightarrow> rem \<le> 0"
  proof (intro impI)
    assume x: "dec pkt off = Some (Ok x)" "len x = 0" "adv off x = off"
    show "rem \<le> 0"
    proof (rule ccontr)
      assume "\<not> rem \<le> 0"
      with eq x have "loop dec adv len pkt off rem (acc @ [x]) = Some r" by simp
      with IH x \<open>\<not> rem \<le> 0\<close> show False by blast
    qed
  qed
qed

lemma tlv_loop_diverges:
  assumes "dec pkt off = Some (Ok x)" "len x = 0" "adv off x = off" and "0 < rem"
  shows "tlv_loop dec adv len pkt off rem acc = None"
  using tlv_loop_stuck [of dec adv len pkt off rem acc _ x] assms
  by (cases "tlv_loop dec adv len pkt off rem acc") auto

text \<open>The same loop with a cursor: while it is below the end, decode at it and advance it.\<close>

partial_function (option) ptr_loop ::
  "(byte list \<Rightarrow> nat \<Rightarrow> ('e, 'a) outcome option) \<Rightarrow> (nat \<Rightarrow> 'a \<Rightarrow> nat) \<Rightarrow>
   byte list \<Rightarrow> nat \<Rightarrow> nat \<Rightarrow> 'a list \<Rightarrow> ('e, 'a list \<times> nat) outcome option" where
  "ptr_loop dec adv pkt stop ptr acc =
     (if ptr < stop
      then rbind (dec pkt ptr) (\<lambda>x. ptr_loop dec adv pkt stop (adv ptr x) (acc @ [x]))
      else Some (Ok (acc, ptr)))"

lemma ptr_loop_total:
  assumes total: "\<And>p. dec pkt p \<noteq> None"
    and pos: "\<And>p x. dec pkt p = Some (Ok x) \<Longrightarrow> p < adv p x"
  shows "ptr_loop dec adv pkt stop ptr acc \<noteq> None"
proof (induction "stop - ptr" arbitrary: ptr acc rule: less_induct)
  case less
  show ?case
  proof (cases "ptr < stop")
    case True
    obtain r where r: "dec pkt ptr = Some r" using total by blast
    show ?thesis
    proof (cases r)
      case (Ok x)
      then have "stop - adv ptr x < stop - ptr" using pos [of ptr x] r True by simp
      then show ?thesis using less r Ok True by (subst ptr_loop.simps) simp
    qed (use r True in \<open>simp_all add: ptr_loop.simps\<close>)
  qed (simp add: ptr_loop.simps)
qed

text \<open>What holds of every element that can be decoded holds of all that a loop returns.\<close>

lemma tlv_loop_forall_raw:
  fixes dec :: "byte list \<Rightarrow> nat \<Rightarrow> ('e, 'a) outcome option"
  assumes "tlv_loop dec adv len pkt off rem acc = Some r"
  shows "(\<forall>p x. dec pkt p = Some (Ok x) \<longrightarrow> Q x) \<longrightarrow> (\<forall>x \<in> set acc. Q x) \<longrightarrow>
         (\<forall>xs e. r = Ok (xs, e) \<longrightarrow> (\<forall>x \<in> set xs. Q x))"
proof (rule tlv_loop.raw_induct [where P = "\<lambda>dec adv len pkt off rem acc r.
    (\<forall>p x. dec pkt p = Some (Ok x) \<longrightarrow> Q x) \<longrightarrow> (\<forall>x \<in> set acc. Q x) \<longrightarrow>
    (\<forall>xs e. r = Ok (xs, e) \<longrightarrow> (\<forall>x \<in> set xs. Q x))", OF _ assms], intro impI allI)
  fix loop :: "(byte list \<Rightarrow> nat \<Rightarrow> ('e, 'a) outcome option) \<Rightarrow> (nat \<Rightarrow> 'a \<Rightarrow> nat) \<Rightarrow> ('a \<Rightarrow> nat) \<Rightarrow>
    byte list \<Rightarrow> nat \<Rightarrow> int \<Rightarrow> 'a list \<Rightarrow> ('e, 'a list \<times> int) outcome option"
    and dec :: "byte list \<Rightarrow> nat \<Rightarrow> ('e, 'a) outcome option" and adv len pkt off rem acc r xs e
  assume IH: "\<And>dec adv len pkt off rem acc r. loop dec adv len pkt off rem acc = Some r \<Longrightarrow>
      (\<forall>p x. dec pkt p = Some (Ok x) \<longrightarrow> Q x) \<longrightarrow> (\<forall>x \<in> set acc. Q x) \<longrightarrow>
      (\<forall>xs e. r = Ok (xs, e) \<longrightarrow> (\<forall>x \<in> set xs. Q x))"
    and eq: "(if rem \<le> 0 then Some (Ok (acc, rem))
      else rbind (dec pkt off) (\<lambda>x. loop dec adv len pkt (adv off x) (rem - int (len x)) (acc @ [x])))
        = Some r"
    and q: "\<forall>p x. dec pkt p = Some (Ok x) \<longrightarrow> Q x" "\<forall>x \<in> set acc. Q x" and r: "r = Ok (xs, e)"
  show "\<forall>x \<in> set xs. Q x"
  proof (cases "rem \<le> 0")
    case False
    then obtain x where x: "dec pkt off = Some (Ok x)"
      and l: "loop dec adv len pkt (adv off x) (rem - int (len x)) (acc @ [x]) = Some (Ok (xs, e))"
      using eq r by (auto simp: rbind_eq_Ok)
    have "\<forall>y \<in> set (acc @ [x]). Q y" using q x by auto
    then show ?thesis using IH [OF l] q(1) by blast
  qed (use eq r q in simp)
qed

lemma tlv_loop_forall:
  "tlv_loop dec adv len pkt off rem acc = Some (Ok (xs, e)) \<Longrightarrow>
   (\<And>p x. dec pkt p = Some (Ok x) \<Longrightarrow> Q x) \<Longrightarrow> \<forall>x \<in> set acc. Q x \<Longrightarrow> \<forall>x \<in> set xs. Q x"
  using tlv_loop_forall_raw [of dec adv len pkt off rem acc "Ok (xs, e)" Q] by blast

lemma ptr_loop_forall_raw:
  fixes dec :: "byte list \<Rightarrow> nat \<Rightarrow> ('e, 'a) outcome option"
  assumes "ptr_loop dec adv pkt stop ptr acc = Some r"
  shows "(\<forall>p x. dec pkt p = Some (Ok x) \<longrightarrow> Q x) \<longrightarrow> (\<forall>x \<in> set acc. Q x) \<longrightarrow>
         (\<forall>xs e. r = Ok (xs, e) \<longrightarrow> (\<forall>x \<in> set xs. Q x))"
proof (rule ptr_loop.raw_induct [where P = "\<lambda>dec adv pkt stop ptr acc r.
    (\<forall>p x. dec pkt p = Some (Ok x) \<longrightarrow> Q x) \<longrightarrow> (\<forall>x \<in> set acc. Q x) \<longrightarrow>
    (\<forall>xs e. r = Ok (xs, e) \<longrightarrow> (\<forall>x \<in> set xs. Q x))", OF _ assms], intro impI allI)
  fix loop :: "(byte list \<Rightarrow> nat \<Rightarrow> ('e, 'a) outcome option) \<Rightarrow> (nat \<Rightarrow> 'a \<Rightarrow> nat) \<Rightarrow>
    byte list \<Rightarrow> nat \<Rightarrow> nat \<Rightarrow> 'a list \<Rightarrow> ('e, 'a list \<times> nat) outcome option"
    and dec :: "byte list \<Rightarrow> nat \<Rightarrow> ('e, 'a) outcome option" and adv pkt stop ptr acc r xs e
  assume IH: "\<And>dec adv pkt stop ptr acc r. loop dec adv pkt stop ptr acc = Some r \<Longrightarrow>
      (\<forall>p x. dec pkt p = Some (Ok x) \<longrightarrow> Q x) \<longrightarrow> (\<forall>x \<in> set acc. Q x) \<longrightarrow>
      (\<forall>xs e. r = Ok (xs, e) \<longrightarrow> (\<forall>x \<in> set xs. Q x))"
    and eq: "(if ptr < stop then rbind (dec pkt ptr) (\<lambda>x. loop dec adv pkt stop (adv ptr x) (acc @ [x]))
      else Some (Ok (acc, ptr))) = Some r"
    and q: "\<forall>p x. dec pkt p = Some (Ok x) \<longrightarrow> Q x" "\<forall>x \<in> set acc. Q x" and r: "r = Ok (xs, e)"
  show "\<forall>x \<in> set xs. Q x"
  proof (cases "ptr < stop")
    case True
    then obtain x where x: "dec pkt ptr = Some (Ok x)"
      and l: "loop dec adv pkt stop (adv ptr x) (acc @ [x]) = Some (Ok (xs, e))"
      using eq r by (auto simp: rbind_eq_Ok)
    have "\<forall>y \<in> set (acc @ [x]). Q y" using q x by auto
    then show ?thesis using IH [OF l] q(1) by blast
  qed (use eq r q in simp)
qed

lemma ptr_loop_forall:
  "ptr_loop dec adv pkt stop ptr acc = Some (Ok (xs, e)) \<Longrightarrow>
   (\<And>p x. dec pkt p = Some (Ok x) \<Longrightarrow> Q x) \<Longrightarrow> \<forall>x \<in> set acc. Q x \<Longrightarrow> \<forall>x \<in> set xs. Q x"
  using ptr_loop_forall_raw [of dec adv pkt stop ptr acc "Ok (xs, e)" Q] by blast

text \<open>
  An element codec: in a buffer that fits, the image of an element decodes to that element
  whatever follows it, and says its own, positive, length.
\<close>

locale tlv =
  fixes dec :: "byte list \<Rightarrow> nat \<Rightarrow> ('e, 'a) outcome option"
    and adv :: "nat \<Rightarrow> 'a \<Rightarrow> nat"
    and len :: "'a \<Rightarrow> nat"
    and enc :: "'a \<Rightarrow> byte list"
    and wf :: "'a \<Rightarrow> bool"
    and bound :: nat
    and fits :: "byte list \<Rightarrow> bool"
  assumes dec_elem: "wf x \<Longrightarrow> length pre + length (enc x) \<le> bound \<Longrightarrow> fits (pre @ enc x @ rest) \<Longrightarrow>
                     dec (pre @ enc x @ rest) (length pre) = Some (Ok x)"
    and len_elem: "wf x \<Longrightarrow> len x = length (enc x)"
    and len_pos: "wf x \<Longrightarrow> 0 < length (enc x)"
    and adv_elem: "wf x \<Longrightarrow> off + length (enc x) \<le> bound \<Longrightarrow> adv off x = off + length (enc x)"
begin

lemma loop_round_trip:
  "\<forall>x \<in> set xs. wf x \<Longrightarrow> length pre + length (concat (map enc xs)) \<le> bound \<Longrightarrow>
   fits (pre @ concat (map enc xs) @ rest) \<Longrightarrow>
   tlv_loop dec adv len (pre @ concat (map enc xs) @ rest) (length pre)
     (int (length (concat (map enc xs)))) acc = Some (Ok (acc @ xs, 0))"
proof (induction xs arbitrary: pre acc)
  case Nil
  then show ?case by (simp add: tlv_loop.simps)
next
  case (Cons x xs)
  let ?tail = "concat (map enc xs)"
  have wf: "wf x" and room: "length pre + length (enc x) \<le> bound"
    and fits: "fits (pre @ enc x @ ?tail @ rest)"
    using Cons.prems by auto
  have "tlv_loop dec adv len ((pre @ enc x) @ ?tail @ rest) (length (pre @ enc x))
          (int (length ?tail)) (acc @ [x]) = Some (Ok ((acc @ [x]) @ xs, 0))"
    using Cons.prems by (intro Cons.IH) auto
  moreover have "0 < length (concat (map enc (x # xs)))"
    using len_pos [OF wf] by simp
  then have more: "\<not> int (length (concat (map enc (x # xs)))) \<le> 0"
    by linarith
  ultimately show ?case
    using dec_elem [OF wf room fits] len_elem [OF wf] adv_elem [OF wf room]
    by (subst tlv_loop.simps, subst if_not_P [OF more]) simp
qed

lemma ptr_round_trip:
  "\<forall>x \<in> set xs. wf x \<Longrightarrow> stop = length pre + length (concat (map enc xs)) \<Longrightarrow> stop \<le> bound \<Longrightarrow>
   fits (pre @ concat (map enc xs) @ rest) \<Longrightarrow>
   ptr_loop dec adv (pre @ concat (map enc xs) @ rest) stop (length pre) acc =
   Some (Ok (acc @ xs, stop))"
proof (induction xs arbitrary: pre acc)
  case Nil
  then show ?case by (simp add: ptr_loop.simps)
next
  case (Cons x xs)
  let ?tail = "concat (map enc xs)"
  have wf: "wf x" and room: "length pre + length (enc x) \<le> bound"
    and fits: "fits (pre @ enc x @ ?tail @ rest)"
    using Cons.prems by auto
  have "ptr_loop dec adv ((pre @ enc x) @ ?tail @ rest) stop (length (pre @ enc x)) (acc @ [x]) =
        Some (Ok ((acc @ [x]) @ xs, stop))"
    using Cons.prems by (intro Cons.IH) auto
  moreover have "length pre < stop" using Cons.prems len_pos [OF wf] by simp
  ultimately show ?case
    using dec_elem [OF wf room fits] adv_elem [OF wf room]
    by (subst ptr_loop.simps) simp
qed

end

section \<open>State machines\<close>

text \<open>A deterministic machine and an invariant that its start satisfies and its steps keep.\<close>

fun run :: "('s \<Rightarrow> 'i \<Rightarrow> 's) \<Rightarrow> 's \<Rightarrow> 'i list \<Rightarrow> 's" where
  "run step s [] = s"
| "run step s (i # is) = run step (step s i) is"

locale machine =
  fixes step :: "'s \<Rightarrow> 'i \<Rightarrow> 's"
    and inv :: "'s \<Rightarrow> bool"
  assumes step_inv: "inv s \<Longrightarrow> inv (step s i)"
begin

lemma run_inv: "inv s \<Longrightarrow> inv (run step s is)"
  by (induction "is" arbitrary: s) (auto intro: step_inv)

end

text \<open>
  The same for a machine whose environment keeps to some rule: the invariant holds of every run over
  inputs that keep to it.
\<close>

locale guarded_machine =
  fixes step :: "'s \<Rightarrow> 'i \<Rightarrow> 's"
    and inv :: "'s \<Rightarrow> bool"
    and ok :: "'i \<Rightarrow> bool"
  assumes step_inv: "inv s \<Longrightarrow> ok i \<Longrightarrow> inv (step s i)"
begin

lemma run_inv: "inv s \<Longrightarrow> list_all ok is \<Longrightarrow> inv (run step s is)"
  by (induction "is" arbitrary: s) (auto intro: step_inv)

end

sublocale machine \<subseteq> free: guarded_machine step inv "\<lambda>_. True"
  by unfold_locales (rule step_inv)

lemma run_append: "run step s (xs @ ys) = run step (run step s xs) ys"
  by (induction xs arbitrary: s) auto

end
