(* ===== verification/VrrpPacket.thy ===== *)
theory VrrpPacket
  imports GoNet Contracts
begin

text \<open>
  The VRRP packet codec: \<open>vrrp/packet/packet.go\<close>, \<open>encode.go\<close> and \<open>decode.go\<close>.
  A captured frame arrives as the layers that \<open>gopacket\<close> (third party) found in it, and a frame
  leaves as the layers handed to \<open>gopacket.SerializeLayers\<close>, which is a parameter.
\<close>

section \<open>Constants\<close>

definition VERSION2 :: u8 where "VERSION2 = 2"
definition VERSION3 :: u8 where "VERSION3 = 3"
definition VRRP_TTL :: u8 where "VRRP_TTL = 255"
definition VRRP_HOP_LIMIT :: u8 where "VRRP_HOP_LIMIT = 255"
definition VRRP_PKT_TYPE_ADVERTISEMENT :: u8 where "VRRP_PKT_TYPE_ADVERTISEMENT = 1"
definition VRRP_PROTO_ID :: u8 where "VRRP_PROTO_ID = 112"
definition VRRP_HEADER_SIZE_EXCLUDING_IPVX :: nat where "VRRP_HEADER_SIZE_EXCLUDING_IPVX = 8"
definition VRRP_HEADER_MIN_SIZE :: nat where "VRRP_HEADER_MIN_SIZE = 20"
definition VRRP_IPV4_HEADER_MIN_SIZE :: u16 where "VRRP_IPV4_HEADER_MIN_SIZE = 20"
definition VRRP_PROTOCOL_MAC :: string where "VRRP_PROTOCOL_MAC = ''01:00:5e:00:00:12''"
definition VRRP_V6_PROTOCOL_MAC :: string where "VRRP_V6_PROTOCOL_MAC = ''33:33:00:00:00:12''"
definition VRRP_V4_GROUP_IP :: string where "VRRP_V4_GROUP_IP = ''224.0.0.18''"
definition VRRP_V6_GROUP_IP :: string where "VRRP_V6_GROUP_IP = ''ff02::12''"

text \<open>\<open>syscall.AF_INET\<close> and \<open>syscall.AF_INET6\<close> on Linux.\<close>

definition AF_INET :: int where "AF_INET = 2"
definition AF_INET6 :: int where "AF_INET6 = 10"

section \<open>Data\<close>

record Header =
  h_Version :: u8
  h_Type :: u8
  h_VirtualRtrId :: u8
  h_Priority :: u8
  h_CountIPAddr :: u8
  h_Rsvd :: u8
  h_MaxAdverInt :: u16
  h_CheckSum :: u16
  h_IpAddr :: "ip list"

record PacketInfo =
  p_Hdr :: "Header option"
  p_DstMac :: string
  p_SrcMac :: string
  p_Version :: u8
  p_Vrid :: u8
  p_Priority :: u8
  p_AdvertiseInt :: u16
  p_VirutalMac :: string
  p_IpAddr :: string
  p_Vip :: string
  p_DstIp :: string
  p_IpType :: int

definition PacketInfo_Init :: PacketInfo where
  "PacketInfo_Init =
     \<lparr>p_Hdr = None, p_DstMac = [], p_SrcMac = [], p_Version = 0, p_Vrid = 0, p_Priority = 0,
      p_AdvertiseInt = 0, p_VirutalMac = [], p_IpAddr = [], p_Vip = [], p_DstIp = [],
      p_IpType = 0\<rparr>"

datatype vrrp_error = IncorrectVersion | ChecksumFailure u16 u16 | IncorrectFields

text \<open>The layers \<open>gopacket\<close> finds in a captured frame, as far as the code reads them.\<close>

record IPLayer =
  l_TTL :: u8
  l_SrcIP :: ip
  l_DstIP :: ip
  l_NextHeader :: u8
  l_Payload :: "byte list option"
  l_Spare :: "byte list" \<comment> \<open>bytes behind the payload, within the slice's capacity\<close>

datatype EthernetType = EthernetTypeIPv4 | EthernetTypeIPv6 | EthernetTypeOther u16

record RxPacket =
  r_Eth :: "(EthernetType \<times> byte list \<times> byte list) option" \<comment> \<open>type, DstMAC, SrcMAC\<close>
  r_IPv4 :: "IPLayer option"
  r_IPv6 :: "IPLayer option"

text \<open>The layers handed to \<open>gopacket.SerializeLayers\<close>.\<close>

record TxFrame =
  t_SrcMAC :: "byte list"
  t_DstMAC :: "byte list"
  t_EthernetType :: EthernetType
  t_Version :: u8
  t_TTL :: u8
  t_Protocol :: u8
  t_Length :: u16
  t_SrcIP :: ip
  t_DstIP :: ip
  t_Payload :: "byte list"

section \<open>Checksums\<close>

fun csum_loop :: "byte list \<Rightarrow> u32 \<Rightarrow> (vrrp_error, u32) outcome" where
  "csum_loop [] csum = Ok csum"
| "csum_loop [a] csum = Panic"
| "csum_loop (a # b # rest) csum = csum_loop rest (csum + push_bit 8 (ucast a) + ucast b)"

definition computeChecksum :: "byte list \<Rightarrow> (vrrp_error, u16) outcome" where
  "computeChecksum content =
     obind (csum_loop content 0) (\<lambda>csum. Ok (NOT (ucast (drop_bit 16 csum + csum))))"

fun pseudoheader_loop :: "byte list \<Rightarrow> byte list \<Rightarrow> nat \<Rightarrow> u32 \<Rightarrow> (vrrp_error, u32) outcome" where
  "pseudoheader_loop src dst 0 csum = Ok csum"
| "pseudoheader_loop (a # b # src) (c # d # dst) (Suc n) csum =
     pseudoheader_loop src dst n
       (csum + push_bit 8 (ucast a) + ucast b + push_bit 8 (ucast c) + ucast d)"
| "pseudoheader_loop _ _ (Suc n) csum = Panic"

text \<open>\<open>for i := 0; i < 16; i += 2\<close>: eight rounds.\<close>

definition pseudoheaderChecksum :: "ip \<Rightarrow> ip \<Rightarrow> (vrrp_error, u32) outcome" where
  "pseudoheaderChecksum src dst = pseudoheader_loop src dst 8 0"

fun sum_pairs :: "byte list \<Rightarrow> u32 \<Rightarrow> u32" where
  "sum_pairs [] csum = csum"
| "sum_pairs [a] csum = csum + push_bit 8 (ucast a)"
| "sum_pairs (a # b # rest) csum = sum_pairs rest (csum + push_bit 8 (ucast a) + ucast b)"

lemma fold_carry_step:
  "unat (drop_bit 16 csum + (csum AND 0xffff) :: u32) = unat csum div 65536 + unat csum mod 65536"
  using unat_u32_less [of csum] by (simp only: unat_word_ariths unat_low_mask unat_high_half) simp

text \<open>\<open>for csum > 0xffff { csum = (csum >> 16) + (csum & 0xffff) }\<close>.\<close>

function fold_carry :: "u32 \<Rightarrow> u32" where
  "fold_carry csum =
     (if csum > 0xffff then fold_carry (drop_bit 16 csum + (csum AND 0xffff)) else csum)"
  by pat_completeness auto

termination
proof (relation "measure unat")
  fix csum :: u32
  assume "csum > 0xffff"
  then have "unat csum \<ge> 65536" by (simp add: word_less_nat_alt)
  then have "unat csum div 65536 + unat csum mod 65536 < unat csum"
    using div_mult_mod_eq [of "unat csum" 65536] by linarith
  then show "(drop_bit 16 csum + (csum AND 0xffff), csum) \<in> measure unat"
    by (simp add: fold_carry_step)
qed simp

declare fold_carry.simps [simp del]

definition computeV6Checksum :: "ip \<Rightarrow> ip \<Rightarrow> u8 \<Rightarrow> byte list \<Rightarrow> (vrrp_error, u16) outcome" where
  "computeV6Checksum src dst nextHeader layerContent =
     (let len = (of_nat (length layerContent) :: u32) in
      obind (pseudoheaderChecksum src dst) (\<lambda>c0.
        let c1 = c0 + ucast nextHeader + (len AND 0xffff) + drop_bit 16 len;
            c2 = fold_carry (sum_pairs layerContent c1) in
        Ok (NOT (ucast (c2 + drop_bit 16 c2)))))"

section \<open>Validation\<close>

text \<open>
  Both validators zero the checksum field of the buffer they are given before they sum it; the
  zeroed buffer is the result.
\<close>

definition validateHeader :: "Header \<Rightarrow> byte list \<Rightarrow> (vrrp_error, byte list) outcome" where
  "validateHeader hdr layerContent =
     (if h_Version hdr \<noteq> VERSION2 \<and> h_Version hdr \<noteq> VERSION3 then Error IncorrectVersion
      else obind (PutUint16 layerContent 6 0) (\<lambda>content.
        obind (computeChecksum content) (\<lambda>chksum.
          if chksum \<noteq> h_CheckSum hdr then Error (ChecksumFailure chksum (h_CheckSum hdr))
          else if h_CountIPAddr hdr = 0 \<or> h_MaxAdverInt hdr = 0 \<or> h_Type hdr = 0
          then Error IncorrectFields
          else Ok content)))"

definition validateV6Header ::
  "Header \<Rightarrow> IPLayer \<Rightarrow> byte list \<Rightarrow> (vrrp_error, byte list) outcome" where
  "validateV6Header hdr ipv6Hdr layerContent =
     (if h_Version hdr \<noteq> VERSION2 \<and> h_Version hdr \<noteq> VERSION3 then Error IncorrectVersion
      else obind (PutUint16 layerContent 6 0) (\<lambda>content.
        obind (computeV6Checksum (l_SrcIP ipv6Hdr) (l_DstIP ipv6Hdr) (l_NextHeader ipv6Hdr) content)
          (\<lambda>chksum.
            if chksum \<noteq> h_CheckSum hdr then Error (ChecksumFailure chksum (h_CheckSum hdr))
            else Ok content)))"

section \<open>Decoding\<close>

text \<open>\<open>n\<close> addresses of \<open>w\<close> bytes from offset \<open>base\<close> on.\<close>

fun read_addrs :: "byte list \<Rightarrow> byte list \<Rightarrow> nat \<Rightarrow> nat \<Rightarrow> nat \<Rightarrow> (vrrp_error, ip list) outcome" where
  "read_addrs data spare w base 0 = Ok []"
| "read_addrs data spare w base (Suc n) =
     obind (slice_cap data spare base (base + w)) (\<lambda>a.
       obind (read_addrs data spare w (base + w) n) (\<lambda>as. Ok (a # as)))"

definition DecodeHeader :: "byte list \<Rightarrow> byte list \<Rightarrow> (vrrp_error, Header) outcome" where
  "DecodeHeader data spare =
     obind (idx data 0) (\<lambda>d0.
     obind (idx data 1) (\<lambda>d1.
     obind (idx data 2) (\<lambda>d2.
     obind (idx data 3) (\<lambda>d3.
     obind (slice_cap data spare 4 6) (\<lambda>s46.
     obind (Uint16 s46) (\<lambda>rsvdAdver.
     obind (slice_cap data spare 6 8) (\<lambda>s68.
     obind (Uint16 s68) (\<lambda>checkSum.
       let version = drop_bit 4 d0;
           typ = d0 AND 0x0F;
           rsvd = ucast (drop_bit 13 rsvdAdver);
           adv = rsvdAdver AND 0x1FFF;
           maxAdverInt = (if version = VERSION3 then adv div 100 else adv);
           ipvxAddrlength = \<bar>int (length data) - int VRRP_HEADER_SIZE_EXCLUDING_IPVX\<bar>;
           count = unat d3;
           addrs =
             (if version = VERSION2 then read_addrs data spare 4 8 count
              else if version = VERSION3 then
                (if int count * 16 = ipvxAddrlength then read_addrs data spare 16 8 count
                 else if int count * 4 = ipvxAddrlength then read_addrs data spare 4 8 count
                 else Ok [])
              else Ok [])
       in obind addrs (\<lambda>ips.
            Ok \<lparr>h_Version = version, h_Type = typ, h_VirtualRtrId = d1, h_Priority = d2,
                h_CountIPAddr = d3, h_Rsvd = rsvd, h_MaxAdverInt = maxAdverInt,
                h_CheckSum = checkSum, h_IpAddr = ips\<rparr>)))))))))"

text \<open>\<open>None\<close> stands for the \<open>nil\<close> result of a dropped packet.\<close>

definition PacketInfo_Decode :: "RxPacket \<Rightarrow> (vrrp_error, PacketInfo option) outcome" where
  "PacketInfo_Decode pkt =
     (case r_Eth pkt of
        None \<Rightarrow> Ok None
      | Some (etype, dstMac, srcMac) \<Rightarrow>
          let ipLayer =
                (case etype of
                   EthernetTypeIPv4 \<Rightarrow>
                     (case r_IPv4 pkt of
                        None \<Rightarrow> Ok None
                      | Some l \<Rightarrow> if l_TTL l \<noteq> VRRP_TTL then Ok None else Ok (Some l))
                 | EthernetTypeIPv6 \<Rightarrow>
                     (case r_IPv6 pkt of None \<Rightarrow> Ok None | Some l \<Rightarrow> Ok (Some l))
                 | EthernetTypeOther _ \<Rightarrow> Panic)
          in obind ipLayer (\<lambda>lo. case lo of
               None \<Rightarrow> Ok None
             | Some l \<Rightarrow>
                 (case l_Payload l of
                    None \<Rightarrow> Ok None
                  | Some ipPayload \<Rightarrow>
                      obind (DecodeHeader ipPayload (l_Spare l)) (\<lambda>hdr.
                        case (if etype = EthernetTypeIPv4 then validateHeader hdr ipPayload
                              else validateV6Header hdr l ipPayload) of
                          Panic \<Rightarrow> Panic
                        | Error e \<Rightarrow> Ok None
                        | Ok _ \<Rightarrow>
                            Ok (Some (PacketInfo_Init
                                 \<lparr>p_Hdr := Some hdr, p_DstIp := ip_String (l_DstIP l),
                                  p_IpAddr := ip_String (l_SrcIP l),
                                  p_DstMac := mac_String dstMac,
                                  p_SrcMac := mac_String srcMac\<rparr>))))))"

section \<open>Encoding\<close>

definition encode_addr :: "ip \<Rightarrow> byte list" where
  "encode_addr a = (if To4 a \<noteq> [] then To4 a else To16 a)"

fun encode_addrs :: "ip list \<Rightarrow> nat \<Rightarrow> (vrrp_error, byte list) outcome" where
  "encode_addrs ips 0 = Ok []"
| "encode_addrs [] (Suc n) = Panic"
| "encode_addrs (a # ips) (Suc n) =
     obind (encode_addrs ips n) (\<lambda>bs. Ok (encode_addr a @ bs))"

definition EncodeHeader :: "Header \<Rightarrow> (vrrp_error, byte list \<times> u16) outcome" where
  "EncodeHeader hdr =
     (let maxAdverInt =
            (if h_Version hdr = VERSION3 then h_MaxAdverInt hdr * 100 else h_MaxAdverInt hdr);
          rsvdAdver = push_bit 13 (ucast (h_Rsvd hdr)) OR maxAdverInt;
          fixed = [push_bit 4 (h_Version hdr) OR h_Type hdr, h_VirtualRtrId hdr,
                   h_Priority hdr, h_CountIPAddr hdr] @ put16 rsvdAdver @ put16 (h_CheckSum hdr)
      in obind (encode_addrs (h_IpAddr hdr) (unat (h_CountIPAddr hdr))) (\<lambda>addrs.
           let bytes = fixed @ addrs;
               padded = (if h_Version hdr = VERSION2 \<and> length bytes < VRRP_HEADER_MIN_SIZE
                         then bytes @ replicate (VRRP_HEADER_MIN_SIZE - length bytes) 0
                         else bytes)
           in Ok (padded, of_nat (length padded))))"

text \<open>\<open>ParseCIDR\<close> first, \<open>ParseIP\<close> when the text is a bare address.\<close>

definition parse_cidr_or_ip :: "string \<Rightarrow> ip" where
  "parse_cidr_or_ip s = (if ParseCIDR s = [] then ParseIP s else ParseCIDR s)"

definition CreateHeader :: "PacketInfo \<Rightarrow> (vrrp_error, byte list \<times> u16) outcome" where
  "CreateHeader pInfo =
     EncodeHeader
       \<lparr>h_Version = p_Version pInfo, h_Type = VRRP_PKT_TYPE_ADVERTISEMENT,
        h_VirtualRtrId = p_Vrid pInfo, h_Priority = p_Priority pInfo, h_CountIPAddr = 1,
        h_Rsvd = 0, h_MaxAdverInt = p_AdvertiseInt pInfo, h_CheckSum = 0,
        h_IpAddr = [parse_cidr_or_ip (p_Vip pInfo)]\<rparr>"

text \<open>
  The frame of \<open>Encode\<close>; an address family other than the two leaves the serialize buffer
  empty (\<open>None\<close>).
\<close>

definition encode_frame :: "PacketInfo \<Rightarrow> (vrrp_error, TxFrame option) outcome" where
  "encode_frame pInfo =
     obind (CreateHeader pInfo) (\<lambda>(payload, hdrLen).
       let srcMAC = ParseMAC (p_VirutalMac pInfo);
           sip = parse_cidr_or_ip (p_IpAddr pInfo)
       in if p_IpType pInfo = AF_INET then
            obind (computeChecksum payload) (\<lambda>c.
            obind (PutUint16 payload 6 c) (\<lambda>pl.
              Ok (Some \<lparr>t_SrcMAC = srcMAC, t_DstMAC = ParseMAC VRRP_PROTOCOL_MAC,
                       t_EthernetType = EthernetTypeIPv4, t_Version = 4, t_TTL = VRRP_TTL,
                       t_Protocol = VRRP_PROTO_ID, t_Length = VRRP_IPV4_HEADER_MIN_SIZE + hdrLen,
                       t_SrcIP = sip, t_DstIP = ParseIP VRRP_V4_GROUP_IP, t_Payload = pl\<rparr>)))
          else if p_IpType pInfo = AF_INET6 then
            (let dip = ParseIP VRRP_V6_GROUP_IP in
             obind (computeV6Checksum sip dip VRRP_PROTO_ID payload) (\<lambda>c.
             obind (PutUint16 payload 6 c) (\<lambda>pl.
              Ok (Some \<lparr>t_SrcMAC = srcMAC, t_DstMAC = ParseMAC VRRP_V6_PROTOCOL_MAC,
                       t_EthernetType = EthernetTypeIPv6, t_Version = 6, t_TTL = VRRP_HOP_LIMIT,
                       t_Protocol = VRRP_PROTO_ID, t_Length = of_nat (length payload),
                       t_SrcIP = sip, t_DstIP = dip, t_Payload = pl\<rparr>))))
          else Ok None)"

definition PacketInfo_Encode ::
  "(TxFrame \<Rightarrow> byte list) \<Rightarrow> PacketInfo \<Rightarrow> (vrrp_error, byte list) outcome" where
  "PacketInfo_Encode SerializeLayers pInfo =
     obind (encode_frame pInfo) (\<lambda>f.
       Ok (case f of None \<Rightarrow> [] | Some frame \<Rightarrow> SerializeLayers frame))"

section \<open>Round trip of the header\<close>

text \<open>The headers the format can carry: a 13-bit interval (in centiseconds for version 3).\<close>

definition wf_header :: "Header \<Rightarrow> bool" where
  "wf_header h \<longleftrightarrow>
     h_Type h < 16 \<and> h_Rsvd h < 8 \<and> length (h_IpAddr h) = unat (h_CountIPAddr h) \<and>
     (h_Version h = VERSION2 \<and> h_MaxAdverInt h < 8192 \<and> (\<forall>a \<in> set (h_IpAddr h). length a = 4) \<or>
      h_Version h = VERSION3 \<and> h_MaxAdverInt h \<le> 81 \<and>
        ((\<forall>a \<in> set (h_IpAddr h). length a = 4) \<or>
         (\<forall>a \<in> set (h_IpAddr h). length a = 16 \<and> To4 a = [])))"

lemma read_addrs_concat:
  "\<forall>a \<in> set as. length a = w \<Longrightarrow>
   read_addrs (pre @ concat as @ post) spare w (length pre) (length as) = Ok as"
proof (induction "as" arbitrary: pre)
  case Nil then show ?case by simp
next
  case (Cons a as)
  then show ?case
    using Cons.IH [of "pre @ a"] by (simp add: slice_cap_def)
qed

lemma encode_addrs_all:
  "\<forall>a \<in> set as. encode_addr a = a \<Longrightarrow> encode_addrs as (length as) = Ok (concat as)"
  by (induction as) auto

lemma encode_addr_id: "length a = 4 \<or> length a = 16 \<and> To4 a = [] \<Longrightarrow> encode_addr a = a"
  by (auto simp: encode_addr_def To16_def)

lemma length_concat_same: "\<forall>a \<in> set as. length a = w \<Longrightarrow> length (concat as) = length as * w"
  by (induction as) auto

lemma adv_div_100: "a \<le> 81 \<Longrightarrow> (a * 100 :: u16) div 100 = a" "a \<le> 81 \<Longrightarrow> (a * 100 :: u16) < 8192"
proof -
  assume "a \<le> 81"
  then have u: "unat a \<le> 81" by (simp add: word_le_nat_alt)
  then have m: "unat (a * 100) = unat a * 100" by (simp add: unat_word_ariths)
  show "a * 100 < 8192" using m u by (simp add: word_less_nat_alt)
  have "unat ((a * 100) div 100) = unat a" by (simp add: unat_div m)
  then show "(a * 100) div 100 = a" by (simp only: word_unat_eq_iff)
qed

lemma be16_put16_list: "put16 w = [a, b] \<Longrightarrow> be16 a b = w"
  by (auto simp: put16_def)

lemma split_fields:
  "t < 16 \<Longrightarrow> v < 16 \<Longrightarrow> drop_bit 4 (push_bit 4 v OR t :: byte) = v"
  "t < 16 \<Longrightarrow> (push_bit 4 v OR t :: byte) AND 15 = t"
  "a < 8192 \<Longrightarrow> r < 8 \<Longrightarrow> ucast (drop_bit 13 (push_bit 13 (ucast r) OR a :: u16)) = (r :: byte)"
  "a < 8192 \<Longrightarrow> (push_bit 13 q OR a :: u16) AND 8191 = a"
proof -
  show "t < 16 \<Longrightarrow> v < 16 \<Longrightarrow> drop_bit 4 (push_bit 4 v OR t :: byte) = v"
    using split_join_hi [of t 4 v] by simp
  show "t < 16 \<Longrightarrow> (push_bit 4 v OR t :: byte) AND 15 = t"
    using split_join_lo [of t 4 v] by (simp add: mask_eq_exp_minus_1)
  show "a < 8192 \<Longrightarrow> (push_bit 13 q OR a :: u16) AND 8191 = a"
    using split_join_lo [of a 13 q] by (simp add: mask_eq_exp_minus_1)
  assume a: "a < 8192" and r: "r < 8"
  from r have "unat (ucast r :: u16) < 8"
    by (simp add: word_less_nat_alt unsigned_ucast_eq take_bit_nat_eq_self)
  then have "(ucast r :: u16) < 2 ^ (LENGTH(16) - 13)" by (simp add: word_less_nat_alt)
  with a have eq: "drop_bit 13 (push_bit 13 (ucast r) OR a :: u16) = ucast r"
    using split_join_hi [of a 13 "ucast r :: u16"] by simp
  have "ucast (ucast r :: u16) = r" by (rule ucast_up_ucast_id) (simp add: is_up)
  then show "ucast (drop_bit 13 (push_bit 13 (ucast r) OR a :: u16)) = r"
    unfolding eq .
qed
definition decode_addrs :: "byte list \<Rightarrow> byte list \<Rightarrow> u8 \<Rightarrow> u8 \<Rightarrow> (vrrp_error, ip list) outcome" where
  "decode_addrs data spare version d3 =
     (if version = VERSION2 then read_addrs data spare 4 8 (unat d3)
      else if version = VERSION3 then
        (if unat d3 * 16 + 8 = length data then read_addrs data spare 16 8 (unat d3)
         else if unat d3 * 4 + 8 = length data then read_addrs data spare 4 8 (unat d3)
         else Ok [])
      else Ok [])"

lemma DecodeHeader_bytes:
  fixes rest spare :: "byte list" and d0 d1 d2 d3 :: byte and a c :: u16
  defines "data \<equiv> [d0, d1, d2, d3] @ put16 a @ put16 c @ rest"
  shows "DecodeHeader data spare =
     obind (decode_addrs data spare (drop_bit 4 d0) d3) (\<lambda>ips.
       Ok \<lparr>h_Version = drop_bit 4 d0, h_Type = d0 AND 15, h_VirtualRtrId = d1, h_Priority = d2,
           h_CountIPAddr = d3, h_Rsvd = ucast (drop_bit 13 a),
           h_MaxAdverInt = (if drop_bit 4 d0 = VERSION3 then (a AND 8191) div 100 else a AND 8191),
           h_CheckSum = c, h_IpAddr = ips\<rparr>)"
proof -
  have l: "\<bar>int (length data) - int VRRP_HEADER_SIZE_EXCLUDING_IPVX\<bar> = int (length rest)"
    by (simp add: data_def VRRP_HEADER_SIZE_EXCLUDING_IPVX_def)
  have eq: "int (unat d3) * 16 = int (length rest) \<longleftrightarrow> unat d3 * 16 + 8 = length data"
    "int (unat d3) * 4 = int (length rest) \<longleftrightarrow> unat d3 * 4 + 8 = length data"
  proof -
    have "length data = length rest + 8" by (simp add: data_def)
    moreover have "(int n * 16 = int m) = (n * 16 + 8 = m + 8)" "(int n * 4 = int m) = (n * 4 + 8 = m + 8)"
      for n m by presburger+
    ultimately show "int (unat d3) * 16 = int (length rest) \<longleftrightarrow> unat d3 * 16 + 8 = length data"
      "int (unat d3) * 4 = int (length rest) \<longleftrightarrow> unat d3 * 4 + 8 = length data"
      by (simp_all only:)
  qed
  have s: "slice_cap data spare 4 6 = Ok (put16 a)" "slice_cap data spare 6 8 = Ok (put16 c)"
    by (simp_all add: data_def slice_cap_def put16_def)
  have u: "Uint16 (put16 a) = Ok a" "Uint16 (put16 c) = Ok c"
    by (simp_all add: put16_def)
  have i: "idx data 0 = Ok d0" "idx data 1 = Ok d1" "idx data 2 = Ok d2" "idx data 3 = Ok d3"
    by (simp_all add: data_def idx_def)
  show ?thesis
    unfolding DecodeHeader_def i s obind.simps u Let_def l eq decode_addrs_def ..
qed

definition adv_field :: "Header \<Rightarrow> u16" where
  "adv_field h = (if h_Version h = VERSION3 then h_MaxAdverInt h * 100 else h_MaxAdverInt h)"

definition hdr_prefix :: "Header \<Rightarrow> byte list" where
  "hdr_prefix h = [push_bit 4 (h_Version h) OR h_Type h, h_VirtualRtrId h, h_Priority h, h_CountIPAddr h]
     @ put16 (push_bit 13 (ucast (h_Rsvd h)) OR adv_field h)"

definition hdr_tail :: "Header \<Rightarrow> byte list \<Rightarrow> byte list" where
  "hdr_tail h addrs = addrs @ (if h_Version h = VERSION2 then replicate (12 - length addrs) 0 else [])"

lemma length_hdr_prefix [simp]: "length (hdr_prefix h) = 6"
  by (simp add: hdr_prefix_def)

lemma EncodeHeader_shape:
  assumes "encode_addrs (h_IpAddr h) (unat (h_CountIPAddr h)) = Ok addrs"
  shows "EncodeHeader h = Ok (hdr_prefix h @ put16 (h_CheckSum h) @ hdr_tail h addrs,
                              of_nat (8 + length (hdr_tail h addrs)))"
  using assms unfolding EncodeHeader_def Let_def
  by (auto simp: hdr_prefix_def hdr_tail_def adv_field_def VRRP_HEADER_MIN_SIZE_def)

lemma decode_addrs_tail:
  assumes "wf_header h"
  defines "data \<equiv> hdr_prefix h @ put16 (h_CheckSum h) @ hdr_tail h (concat (h_IpAddr h))"
  shows "decode_addrs data spare (h_Version h) (h_CountIPAddr h) = Ok (h_IpAddr h)"
proof -
  let ?as = "h_IpAddr h" and ?n = "unat (h_CountIPAddr h)"
  obtain wd where wd: "\<forall>a \<in> set ?as. length a = wd" "wd = 4 \<or> wd = 16 \<and> h_Version h = VERSION3"
    using assms unfolding wf_header_def by blast
  have n: "length ?as = ?n" and v: "h_Version h = VERSION2 \<or> h_Version h = VERSION3"
    using assms by (auto simp: wf_header_def)
  obtain pad where d: "data = (hdr_prefix h @ put16 (h_CheckSum h)) @ concat ?as @ pad"
    and pad: "h_Version h = VERSION3 \<longrightarrow> pad = []"
    by (auto simp: data_def hdr_tail_def VERSION2_def VERSION3_def)
  have ra: "read_addrs data spare wd 8 ?n = Ok ?as"
    using read_addrs_concat [OF wd(1), of "hdr_prefix h @ put16 (h_CheckSum h)" pad spare] n d by simp
  show ?thesis
  proof (cases "h_Version h = VERSION2")
    case True
    then show ?thesis using ra wd(2) by (auto simp: decode_addrs_def VERSION2_def VERSION3_def)
  next
    case False
    then have "length data = 8 + ?n * wd"
      using v pad length_concat_same [OF wd(1)] n d by auto
    then show ?thesis using ra wd(2) v False n by (auto simp: decode_addrs_def)
  qed
qed

lemma DecodeHeader_wf:
  assumes "wf_header h"
  shows "DecodeHeader (hdr_prefix h @ put16 (h_CheckSum h) @ hdr_tail h (concat (h_IpAddr h))) spare = Ok h"
proof -
  define w where "w = push_bit 13 (ucast (h_Rsvd h)) OR adv_field h"
  define d0 where "d0 = push_bit 4 (h_Version h) OR h_Type h"
  define data where "data = hdr_prefix h @ put16 (h_CheckSum h) @ hdr_tail h (concat (h_IpAddr h))"
  have adv: "adv_field h < 8192"
    "(if h_Version h = VERSION3 then adv_field h div 100 else adv_field h) = h_MaxAdverInt h"
    using assms by (auto simp: wf_header_def adv_field_def VERSION2_def VERSION3_def adv_div_100)
  have small: "h_Type h < 16" "h_Version h < 16" "h_Rsvd h < 8"
    using assms by (auto simp: wf_header_def VERSION2_def VERSION3_def)
  have f: "drop_bit 4 d0 = h_Version h" "d0 AND 15 = h_Type h"
    "ucast (drop_bit 13 w) = h_Rsvd h" "w AND 8191 = adv_field h"
    unfolding d0_def w_def by (rule split_fields small adv)+
  have shape: "data = [d0, h_VirtualRtrId h, h_Priority h, h_CountIPAddr h] @ put16 w
                      @ put16 (h_CheckSum h) @ hdr_tail h (concat (h_IpAddr h))"
    by (simp add: data_def hdr_prefix_def d0_def w_def)
  have "DecodeHeader data spare = Ok h"
    unfolding shape DecodeHeader_bytes
    by (simp only: shape [symmetric] f adv(2) data_def decode_addrs_tail [OF assms] obind.simps) simp
  then show ?thesis by (simp only: data_def)
qed

lemma encode_addrs_wf:
  assumes "wf_header h"
  shows "encode_addrs (h_IpAddr h) (unat (h_CountIPAddr h)) = Ok (concat (h_IpAddr h))"
proof -
  have "\<forall>a \<in> set (h_IpAddr h). encode_addr a = a" "length (h_IpAddr h) = unat (h_CountIPAddr h)"
    using assms by (auto simp: wf_header_def encode_addr_id)
  then show ?thesis using encode_addrs_all [of "h_IpAddr h"] by simp
qed

lemma length_hdr_tail_wf:
  assumes "wf_header h"
  shows "length (hdr_tail h (concat (h_IpAddr h))) < 65528"
proof -
  obtain wd where wd: "\<forall>a \<in> set (h_IpAddr h). length a = wd" "wd \<le> 16"
    using assms unfolding wf_header_def by (metis nle_le numeral_le_iff semiring_norm(68) semiring_norm(71))
  have "length (h_IpAddr h) \<le> 255"
    using assms unat_byte_less [of "h_CountIPAddr h"] by (simp add: wf_header_def)
  then have "length (concat (h_IpAddr h)) \<le> 255 * 16"
    using length_concat_same [OF wd(1)] mult_le_mono [of "length (h_IpAddr h)" 255 wd 16] wd(2) by simp
  then show ?thesis by (auto simp: hdr_tail_def)
qed

lemma header_round_trip:
  assumes "wf_header hdr"
  shows "\<exists>bs n. EncodeHeader hdr = Ok (bs, n) \<and> unat n = length bs \<and> DecodeHeader bs spare = Ok hdr"
  using EncodeHeader_shape [OF encode_addrs_wf [OF assms]] DecodeHeader_wf [OF assms]
    length_hdr_tail_wf [OF assms] by (simp add: unat_of_nat del: of_nat_add)

text \<open>C28: every header the VRRP format can carry (version 2 with IPv4 addresses, version 3 with
  IPv4 or IPv6 addresses, an interval within its 13-bit field) survives \<open>EncodeHeader\<close> followed by
  \<open>DecodeHeader\<close> unchanged, padding, interval scaling and packed fields included, and the length
  \<open>EncodeHeader\<close> returns is the length of the bytes.\<close>

theorem EncodeHeader_DecodeHeader:
  assumes "wf_header hdr"
  shows "\<exists>bs n. EncodeHeader hdr = Ok (bs, n) \<and> unat n = length bs \<and> DecodeHeader bs spare = Ok hdr"
  using assms by (rule header_round_trip)

theorem EncodeHeader_DecodeHeader_witness:
  "\<exists>bs n. EncodeHeader \<lparr>h_Version = 3, h_Type = 1, h_VirtualRtrId = 7, h_Priority = 100,
             h_CountIPAddr = 2, h_Rsvd = 0, h_MaxAdverInt = 5, h_CheckSum = 0xbeef,
             h_IpAddr = [[10, 0, 0, 1], [10, 0, 0, 2]]\<rparr> = Ok (bs, n) \<and> unat n = length bs \<and>
     DecodeHeader bs [9, 9] = Ok \<lparr>h_Version = 3, h_Type = 1, h_VirtualRtrId = 7, h_Priority = 100,
             h_CountIPAddr = 2, h_Rsvd = 0, h_MaxAdverInt = 5, h_CheckSum = 0xbeef,
             h_IpAddr = [[10, 0, 0, 1], [10, 0, 0, 2]]\<rparr>"
  by (rule EncodeHeader_DecodeHeader) (simp add: wf_header_def VERSION2_def VERSION3_def)

section \<open>The checksums against RFC 1071\<close>

text \<open>The sum of the 16-bit words of a buffer, and the one's complement checksum of a sum.\<close>

fun word_sum :: "byte list \<Rightarrow> nat" where
  "word_sum [] = 0"
| "word_sum [a] = unat a * 256"
| "word_sum (a # b # rest) = unat a * 256 + unat b + word_sum rest"

lemma fold_less: "\<not> s < 65536 \<Longrightarrow> s div 65536 + s mod 65536 < (s :: nat)"
  using div_mult_mod_eq [of s 65536] by linarith

function ones_fold :: "nat \<Rightarrow> nat" where
  "ones_fold s = (if s < 65536 then s else ones_fold (s div 65536 + s mod 65536))"
  by pat_completeness auto
termination
  by (relation "measure id") (auto intro: fold_less)

declare ones_fold.simps [simp del]

definition rfc1071 :: "nat \<Rightarrow> nat" where
  "rfc1071 s = 65535 - ones_fold s"

lemma csum_loop_eq: "csum_loop xs c = (if even (length xs) then Ok (sum_pairs xs c) else Panic)"
  by (induction xs c rule: csum_loop.induct) auto

lemma sum_pairs_unat:
  "unat c + word_sum xs < 2 ^ 32 \<Longrightarrow> unat (sum_pairs xs c) = unat c + word_sum xs"
proof (induction xs c rule: sum_pairs.induct)
  case (2 a csum)
  then show ?case by (simp add: unat_word_ariths unat_byte_shift)
next
  case (3 a b rest csum)
  have "unat (csum + push_bit 8 (ucast a) + ucast b) = unat csum + unat a * 256 + unat b"
    using "3.prems" by (simp add: unat_word_ariths unat_byte_shift)
  with 3 show ?case by simp
qed simp

lemma word_sum_bound: "word_sum xs \<le> 65535 * ((length xs + 1) div 2)"
proof (induction xs rule: word_sum.induct)
  case (2 a) 
  show ?case using unat_byte_less [of a] by simp
next
  case (3 a b rest)
  then show ?case using unat_byte_less [of a] unat_byte_less [of b] by simp
qed simp

lemma fold_carry_ones: "unat (fold_carry c) = ones_fold (unat c)"
proof (induction c rule: fold_carry.induct)
  case (1 c)
  show ?case
  proof (cases "c > 0xffff")
    case True
    then have "\<not> unat c < 65536" by (simp add: word_less_nat_alt)
    with 1 True show ?thesis
      by (simp add: fold_carry.simps [of c] ones_fold.simps [of "unat c"] fold_carry_step)
  next
    case False
    then have "unat c < 65536" by (simp add: word_less_nat_alt)
    with False show ?thesis by (simp add: fold_carry.simps [of c] ones_fold.simps [of "unat c"])
  qed
qed

lemma ones_fold_less: "ones_fold s < 65536"
proof (induction s rule: ones_fold.induct)
  case (1 s) then show ?case by (simp add: ones_fold.simps [of s])
qed


lemma pseudoheader_loop_sum:
  "length src = 2 * n \<Longrightarrow> length dst = 2 * n \<Longrightarrow> unat c + word_sum src + word_sum dst < 2 ^ 32 \<Longrightarrow>
   \<exists>c'. pseudoheader_loop src dst n c = Ok c' \<and> unat c' = unat c + word_sum src + word_sum dst"
proof (induction src dst n c rule: pseudoheader_loop.induct)
  case (2 a b src c d dst n csum)
  let ?c = "csum + push_bit 8 (ucast a) + ucast b + push_bit 8 (ucast c) + ucast d"
  have "unat ?c = unat csum + unat a * 256 + unat b + unat c * 256 + unat d"
    using "2.prems"(3) by (simp add: unat_word_ariths unat_byte_shift)
  with 2 show ?case by (auto simp: ac_simps)
qed auto

lemma computeV6Checksum_sum:
  assumes "length src = 16" "length dst = 16" "length content < 65536"
  shows "\<exists>c. computeV6Checksum src dst nh content = Ok c \<and>
     unat c = rfc1071 (word_sum src + word_sum dst + unat nh + length content + word_sum content)"
proof -
  have bnd: "word_sum src \<le> 65535 * 8" "word_sum dst \<le> 65535 * 8" "word_sum content \<le> 65535 * 32768"
    using word_sum_bound [of src] word_sum_bound [of dst] word_sum_bound [of content] assms by auto
  let ?len = "of_nat (length content) :: u32"
  obtain c0 where c0: "pseudoheaderChecksum src dst = Ok c0"
      "unat c0 = word_sum src + word_sum dst"
    using pseudoheader_loop_sum [of src 8 dst 0] assms bnd
    by (auto simp: pseudoheaderChecksum_def)
  define c1 where "c1 = c0 + ucast nh + (?len AND 0xffff) + drop_bit 16 ?len"
  have len: "unat ?len = length content" using assms(3) by (simp add: unat_of_nat)
  have "unat (?len AND 0xffff) = length content" "unat (drop_bit 16 ?len) = 0"
    using assms(3) by (simp_all only: unat_low_mask unat_high_half len) simp_all
  then have c1: "unat c1 = word_sum src + word_sum dst + unat nh + length content"
    using bnd assms(3) unat_byte_less [of nh] by (simp add: c1_def unat_word_ariths c0(2) len)
  define c2 where "c2 = fold_carry (sum_pairs content c1)"
  have c2: "unat c2 = ones_fold (unat c1 + word_sum content)"
    using sum_pairs_unat [of c1 content] bnd c1 assms(3) unat_byte_less [of nh]
    by (simp add: c2_def fold_carry_ones)
  have "unat c2 < 65536" using ones_fold_less c2 by simp
  then have "unat (drop_bit 16 c2) = 0"
    by (simp add: unat_high_half)
  then have "drop_bit 16 c2 = 0" by (simp only: unat_eq_zero)
  then have "unat (NOT (ucast (c2 + drop_bit 16 c2) :: u16)) = rfc1071 (unat c1 + word_sum content)"
    using c2 \<open>unat c2 < 65536\<close> by (simp add: unat_not_u16 unat_low16 rfc1071_def)
  then show ?thesis
    using c1 by (simp add: computeV6Checksum_def Let_def c0(1) flip: c1_def c2_def)
qed

text \<open>C30: \<open>computeV6Checksum\<close> is the Internet checksum of RFC 1071 over the IPv6
  pseudo-header (both addresses, next header, length) and the payload, odd lengths included, for
  every payload an IPv6 packet can carry.\<close>

theorem computeV6Checksum_rfc1071:
  assumes "length src = 16" "length dst = 16" "length content < 65536"
  shows "\<exists>c. computeV6Checksum src dst nh content = Ok c \<and>
     unat c = rfc1071 (word_sum src + word_sum dst + unat nh + length content + word_sum content)"
  using assms by (rule computeV6Checksum_sum)

theorem computeV6Checksum_rfc1071_witness:
  "\<exists>c. computeV6Checksum (replicate 16 1) (replicate 16 255) 112 [1, 2, 3] = Ok c \<and>
     unat c = rfc1071 (word_sum (replicate 16 1) + word_sum (replicate 16 255) +
                       unat (112 :: u8) + length [1, 2, 3 :: byte] + word_sum [1, 2, 3])"
  by (rule computeV6Checksum_rfc1071) simp_all

text \<open>the single fold of \<open>computeChecksum\<close> gives the RFC 1071 checksum of an even-length
  payload whenever adding the carries does not itself carry.\<close>

theorem computeChecksum_rfc1071:
  assumes "even (length content)" "length content < 65536"
    and "word_sum content div 65536 + word_sum content mod 65536 < 65536"
  shows "\<exists>c. computeChecksum content = Ok c \<and> unat c = rfc1071 (word_sum content)"
proof -
  let ?c = "sum_pairs content 0" and ?s = "word_sum content"
  have "?s \<le> 65535 * 32768" using word_sum_bound [of content] assms by auto
  then have c: "unat ?c = ?s" using sum_pairs_unat [of 0 content] by simp
  have d: "unat (drop_bit 16 ?c) = ?s div 65536"
    by (simp only: unat_high_half c)
  have "unat (ucast (drop_bit 16 ?c + ?c) :: u16) = (?s div 65536 + ?s) mod 65536"
    by (simp add: unat_low16 unat_word_ariths c d mod_mod_cancel)
  also have "\<dots> = ?s div 65536 + ?s mod 65536"
    using assms(3) by (metis mod_add_right_eq mod_less)
  also have "\<dots> = ones_fold ?s"
    using assms(3) by (cases "?s < 65536") (simp_all add: ones_fold.simps [of ?s] ones_fold.simps [of "?s div 65536 + ?s mod 65536"])
  finally show ?thesis
    using assms(1) by (simp add: computeChecksum_def csum_loop_eq unat_not_u16 rfc1071_def)
qed

theorem computeChecksum_rfc1071_witness:
  "\<exists>c. computeChecksum [0x31, 1, 100, 1, 0, 100, 0, 0, 10, 0, 0, 1] = Ok c \<and>
     unat c = rfc1071 (word_sum [0x31, 1, 100, 1, 0, 100, 0, 0, 10, 0, 0, 1])"
  by (rule computeChecksum_rfc1071) simp_all

text \<open>where the fold carries again, \<open>computeChecksum\<close> drops the carry and differs from the RFC 1071
  checksum its peers compute.\<close>

theorem computeChecksum_drops_carry:
  "computeChecksum [0xff, 0xff, 0xff, 0xff, 0, 1] = Ok 0xffff \<and>
   rfc1071 (word_sum [0xff, 0xff, 0xff, 0xff, 0, 1]) = 0xfffe"
  by (simp add: computeChecksum_def rfc1071_def ones_fold.simps)

text \<open>The header codec of the packet package implements the wire-codec contract.\<close>

interpretation vrrp_header: codec
  "\<lambda>h. obind (EncodeHeader h) (\<lambda>(bs, n). Ok bs)" "\<lambda>bs. DecodeHeader bs []" wf_header
proof unfold_locales
  fix h assume "wf_header h"
  then show "\<exists>bs. obind (EncodeHeader h) (\<lambda>(bs, n). Ok bs) = Ok bs \<and> DecodeHeader bs [] = Ok h"
    using header_round_trip [of h "[]"] by auto
qed

section \<open>From sender to receiver\<close>

lemma parse_cidr_or_ip_v4: "parse_cidr_or_ip (ip_String [a, b, c, d]) = v4InV6Prefix @ [a, b, c, d]"
  by (simp add: parse_cidr_or_ip_def ParseIP_String_v4 ParseCIDR_no_slash slash_notin_v4)

lemma v6_group: "ParseIP VRRP_V6_GROUP_IP = [0xff,2,0,0,0,0,0,0,0,0,0,0,0,0,0,0x12]"
proof -
  have 1: "parse6_loop (Suc 7) ''ff02::12'' [] None = parse6_loop (Suc 6) ''12'' [0xff, 2] (Some 2)"
    by (subst parse6_loop.simps(2)) (simp add: xtoi_def toi_def xdigit_val_def Let_def numeral_2_eq_2)
  have 2: "parse6_loop (Suc 6) ''12'' [0xff, 2] (Some 2) = Some ([], [0xff, 2, 0, 0x12], Some 2)"
    by (subst parse6_loop.simps(2)) (simp add: xtoi_def toi_def xdigit_val_def Let_def numeral_2_eq_2)
  have "parse6_loop 8 ''ff02::12'' [] None = Some ([], [0xff, 2, 0, 0x12], Some 2)"
    using 1 2 by simp
  then show ?thesis
    by (simp add: ParseIP_def VRRP_V6_GROUP_IP_def parseIPv6_def IPv6len_def numeral_eq_Suc)
qed

lemma parse_cidr_or_ip_v6_group:
  "parse_cidr_or_ip VRRP_V6_GROUP_IP = [0xff, 2, 0, 0, 0, 0, 0, 0, 0, 0, 0, 0, 0, 0, 0, 0x12]"
  by (simp add: parse_cidr_or_ip_def v6_group ParseCIDR_no_slash) (simp add: VRRP_V6_GROUP_IP_def ParseCIDR_no_slash)

text \<open>
  A neighbour captures the frame with the layers it was sent with (\<open>gopacket\<close> serializes and
  parses them back).
\<close>

definition rx_of_frame :: "TxFrame \<Rightarrow> RxPacket" where
  "rx_of_frame f =
     (let l = \<lparr>l_TTL = t_TTL f, l_SrcIP = t_SrcIP f, l_DstIP = t_DstIP f,
               l_NextHeader = t_Protocol f, l_Payload = Some (t_Payload f), l_Spare = []\<rparr>
      in \<lparr>r_Eth = Some (t_EthernetType f, t_DstMAC f, t_SrcMAC f),
          r_IPv4 = (if t_EthernetType f = EthernetTypeIPv4 then Some l else None),
          r_IPv6 = (if t_EthernetType f = EthernetTypeIPv6 then Some l else None)\<rparr>)"

text \<open>The header an advertisement carries.\<close>

definition advert :: "PacketInfo \<Rightarrow> ip \<Rightarrow> u16 \<Rightarrow> Header" where
  "advert p a c =
     \<lparr>h_Version = p_Version p, h_Type = VRRP_PKT_TYPE_ADVERTISEMENT, h_VirtualRtrId = p_Vrid p,
      h_Priority = p_Priority p, h_CountIPAddr = 1, h_Rsvd = 0, h_MaxAdverInt = p_AdvertiseInt p,
      h_CheckSum = c, h_IpAddr = [a]\<rparr>"

text \<open>The payload of an advertisement with the checksum field set to \<open>c\<close>.\<close>

definition advert_bytes :: "PacketInfo \<Rightarrow> ip \<Rightarrow> u16 \<Rightarrow> byte list" where
  "advert_bytes p a c =
     hdr_prefix (advert p a 0) @ put16 c @ hdr_tail (advert p a 0) (encode_addr a)"

lemma CreateHeader_advert:
  "CreateHeader p = Ok (advert_bytes p (parse_cidr_or_ip (p_Vip p)) 0,
     of_nat (length (advert_bytes p (parse_cidr_or_ip (p_Vip p)) 0)))"
  using EncodeHeader_shape [of "advert p (parse_cidr_or_ip (p_Vip p)) 0" "encode_addr (parse_cidr_or_ip (p_Vip p))"]
  by (simp add: CreateHeader_def advert_def advert_bytes_def numeral_eq_Suc)

lemma length_advert_bytes: "8 \<le> length (advert_bytes p a c)" "length (advert_bytes p a c) \<le> 24"
  "even (length (advert_bytes p a c))"
  using length_To4 [of a] length_To16 [of a]
  by (auto simp: advert_bytes_def hdr_tail_def encode_addr_def advert_def)

lemma advert_set_checksum: "PutUint16 (advert_bytes p a c) 6 c' = Ok (advert_bytes p a c')"
  by (simp add: PutUint16_def write_at_def advert_bytes_def)

lemma advert_bytes_cong: "encode_addr a = encode_addr b \<Longrightarrow> advert_bytes p a c = advert_bytes p b c"
  by (simp add: advert_bytes_def hdr_prefix_def hdr_tail_def adv_field_def advert_def)

lemma DecodeHeader_advert:
  assumes "wf_header (advert p a c)"
  shows "DecodeHeader (advert_bytes p a c) spare = Ok (advert p a c)"
proof -
  have "encode_addr a = a"
    using assms by (auto simp: wf_header_def advert_def encode_addr_id)
  moreover have "hdr_prefix (advert p a c) = hdr_prefix (advert p a 0)"
    "hdr_tail (advert p a c) = hdr_tail (advert p a 0)"
    "h_CheckSum (advert p a c) = c" "concat (h_IpAddr (advert p a c)) = a"
    by (auto simp: hdr_prefix_def hdr_tail_def adv_field_def advert_def)
  ultimately show ?thesis
    using DecodeHeader_wf [OF assms, of spare] by (simp only: advert_bytes_def)
qed

lemma validateHeader_advert:
  assumes "computeChecksum (advert_bytes p a 0) = Ok c" "p_Version p = VERSION2 \<or> p_Version p = VERSION3"
    "p_AdvertiseInt p \<noteq> 0"
  shows "validateHeader (advert p a c) (advert_bytes p a c) = Ok (advert_bytes p a 0)"
  using assms by (auto simp: validateHeader_def advert_set_checksum advert_def VRRP_PKT_TYPE_ADVERTISEMENT_def)

lemma advert_v4_delivered:
  assumes "p_IpType p = AF_INET" and adv: "p_AdvertiseInt p \<noteq> 0"
    and ver: "p_Version p = VERSION2 \<and> p_AdvertiseInt p < 8192 \<or>
              p_Version p = VERSION3 \<and> p_AdvertiseInt p \<le> 81"
    and vip: "parse_cidr_or_ip (p_Vip p) = v4InV6Prefix @ a" "length a = 4"
  shows "\<exists>f info c. encode_frame p = Ok (Some f) \<and>
     PacketInfo_Decode (rx_of_frame f) = Ok (Some info) \<and> p_Hdr info = Some (advert p a c) \<and>
     p_IpAddr info = ip_String (parse_cidr_or_ip (p_IpAddr p)) \<and>
     p_DstIp info = ip_String (ParseIP VRRP_V4_GROUP_IP) \<and> (\<exists>m. p_DstMac info = mac_String m)"
proof -
  let ?v = "v4InV6Prefix @ a"
  have wf: "wf_header (advert p a c)" for c
    using ver vip(2) by (auto simp: wf_header_def advert_def VRRP_PKT_TYPE_ADVERTISEMENT_def)
  have same: "advert_bytes p ?v c = advert_bytes p a c" for c
    by (rule advert_bytes_cong) (use vip(2) in \<open>auto simp: encode_addr_def\<close>)
  obtain c where c: "computeChecksum (advert_bytes p a 0) = Ok c"
    by (simp add: computeChecksum_def csum_loop_eq length_advert_bytes)
  obtain f where f: "encode_frame p = Ok (Some f)" "t_EthernetType f = EthernetTypeIPv4"
      "t_TTL f = VRRP_TTL" "t_Payload f = advert_bytes p a c"
      "t_SrcIP f = parse_cidr_or_ip (p_IpAddr p)" "t_DstIP f = ParseIP VRRP_V4_GROUP_IP"
    using assms(1) c by (simp add: encode_frame_def CreateHeader_advert vip(1) same advert_set_checksum)
  have "validateHeader (advert p a c) (advert_bytes p a c) = Ok (advert_bytes p a 0)"
    using ver by (intro validateHeader_advert [OF c _ adv]) auto
  then show ?thesis
    using f DecodeHeader_advert [OF wf]
    by (auto simp: PacketInfo_Decode_def rx_of_frame_def)
qed





text \<open>\<open>Decode\<close> indexes the payload before it checks its length: an IPv4 packet with
  TTL 255 and a payload shorter than four bytes makes the receiving goroutine panic.\<close>

theorem PacketInfo_Decode_short_panics:
  assumes "r_Eth pkt = Some (EthernetTypeIPv4, dm, sm)" "r_IPv4 pkt = Some l" "l_TTL l = VRRP_TTL"
    "l_Payload l = Some bs" "length bs < 4"
  shows "PacketInfo_Decode pkt = Panic"
proof -
  have "DecodeHeader bs (l_Spare l) = Panic"
  proof -
    consider "length bs = 0" | "length bs = 1" | "length bs = 2" | "length bs = 3"
      using assms(5) by linarith
    then show ?thesis by cases (simp_all add: DecodeHeader_def idx_def)
  qed
  with assms show ?thesis by (simp add: PacketInfo_Decode_def)
qed

theorem PacketInfo_Decode_short_panics_witness:
  "PacketInfo_Decode \<lparr>r_Eth = Some (EthernetTypeIPv4, [1, 0, 0x5e, 0, 0, 0x12], [2, 0, 0, 0, 0, 1]),
     r_IPv4 = Some \<lparr>l_TTL = 255, l_SrcIP = [10, 0, 0, 2], l_DstIP = [224, 0, 0, 18],
                    l_NextHeader = 112, l_Payload = Some [0x31], l_Spare = []\<rparr>,
     r_IPv6 = None\<rparr> = Panic"
  by (rule PacketInfo_Decode_short_panics [where bs = "[0x31]"]) (auto simp: VRRP_TTL_def)

end
