(* ===== verification/VrrpFsm.thy ===== *)
theory VrrpFsm
  imports VrrpPacket
begin

text \<open>
  The VRRP state machine of one virtual router: \<open>vrrp/fsm/fsm.go\<close>, \<open>backup.go\<close> and \<open>master.go\<close>.
  A handler is a function on the \<open>FSM\<close> record; what it sends on a channel or writes to the
  capture handle is appended to the record's output list. A handler that encodes a packet can
  panic, so handlers return an outcome. Handlers run to completion one at a time; a timer is a
  pointer (\<open>NoTimer\<close> is \<open>nil\<close>) to a timer that is armed for some nanoseconds or idle.
\<close>

section \<open>Data\<close>

record IntfCfg =
  c_IntfRef :: string
  c_IfIndex :: int
  c_VRID :: int
  c_Priority :: int
  c_VirtualIPAddr :: string
  c_AdvertisementInterval :: int
  c_PreemptMode :: bool
  c_AcceptMode :: bool
  c_AdminState :: bool
  c_Version :: u8
  c_Operation :: u8
  c_IpType :: int

record BaseIpInfo =
  b_IfIndex :: int
  b_IntfRef :: string
  b_IpAddr :: string
  b_OperState :: string
  b_MsgType :: string
  b_IpType :: int

record VirtualIpInfo =
  v_IntfRef :: string
  v_IpAddr :: string
  v_MacAddr :: string
  v_Enable :: bool
  v_Version :: u8
  v_IpType :: int

record StateInfo =
  s_IntfRef :: string
  s_Vrid :: int
  s_OperState :: string
  s_CurrentFsmState :: string
  s_MasterIp :: string
  s_AdverRx :: u32
  s_AdverTx :: u32
  s_LastAdverRx :: string
  s_LastAdverTx :: string
  s_IpAddr :: string
  s_VirtualIp :: string
  s_VirtualRouterMACAddress :: string
  s_AdvertisementInterval :: int
  s_MasterDownTimer :: int

datatype fsm_state =
  VRRP_UNINITIALIZE_STATE | VRRP_INITIALIZE_STATE | VRRP_BACKUP_STATE | VRRP_MASTER_STATE

datatype fsm_output =
    TxPacket PacketInfo     \<comment> \<open>\<open>WritePacketData\<close> of the encoded description\<close>
  | VipUpdate VirtualIpInfo \<comment> \<open>\<open>vipCh\<close>\<close>
  | RxCount                 \<comment> \<open>\<open>rxCh\<close>\<close>
  | TxCount                 \<comment> \<open>\<open>txCh\<close>\<close>
  | ExitRoutine             \<comment> \<open>\<open>exitFsmGoRoutineCh\<close>\<close>

record FSM =
  f_Config :: IntfCfg
  f_pHandle :: bool   \<comment> \<open>the capture handle is open\<close>
  f_receiving :: bool \<comment> \<open>the \<open>receivePkt\<close> goroutine runs on it\<close>
  f_ifIndex :: int
  f_ipAddr :: string
  f_ipType :: int
  f_VirtualMACAddress :: string
  f_State :: fsm_state
  f_previousState :: fsm_state
  f_MasterAdverInterval :: int
  f_SkewTime :: int
  f_MasterDownValue :: int
  f_AdverTimer :: timer
  f_MasterDownTimer :: timer
  f_stateInfo :: StateInfo
  f_running :: bool
  f_looping :: bool   \<comment> \<open>the select loop of \<open>StartFsm\<close> is being served\<close>
  f_alive :: bool     \<comment> \<open>false once \<open>DeInitFsm\<close> has set the pointers to \<open>nil\<close>\<close>
  f_out :: "fsm_output list"

definition VRRP_MASTER_PRIORITY :: int where "VRRP_MASTER_PRIORITY = 255"
definition VRRP_MASTER_DOWN_PRIORITY :: u8 where "VRRP_MASTER_DOWN_PRIORITY = 0"
definition USE_CONFIG_ADVERTISEMENT :: int where "USE_CONFIG_ADVERTISEMENT = -100"
definition STATE_UP :: string where "STATE_UP = ''UP''"
definition STATE_DOWN :: string where "STATE_DOWN = ''DOWN''"
definition VERSION2_IEEE_MAC_ADDR_PREFIX :: string where
  "VERSION2_IEEE_MAC_ADDR_PREFIX = ''00-00-5E-00-01-''"
definition VERSION3_IEEE_MAC_ADDR_PREFIX :: string where
  "VERSION3_IEEE_MAC_ADDR_PREFIX = ''00-00-5E-00-02-''"

text \<open>\<open>time.Second\<close> in nanoseconds.\<close>

definition second :: int where "second = 1000000000"

text \<open>What \<open>pcap.OpenLive\<close> followed by \<open>SetBPFFilter\<close> does on the interface (third party).\<close>

datatype pcap_result = OpenFailed | FilterFailed | Opened

section \<open>Creation\<close>

text \<open>\<open>strconv.FormatInt(v, 16)\<close>.\<close>

definition FormatInt16 :: "int \<Rightarrow> string" where
  "FormatInt16 v = (if v < 0 then CHR ''-'' # itox (nat (- v)) else itox (nat v))"

definition createVirtualMac :: "FSM \<Rightarrow> FSM" where
  "createVirtualMac f =
     (let prefix = (if f_ipType f = AF_INET then VERSION2_IEEE_MAC_ADDR_PREFIX
                    else if f_ipType f = AF_INET6 then VERSION3_IEEE_MAC_ADDR_PREFIX
                    else f_VirtualMACAddress f);
          vridStr = FormatInt16 (c_VRID (f_Config f))
      in f\<lparr>f_VirtualMACAddress :=
             prefix @ (if length vridStr = 1 then ''0'' @ vridStr else vridStr)\<rparr>)"

fun getStateName :: "fsm_state \<Rightarrow> string" where
  "getStateName VRRP_INITIALIZE_STATE = ''Initialize''"
| "getStateName VRRP_MASTER_STATE = ''Master''"
| "getStateName VRRP_BACKUP_STATE = ''Backup''"
| "getStateName VRRP_UNINITIALIZE_STATE = ''''"

definition empty_StateInfo :: StateInfo where
  "empty_StateInfo =
     \<lparr>s_IntfRef = [], s_Vrid = 0, s_OperState = [], s_CurrentFsmState = [], s_MasterIp = [],
      s_AdverRx = 0, s_AdverTx = 0, s_LastAdverRx = [], s_LastAdverTx = [], s_IpAddr = [],
      s_VirtualIp = [], s_VirtualRouterMACAddress = [], s_AdvertisementInterval = 0,
      s_MasterDownTimer = 0\<rparr>"

definition InitFsm :: "IntfCfg \<Rightarrow> BaseIpInfo \<Rightarrow> FSM" where
  "InitFsm cfg l3Info =
     createVirtualMac
       \<lparr>f_Config = cfg, f_pHandle = False, f_receiving = False, f_ifIndex = b_IfIndex l3Info,
        f_ipAddr = ip_String (parse_cidr_or_ip (b_IpAddr l3Info)), f_ipType = b_IpType l3Info,
        f_VirtualMACAddress = [], f_State = VRRP_INITIALIZE_STATE,
        f_previousState = VRRP_UNINITIALIZE_STATE, f_MasterAdverInterval = 0, f_SkewTime = 0,
        f_MasterDownValue = 0, f_AdverTimer = NoTimer, f_MasterDownTimer = NoTimer,
        f_stateInfo = empty_StateInfo\<lparr>s_CurrentFsmState := getStateName VRRP_INITIALIZE_STATE\<rparr>,
        f_running = False, f_looping = False, f_alive = True, f_out = []\<rparr>"

definition UpdateConfig :: "FSM \<Rightarrow> IntfCfg \<Rightarrow> FSM" where
  "UpdateConfig f cfg = f\<lparr>f_Config := cfg\<rparr>"

section \<open>Bookkeeping\<close>

definition emit :: "fsm_output \<Rightarrow> FSM \<Rightarrow> FSM" where
  "emit x f = f\<lparr>f_out := f_out f @ [x]\<rparr>"

text \<open>\<open>now\<close> is \<open>time.Now().String()\<close>.\<close>

definition updateRxStInfo :: "string \<Rightarrow> PacketInfo \<Rightarrow> FSM \<Rightarrow> FSM" where
  "updateRxStInfo now pktInfo f =
     emit RxCount (f\<lparr>f_stateInfo := (f_stateInfo f)
       \<lparr>s_MasterIp := p_IpAddr pktInfo, s_AdverRx := s_AdverRx (f_stateInfo f) + 1,
        s_LastAdverRx := now, s_CurrentFsmState := getStateName (f_State f)\<rparr>\<rparr>)"

definition updateTxStInfo :: "string \<Rightarrow> FSM \<Rightarrow> FSM" where
  "updateTxStInfo now f =
     emit TxCount (f\<lparr>f_stateInfo := (f_stateInfo f)
       \<lparr>s_MasterIp := f_ipAddr f, s_AdverTx := s_AdverTx (f_stateInfo f) + 1,
        s_LastAdverTx := now, s_CurrentFsmState := getStateName (f_State f)\<rparr>\<rparr>)"

definition updateCurrentState :: "FSM \<Rightarrow> FSM" where
  "updateCurrentState f =
     f\<lparr>f_stateInfo := (f_stateInfo f)\<lparr>s_CurrentFsmState := getStateName (f_State f)\<rparr>\<rparr>"

definition GetStateInfo :: "FSM \<Rightarrow> StateInfo \<Rightarrow> StateInfo" where
  "GetStateInfo f info =
     info\<lparr>s_IntfRef := c_IntfRef (f_Config f), s_Vrid := c_VRID (f_Config f),
          s_OperState := (if f_running f then STATE_UP else STATE_DOWN),
          s_IpAddr := f_ipAddr f,
          s_CurrentFsmState := s_CurrentFsmState (f_stateInfo f),
          s_MasterIp := s_MasterIp (f_stateInfo f),
          s_AdverRx := s_AdverRx (f_stateInfo f), s_AdverTx := s_AdverTx (f_stateInfo f),
          s_LastAdverRx := s_LastAdverRx (f_stateInfo f),
          s_LastAdverTx := s_LastAdverTx (f_stateInfo f),
          s_VirtualIp := c_VirtualIPAddr (f_Config f),
          s_VirtualRouterMACAddress := f_VirtualMACAddress f,
          s_AdvertisementInterval := c_AdvertisementInterval (f_Config f),
          s_MasterDownTimer := f_MasterDownValue f\<rparr>"

definition updateVirtualIP :: "bool \<Rightarrow> FSM \<Rightarrow> FSM" where
  "updateVirtualIP enable f =
     emit (VipUpdate
       \<lparr>v_IntfRef = c_IntfRef (f_Config f), v_IpAddr = c_VirtualIPAddr (f_Config f),
        v_MacAddr = f_VirtualMACAddress f, v_Enable = enable,
        v_Version = c_Version (f_Config f), v_IpType = c_IpType (f_Config f)\<rparr>) f"

section \<open>Packet listener and sending\<close>

definition initPktListener :: "pcap_result \<Rightarrow> FSM \<Rightarrow> FSM" where
  "initPktListener pcap f =
     (if f_pHandle f then f
      else case pcap of
        OpenFailed \<Rightarrow> f
      | FilterFailed \<Rightarrow> f\<lparr>f_pHandle := True\<rparr>
      | Opened \<Rightarrow> f\<lparr>f_pHandle := True, f_receiving := True\<rparr>)"

definition deInitPktListener :: "FSM \<Rightarrow> FSM" where
  "deInitPktListener f = (if f_pHandle f then f\<lparr>f_pHandle := False, f_receiving := False\<rparr> else f)"

definition getPacketInfo :: "FSM \<Rightarrow> PacketInfo" where
  "getPacketInfo f =
     PacketInfo_Init
       \<lparr>p_Version := c_Version (f_Config f), p_Vrid := word_of_int (c_VRID (f_Config f)),
        p_Priority := word_of_int (c_Priority (f_Config f)),
        p_AdvertiseInt := word_of_int (c_AdvertisementInterval (f_Config f)),
        p_VirutalMac := f_VirtualMACAddress f, p_IpType := c_IpType (f_Config f),
        p_Vip := (if c_VirtualIPAddr (f_Config f) = [] then f_ipAddr f
                  else c_VirtualIPAddr (f_Config f)),
        p_IpAddr := f_ipAddr f\<rparr>"

text \<open>
  A failed write is logged only. The bytes written are \<open>PacketInfo_Encode\<close> of the description
  in the output.
\<close>

definition send :: "PacketInfo \<Rightarrow> FSM \<Rightarrow> (vrrp_error, FSM) outcome" where
  "send pktInfo f =
     obind (encode_frame pktInfo) (\<lambda>_.
       Ok (if f_pHandle f then emit (TxPacket pktInfo) f else f))"

section \<open>Timers\<close>

definition calculateDownValue :: "int \<Rightarrow> FSM \<Rightarrow> FSM" where
  "calculateDownValue advInt f =
     (let interval = (if advInt = USE_CONFIG_ADVERTISEMENT
                      then c_AdvertisementInterval (f_Config f) else advInt);
          skew = (if c_Priority (f_Config f) \<noteq> 0 \<and> interval \<noteq> 0
                  then tdiv (to_i32 (to_i32 (256 - c_Priority (f_Config f)) * interval)) 256
                  else f_SkewTime f)
      in f\<lparr>f_MasterAdverInterval := interval, f_SkewTime := skew,
           f_MasterDownValue := to_i32 (to_i32 (3 * interval) + skew)\<rparr>)"

definition handleMasterDownTimer :: "FSM \<Rightarrow> FSM" where
  "handleMasterDownTimer f = f\<lparr>f_MasterDownTimer := Armed (f_MasterDownValue f * second)\<rparr>"

text \<open>
  \<open>Reset\<close> multiplies the interval by \<open>time.Second\<close>, the first \<open>time.AfterFunc\<close> does not.
\<close>

definition startMasterAdverTimer :: "FSM \<Rightarrow> FSM" where
  "startMasterAdverTimer f =
     (if f_AdverTimer f \<noteq> NoTimer
      then f\<lparr>f_AdverTimer := Armed (c_AdvertisementInterval (f_Config f) * second)\<rparr>
      else f\<lparr>f_AdverTimer := Armed (c_AdvertisementInterval (f_Config f))\<rparr>)"

definition stopMasterAdverTimer :: "FSM \<Rightarrow> FSM" where
  "stopMasterAdverTimer f = f\<lparr>f_AdverTimer := NoTimer\<rparr>"

definition stopMasterDownTimer :: "FSM \<Rightarrow> FSM" where
  "stopMasterDownTimer f = f\<lparr>f_MasterDownTimer := NoTimer\<rparr>"

section \<open>Transitions\<close>

definition transitionToMaster :: "string \<Rightarrow> FSM \<Rightarrow> (vrrp_error, FSM) outcome" where
  "transitionToMaster now f =
     obind (send (getPacketInfo f) f) (\<lambda>f1.
       let f2 = (if f_previousState f1 = f_State f1 then updateVirtualIP True f1 else f1);
           f3 = f2\<lparr>f_State := VRRP_MASTER_STATE\<rparr>
       in Ok (startMasterAdverTimer (updateTxStInfo now f3)))"

definition transitionToBackup :: "int \<Rightarrow> FSM \<Rightarrow> FSM" where
  "transitionToBackup advInt f =
     (let f1 = (if f_previousState f = f_State f then updateVirtualIP False f else f);
          f2 = handleMasterDownTimer (calculateDownValue advInt f1)
      in updateCurrentState (f2\<lparr>f_State := VRRP_BACKUP_STATE\<rparr>))"

definition initialize :: "pcap_result \<Rightarrow> string \<Rightarrow> FSM \<Rightarrow> (vrrp_error, FSM) outcome" where
  "initialize pcap now f =
     (let f1 = initPktListener pcap f in
      if c_Priority (f_Config f1) = VRRP_MASTER_PRIORITY then transitionToMaster now f1
      else Ok (transitionToBackup USE_CONFIG_ADVERTISEMENT f1))"

text \<open>The callback of the master-down timer, and of the advertisement timer.\<close>

definition MasterDownTimer_func :: "string \<Rightarrow> FSM \<Rightarrow> (vrrp_error, FSM) outcome" where
  "MasterDownTimer_func now f = transitionToMaster now (f\<lparr>f_previousState := f_State f\<rparr>)"

definition SendMasterAdveristement_func :: "string \<Rightarrow> FSM \<Rightarrow> (vrrp_error, FSM) outcome" where
  "SendMasterAdveristement_func now f =
     obind (send (getPacketInfo f) f) (\<lambda>f1.
       Ok ((updateTxStInfo now f1)
             \<lparr>f_AdverTimer := Armed (c_AdvertisementInterval (f_Config f) * second)\<rparr>))"

section \<open>Received advertisements\<close>

definition backup :: "string \<Rightarrow> PacketInfo \<Rightarrow> Header \<Rightarrow> FSM \<Rightarrow> FSM" where
  "backup now pktInfo hdr f =
     (if p_DstMac pktInfo = f_VirtualMACAddress f then f
      else if p_DstIp pktInfo = f_ipAddr f then f
      else if h_Type hdr = VRRP_PKT_TYPE_ADVERTISEMENT then
        (let f1 = updateRxStInfo now pktInfo f in
         if h_Priority hdr = 0 then
           handleMasterDownTimer (f1\<lparr>f_MasterDownValue := f_SkewTime f1\<rparr>)
         else if \<not> c_PreemptMode (f_Config f1) \<or> uint (h_Priority hdr) \<ge> c_Priority (f_Config f1)
         then transitionToBackup (uint (h_MaxAdverInt hdr)) f1
         else f1)
      else f)"

definition master :: "string \<Rightarrow> PacketInfo \<Rightarrow> Header \<Rightarrow> FSM \<Rightarrow> (vrrp_error, FSM) outcome" where
  "master now pktInfo hdr f =
     (if h_Priority hdr = VRRP_MASTER_DOWN_PRIORITY then
        obind (send (getPacketInfo f) f) (\<lambda>f1.
          Ok (startMasterAdverTimer (updateTxStInfo now f1)))
      else if uint (h_Priority hdr) > c_Priority (f_Config f) \<or>
              uint (h_Priority hdr) = c_Priority (f_Config f) \<and>
              bytes_Compare (ParseIP (p_IpAddr pktInfo)) (ParseIP (f_ipAddr f)) > 0 then
        (let f1 = stopMasterAdverTimer f;
             f2 = f1\<lparr>f_previousState := f_State f1\<rparr>
         in Ok (updateRxStInfo now pktInfo (transitionToBackup (uint (h_MaxAdverInt hdr)) f2)))
      else Ok f)"

definition handleDecodedPkt ::
  "pcap_result \<Rightarrow> string \<Rightarrow> PacketInfo \<Rightarrow> Header \<Rightarrow> FSM \<Rightarrow> (vrrp_error, FSM) outcome" where
  "handleDecodedPkt pcap now pktInfo hdr f =
     (case f_State f of
        VRRP_INITIALIZE_STATE \<Rightarrow> initialize pcap now f
      | VRRP_BACKUP_STATE \<Rightarrow> Ok (backup now pktInfo hdr f)
      | VRRP_MASTER_STATE \<Rightarrow> master now pktInfo hdr f
      | VRRP_UNINITIALIZE_STATE \<Rightarrow> Ok f)"

text \<open>Is one of the first \<open>n\<close> advertised addresses our own?\<close>

fun own_address :: "string \<Rightarrow> ip list \<Rightarrow> nat \<Rightarrow> (vrrp_error, bool) outcome" where
  "own_address me ips 0 = Ok False"
| "own_address me [] (Suc n) = Panic"
| "own_address me (a # ips) (Suc n) =
     (if me = ip_String a then Ok True else own_address me ips n)"

definition processRcvdPkt ::
  "pcap_result \<Rightarrow> string \<Rightarrow> RxPacket \<Rightarrow> FSM \<Rightarrow> (vrrp_error, FSM) outcome" where
  "processRcvdPkt pcap now pkt f =
     obind (PacketInfo_Decode pkt) (\<lambda>d. case d of
       None \<Rightarrow> Ok f
     | Some pktInfo \<Rightarrow>
         (case p_Hdr pktInfo of
            None \<Rightarrow> Panic
          | Some hdr \<Rightarrow>
              obind (own_address (f_ipAddr f) (h_IpAddr hdr) (unat (h_CountIPAddr hdr))) (\<lambda>own.
                if own then Ok f else handleDecodedPkt pcap now pktInfo hdr f)))"

section \<open>Interface events\<close>

definition stateDownEvent :: "string \<Rightarrow> FSM \<Rightarrow> (vrrp_error, FSM) outcome" where
  "stateDownEvent now f =
     (let f1 = stopMasterAdverTimer (stopMasterDownTimer f) in
      obind (if f_State f1 = VRRP_MASTER_STATE
             then obind (send ((getPacketInfo f1)\<lparr>p_Priority := VRRP_MASTER_DOWN_PRIORITY\<rparr>) f1)
                    (\<lambda>f2. Ok (updateTxStInfo now f2))
             else Ok f1) (\<lambda>f2.
        let f3 = f2\<lparr>f_previousState := f_State f2, f_State := VRRP_INITIALIZE_STATE\<rparr>
        in Ok (updateCurrentState (updateVirtualIP False (deInitPktListener f3)))))"

definition stateUpEvent :: "pcap_result \<Rightarrow> string \<Rightarrow> FSM \<Rightarrow> (vrrp_error, FSM) outcome" where
  "stateUpEvent pcap now f = initialize pcap now f"

definition exitFsm :: "FSM \<Rightarrow> (vrrp_error, FSM) outcome" where
  "exitFsm f =
     (let f1 = stopMasterAdverTimer f in
      obind (if f_State f1 = VRRP_MASTER_STATE
             then send ((getPacketInfo f1)\<lparr>p_Priority := VRRP_MASTER_DOWN_PRIORITY\<rparr>) f1
             else Ok f1) (\<lambda>f2.
        let f3 = stopMasterDownTimer (deInitPktListener f2)
        in Ok (if f_running f3 then emit ExitRoutine f3 else f3)))"

definition DeInitFsm :: "FSM \<Rightarrow> (vrrp_error, FSM) outcome" where
  "DeInitFsm f =
     obind (exitFsm f) (\<lambda>f1.
       Ok (f1\<lparr>f_alive := False, f_pHandle := False, f_AdverTimer := NoTimer,
              f_MasterDownTimer := NoTimer\<rparr>))"

datatype IntfEvent = STATE_CHANGE string | TEAR_DOWN

definition handleIntfEvent ::
  "pcap_result \<Rightarrow> string \<Rightarrow> IntfEvent \<Rightarrow> FSM \<Rightarrow> (vrrp_error, FSM) outcome" where
  "handleIntfEvent pcap now ev f =
     (case ev of
        STATE_CHANGE oper \<Rightarrow>
          if oper = STATE_DOWN then stateDownEvent now f
          else if oper = STATE_UP then stateUpEvent pcap now f
          else Ok f
      | TEAR_DOWN \<Rightarrow> stateDownEvent now f)"

section \<open>The event loop\<close>

text \<open>
  What happens to a started machine: a frame on \<open>pktCh\<close>, an event on \<open>IntfEventCh\<close>, a request to
  leave the goroutine, the expiry of one of its timers. The select loop serves the channels only
  while the goroutine runs; a timer fires only when armed.
\<close>

datatype fsm_input = RxFrame RxPacket | IntfEv IntfEvent | ExitEv | MasterDownExpiry | AdverExpiry

definition StartFsm :: "pcap_result \<Rightarrow> string \<Rightarrow> FSM \<Rightarrow> (vrrp_error, FSM) outcome" where
  "StartFsm pcap now f = initialize pcap now (f\<lparr>f_running := True, f_looping := True\<rparr>)"

fun fsm_handle :: "pcap_result \<Rightarrow> string \<Rightarrow> fsm_input \<Rightarrow> FSM \<Rightarrow> (vrrp_error, FSM) outcome" where
  "fsm_handle pcap now (RxFrame pkt) f =
     (if f_looping f then processRcvdPkt pcap now pkt f else Ok f)"
| "fsm_handle pcap now (IntfEv ev) f =
     (if f_looping f then
        obind (handleIntfEvent pcap now ev f) (\<lambda>f1.
          Ok (if ev = TEAR_DOWN then f1\<lparr>f_running := False, f_looping := False\<rparr> else f1))
      else Ok f)"
| "fsm_handle pcap now ExitEv f = Ok (f\<lparr>f_looping := False\<rparr>)"
| "fsm_handle pcap now MasterDownExpiry f =
     (case f_MasterDownTimer f of
        Armed _ \<Rightarrow> MasterDownTimer_func now (f\<lparr>f_MasterDownTimer := Idle\<rparr>)
      | _ \<Rightarrow> Ok f)"
| "fsm_handle pcap now AdverExpiry f =
     (case f_AdverTimer f of
        Armed _ \<Rightarrow> SendMasterAdveristement_func now (f\<lparr>f_AdverTimer := Idle\<rparr>)
      | _ \<Rightarrow> Ok f)"

section \<open>What each handler does to state, timers and virtual address\<close>

lemmas fsm_helper_defs = emit_def updateRxStInfo_def updateTxStInfo_def updateCurrentState_def
  updateVirtualIP_def initPktListener_def deInitPktListener_def handleMasterDownTimer_def
  startMasterAdverTimer_def stopMasterAdverTimer_def stopMasterDownTimer_def calculateDownValue_def Let_def

text \<open>The virtual address is on when the last \<open>vipCh\<close> request enabled it.\<close>

fun vip_on :: "fsm_output list \<Rightarrow> bool" where
  "vip_on [] = False"
| "vip_on (x # xs) =
     (if \<exists>y \<in> set xs. (case y of VipUpdate _ \<Rightarrow> True | _ \<Rightarrow> False) then vip_on xs
      else case x of VipUpdate v \<Rightarrow> v_Enable v | _ \<Rightarrow> False)"

lemma vip_on_snoc [simp]:
  "vip_on (xs @ [VipUpdate v]) = v_Enable v"
  "vip_on (xs @ [TxPacket p]) = vip_on xs"
  "vip_on (xs @ [TxCount]) = vip_on xs"
  "vip_on (xs @ [RxCount]) = vip_on xs"
  "vip_on (xs @ [ExitRoutine]) = vip_on xs"
  by (induction xs) (auto split: fsm_output.splits)

lemma send_Ok: "send p f = Ok f' \<Longrightarrow> f' = (if f_pHandle f then emit (TxPacket p) f else f)"
  by (auto simp: send_def)

lemma send_frame:
  assumes "send p f = Ok f'"
  shows "f_State f' = f_State f" "f_AdverTimer f' = f_AdverTimer f" "f_MasterDownTimer f' = f_MasterDownTimer f"
    "f_Config f' = f_Config f" "f_previousState f' = f_previousState f" "vip_on (f_out f') = vip_on (f_out f)"
  using send_Ok [OF assms] by (auto simp: emit_def)

text \<open>The timers the state needs.\<close>

definition timers_ok :: "FSM \<Rightarrow> bool" where
  "timers_ok f \<longleftrightarrow>
     (case f_State f of
        VRRP_MASTER_STATE \<Rightarrow> armed (f_AdverTimer f)
      | VRRP_BACKUP_STATE \<Rightarrow> armed (f_MasterDownTimer f)
      | VRRP_INITIALIZE_STATE \<Rightarrow> f_AdverTimer f = NoTimer \<and> f_MasterDownTimer f = NoTimer
      | VRRP_UNINITIALIZE_STATE \<Rightarrow> False)"

lemma transitionToMaster_result:
  assumes "transitionToMaster now f = Ok f'"
  shows "f_State f' = VRRP_MASTER_STATE" "armed (f_AdverTimer f')" "f_Config f' = f_Config f"
    "f_MasterDownTimer f' = f_MasterDownTimer f" "f_previousState f' = f_previousState f"
    "vip_on (f_out f') = (f_previousState f = f_State f \<or> vip_on (f_out f))"
proof -
  obtain f1 where f1: "send (getPacketInfo f) f = Ok f1"
    and f': "f' = startMasterAdverTimer (updateTxStInfo now
       ((if f_previousState f1 = f_State f1 then updateVirtualIP True f1 else f1)
          \<lparr>f_State := VRRP_MASTER_STATE\<rparr>))"
    using assms by (auto simp: transitionToMaster_def Let_def)
  note frame = send_frame [OF f1]
  show "f_State f' = VRRP_MASTER_STATE" by (simp add: f' fsm_helper_defs)
  show "armed (f_AdverTimer f')" by (simp add: f' fsm_helper_defs)
  show "f_Config f' = f_Config f" by (simp add: f' fsm_helper_defs frame)
  show "f_MasterDownTimer f' = f_MasterDownTimer f" by (simp add: f' fsm_helper_defs frame)
  show "f_previousState f' = f_previousState f" by (simp add: f' fsm_helper_defs frame)
  show "vip_on (f_out f') = (f_previousState f = f_State f \<or> vip_on (f_out f))"
    by (simp add: f' fsm_helper_defs frame)
qed

lemma transitionToBackup_result:
  "f_State (transitionToBackup a f) = VRRP_BACKUP_STATE"
  "armed (f_MasterDownTimer (transitionToBackup a f))"
  "f_Config (transitionToBackup a f) = f_Config f"
  "f_AdverTimer (transitionToBackup a f) = f_AdverTimer f"
  "f_previousState (transitionToBackup a f) = f_previousState f"
  "vip_on (f_out (transitionToBackup a f)) =
     (f_previousState f \<noteq> f_State f \<and> vip_on (f_out f))"
  by (simp_all add: transitionToBackup_def fsm_helper_defs)

lemma looping_frame [simp]:
  "f_looping (transitionToBackup a f) = f_looping f" "f_looping (initPktListener p f) = f_looping f"
  by (simp_all add: transitionToBackup_def fsm_helper_defs split: pcap_result.split)

lemma initPktListener_frame:
  "f_State (initPktListener p f) = f_State f" "f_AdverTimer (initPktListener p f) = f_AdverTimer f"
  "f_Config (initPktListener p f) = f_Config f" "f_previousState (initPktListener p f) = f_previousState f"
  "f_out (initPktListener p f) = f_out f" "f_MasterDownTimer (initPktListener p f) = f_MasterDownTimer f"
  by (simp_all add: initPktListener_def split: pcap_result.split)

definition fsm_step ::
  "(vrrp_error, FSM) outcome \<Rightarrow> pcap_result \<times> string \<times> fsm_input \<Rightarrow> (vrrp_error, FSM) outcome" where
  "fsm_step s = (\<lambda>(pcap, now, i). obind s (fsm_handle pcap now i))"

lemma initialize_result:
  assumes "initialize pcap now f = Ok f'"
  shows "timers_ok f'" "f_Config f' = f_Config f"
    "c_Priority (f_Config f) \<noteq> VRRP_MASTER_PRIORITY \<Longrightarrow> f_State f' = VRRP_BACKUP_STATE"
    "c_Priority (f_Config f) \<noteq> VRRP_MASTER_PRIORITY \<Longrightarrow> f_AdverTimer f' = f_AdverTimer f"
    "c_Priority (f_Config f) \<noteq> VRRP_MASTER_PRIORITY \<Longrightarrow>
       vip_on (f_out f') = (f_previousState f \<noteq> f_State f \<and> vip_on (f_out f))"
  using assms
  by (auto simp: initialize_def timers_ok_def Let_def initPktListener_frame transitionToBackup_result
      transitionToMaster_result [where f = "initPktListener pcap f"] split: if_splits)

lemma backup_result:
  assumes "f_State f = VRRP_BACKUP_STATE" "armed (f_MasterDownTimer f)"
  shows "f_State (backup now p h f) = VRRP_BACKUP_STATE" "armed (f_MasterDownTimer (backup now p h f))"
    "f_Config (backup now p h f) = f_Config f" "f_AdverTimer (backup now p h f) = f_AdverTimer f"
    "vip_on (f_out (backup now p h f)) \<Longrightarrow> vip_on (f_out f)"
  using assms by (auto simp: backup_def fsm_helper_defs transitionToBackup_result split: if_splits)

lemma master_result:
  assumes "master now p h f = Ok f'" "f_State f = VRRP_MASTER_STATE" "armed (f_AdverTimer f)"
  shows "f_State f' = VRRP_MASTER_STATE \<and> armed (f_AdverTimer f') \<and>
         f_MasterDownTimer f' = f_MasterDownTimer f \<and> f_Config f' = f_Config f \<and>
         vip_on (f_out f') = vip_on (f_out f) \<or>
         f_State f' = VRRP_BACKUP_STATE \<and> f_AdverTimer f' = NoTimer \<and>
         armed (f_MasterDownTimer f') \<and> f_Config f' = f_Config f \<and> \<not> vip_on (f_out f')"
proof (cases "h_Priority h = VRRP_MASTER_DOWN_PRIORITY")
  case True
  then obtain f1 where f1: "send (getPacketInfo f) f = Ok f1" "f' = startMasterAdverTimer (updateTxStInfo now f1)"
    using assms(1) by (auto simp: master_def)
  show ?thesis using send_frame [OF f1(1)] assms(2)
    by (intro disjI1) (simp add: f1(2) fsm_helper_defs)
next
  case False
  then show ?thesis using assms
    by (auto simp: master_def Let_def updateRxStInfo_def emit_def stopMasterAdverTimer_def
        transitionToBackup_result split: if_splits)
qed

lemma stateDownEvent_result:
  assumes "stateDownEvent now f = Ok f'"
  shows "f_State f' = VRRP_INITIALIZE_STATE" "f_AdverTimer f' = NoTimer" "f_MasterDownTimer f' = NoTimer"
    "f_Config f' = f_Config f" "\<not> vip_on (f_out f')" "f_previousState f' = f_State f"
proof -
  let ?f1 = "stopMasterAdverTimer (stopMasterDownTimer f)"
  obtain f2 where f2: "f_State f2 = f_State f" "f_AdverTimer f2 = NoTimer" "f_MasterDownTimer f2 = NoTimer"
      "f_Config f2 = f_Config f"
    and f': "f' = updateCurrentState (updateVirtualIP False (deInitPktListener
                    (f2\<lparr>f_previousState := f_State f2, f_State := VRRP_INITIALIZE_STATE\<rparr>)))"
  proof (cases "f_State f = VRRP_MASTER_STATE")
    case True
    then obtain f1 where f1: "send ((getPacketInfo ?f1)\<lparr>p_Priority := VRRP_MASTER_DOWN_PRIORITY\<rparr>) ?f1 = Ok f1"
      and "f' = updateCurrentState (updateVirtualIP False (deInitPktListener
             ((updateTxStInfo now f1)\<lparr>f_previousState := f_State (updateTxStInfo now f1),
                f_State := VRRP_INITIALIZE_STATE\<rparr>)))"
      using assms by (auto simp: stateDownEvent_def Let_def stopMasterAdverTimer_def stopMasterDownTimer_def)
    then show ?thesis using send_frame [OF f1]
      by (intro that [of "updateTxStInfo now f1"]) (simp_all add: fsm_helper_defs)
  next
    case False
    then show ?thesis using assms
      by (intro that [of ?f1]) (auto simp: stateDownEvent_def fsm_helper_defs)
  qed
  show "f_State f' = VRRP_INITIALIZE_STATE" "f_AdverTimer f' = NoTimer" "f_MasterDownTimer f' = NoTimer"
    "f_Config f' = f_Config f" "\<not> vip_on (f_out f')" "f_previousState f' = f_State f"
    by (simp_all add: f' fsm_helper_defs f2)
qed

lemma processRcvdPkt_cases:
  assumes "processRcvdPkt pcap now pkt f = Ok f'"
  shows "f' = f \<or> (\<exists>p h. handleDecodedPkt pcap now p h f = Ok f')"
  using assms by (auto simp: processRcvdPkt_def split: option.splits if_splits)

definition timers_inv :: "(vrrp_error, FSM) outcome \<Rightarrow> bool" where
  "timers_inv s = (case s of Ok f \<Rightarrow> timers_ok f | _ \<Rightarrow> True)"

lemma handleDecodedPkt_timers:
  assumes "handleDecodedPkt pcap now p h f = Ok f'" "timers_ok f"
  shows "timers_ok f'"
proof (cases "f_State f")
  case VRRP_BACKUP_STATE
  then show ?thesis using assms backup_result [OF VRRP_BACKUP_STATE]
    by (auto simp: handleDecodedPkt_def timers_ok_def)
next
  case VRRP_MASTER_STATE
  then show ?thesis using assms master_result [of now p h f f'] 
    by (auto simp: handleDecodedPkt_def timers_ok_def)
qed (use assms initialize_result in \<open>auto simp: handleDecodedPkt_def timers_ok_def\<close>)

lemma MasterDownTimer_func_result:
  assumes "MasterDownTimer_func now f = Ok f'"
  shows "f_State f' = VRRP_MASTER_STATE" "armed (f_AdverTimer f')" "f_Config f' = f_Config f"
    "f_MasterDownTimer f' = f_MasterDownTimer f" "vip_on (f_out f')"
  using transitionToMaster_result [OF assms [unfolded MasterDownTimer_func_def]] by simp_all

lemma SendMasterAdveristement_func_result:
  assumes "SendMasterAdveristement_func now f = Ok f'"
  shows "f_State f' = f_State f" "armed (f_AdverTimer f')" "f_Config f' = f_Config f"
    "f_MasterDownTimer f' = f_MasterDownTimer f" "vip_on (f_out f') = vip_on (f_out f)"
proof -
  obtain f1 where f1: "send (getPacketInfo f) f = Ok f1"
    and f': "f' = (updateTxStInfo now f1)\<lparr>f_AdverTimer := Armed (c_AdvertisementInterval (f_Config f) * second)\<rparr>"
    using assms by (auto simp: SendMasterAdveristement_func_def)
  show "f_State f' = f_State f" "armed (f_AdverTimer f')" "f_Config f' = f_Config f"
    "f_MasterDownTimer f' = f_MasterDownTimer f" "vip_on (f_out f') = vip_on (f_out f)"
    using send_frame [OF f1] by (simp_all add: f' fsm_helper_defs)
qed

lemma handleIntfEvent_cases:
  assumes "handleIntfEvent pcap now ev f = Ok f'"
  shows "ev = STATE_CHANGE STATE_UP \<and> initialize pcap now f = Ok f' \<or>
         stateDownEvent now f = Ok f' \<or> ev \<noteq> STATE_CHANGE STATE_UP \<and> f' = f"
proof (cases ev)
  case (STATE_CHANGE oper)
  then show ?thesis using assms
    by (cases "oper = STATE_DOWN"; cases "oper = STATE_UP")
       (simp_all add: handleIntfEvent_def stateUpEvent_def)
next
  case TEAR_DOWN
  then show ?thesis using assms by (simp add: handleIntfEvent_def)
qed

lemma timers_ok_flags [simp]:
  "timers_ok (f\<lparr>f_looping := b\<rparr>) = timers_ok f" "timers_ok (f\<lparr>f_running := c\<rparr>) = timers_ok f"
  by (simp_all add: timers_ok_def split: fsm_state.split)

lemma handleIntfEvent_timers:
  assumes "handleIntfEvent pcap now ev f = Ok f'" "timers_ok f"
  shows "timers_ok f'"
  using handleIntfEvent_cases [OF assms(1)]
proof (elim disjE)
  assume "stateDownEvent now f = Ok f'"
  then show ?thesis using stateDownEvent_result by (simp add: timers_ok_def)
qed (use assms(2) initialize_result(1) in auto)

lemma fsm_handle_timers:
  assumes "fsm_handle pcap now i f = Ok f'" "timers_ok f"
  shows "timers_ok f'"
proof (cases i)
  case (RxFrame pkt)
  then have "f' = f \<or> (\<exists>p h. handleDecodedPkt pcap now p h f = Ok f')"
    using assms(1) by (cases "f_looping f") (simp_all add: processRcvdPkt_cases)
  then show ?thesis using handleDecodedPkt_timers [OF _ assms(2)] assms(2) by auto
next
  case (IntfEv ev)
  then show ?thesis using assms handleIntfEvent_timers by (auto split: if_splits)
next
  case MasterDownExpiry
  then show ?thesis using assms MasterDownTimer_func_result(1,2)
    by (auto simp: timers_ok_def split: timer.splits)
next
  case AdverExpiry
  then show ?thesis
    using assms SendMasterAdveristement_func_result [of now "f\<lparr>f_AdverTimer := Idle\<rparr>" f']
    by (auto simp: timers_ok_def split: timer.splits fsm_state.splits)
qed (use assms in auto)

interpretation vrrp_fsm: machine fsm_step timers_inv
  by unfold_locales
     (auto simp: fsm_step_def timers_inv_def fsm_handle_timers split: outcome.splits)

text \<open>
  The states a machine reaches from its creation, where the interface-up event is delivered only
  to a machine that waits in the initialize state.
\<close>

inductive vrrp_reach :: "IntfCfg \<Rightarrow> FSM \<Rightarrow> bool" for cfg where
  start: "StartFsm pcap now (InitFsm cfg l3) = Ok f \<Longrightarrow> vrrp_reach cfg f"
| handle: "vrrp_reach cfg f \<Longrightarrow> fsm_handle pcap now i f = Ok f' \<Longrightarrow>
    (i = IntfEv (STATE_CHANGE STATE_UP) \<Longrightarrow> f_State f = VRRP_INITIALIZE_STATE) \<Longrightarrow> vrrp_reach cfg f'"

definition role_ok :: "FSM \<Rightarrow> bool" where
  "role_ok f \<longleftrightarrow> timers_ok f \<and> (armed (f_AdverTimer f) \<longleftrightarrow> f_State f = VRRP_MASTER_STATE) \<and>
     (f_State f = VRRP_MASTER_STATE \<longrightarrow> \<not> armed (f_MasterDownTimer f)) \<and>
     (vip_on (f_out f) \<longleftrightarrow> f_State f = VRRP_MASTER_STATE)"

lemma role_ok_flags [simp]:
  "role_ok (f\<lparr>f_looping := b\<rparr>) = role_ok f" "role_ok (f\<lparr>f_running := c\<rparr>) = role_ok f"
  by (simp_all add: role_ok_def)

lemma initialize_role:
  assumes "initialize pcap now f = Ok f'" "c_Priority (f_Config f) \<noteq> VRRP_MASTER_PRIORITY"
    "f_AdverTimer f = NoTimer" "\<not> vip_on (f_out f)"
  shows "role_ok f'" "f_Config f' = f_Config f"
  using initialize_result [OF assms(1)] assms(2-) by (simp_all add: role_ok_def)

lemma handleDecodedPkt_role:
  assumes h: "handleDecodedPkt pcap now p h f = Ok f'" and r: "role_ok f"
    and pr: "c_Priority (f_Config f) \<noteq> VRRP_MASTER_PRIORITY"
  shows "role_ok f' \<and> f_Config f' = f_Config f"
proof (cases "f_State f")
  case VRRP_UNINITIALIZE_STATE
  then show ?thesis using r by (simp add: role_ok_def timers_ok_def)
next
  case VRRP_INITIALIZE_STATE
  then show ?thesis using h r pr initialize_role [of pcap now f f']
    by (simp add: handleDecodedPkt_def role_ok_def timers_ok_def)
next
  case VRRP_BACKUP_STATE
  then have f': "f' = backup now p h f" and a: "armed (f_MasterDownTimer f)"
    using h r by (simp_all add: handleDecodedPkt_def role_ok_def timers_ok_def)
  show ?thesis using backup_result [OF VRRP_BACKUP_STATE a, of now p h] r VRRP_BACKUP_STATE
    by (auto simp: f' role_ok_def timers_ok_def)
next
  case VRRP_MASTER_STATE
  then show ?thesis using h r master_result [of now p h f f']
    by (auto simp: handleDecodedPkt_def role_ok_def timers_ok_def)
qed

lemma stateDownEvent_role:
  "stateDownEvent now f = Ok f' \<Longrightarrow> role_ok f' \<and> f_Config f' = f_Config f"
  using stateDownEvent_result [of now f f'] by (simp add: role_ok_def timers_ok_def)

lemma fsm_handle_role:
  assumes h: "fsm_handle pcap now i f = Ok f'" and r: "role_ok f"
    and pr: "c_Priority (f_Config f) \<noteq> VRRP_MASTER_PRIORITY"
    and up: "i = IntfEv (STATE_CHANGE STATE_UP) \<Longrightarrow> f_State f = VRRP_INITIALIZE_STATE"
  shows "role_ok f' \<and> f_Config f' = f_Config f"
proof (cases i)
  case (RxFrame pkt)
  then have "f' = f \<or> (\<exists>p h. handleDecodedPkt pcap now p h f = Ok f')"
    using h by (cases "f_looping f") (simp_all add: processRcvdPkt_cases)
  then show ?thesis using handleDecodedPkt_role [OF _ r pr] r by auto
next
  case (IntfEv ev)
  show ?thesis
  proof (cases "f_looping f")
    case True
    obtain f1 where f1: "handleIntfEvent pcap now ev f = Ok f1"
      and f': "f' = (if ev = TEAR_DOWN then f1\<lparr>f_running := False, f_looping := False\<rparr> else f1)"
      using h True by (auto simp: IntfEv)
    have "role_ok f1 \<and> f_Config f1 = f_Config f"
      using handleIntfEvent_cases [OF f1]
    proof (elim disjE conjE)
      assume "ev = STATE_CHANGE STATE_UP" and i: "initialize pcap now f = Ok f1"
      then have "f_State f = VRRP_INITIALIZE_STATE" using up by (simp add: IntfEv)
      then show ?thesis using initialize_role [OF i pr] r by (simp add: role_ok_def timers_ok_def)
    qed (use r stateDownEvent_role in auto)
    then show ?thesis by (simp add: f')
  qed (use h r in \<open>simp add: IntfEv\<close>)
next
  case ExitEv
  then show ?thesis using h r by auto
next
  case MasterDownExpiry
  show ?thesis
  proof (cases "f_MasterDownTimer f")
    case (Armed d)
    then have "MasterDownTimer_func now (f\<lparr>f_MasterDownTimer := Idle\<rparr>) = Ok f'"
      using h by (simp add: MasterDownExpiry)
    from MasterDownTimer_func_result [OF this] show ?thesis by (simp add: role_ok_def timers_ok_def)
  qed (use h r in \<open>simp_all add: MasterDownExpiry\<close>)
next
  case AdverExpiry
  show ?thesis
  proof (cases "f_AdverTimer f")
    case (Armed d)
    then have "SendMasterAdveristement_func now (f\<lparr>f_AdverTimer := Idle\<rparr>) = Ok f'"
      using h by (simp add: AdverExpiry)
    from SendMasterAdveristement_func_result [OF this] show ?thesis
      using r Armed by (simp add: role_ok_def timers_ok_def)
  qed (use h r in \<open>simp_all add: AdverExpiry\<close>)
qed

lemma vrrp_reach_role:
  assumes "vrrp_reach cfg f" "c_Priority cfg \<noteq> VRRP_MASTER_PRIORITY"
  shows "role_ok f \<and> f_Config f = cfg"
  using assms(1)
proof (induction rule: vrrp_reach.induct)
  case (start pcap now l3 f)
  have 1: "f_Config (InitFsm cfg l3) = cfg" "f_AdverTimer (InitFsm cfg l3) = NoTimer"
    "f_out (InitFsm cfg l3) = []"
    by (simp_all add: InitFsm_def createVirtualMac_def Let_def)
  show ?case
    using initialize_role [OF start [unfolded StartFsm_def]] 1 assms(2) by simp
next
  case (handle f pcap now i f')
  then show ?case using fsm_handle_role [of pcap now i f f'] assms(2) by blast
qed

section \<open>Properties of a machine's life\<close>

text \<open>A sample configuration and interface.\<close>

definition sample_cfg :: IntfCfg where
  "sample_cfg = \<lparr>c_IntfRef = ''eth0'', c_IfIndex = 1, c_VRID = 1, c_Priority = 100,
     c_VirtualIPAddr = ip_String [10, 0, 0, 254], c_AdvertisementInterval = 1,
     c_PreemptMode = True, c_AcceptMode = False, c_AdminState = True, c_Version = 2,
     c_Operation = 0, c_IpType = AF_INET\<rparr>"

definition sample_l3 :: BaseIpInfo where
  "sample_l3 = \<lparr>b_IfIndex = 1, b_IntfRef = ''eth0'', b_IpAddr = ip_String [10, 0, 0, 1],
     b_OperState = STATE_UP, b_MsgType = [], b_IpType = AF_INET\<rparr>"

lemma sample_started:
  "StartFsm Opened now (InitFsm sample_cfg sample_l3) =
     Ok (transitionToBackup USE_CONFIG_ADVERTISEMENT (initPktListener Opened
          ((InitFsm sample_cfg sample_l3)\<lparr>f_running := True, f_looping := True\<rparr>)))"
  by (simp add: StartFsm_def initialize_def Let_def initPktListener_frame InitFsm_def
      createVirtualMac_def sample_cfg_def VRRP_MASTER_PRIORITY_def)

text \<open>C21: after any sequence of frames, interface events and timer expiries that does not
  kill the process, a started machine has the timer its state needs: a master's advertisement
  timer is pending, so it keeps advertising; a backup's master-down timer is pending, so a silent
  master is eventually replaced; an initialized machine has no timer left.\<close>

theorem vrrp_timers_invariant:
  assumes "StartFsm pcap now (InitFsm cfg l3) = Ok f"
    and "run fsm_step (Ok f) is = Ok f'"
  shows "timers_ok f'"
proof -
  have "timers_inv (Ok f)"
    using assms(1) initialize_result(1) by (simp add: StartFsm_def timers_inv_def)
  from vrrp_fsm.run_inv [OF this, of "is"] show ?thesis
    by (simp add: assms(2) timers_inv_def)
qed

theorem vrrp_timers_invariant_witness:
  "\<exists>f. run fsm_step (StartFsm Opened [] (InitFsm sample_cfg sample_l3)) [(Opened, [], IntfEv TEAR_DOWN)] = Ok f
     \<and> timers_ok f"
proof -
  let ?f = "transitionToBackup USE_CONFIG_ADVERTISEMENT (initPktListener Opened
          ((InitFsm sample_cfg sample_l3)\<lparr>f_running := True, f_looping := True\<rparr>))"
  have "f_State (stopMasterAdverTimer (stopMasterDownTimer ?f)) = VRRP_BACKUP_STATE"
    by (simp add: stopMasterAdverTimer_def stopMasterDownTimer_def transitionToBackup_result)
  then obtain f' where "run fsm_step (Ok ?f) [(Opened, [], IntfEv TEAR_DOWN)] = Ok f'"
    by (simp add: fsm_step_def handleIntfEvent_def stateDownEvent_def)
  then show ?thesis
    using vrrp_timers_invariant [OF sample_started, of "[(Opened, [], IntfEv TEAR_DOWN)]" f']
    by (simp only: sample_started) blast
qed



text \<open>an interface-up event delivered to a master that does not own the virtual address
  (\<open>UpdateIpState\<close> of \<open>vrrp/server/intf.go\<close> sends it to every running machine) moves it to
  backup without withdrawing the virtual address and without stopping its advertisements.\<close>

theorem stateUp_in_master:
  assumes "f_State f = VRRP_MASTER_STATE" "f_previousState f \<noteq> VRRP_MASTER_STATE"
    "c_Priority (f_Config f) \<noteq> VRRP_MASTER_PRIORITY" "armed (f_AdverTimer f)"
    "vip_on (f_out f)" "f_looping f"
  shows "\<exists>f'. fsm_handle pcap now (IntfEv (STATE_CHANGE STATE_UP)) f = Ok f' \<and>
     f_State f' = VRRP_BACKUP_STATE \<and> armed (f_AdverTimer f') \<and> vip_on (f_out f')"
proof -
  have i: "initialize pcap now f = Ok (transitionToBackup USE_CONFIG_ADVERTISEMENT (initPktListener pcap f))"
    using assms(3) by (simp add: initialize_def Let_def initPktListener_frame)
  have "fsm_handle pcap now (IntfEv (STATE_CHANGE STATE_UP)) f =
     Ok (transitionToBackup USE_CONFIG_ADVERTISEMENT (initPktListener pcap f))"
    using assms(6) i
    by (simp add: handleIntfEvent_def stateUpEvent_def STATE_UP_def STATE_DOWN_def)
  then show ?thesis using assms by (simp add: transitionToBackup_result initPktListener_frame)
qed

theorem stateUp_in_master_witness:
  "\<exists>f f'. f_State f = VRRP_MASTER_STATE \<and>
     fsm_handle Opened [] (IntfEv (STATE_CHANGE STATE_UP)) f = Ok f' \<and>
     f_State f' = VRRP_BACKUP_STATE \<and> armed (f_AdverTimer f') \<and> vip_on (f_out f')"
proof -
  let ?f = "(InitFsm sample_cfg sample_l3)\<lparr>f_State := VRRP_MASTER_STATE,
     f_previousState := VRRP_BACKUP_STATE, f_AdverTimer := Armed second, f_looping := True,
     f_out := [VipUpdate \<lparr>v_IntfRef = [], v_IpAddr = [], v_MacAddr = [], v_Enable = True,
                          v_Version = 2, v_IpType = AF_INET\<rparr>]\<rparr>"
  have "c_Priority (f_Config ?f) \<noteq> VRRP_MASTER_PRIORITY"
    by (simp add: InitFsm_def createVirtualMac_def Let_def sample_cfg_def VRRP_MASTER_PRIORITY_def)
  then have "\<exists>f'. fsm_handle Opened [] (IntfEv (STATE_CHANGE STATE_UP)) ?f = Ok f' \<and>
     f_State f' = VRRP_BACKUP_STATE \<and> armed (f_AdverTimer f') \<and> vip_on (f_out f')"
    by (intro stateUp_in_master) simp_all
  moreover have "f_State ?f = VRRP_MASTER_STATE" by simp
  ultimately show ?thesis by blast
qed

end
