(* ===== verification/VrrpElection.thy ===== *)
theory VrrpElection
  imports VrrpFsm
begin

text \<open>
  Timing and election of VRRP: the down-interval arithmetic of \<open>calculateDownValue\<close>, what an
  advertisement sent by one machine does to a neighbour through encoder, wire and decoder, and the
  places where the code departs from the protocol.
\<close>

section \<open>Timer values\<close>

lemma calculateDownValue_exact:
  assumes "0 < c_Priority (f_Config f)" "c_Priority (f_Config f) \<le> 255" "0 < adv" "adv < 65536"
  shows "f_SkewTime (calculateDownValue adv f) = ((256 - c_Priority (f_Config f)) * adv) div 256"
    "f_MasterDownValue (calculateDownValue adv f) =
       3 * adv + ((256 - c_Priority (f_Config f)) * adv) div 256"
    "0 \<le> ((256 - c_Priority (f_Config f)) * adv) div 256"
    "((256 - c_Priority (f_Config f)) * adv) div 256 < adv"
proof -
  let ?p = "256 - c_Priority (f_Config f)"
  have p: "1 \<le> ?p" "?p \<le> 255" using assms by auto
  have m: "0 \<le> ?p * adv" "?p * adv \<le> 255 * adv"
    using p assms(3) by (simp, intro mult_right_mono) auto
  define q where "q = ?p * adv"
  note m = m [folded q_def]
  have s: "0 \<le> ?p * adv div 256" "?p * adv div 256 < adv" using m assms(3) by (unfold q_def [symmetric]; linarith)+
  have a: "to_i32 ?p = ?p" using p by (intro to_i32_id) auto
  have b: "to_i32 (?p * adv) = ?p * adv" using m assms(3,4) by (intro to_i32_id; unfold q_def [symmetric]) linarith+
  have c: "to_i32 (3 * adv) = 3 * adv" using assms(3,4) by (intro to_i32_id) auto
  have d: "to_i32 (3 * adv + ?p * adv div 256) = 3 * adv + ?p * adv div 256"
    using s assms(3,4) by (intro to_i32_id) auto
  have e: "adv \<noteq> USE_CONFIG_ADVERTISEMENT" "c_Priority (f_Config f) \<noteq> 0"
    using assms by (auto simp: USE_CONFIG_ADVERTISEMENT_def)
  have t: "tdiv (?p * adv) 256 = ?p * adv div 256"
    using m by (unfold q_def [symmetric]) (auto simp: tdiv_def sgn_if)
  show 1: "f_SkewTime (calculateDownValue adv f) = (?p * adv) div 256"
    using e assms(3) by (simp add: calculateDownValue_def Let_def a b t)
  show "f_MasterDownValue (calculateDownValue adv f) = 3 * adv + (?p * adv) div 256"
    using e assms(3) by (simp add: calculateDownValue_def Let_def a b c t d)
  show "0 \<le> ?p * adv div 256" "?p * adv div 256 < adv" using s by auto
qed

text \<open>C31: the master-down interval lies between three and four advertisement intervals, and
  a router of higher priority waits no longer than one of lower priority (no overflow occurs for any
  interval the wire can carry).\<close>

theorem masterDown_bounds:
  assumes "0 < c_Priority (f_Config f)" "c_Priority (f_Config f) \<le> c_Priority (f_Config g)"
    "c_Priority (f_Config g) \<le> 255" "0 < adv" "adv < 65536"
  shows "3 * adv \<le> f_MasterDownValue (calculateDownValue adv g) \<and>
     f_MasterDownValue (calculateDownValue adv g) \<le> f_MasterDownValue (calculateDownValue adv f) \<and>
     f_MasterDownValue (calculateDownValue adv f) < 4 * adv"
proof -
  have "(256 - c_Priority (f_Config g)) * adv div 256 \<le> (256 - c_Priority (f_Config f)) * adv div 256"
    using assms by (intro zdiv_mono1 mult_right_mono) auto
  then show ?thesis
    using calculateDownValue_exact [of f adv] calculateDownValue_exact [of g adv] assms by auto
qed

theorem masterDown_bounds_witness:
  "3 * 10 \<le> f_MasterDownValue (calculateDownValue 10 (InitFsm (sample_cfg\<lparr>c_Priority := 200\<rparr>) sample_l3)) \<and>
   f_MasterDownValue (calculateDownValue 10 (InitFsm (sample_cfg\<lparr>c_Priority := 200\<rparr>) sample_l3)) \<le>
   f_MasterDownValue (calculateDownValue 10 (InitFsm sample_cfg sample_l3)) \<and>
   f_MasterDownValue (calculateDownValue 10 (InitFsm sample_cfg sample_l3)) < 4 * 10"
  by (rule masterDown_bounds) (simp_all add: InitFsm_def createVirtualMac_def Let_def sample_cfg_def)

text \<open>with the usual advertisement interval of one second the integer division makes
  the skew time zero for every priority: all backups wait exactly three seconds, so priority does
  not order them.\<close>

theorem skew_lost_at_one_second:
  assumes "0 < c_Priority (f_Config f)" "c_Priority (f_Config f) \<le> 255"
  shows "f_SkewTime (calculateDownValue 1 f) = 0 \<and> f_MasterDownValue (calculateDownValue 1 f) = 3"
  using calculateDownValue_exact [of f 1] assms by auto

theorem skew_lost_at_one_second_witness:
  "f_SkewTime (calculateDownValue 1 (InitFsm sample_cfg sample_l3)) = 0 \<and>
   f_MasterDownValue (calculateDownValue 1 (InitFsm sample_cfg sample_l3)) = 3"
  by (rule skew_lost_at_one_second) (simp_all add: InitFsm_def createVirtualMac_def Let_def sample_cfg_def)

text \<open>a new master arms its first advertisement timer for as many nanoseconds, not
  seconds, as the advertisement interval.\<close>

theorem first_advert_timer_in_ns:
  assumes "f_AdverTimer f = NoTimer" "transitionToMaster now f = Ok f'"
  shows "f_AdverTimer f' = Armed (c_AdvertisementInterval (f_Config f))"
proof -
  obtain f1 where f1: "send (getPacketInfo f) f = Ok f1"
    and f': "f' = startMasterAdverTimer (updateTxStInfo now
       ((if f_previousState f1 = f_State f1 then updateVirtualIP True f1 else f1)
          \<lparr>f_State := VRRP_MASTER_STATE\<rparr>))"
    using assms(2) by (auto simp: transitionToMaster_def Let_def)
  show ?thesis using send_frame [OF f1] assms(1) by (simp add: f' fsm_helper_defs)
qed

text \<open>The virtual MAC is written with dashes, a captured one with colons.\<close>

lemma mac_String_colon: "mac_String m = [] \<or> length (mac_String m) = 2 \<or> mac_String m ! 2 = CHR '':''"
  by (cases m rule: list.exhaust [case_product list.exhaust]; cases m; cases "tl m") (auto simp: mac_String_def hexDigit2_def)

lemma vmac_dash:
  assumes "b_IpType l3 = AF_INET \<or> b_IpType l3 = AF_INET6"
  shows "f_VirtualMACAddress (InitFsm cfg l3) \<noteq> mac_String m"
proof -
  have "\<exists>s. f_VirtualMACAddress (InitFsm cfg l3) = CHR ''0'' # CHR ''0'' # CHR ''-'' # s"
    using assms by (auto simp: InitFsm_def createVirtualMac_def Let_def AF_INET_def AF_INET6_def
        VERSION2_IEEE_MAC_ADDR_PREFIX_def VERSION3_IEEE_MAC_ADDR_PREFIX_def)
  then obtain s where s: "f_VirtualMACAddress (InitFsm cfg l3) = CHR ''0'' # CHR ''0'' # CHR ''-'' # s" ..
  show ?thesis
  proof
    assume eq: "f_VirtualMACAddress (InitFsm cfg l3) = mac_String m"
    then have "mac_String m = CHR ''0'' # CHR ''0'' # CHR ''-'' # s" using s by simp
    then show False using mac_String_colon [of m] by simp
  qed
qed


lemma drop_eq_Some:
  "obind x (\<lambda>lo. case lo of None \<Rightarrow> Ok None | Some l \<Rightarrow> k l) = Ok (Some r) \<longleftrightarrow>
     (\<exists>l. x = Ok (Some l) \<and> k l = Ok (Some r))"
  "(case p of None \<Rightarrow> Ok None | Some y \<Rightarrow> k' y) = Ok (Some r) \<longleftrightarrow> (\<exists>y. p = Some y \<and> k' y = Ok (Some r))"
  "(case v of Panic \<Rightarrow> Panic | Error e \<Rightarrow> Ok None | Ok y \<Rightarrow> Ok (Some z)) = Ok (Some r) \<longleftrightarrow>
     (\<exists>y. v = Ok y) \<and> z = r"
  by (cases x; auto split: option.splits) (auto split: option.splits outcome.splits)

lemma PacketInfo_Decode_DstMac:
  assumes "PacketInfo_Decode pkt = Ok (Some info)"
  shows "\<exists>m. p_DstMac info = mac_String m"
  using assms by (auto simp: PacketInfo_Decode_def Let_def drop_eq_Some split_paired_all)

text \<open>the check in \<open>backup\<close> that drops packets sent to the virtual MAC address never
  fires: the machine spells its MAC with dashes, a decoded packet with colons.\<close>

theorem dmac_check_dead:
  assumes "b_IpType l3 = AF_INET \<or> b_IpType l3 = AF_INET6"
    "f_VirtualMACAddress f = f_VirtualMACAddress (InitFsm cfg l3)"
    "PacketInfo_Decode pkt = Ok (Some info)"
  shows "p_DstMac info \<noteq> f_VirtualMACAddress f"
  using PacketInfo_Decode_DstMac [OF assms(3)] vmac_dash [OF assms(1), of cfg] assms(2) by auto

text \<open>One address claimed, two payload bytes after the header.\<close>

definition count_mismatch_bytes :: "byte list" where
  "count_mismatch_bytes = [0x31, 1, 100, 1, 0, 100, 0x6a, 0x99, 0, 0]"

definition count_mismatch_pkt :: RxPacket where
  "count_mismatch_pkt =
     \<lparr>r_Eth = Some (EthernetTypeIPv4, [1, 0, 0x5e, 0, 0, 0x12], [0, 0, 0x5e, 0, 1, 1]),
      r_IPv4 = Some \<lparr>l_TTL = 255, l_SrcIP = [10, 0, 0, 2], l_DstIP = [224, 0, 0, 18],
         l_NextHeader = 112, l_Payload = Some count_mismatch_bytes, l_Spare = []\<rparr>,
      r_IPv6 = None\<rparr>"

lemma count_mismatch_header:
  "DecodeHeader count_mismatch_bytes [] =
     Ok \<lparr>h_Version = 3, h_Type = 1, h_VirtualRtrId = 1, h_Priority = 100, h_CountIPAddr = 1,
         h_Rsvd = 0, h_MaxAdverInt = 1, h_CheckSum = 0x6a99, h_IpAddr = []\<rparr>"
  by code_simp

lemma count_mismatch_valid:
  "validateHeader \<lparr>h_Version = 3, h_Type = 1, h_VirtualRtrId = 1, h_Priority = 100, h_CountIPAddr = 1,
         h_Rsvd = 0, h_MaxAdverInt = 1, h_CheckSum = 0x6a99, h_IpAddr = []\<rparr> count_mismatch_bytes =
     Ok [0x31, 1, 100, 1, 0, 100, 0, 0, 0, 0]"
  by code_simp

text \<open>a version 3 packet with a correct checksum whose payload length fits neither
  address family passes every check with an empty address list, and the loop over its claimed
  address count panics, whatever the state of the machine.\<close>

theorem processRcvdPkt_count_mismatch_panics:
  "processRcvdPkt pcap now count_mismatch_pkt f = Panic"
  using count_mismatch_header count_mismatch_valid
  by (simp add: processRcvdPkt_def PacketInfo_Decode_def count_mismatch_pkt_def VRRP_TTL_def)

section \<open>Two machines\<close>

text \<open>A machine configured for IPv4 with interface address \<open>a\<close> and virtual address \<open>v\<close>.\<close>

definition speaks_v4 :: "FSM \<Rightarrow> ip \<Rightarrow> ip \<Rightarrow> bool" where
  "speaks_v4 f a v \<longleftrightarrow>
     c_IpType (f_Config f) = AF_INET \<and> 0 < c_AdvertisementInterval (f_Config f) \<and>
     (c_Version (f_Config f) = VERSION2 \<and> c_AdvertisementInterval (f_Config f) < 8192 \<or>
      c_Version (f_Config f) = VERSION3 \<and> c_AdvertisementInterval (f_Config f) \<le> 81) \<and>
     0 < c_Priority (f_Config f) \<and> c_Priority (f_Config f) < 256 \<and>
     f_ipAddr f = ip_String a \<and> length a = 4 \<and>
     c_VirtualIPAddr (f_Config f) \<noteq> [] \<and> length v = 4 \<and>
     parse_cidr_or_ip (c_VirtualIPAddr (f_Config f)) = v4InV6Prefix @ v"

lemma speaks_v4_addr:
  assumes "speaks_v4 f a v"
  shows "ParseIP (f_ipAddr f) = v4InV6Prefix @ a" "parse_cidr_or_ip (f_ipAddr f) = v4InV6Prefix @ a"
proof -
  have "length a = 4" using assms by (simp add: speaks_v4_def)
  then obtain w x y z where a: "a = [w, x, y, z]" using length_4 by blast
  show "ParseIP (f_ipAddr f) = v4InV6Prefix @ a" "parse_cidr_or_ip (f_ipAddr f) = v4InV6Prefix @ a"
    using assms by (simp_all add: a speaks_v4_def ParseIP_String_v4 parse_cidr_or_ip_v4)
qed

lemma getPacketInfo_v4:
  assumes "speaks_v4 g b v"
  shows "p_IpType (getPacketInfo g) = AF_INET" "p_AdvertiseInt (getPacketInfo g) \<noteq> 0"
    "p_Version (getPacketInfo g) = VERSION2 \<and> p_AdvertiseInt (getPacketInfo g) < 8192 \<or>
     p_Version (getPacketInfo g) = VERSION3 \<and> p_AdvertiseInt (getPacketInfo g) \<le> 81"
    "parse_cidr_or_ip (p_Vip (getPacketInfo g)) = v4InV6Prefix @ v" "length v = 4"
    "p_IpAddr (getPacketInfo g) = f_ipAddr g"
    "uint (p_Priority (getPacketInfo g)) = c_Priority (f_Config g)"
    "uint (p_AdvertiseInt (getPacketInfo g)) = c_AdvertisementInterval (f_Config g)"
proof -
  have i: "uint (word_of_int (c_AdvertisementInterval (f_Config g)) :: u16) = c_AdvertisementInterval (f_Config g)"
    using assms by (intro small_word) (auto simp: speaks_v4_def)
  have p: "uint (word_of_int (c_Priority (f_Config g)) :: u8) = c_Priority (f_Config g)"
    using assms by (intro small_word) (auto simp: speaks_v4_def)
  show "uint (p_Priority (getPacketInfo g)) = c_Priority (f_Config g)"
    "uint (p_AdvertiseInt (getPacketInfo g)) = c_AdvertisementInterval (f_Config g)"
    using i p by (simp_all add: getPacketInfo_def)
  show "p_AdvertiseInt (getPacketInfo g) \<noteq> 0"
    using i assms by (auto simp: getPacketInfo_def speaks_v4_def)
  show "p_Version (getPacketInfo g) = VERSION2 \<and> p_AdvertiseInt (getPacketInfo g) < 8192 \<or>
     p_Version (getPacketInfo g) = VERSION3 \<and> p_AdvertiseInt (getPacketInfo g) \<le> 81"
    using i assms by (auto simp: getPacketInfo_def speaks_v4_def word_less_def word_le_def)
qed (use assms in \<open>simp_all add: getPacketInfo_def speaks_v4_def\<close>)

text \<open>A neighbour's advertisement reaches the state's handler with its fields intact.\<close>

lemma advert_reaches_handler:
  assumes f: "speaks_v4 f a v" and g: "speaks_v4 g b v" and "a \<noteq> v"
  shows "\<exists>fr info c. encode_frame (getPacketInfo g) = Ok (Some fr) \<and>
     processRcvdPkt pcap now (rx_of_frame fr) f =
       handleDecodedPkt pcap now info (advert (getPacketInfo g) v c) f \<and>
     p_IpAddr info = f_ipAddr g \<and> p_DstIp info = ip_String (ParseIP VRRP_V4_GROUP_IP) \<and>
     (\<exists>m. p_DstMac info = mac_String m)"
proof -
  let ?p = "getPacketInfo g"
  obtain fr info c where d: "encode_frame ?p = Ok (Some fr)"
     "PacketInfo_Decode (rx_of_frame fr) = Ok (Some info)" "p_Hdr info = Some (advert ?p v c)"
     "p_IpAddr info = ip_String (parse_cidr_or_ip (p_IpAddr ?p))"
     "p_DstIp info = ip_String (ParseIP VRRP_V4_GROUP_IP)" "\<exists>m. p_DstMac info = mac_String m"
    using advert_v4_delivered [OF getPacketInfo_v4(1-5) [OF g]] by blast
  have "p_IpAddr info = f_ipAddr g"
    using d(4) g speaks_v4_addr(2) [OF g]
    by (simp add: getPacketInfo_v4(6) [OF g] ip_String_mapped speaks_v4_def)
  moreover have "f_ipAddr f \<noteq> ip_String v"
    using f \<open>a \<noteq> v\<close> by (auto simp: speaks_v4_def ip_String_v4_inj)
  ultimately show ?thesis
    using d by (auto simp: processRcvdPkt_def advert_def)
qed

text \<open>The election order.\<close>

definition outranks :: "FSM \<Rightarrow> ip \<Rightarrow> FSM \<Rightarrow> ip \<Rightarrow> bool" where
  "outranks g b f a \<longleftrightarrow> c_Priority (f_Config g) > c_Priority (f_Config f) \<or>
     c_Priority (f_Config g) = c_Priority (f_Config f) \<and> bytes_Compare b a > 0"

lemma master_hears:
  assumes f: "speaks_v4 f a v" and g: "speaks_v4 g b v" and "a \<noteq> v" and "f_State f = VRRP_MASTER_STATE"
  shows "\<exists>fr f'. encode_frame (getPacketInfo g) = Ok (Some fr) \<and>
     processRcvdPkt pcap now (rx_of_frame fr) f = Ok f' \<and>
     f_State f' = (if outranks g b f a then VRRP_BACKUP_STATE else VRRP_MASTER_STATE)"
proof -
  let ?h = "\<lambda>c. advert (getPacketInfo g) v c"
  obtain fr info c where d: "encode_frame (getPacketInfo g) = Ok (Some fr)"
     "processRcvdPkt pcap now (rx_of_frame fr) f = handleDecodedPkt pcap now info (?h c) f"
     "p_IpAddr info = f_ipAddr g"
    using advert_reaches_handler [OF f g \<open>a \<noteq> v\<close>, of pcap now] by blast
  have pr: "uint (h_Priority (?h c)) = c_Priority (f_Config g)"
    by (simp add: advert_def getPacketInfo_v4(7) [OF g])
  then have nz: "h_Priority (?h c) \<noteq> VRRP_MASTER_DOWN_PRIORITY"
    using g by (auto simp: VRRP_MASTER_DOWN_PRIORITY_def speaks_v4_def)
  have cmp: "bytes_Compare (ParseIP (p_IpAddr info)) (ParseIP (f_ipAddr f)) = bytes_Compare b a"
    by (simp add: d(3) speaks_v4_addr(1) [OF f] speaks_v4_addr(1) [OF g] bytes_Compare_prefix)
  have "\<exists>f'. master now info (?h c) f = Ok f' \<and>
      f_State f' = (if outranks g b f a then VRRP_BACKUP_STATE else VRRP_MASTER_STATE)"
    using assms(4) by (simp add: master_def nz pr cmp outranks_def Let_def updateRxStInfo_def emit_def
        transitionToBackup_result)
  then show ?thesis using d(1,2) assms(4) by (auto simp: handleDecodedPkt_def)
qed

lemma outranks_total:
  assumes "a \<noteq> b" shows "outranks g b f a \<longleftrightarrow> \<not> outranks f a g b"
  using assms bytes_Compare_antisym [of a b] bytes_Compare_antisym [of b a] bytes_Compare_eq_0 [of a b]
  by (auto simp: outranks_def)




definition sample_router :: "byte \<Rightarrow> int \<Rightarrow> FSM" where
  "sample_router x prio = InitFsm (sample_cfg\<lparr>c_Priority := prio\<rparr>) (sample_l3\<lparr>b_IpAddr := ip_String [10, 0, 0, x]\<rparr>)"

lemma sample_router_speaks:
  assumes "0 < prio" "prio < 256"
  shows "speaks_v4 (sample_router x prio) [10, 0, 0, x] [10, 0, 0, 254]"
    "speaks_v4 ((sample_router x prio)\<lparr>f_State := s\<rparr>) [10, 0, 0, x] [10, 0, 0, 254]"
proof -
  have "ip_String [10, 0, 0, 254] \<noteq> []" by (simp add: ip_String_def To4_def)
  then show "speaks_v4 (sample_router x prio) [10, 0, 0, x] [10, 0, 0, 254]"
    using assms by (simp add: sample_router_def speaks_v4_def InitFsm_def createVirtualMac_def Let_def
      sample_cfg_def sample_l3_def VERSION2_def parse_cidr_or_ip_v4 ip_String_mapped)
  then show "speaks_v4 ((sample_router x prio)\<lparr>f_State := s\<rparr>) [10, 0, 0, x] [10, 0, 0, 254]"
    by (simp add: speaks_v4_def)
qed



theorem first_advert_timer_in_ns_witness:
  "\<exists>f f'. transitionToMaster [] f = Ok f' \<and> f_AdverTimer f' = Armed 1"
proof -
  let ?f = "sample_router 1 100"
  obtain fr where "encode_frame (getPacketInfo ?f) = Ok (Some fr)"
    using advert_v4_delivered [OF getPacketInfo_v4(1-5) [OF sample_router_speaks(1) [of 100 1]]] by auto
  then obtain f' where f': "transitionToMaster [] ?f = Ok f'"
    by (simp add: transitionToMaster_def send_def Let_def)
  have "f_AdverTimer ?f = NoTimer" "c_AdvertisementInterval (f_Config ?f) = 1"
    by (simp_all add: sample_router_def InitFsm_def createVirtualMac_def Let_def sample_cfg_def)
  with first_advert_timer_in_ns [OF _ f'] f' show ?thesis by auto
qed

theorem dmac_check_dead_witness:
  "\<exists>info f. PacketInfo_Decode count_mismatch_pkt = Ok (Some info) \<and>
     p_DstMac info \<noteq> f_VirtualMACAddress f \<and> f = sample_router 1 100"
proof -
  obtain info where i: "PacketInfo_Decode count_mismatch_pkt = Ok (Some info)"
    using count_mismatch_header count_mismatch_valid
    by (simp add: PacketInfo_Decode_def count_mismatch_pkt_def VRRP_TTL_def)
  have "p_DstMac info \<noteq> f_VirtualMACAddress (sample_router 1 100)"
    by (rule dmac_check_dead [OF _ _ i]) (auto simp: sample_router_def sample_l3_def)
  with i show ?thesis by blast
qed

end
