(* ===== verification/Digest.thy ===== *)
theory Digest
  imports Prelude
begin

text \<open>
  \<open>md5.Sum\<close> and \<open>sha1.Sum\<close> of the Go library (RFC 1321, RFC 3174), executable, with the length
  of their results.
\<close>

section \<open>Padding\<close>

text \<open>The message, a one bit, zeros up to 56 modulo 64, and the length in bits.\<close>

definition pad :: "byte list \<Rightarrow> byte list" where
  "pad m = m @ 0x80 # replicate ((119 - length m mod 64) mod 64) 0"

fun chunks :: "nat \<Rightarrow> nat \<Rightarrow> 'a list \<Rightarrow> 'a list list" where
  "chunks n 0 xs = []"
| "chunks n (Suc k) xs = take n xs # chunks n k (drop n xs)"

definition blocks :: "byte list \<Rightarrow> byte list list" where
  "blocks m = chunks 64 (length m div 64) m"

definition le_bytes :: "nat \<Rightarrow> nat \<Rightarrow> byte list" where
  "le_bytes k n = map (\<lambda>i. of_nat (n div 256 ^ i)) [0..<k]"

definition be_bytes :: "nat \<Rightarrow> nat \<Rightarrow> byte list" where
  "be_bytes k n = rev (le_bytes k n)"

fun le_words :: "byte list \<Rightarrow> u32 list" where
  "le_words (a # b # c # d # r) = be32 d c b a # le_words r"
| "le_words _ = []"

fun be_words :: "byte list \<Rightarrow> u32 list" where
  "be_words (a # b # c # d # r) = be32 a b c d # be_words r"
| "be_words _ = []"

definition rol :: "nat \<Rightarrow> u32 \<Rightarrow> u32" where
  "rol n w = push_bit n w OR drop_bit (32 - n) w"

section \<open>MD5\<close>

definition md5_K :: "u32 list" where
  "md5_K =
   [0xd76aa478, 0xe8c7b756, 0x242070db, 0xc1bdceee, 0xf57c0faf, 0x4787c62a, 0xa8304613,
    0xfd469501, 0x698098d8, 0x8b44f7af, 0xffff5bb1, 0x895cd7be, 0x6b901122, 0xfd987193,
    0xa679438e, 0x49b40821, 0xf61e2562, 0xc040b340, 0x265e5a51, 0xe9b6c7aa, 0xd62f105d,
    0x02441453, 0xd8a1e681, 0xe7d3fbc8, 0x21e1cde6, 0xc33707d6, 0xf4d50d87, 0x455a14ed,
    0xa9e3e905, 0xfcefa3f8, 0x676f02d9, 0x8d2a4c8a, 0xfffa3942, 0x8771f681, 0x6d9d6122,
    0xfde5380c, 0xa4beea44, 0x4bdecfa9, 0xf6bb4b60, 0xbebfbc70, 0x289b7ec6, 0xeaa127fa,
    0xd4ef3085, 0x04881d05, 0xd9d4d039, 0xe6db99e5, 0x1fa27cf8, 0xc4ac5665, 0xf4292244,
    0x432aff97, 0xab9423a7, 0xfc93a039, 0x655b59c3, 0x8f0ccc92, 0xffeff47d, 0x85845dd1,
    0x6fa87e4f, 0xfe2ce6e0, 0xa3014314, 0x4e0811a1, 0xf7537e82, 0xbd3af235, 0x2ad7d2bb,
    0xeb86d391]"

definition md5_S :: "nat list" where
  "md5_S = concat (map (\<lambda>r. concat (replicate 4 r))
     [[7, 12, 17, 22], [5, 9, 14, 20], [4, 11, 16, 23], [6, 10, 15, 21]])"

definition md5_round :: "u32 list \<Rightarrow> nat \<Rightarrow> u32 \<times> u32 \<times> u32 \<times> u32 \<Rightarrow> u32 \<times> u32 \<times> u32 \<times> u32" where
  "md5_round w i = (\<lambda>(a, b, c, d).
     let (f, g) =
           (if i < 16 then ((b AND c) OR (NOT b AND d), i)
            else if i < 32 then ((d AND b) OR (NOT d AND c), (5 * i + 1) mod 16)
            else if i < 48 then (b XOR c XOR d, (3 * i + 5) mod 16)
            else (c XOR (b OR NOT d), (7 * i) mod 16))
     in (d, b + rol (md5_S ! i) (f + a + md5_K ! i + w ! g), b, c))"

definition md5_block :: "u32 \<times> u32 \<times> u32 \<times> u32 \<Rightarrow> byte list \<Rightarrow> u32 \<times> u32 \<times> u32 \<times> u32" where
  "md5_block = (\<lambda>(a, b, c, d) blk.
     let (a', b', c', d') = fold (md5_round (le_words blk)) [0..<64] (a, b, c, d)
     in (a + a', b + b', c + c', d + d'))"

definition md5_Sum :: "byte list \<Rightarrow> byte list" where
  "md5_Sum m =
     (let (a, b, c, d) =
        foldl md5_block (0x67452301, 0xefcdab89, 0x98badcfe, 0x10325476)
          (blocks (pad m @ le_bytes 8 (8 * length m)))
      in concat (map (\<lambda>w. rev (put32 w)) [a, b, c, d]))"

section \<open>SHA-1\<close>

text \<open>The schedule is kept newest first.\<close>

definition sha1_extend :: "u32 list \<Rightarrow> u32 list" where
  "sha1_extend w = rol 1 (w ! 2 XOR w ! 7 XOR w ! 13 XOR w ! 15) # w"

definition sha1_schedule :: "byte list \<Rightarrow> u32 list" where
  "sha1_schedule blk = rev ((sha1_extend ^^ 64) (rev (be_words blk)))"

definition sha1_round ::
  "u32 list \<Rightarrow> nat \<Rightarrow> u32 \<times> u32 \<times> u32 \<times> u32 \<times> u32 \<Rightarrow> u32 \<times> u32 \<times> u32 \<times> u32 \<times> u32" where
  "sha1_round w i = (\<lambda>(a, b, c, d, e).
     let (f, k) =
           (if i < 20 then ((b AND c) OR (NOT b AND d), 0x5A827999)
            else if i < 40 then (b XOR c XOR d, 0x6ED9EBA1)
            else if i < 60 then ((b AND c) OR (b AND d) OR (c AND d), 0x8F1BBCDC)
            else (b XOR c XOR d, 0xCA62C1D6))
     in (rol 5 a + f + e + k + w ! i, a, rol 30 b, c, d))"

definition sha1_block ::
  "u32 \<times> u32 \<times> u32 \<times> u32 \<times> u32 \<Rightarrow> byte list \<Rightarrow> u32 \<times> u32 \<times> u32 \<times> u32 \<times> u32" where
  "sha1_block = (\<lambda>(a, b, c, d, e) blk.
     let (a', b', c', d', e') = fold (sha1_round (sha1_schedule blk)) [0..<80] (a, b, c, d, e)
     in (a + a', b + b', c + c', d + d', e + e'))"

definition sha1_Sum :: "byte list \<Rightarrow> byte list" where
  "sha1_Sum m =
     (let (a, b, c, d, e) =
        foldl sha1_block (0x67452301, 0xEFCDAB89, 0x98BADCFE, 0x10325476, 0xC3D2E1F0)
          (blocks (pad m @ be_bytes 8 (8 * length m)))
      in concat (map put32 [a, b, c, d, e]))"

section \<open>Result lengths\<close>

lemma length_md5_Sum [simp]: "length (md5_Sum m) = 16"
  by (simp add: md5_Sum_def put32_def split: prod.split)

lemma length_sha1_Sum [simp]: "length (sha1_Sum m) = 20"
  by (simp add: sha1_Sum_def put32_def split: prod.split)

end
