(* ===== verification/BfdControl.thy ===== *)
theory BfdControl
  imports Contracts Digest
begin

text \<open>
  The BFD control packet: \<open>bfd/server/bfdControl.go\<close> and \<open>bfdAuth.go\<close>. States are a datatype
  (the two bits of the wire cover it exactly); diagnostics are Go \<open>int\<close>s and authentication types
  \<open>uint8\<close>s, as in the source, since other values reach the code. Durations are integers.
\<close>

section \<open>Data\<close>

datatype BfdSessionState = STATE_ADMIN_DOWN | STATE_DOWN | STATE_INIT | STATE_UP

fun state_val :: "BfdSessionState \<Rightarrow> nat" where
  "state_val STATE_ADMIN_DOWN = 0"
| "state_val STATE_DOWN = 1"
| "state_val STATE_INIT = 2"
| "state_val STATE_UP = 3"

definition state_of :: "byte \<Rightarrow> BfdSessionState" where
  "state_of b = (if b = 0 then STATE_ADMIN_DOWN else if b = 1 then STATE_DOWN
                 else if b = 2 then STATE_INIT else STATE_UP)"

fun ConvertBfdSessionStateValToStr :: "BfdSessionState \<Rightarrow> string" where
  "ConvertBfdSessionStateValToStr STATE_ADMIN_DOWN = ''admin_down''"
| "ConvertBfdSessionStateValToStr STATE_DOWN = ''down''"
| "ConvertBfdSessionStateValToStr STATE_INIT = ''init''"
| "ConvertBfdSessionStateValToStr STATE_UP = ''up''"

datatype BfdSessionEvent =
  REMOTE_DOWN | REMOTE_INIT | REMOTE_UP | TIMEOUT | ADMIN_DOWN | ADMIN_UP | REMOTE_ADMIN_DOWN

definition DIAG_NONE :: int where "DIAG_NONE = 0"
definition DIAG_TIME_EXPIRED :: int where "DIAG_TIME_EXPIRED = 1"
definition DIAG_NEIGHBOR_SIGNAL_DOWN :: int where "DIAG_NEIGHBOR_SIGNAL_DOWN = 3"
definition DIAG_ADMIN_DOWN :: int where "DIAG_ADMIN_DOWN = 7"

definition ConvertBfdSessionDiagValToStr :: "int \<Rightarrow> string" where
  "ConvertBfdSessionDiagValToStr diag =
     (if diag = 0 then ''None''
      else if diag = 1 then ''Control detection timer expired''
      else if diag = 2 then ''Echo function failed''
      else if diag = 3 then ''Neighbor signaled session down''
      else if diag = 4 then ''Forwarding plane reset''
      else if diag = 5 then ''Path down''
      else if diag = 6 then ''Concatanated path down''
      else if diag = 7 then ''Administratively down''
      else if diag = 8 then ''Reverse concatenated path down''
      else [])"

definition BFD_AUTH_TYPE_SIMPLE :: u8 where "BFD_AUTH_TYPE_SIMPLE = 1"
definition BFD_AUTH_TYPE_KEYED_MD5 :: u8 where "BFD_AUTH_TYPE_KEYED_MD5 = 2"
definition BFD_AUTH_TYPE_METICULOUS_MD5 :: u8 where "BFD_AUTH_TYPE_METICULOUS_MD5 = 3"
definition BFD_AUTH_TYPE_KEYED_SHA1 :: u8 where "BFD_AUTH_TYPE_KEYED_SHA1 = 4"
definition BFD_AUTH_TYPE_METICULOUS_SHA1 :: u8 where "BFD_AUTH_TYPE_METICULOUS_SHA1 = 5"

lemmas auth_type_defs = BFD_AUTH_TYPE_SIMPLE_def BFD_AUTH_TYPE_KEYED_MD5_def
  BFD_AUTH_TYPE_METICULOUS_MD5_def BFD_AUTH_TYPE_KEYED_SHA1_def BFD_AUTH_TYPE_METICULOUS_SHA1_def

definition ConvertBfdAuthTypeStrToVal :: "string \<Rightarrow> u8" where
  "ConvertBfdAuthTypeStrToVal s =
     (if s = ''simple'' then BFD_AUTH_TYPE_SIMPLE
      else if s = ''keyedmd5'' then BFD_AUTH_TYPE_KEYED_MD5
      else if s = ''metmd5'' then BFD_AUTH_TYPE_METICULOUS_MD5
      else if s = ''keyedsha1'' then BFD_AUTH_TYPE_KEYED_SHA1
      else if s = ''metsha1'' then BFD_AUTH_TYPE_METICULOUS_SHA1
      else 0)"

definition ConvertBfdAuthTypeValToStr :: "u8 \<Rightarrow> string" where
  "ConvertBfdAuthTypeValToStr t =
     (if t = BFD_AUTH_TYPE_SIMPLE then ''simple''
      else if t = BFD_AUTH_TYPE_KEYED_MD5 then ''keyedmd5''
      else if t = BFD_AUTH_TYPE_METICULOUS_MD5 then ''metmd5''
      else if t = BFD_AUTH_TYPE_KEYED_SHA1 then ''keyedsha1''
      else if t = BFD_AUTH_TYPE_METICULOUS_SHA1 then ''metsha1''
      else [])"

definition is_md5 :: "u8 \<Rightarrow> bool" where
  "is_md5 t \<longleftrightarrow> t = BFD_AUTH_TYPE_KEYED_MD5 \<or> t = BFD_AUTH_TYPE_METICULOUS_MD5"

definition is_sha1 :: "u8 \<Rightarrow> bool" where
  "is_sha1 t \<longleftrightarrow> t = BFD_AUTH_TYPE_KEYED_SHA1 \<or> t = BFD_AUTH_TYPE_METICULOUS_SHA1"

record BfdAuthHeader =
  a_Type :: u8
  a_AuthKeyID :: u8
  a_SequenceNumber :: u32
  a_AuthData :: "byte list"

record BfdControlPacket =
  k_Version :: u8
  k_Diagnostic :: int
  k_State :: BfdSessionState
  k_Poll :: bool
  k_Final :: bool
  k_ControlPlaneIndependent :: bool
  k_AuthPresent :: bool
  k_Demand :: bool
  k_Multipoint :: bool
  k_DetectMult :: u8
  k_MyDiscriminator :: u32
  k_YourDiscriminator :: u32
  k_DesiredMinTxInterval :: int
  k_RequiredMinRxInterval :: int
  k_RequiredMinEchoRxInterval :: int
  k_AuthHeader :: "BfdAuthHeader option"

text \<open>\<open>Blocked\<close>: the goroutine of the call waits for ever on a channel that nobody reads.\<close>

datatype bfd_error =
    PacketLengthMismatch | HeaderFlagSet | InvalidMD5Length | InvalidSHA1Length
  | UnsupportedAuthType | SessionNotActive | NotReachable string | CreateFailed string
  | InvalidInterfaceType | Blocked

definition DEFAULT_BFD_VERSION :: u8 where "DEFAULT_BFD_VERSION = 1"
definition DEFAULT_DETECT_MULTI :: int where "DEFAULT_DETECT_MULTI = 3"
definition DEFAULT_DESIRED_MIN_TX_INTERVAL :: int where "DEFAULT_DESIRED_MIN_TX_INTERVAL = 250000"
definition DEFAULT_REQUIRED_MIN_RX_INTERVAL :: int where "DEFAULT_REQUIRED_MIN_RX_INTERVAL = 250000"
definition DEFAULT_REQUIRED_MIN_ECHO_RX_INTERVAL :: int where
  "DEFAULT_REQUIRED_MIN_ECHO_RX_INTERVAL = 0"
definition DEFAULT_CONTROL_PACKET_LEN :: nat where "DEFAULT_CONTROL_PACKET_LEN = 24"
definition STARTUP_TX_INTERVAL :: int where "STARTUP_TX_INTERVAL = 2000000"
definition STARTUP_RX_INTERVAL :: int where "STARTUP_RX_INTERVAL = 2000000"

section \<open>Authentication section\<close>

definition createBfdAuthHeader :: "BfdAuthHeader \<Rightarrow> byte list" where
  "createBfdAuthHeader h =
     (let length = (if a_Type h \<noteq> BFD_AUTH_TYPE_SIMPLE then of_nat (length (a_AuthData h) + 8)
                    else of_nat (length (a_AuthData h) + 3))
      in [a_Type h, length, a_AuthKeyID h] @
         (if a_Type h \<noteq> BFD_AUTH_TYPE_SIMPLE then 0 # put32 (a_SequenceNumber h) else []) @
         a_AuthData h)"

definition getBfdAuthenticationLength :: "BfdAuthHeader \<Rightarrow> u8" where
  "getBfdAuthenticationLength h =
     (if a_Type h = BFD_AUTH_TYPE_SIMPLE then of_nat (length (a_AuthData h) + 3)
      else if is_md5 (a_Type h) then 24
      else if is_sha1 (a_Type h) then 28
      else 0)"

text \<open>\<open>spare\<close> is the rest of the receive buffer behind the slice.\<close>

definition decodeBfdAuthHeader ::
  "byte list \<Rightarrow> byte list \<Rightarrow> (bfd_error, BfdAuthHeader) outcome" where
  "decodeBfdAuthHeader data spare =
     obind (idx data 0) (\<lambda>type.
     obind (idx data 1) (\<lambda>length.
       if length = 0 then
         Ok \<lparr>a_Type = type, a_AuthKeyID = 0, a_SequenceNumber = 0, a_AuthData = []\<rparr>
       else
         obind (idx data 2) (\<lambda>keyId.
           if type = BFD_AUTH_TYPE_SIMPLE then
             obind (slice_from data 3) (\<lambda>d.
               Ok \<lparr>a_Type = type, a_AuthKeyID = keyId, a_SequenceNumber = 0, a_AuthData = d\<rparr>)
           else if is_md5 type \<or> is_sha1 type then
             obind (slice_cap data spare 4 8) (\<lambda>s.
             obind (Uint32 s) (\<lambda>seq.
             obind (slice_from data 8) (\<lambda>d.
               if is_md5 type \<and> List.length d \<noteq> 16 then Error InvalidMD5Length
               else if is_sha1 type \<and> List.length d \<noteq> 20 then Error InvalidSHA1Length
               else Ok \<lparr>a_Type = type, a_AuthKeyID = keyId, a_SequenceNumber = seq,
                        a_AuthData = d\<rparr>)))
           else Error UnsupportedAuthType)))"

section \<open>Control packet\<close>

definition flag :: "byte \<Rightarrow> bool \<Rightarrow> byte" where
  "flag f b = (if b then f else 0)"

text \<open>
  The digest of an authenticated packet is taken over the packet so far and the key; the digest,
  not the key, is sent.
\<close>

definition CreateBfdControlPacket :: "BfdControlPacket \<Rightarrow> byte list" where
  "CreateBfdControlPacket p =
     (let auth = k_AuthPresent p \<and> k_AuthHeader p \<noteq> None;
          authLength = (if auth then getBfdAuthenticationLength (the (k_AuthHeader p)) else 0);
          length = of_nat DEFAULT_CONTROL_PACKET_LEN + authLength;
          flags = flag 0x20 (k_Poll p) OR flag 0x10 (k_Final p)
                  OR flag 0x08 (k_ControlPlaneIndependent p) OR flag 0x04 auth
                  OR flag 0x02 (k_Demand p) OR flag 0x01 (k_Multipoint p);
          fixed =
            [push_bit 5 (k_Version p) OR (word_of_int (k_Diagnostic p) AND 0x1f),
             push_bit 6 (of_nat (state_val (k_State p))) OR flags, k_DetectMult p, length] @
            put32 (k_MyDiscriminator p) @ put32 (k_YourDiscriminator p) @
            put32 (word_of_int (k_DesiredMinTxInterval p)) @
            put32 (word_of_int (k_RequiredMinRxInterval p)) @
            put32 (word_of_int (k_RequiredMinEchoRxInterval p))
      in if authLength > 0 then
           (let h = the (k_AuthHeader p);
                buf = fixed @ [a_Type h, authLength, a_AuthKeyID h] @
                      (if a_Type h \<noteq> BFD_AUTH_TYPE_SIMPLE then 0 # put32 (a_SequenceNumber h)
                       else [])
            in if a_Type h = BFD_AUTH_TYPE_SIMPLE then buf @ a_AuthData h
               else if is_md5 (a_Type h) then buf @ md5_Sum (buf @ a_AuthData h)
               else if is_sha1 (a_Type h) then buf @ sha1_Sum (buf @ a_AuthData h)
               else buf)
         else fixed)"

definition be32_at :: "byte list \<Rightarrow> byte list \<Rightarrow> nat \<Rightarrow> (bfd_error, u32) outcome" where
  "be32_at data spare i = obind (slice_cap data spare i (i + 4)) Uint32"

definition DecodeBfdControlPacket ::
  "byte list \<Rightarrow> byte list \<Rightarrow> (bfd_error, BfdControlPacket) outcome" where
  "DecodeBfdControlPacket data spare =
     obind (idx data 0) (\<lambda>d0.
     obind (idx data 1) (\<lambda>d1.
     obind (idx data 2) (\<lambda>d2.
     obind (idx data 3) (\<lambda>length.
       if (of_nat (List.length data) :: u8) \<noteq> length then Error PacketLengthMismatch
       else
         obind (be32_at data spare 4) (\<lambda>my.
         obind (be32_at data spare 8) (\<lambda>your.
         obind (be32_at data spare 12) (\<lambda>tx.
         obind (be32_at data spare 16) (\<lambda>rx.
         obind (be32_at data spare 20) (\<lambda>echo.
           let packet =
                 \<lparr>k_Version = drop_bit 5 (d0 AND 0xE0), k_Diagnostic = uint (d0 AND 0x1F),
                  k_State = state_of (drop_bit 6 (d1 AND 0xD0)),
                  k_Poll = d1 AND 0x20 \<noteq> 0, k_Final = d1 AND 0x10 \<noteq> 0,
                  k_ControlPlaneIndependent = d1 AND 0x08 \<noteq> 0,
                  k_AuthPresent = d1 AND 0x04 \<noteq> 0, k_Demand = d1 AND 0x02 \<noteq> 0,
                  k_Multipoint = d1 AND 0x01 \<noteq> 0, k_DetectMult = d2,
                  k_MyDiscriminator = my, k_YourDiscriminator = your,
                  k_DesiredMinTxInterval = uint tx, k_RequiredMinRxInterval = uint rx,
                  k_RequiredMinEchoRxInterval = uint echo, k_AuthHeader = None\<rparr>
           in if k_AuthPresent packet then
                if List.length data > 24 then
                  obind (decodeBfdAuthHeader (drop 24 data) spare) (\<lambda>h.
                    Ok (packet\<lparr>k_AuthHeader := Some h\<rparr>))
                else Error HeaderFlagSet
              else Ok packet)))))))))"

section \<open>Round trip\<close>

lemma flags_decode:
  fixes s :: BfdSessionState
  assumes "d = push_bit 6 (of_nat (state_val s)) OR
     (flag 0x20 a OR flag 0x10 b OR flag 0x08 c OR flag 0x04 e OR flag 0x02 f OR flag 0x01 g)"
  shows "state_of (drop_bit 6 (d AND 0xD0)) = s" "(d AND 0x20 \<noteq> 0) = a" "(d AND 0x10 \<noteq> 0) = b"
     "(d AND 0x08 \<noteq> 0) = c" "(d AND 0x04 \<noteq> 0) = e" "(d AND 0x02 \<noteq> 0) = f" "(d AND 0x01 \<noteq> 0) = g"
  unfolding assms flag_def
  by (cases s; cases a; cases b; cases c; cases e; cases f; cases g; simp add: state_of_def)+

lemma first_byte_decode:
  assumes "(v :: byte) < 8" "0 \<le> d" "d < 32"
  shows "drop_bit 5 ((push_bit 5 v OR (word_of_int d AND 0x1f)) AND 0xE0) = v"
    "uint ((push_bit 5 v OR (word_of_int d AND 0x1f)) AND (0x1F :: byte)) = d"
proof -
  let ?w = "word_of_int d :: byte"
  have m: "(0xE0 :: byte) = push_bit 5 (mask 3)" "(0x1f :: byte) = mask 5"
    by (simp_all add: mask_eq_exp_minus_1)
  have u: "uint ?w = d" using assms(2,3) by (simp add: uint_word_of_int take_bit_int_eq_self)
  then have "?w < 32" using assms by (simp add: word_less_def)
  then have w: "bit ?w n \<Longrightarrow> n < 5" for n using bit_small [of ?w n 5] by simp
  have v: "bit v n \<Longrightarrow> n < 3" for n using bit_small [of v n 3] assms(1) by simp
  show "drop_bit 5 ((push_bit 5 v OR (?w AND 0x1f)) AND 0xE0) = v"
    unfolding m using v by (intro bit_word_eqI) (auto simp: bit_simps)
  have "(push_bit 5 v OR (?w AND 0x1f)) AND 0x1f = ?w"
    unfolding m using w by (intro bit_word_eqI) (auto simp: bit_simps)
  then show "uint ((push_bit 5 v OR (word_of_int d AND 0x1f)) AND (0x1F :: byte)) = d" by (simp add: u)
qed

lemma be32_at_append:
  "length pre = n \<Longrightarrow> be32_at (pre @ put32 w @ rest) spare n = Ok w"
  by (simp add: be32_at_def slice_cap_def slice_def put32_def be32_put32)

text \<open>What is sent in place of the key, and the packet a receiver reads.\<close>

definition auth_digest :: "BfdAuthHeader \<Rightarrow> byte list \<Rightarrow> byte list" where
  "auth_digest h prefix =
     (if a_Type h = BFD_AUTH_TYPE_SIMPLE then a_AuthData h
      else if is_md5 (a_Type h) then md5_Sum (prefix @ a_AuthData h)
      else sha1_Sum (prefix @ a_AuthData h))"

definition on_wire :: "BfdControlPacket \<Rightarrow> BfdControlPacket" where
  "on_wire p =
     (case k_AuthHeader p of
        None \<Rightarrow> p
      | Some h \<Rightarrow>
          p\<lparr>k_AuthHeader := Some (h\<lparr>a_AuthData := auth_digest h (take 32 (CreateBfdControlPacket p))\<rparr>)\<rparr>)"

text \<open>The packets the wire format can carry.\<close>

definition wf_auth :: "BfdAuthHeader \<Rightarrow> bool" where
  "wf_auth h \<longleftrightarrow>
     a_Type h = BFD_AUTH_TYPE_SIMPLE \<and> a_SequenceNumber h = 0 \<and> length (a_AuthData h) \<le> 228 \<or>
     is_md5 (a_Type h) \<or> is_sha1 (a_Type h)"

definition wf_control :: "BfdControlPacket \<Rightarrow> bool" where
  "wf_control p \<longleftrightarrow>
     k_Version p < 8 \<and> 0 \<le> k_Diagnostic p \<and> k_Diagnostic p < 32 \<and>
     0 \<le> k_DesiredMinTxInterval p \<and> k_DesiredMinTxInterval p < 2 ^ 32 \<and>
     0 \<le> k_RequiredMinRxInterval p \<and> k_RequiredMinRxInterval p < 2 ^ 32 \<and>
     0 \<le> k_RequiredMinEchoRxInterval p \<and> k_RequiredMinEchoRxInterval p < 2 ^ 32 \<and>
     (case k_AuthHeader p of None \<Rightarrow> \<not> k_AuthPresent p | Some h \<Rightarrow> k_AuthPresent p \<and> wf_auth h)"

text \<open>The authentication section as it is sent.\<close>

definition auth_head :: "BfdAuthHeader \<Rightarrow> byte list" where
  "auth_head h = [a_Type h, getBfdAuthenticationLength h, a_AuthKeyID h] @
     (if a_Type h \<noteq> BFD_AUTH_TYPE_SIMPLE then 0 # put32 (a_SequenceNumber h) else [])"

definition control_fixed :: "BfdControlPacket \<Rightarrow> byte \<Rightarrow> byte list" where
  "control_fixed p authLength =
     [push_bit 5 (k_Version p) OR (word_of_int (k_Diagnostic p) AND 0x1f),
      push_bit 6 (of_nat (state_val (k_State p))) OR
        (flag 0x20 (k_Poll p) OR flag 0x10 (k_Final p) OR flag 0x08 (k_ControlPlaneIndependent p) OR
         flag 0x04 (k_AuthPresent p) OR flag 0x02 (k_Demand p) OR flag 0x01 (k_Multipoint p)),
      k_DetectMult p, 24 + authLength] @
     put32 (k_MyDiscriminator p) @ put32 (k_YourDiscriminator p) @
     put32 (word_of_int (k_DesiredMinTxInterval p)) @
     put32 (word_of_int (k_RequiredMinRxInterval p)) @
     put32 (word_of_int (k_RequiredMinEchoRxInterval p))"

lemma length_control_fixed [simp]: "length (control_fixed p a) = 24"
  by (simp add: control_fixed_def put32_def)

lemma Create_no_auth:
  "k_AuthHeader p = None \<Longrightarrow> \<not> k_AuthPresent p \<Longrightarrow> CreateBfdControlPacket p = control_fixed p 0"
  by (simp add: CreateBfdControlPacket_def control_fixed_def DEFAULT_CONTROL_PACKET_LEN_def or.assoc)

lemma wf_auth_length:
  assumes "wf_auth h"
  shows "unat (getBfdAuthenticationLength h) = length (auth_head h @ auth_digest h x)"
    "getBfdAuthenticationLength h > 0" "length (auth_head h @ auth_digest h x) < 232"
proof -
  have *: "unat (getBfdAuthenticationLength h) = length (auth_head h @ auth_digest h x) \<and>
      length (auth_head h @ auth_digest h x) < 232 \<and> length (auth_head h @ auth_digest h x) > 0"
  proof (cases "a_Type h = BFD_AUTH_TYPE_SIMPLE")
    case True
    then have "length (a_AuthData h) \<le> 228" using assms by (auto simp: wf_auth_def is_md5_def is_sha1_def auth_type_defs)
    moreover have "unat (of_nat n :: byte) = n" if "n < 256" for n using that by (simp add: unat_of_nat)
    note this [of "length (a_AuthData h) + 3"]
    ultimately have "unat (of_nat (length (a_AuthData h) + 3) :: byte) = length (a_AuthData h) + 3"
      by linarith
    with True \<open>length (a_AuthData h) \<le> 228\<close> show ?thesis
      by (simp add: getBfdAuthenticationLength_def auth_head_def auth_digest_def)
  next
    case False
    then show ?thesis using assms
      by (auto simp: wf_auth_def getBfdAuthenticationLength_def auth_head_def auth_digest_def put32_def)
  qed
  then show "unat (getBfdAuthenticationLength h) = length (auth_head h @ auth_digest h x)"
    "length (auth_head h @ auth_digest h x) < 232" by auto
  show "getBfdAuthenticationLength h > 0" using * by (auto simp: word_greater_zero_iff)
qed

lemma Create_auth:
  assumes "k_AuthHeader p = Some h" "k_AuthPresent p" "wf_auth h"
  defines "buf \<equiv> control_fixed p (getBfdAuthenticationLength h) @ auth_head h"
  shows "CreateBfdControlPacket p = buf @ auth_digest h buf"
proof -
  have "is_md5 t \<Longrightarrow> t \<noteq> BFD_AUTH_TYPE_SIMPLE" "is_sha1 t \<Longrightarrow> t \<noteq> BFD_AUTH_TYPE_SIMPLE \<and> \<not> is_md5 t" for t
    by (auto simp: is_md5_def is_sha1_def auth_type_defs)
  then show ?thesis
    using assms wf_auth_length(2) [OF assms(3)]
    by (auto simp: CreateBfdControlPacket_def control_fixed_def DEFAULT_CONTROL_PACKET_LEN_def or.assoc
        Let_def auth_head_def auth_digest_def wf_auth_def)
qed

lemma decode_auth_section:
  assumes "wf_auth h" "length d = length (auth_digest h x)" "a_Type h = BFD_AUTH_TYPE_SIMPLE \<Longrightarrow> True"
  shows "decodeBfdAuthHeader (auth_head h @ d) spare = Ok (h\<lparr>a_AuthData := d\<rparr>)"
proof -
  have nz: "getBfdAuthenticationLength h \<noteq> 0" using wf_auth_length(2) [OF assms(1)] by auto
  show ?thesis
  proof (cases "a_Type h = BFD_AUTH_TYPE_SIMPLE")
    case True
    then have "a_SequenceNumber h = 0" using assms(1) by (auto simp: wf_auth_def is_md5_def is_sha1_def auth_type_defs)
    with True nz show ?thesis
      by (simp add: decodeBfdAuthHeader_def auth_head_def idx_def slice_from_def)
  next
    case False
    with assms have "is_md5 (a_Type h) \<and> length d = 16 \<or> is_sha1 (a_Type h) \<and> \<not> is_md5 (a_Type h) \<and> length d = 20"
      by (auto simp: wf_auth_def auth_digest_def is_md5_def is_sha1_def auth_type_defs)
    with False nz show ?thesis
      by (auto simp: decodeBfdAuthHeader_def auth_head_def idx_def slice_from_def slice_cap_def slice_def put32_def
          be32_put32 is_md5_def is_sha1_def auth_type_defs)
  qed
qed

lemma decode_fixed:
  assumes "wf_control p" "unat a = length tail" "length tail < 232"
  shows "DecodeBfdControlPacket (control_fixed p a @ tail) spare =
     (if k_AuthPresent p then
        (if tail = [] then Error HeaderFlagSet
         else obind (decodeBfdAuthHeader tail spare) (\<lambda>h. Ok (p\<lparr>k_AuthHeader := Some h\<rparr>)))
      else Ok (p\<lparr>k_AuthHeader := None\<rparr>))"
proof -
  have len: "(of_nat (24 + length tail) :: byte) = 24 + a"
    by (simp flip: assms(2))
  note fl = flags_decode [OF refl, of "k_State p" "k_Poll p" "k_Final p" "k_ControlPlaneIndependent p"
      "k_AuthPresent p" "k_Demand p" "k_Multipoint p"]
  have by1: "drop_bit 5 ((push_bit 5 (k_Version p) OR (word_of_int (k_Diagnostic p) AND 0x1f)) AND 0xE0) = k_Version p"
    "uint ((push_bit 5 (k_Version p) OR (word_of_int (k_Diagnostic p) AND 0x1f)) AND (0x1F :: byte)) = k_Diagnostic p"
    using first_byte_decode [of "k_Version p" "k_Diagnostic p"] assms(1)
    unfolding wf_control_def by blast+
  have iv: "uint (word_of_int (k_DesiredMinTxInterval p) :: u32) = k_DesiredMinTxInterval p"
    "uint (word_of_int (k_RequiredMinRxInterval p) :: u32) = k_RequiredMinRxInterval p"
    "uint (word_of_int (k_RequiredMinEchoRxInterval p) :: u32) = k_RequiredMinEchoRxInterval p"
    using assms(1) by (auto simp: wf_control_def intro!: small_word)
  define b0 where "b0 = push_bit 5 (k_Version p) OR (word_of_int (k_Diagnostic p) AND 0x1f :: byte)"
  define b1 where "b1 = push_bit 6 (of_nat (state_val (k_State p))) OR
        (flag 0x20 (k_Poll p) OR flag 0x10 (k_Final p) OR flag 0x08 (k_ControlPlaneIndependent p) OR
         flag 0x04 (k_AuthPresent p) OR flag 0x02 (k_Demand p) OR flag 0x01 (k_Multipoint p))"
  let ?data = "control_fixed p a @ tail"
  have data: "?data = [b0, b1, k_DetectMult p, 24 + a] @
     put32 (k_MyDiscriminator p) @ put32 (k_YourDiscriminator p) @
     put32 (word_of_int (k_DesiredMinTxInterval p)) @
     put32 (word_of_int (k_RequiredMinRxInterval p)) @
     put32 (word_of_int (k_RequiredMinEchoRxInterval p)) @ tail"
    by (simp add: control_fixed_def b0_def b1_def)
  have i: "idx ?data 0 = Ok b0" "idx ?data 1 = Ok b1" "idx ?data 2 = Ok (k_DetectMult p)" "idx ?data 3 = Ok (24 + a)"
    by (simp_all add: data idx_def)
  have l: "length ?data = 24 + length tail" by simp
  have w: "be32_at ?data spare 4 = Ok (k_MyDiscriminator p)" "be32_at ?data spare 8 = Ok (k_YourDiscriminator p)"
    "be32_at ?data spare 12 = Ok (word_of_int (k_DesiredMinTxInterval p))"
    "be32_at ?data spare 16 = Ok (word_of_int (k_RequiredMinRxInterval p))"
    "be32_at ?data spare 20 = Ok (word_of_int (k_RequiredMinEchoRxInterval p))"
    by (simp_all add: data be32_at_def slice_cap_def slice_def put32_def be32_put32)
  have d: "drop 24 ?data = tail" by simp
  have whole: "\<lparr>k_Version = k_Version p, k_Diagnostic = k_Diagnostic p, k_State = k_State p,
      k_Poll = k_Poll p, k_Final = k_Final p, k_ControlPlaneIndependent = k_ControlPlaneIndependent p,
      k_AuthPresent = k_AuthPresent p, k_Demand = k_Demand p, k_Multipoint = k_Multipoint p,
      k_DetectMult = k_DetectMult p, k_MyDiscriminator = k_MyDiscriminator p,
      k_YourDiscriminator = k_YourDiscriminator p, k_DesiredMinTxInterval = k_DesiredMinTxInterval p,
      k_RequiredMinRxInterval = k_RequiredMinRxInterval p,
      k_RequiredMinEchoRxInterval = k_RequiredMinEchoRxInterval p, k_AuthHeader = None\<rparr> =
      p\<lparr>k_AuthHeader := None\<rparr>"
    by (cases p) simp
  note fl = fl [folded b1_def] and by1 = by1 [folded b0_def]
  show ?thesis
    unfolding DecodeBfdControlPacket_def i w obind.simps l len d Let_def fl by1 iv whole
    by (cases tail) simp_all
qed


lemma control_round_trip:
  assumes wf: "wf_control p"
  shows "DecodeBfdControlPacket (CreateBfdControlPacket p) spare = Ok (on_wire p)"
proof (cases "k_AuthHeader p")
  case None
  then have "\<not> k_AuthPresent p" using wf by (simp add: wf_control_def)
  with None show ?thesis
    using decode_fixed [OF wf, of 0 "[]" spare] by (simp add: Create_no_auth on_wire_def)
next
  case (Some h)
  then have a: "k_AuthPresent p" "wf_auth h" using wf by (simp_all add: wf_control_def)
  define buf where "buf = control_fixed p (getBfdAuthenticationLength h) @ auth_head h"
  let ?d = "auth_digest h buf"
  have c: "CreateBfdControlPacket p = control_fixed p (getBfdAuthenticationLength h) @ auth_head h @ ?d"
    using Create_auth [OF Some a] by (simp add: buf_def)
  have "decodeBfdAuthHeader (auth_head h @ ?d) spare = Ok (h\<lparr>a_AuthData := ?d\<rparr>)"
    using decode_auth_section [OF a(2) refl] by simp
  moreover have "auth_head h \<noteq> []" by (simp add: auth_head_def)
  moreover have "auth_digest h (take 32 (CreateBfdControlPacket p)) = ?d"
  proof (cases "a_Type h = BFD_AUTH_TYPE_SIMPLE")
    case False
    then have "take 32 (CreateBfdControlPacket p) = buf"
      by (simp add: c buf_def auth_head_def put32_def)
    then show ?thesis by simp
  qed (simp add: auth_digest_def)
  ultimately show ?thesis
    using decode_fixed [OF wf wf_auth_length(1,3) [OF a(2)], of buf spare] a(1) Some
    by (simp add: c on_wire_def)
qed

text \<open>The packets whose contents the digest does not change: a codec.\<close>

definition wf_plain :: "BfdControlPacket \<Rightarrow> bool" where
  "wf_plain p \<longleftrightarrow> wf_control p \<and> on_wire p = p"

interpretation bfd_control: codec "\<lambda>p. Ok (CreateBfdControlPacket p)" "\<lambda>bs. DecodeBfdControlPacket bs []" wf_plain
  by unfold_locales (simp add: wf_plain_def control_round_trip)

text \<open>C29: a control packet within the field widths, with or without an authentication
  section of any supported type, is read back by \<open>DecodeBfdControlPacket\<close> exactly as it was
  written, the key replaced by its digest, whatever follows it in the receive buffer.\<close>

theorem CreateBfdControlPacket_Decode:
  assumes "wf_control p"
  shows "DecodeBfdControlPacket (CreateBfdControlPacket p) spare = Ok (on_wire p)"
  using assms by (rule control_round_trip)

theorem CreateBfdControlPacket_Decode_witness:
  "\<exists>p. k_AuthPresent p \<and> DecodeBfdControlPacket (CreateBfdControlPacket p) [1, 2] = Ok (on_wire p)"
proof -
  let ?p = "\<lparr>k_Version = 1, k_Diagnostic = 7, k_State = STATE_UP, k_Poll = True, k_Final = False,
     k_ControlPlaneIndependent = False, k_AuthPresent = True, k_Demand = False,
     k_Multipoint = False, k_DetectMult = 3, k_MyDiscriminator = 17, k_YourDiscriminator = 42,
     k_DesiredMinTxInterval = 250000, k_RequiredMinRxInterval = 250000,
     k_RequiredMinEchoRxInterval = 0,
     k_AuthHeader = Some \<lparr>a_Type = 2, a_AuthKeyID = 1, a_SequenceNumber = 9, a_AuthData = [1, 2, 3]\<rparr>\<rparr>"
  have "wf_control ?p" by (simp add: wf_control_def wf_auth_def is_md5_def BFD_AUTH_TYPE_KEYED_MD5_def)
  from CreateBfdControlPacket_Decode [OF this, of "[1, 2]"] show ?thesis by (intro exI [of _ ?p]) simp
qed

text \<open>a 25-byte packet that claims an authentication section makes the decoder index past
  the single byte of that section and panic.\<close>

theorem DecodeBfdControlPacket_auth_panics:
  assumes "length data = 25" "data ! 3 = 25" "data ! 1 AND 4 \<noteq> 0"
  shows "DecodeBfdControlPacket data spare = Panic"
proof -
  have "\<exists>w. be32_at data spare i = Ok w" if "i \<le> 20" for i
  proof -
    define xs where "xs = take 4 (drop i (data @ spare))"
    have "length xs = 4" using that assms(1) by (simp add: xs_def)
    then obtain w where "Uint32 xs = (Ok w :: (bfd_error, u32) outcome)" by (cases xs rule: Uint32.cases) auto
    then show ?thesis
      using that assms(1) by (simp add: be32_at_def slice_cap_def slice_def xs_def)
  qed
  from this [of 4] this [of 8] this [of 12] this [of 16] this [of 20]
  obtain w4 w8 w12 w16 w20 where "be32_at data spare 4 = Ok w4" "be32_at data spare 8 = Ok w8"
      "be32_at data spare 12 = Ok w12" "be32_at data spare 16 = Ok w16" "be32_at data spare 20 = Ok w20"
    by auto
  moreover have "decodeBfdAuthHeader (drop 24 data) spare = Panic"
    using assms(1) by (simp add: decodeBfdAuthHeader_def idx_def)
  ultimately show ?thesis
    using assms by (simp add: DecodeBfdControlPacket_def idx_def)
qed

theorem DecodeBfdControlPacket_auth_panics_witness:
  "DecodeBfdControlPacket ([0x20, 0x44, 3, 25] @ replicate 21 0) [] = Panic"
  by (rule DecodeBfdControlPacket_auth_panics) simp_all

end
