(* ===== verification/BfdSession.thy ===== *)
theory BfdSession
  imports BfdControl
begin

text \<open>
  One BFD session: \<open>bfd/server/bfdSession.go\<close> on the records of \<open>bfdConfig.go\<close> and \<open>server.go\<close>.
  A handler is a function on the session record; notifications and transmitted packets are
  appended to the record's output. Timers are counted in milliseconds; \<open>Reset\<close> and \<open>Stop\<close> of a timer
  that \<open>StartSessionClient\<close> has not created yet panic. \<open>now\<close> is the clock, and \<open>jitter\<close> is the
  \<open>float32\<close> product of \<open>ApplyTxJitter\<close>, an argument because only its use is modelled.
\<close>

section \<open>Data\<close>

definition MAX_APPS :: nat where "MAX_APPS = 5"

record SessionState =
  ss_IpAddr :: string
  ss_LocalAddr :: string
  ss_SessionId :: int
  ss_ParamName :: string
  ss_Interface :: string
  ss_InterfaceSpecific :: bool
  ss_PerLinkSession :: bool
  ss_LocalMacAddr :: "byte list"
  ss_RemoteMacAddr :: "byte list"
  ss_RegisteredProtocols :: "bool list"
  ss_SessionState :: BfdSessionState
  ss_RemoteSessionState :: BfdSessionState
  ss_LocalDiscriminator :: u32
  ss_RemoteDiscriminator :: u32
  ss_LocalDiagType :: int
  ss_DesiredMinTxInterval :: int
  ss_RequiredMinRxInterval :: int
  ss_RemoteMinRxInterval :: int
  ss_DetectionMultiplier :: int
  ss_RemoteDetectionMultiplier :: int
  ss_DemandMode :: bool
  ss_RemoteDemandMode :: bool
  ss_AuthType :: u8
  ss_AuthSeqKnown :: bool
  ss_ReceivedAuthSeq :: u32
  ss_SentAuthSeq :: u32
  ss_NumTxPackets :: u32
  ss_NumRxPackets :: u32
  ss_ToDownCount :: u32
  ss_ToUpCount :: u32
  ss_UpTime :: int

datatype bfd_output =
    Notify string bool      \<comment> \<open>\<open>notificationCh\<close>: destination and state\<close>
  | Transmit "byte list"    \<comment> \<open>\<open>txConn.Write\<close>\<close>

record BfdSession = SessionState +
  bs_rxInterval :: int
  bs_sessionTimer :: timer
  bs_txInterval :: int
  bs_txTimer :: timer
  bs_txJitter :: int
  bs_bfdPacket :: BfdControlPacket
  bs_bfdPacketBuf :: "byte list"
  bs_pollSequence :: bool
  bs_pollSequenceFinal :: bool
  bs_pollChanged :: bool
  bs_authEnabled :: bool
  bs_authType :: u8
  bs_authSeqNum :: u32
  bs_authKeyId :: u32
  bs_authData :: "byte list"
  bs_useDedicatedMac :: bool
  bs_paramChanged :: bool
  bs_remoteParamChanged :: bool
  bs_stateChanged :: bool
  bs_isClientActive :: bool
  bs_movedToDownState :: bool
  bs_notifiedState :: bool
  bs_out :: "bfd_output list"

type_synonym 'a bfd = "(bfd_error, 'a) outcome"

section \<open>Timers\<close>

definition tx_Reset :: "int \<Rightarrow> BfdSession \<Rightarrow> BfdSession bfd" where
  "tx_Reset d s = obind (timer_Reset (bs_txTimer s) d) (\<lambda>t. Ok (s\<lparr>bs_txTimer := t\<rparr>))"

definition tx_Stop :: "BfdSession \<Rightarrow> BfdSession bfd" where
  "tx_Stop s = obind (timer_Stop (bs_txTimer s)) (\<lambda>t. Ok (s\<lparr>bs_txTimer := t\<rparr>))"

definition session_Reset :: "int \<Rightarrow> BfdSession \<Rightarrow> BfdSession bfd" where
  "session_Reset d s =
     obind (timer_Reset (bs_sessionTimer s) d) (\<lambda>t. Ok (s\<lparr>bs_sessionTimer := t\<rparr>))"

definition session_Stop :: "BfdSession \<Rightarrow> BfdSession bfd" where
  "session_Stop s =
     obind (timer_Stop (bs_sessionTimer s)) (\<lambda>t. Ok (s\<lparr>bs_sessionTimer := t\<rparr>))"

text \<open>The part of \<open>StartSessionClient\<close> after the connection is up.\<close>

definition StartSessionClient :: "BfdSession \<Rightarrow> BfdSession" where
  "StartSessionClient s =
     s\<lparr>bs_txTimer := Armed (bs_txInterval s), bs_sessionTimer := Armed (bs_rxInterval s),
       bs_isClientActive := True\<rparr>"

section \<open>Notification\<close>

definition GetBfdSessionNotification :: "'a SessionState_scheme \<Rightarrow> bool" where
  "GetBfdSessionNotification s \<longleftrightarrow>
     ss_SessionState s = STATE_UP \<or> ss_SessionState s = STATE_ADMIN_DOWN \<or>
     ss_RemoteSessionState s = STATE_ADMIN_DOWN"

definition SendBfdNotification :: "BfdSession \<Rightarrow> BfdSession" where
  "SendBfdNotification s =
     (let bfdState = GetBfdSessionNotification s in
      if bfdState \<noteq> bs_notifiedState s
      then s\<lparr>bs_notifiedState := bfdState, bs_out := bs_out s @ [Notify (ss_IpAddr s) bfdState]\<rparr>
      else s)"

section \<open>Moves\<close>

definition IsSessionActive :: "BfdSession \<Rightarrow> bool" where
  "IsSessionActive s = bs_isClientActive s"

definition ResetLocalSessionParams :: "BfdSession \<Rightarrow> BfdSession" where
  "ResetLocalSessionParams s =
     s\<lparr>ss_SessionState := STATE_DOWN, ss_NumRxPackets := 0, ss_NumTxPackets := 0,
       ss_ToUpCount := 0, ss_ToDownCount := 0\<rparr>"

definition ResetRemoteSessionParams :: "BfdSession \<Rightarrow> BfdSession" where
  "ResetRemoteSessionParams s =
     s\<lparr>ss_RemoteDiscriminator := 0, ss_RemoteSessionState := STATE_DOWN,
       bs_remoteParamChanged := True\<rparr>"

definition startup_rx :: "BfdSession \<Rightarrow> int" where
  "startup_rx s = tdiv (to_i32 (STARTUP_RX_INTERVAL * ss_DetectionMultiplier s)) 1000"

definition LocalAdminDown :: "BfdSession \<Rightarrow> BfdSession bfd" where
  "LocalAdminDown s =
     (let s1 = SendBfdNotification
                 (s\<lparr>ss_SessionState := STATE_ADMIN_DOWN, ss_LocalDiagType := DIAG_ADMIN_DOWN,
                    bs_stateChanged := True\<rparr>)
      in obind (tx_Reset 0 (s1\<lparr>bs_txInterval := tdiv STARTUP_TX_INTERVAL 1000\<rparr>)) (\<lambda>s2.
           session_Stop (s2\<lparr>bs_rxInterval := startup_rx s2\<rparr>)))"

definition RemoteAdminDown :: "BfdSession \<Rightarrow> BfdSession bfd" where
  "RemoteAdminDown s =
     (let s1 = SendBfdNotification
                 (s\<lparr>ss_RemoteSessionState := STATE_ADMIN_DOWN,
                    ss_LocalDiagType := DIAG_NEIGHBOR_SIGNAL_DOWN\<rparr>)
      in obind (tx_Reset 0 (s1\<lparr>bs_txInterval := tdiv STARTUP_TX_INTERVAL 1000\<rparr>)) (\<lambda>s2.
           session_Stop (s2\<lparr>bs_rxInterval := startup_rx s2\<rparr>)))"

definition MoveToDownState :: "BfdSession \<Rightarrow> BfdSession bfd" where
  "MoveToDownState s =
     (let s1 = s\<lparr>ss_SessionState := STATE_DOWN, ss_ToDownCount := ss_ToDownCount s + 1,
                 bs_movedToDownState := True, bs_useDedicatedMac := True, bs_stateChanged := True\<rparr>;
          s2 = (if bs_authType s1 = BFD_AUTH_TYPE_KEYED_MD5 \<or> bs_authType s1 = BFD_AUTH_TYPE_KEYED_SHA1
                then s1\<lparr>bs_authSeqNum := bs_authSeqNum s1 + 1\<rparr> else s1);
          s3 = (SendBfdNotification s2)\<lparr>bs_txInterval := tdiv STARTUP_TX_INTERVAL 1000\<rparr>
      in obind (tx_Reset (bs_txInterval s3) s3) (\<lambda>s4.
           let s5 = s4\<lparr>bs_rxInterval := startup_rx s4\<rparr>
           in session_Reset (bs_rxInterval s5) s5))"

definition MoveToInitState :: "BfdSession \<Rightarrow> BfdSession bfd" where
  "MoveToInitState s =
     Ok (s\<lparr>ss_SessionState := STATE_INIT, bs_stateChanged := True, bs_useDedicatedMac := True,
           bs_movedToDownState := False\<rparr>)"

definition MoveToUpState :: "int \<Rightarrow> BfdSession \<Rightarrow> BfdSession bfd" where
  "MoveToUpState now s =
     Ok (SendBfdNotification
          (s\<lparr>ss_SessionState := STATE_UP, ss_UpTime := now, ss_ToUpCount := ss_ToUpCount s + 1,
             bs_stateChanged := True, bs_movedToDownState := False, ss_LocalDiagType := DIAG_NONE\<rparr>))"

section \<open>The state machine\<close>

text \<open>
  An event for a session without a running client is refused with an error that every caller
  discards; the result pairs that error with the session.
\<close>

definition handle_event :: "int \<Rightarrow> BfdSessionEvent \<Rightarrow> BfdSession \<Rightarrow> BfdSession bfd" where
  "handle_event now event s =
     (case ss_SessionState s of
        STATE_ADMIN_DOWN \<Rightarrow> Ok s
      | STATE_DOWN \<Rightarrow>
          (case event of
             REMOTE_DOWN \<Rightarrow> MoveToInitState s
           | REMOTE_INIT \<Rightarrow> MoveToUpState now s
           | ADMIN_UP \<Rightarrow> MoveToDownState s
           | ADMIN_DOWN \<Rightarrow> LocalAdminDown s
           | REMOTE_ADMIN_DOWN \<Rightarrow> RemoteAdminDown s
           | TIMEOUT \<Rightarrow> Ok s
           | REMOTE_UP \<Rightarrow> Ok s)
      | STATE_INIT \<Rightarrow>
          (case event of
             REMOTE_INIT \<Rightarrow> MoveToUpState now s
           | REMOTE_UP \<Rightarrow> MoveToUpState now s
           | TIMEOUT \<Rightarrow> MoveToDownState s
           | ADMIN_DOWN \<Rightarrow> LocalAdminDown s
           | REMOTE_ADMIN_DOWN \<Rightarrow> RemoteAdminDown s
           | REMOTE_DOWN \<Rightarrow> Ok s
           | ADMIN_UP \<Rightarrow> Ok s)
      | STATE_UP \<Rightarrow>
          (case event of
             REMOTE_DOWN \<Rightarrow> MoveToDownState s
           | TIMEOUT \<Rightarrow> MoveToDownState s
           | ADMIN_DOWN \<Rightarrow> LocalAdminDown s
           | REMOTE_ADMIN_DOWN \<Rightarrow> RemoteAdminDown s
           | REMOTE_INIT \<Rightarrow> Ok s
           | REMOTE_UP \<Rightarrow> Ok s
           | ADMIN_UP \<Rightarrow> Ok s))"

definition EventHandler ::
  "int \<Rightarrow> BfdSessionEvent \<Rightarrow> BfdSession \<Rightarrow> (bfd_error option \<times> BfdSession) bfd" where
  "EventHandler now event s =
     (if \<not> IsSessionActive s then Ok (Some SessionNotActive, s)
      else obind (handle_event now event s) (\<lambda>s'. Ok (None, s')))"

text \<open>A call whose error is discarded.\<close>

definition event :: "int \<Rightarrow> BfdSessionEvent \<Rightarrow> BfdSession \<Rightarrow> BfdSession bfd" where
  "event now ev s = obind (EventHandler now ev s) (\<lambda>(_, s'). Ok s')"

section \<open>Received packets\<close>

definition CanProcessBfdControlPacket :: "BfdControlPacket \<Rightarrow> bool" where
  "CanProcessBfdControlPacket p \<longleftrightarrow>
     k_Version p = DEFAULT_BFD_VERSION \<and> k_DetectMult p \<noteq> 0 \<and> \<not> k_Multipoint p \<and>
     k_MyDiscriminator p \<noteq> 0"

text \<open>
  \<open>binary.Write\<close> of a pointer to \<open>BfdControlPacket\<close>: the struct has fields of type \<open>int\<close> and a pointer, which
  have no fixed size, so \<open>binary.Write\<close> returns an error and writes nothing.
\<close>

definition binary_Write_packet :: "BfdControlPacket \<Rightarrow> byte list" where
  "binary_Write_packet p = []"

text \<open>
  The first result is the verdict. The second is the packet after the call: the copy shares the
  header with the original, so the key is written into the received packet too.
\<close>

definition AuthenticateReceivedControlPacket ::
  "BfdSession \<Rightarrow> BfdControlPacket \<Rightarrow> (bool \<times> BfdControlPacket) bfd" where
  "AuthenticateReceivedControlPacket s p =
     (if \<not> k_AuthPresent p then Ok (True, p)
      else
        case k_AuthHeader p of
          None \<Rightarrow> Panic
        | Some h \<Rightarrow>
            if a_Type h \<noteq> bs_authType s then Ok (False, p)
            else if a_Type h = BFD_AUTH_TYPE_SIMPLE then
              Ok (ucast (a_AuthKeyID h) = bs_authKeyId s \<and> a_AuthData h = bs_authData s, p)
            else if a_SequenceNumber h \<ge> ss_ReceivedAuthSeq s \<and> ucast (a_AuthKeyID h) = bs_authKeyId s
            then
              (let p' = p\<lparr>k_AuthHeader := Some (h\<lparr>a_AuthData := bs_authData s\<rparr>)\<rparr>;
                   buf = binary_Write_packet p'
               in Ok (is_md5 (a_Type h) \<and> a_AuthData h = md5_Sum buf \<or>
                      is_sha1 (a_Type h) \<and> a_AuthData h = sha1_Sum buf, p'))
            else Ok (False, p))"

definition CheckAnyRemoteParamChanged :: "BfdControlPacket \<Rightarrow> BfdSession \<Rightarrow> BfdSession" where
  "CheckAnyRemoteParamChanged p s =
     (let changed = ss_RemoteSessionState s \<noteq> k_State p \<or>
                    ss_RemoteDiscriminator s \<noteq> k_MyDiscriminator p \<or>
                    ss_RemoteMinRxInterval s \<noteq> to_i32 (k_RequiredMinRxInterval p)
      in s\<lparr>bs_remoteParamChanged := (changed \<or> bs_remoteParamChanged s),
           ss_RemoteSessionState := k_State p, ss_RemoteDiscriminator := k_MyDiscriminator p,
           ss_RemoteMinRxInterval := to_i32 (k_RequiredMinRxInterval p),
           ss_RemoteDetectionMultiplier := uint (k_DetectMult p)\<rparr>)"

definition ApplyTxJitter :: "(int \<Rightarrow> int \<Rightarrow> int) \<Rightarrow> BfdSession \<Rightarrow> int" where
  "ApplyTxJitter jitter s = jitter (bs_txInterval s) (bs_txJitter s)"

definition RemoteChangedDemandMode ::
  "(int \<Rightarrow> int \<Rightarrow> int) \<Rightarrow> BfdControlPacket \<Rightarrow> BfdSession \<Rightarrow> BfdSession bfd" where
  "RemoteChangedDemandMode jitter p s =
     (let wasDemandMode = ss_RemoteDemandMode s;
          s1 = s\<lparr>ss_RemoteDemandMode := k_Demand p\<rparr>
      in obind (if ss_RemoteDemandMode s1 then tx_Stop s1 else Ok s1) (\<lambda>s2.
           if wasDemandMode \<and> \<not> ss_RemoteDemandMode s2
           then tx_Reset (ApplyTxJitter jitter s2) s2 else Ok s2))"

definition InitiatePollSequence :: "BfdSession \<Rightarrow> BfdSession" where
  "InitiatePollSequence s =
     (if bs_pollSequence s then s else s\<lparr>bs_pollSequence := True, bs_pollChanged := True\<rparr>)"

definition ProcessPollSequence :: "BfdControlPacket \<Rightarrow> BfdSession \<Rightarrow> BfdSession" where
  "ProcessPollSequence p s =
     (if ss_SessionState s = STATE_ADMIN_DOWN then s
      else
        let s1 = (if k_Poll p then s\<lparr>bs_pollSequenceFinal := True, bs_pollChanged := True\<rparr> else s)
        in if k_Final p then s1\<lparr>bs_pollSequence := False, bs_pollChanged := True\<rparr> else s1)"

definition remote_event :: "BfdSession \<Rightarrow> (BfdSessionEvent \<times> BfdSession) bfd" where
  "remote_event s =
     (case ss_RemoteSessionState s of
        STATE_DOWN \<Rightarrow>
          Ok (REMOTE_DOWN, if ss_SessionState s \<noteq> STATE_DOWN
                           then s\<lparr>ss_LocalDiagType := DIAG_NEIGHBOR_SIGNAL_DOWN\<rparr> else s)
      | STATE_INIT \<Rightarrow> Ok (REMOTE_INIT, s)
      | STATE_UP \<Rightarrow>
          if ss_SessionState s = STATE_UP \<and>
             bs_txInterval s \<noteq> tdiv (ss_DesiredMinTxInterval s) 1000
          then obind (tx_Reset 0 (s\<lparr>bs_txInterval := tdiv (ss_DesiredMinTxInterval s) 1000\<rparr>))
                 (\<lambda>s1. Ok (REMOTE_UP, s1))
          else Ok (REMOTE_UP, s)
      | STATE_ADMIN_DOWN \<Rightarrow> Ok (REMOTE_ADMIN_DOWN, s))"

definition detection_interval :: "BfdControlPacket \<Rightarrow> BfdSession \<Rightarrow> int" where
  "detection_interval p s =
     (if ss_SessionState s = STATE_UP \<and> ss_RemoteSessionState s = STATE_UP
      then tdiv (to_i32 (to_i32 (k_DesiredMinTxInterval p) * uint (k_DetectMult p))) 1000
      else tdiv (to_i32 (STARTUP_RX_INTERVAL * uint (k_DetectMult p))) 1000)"

definition ProcessBfdPacket ::
  "(int \<Rightarrow> int \<Rightarrow> int) \<Rightarrow> int \<Rightarrow> BfdControlPacket \<Rightarrow> BfdSession \<Rightarrow> BfdSession bfd" where
  "ProcessBfdPacket jitter now bfdPacket s =
     obind (AuthenticateReceivedControlPacket s bfdPacket) (\<lambda>(authenticated, p).
       if \<not> authenticated then Ok s
       else if \<not> CanProcessBfdControlPacket p then Ok s
       else
         let s1 = CheckAnyRemoteParamChanged p (s\<lparr>bs_rxInterval := detection_interval p s\<rparr>)
         in obind (RemoteChangedDemandMode jitter p s1) (\<lambda>s2.
              let s3 = ProcessPollSequence p s2
              in obind (if bs_rxInterval s3 = 0 \<or> ss_SessionState s3 = STATE_ADMIN_DOWN \<or>
                           ss_RemoteSessionState s3 = STATE_ADMIN_DOWN
                        then session_Stop s3 else Ok s3) (\<lambda>s4.
                   obind (remote_event s4) (\<lambda>(ev, s5). event now ev s5))))"

section \<open>Sent packets\<close>

definition update_intervals :: "BfdSession \<Rightarrow> BfdSession bfd" where
  "update_intervals s =
     (let p = bs_bfdPacket s in
      if ss_SessionState s = STATE_UP \<and> ss_RemoteSessionState s = STATE_UP then
        (let s1 = (if k_DesiredMinTxInterval p = STARTUP_TX_INTERVAL \<or>
                      k_RequiredMinRxInterval p = STARTUP_RX_INTERVAL
                   then InitiatePollSequence
                          (s\<lparr>bs_bfdPacket := p\<lparr>k_DesiredMinTxInterval := ss_DesiredMinTxInterval s,
                                              k_RequiredMinRxInterval := ss_RequiredMinRxInterval s\<rparr>\<rparr>)
                   else s);
             wasDemand = k_Demand (bs_bfdPacket s1);
             isDemand = ss_DemandMode s1;
             s2 = s1\<lparr>bs_bfdPacket := (bs_bfdPacket s1)\<lparr>k_Demand := isDemand\<rparr>\<rparr>
         in obind (if \<not> wasDemand \<and> isDemand then session_Stop s2 else Ok s2) (\<lambda>s3.
              if wasDemand \<and> \<not> isDemand then session_Reset (bs_rxInterval s3) s3 else Ok s3))
      else Ok (s\<lparr>bs_bfdPacket := p\<lparr>k_DesiredMinTxInterval := STARTUP_TX_INTERVAL,
                                    k_RequiredMinRxInterval := STARTUP_RX_INTERVAL\<rparr>\<rparr>))"

text \<open>The header is written through its pointer, which may be \<open>nil\<close>.\<close>

definition update_auth :: "BfdSession \<Rightarrow> BfdSession bfd" where
  "update_auth s =
     (if bs_authEnabled s then
        (case k_AuthHeader (bs_bfdPacket s) of
           None \<Rightarrow> Panic
         | Some h \<Rightarrow>
             let h1 = h\<lparr>a_Type := bs_authType s\<rparr>;
                 h2 = (if bs_authType s \<noteq> BFD_AUTH_TYPE_SIMPLE
                       then h1\<lparr>a_SequenceNumber := bs_authSeqNum s\<rparr> else h1);
                 s1 = (if bs_authType s = BFD_AUTH_TYPE_METICULOUS_MD5 \<or>
                          bs_authType s = BFD_AUTH_TYPE_METICULOUS_SHA1
                       then s\<lparr>bs_authSeqNum := bs_authSeqNum s + 1\<rparr> else s);
                 h3 = h2\<lparr>a_AuthKeyID := ucast (bs_authKeyId s1), a_AuthData := bs_authData s1\<rparr>
             in Ok (s1\<lparr>bs_bfdPacket :=
                     (bs_bfdPacket s1)\<lparr>k_AuthPresent := True, k_AuthHeader := Some h3\<rparr>\<rparr>))
      else Ok (s\<lparr>bs_bfdPacket := (bs_bfdPacket s)\<lparr>k_AuthPresent := False\<rparr>\<rparr>))"

definition UpdateBfdSessionControlPacket :: "BfdSession \<Rightarrow> BfdSession bfd" where
  "UpdateBfdSessionControlPacket s =
     (let s1 = s\<lparr>bs_bfdPacket := (bs_bfdPacket s)
                   \<lparr>k_Diagnostic := ss_LocalDiagType s, k_State := ss_SessionState s,
                    k_DetectMult := word_of_int (ss_DetectionMultiplier s),
                    k_MyDiscriminator := ss_LocalDiscriminator s,
                    k_YourDiscriminator := ss_RemoteDiscriminator s\<rparr>\<rparr>
      in obind (update_intervals s1) (\<lambda>s2.
           let s3 = s2\<lparr>bs_bfdPacket := (bs_bfdPacket s2)\<lparr>k_Poll := bs_pollSequence s2,
                                                          k_Final := bs_pollSequenceFinal s2\<rparr>,
                       bs_pollSequence := False, bs_pollSequenceFinal := False\<rparr>
           in obind (update_auth s3) (\<lambda>s4.
                Ok (s4\<lparr>bs_pollChanged := False, bs_paramChanged := False,
                       bs_stateChanged := False, bs_remoteParamChanged := False\<rparr>))))"

definition NeedBfdPacketUpdate :: "BfdSession \<Rightarrow> bool" where
  "NeedBfdPacketUpdate s \<longleftrightarrow>
     bs_paramChanged s \<or> bs_remoteParamChanged s \<or> bs_pollChanged s \<or> bs_stateChanged s"

definition rebuild_packet :: "BfdSession \<Rightarrow> BfdSession bfd" where
  "rebuild_packet s =
     obind (UpdateBfdSessionControlPacket s) (\<lambda>s1.
       Ok (s1\<lparr>bs_bfdPacketBuf := CreateBfdControlPacket (bs_bfdPacket s1)\<rparr>))"

text \<open>\<open>sent\<close>: did \<open>txConn.Write\<close> succeed?\<close>

definition SendPeriodicControlPackets ::
  "(int \<Rightarrow> int \<Rightarrow> int) \<Rightarrow> bool \<Rightarrow> BfdSession \<Rightarrow> BfdSession bfd" where
  "SendPeriodicControlPackets jitter sent s =
     (let packetUpdated = NeedBfdPacketUpdate s in
      obind (if packetUpdated then rebuild_packet s else Ok s) (\<lambda>s1.
        let s2 = (if sent then s1\<lparr>bs_out := bs_out s1 @ [Transmit (bs_bfdPacketBuf s1)],
                                  ss_NumTxPackets := ss_NumTxPackets s1 + 1\<rparr> else s1)
        in obind (if packetUpdated then rebuild_packet s2 else Ok s2) (\<lambda>s3.
             let s4 = (if ss_SessionState s3 = STATE_UP \<or> ss_RemoteSessionState s3 = STATE_UP
                       then s3\<lparr>bs_txInterval := tdiv (ss_DesiredMinTxInterval s3) 1000\<rparr> else s3)
             in tx_Reset (ApplyTxJitter jitter s4) s4)))"

section \<open>Timeouts and administration\<close>

definition HandleSessionTimeout :: "int \<Rightarrow> BfdSession \<Rightarrow> BfdSession bfd" where
  "HandleSessionTimeout now s =
     (let s1 = (if bs_movedToDownState s
                then (ResetRemoteSessionParams s)\<lparr>bs_movedToDownState := False\<rparr> else s)
      in obind (event now TIMEOUT (s1\<lparr>ss_LocalDiagType := DIAG_TIME_EXPIRED\<rparr>)) (\<lambda>s2.
           session_Reset (bs_rxInterval s2) s2))"

definition StopBfdSession :: "int \<Rightarrow> BfdSession \<Rightarrow> BfdSession bfd" where
  "StopBfdSession now s =
     obind (event now ADMIN_DOWN s) (\<lambda>s1. Ok (s1\<lparr>ss_LocalDiagType := DIAG_ADMIN_DOWN\<rparr>))"

definition StartBfdSession ::
  "(int \<Rightarrow> int \<Rightarrow> int) \<Rightarrow> int \<Rightarrow> BfdSession \<Rightarrow> BfdSession bfd" where
  "StartBfdSession jitter now s =
     obind (session_Reset (bs_rxInterval s) s) (\<lambda>s1.
     obind (tx_Reset (ApplyTxJitter jitter s1) s1) (\<lambda>s2.
       event now ADMIN_UP (s2\<lparr>ss_SessionState := STATE_DOWN\<rparr>)))"

definition CheckIfAnyProtocolRegistered :: "'a SessionState_scheme \<Rightarrow> bool bfd" where
  "CheckIfAnyProtocolRegistered s =
     foldr (\<lambda>i r. obind (idx (ss_RegisteredProtocols s) i) (\<lambda>b. if b then Ok True else r))
       [1..<MAX_APPS] (Ok False)"

section \<open>The session as a machine\<close>

text \<open>
  What happens to a started session: a packet from \<open>ReceivedPacketCh\<close>, the expiry of one of its
  timers (only an armed timer expires), the administrator's calls.
\<close>

datatype bfd_input =
  RxBfd BfdControlPacket | SessionExpiry | TxExpiry bool | AdminStop | AdminStart

fun bfd_handle ::
  "(int \<Rightarrow> int \<Rightarrow> int) \<Rightarrow> int \<Rightarrow> bfd_input \<Rightarrow> BfdSession \<Rightarrow> BfdSession bfd" where
  "bfd_handle jitter now (RxBfd p) s =
     ProcessBfdPacket jitter now p (s\<lparr>ss_NumRxPackets := ss_NumRxPackets s + 1\<rparr>)"
| "bfd_handle jitter now SessionExpiry s =
     (if armed (bs_sessionTimer s)
      then HandleSessionTimeout now (s\<lparr>bs_sessionTimer := Idle\<rparr>) else Ok s)"
| "bfd_handle jitter now (TxExpiry sent) s =
     (if armed (bs_txTimer s)
      then SendPeriodicControlPackets jitter sent (s\<lparr>bs_txTimer := Idle\<rparr>) else Ok s)"
| "bfd_handle jitter now AdminStop s = StopBfdSession now s"
| "bfd_handle jitter now AdminStart s = StartBfdSession jitter now s"

end
