(* ===== verification/BfdLive.thy ===== *)
theory BfdLive
  imports BfdSession
begin

text \<open>
  What a BFD session guarantees once its client runs: it follows the diagram of \<open>bfdSession.go\<close>,
  never panics, sends packets its peer accepts, and comes up with a peer in three packets; and
  where the code departs from that (authentication, administrative states).
\<close>

section \<open>Live sessions\<close>

text \<open>A packet record the session can fill in and send.\<close>

definition packet_ok :: "BfdControlPacket \<Rightarrow> bool" where
  "packet_ok p \<longleftrightarrow>
     k_Version p = 1 \<and> \<not> k_Multipoint p \<and> k_AuthHeader p = None \<and>
     0 \<le> k_DesiredMinTxInterval p \<and> k_DesiredMinTxInterval p < 2 ^ 32 \<and>
     0 \<le> k_RequiredMinRxInterval p \<and> k_RequiredMinRxInterval p < 2 ^ 32 \<and>
     0 \<le> k_RequiredMinEchoRxInterval p \<and> k_RequiredMinEchoRxInterval p < 2 ^ 32"

text \<open>
  A session whose client runs: both timers exist, no authentication, and parameters within the
  ranges of the packet fields.
\<close>

definition params_ok :: "'a SessionState_scheme \<Rightarrow> bool" where
  "params_ok s \<longleftrightarrow>
     1 \<le> ss_DetectionMultiplier s \<and> ss_DetectionMultiplier s \<le> 255 \<and>
     ss_LocalDiscriminator s \<noteq> 0 \<and>
     0 \<le> ss_DesiredMinTxInterval s \<and> ss_DesiredMinTxInterval s < 2 ^ 31 \<and>
     0 \<le> ss_RequiredMinRxInterval s \<and> ss_RequiredMinRxInterval s < 2 ^ 31"

definition live :: "BfdSession \<Rightarrow> bool" where
  "live s \<longleftrightarrow> bs_isClientActive s \<and> bs_sessionTimer s \<noteq> NoTimer \<and> bs_txTimer s \<noteq> NoTimer \<and>
     \<not> bs_authEnabled s \<and> params_ok s \<and> 0 \<le> ss_LocalDiagType s \<and> ss_LocalDiagType s < 32 \<and>
     packet_ok (bs_bfdPacket s)"

lemma timer_ops_live:
  assumes "live s"
  shows "tx_Reset d s = Ok (s\<lparr>bs_txTimer := Armed d\<rparr>)" "tx_Stop s = Ok (s\<lparr>bs_txTimer := Idle\<rparr>)"
    "session_Reset d s = Ok (s\<lparr>bs_sessionTimer := Armed d\<rparr>)" "session_Stop s = Ok (s\<lparr>bs_sessionTimer := Idle\<rparr>)"
  using assms by (simp_all add: live_def tx_Reset_def tx_Stop_def session_Reset_def session_Stop_def)

lemma live_update [simp]:
  "live (s\<lparr>bs_txTimer := Armed d\<rparr>) = live (s\<lparr>bs_txTimer := Idle\<rparr>)"
  "live (s\<lparr>bs_sessionTimer := Armed d\<rparr>) = live (s\<lparr>bs_sessionTimer := Idle\<rparr>)"
  "live s \<Longrightarrow> live (s\<lparr>bs_txTimer := Idle\<rparr>)" "live s \<Longrightarrow> live (s\<lparr>bs_sessionTimer := Idle\<rparr>)"
  "live (s\<lparr>bs_rxInterval := i\<rparr>) = live s" "live (s\<lparr>bs_txInterval := i\<rparr>) = live s"
  "live (s\<lparr>ss_SessionState := x\<rparr>) = live s" "live (s\<lparr>ss_RemoteSessionState := x\<rparr>) = live s"
  "live s \<Longrightarrow> 0 \<le> g \<Longrightarrow> g < 32 \<Longrightarrow> live (s\<lparr>ss_LocalDiagType := g\<rparr>)" "live (s\<lparr>bs_stateChanged := b\<rparr>) = live s"
  "live (s\<lparr>ss_ToDownCount := w\<rparr>) = live s" "live (s\<lparr>ss_ToUpCount := w\<rparr>) = live s"
  "live (s\<lparr>ss_NumRxPackets := w\<rparr>) = live s" "live (s\<lparr>ss_NumTxPackets := w\<rparr>) = live s"
  "live (s\<lparr>ss_UpTime := i\<rparr>) = live s" "live (s\<lparr>bs_movedToDownState := b\<rparr>) = live s"
  "live (s\<lparr>bs_useDedicatedMac := b\<rparr>) = live s" "live (s\<lparr>bs_authSeqNum := w\<rparr>) = live s"
  "live (s\<lparr>bs_remoteParamChanged := b\<rparr>) = live s" "live (s\<lparr>ss_RemoteDiscriminator := w\<rparr>) = live s"
  "live (s\<lparr>ss_RemoteMinRxInterval := i\<rparr>) = live s" "live (s\<lparr>ss_RemoteDetectionMultiplier := i\<rparr>) = live s"
  "live (s\<lparr>ss_RemoteDemandMode := b\<rparr>) = live s" "live (s\<lparr>bs_pollSequence := b\<rparr>) = live s"
  "live (s\<lparr>bs_pollSequenceFinal := b\<rparr>) = live s" "live (s\<lparr>bs_pollChanged := b\<rparr>) = live s"
  "live (s\<lparr>bs_paramChanged := b\<rparr>) = live s" "live s \<Longrightarrow> packet_ok p \<Longrightarrow> live (s\<lparr>bs_bfdPacket := p\<rparr>)"
  "live (s\<lparr>bs_bfdPacketBuf := bs\<rparr>) = live s" "live (s\<lparr>bs_out := ops\<rparr>) = live s"
  "live (s\<lparr>bs_notifiedState := b\<rparr>) = live s"
  by (auto simp: live_def params_ok_def)

lemma diag_range [simp]:
  "0 \<le> DIAG_NONE" "DIAG_NONE < 32" "0 \<le> DIAG_TIME_EXPIRED" "DIAG_TIME_EXPIRED < 32"
  "0 \<le> DIAG_NEIGHBOR_SIGNAL_DOWN" "DIAG_NEIGHBOR_SIGNAL_DOWN < 32"
  "0 \<le> DIAG_ADMIN_DOWN" "DIAG_ADMIN_DOWN < 32"
  by (simp_all add: DIAG_NONE_def DIAG_TIME_EXPIRED_def DIAG_NEIGHBOR_SIGNAL_DOWN_def DIAG_ADMIN_DOWN_def)

lemma live_SendBfdNotification [simp]: "live (SendBfdNotification s) = live s"
  by (simp add: SendBfdNotification_def Let_def)

lemma SendBfdNotification_frame [simp]:
  "ss_SessionState (SendBfdNotification s) = ss_SessionState s"
  "ss_RemoteSessionState (SendBfdNotification s) = ss_RemoteSessionState s"
  "ss_LocalDiagType (SendBfdNotification s) = ss_LocalDiagType s"
  "ss_DetectionMultiplier (SendBfdNotification s) = ss_DetectionMultiplier s"
  "bs_notifiedState (SendBfdNotification s) = GetBfdSessionNotification s"
  "ss_IpAddr (SendBfdNotification s) = ss_IpAddr s"
  by (simp_all add: SendBfdNotification_def Let_def)

lemmas move_defs = MoveToDownState_def MoveToInitState_def MoveToUpState_def LocalAdminDown_def
  RemoteAdminDown_def Let_def

text \<open>The transition table of the diagram in \<open>bfdSession.go\<close>.\<close>

fun next_state :: "BfdSessionState \<Rightarrow> BfdSessionEvent \<Rightarrow> BfdSessionState" where
  "next_state STATE_DOWN REMOTE_DOWN = STATE_INIT"
| "next_state STATE_DOWN REMOTE_INIT = STATE_UP"
| "next_state STATE_INIT REMOTE_INIT = STATE_UP"
| "next_state STATE_INIT REMOTE_UP = STATE_UP"
| "next_state STATE_INIT TIMEOUT = STATE_DOWN"
| "next_state STATE_UP REMOTE_DOWN = STATE_DOWN"
| "next_state STATE_UP TIMEOUT = STATE_DOWN"
| "next_state STATE_ADMIN_DOWN e = STATE_ADMIN_DOWN"
| "next_state s ADMIN_DOWN = STATE_ADMIN_DOWN"
| "next_state s e = s"

lemma stateChanged_SendBfdNotification [simp]:
  "bs_stateChanged (SendBfdNotification s) = bs_stateChanged s"
  by (simp add: SendBfdNotification_def Let_def)

text \<open>
  What the clients and the peer of a session have been told. A move is flagged for the next packet; a
  move to Up is announced to the clients, unless they were last told that the session is up.
\<close>

definition news :: "BfdSession \<Rightarrow> bfd_output list \<times> bool \<times> string" where
  "news s = (bs_out s, bs_notifiedState s, ss_IpAddr s)"

definition announced_up :: "BfdSession \<Rightarrow> bfd_output list \<times> bool \<times> string" where
  "announced_up s =
     (bs_out s @ (if bs_notifiedState s then [] else [Notify (ss_IpAddr s) True]), True, ss_IpAddr s)"

definition moved :: "BfdSession \<Rightarrow> BfdSession \<Rightarrow> bool" where
  "moved s s' \<longleftrightarrow> (ss_SessionState s' \<noteq> ss_SessionState s \<longrightarrow> bs_stateChanged s' \<and>
     (ss_SessionState s' = STATE_UP \<longrightarrow> news s' = announced_up s) \<and>
     (ss_SessionState s' = STATE_INIT \<longrightarrow> news s' = news s))"

lemma moved_news: "news s = news s0 \<Longrightarrow> ss_SessionState s = ss_SessionState s0 \<Longrightarrow> moved s s' \<Longrightarrow> moved s0 s'"
  by (auto simp: moved_def news_def announced_up_def)

lemma handle_event_live:
  assumes "live s"
  shows "\<exists>s'. handle_event now ev s = Ok s' \<and> live s' \<and>
     ss_SessionState s' = next_state (ss_SessionState s) ev \<and> moved s s'"
  using assms
  by (cases "ss_SessionState s"; cases ev)
     (auto simp: handle_event_def move_defs timer_ops_live moved_def GetBfdSessionNotification_def
       news_def announced_up_def SendBfdNotification_def)

lemma event_live:
  assumes "live s"
  shows "\<exists>s'. event now ev s = Ok s' \<and> live s' \<and>
     ss_SessionState s' = next_state (ss_SessionState s) ev \<and> moved s s'"
  using handle_event_live [OF assms, of now ev] assms
  by (auto simp: event_def EventHandler_def IsSessionActive_def live_def)

section \<open>Every handler keeps a session live\<close>

lemma Authenticate_Ok:
  assumes "k_AuthPresent p \<Longrightarrow> k_AuthHeader p \<noteq> None"
  shows "\<exists>b h. AuthenticateReceivedControlPacket s p = Ok (b, p\<lparr>k_AuthHeader := h\<rparr>)"
proof (cases "k_AuthHeader p")
  case None
  then have "\<not> k_AuthPresent p" using assms by blast
  moreover have "p\<lparr>k_AuthHeader := None\<rparr> = p" using None by (cases p) simp
  ultimately have "AuthenticateReceivedControlPacket s p = Ok (True, p\<lparr>k_AuthHeader := None\<rparr>)"
    by (simp add: AuthenticateReceivedControlPacket_def)
  then show ?thesis by blast
next
  case (Some h)
  then have "p\<lparr>k_AuthHeader := Some h\<rparr> = p" by (cases p) simp
  then show ?thesis
    by (auto simp: AuthenticateReceivedControlPacket_def Some Let_def intro: exI [of _ "Some h"])
qed

lemma live_CheckAnyRemoteParamChanged [simp]: "live (CheckAnyRemoteParamChanged p s) = live s"
  by (simp add: CheckAnyRemoteParamChanged_def Let_def)

lemma live_ProcessPollSequence [simp]: "live (ProcessPollSequence p s) = live s"
  by (simp add: ProcessPollSequence_def Let_def)

lemma live_InitiatePollSequence [simp]: "live (InitiatePollSequence s) = live s"
  by (simp add: InitiatePollSequence_def)

lemma RemoteChangedDemandMode_live:
  "live s \<Longrightarrow> \<exists>s'. RemoteChangedDemandMode j p s = Ok s' \<and> live s' \<and>
     ss_SessionState s' = ss_SessionState s \<and> ss_RemoteSessionState s' = ss_RemoteSessionState s \<and> news s' = news s"
  by (cases "k_Demand p"; cases "ss_RemoteDemandMode s")
     (simp_all add: RemoteChangedDemandMode_def Let_def timer_ops_live news_def)

text \<open>The event a received state stands for.\<close>

fun event_of :: "BfdSessionState \<Rightarrow> BfdSessionEvent" where
  "event_of STATE_ADMIN_DOWN = REMOTE_ADMIN_DOWN"
| "event_of STATE_DOWN = REMOTE_DOWN"
| "event_of STATE_INIT = REMOTE_INIT"
| "event_of STATE_UP = REMOTE_UP"

lemma remote_event_live:
  "live s \<Longrightarrow> \<exists>s'. remote_event s = Ok (event_of (ss_RemoteSessionState s), s') \<and> live s' \<and>
     ss_SessionState s' = ss_SessionState s \<and> news s' = news s"
  by (cases "ss_RemoteSessionState s") (simp_all add: remote_event_def timer_ops_live news_def)

lemma poll_frame [simp]:
  "ss_SessionState (ProcessPollSequence p s) = ss_SessionState s"
  "ss_RemoteSessionState (ProcessPollSequence p s) = ss_RemoteSessionState s"
  "ss_SessionState (CheckAnyRemoteParamChanged p s) = ss_SessionState s"
  "ss_RemoteSessionState (CheckAnyRemoteParamChanged p s) = k_State p"
  "news (ProcessPollSequence p s) = news s" "news (CheckAnyRemoteParamChanged p s) = news s"
  by (simp_all add: news_def ProcessPollSequence_def CheckAnyRemoteParamChanged_def Let_def)

lemma stop_if_live:
  assumes "live s"
  shows "\<exists>s'. (if b then session_Stop s else Ok s) = Ok s' \<and> live s' \<and>
     ss_SessionState s' = ss_SessionState s \<and> ss_RemoteSessionState s' = ss_RemoteSessionState s \<and> news s' = news s"
  using assms by (cases b) (simp_all add: timer_ops_live news_def)

lemma ProcessBfdPacket_accepted:
  assumes "live s" and a: "AuthenticateReceivedControlPacket s p = Ok (True, p')"
    and "CanProcessBfdControlPacket p'"
  shows "\<exists>s'. ProcessBfdPacket j now p s = Ok s' \<and> live s' \<and>
     ss_SessionState s' = next_state (ss_SessionState s) (event_of (k_State p')) \<and> moved s s'"
proof -
  let ?s1 = "CheckAnyRemoteParamChanged p' (s\<lparr>bs_rxInterval := detection_interval p' s\<rparr>)"
  obtain s2 where s2: "RemoteChangedDemandMode j p' ?s1 = Ok s2" "live s2"
      "ss_SessionState s2 = ss_SessionState s" "ss_RemoteSessionState s2 = k_State p'" "news s2 = news s"
    using RemoteChangedDemandMode_live [of ?s1 j p'] assms(1) by (auto simp: news_def [of "s\<lparr>bs_rxInterval := i\<rparr>" for i] news_def [of s])
  let ?s3 = "ProcessPollSequence p' s2"
  obtain s4 where s4: "(if bs_rxInterval ?s3 = 0 \<or> ss_SessionState ?s3 = STATE_ADMIN_DOWN \<or>
        ss_RemoteSessionState ?s3 = STATE_ADMIN_DOWN then session_Stop ?s3 else Ok ?s3) = Ok s4" "live s4"
      "ss_SessionState s4 = ss_SessionState s" "ss_RemoteSessionState s4 = k_State p'" "news s4 = news s"
    using stop_if_live [of ?s3] s2 by (metis live_ProcessPollSequence poll_frame(1,2,5))
  obtain s5 where s5: "remote_event s4 = Ok (event_of (k_State p'), s5)" "live s5"
      "ss_SessionState s5 = ss_SessionState s" "news s5 = news s"
    using remote_event_live [OF s4(2)] s4 by auto
  have "ProcessBfdPacket j now p s = event now (event_of (k_State p')) s5"
    unfolding ProcessBfdPacket_def a obind.simps prod.case Let_def s2(1) s4(1) s5(1)
    using assms(3) by simp
  then show ?thesis using event_live [OF s5(2)] s5(3) moved_news [OF s5(4,3)] by fastforce
qed

lemma ProcessBfdPacket_live:
  assumes "live s" and "k_AuthPresent p \<Longrightarrow> k_AuthHeader p \<noteq> None"
  shows "\<exists>s'. ProcessBfdPacket j now p s = Ok s' \<and> live s'"
proof -
  obtain b h where a: "AuthenticateReceivedControlPacket s p = Ok (b, p\<lparr>k_AuthHeader := h\<rparr>)"
    using Authenticate_Ok [OF assms(2)] by blast
  show ?thesis
  proof (cases "b \<and> CanProcessBfdControlPacket (p\<lparr>k_AuthHeader := h\<rparr>)")
    case True
    then have "AuthenticateReceivedControlPacket s p = Ok (True, p\<lparr>k_AuthHeader := h\<rparr>)" using a by simp
    from ProcessBfdPacket_accepted [OF assms(1) this] True show ?thesis by blast
  qed (use a assms(1) in \<open>auto simp: ProcessBfdPacket_def\<close>)
qed

lemma packet_ok_update [simp]:
  "packet_ok (p\<lparr>k_Diagnostic := d\<rparr>) = packet_ok p" "packet_ok (p\<lparr>k_State := s\<rparr>) = packet_ok p"
  "packet_ok (p\<lparr>k_DetectMult := m\<rparr>) = packet_ok p" "packet_ok (p\<lparr>k_MyDiscriminator := w\<rparr>) = packet_ok p"
  "packet_ok (p\<lparr>k_YourDiscriminator := w\<rparr>) = packet_ok p" "packet_ok (p\<lparr>k_Poll := b\<rparr>) = packet_ok p"
  "packet_ok (p\<lparr>k_Final := b\<rparr>) = packet_ok p" "packet_ok (p\<lparr>k_Demand := b\<rparr>) = packet_ok p"
  "packet_ok (p\<lparr>k_AuthPresent := b\<rparr>) = packet_ok p"
  "packet_ok p \<Longrightarrow> 0 \<le> i \<Longrightarrow> i < 2 ^ 32 \<Longrightarrow> packet_ok (p\<lparr>k_DesiredMinTxInterval := i\<rparr>)"
  "packet_ok p \<Longrightarrow> 0 \<le> i \<Longrightarrow> i < 2 ^ 32 \<Longrightarrow> packet_ok (p\<lparr>k_RequiredMinRxInterval := i\<rparr>)"
  by (simp_all add: packet_ok_def)

lemma liveD:
  assumes "live s"
  shows "packet_ok (bs_bfdPacket s)" "params_ok s" "\<not> bs_authEnabled s"
    "0 \<le> ss_DesiredMinTxInterval s" "ss_DesiredMinTxInterval s < 2 ^ 32"
    "0 \<le> ss_RequiredMinRxInterval s" "ss_RequiredMinRxInterval s < 2 ^ 32"
    "0 \<le> ss_LocalDiagType s" "ss_LocalDiagType s < 32"
  using assms by (auto simp: live_def params_ok_def)

text \<open>What building a packet leaves alone.\<close>

definition core :: "BfdControlPacket \<Rightarrow> int \<times> BfdSessionState \<times> u8 \<times> u32 \<times> u32" where
  "core p = (k_Diagnostic p, k_State p, k_DetectMult p, k_MyDiscriminator p, k_YourDiscriminator p)"

definition same_session :: "BfdSession \<Rightarrow> BfdSession \<Rightarrow> bool" where
  "same_session s s' \<longleftrightarrow> SessionState.truncate s' = SessionState.truncate s \<and> bs_out s' = bs_out s \<and>
     bs_notifiedState s' = bs_notifiedState s"

lemma update_intervals_live:
  assumes "live s"
  shows "\<exists>s'. update_intervals s = Ok s' \<and> live s' \<and> core (bs_bfdPacket s') = core (bs_bfdPacket s) \<and>
     same_session s s' \<and> bs_pollSequenceFinal s' = bs_pollSequenceFinal s"
proof -
  let ?p = "bs_bfdPacket s"
  define s1 where "s1 = (if k_DesiredMinTxInterval ?p = STARTUP_TX_INTERVAL \<or>
                      k_RequiredMinRxInterval ?p = STARTUP_RX_INTERVAL
                   then InitiatePollSequence
                          (s\<lparr>bs_bfdPacket := ?p\<lparr>k_DesiredMinTxInterval := ss_DesiredMinTxInterval s,
                                              k_RequiredMinRxInterval := ss_RequiredMinRxInterval s\<rparr>\<rparr>)
                   else s)"
  have s1: "live s1 \<and> core (bs_bfdPacket s1) = core ?p \<and> same_session s s1 \<and>
     bs_pollSequenceFinal s1 = bs_pollSequenceFinal s"
    using assms liveD [OF assms]
    by (simp add: s1_def core_def same_session_def SessionState.truncate_def InitiatePollSequence_def)
  let ?s2 = "s1\<lparr>bs_bfdPacket := (bs_bfdPacket s1)\<lparr>k_Demand := ss_DemandMode s1\<rparr>\<rparr>"
  have l: "live ?s2" using s1 liveD(1) [of s1] by simp
  have r: "live (s\<lparr>bs_bfdPacket := ?p\<lparr>k_DesiredMinTxInterval := STARTUP_TX_INTERVAL,
                                    k_RequiredMinRxInterval := STARTUP_RX_INTERVAL\<rparr>\<rparr>)"
    using assms liveD [OF assms] by (simp add: STARTUP_TX_INTERVAL_def STARTUP_RX_INTERVAL_def)
  show ?thesis using s1 l r
    by (cases "k_Demand (bs_bfdPacket s1)"; cases "ss_DemandMode s1")
       (simp_all add: update_intervals_def Let_def timer_ops_live core_def same_session_def
         SessionState.truncate_def flip: s1_def)
qed

lemma rebuild_packet_live:
  assumes "live s"
  shows "\<exists>s'. rebuild_packet s = Ok s' \<and> live s' \<and> same_session s s' \<and>
     core (bs_bfdPacket s') = (ss_LocalDiagType s, ss_SessionState s,
        word_of_int (ss_DetectionMultiplier s), ss_LocalDiscriminator s, ss_RemoteDiscriminator s) \<and>
     k_Final (bs_bfdPacket s') = bs_pollSequenceFinal s \<and> \<not> bs_pollSequenceFinal s' \<and>
     \<not> k_AuthPresent (bs_bfdPacket s') \<and> \<not> NeedBfdPacketUpdate s' \<and>
     bs_bfdPacketBuf s' = CreateBfdControlPacket (bs_bfdPacket s')"
proof -
  define s1 where "s1 = s\<lparr>bs_bfdPacket := (bs_bfdPacket s)
                   \<lparr>k_Diagnostic := ss_LocalDiagType s, k_State := ss_SessionState s,
                    k_DetectMult := word_of_int (ss_DetectionMultiplier s),
                    k_MyDiscriminator := ss_LocalDiscriminator s,
                    k_YourDiscriminator := ss_RemoteDiscriminator s\<rparr>\<rparr>"
  have "live s1" using assms liveD(1) [OF assms] by (simp add: s1_def)
  then obtain s2 where s2: "update_intervals s1 = Ok s2" "live s2"
      "core (bs_bfdPacket s2) = core (bs_bfdPacket s1)" "same_session s1 s2"
      "bs_pollSequenceFinal s2 = bs_pollSequenceFinal s1"
    using update_intervals_live by blast
  have c: "core (bs_bfdPacket s1) = (ss_LocalDiagType s, ss_SessionState s,
        word_of_int (ss_DetectionMultiplier s), ss_LocalDiscriminator s, ss_RemoteDiscriminator s)"
    "bs_pollSequenceFinal s1 = bs_pollSequenceFinal s" "same_session s s1"
    by (simp_all add: s1_def core_def same_session_def SessionState.truncate_def)
  have n: "\<not> bs_authEnabled s2" "packet_ok (bs_bfdPacket s2)" using liveD [OF s2(2)] by simp_all
  show ?thesis using s2 n c
    by (simp add: rebuild_packet_def UpdateBfdSessionControlPacket_def Let_def update_auth_def core_def
        same_session_def SessionState.truncate_def NeedBfdPacketUpdate_def flip: s1_def)
qed

lemma SendPeriodicControlPackets_live:
  assumes "live s" shows "\<exists>s'. SendPeriodicControlPackets j sent s = Ok s' \<and> live s'"
proof -
  have r: "\<exists>s'. (if b then rebuild_packet x else Ok x) = Ok s' \<and> live s'" if "live x" for b x
    using rebuild_packet_live [OF that] that by (cases b) auto
  obtain s1 where s1: "(if NeedBfdPacketUpdate s then rebuild_packet s else Ok s) = Ok s1" "live s1"
    using r [OF assms] by blast
  define s2 where "s2 = (if sent then s1\<lparr>bs_out := bs_out s1 @ [Transmit (bs_bfdPacketBuf s1)],
                                  ss_NumTxPackets := ss_NumTxPackets s1 + 1\<rparr> else s1)"
  have "live s2" using s1(2) by (simp add: s2_def)
  then obtain s3 where s3: "(if NeedBfdPacketUpdate s then rebuild_packet s2 else Ok s2) = Ok s3" "live s3"
    using r by blast
  show ?thesis
    unfolding SendPeriodicControlPackets_def Let_def s1(1) obind.simps s2_def [symmetric] s3(1)
    using s3(2) by (simp add: timer_ops_live)
qed

text \<open>A transmission with a rebuilt packet.\<close>

lemma SendPeriodicControlPackets_rebuilt:
  assumes "live s" "NeedBfdPacketUpdate s"
  shows "\<exists>s' q. SendPeriodicControlPackets j True s = Ok s' \<and> live s' \<and>
     bs_out s' = bs_out s @ [Transmit (CreateBfdControlPacket q)] \<and>
     packet_ok q \<and> \<not> k_AuthPresent q \<and> k_Final q = bs_pollSequenceFinal s \<and>
     core q = (ss_LocalDiagType s, ss_SessionState s, word_of_int (ss_DetectionMultiplier s),
        ss_LocalDiscriminator s, ss_RemoteDiscriminator s) \<and>
     \<not> k_Final (bs_bfdPacket s') \<and> bs_bfdPacketBuf s' = CreateBfdControlPacket (bs_bfdPacket s') \<and>
     \<not> NeedBfdPacketUpdate s' \<and> ss_SessionState s' = ss_SessionState s \<and>
     ss_RemoteSessionState s' = ss_RemoteSessionState s \<and> bs_notifiedState s' = bs_notifiedState s \<and> ss_IpAddr s' = ss_IpAddr s"
proof -
  obtain s1 where s1: "rebuild_packet s = Ok s1" "live s1" "same_session s s1" "\<not> k_AuthPresent (bs_bfdPacket s1)"
     "core (bs_bfdPacket s1) = (ss_LocalDiagType s, ss_SessionState s, word_of_int (ss_DetectionMultiplier s),
        ss_LocalDiscriminator s, ss_RemoteDiscriminator s)"
     "k_Final (bs_bfdPacket s1) = bs_pollSequenceFinal s" "\<not> bs_pollSequenceFinal s1"
     "bs_bfdPacketBuf s1 = CreateBfdControlPacket (bs_bfdPacket s1)"
    using rebuild_packet_live [OF assms(1)] by blast
  define s2 where "s2 = s1\<lparr>bs_out := bs_out s1 @ [Transmit (bs_bfdPacketBuf s1)],
                                  ss_NumTxPackets := ss_NumTxPackets s1 + 1\<rparr>"
  have s2: "live s2" "\<not> bs_pollSequenceFinal s2" using s1 by (simp_all add: s2_def)
  then obtain s3 where s3: "rebuild_packet s2 = Ok s3" "live s3" "same_session s2 s3"
     "\<not> k_Final (bs_bfdPacket s3)" "\<not> NeedBfdPacketUpdate s3"
     "bs_bfdPacketBuf s3 = CreateBfdControlPacket (bs_bfdPacket s3)"
    using rebuild_packet_live [OF s2(1)] by auto
  define s4 where "s4 = (if ss_SessionState s3 = STATE_UP \<or> ss_RemoteSessionState s3 = STATE_UP
                       then s3\<lparr>bs_txInterval := tdiv (ss_DesiredMinTxInterval s3) 1000\<rparr> else s3)"
  have s4: "live s4" "same_session s3 s4" "bs_bfdPacket s4 = bs_bfdPacket s3"
     "bs_bfdPacketBuf s4 = bs_bfdPacketBuf s3" "NeedBfdPacketUpdate s4 = NeedBfdPacketUpdate s3"
    using s3(2) by (simp_all add: s4_def same_session_def SessionState.truncate_def NeedBfdPacketUpdate_def)
  have "SendPeriodicControlPackets j True s = Ok (s4\<lparr>bs_txTimer := Armed (ApplyTxJitter j s4)\<rparr>)"
    unfolding SendPeriodicControlPackets_def Let_def
    by (simp only: assms(2) if_True s1(1) obind.simps flip: s2_def)
       (simp only: s3(1) obind.simps timer_ops_live(1) [OF s4(1)] flip: s4_def)
  moreover have "packet_ok (bs_bfdPacket s1)" using liveD [OF s1(2)] by simp
  moreover have "NeedBfdPacketUpdate (s4\<lparr>bs_txTimer := t\<rparr>) = NeedBfdPacketUpdate s4" for t
    by (simp add: NeedBfdPacketUpdate_def)
  moreover have "bs_out s4 = bs_out s @ [Transmit (CreateBfdControlPacket (bs_bfdPacket s1))]"
    "ss_SessionState s4 = ss_SessionState s" "ss_RemoteSessionState s4 = ss_RemoteSessionState s"
    "bs_notifiedState s4 = bs_notifiedState s" "ss_IpAddr s4 = ss_IpAddr s"
    using s1(3,8) s3(3) s4(2)
    by (simp_all add: same_session_def s2_def SessionState.truncate_def)
  ultimately show ?thesis using s1 s3 s4
    by (intro exI [of _ "s4\<lparr>bs_txTimer := Armed (ApplyTxJitter j s4)\<rparr>"] exI [of _ "bs_bfdPacket s1"]) simp
qed

lemma live_expired [simp]:
  "armed (bs_txTimer s) \<Longrightarrow> live s \<Longrightarrow> live (s\<lparr>bs_txTimer := Idle\<rparr>)" by simp

lemma HandleSessionTimeout_live:
  assumes "live s" shows "\<exists>s'. HandleSessionTimeout now s = Ok s' \<and> live s' \<and>
    ss_SessionState s' = next_state (ss_SessionState s) TIMEOUT \<and> armed (bs_sessionTimer s')"
proof -
  define s1 where "s1 = (if bs_movedToDownState s
                then (ResetRemoteSessionParams s)\<lparr>bs_movedToDownState := False\<rparr> else s)"
  have l: "live (s1\<lparr>ss_LocalDiagType := DIAG_TIME_EXPIRED\<rparr>)" "ss_SessionState s1 = ss_SessionState s"
    using assms by (simp_all add: s1_def ResetRemoteSessionParams_def)
  show ?thesis using event_live [OF l(1), of now TIMEOUT] l(2)
    by (auto simp: HandleSessionTimeout_def Let_def timer_ops_live simp flip: s1_def)
qed

lemma StartBfdSession_live:
  assumes "live s" shows "\<exists>s'. StartBfdSession j now s = Ok s' \<and> live s'"
proof -
  let ?s1 = "s\<lparr>bs_sessionTimer := Armed (bs_rxInterval s)\<rparr>"
  let ?s2 = "?s1\<lparr>bs_txTimer := Armed (ApplyTxJitter j ?s1)\<rparr>"
  have l: "live ?s1" using assms by simp
  have "live (?s2\<lparr>ss_SessionState := STATE_DOWN\<rparr>)" using live_update(3) [OF l] by simp
  from event_live [OF this, of now ADMIN_UP] show ?thesis
    using assms l by (auto simp: StartBfdSession_def timer_ops_live)
qed

fun input_ok :: "bfd_input \<Rightarrow> bool" where
  "input_ok (RxBfd p) = (k_AuthPresent p \<longrightarrow> k_AuthHeader p \<noteq> None)"
| "input_ok _ = True"

lemma bfd_handle_live:
  assumes "live s" "input_ok i"
  shows "\<exists>s'. bfd_handle j now i s = Ok s' \<and> live s'"
proof (cases i)
  case (RxBfd p)
  then show ?thesis using assms ProcessBfdPacket_live [of "s\<lparr>ss_NumRxPackets := ss_NumRxPackets s + 1\<rparr>" p j now] by simp
next
  case SessionExpiry
  then show ?thesis using assms HandleSessionTimeout_live [of "s\<lparr>bs_sessionTimer := Idle\<rparr>" now] by auto
next
  case (TxExpiry sent)
  then show ?thesis using assms SendPeriodicControlPackets_live [of "s\<lparr>bs_txTimer := Idle\<rparr>" j sent] by simp
next
  case AdminStop
  then show ?thesis using assms event_live [OF assms(1), of now ADMIN_DOWN] by (auto simp: StopBfdSession_def)
next
  case AdminStart
  then show ?thesis using assms StartBfdSession_live by simp
qed

definition bfd_step ::
  "(int \<Rightarrow> int \<Rightarrow> int) \<Rightarrow> BfdSession bfd \<Rightarrow> int \<times> bfd_input \<Rightarrow> BfdSession bfd" where
  "bfd_step j s = (\<lambda>(now, i). if input_ok i then obind s (bfd_handle j now i) else s)"

definition live_inv :: "BfdSession bfd \<Rightarrow> bool" where
  "live_inv s = (case s of Ok x \<Rightarrow> live x | _ \<Rightarrow> False)"

interpretation bfd_session: machine "bfd_step j" live_inv
proof
  fix s i assume "live_inv s"
  then obtain x where x: "s = Ok x" "live x" by (auto simp: live_inv_def split: outcome.splits)
  then show "live_inv (bfd_step j s i)"
    using bfd_handle_live [OF x(2), of "snd i" j "fst i"]
    by (auto simp: bfd_step_def live_inv_def split: prod.split)
qed

section \<open>Properties\<close>

text \<open>A sample packet and session.\<close>

definition sample_packet :: "BfdSessionState \<Rightarrow> BfdControlPacket" where
  "sample_packet st =
     \<lparr>k_Version = 1, k_Diagnostic = 0, k_State = st, k_Poll = False, k_Final = False,
      k_ControlPlaneIndependent = False, k_AuthPresent = False, k_Demand = False,
      k_Multipoint = False, k_DetectMult = 3, k_MyDiscriminator = 7, k_YourDiscriminator = 0,
      k_DesiredMinTxInterval = 250000, k_RequiredMinRxInterval = 250000,
      k_RequiredMinEchoRxInterval = 0, k_AuthHeader = None\<rparr>"

definition sample_session :: "BfdSessionState \<Rightarrow> BfdSession" where
  "sample_session st =
     \<lparr>ss_IpAddr = ''10.1.1.1'', ss_LocalAddr = ''10.1.1.2'', ss_SessionId = 5,
      ss_ParamName = ''default'', ss_Interface = [], ss_InterfaceSpecific = False,
      ss_PerLinkSession = False, ss_LocalMacAddr = [], ss_RemoteMacAddr = [],
      ss_RegisteredProtocols = [False, False, True, False, False], ss_SessionState = st,
      ss_RemoteSessionState = STATE_DOWN, ss_LocalDiscriminator = 5, ss_RemoteDiscriminator = 0,
      ss_LocalDiagType = 0, ss_DesiredMinTxInterval = 250000, ss_RequiredMinRxInterval = 250000,
      ss_RemoteMinRxInterval = 0, ss_DetectionMultiplier = 3, ss_RemoteDetectionMultiplier = 0,
      ss_DemandMode = False, ss_RemoteDemandMode = False, ss_AuthType = 0,
      ss_AuthSeqKnown = False, ss_ReceivedAuthSeq = 0, ss_SentAuthSeq = 0, ss_NumTxPackets = 0,
      ss_NumRxPackets = 0, ss_ToDownCount = 0, ss_ToUpCount = 0, ss_UpTime = 0,
      bs_rxInterval = 6000, bs_sessionTimer = Armed 6000, bs_txInterval = 2000,
      bs_txTimer = Armed 2000, bs_txJitter = 0, bs_bfdPacket = sample_packet STATE_DOWN,
      bs_bfdPacketBuf = [], bs_pollSequence = False, bs_pollSequenceFinal = False,
      bs_pollChanged = False, bs_authEnabled = False, bs_authType = 0, bs_authSeqNum = 1,
      bs_authKeyId = 0, bs_authData = [], bs_useDedicatedMac = False, bs_paramChanged = True,
      bs_remoteParamChanged = False, bs_stateChanged = False, bs_isClientActive = True,
      bs_movedToDownState = False, bs_notifiedState = False, bs_out = []\<rparr>"

lemma sample_live [simp]: "live (sample_session st)"
  by (simp add: live_def sample_session_def params_ok_def packet_ok_def sample_packet_def)

lemma sample_sel [simp]:
  "ss_SessionState (sample_session st) = st" "NeedBfdPacketUpdate (sample_session st)"
  "k_State (sample_packet st) = st" "\<not> k_AuthPresent (sample_packet st)"
  "CanProcessBfdControlPacket (sample_packet st)"
  by (simp_all add: sample_session_def sample_packet_def NeedBfdPacketUpdate_def
      CanProcessBfdControlPacket_def DEFAULT_BFD_VERSION_def)

lemma sample_notified:
  "\<not> bs_notifiedState (sample_session st)" "bs_out (sample_session st) = []" "ss_IpAddr (sample_session st) = ''10.1.1.1''"
  by (simp_all add: sample_session_def)

text \<open>C16: a started session without authentication never panics: every sequence of received
  packets, timer expiries and administrative calls leaves it running, with both its timers.\<close>

theorem bfd_session_survives:
  assumes "live s"
  shows "\<exists>s'. run (bfd_step jitter) (Ok s) is = Ok s' \<and> live s'"
proof -
  have "live_inv (Ok s :: BfdSession bfd)" using assms by (simp add: live_inv_def)
  from bfd_session.run_inv [OF this, of jitter "is"] show ?thesis
    by (auto simp: live_inv_def split: outcome.splits)
qed

theorem bfd_session_survives_witness:
  "\<exists>s'. run (bfd_step (\<lambda>i j. i)) (Ok (sample_session STATE_INIT))
     [(0, RxBfd (sample_packet STATE_UP)), (1, TxExpiry True), (2, SessionExpiry)] = Ok s' \<and> live s'"
  by (rule bfd_session_survives) simp

text \<open>C15: an accepted packet moves the session along the diagram of \<open>bfdSession.go\<close>, taken on
  the state the packet carries; a timeout moves it along the TIMER edges and restarts the timer.\<close>

theorem ProcessBfdPacket_refines_diagram:
  assumes "live s" "AuthenticateReceivedControlPacket s p = Ok (True, p')" "CanProcessBfdControlPacket p'"
  shows "\<exists>s' s''. ProcessBfdPacket jitter now p s = Ok s' \<and>
     ss_SessionState s' = next_state (ss_SessionState s) (event_of (k_State p')) \<and>
     HandleSessionTimeout now s = Ok s'' \<and>
     ss_SessionState s'' = next_state (ss_SessionState s) TIMEOUT \<and> armed (bs_sessionTimer s'')"
  using ProcessBfdPacket_accepted [OF assms, of jitter now] HandleSessionTimeout_live [OF assms(1), of now]
  by blast

theorem ProcessBfdPacket_refines_diagram_witness:
  "\<exists>s' s''. ProcessBfdPacket (\<lambda>i j. i) 0 (sample_packet STATE_UP) (sample_session STATE_INIT) = Ok s' \<and>
     ss_SessionState s' = STATE_UP \<and> HandleSessionTimeout 0 (sample_session STATE_INIT) = Ok s'' \<and>
     ss_SessionState s'' = STATE_DOWN \<and> armed (bs_sessionTimer s'')"
proof -
  have "AuthenticateReceivedControlPacket (sample_session STATE_INIT) (sample_packet STATE_UP) =
      Ok (True, sample_packet STATE_UP)" by (simp add: AuthenticateReceivedControlPacket_def)
  from ProcessBfdPacket_refines_diagram [OF _ this, of "\<lambda>i j. i" 0] show ?thesis by simp
qed

text \<open>a neighbour that signals AdminDown does not take an Up session down: it stays Up (RFC 5880 section 6.8.6 moves it to Down).\<close>

theorem remote_admin_down_stays_up:
  assumes "live s" "ss_SessionState s = STATE_UP" "k_State p = STATE_ADMIN_DOWN" "\<not> k_AuthPresent p"
    "CanProcessBfdControlPacket p"
  shows "\<exists>s'. ProcessBfdPacket jitter now p s = Ok s' \<and> ss_SessionState s' = STATE_UP"
proof -
  have "AuthenticateReceivedControlPacket s p = Ok (True, p)"
    using assms(4) by (simp add: AuthenticateReceivedControlPacket_def)
  from ProcessBfdPacket_accepted [OF assms(1) this assms(5), of jitter now] show ?thesis
    using assms(2,3) by auto
qed

theorem remote_admin_down_stays_up_witness:
  "\<exists>s'. ProcessBfdPacket (\<lambda>i j. i) 0 (sample_packet STATE_ADMIN_DOWN) (sample_session STATE_UP) = Ok s' \<and>
     ss_SessionState s' = STATE_UP"
  by (rule remote_admin_down_stays_up) simp_all

text \<open>with a keyed authentication type the verdict does not depend on the key or on the packet:
  the digest expected is the one of the empty message.\<close>

theorem keyed_authentication_is_constant:
  assumes "k_AuthPresent p" "k_AuthHeader p = Some h" "a_Type h = bs_authType s"
    "is_md5 (a_Type h) \<or> is_sha1 (a_Type h)"
    "ss_ReceivedAuthSeq s \<le> a_SequenceNumber h" "ucast (a_AuthKeyID h) = bs_authKeyId s"
  shows "\<exists>p'. AuthenticateReceivedControlPacket s p =
     Ok (a_AuthData h = (if is_md5 (a_Type h) then md5_Sum [] else sha1_Sum []), p')"
proof -
  have ns: "a_Type h \<noteq> BFD_AUTH_TYPE_SIMPLE" "is_md5 (a_Type h) \<Longrightarrow> \<not> is_sha1 (a_Type h)"
    using assms(4) by (auto simp: is_md5_def is_sha1_def auth_type_defs)
  with assms show ?thesis
    by (auto simp: AuthenticateReceivedControlPacket_def binary_Write_packet_def Let_def)
qed

theorem keyed_authentication_is_constant_witness:
  "\<exists>p'. AuthenticateReceivedControlPacket ((sample_session STATE_UP)\<lparr>bs_authType := 2, bs_authData := [1, 2, 3]\<rparr>)
     ((sample_packet STATE_UP)\<lparr>k_AuthPresent := True, k_AuthHeader := Some
        \<lparr>a_Type = 2, a_AuthKeyID = 0, a_SequenceNumber = 0, a_AuthData = md5_Sum []\<rparr>\<rparr>) = Ok (True, p')"
proof -
  let ?h = "\<lparr>a_Type = 2, a_AuthKeyID = 0, a_SequenceNumber = 0, a_AuthData = md5_Sum []\<rparr>"
  let ?p = "(sample_packet STATE_UP)\<lparr>k_AuthPresent := True, k_AuthHeader := Some ?h\<rparr>"
  let ?s = "(sample_session STATE_UP)\<lparr>bs_authType := 2, bs_authData := [1, 2, 3]\<rparr>"
  have "\<exists>p'. AuthenticateReceivedControlPacket ?s ?p =
     Ok (a_AuthData ?h = (if is_md5 (a_Type ?h) then md5_Sum [] else sha1_Sum []), p')"
    by (rule keyed_authentication_is_constant)
       (simp_all add: is_md5_def auth_type_defs sample_session_def)
  then show ?thesis by (simp add: is_md5_def auth_type_defs)
qed

text \<open>enabling authentication kills the process: the packet a new session sends has no
  authentication header, and building the first authenticated packet writes through the \<open>nil\<close> pointer.\<close>

theorem auth_enabled_panics:
  assumes "bs_authEnabled s" "k_AuthHeader (bs_bfdPacket s) = None" "NeedBfdPacketUpdate s"
  shows "SendPeriodicControlPackets jitter sent s = Panic"
proof -
  have "update_intervals x = Panic \<or>
     (\<exists>x'. update_intervals x = Ok x' \<and> bs_authEnabled x' = bs_authEnabled x \<and>
        k_AuthHeader (bs_bfdPacket x') = k_AuthHeader (bs_bfdPacket x))" for x
    by (cases "bs_sessionTimer x = NoTimer")
       (auto simp: update_intervals_def Let_def session_Stop_def session_Reset_def InitiatePollSequence_def)
  moreover define s1 where "s1 = s\<lparr>bs_bfdPacket := (bs_bfdPacket s)
                   \<lparr>k_Diagnostic := ss_LocalDiagType s, k_State := ss_SessionState s,
                    k_DetectMult := word_of_int (ss_DetectionMultiplier s),
                    k_MyDiscriminator := ss_LocalDiscriminator s,
                    k_YourDiscriminator := ss_RemoteDiscriminator s\<rparr>\<rparr>"
  moreover have "bs_authEnabled s1" "k_AuthHeader (bs_bfdPacket s1) = None"
    using assms(1,2) by (simp_all add: s1_def)
  ultimately consider "update_intervals s1 = Panic" | x where "update_intervals s1 = Ok x"
      "bs_authEnabled x" "k_AuthHeader (bs_bfdPacket x) = None" by metis
  then have "UpdateBfdSessionControlPacket s = Panic"
    by cases (simp_all add: UpdateBfdSessionControlPacket_def Let_def update_auth_def flip: s1_def)
  then show ?thesis using assms(3)
    by (simp add: SendPeriodicControlPackets_def Let_def rebuild_packet_def)
qed

theorem auth_enabled_panics_witness:
  "SendPeriodicControlPackets (\<lambda>i j. i) True ((sample_session STATE_DOWN)\<lparr>bs_authEnabled := True\<rparr>) = Panic"
  by (rule auth_enabled_panics) (simp_all add: sample_session_def sample_packet_def NeedBfdPacketUpdate_def)

text \<open>\<open>StartBfdSession\<close> on a session whose client is not running yet panics.\<close>

theorem StartBfdSession_inactive_panics:
  assumes "bs_sessionTimer s = NoTimer"
  shows "StartBfdSession jitter now s = Panic"
  using assms by (simp add: StartBfdSession_def session_Reset_def)

theorem StartBfdSession_inactive_panics_witness:
  "StartBfdSession (\<lambda>i j. i) 0 ((sample_session STATE_DOWN)\<lparr>bs_sessionTimer := NoTimer\<rparr>) = Panic"
  by (rule StartBfdSession_inactive_panics) simp

text \<open>a poll is answered exactly once: the next packet sent has the Final bit, and the
  packet prepared for the transmissions after it has not.\<close>

theorem poll_answered_once:
  assumes "live s" "bs_pollSequenceFinal s" "bs_pollChanged s"
  shows "\<exists>s' q. SendPeriodicControlPackets jitter True s = Ok s' \<and>
     bs_out s' = bs_out s @ [Transmit (CreateBfdControlPacket q)] \<and> k_Final q \<and>
     \<not> k_Final (bs_bfdPacket s') \<and> bs_bfdPacketBuf s' = CreateBfdControlPacket (bs_bfdPacket s') \<and>
     \<not> NeedBfdPacketUpdate s'"
  using SendPeriodicControlPackets_rebuilt [OF assms(1), of jitter] assms
  by (auto simp: NeedBfdPacketUpdate_def)

theorem poll_answered_once_witness:
  "\<exists>s s' q. SendPeriodicControlPackets (\<lambda>i j. i) True s = Ok s' \<and>
     bs_out s' = bs_out s @ [Transmit (CreateBfdControlPacket q)] \<and> k_Final q \<and>
     \<not> k_Final (bs_bfdPacket s')"
proof -
  let ?s = "(sample_session STATE_UP)\<lparr>bs_pollSequenceFinal := True, bs_pollChanged := True\<rparr>"
  have "live ?s" "bs_pollSequenceFinal ?s" "bs_pollChanged ?s" by simp_all
  from poll_answered_once [OF this, of "\<lambda>i j. i"] show ?thesis by blast
qed

section \<open>Two sessions\<close>

text \<open>What the receiving side does with a datagram.\<close>

definition receive :: "(int \<Rightarrow> int \<Rightarrow> int) \<Rightarrow> int \<Rightarrow> byte list \<Rightarrow> BfdSession \<Rightarrow> BfdSession bfd" where
  "receive jitter now bytes s =
     obind (DecodeBfdControlPacket bytes []) (\<lambda>p. ProcessBfdPacket jitter now p s)"

lemma send_receive:
  assumes "live s" "NeedBfdPacketUpdate s" "live r"
  shows "\<exists>s' bytes r'. SendPeriodicControlPackets jitter True s = Ok s' \<and> live s' \<and>
     bs_out s' = bs_out s @ [Transmit bytes] \<and> ss_SessionState s' = ss_SessionState s \<and>
     ss_RemoteSessionState s' = ss_RemoteSessionState s \<and>
     bs_notifiedState s' = bs_notifiedState s \<and> ss_IpAddr s' = ss_IpAddr s \<and>
     receive jitter now bytes r = Ok r' \<and> live r' \<and>
     ss_SessionState r' = next_state (ss_SessionState r) (event_of (ss_SessionState s)) \<and> moved r r'"
proof -
  obtain s' q where s': "SendPeriodicControlPackets jitter True s = Ok s'" "live s'"
     "bs_out s' = bs_out s @ [Transmit (CreateBfdControlPacket q)]" "packet_ok q" "\<not> k_AuthPresent q"
     "core q = (ss_LocalDiagType s, ss_SessionState s, word_of_int (ss_DetectionMultiplier s),
        ss_LocalDiscriminator s, ss_RemoteDiscriminator s)"
     "ss_SessionState s' = ss_SessionState s" "ss_RemoteSessionState s' = ss_RemoteSessionState s"
     "bs_notifiedState s' = bs_notifiedState s" "ss_IpAddr s' = ss_IpAddr s"
    using SendPeriodicControlPackets_rebuilt [OF assms(1,2), of jitter] by blast
  have "wf_control q"
    using s'(4,5,6) liveD(8,9) [OF assms(1)] by (auto simp: wf_control_def packet_ok_def core_def)
  moreover have "on_wire q = q" using s'(4) by (simp add: on_wire_def packet_ok_def)
  ultimately have d: "DecodeBfdControlPacket (CreateBfdControlPacket q) [] = Ok q"
    using control_round_trip [of q "[]"] by simp
  have "uint (word_of_int (ss_DetectionMultiplier s) :: u8) = ss_DetectionMultiplier s"
    using liveD(2) [OF assms(1)] by (intro small_word) (auto simp: params_ok_def)
  then have "word_of_int (ss_DetectionMultiplier s) \<noteq> (0 :: u8)"
    using liveD(2) [OF assms(1)] by (auto simp: params_ok_def)
  then have c: "CanProcessBfdControlPacket q"
    using s'(4,6) liveD(2) [OF assms(1)]
    by (auto simp: CanProcessBfdControlPacket_def core_def packet_ok_def DEFAULT_BFD_VERSION_def params_ok_def)
  have "AuthenticateReceivedControlPacket r q = Ok (True, q)"
    using s'(5) by (simp add: AuthenticateReceivedControlPacket_def)
  from ProcessBfdPacket_accepted [OF assms(3) this c, of jitter now] obtain r' where
    "receive jitter now (CreateBfdControlPacket q) r = Ok r'" "live r'" "moved r r'"
    "ss_SessionState r' = next_state (ss_SessionState r) (event_of (ss_SessionState s))"
    using d s'(6) by (auto simp: receive_def core_def)
  then show ?thesis using s' by blast
qed

text \<open>C10: two sessions that both start Down come Up after three packets, each sent as bytes by one
  side and decoded and processed by the other. Each side tells its clients, on the notification channel
  and with the address of its session, at the moment it comes Up, and nothing before that; only clients
  that were last told it is up are not told again.\<close>

theorem three_packet_handshake:
  assumes "live a" "ss_SessionState a = STATE_DOWN" "NeedBfdPacketUpdate a"
    and "live b" "ss_SessionState b = STATE_DOWN"
  shows "\<exists>a1 q1 b1 b2 q2 a2 a3 q3 b3.
     SendPeriodicControlPackets jitter True a = Ok a1 \<and> bs_out a1 = bs_out a @ [Transmit q1] \<and>
     receive jitter now q1 b = Ok b1 \<and> ss_SessionState b1 = STATE_INIT \<and> bs_out b1 = bs_out b \<and>
     SendPeriodicControlPackets jitter True b1 = Ok b2 \<and> bs_out b2 = bs_out b1 @ [Transmit q2] \<and>
     receive jitter now q2 a1 = Ok a2 \<and> ss_SessionState a2 = STATE_UP \<and>
     bs_out a2 = bs_out a1 @ (if bs_notifiedState a then [] else [Notify (ss_IpAddr a) True]) \<and>
     SendPeriodicControlPackets jitter True a2 = Ok a3 \<and> bs_out a3 = bs_out a2 @ [Transmit q3] \<and>
     receive jitter now q3 b2 = Ok b3 \<and> ss_SessionState b3 = STATE_UP \<and>
     bs_out b3 = bs_out b2 @ (if bs_notifiedState b then [] else [Notify (ss_IpAddr b) True]) \<and>
     ss_SessionState a3 = STATE_UP \<and> bs_notifiedState a3 \<and> bs_notifiedState b3"
proof -
  obtain a1 q1 b1 where 1: "SendPeriodicControlPackets jitter True a = Ok a1" "live a1"
      "bs_out a1 = bs_out a @ [Transmit q1]" "ss_SessionState a1 = STATE_DOWN"
      "receive jitter now q1 b = Ok b1" "live b1" "ss_SessionState b1 = STATE_INIT" "moved b b1"
      "bs_notifiedState a1 = bs_notifiedState a" "ss_IpAddr a1 = ss_IpAddr a"
    using send_receive [OF assms(1,3,4), of jitter now] assms(2,5) by auto
  then have b1: "NeedBfdPacketUpdate b1" "news b1 = news b"
    using assms(5) by (simp_all add: moved_def NeedBfdPacketUpdate_def)
  then obtain b2 q2 a2 where 2: "SendPeriodicControlPackets jitter True b1 = Ok b2" "live b2"
      "bs_out b2 = bs_out b1 @ [Transmit q2]" "ss_SessionState b2 = STATE_INIT"
      "receive jitter now q2 a1 = Ok a2" "live a2" "ss_SessionState a2 = STATE_UP" "moved a1 a2"
      "bs_notifiedState b2 = bs_notifiedState b1" "ss_IpAddr b2 = ss_IpAddr b1"
    using send_receive [OF 1(6) _ 1(2), of jitter now] 1(4,7) by auto
  then have a2: "NeedBfdPacketUpdate a2" "news a2 = announced_up a1"
    using 1(4) by (simp_all add: moved_def NeedBfdPacketUpdate_def)
  then obtain a3 q3 b3 where 3: "SendPeriodicControlPackets jitter True a2 = Ok a3"
      "bs_out a3 = bs_out a2 @ [Transmit q3]" "ss_SessionState a3 = STATE_UP" "bs_notifiedState a3 = bs_notifiedState a2"
      "receive jitter now q3 b2 = Ok b3" "ss_SessionState b3 = STATE_UP" "moved b2 b3"
    using send_receive [OF 2(6) _ 2(2), of jitter now] 2(4,7) by auto
  then have b3: "news b3 = announced_up b2" using 2(4) by (simp add: moved_def)
  have "bs_out b1 = bs_out b"
    "bs_out a2 = bs_out a1 @ (if bs_notifiedState a then [] else [Notify (ss_IpAddr a) True])" "bs_notifiedState a3"
    "bs_out b3 = bs_out b2 @ (if bs_notifiedState b then [] else [Notify (ss_IpAddr b) True])" "bs_notifiedState b3"
    using b1(2) a2(2) b3 1(9,10) 2(9,10) 3(4) by (simp_all add: news_def announced_up_def)
  with 1 2 3 show ?thesis by blast
qed

theorem three_packet_handshake_witness:
  "\<exists>a1 q1 b1 b2 q2 a2 a3 q3 b3.
     SendPeriodicControlPackets (\<lambda>i j. i) True (sample_session STATE_DOWN) = Ok a1 \<and>
     receive (\<lambda>i j. i) 0 q1 (sample_session STATE_DOWN) = Ok b1 \<and>
     SendPeriodicControlPackets (\<lambda>i j. i) True b1 = Ok b2 \<and> receive (\<lambda>i j. i) 0 q2 a1 = Ok a2 \<and>
     SendPeriodicControlPackets (\<lambda>i j. i) True a2 = Ok a3 \<and> receive (\<lambda>i j. i) 0 q3 b2 = Ok b3 \<and>
     ss_SessionState a3 = STATE_UP \<and> ss_SessionState b3 = STATE_UP \<and>
     bs_out a3 = [Transmit q1, Notify ''10.1.1.1'' True, Transmit q3] \<and>
     bs_out b3 = [Transmit q2, Notify ''10.1.1.1'' True]"
  using three_packet_handshake [OF sample_live sample_sel(1,2) sample_live sample_sel(1), of "\<lambda>i j. i" 0]
  by (elim ex_forward) (auto simp: sample_notified)

end
