(* ===== verification/BfdServer.thy ===== *)
theory BfdServer
  imports BfdLive GoNet
begin

text \<open>
  The BFD server: \<open>bfd/server/bfdSessionServer.go\<close>, \<open>bfdSessionParam.go\<close>, \<open>bfdGlobalConf.go\<close>,
  \<open>bfdSessionGetBulk.go\<close> and the ownership names of \<open>bfddCommonDefs\<close>. A \<open>*BfdSession\<close> is its key in
  \<open>Sessions\<close>: both maps are written together and an entry of \<open>SessionsByIp\<close> never outlives its
  session. The order in which Go ranges over a map is an argument (\<open>ks\<close>):
  a list of keys of which those not in the map are skipped. The route daemon,
  the interface tables and the random source are the fields of \<open>Env\<close>.
\<close>

section \<open>Data\<close>

definition DISC :: int where "DISC = 1"
definition USER :: int where "USER = 2"
definition BGP :: int where "BGP = 3"
definition OSPF :: int where "OSPF = 4"

definition ConvertBfdSessionOwnerStrToVal :: "string \<Rightarrow> int" where
  "ConvertBfdSessionOwnerStrToVal owner =
     (if owner = ''discover'' then DISC else if owner = ''user'' then USER
      else if owner = ''bgp'' then BGP else if owner = ''ospf'' then OSPF else 0)"

definition ConvertBfdSessionOwnerValToStr :: "int \<Rightarrow> string" where
  "ConvertBfdSessionOwnerValToStr owner =
     (if owner = DISC then ''discover'' else if owner = USER then ''user''
      else if owner = BGP then ''bgp'' else if owner = OSPF then ''ospf'' else [])"

datatype BfdSessionOperation = CREATE | DELETE | ADMINUP | ADMINDOWN

record SessionConfig =
  sc_DestIp :: string
  sc_ParamName :: string
  sc_Interface :: string
  sc_PerLink :: bool
  sc_Protocol :: int
  sc_Operation :: BfdSessionOperation

record BfdSessionMgmt =
  m_DestIp :: string
  m_ParamName :: string
  m_Interface :: string
  m_Protocol :: int
  m_PerLink :: bool
  m_ForceDel :: bool

record SessionParamConfig =
  pc_Name :: string
  pc_LocalMultiplier :: int
  pc_DesiredMinTxInterval :: int
  pc_RequiredMinRxInterval :: int
  pc_RequiredMinEchoRxInterval :: int
  pc_DemandEnabled :: bool
  pc_AuthenticationEnabled :: bool
  pc_AuthenticationType :: u8
  pc_AuthenticationKeyId :: int
  pc_AuthenticationData :: "byte list"

record SessionParamState =
  sp_Name :: string
  sp_NumSessions :: int
  sp_LocalMultiplier :: int
  sp_DesiredMinTxInterval :: int
  sp_RequiredMinRxInterval :: int
  sp_RequiredMinEchoRxInterval :: int
  sp_DemandEnabled :: bool
  sp_AuthenticationEnabled :: bool
  sp_AuthenticationType :: u8
  sp_AuthenticationKeyId :: int
  sp_AuthenticationData :: "byte list"

record BFDServer =
  g_Vrf :: string
  g_Enabled :: bool
  g_NumSessions :: u32
  g_Sessions :: "int \<rightharpoonup> BfdSession"
  g_SessionsIdSlice :: "int list"
  g_SessionsByIp :: "string \<rightharpoonup> int"
  g_InactiveSessionsIdSlice :: "int list"
  g_NumSessionParams :: u32
  g_SessionParams :: "string \<rightharpoonup> SessionParamState"
  g_tobeCreatedSessions :: "string \<rightharpoonup> BfdSessionMgmt"
  g_lagPropertyMap :: "int \<rightharpoonup> int list"
  g_CreatedSessionCh :: "int list"
  g_FailedSessionClientCh :: "int list"
  g_starting :: "int list"      \<comment> \<open>client goroutines that were started and have not run yet\<close>

text \<open>
  \<open>e_reach\<close>: \<open>GetRouteReachabilityInfo\<close> (interface and local address, when reachable);
  \<open>e_isLag\<close>: is it a LAG interface; \<open>e_linuxName\<close>: \<open>getLinuxIntfName\<close>; \<open>e_mac\<close>:
  \<open>getMacAddrFromIntfName\<close>; \<open>e_rand\<close>: the numbers \<open>Int31n(MAX_NUM_SESSIONS)\<close> draws;
  \<open>e_jitter\<close>: \<open>GetTxJitter\<close>; \<open>e_product\<close>: the product of \<open>ApplyTxJitter\<close>.
\<close>

record Env =
  e_reach :: "string \<Rightarrow> (int \<times> string) option"
  e_isLag :: "int \<Rightarrow> bool"
  e_linuxName :: "int \<Rightarrow> string option"
  e_mac :: "string \<Rightarrow> byte list"
  e_rand :: "nat \<Rightarrow> int"
  e_jitter :: int
  e_product :: "int \<Rightarrow> int \<Rightarrow> int"

definition MAX_NUM_SESSIONS :: u32 where "MAX_NUM_SESSIONS = 1024"
definition bfdDedicatedMac :: string where "bfdDedicatedMac = ''01:00:5E:90:00:01''"

type_synonym 'a bfd_call = "(bfd_error, 'a) outcome option"

definition NewBFDServer :: BFDServer where
  "NewBFDServer =
     \<lparr>g_Vrf = [], g_Enabled = False, g_NumSessions = 0, g_Sessions = Map.empty,
      g_SessionsIdSlice = [], g_SessionsByIp = Map.empty, g_InactiveSessionsIdSlice = [],
      g_NumSessionParams = 0, g_SessionParams = Map.empty, g_tobeCreatedSessions = Map.empty,
      g_lagPropertyMap = Map.empty, g_CreatedSessionCh = [],
      g_FailedSessionClientCh = [], g_starting = []\<rparr>"

definition NewBfdControlPacketDefault :: BfdControlPacket where
  "NewBfdControlPacketDefault =
     \<lparr>k_Version = DEFAULT_BFD_VERSION, k_Diagnostic = DIAG_NONE, k_State = STATE_DOWN,
      k_Poll = False, k_Final = False, k_ControlPlaneIndependent = False, k_AuthPresent = False,
      k_Demand = False, k_Multipoint = False, k_DetectMult = word_of_int DEFAULT_DETECT_MULTI,
      k_MyDiscriminator = 0, k_YourDiscriminator = 0,
      k_DesiredMinTxInterval = DEFAULT_DESIRED_MIN_TX_INTERVAL,
      k_RequiredMinRxInterval = DEFAULT_REQUIRED_MIN_RX_INTERVAL,
      k_RequiredMinEchoRxInterval = DEFAULT_REQUIRED_MIN_ECHO_RX_INTERVAL, k_AuthHeader = None\<rparr>"

section \<open>Session parameters\<close>

definition use_param :: "SessionParamState \<Rightarrow> BfdSession \<Rightarrow> BfdSession" where
  "use_param p s =
     s\<lparr>ss_DesiredMinTxInterval := sp_DesiredMinTxInterval p,
       ss_RequiredMinRxInterval := sp_RequiredMinRxInterval p,
       ss_DetectionMultiplier := sp_LocalMultiplier p,
       ss_DemandMode := sp_DemandEnabled p,
       bs_authEnabled := sp_AuthenticationEnabled p,
       bs_authType := sp_AuthenticationType p,
       bs_authKeyId := word_of_int (sp_AuthenticationKeyId p),
       bs_authData := sp_AuthenticationData p\<rparr>"

definition UpdateBfdSessionsUsingParam :: "string \<Rightarrow> BFDServer \<Rightarrow> BFDServer" where
  "UpdateBfdSessionsUsingParam paramName sv =
     sv\<lparr>g_Sessions := (\<lambda>sid. map_option (\<lambda>s.
          if ss_ParamName s = paramName then
            InitiatePollSequence
              ((case g_SessionParams sv paramName of
                  Some p \<Rightarrow> use_param p s
                | None \<Rightarrow>
                    s\<lparr>ss_DesiredMinTxInterval := DEFAULT_DESIRED_MIN_TX_INTERVAL,
                      ss_RequiredMinRxInterval := DEFAULT_REQUIRED_MIN_RX_INTERVAL,
                      ss_DetectionMultiplier := DEFAULT_DETECT_MULTI,
                      ss_DemandMode := False, bs_authEnabled := False\<rparr>)\<lparr>bs_paramChanged := True\<rparr>)
          else s) (g_Sessions sv sid))\<rparr>"

definition createDefaultSessionParam :: "BFDServer \<Rightarrow> BFDServer" where
  "createDefaultSessionParam sv =
     (if g_SessionParams sv ''default'' \<noteq> None then sv
      else
        UpdateBfdSessionsUsingParam ''default''
          (sv\<lparr>g_SessionParams := (g_SessionParams sv)(''default'' \<mapsto>
                \<lparr>sp_Name = ''default'', sp_NumSessions = 0, sp_LocalMultiplier = DEFAULT_DETECT_MULTI,
                 sp_DesiredMinTxInterval = DEFAULT_DESIRED_MIN_TX_INTERVAL,
                 sp_RequiredMinRxInterval = DEFAULT_REQUIRED_MIN_RX_INTERVAL,
                 sp_RequiredMinEchoRxInterval = DEFAULT_REQUIRED_MIN_ECHO_RX_INTERVAL,
                 sp_DemandEnabled = False, sp_AuthenticationEnabled = False,
                 sp_AuthenticationType = 0, sp_AuthenticationKeyId = 0,
                 sp_AuthenticationData = []\<rparr>),
              g_NumSessionParams := g_NumSessionParams sv + 1\<rparr>))"

definition processSessionParamConfig :: "SessionParamConfig \<Rightarrow> BFDServer \<Rightarrow> BFDServer" where
  "processSessionParamConfig pc sv =
     (let old = g_SessionParams sv (pc_Name pc);
          param = \<lparr>sp_Name = pc_Name pc,
                   sp_NumSessions = (case old of None \<Rightarrow> 0 | Some p \<Rightarrow> sp_NumSessions p),
                   sp_LocalMultiplier = pc_LocalMultiplier pc,
                   sp_DesiredMinTxInterval = to_i32 (pc_DesiredMinTxInterval pc * 1000),
                   sp_RequiredMinRxInterval = to_i32 (pc_RequiredMinRxInterval pc * 1000),
                   sp_RequiredMinEchoRxInterval = to_i32 (pc_RequiredMinEchoRxInterval pc * 1000),
                   sp_DemandEnabled = pc_DemandEnabled pc,
                   sp_AuthenticationEnabled = pc_AuthenticationEnabled pc,
                   sp_AuthenticationType = pc_AuthenticationType pc,
                   sp_AuthenticationKeyId = pc_AuthenticationKeyId pc,
                   sp_AuthenticationData = pc_AuthenticationData pc\<rparr>
      in UpdateBfdSessionsUsingParam (pc_Name pc)
           (sv\<lparr>g_SessionParams := (g_SessionParams sv)(pc_Name pc \<mapsto> param),
               g_NumSessionParams := g_NumSessionParams sv + (if old = None then 1 else 0)\<rparr>))"

definition processSessionParamDelete :: "string \<Rightarrow> BFDServer \<Rightarrow> BFDServer" where
  "processSessionParamDelete paramName sv =
     (if g_SessionParams sv paramName = None then sv
      else UpdateBfdSessionsUsingParam paramName
             (sv\<lparr>g_SessionParams := (g_SessionParams sv)(paramName := None),
                 g_NumSessionParams := g_NumSessionParams sv - 1\<rparr>))"

section \<open>Finding sessions\<close>

fun find_session :: "(string \<Rightarrow> bool) \<Rightarrow> int list \<Rightarrow> BFDServer \<Rightarrow> int option" where
  "find_session p [] sv = None"
| "find_session p (k # ks) sv =
     (case g_Sessions sv k of
        Some s \<Rightarrow> if p (ss_IpAddr s) then Some k else find_session p ks sv
      | None \<Rightarrow> find_session p ks sv)"

definition FindBfdSession :: "int list \<Rightarrow> string \<Rightarrow> BFDServer \<Rightarrow> int option" where
  "FindBfdSession ks DestIp sv = find_session (\<lambda>ip. ip = DestIp) ks sv"

definition FindBfdSessionContainingAddr :: "int list \<Rightarrow> string \<Rightarrow> BFDServer \<Rightarrow> int option" where
  "FindBfdSessionContainingAddr ks DestIp sv =
     find_session (\<lambda>ip. take (length DestIp) ip = DestIp) ks sv"

section \<open>Creating sessions\<close>

partial_function (option) new_id_loop ::
  "(nat \<Rightarrow> int) \<Rightarrow> nat \<Rightarrow> (int \<rightharpoonup> BfdSession) \<Rightarrow> int option" where
  "new_id_loop rand n sessions =
     (let sessionId = rand n in
      if sessions sessionId \<noteq> None then new_id_loop rand (n + 1) sessions
      else if sessionId \<noteq> 0 then Some sessionId
      else new_id_loop rand (n + 1) sessions)"

declare new_id_loop.simps [code]

text \<open>\<open>None\<close>: the loop does not end. Zero: no identifier.\<close>

definition GetNewSessionId :: "Env \<Rightarrow> BFDServer \<Rightarrow> int option" where
  "GetNewSessionId e sv =
     (if g_NumSessions sv < MAX_NUM_SESSIONS then new_id_loop (e_rand e) 0 (g_Sessions sv)
      else Some 0)"

definition new_session ::
  "Env \<Rightarrow> string \<Rightarrow> string \<Rightarrow> string \<Rightarrow> bool \<Rightarrow> bool list \<Rightarrow> string \<Rightarrow> SessionParamState \<Rightarrow> int \<Rightarrow> BfdSession" where
  "new_session e Interface LocalIp DestIp PerLink protocols paramName p sessionId =
     \<lparr>ss_IpAddr = DestIp, ss_LocalAddr = LocalIp, ss_SessionId = sessionId,
      ss_ParamName = paramName, ss_Interface = Interface, ss_InterfaceSpecific = False,
      ss_PerLinkSession = PerLink,
      ss_LocalMacAddr = (if PerLink then e_mac e Interface else []),
      ss_RemoteMacAddr = (if PerLink then ParseMAC bfdDedicatedMac else []),
      ss_RegisteredProtocols = protocols, ss_SessionState = STATE_DOWN,
      ss_RemoteSessionState = STATE_DOWN, ss_LocalDiscriminator = word_of_int sessionId,
      ss_RemoteDiscriminator = 0, ss_LocalDiagType = DIAG_NONE,
      ss_DesiredMinTxInterval = sp_DesiredMinTxInterval p,
      ss_RequiredMinRxInterval = sp_RequiredMinRxInterval p, ss_RemoteMinRxInterval = 0,
      ss_DetectionMultiplier = sp_LocalMultiplier p, ss_RemoteDetectionMultiplier = 0,
      ss_DemandMode = sp_DemandEnabled p, ss_RemoteDemandMode = False, ss_AuthType = 0,
      ss_AuthSeqKnown = False, ss_ReceivedAuthSeq = 0, ss_SentAuthSeq = 0, ss_NumTxPackets = 0,
      ss_NumRxPackets = 0, ss_ToDownCount = 0, ss_ToUpCount = 0, ss_UpTime = 0,
      bs_rxInterval = tdiv (to_i32 (STARTUP_RX_INTERVAL * sp_LocalMultiplier p)) 1000,
      bs_sessionTimer = NoTimer, bs_txInterval = tdiv STARTUP_TX_INTERVAL 1000,
      bs_txTimer = NoTimer, bs_txJitter = e_jitter e,
      bs_bfdPacket = NewBfdControlPacketDefault, bs_bfdPacketBuf = [],
      bs_pollSequence = False, bs_pollSequenceFinal = False, bs_pollChanged = False,
      bs_authEnabled = sp_AuthenticationEnabled p, bs_authType = sp_AuthenticationType p,
      bs_authSeqNum = 1, bs_authKeyId = word_of_int (sp_AuthenticationKeyId p),
      bs_authData = sp_AuthenticationData p, bs_useDedicatedMac = PerLink,
      bs_paramChanged = True, bs_remoteParamChanged = False, bs_stateChanged = False,
      bs_isClientActive = False, bs_movedToDownState = False, bs_notifiedState = False,
      bs_out = []\<rparr>"

definition set_protocol :: "int \<Rightarrow> bool \<Rightarrow> bool list \<Rightarrow> bool list bfd" where
  "set_protocol i b ps = (if i < 0 then Panic else set_idx ps (nat i) b)"

text \<open>A \<open>nil\<close> result is \<open>None\<close>; otherwise the result is the key of the new session.\<close>

definition NewNormalBfdSession ::
  "Env \<Rightarrow> string \<Rightarrow> string \<Rightarrow> string \<Rightarrow> string \<Rightarrow> bool \<Rightarrow> int \<Rightarrow> BFDServer \<Rightarrow>
   (BFDServer \<times> int option) bfd_call" where
  "NewNormalBfdSession e Interface LocalIp DestIp ParamName PerLink Protocol sv =
     Option.bind (GetNewSessionId e sv) (\<lambda>sessionId.
       if sessionId = 0 then Some (Ok (sv, None))
       else Some (obind (set_protocol Protocol True (replicate MAX_APPS False)) (\<lambda>protocols.
         let name = (if g_SessionParams sv ParamName \<noteq> None then ParamName else ''default'')
         in case g_SessionParams sv name of
              None \<Rightarrow> Panic
            | Some p0 \<Rightarrow>
                let p = p0\<lparr>sp_NumSessions := to_i32 (sp_NumSessions p0 + 1)\<rparr>;
                    s = new_session e Interface LocalIp DestIp PerLink protocols name p sessionId
                in Ok (sv\<lparr>g_SessionParams := (g_SessionParams sv)(name \<mapsto> p),
                          g_Sessions := (g_Sessions sv)(sessionId \<mapsto> s),
                          g_SessionsByIp := (g_SessionsByIp sv)(DestIp \<mapsto> sessionId),
                          g_NumSessions := g_NumSessions sv + 1,
                          g_SessionsIdSlice := g_SessionsIdSlice sv @ [sessionId],
                          g_CreatedSessionCh := g_CreatedSessionCh sv @ [sessionId]\<rparr>,
                       Some sessionId))))"

fun new_per_link ::
  "Env \<Rightarrow> string \<Rightarrow> string \<Rightarrow> string \<Rightarrow> string \<Rightarrow> int \<Rightarrow> int list \<Rightarrow> BFDServer \<Rightarrow> BFDServer bfd_call" where
  "new_per_link e IfName LocalIp DestIp ParamName Protocol [] sv = Some (Ok sv)"
| "new_per_link e IfName LocalIp DestIp ParamName Protocol (link # links) sv =
     rbind (NewNormalBfdSession e IfName LocalIp DestIp ParamName True Protocol sv) (\<lambda>(sv1, _).
       new_per_link e IfName LocalIp DestIp ParamName Protocol links sv1)"

text \<open>The interface name is looked up again for every link; it is the same one.\<close>

definition NewPerLinkBfdSessions ::
  "Env \<Rightarrow> int \<Rightarrow> string \<Rightarrow> string \<Rightarrow> string \<Rightarrow> int \<Rightarrow> BFDServer \<Rightarrow> BFDServer bfd_call" where
  "NewPerLinkBfdSessions e IfIndex LocalIp DestIp ParamName Protocol sv =
     (case g_lagPropertyMap sv IfIndex of
        None \<Rightarrow> Some (Ok sv)
      | Some links \<Rightarrow>
          new_per_link e (case e_linuxName e IfIndex of None \<Rightarrow> [] | Some n \<Rightarrow> n)
            LocalIp DestIp ParamName Protocol links sv)"

definition NewBfdSession ::
  "Env \<Rightarrow> string \<Rightarrow> string \<Rightarrow> string \<Rightarrow> int \<Rightarrow> bool \<Rightarrow> BFDServer \<Rightarrow>
   (BFDServer \<times> int option) bfd_call" where
  "NewBfdSession e DestIp ParamName Interface Protocol PerLink sv =
     (let interfaceSpecific = Interface \<noteq> ''None'' \<and> Interface \<noteq> [] in
      case e_reach e DestIp of
        None \<Rightarrow> Some (Ok (sv, None))
      | Some (IfIndex, localIp) \<Rightarrow>
          if (case e_linuxName e IfIndex of
                None \<Rightarrow> False | Some n \<Rightarrow> interfaceSpecific \<and> n \<noteq> Interface)
          then Some (Ok (sv, None))
          else if e_isLag e IfIndex \<and> PerLink then
            rbind (NewPerLinkBfdSessions e IfIndex localIp DestIp ParamName Protocol sv) (\<lambda>sv1.
              Some (Ok (sv1, None)))
          else
            rbind (NewNormalBfdSession e Interface localIp DestIp ParamName False Protocol sv)
              (\<lambda>(sv1, r). Some (case r of
                 None \<Rightarrow> Panic
               | Some sid \<Rightarrow>
                   (case g_Sessions sv1 sid of
                      None \<Rightarrow> Panic
                    | Some s \<Rightarrow>
                        Ok (sv1\<lparr>g_Sessions := (g_Sessions sv1)(sid \<mapsto>
                                  s\<lparr>ss_InterfaceSpecific := interfaceSpecific\<rparr>)\<rparr>, Some sid)))))"

definition IsLinkLocalUnicast6 :: "ip \<Rightarrow> bool" where
  "IsLinkLocalUnicast6 a \<longleftrightarrow> length a = 16 \<and> a ! 0 = 0xfe \<and> a ! 1 AND 0xc0 = 0x80"

definition session_ip :: "BfdSessionMgmt \<Rightarrow> string" where
  "session_ip m =
     (if m_Interface m \<noteq> [] \<and> To4 (ParseIP (m_DestIp m)) = [] \<and>
         IsLinkLocalUnicast6 (ParseIP (m_DestIp m))
      then m_DestIp m @ ''%'' @ m_Interface m else m_DestIp m)"

text \<open>The result is the session or the error.\<close>

definition CreateBfdSession ::
  "Env \<Rightarrow> int list \<Rightarrow> BfdSessionMgmt \<Rightarrow> BFDServer \<Rightarrow> (BFDServer \<times> (bfd_error + int)) bfd_call" where
  "CreateBfdSession e ks m sv =
     (let sessionIp = session_ip m in
      case FindBfdSession ks sessionIp sv of
        None \<Rightarrow>
          rbind (NewBfdSession e sessionIp (m_ParamName m) (m_Interface m) (m_Protocol m)
                   (m_PerLink m) sv) (\<lambda>(sv1, r).
            Some (Ok (case r of
              Some sid \<Rightarrow> (sv1, Inr sid)
            | None \<Rightarrow>
                (if g_tobeCreatedSessions sv1 sessionIp = None
                 then sv1\<lparr>g_tobeCreatedSessions := (g_tobeCreatedSessions sv1)(sessionIp \<mapsto> m)\<rparr>
                 else sv1, Inl (CreateFailed sessionIp)))))
      | Some sid \<Rightarrow>
          Some (case g_Sessions sv sid of
            None \<Rightarrow> Panic
          | Some s \<Rightarrow>
              obind (set_protocol (m_Protocol m) True (ss_RegisteredProtocols s)) (\<lambda>ps.
                Ok (sv\<lparr>g_Sessions := (g_Sessions sv)(sid \<mapsto> s\<lparr>ss_RegisteredProtocols := ps\<rparr>)\<rparr>,
                    Inr sid))))"

section \<open>Deleting sessions\<close>

text \<open>The slice without the first occurrence of \<open>sid\<close>; slicing past the end panics.\<close>

definition cut_id :: "int \<Rightarrow> int list \<Rightarrow> int list bfd" where
  "cut_id sid ids =
     (let i = length (takeWhile (\<lambda>x. x \<noteq> sid) ids)
      in obind (slice_from ids (i + 1)) (\<lambda>rest. Ok (take i ids @ rest)))"

text \<open>
  A session's channels are made when \<open>StartBfdSessionRxTx\<close> takes it from \<open>CreatedSessionCh\<close>; until
  then a send on \<open>SessionStopServerCh\<close> blocks for ever. So it does afterwards when the session is a
  per-link one, whose server never reads that channel.
\<close>

definition stop_blocks :: "int \<Rightarrow> BfdSession \<Rightarrow> BFDServer \<Rightarrow> bool" where
  "stop_blocks sid s sv \<longleftrightarrow> List.member (g_CreatedSessionCh sv) sid \<or> ss_PerLinkSession s"

definition SessionDeleteHandler :: "int \<Rightarrow> int \<Rightarrow> bool \<Rightarrow> BFDServer \<Rightarrow> BFDServer bfd" where
  "SessionDeleteHandler sid Protocol ForceDel sv =
     (case g_Sessions sv sid of
        None \<Rightarrow> Panic
      | Some s0 \<Rightarrow>
          obind (set_protocol Protocol False (ss_RegisteredProtocols s0)) (\<lambda>ps.
            let s = s0\<lparr>ss_RegisteredProtocols := ps\<rparr>;
                sv1 = sv\<lparr>g_Sessions := (g_Sessions sv)(sid \<mapsto> s)\<rparr>
            in obind (CheckIfAnyProtocolRegistered s) (\<lambda>registered.
                 if \<not> ForceDel \<and> registered then Ok sv1
                 else if stop_blocks sid s sv1 then Error Blocked
                 else
                   (case g_SessionParams sv1 (ss_ParamName s) of
                      None \<Rightarrow> Panic
                    | Some p \<Rightarrow>
                        obind (cut_id (ss_SessionId s) (g_SessionsIdSlice sv1)) (\<lambda>ids.
                          Ok (sv1\<lparr>g_SessionParams := (g_SessionParams sv1)(ss_ParamName s \<mapsto>
                                    p\<lparr>sp_NumSessions := to_i32 (sp_NumSessions p - 1)\<rparr>),
                                  g_NumSessions := g_NumSessions sv1 - 1,
                                  g_Sessions := (g_Sessions sv1)(ss_SessionId s := None),
                                  g_SessionsByIp := (g_SessionsByIp sv1)(ss_IpAddr s := None),
                                  g_SessionsIdSlice := ids,
                                  g_starting := removeAll sid (g_starting sv1)\<rparr>))))))"

text \<open>Ranging over \<open>Sessions\<close> while \<open>f\<close> changes the server; entries deleted meanwhile are skipped.\<close>

fun for_sessions ::
  "(int \<Rightarrow> BfdSession \<Rightarrow> BFDServer \<Rightarrow> BFDServer bfd) \<Rightarrow> int list \<Rightarrow> BFDServer \<Rightarrow> BFDServer bfd" where
  "for_sessions f [] sv = Ok sv"
| "for_sessions f (k # ks) sv =
     (case g_Sessions sv k of
        None \<Rightarrow> for_sessions f ks sv
      | Some s \<Rightarrow> obind (f k s sv) (for_sessions f ks))"

definition DeletePerLinkSessions ::
  "int list \<Rightarrow> string \<Rightarrow> int \<Rightarrow> bool \<Rightarrow> BFDServer \<Rightarrow> BFDServer bfd" where
  "DeletePerLinkSessions ks DestIp Protocol ForceDel sv =
     for_sessions (\<lambda>sid s sv1. if ss_IpAddr s = DestIp then SessionDeleteHandler sid Protocol ForceDel sv1
                              else Ok sv1) ks sv"

definition DeleteBfdSession :: "int list \<Rightarrow> BfdSessionMgmt \<Rightarrow> BFDServer \<Rightarrow> BFDServer bfd" where
  "DeleteBfdSession ks m sv =
     (let sessionIp = session_ip m in
      case FindBfdSession ks sessionIp sv of
        None \<Rightarrow> Ok sv
      | Some sid \<Rightarrow>
          (case g_Sessions sv sid of
             None \<Rightarrow> Panic
           | Some s \<Rightarrow>
               if ss_PerLinkSession s
               then DeletePerLinkSessions ks sessionIp (m_Protocol m) (m_ForceDel m) sv
               else SessionDeleteHandler sid (m_Protocol m) (m_ForceDel m) sv))"

section \<open>Administration\<close>

definition on_session ::
  "(BfdSession \<Rightarrow> BfdSession bfd) \<Rightarrow> int \<Rightarrow> BFDServer \<Rightarrow> BFDServer bfd" where
  "on_session f sid sv =
     (case g_Sessions sv sid of
        None \<Rightarrow> Panic
      | Some s \<Rightarrow> obind (f s) (\<lambda>s1. Ok (sv\<lparr>g_Sessions := (g_Sessions sv)(sid \<mapsto> s1)\<rparr>)))"

definition AdminUpPerLinkBfdSessions ::
  "Env \<Rightarrow> int \<Rightarrow> int list \<Rightarrow> string \<Rightarrow> BFDServer \<Rightarrow> BFDServer bfd" where
  "AdminUpPerLinkBfdSessions e now ks DestIp sv =
     for_sessions (\<lambda>sid s sv1. if ss_IpAddr s = DestIp
                              then on_session (StartBfdSession (e_product e) now) sid sv1
                              else Ok sv1) ks sv"

definition AdminDownPerLinkBfdSessions ::
  "int \<Rightarrow> int list \<Rightarrow> string \<Rightarrow> BFDServer \<Rightarrow> BFDServer bfd" where
  "AdminDownPerLinkBfdSessions now ks DestIp sv =
     for_sessions (\<lambda>sid s sv1. if ss_IpAddr s = DestIp then on_session (StopBfdSession now) sid sv1
                              else Ok sv1) ks sv"

definition AdminUpBfdSession ::
  "Env \<Rightarrow> int \<Rightarrow> int list \<Rightarrow> BfdSessionMgmt \<Rightarrow> BFDServer \<Rightarrow> BFDServer bfd" where
  "AdminUpBfdSession e now ks m sv =
     (case FindBfdSession ks (m_DestIp m) sv of
        None \<Rightarrow> Ok sv
      | Some sid \<Rightarrow>
          (case g_Sessions sv sid of
             None \<Rightarrow> Panic
           | Some s \<Rightarrow> if ss_PerLinkSession s then AdminUpPerLinkBfdSessions e now ks (m_DestIp m) sv
                       else on_session (StartBfdSession (e_product e) now) sid sv))"

definition AdminDownBfdSession ::
  "int \<Rightarrow> int list \<Rightarrow> BfdSessionMgmt \<Rightarrow> BFDServer \<Rightarrow> BFDServer bfd" where
  "AdminDownBfdSession now ks m sv =
     (case FindBfdSession ks (m_DestIp m) sv of
        None \<Rightarrow> Ok sv
      | Some sid \<Rightarrow>
          (case g_Sessions sv sid of
             None \<Rightarrow> Panic
           | Some s \<Rightarrow> if ss_PerLinkSession s then AdminDownPerLinkBfdSessions now ks (m_DestIp m) sv
                       else on_session (StopBfdSession now) sid sv))"

definition SendAdminUpToAllNeighbors :: "Env \<Rightarrow> int \<Rightarrow> int list \<Rightarrow> BFDServer \<Rightarrow> BFDServer bfd" where
  "SendAdminUpToAllNeighbors e now ks sv =
     for_sessions (\<lambda>sid s. on_session (StartBfdSession (e_product e) now) sid) ks sv"

definition SendAdminDownToAllNeighbors :: "int \<Rightarrow> int list \<Rightarrow> BFDServer \<Rightarrow> BFDServer bfd" where
  "SendAdminDownToAllNeighbors now ks sv =
     for_sessions (\<lambda>sid s. on_session (StopBfdSession now) sid) ks sv"

text \<open>The stopped client stops its timers on the way out; a new client is started.\<close>

definition stop_client :: "BfdSession \<Rightarrow> BfdSession" where
  "stop_client s = (if IsSessionActive s then s\<lparr>bs_txTimer := Idle, bs_sessionTimer := Idle\<rparr> else s)"

definition ResetBfdSession :: "int \<Rightarrow> BFDServer \<Rightarrow> BFDServer bfd" where
  "ResetBfdSession sid sv =
     (case g_Sessions sv sid of
        None \<Rightarrow> Panic
      | Some s \<Rightarrow>
          if stop_blocks sid s sv then Error Blocked
          else Ok (sv\<lparr>g_Sessions := (g_Sessions sv)(sid \<mapsto>
                        (ResetLocalSessionParams (stop_client s))\<lparr>bs_isClientActive := False\<rparr>),
                     g_starting := g_starting sv @ [sid]\<rparr>))"

fun restart_all :: "(int \<Rightarrow> BFDServer \<Rightarrow> BFDServer bfd) \<Rightarrow> int list \<Rightarrow> BFDServer \<Rightarrow> BFDServer bfd" where
  "restart_all f [] sv = Ok sv"
| "restart_all f (sid # ids) sv = obind (f sid sv) (restart_all f ids)"

definition processGlobalConfig ::
  "Env \<Rightarrow> int \<Rightarrow> string \<Rightarrow> bool \<Rightarrow> BFDServer \<Rightarrow> BFDServer bfd" where
  "processGlobalConfig e now vrf enable sv =
     (let wasEnabled = g_Enabled sv;
          sv1 = sv\<lparr>g_Vrf := vrf, g_Enabled := enable\<rparr>
      in if \<not> wasEnabled \<and> enable
         then restart_all (on_session (StartBfdSession (e_product e) now)) (g_SessionsIdSlice sv1) sv1
         else if wasEnabled \<and> \<not> enable
         then restart_all (on_session (StopBfdSession now)) (g_SessionsIdSlice sv1) sv1
         else Ok sv1)"

definition initBfdGlobalConfDefault :: "BFDServer \<Rightarrow> BFDServer" where
  "initBfdGlobalConfDefault sv = sv\<lparr>g_Enabled := True\<rparr>"

definition processSessionConfig ::
  "Env \<Rightarrow> int \<Rightarrow> int list \<Rightarrow> SessionConfig \<Rightarrow> BFDServer \<Rightarrow> BFDServer bfd_call" where
  "processSessionConfig e now ks sc sv =
     (let m = \<lparr>m_DestIp = sc_DestIp sc, m_ParamName = sc_ParamName sc,
               m_Interface = sc_Interface sc, m_Protocol = sc_Protocol sc,
               m_PerLink = sc_PerLink sc, m_ForceDel = False\<rparr>
      in case sc_Operation sc of
           CREATE \<Rightarrow> rbind (CreateBfdSession e ks m sv) (\<lambda>(sv1, _). Some (Ok sv1))
         | DELETE \<Rightarrow> Some (DeleteBfdSession ks m sv)
         | ADMINUP \<Rightarrow> Some (AdminUpBfdSession e now ks m sv)
         | ADMINDOWN \<Rightarrow> Some (AdminDownBfdSession now ks m sv))"

section \<open>The goroutines of the sessions\<close>

text \<open>A created session gets its channels, and its server and client are started.\<close>

definition take_created :: "BFDServer \<Rightarrow> BFDServer" where
  "take_created sv =
     (case g_CreatedSessionCh sv of
        [] \<Rightarrow> sv
      | sid # sids \<Rightarrow>
          (case g_Sessions sv sid of
             None \<Rightarrow> sv\<lparr>g_CreatedSessionCh := sids\<rparr>
           | Some s \<Rightarrow> sv\<lparr>g_CreatedSessionCh := sids,
                            g_Sessions := (g_Sessions sv)(sid \<mapsto> s\<lparr>bs_isClientActive := False\<rparr>),
                            g_starting := g_starting sv @ [sid]\<rparr>))"

definition take_failed :: "BFDServer \<Rightarrow> BFDServer" where
  "take_failed sv =
     (case g_FailedSessionClientCh sv of
        [] \<Rightarrow> sv
      | sid # sids \<Rightarrow>
          sv\<lparr>g_FailedSessionClientCh := sids,
             g_InactiveSessionsIdSlice := g_InactiveSessionsIdSlice sv @
               (if g_Sessions sv sid = None then [] else [sid])\<rparr>)"

text \<open>The client of a per-link session; it never sets \<open>isClientActive\<close>.\<close>

definition StartPerLinkSessionClient :: "BfdSession \<Rightarrow> BfdSession" where
  "StartPerLinkSessionClient s =
     s\<lparr>bs_sessionTimer := Armed (tdiv (to_i32 (ss_RequiredMinRxInterval s * ss_DetectionMultiplier s)) 1000),
       bs_txTimer := Armed (tdiv (ss_DesiredMinTxInterval s) 1000)\<rparr>"

text \<open>A started client runs: it gets its connection (\<open>up\<close>), or reports that it failed.\<close>

definition client_runs :: "int \<Rightarrow> bool \<Rightarrow> BFDServer \<Rightarrow> BFDServer" where
  "client_runs sid up sv =
     (if \<not> List.member (g_starting sv) sid then sv
      else
        let sv1 = sv\<lparr>g_starting := remove1 sid (g_starting sv)\<rparr>
        in case g_Sessions sv sid of
             None \<Rightarrow> sv1
           | Some s \<Rightarrow>
               if up then sv1\<lparr>g_Sessions := (g_Sessions sv)(sid \<mapsto>
                 if ss_PerLinkSession s then StartPerLinkSessionClient s else StartSessionClient s)\<rparr>
               else sv1\<lparr>g_FailedSessionClientCh := g_FailedSessionClientCh sv @ [sid]\<rparr>)"

text \<open>One tick of the retry handler. The index also advances when the entry under it was removed.\<close>

function retry_loop :: "nat \<Rightarrow> BFDServer \<Rightarrow> BFDServer" where
  "retry_loop i sv =
     (let ids = g_InactiveSessionsIdSlice sv in
      if i < length ids then
        retry_loop (i + 1)
          (case g_Sessions sv (ids ! i) of
             None \<Rightarrow> sv
           | Some s \<Rightarrow> sv\<lparr>g_starting := g_starting sv @ (if bs_isClientActive s then [] else [ids ! i]),
                            g_InactiveSessionsIdSlice := take i ids @ drop (i + 1) ids\<rparr>)
      else sv)"
  by pat_completeness auto
termination
  by (relation "measure (\<lambda>(i, sv). length (g_InactiveSessionsIdSlice sv) - i)")
     (auto split: option.splits)

declare retry_loop.simps [simp del]

definition retry_tick :: "BFDServer \<Rightarrow> BFDServer" where
  "retry_tick sv = retry_loop 0 sv"

text \<open>
  A session's own goroutines. Those of a per-link session rebuild the packet for every transmission,
  restart their timers with other intervals, and take their packets from a capture handle
  (\<open>per_link_packet\<close>), where the discriminator may name any session.
\<close>

definition per_link_send :: "bool \<Rightarrow> BfdSession \<Rightarrow> BfdSession bfd" where
  "per_link_send written s =
     obind (UpdateBfdSessionControlPacket s) (\<lambda>s1.
       if \<not> written then Ok s1
       else tx_Reset (tdiv (ss_DesiredMinTxInterval s1) 1000)
              (s1\<lparr>bs_out := bs_out s1 @ [Transmit (CreateBfdControlPacket (bs_bfdPacket s1))],
                  bs_useDedicatedMac := bs_useDedicatedMac s1 \<and> ss_SessionState s1 \<noteq> STATE_UP,
                  ss_NumTxPackets := ss_NumTxPackets s1 + 1\<rparr>))"

definition per_link_timeout :: "int \<Rightarrow> BfdSession \<Rightarrow> BfdSession bfd" where
  "per_link_timeout now s =
     obind (event now TIMEOUT (s\<lparr>ss_LocalDiagType := DIAG_TIME_EXPIRED\<rparr>)) (\<lambda>s1.
       session_Reset (tdiv (to_i32 (ss_RequiredMinRxInterval s1 * ss_DetectionMultiplier s1)) 1000) s1)"

definition own_input :: "(int \<Rightarrow> int \<Rightarrow> int) \<Rightarrow> int \<Rightarrow> bfd_input \<Rightarrow> BfdSession \<Rightarrow> BfdSession bfd" where
  "own_input jitter now i s =
     (if \<not> ss_PerLinkSession s then bfd_handle jitter now i s
      else case i of
          TxExpiry written \<Rightarrow>
            if armed (bs_txTimer s) then per_link_send written (s\<lparr>bs_txTimer := Idle\<rparr>) else Ok s
        | SessionExpiry \<Rightarrow>
            if armed (bs_sessionTimer s) then per_link_timeout now (s\<lparr>bs_sessionTimer := Idle\<rparr>) else Ok s
        | RxBfd p \<Rightarrow> Ok s
        | _ \<Rightarrow> bfd_handle jitter now i s)"

definition per_link_packet ::
  "(int \<Rightarrow> int \<Rightarrow> int) \<Rightarrow> int \<Rightarrow> byte list \<Rightarrow> byte list \<Rightarrow> byte list \<Rightarrow> byte list \<Rightarrow> byte list \<Rightarrow>
   BFDServer \<Rightarrow> BFDServer bfd" where
  "per_link_packet jitter now myMac srcMac dstMac payload spare sv =
     (if srcMac = myMac \<or> length payload < DEFAULT_CONTROL_PACKET_LEN then Ok sv
      else case DecodeBfdControlPacket payload spare of
          Ok p \<Rightarrow>
            (let sid = to_i32 (uint (k_YourDiscriminator p)) in
             if sid = 0 then Ok sv
             else on_session (\<lambda>s.
                    let s1 = (if ss_RemoteMacAddr s \<noteq> srcMac then s\<lparr>ss_RemoteMacAddr := dstMac\<rparr> else s)
                    in ProcessBfdPacket jitter now p (s1\<lparr>ss_NumRxPackets := ss_NumRxPackets s1 + 1\<rparr>)) sid sv)
        | Error _ \<Rightarrow> Ok sv
        | Panic \<Rightarrow> Panic)"

section \<open>Received packets\<close>

text \<open>
  The result names the session whose \<open>ReceivedPacketCh\<close> got the packet. The key is the
  discriminator read as \<open>int32\<close>.
\<close>

definition DispatchReceivedBfdPacket ::
  "string \<Rightarrow> BfdControlPacket \<Rightarrow> BFDServer \<Rightarrow> (BFDServer \<times> int option) bfd" where
  "DispatchReceivedBfdPacket ipAddr p sv =
     (let sessionId = to_i32 (uint (k_YourDiscriminator p));
          key = (if g_Sessions sv sessionId \<noteq> None then Some sessionId else g_SessionsByIp sv ipAddr)
      in case key of
           None \<Rightarrow> Ok (sv, None)
         | Some sid \<Rightarrow>
             (case g_Sessions sv sid of
                None \<Rightarrow> Ok (sv, None)
              | Some s \<Rightarrow>
                  if IsSessionActive s \<and> bs_rxInterval s \<noteq> 0 \<and> bs_sessionTimer s \<noteq> NoTimer
                  then obind (on_session (session_Reset (bs_rxInterval s)) sid sv) (\<lambda>sv1.
                         Ok (sv1, Some sid))
                  else Ok (sv, None)))"

text \<open>One datagram of the UDP server, \<open>spare\<close> being the rest of its buffer.\<close>

definition receive_datagram ::
  "string \<Rightarrow> byte list \<Rightarrow> byte list \<Rightarrow> BFDServer \<Rightarrow> (BFDServer \<times> int option) bfd" where
  "receive_datagram ipAddr data spare sv =
     (if length data < DEFAULT_CONTROL_PACKET_LEN then Ok (sv, None)
      else case DecodeBfdControlPacket data spare of
             Ok p \<Rightarrow> DispatchReceivedBfdPacket ipAddr p sv
           | Error _ \<Rightarrow> Ok (sv, None)
           | Panic \<Rightarrow> Panic)"

section \<open>Next hop changes\<close>

fun retry_sessions ::
  "Env \<Rightarrow> int list \<Rightarrow> string list \<Rightarrow> BFDServer \<Rightarrow> BFDServer bfd_call" where
  "retry_sessions e ks [] sv = Some (Ok sv)"
| "retry_sessions e ks (ip # ips) sv =
     (case g_tobeCreatedSessions sv ip of
        None \<Rightarrow> retry_sessions e ks ips sv
      | Some m \<Rightarrow>
          rbind (CreateBfdSession e ks m sv) (\<lambda>(sv1, r).
            retry_sessions e ks ips
              (case r of
                 Inr _ \<Rightarrow> sv1\<lparr>g_tobeCreatedSessions := (g_tobeCreatedSessions sv1)(m_DestIp m := None)\<rparr>
               | Inl _ \<Rightarrow> sv1)))"

definition HandleNextHopChange ::
  "Env \<Rightarrow> int list \<Rightarrow> string list \<Rightarrow> bool \<Rightarrow> BFDServer \<Rightarrow> BFDServer bfd_call" where
  "HandleNextHopChange e ks ips Reachable sv =
     (if Reachable then retry_sessions e ks ips sv else Some (Ok sv))"

section \<open>State queries\<close>

fun before_percent :: "string \<Rightarrow> string" where
  "before_percent [] = []"
| "before_percent (c # cs) = (if c = CHR ''%'' then [] else c # before_percent cs)"

text \<open>The copied fields of one session.\<close>

definition session_state_copy :: "BfdSession \<Rightarrow> SessionState" where
  "session_state_copy s = (SessionState.truncate s)\<lparr>ss_IpAddr := before_percent (ss_IpAddr s),
                                                     ss_LocalAddr := []\<rparr>"

definition empty_session_state :: SessionState where
  "empty_session_state =
     \<lparr>ss_IpAddr = [], ss_LocalAddr = [], ss_SessionId = 0, ss_ParamName = [], ss_Interface = [],
      ss_InterfaceSpecific = False, ss_PerLinkSession = False, ss_LocalMacAddr = [],
      ss_RemoteMacAddr = [], ss_RegisteredProtocols = [], ss_SessionState = STATE_ADMIN_DOWN,
      ss_RemoteSessionState = STATE_ADMIN_DOWN, ss_LocalDiscriminator = 0,
      ss_RemoteDiscriminator = 0, ss_LocalDiagType = 0, ss_DesiredMinTxInterval = 0,
      ss_RequiredMinRxInterval = 0, ss_RemoteMinRxInterval = 0, ss_DetectionMultiplier = 0,
      ss_RemoteDetectionMultiplier = 0, ss_DemandMode = False, ss_RemoteDemandMode = False,
      ss_AuthType = 0, ss_AuthSeqKnown = False, ss_ReceivedAuthSeq = 0, ss_SentAuthSeq = 0,
      ss_NumTxPackets = 0, ss_NumRxPackets = 0, ss_ToDownCount = 0, ss_ToUpCount = 0,
      ss_UpTime = 0\<rparr>"

text \<open>The loop \<open>for i := idx; i < count; i++\<close>, \<open>n\<close> iterations from \<open>i\<close>.\<close>

fun bulk_loop :: "nat \<Rightarrow> nat \<Rightarrow> BFDServer \<Rightarrow> SessionState list \<Rightarrow> SessionState list bfd" where
  "bulk_loop i 0 sv result = Ok result"
| "bulk_loop i (Suc n) sv result =
     obind (idx (g_SessionsIdSlice sv) i) (\<lambda>sid.
       case g_Sessions sv sid of
         None \<Rightarrow> Panic
       | Some s \<Rightarrow>
           obind (set_idx result i (session_state_copy s)) (bulk_loop (i + 1) n sv))"

text \<open>\<open>make\<close> of a negative length panics.\<close>

definition GetBulkBfdSessionStates ::
  "nat \<Rightarrow> nat \<Rightarrow> BFDServer \<Rightarrow> (int \<times> int \<times> SessionState list) bfd" where
  "GetBulkBfdSessionStates start cnt sv =
     (let len = length (g_SessionsIdSlice sv);
          (count, nextIdx) = (if start + cnt \<ge> len then (int len - int start, 0)
                              else (0, int start + 0 + 1))
      in if count < 0 then Panic
         else obind (bulk_loop start (nat count - start) sv (replicate (nat count) empty_session_state))
                (\<lambda>result. Ok (nextIdx, count, result)))"

definition GetBfdSessionState :: "int list \<Rightarrow> string \<Rightarrow> BFDServer \<Rightarrow> (SessionState \<times> bool) bfd" where
  "GetBfdSessionState ks ipAddr sv =
     (case FindBfdSessionContainingAddr ks ipAddr sv of
        None \<Rightarrow> Ok (empty_session_state, False)
      | Some sid \<Rightarrow>
          (case g_Sessions sv sid of None \<Rightarrow> Panic | Some s \<Rightarrow> Ok (session_state_copy s, True)))"

definition GetBfdSessionParamState :: "string \<Rightarrow> BFDServer \<Rightarrow> SessionParamState option" where
  "GetBfdSessionParamState paramName sv = g_SessionParams sv paramName"

end
