(* ===== verification/BfdTables.thy ===== *)
theory BfdTables
  imports BfdServer
begin

text \<open>
  The session tables of the BFD server stay consistent under every call, and the places where the
  server hangs, panics or answers wrongly.
\<close>

section \<open>The session tables\<close>

definition server_inv :: "BFDServer \<Rightarrow> bool" where
  "server_inv sv \<longleftrightarrow>
     (\<forall>sid s. g_Sessions sv sid = Some s \<longrightarrow> ss_SessionId s = sid \<and> 0 < sid \<and> sid < 1024 \<and>
        ss_LocalDiscriminator s = word_of_int sid \<and> length (ss_RegisteredProtocols s) = MAX_APPS) \<and>
     distinct (g_SessionsIdSlice sv) \<and> set (g_SessionsIdSlice sv) = dom (g_Sessions sv) \<and>
     g_NumSessions sv = of_nat (length (g_SessionsIdSlice sv)) \<and>
     (\<forall>ip sid. g_SessionsByIp sv ip = Some sid \<longrightarrow>
        (\<exists>s. g_Sessions sv sid = Some s \<and> ss_IpAddr s = ip)) \<and>
     distinct (g_CreatedSessionCh sv) \<and> set (g_CreatedSessionCh sv) \<subseteq> dom (g_Sessions sv)"

text \<open>What an operation on one session leaves alone.\<close>

definition ident :: "BfdSession \<Rightarrow> int \<times> string \<times> u32 \<times> bool list \<times> string" where
  "ident s = (ss_SessionId s, ss_IpAddr s, ss_LocalDiscriminator s, ss_RegisteredProtocols s, ss_ParamName s)"

lemma server_inv_update:
  assumes "server_inv sv" "g_Sessions sv sid = Some s" "ident s' = ident s"
  shows "server_inv (sv\<lparr>g_Sessions := (g_Sessions sv)(sid \<mapsto> s')\<rparr>)"
proof -
  have d: "dom ((g_Sessions sv)(sid \<mapsto> s')) = dom (g_Sessions sv)" using assms(2) by auto
  note inv = assms(1) [unfolded server_inv_def]
  have e: "ss_SessionId s = sid" "0 < sid" "sid < 1024" "ss_LocalDiscriminator s = word_of_int sid"
    "length (ss_RegisteredProtocols s) = MAX_APPS" using inv assms(2) by blast+
  show ?thesis
    unfolding server_inv_def
  proof (intro conjI allI impI)
    fix k x assume "g_Sessions (sv\<lparr>g_Sessions := (g_Sessions sv)(sid \<mapsto> s')\<rparr>) k = Some x"
    then have "k = sid \<and> x = s' \<or> k \<noteq> sid \<and> g_Sessions sv k = Some x" by (auto split: if_splits)
    then show "ss_SessionId x = k" "0 < k" "k < 1024" "ss_LocalDiscriminator x = word_of_int k"
      "length (ss_RegisteredProtocols x) = MAX_APPS"
      using inv e assms(3) by (auto simp: ident_def)
  next
    fix ip k assume "g_SessionsByIp (sv\<lparr>g_Sessions := (g_Sessions sv)(sid \<mapsto> s')\<rparr>) ip = Some k"
    then obtain x where "g_Sessions sv k = Some x" "ss_IpAddr x = ip" using inv by force
    then show "\<exists>x. g_Sessions (sv\<lparr>g_Sessions := (g_Sessions sv)(sid \<mapsto> s')\<rparr>) k = Some x \<and> ss_IpAddr x = ip"
      using assms(2,3) by (auto simp: ident_def)
  qed (use inv d in simp_all)
qed

lemma timer_ident:
  "tx_Reset d s = Ok s' \<Longrightarrow> ident s' = ident s" "tx_Stop s = Ok s' \<Longrightarrow> ident s' = ident s"
  "session_Reset d s = Ok s' \<Longrightarrow> ident s' = ident s" "session_Stop s = Ok s' \<Longrightarrow> ident s' = ident s"
  by (auto simp: tx_Reset_def tx_Stop_def session_Reset_def session_Stop_def ident_def)

lemma SendBfdNotification_ident [simp]: "ident (SendBfdNotification s) = ident s"
  by (simp add: SendBfdNotification_def Let_def ident_def)

lemma ident_update [simp]:
  "ident (s\<lparr>ss_SessionState := x\<rparr>) = ident s" "ident (s\<lparr>ss_LocalDiagType := g\<rparr>) = ident s"
  "ident (s\<lparr>bs_rxInterval := i\<rparr>) = ident s" "ident (s\<lparr>bs_txInterval := i\<rparr>) = ident s"
  "ident (s\<lparr>bs_stateChanged := b\<rparr>) = ident s" "ident (s\<lparr>ss_ToDownCount := w\<rparr>) = ident s"
  "ident (s\<lparr>bs_movedToDownState := b\<rparr>) = ident s" "ident (s\<lparr>bs_useDedicatedMac := b\<rparr>) = ident s"
  "ident (s\<lparr>bs_authSeqNum := w\<rparr>) = ident s" "ident (s\<lparr>ss_RemoteSessionState := x\<rparr>) = ident s"
  "ident (s\<lparr>ss_UpTime := i\<rparr>) = ident s" "ident (s\<lparr>ss_ToUpCount := w\<rparr>) = ident s"
  "ident (s\<lparr>bs_isClientActive := b\<rparr>) = ident s" "ident (s\<lparr>ss_NumRxPackets := w\<rparr>) = ident s"
  "ident (s\<lparr>ss_NumTxPackets := w\<rparr>) = ident s" "ident (s\<lparr>ss_InterfaceSpecific := b\<rparr>) = ident s"
  "ident (s\<lparr>bs_pollSequence := b\<rparr>) = ident s" "ident (s\<lparr>bs_pollChanged := b\<rparr>) = ident s"
  "ident (s\<lparr>bs_paramChanged := b\<rparr>) = ident s" "ident (s\<lparr>bs_txTimer := t\<rparr>) = ident s"
  "ident (s\<lparr>bs_sessionTimer := t\<rparr>) = ident s" "ident (s\<lparr>bs_bfdPacket := p\<rparr>) = ident s"
  "ident (s\<lparr>bs_bfdPacketBuf := bs\<rparr>) = ident s" "ident (s\<lparr>bs_out := ops\<rparr>) = ident s"
  "ident (s\<lparr>bs_pollSequenceFinal := b\<rparr>) = ident s" "ident (s\<lparr>ss_RemoteDemandMode := b\<rparr>) = ident s"
  "ident (s\<lparr>ss_RemoteDiscriminator := u\<rparr>) = ident s" "ident (s\<lparr>ss_RemoteMacAddr := bs\<rparr>) = ident s" "ident (s\<lparr>bs_remoteParamChanged := b\<rparr>) = ident s"
  by (simp_all add: ident_def)

lemma move_ident:
  "MoveToDownState s = Ok s' \<Longrightarrow> ident s' = ident s" "MoveToInitState s = Ok s' \<Longrightarrow> ident s' = ident s"
  "MoveToUpState now s = Ok s' \<Longrightarrow> ident s' = ident s" "LocalAdminDown s = Ok s' \<Longrightarrow> ident s' = ident s"
  "RemoteAdminDown s = Ok s' \<Longrightarrow> ident s' = ident s"
  by (auto simp: move_defs dest!: timer_ident split: if_splits)

lemma event_ident: "event now ev s = Ok s' \<Longrightarrow> ident s' = ident s"
  by (auto simp: event_def EventHandler_def handle_event_def move_ident
      split: if_splits BfdSessionState.splits BfdSessionEvent.splits)

lemma StartStop_ident:
  "StartBfdSession j now s = Ok s' \<Longrightarrow> ident s' = ident s" "StopBfdSession now s = Ok s' \<Longrightarrow> ident s' = ident s"
  by (auto simp: StartBfdSession_def StopBfdSession_def dest!: event_ident timer_ident)

lemma ProcessBfdPacket_ident:
  assumes "ProcessBfdPacket j now p s = Ok s'"
  shows "ident s' = ident s"
proof -
  obtain b q where a: "AuthenticateReceivedControlPacket s p = Ok (b, q)"
    using assms by (auto simp: ProcessBfdPacket_def)
  define s1 where "s1 = CheckAnyRemoteParamChanged q (s\<lparr>bs_rxInterval := detection_interval q s\<rparr>)"
  show ?thesis
  proof (cases "b \<and> CanProcessBfdControlPacket q")
    case True
    then obtain s2 s4 ev s5 where s2: "RemoteChangedDemandMode j q s1 = Ok s2"
      and s4: "(if bs_rxInterval (ProcessPollSequence q s2) = 0 \<or> ss_SessionState (ProcessPollSequence q s2) = STATE_ADMIN_DOWN \<or>
           ss_RemoteSessionState (ProcessPollSequence q s2) = STATE_ADMIN_DOWN
         then session_Stop (ProcessPollSequence q s2) else Ok (ProcessPollSequence q s2)) = Ok s4"
      and s5: "remote_event s4 = Ok (ev, s5)" "event now ev s5 = Ok s'"
      using assms a by (auto simp: ProcessBfdPacket_def Let_def s1_def)
    have "ident s1 = ident s" by (simp add: s1_def CheckAnyRemoteParamChanged_def ident_def Let_def)
    moreover have "ident s2 = ident s1"
      using s2 by (auto simp: RemoteChangedDemandMode_def Let_def dest!: timer_ident split: if_splits)
    moreover have "ident (ProcessPollSequence q s2) = ident s2"
      by (simp add: ProcessPollSequence_def ident_def Let_def)
    moreover have "ident s4 = ident (ProcessPollSequence q s2)"
      using s4 by (auto dest: timer_ident split: if_splits)
    moreover have "ident s5 = ident s4"
      using s5(1) by (auto simp: remote_event_def dest!: timer_ident split: if_splits BfdSessionState.splits)
    moreover have "ident s' = ident s5" using event_ident [OF s5(2)] .
    ultimately show ?thesis by simp
  next
    case False
    then have "ProcessBfdPacket j now p s = Ok s" using a by (auto simp: ProcessBfdPacket_def)
    then show ?thesis using assms by simp
  qed
qed

lemma update_intervals_ident:
  assumes "update_intervals s = Ok s'"
  shows "ident s' = ident s"
proof (cases "ss_SessionState s = STATE_UP \<and> ss_RemoteSessionState s = STATE_UP")
  case True
  define s1 where "s1 = (if k_DesiredMinTxInterval (bs_bfdPacket s) = STARTUP_TX_INTERVAL \<or>
                      k_RequiredMinRxInterval (bs_bfdPacket s) = STARTUP_RX_INTERVAL
                   then InitiatePollSequence
                          (s\<lparr>bs_bfdPacket := (bs_bfdPacket s)\<lparr>k_DesiredMinTxInterval := ss_DesiredMinTxInterval s,
                                              k_RequiredMinRxInterval := ss_RequiredMinRxInterval s\<rparr>\<rparr>)
                   else s)"
  define s2 where "s2 = s1\<lparr>bs_bfdPacket := (bs_bfdPacket s1)\<lparr>k_Demand := ss_DemandMode s1\<rparr>\<rparr>"
  have id: "ident s2 = ident s" by (simp add: s2_def s1_def InitiatePollSequence_def)
  note h = assms [unfolded update_intervals_def Let_def, folded s1_def, folded s2_def]
  then obtain s3 where s3: "(if \<not> k_Demand (bs_bfdPacket s1) \<and> ss_DemandMode s1 then session_Stop s2 else Ok s2) = Ok s3"
    "(if k_Demand (bs_bfdPacket s1) \<and> \<not> ss_DemandMode s1 then session_Reset (bs_rxInterval s3) s3 else Ok s3) = Ok s'"
    using True by (simp del: not_not) blast
  have "ident s3 = ident s2" using s3(1) by (cases "\<not> k_Demand (bs_bfdPacket s1) \<and> ss_DemandMode s1") (simp_all add: timer_ident)
  moreover have "ident s' = ident s3"
    using s3(2) by (cases "k_Demand (bs_bfdPacket s1) \<and> \<not> ss_DemandMode s1") (simp_all add: timer_ident)
  ultimately show ?thesis using id by simp
next
  case False
  then show ?thesis using assms by (auto simp: update_intervals_def Let_def)
qed

lemma update_auth_ident:
  assumes "update_auth s = Ok s'"
  shows "ident s' = ident s"
proof (cases "bs_authEnabled s")
  case True
  then obtain h where "k_AuthHeader (bs_bfdPacket s) = Some h"
    using assms by (cases "k_AuthHeader (bs_bfdPacket s)") (simp_all add: update_auth_def)
  then have "ident (case update_auth s of Ok x \<Rightarrow> x) = ident s" using True by (simp add: update_auth_def Let_def)
  then show ?thesis using assms by simp
next
  case False
  then have "s' = s\<lparr>bs_bfdPacket := (bs_bfdPacket s)\<lparr>k_AuthPresent := False\<rparr>\<rparr>" using assms by (simp add: update_auth_def)
  then show ?thesis by simp
qed

lemma UpdatePacket_ident:
  assumes "UpdateBfdSessionControlPacket s = Ok s'"
  shows "ident s' = ident s"
proof -
  define s1 where "s1 = s\<lparr>bs_bfdPacket := (bs_bfdPacket s)
                   \<lparr>k_Diagnostic := ss_LocalDiagType s, k_State := ss_SessionState s,
                    k_DetectMult := word_of_int (ss_DetectionMultiplier s),
                    k_MyDiscriminator := ss_LocalDiscriminator s,
                    k_YourDiscriminator := ss_RemoteDiscriminator s\<rparr>\<rparr>"
  note packet = assms [unfolded UpdateBfdSessionControlPacket_def Let_def, folded s1_def]
  then obtain s2 where s2: "update_intervals s1 = Ok s2" by (cases "update_intervals s1") simp_all
  define s3 where "s3 = s2\<lparr>bs_bfdPacket := (bs_bfdPacket s2)\<lparr>k_Poll := bs_pollSequence s2, k_Final := bs_pollSequenceFinal s2\<rparr>,
                       bs_pollSequence := False, bs_pollSequenceFinal := False\<rparr>"
  obtain s4 where s4: "update_auth s3 = Ok s4" "s' = s4\<lparr>bs_pollChanged := False, bs_paramChanged := False,
                       bs_stateChanged := False, bs_remoteParamChanged := False\<rparr>"
    using packet [unfolded s2 obind.simps, folded s3_def] by (cases "update_auth s3") simp_all
  have "ident s1 = ident s" "ident s3 = ident s2" "ident s' = ident s4" by (simp_all add: s1_def s3_def s4(2))
  then show ?thesis using update_intervals_ident [OF s2] update_auth_ident [OF s4(1)] by simp
qed

lemma rebuild_if_ident: "(if b then rebuild_packet s else Ok s) = Ok s' \<Longrightarrow> ident s' = ident s"
  by (auto simp: rebuild_packet_def dest!: UpdatePacket_ident split: if_splits)

lemma SendPeriodic_ident:
  assumes "SendPeriodicControlPackets j sent s = Ok s'"
  shows "ident s' = ident s"
proof -
  obtain s1 where s1: "(if NeedBfdPacketUpdate s then rebuild_packet s else Ok s) = Ok s1"
    using assms unfolding SendPeriodicControlPackets_def Let_def by (auto split: if_splits)
  define s2 where "s2 = (if sent then s1\<lparr>bs_out := bs_out s1 @ [Transmit (bs_bfdPacketBuf s1)],
                                  ss_NumTxPackets := ss_NumTxPackets s1 + 1\<rparr> else s1)"
  obtain s3 where s3: "(if NeedBfdPacketUpdate s then rebuild_packet s2 else Ok s2) = Ok s3"
    using assms unfolding SendPeriodicControlPackets_def Let_def s1 obind.simps s2_def [symmetric] by (auto split: if_splits)
  define s4 where "s4 = (if ss_SessionState s3 = STATE_UP \<or> ss_RemoteSessionState s3 = STATE_UP
                       then s3\<lparr>bs_txInterval := tdiv (ss_DesiredMinTxInterval s3) 1000\<rparr> else s3)"
  have "tx_Reset (ApplyTxJitter j s4) s4 = Ok s'"
    using assms unfolding SendPeriodicControlPackets_def Let_def s1 obind.simps s2_def [symmetric] s3 s4_def [symmetric] .
  moreover have "ident s2 = ident s1" "ident s4 = ident s3" by (simp_all add: s2_def s4_def)
  ultimately show ?thesis
    using rebuild_if_ident [OF s1] rebuild_if_ident [OF s3] timer_ident(1) by metis
qed

lemma own_input_ident: "own_input j now i s = Ok s' \<Longrightarrow> ident s' = ident s"
proof -
  have "HandleSessionTimeout now s = Ok s' \<Longrightarrow> ident s' = ident s" for s s'
    by (auto simp: HandleSessionTimeout_def ResetRemoteSessionParams_def Let_def dest!: timer_ident event_ident split: if_splits)
  moreover have "per_link_send w s = Ok s' \<Longrightarrow> ident s' = ident s" for w s s'
    by (auto simp: per_link_send_def dest!: timer_ident UpdatePacket_ident split: if_splits)
  moreover have "per_link_timeout now s = Ok s' \<Longrightarrow> ident s' = ident s" for s s'
    by (auto simp: per_link_timeout_def dest!: timer_ident event_ident)
  ultimately show "own_input j now i s = Ok s' \<Longrightarrow> ident s' = ident s"
    by (cases i)
      (auto simp: own_input_def split: if_splits dest!: ProcessBfdPacket_ident SendPeriodic_ident StartStop_ident)
qed

lemma on_session_inv:
  assumes "on_session f sid sv = Ok sv'" "server_inv sv" "\<And>s s'. f s = Ok s' \<Longrightarrow> ident s' = ident s"
  shows "server_inv sv'"
  using assms by (auto simp: on_session_def intro: server_inv_update split: option.splits)

lemma for_sessions_inv:
  assumes "\<And>k s sv sv'. f k s sv = Ok sv' \<Longrightarrow> server_inv sv \<Longrightarrow> server_inv sv'"
  shows "for_sessions f ks sv = Ok sv' \<Longrightarrow> server_inv sv \<Longrightarrow> server_inv sv'"
  by (induction ks arbitrary: sv) (auto split: option.splits intro: assms)

lemma restart_all_inv:
  assumes "\<And>sid sv sv'. f sid sv = Ok sv' \<Longrightarrow> server_inv sv \<Longrightarrow> server_inv sv'"
  shows "restart_all f ks sv = Ok sv' \<Longrightarrow> server_inv sv \<Longrightarrow> server_inv sv'"
  by (induction ks arbitrary: sv) (auto intro: assms)

lemma UpdateBfdSessionsUsingParam_inv:
  assumes "server_inv sv" shows "server_inv (UpdateBfdSessionsUsingParam n sv)"
proof -
  define u where "u = (\<lambda>s. if ss_ParamName s = n then
            InitiatePollSequence
              ((case g_SessionParams sv n of
                  Some p \<Rightarrow> use_param p s
                | None \<Rightarrow>
                    s\<lparr>ss_DesiredMinTxInterval := DEFAULT_DESIRED_MIN_TX_INTERVAL,
                      ss_RequiredMinRxInterval := DEFAULT_REQUIRED_MIN_RX_INTERVAL,
                      ss_DetectionMultiplier := DEFAULT_DETECT_MULTI,
                      ss_DemandMode := False, bs_authEnabled := False\<rparr>)\<lparr>bs_paramChanged := True\<rparr>)
          else s)"
  have i: "ident (u s) = ident s" for s
    by (simp add: u_def InitiatePollSequence_def use_param_def ident_def split: option.split)
  have "UpdateBfdSessionsUsingParam n sv = sv\<lparr>g_Sessions := (\<lambda>sid. map_option u (g_Sessions sv sid))\<rparr>"
    unfolding UpdateBfdSessionsUsingParam_def u_def ..
  moreover have "dom (\<lambda>sid. map_option u (g_Sessions sv sid)) = dom (g_Sessions sv)" by auto
  moreover have "ss_SessionId (u s) = ss_SessionId s" "ss_IpAddr (u s) = ss_IpAddr s"
    "ss_LocalDiscriminator (u s) = ss_LocalDiscriminator s"
    "ss_RegisteredProtocols (u s) = ss_RegisteredProtocols s" for s
    using i [of s] by (simp_all add: ident_def)
  ultimately show ?thesis using assms by (auto simp: server_inv_def) metis
qed

lemma server_inv_other [simp]:
  "server_inv (sv\<lparr>g_SessionParams := ps\<rparr>) = server_inv sv" "server_inv (sv\<lparr>g_NumSessionParams := n\<rparr>) = server_inv sv"
  "server_inv (sv\<lparr>g_tobeCreatedSessions := m\<rparr>) = server_inv sv" "server_inv (sv\<lparr>g_Vrf := v\<rparr>) = server_inv sv"
  "server_inv (sv\<lparr>g_Enabled := b\<rparr>) = server_inv sv" "server_inv (sv\<lparr>g_starting := c\<rparr>) = server_inv sv"
  "server_inv (sv\<lparr>g_FailedSessionClientCh := c\<rparr>) = server_inv sv" "server_inv (sv\<lparr>g_InactiveSessionsIdSlice := c\<rparr>) = server_inv sv"
  by (simp_all add: server_inv_def)

lemma new_id_loop_free: "new_id_loop rnd n S = Some i \<Longrightarrow> S i = None \<and> i \<noteq> 0 \<and> (\<exists>m. i = rnd m)"
proof -
  assume h: "new_id_loop rnd n S = Some i"
  show ?thesis
    by (rule new_id_loop.raw_induct [where P = "\<lambda>rnd n S i. S i = None \<and> i \<noteq> 0 \<and> (\<exists>m. i = rnd m)", OF _ h])
       (auto simp: Let_def split: if_splits)
qed

lemma set_protocol_length: "set_protocol i b ps = Ok ps' \<Longrightarrow> length ps' = length ps"
  by (auto simp: set_protocol_def set_idx_def split: if_splits)

section \<open>Creating and deleting\<close>

text \<open>The random source draws \<open>Int31n(MAX_NUM_SESSIONS)\<close>.\<close>

definition rand_ok :: "Env \<Rightarrow> bool" where
  "rand_ok e \<longleftrightarrow> (\<forall>n. 0 \<le> e_rand e n \<and> e_rand e n < 1024)"

lemma insert_session_inv:
  assumes inv: "server_inv sv" and free: "g_Sessions sv sid = None" "0 < sid" "sid < 1024"
    and s: "ss_SessionId s = sid" "ss_IpAddr s = ip" "ss_LocalDiscriminator s = word_of_int sid"
      "length (ss_RegisteredProtocols s) = MAX_APPS"
  shows "server_inv (sv\<lparr>g_Sessions := (g_Sessions sv)(sid \<mapsto> s), g_SessionsByIp := (g_SessionsByIp sv)(ip \<mapsto> sid),
     g_NumSessions := g_NumSessions sv + 1, g_SessionsIdSlice := g_SessionsIdSlice sv @ [sid]\<rparr>)"
proof -
  have "sid \<notin> set (g_SessionsIdSlice sv)" using inv free by (auto simp: server_inv_def)
  moreover have "g_SessionsByIp sv x \<noteq> Some sid" for x
    using inv free(1) unfolding server_inv_def by fastforce
  ultimately show ?thesis using inv free s by (auto simp: server_inv_def)
qed

lemma NewNormalBfdSession_inv:
  assumes r: "NewNormalBfdSession e Interface LocalIp DestIp ParamName PerLink Protocol sv = Some (Ok (sv', r))"
    and inv: "server_inv sv" "rand_ok e"
  shows "server_inv sv' \<and> (\<forall>sid. r = Some sid \<longrightarrow> (\<exists>s. g_Sessions sv' sid = Some s \<and> g_Sessions sv sid = None \<and>
     ss_IpAddr s = DestIp \<and> g_SessionsByIp sv' DestIp = Some sid))"
proof -
  obtain sid where sid: "GetNewSessionId e sv = Some sid"
    using r by (auto simp: NewNormalBfdSession_def split: bind_splits)
  show ?thesis
  proof (cases "sid = 0")
    case True
    then show ?thesis using r sid inv by (simp add: NewNormalBfdSession_def)
  next
    case False
    then have "new_id_loop (e_rand e) 0 (g_Sessions sv) = Some sid"
      using sid by (auto simp: GetNewSessionId_def split: if_splits)
    from new_id_loop_free [OF this] have free: "g_Sessions sv sid = None" "0 < sid" "sid < 1024"
      using inv(2) False by (auto simp: rand_ok_def order.order_iff_strict)
    define name where "name = (if g_SessionParams sv ParamName \<noteq> None then ParamName else ''default'')"
    obtain protocols where pr: "set_protocol Protocol True (replicate MAX_APPS False) = (Ok protocols :: bool list bfd)"
      using r sid False by (cases "set_protocol Protocol True (replicate MAX_APPS False) :: bool list bfd")
        (auto simp: NewNormalBfdSession_def)
    obtain p0 where p0: "g_SessionParams sv name = Some p0"
      using r unfolding NewNormalBfdSession_def sid Let_def name_def [symmetric]
      by (auto simp: False pr)
    define p where "p = p0\<lparr>sp_NumSessions := to_i32 (sp_NumSessions p0 + 1)\<rparr>"
    define s where "s = new_session e Interface LocalIp DestIp PerLink protocols name p sid"
    have sv': "sv' = sv\<lparr>g_SessionParams := (g_SessionParams sv)(name \<mapsto> p),
                          g_Sessions := (g_Sessions sv)(sid \<mapsto> s),
                          g_SessionsByIp := (g_SessionsByIp sv)(DestIp \<mapsto> sid),
                          g_NumSessions := g_NumSessions sv + 1,
                          g_SessionsIdSlice := g_SessionsIdSlice sv @ [sid],
                          g_CreatedSessionCh := g_CreatedSessionCh sv @ [sid]\<rparr>" and r': "r = Some sid"
      using r unfolding NewNormalBfdSession_def sid Let_def name_def [symmetric] p0
      by (auto simp: False pr simp flip: p_def s_def)
    have new: "sid \<notin> set (g_CreatedSessionCh sv)" using inv(1) free(1) by (auto simp: server_inv_def)
    have "length protocols = MAX_APPS" using set_protocol_length [OF pr] by simp
    then have s: "ss_SessionId s = sid" "ss_IpAddr s = DestIp" "ss_LocalDiscriminator s = word_of_int sid"
      "length (ss_RegisteredProtocols s) = MAX_APPS" by (simp_all add: s_def new_session_def)
    let ?sv0 = "sv\<lparr>g_SessionParams := (g_SessionParams sv)(name \<mapsto> p)\<rparr>"
    have "server_inv ?sv0" using inv by simp
    from insert_session_inv [OF this _ free(2,3) s] free(1) new have "server_inv sv'"
      by (simp add: sv' server_inv_def)
    then show ?thesis using r' free s(2) by (simp add: sv')
  qed
qed

lemma new_per_link_inv:
  assumes "new_per_link e n l d p pr links sv = Some (Ok sv')" "server_inv sv" "rand_ok e"
  shows "server_inv sv'"
  using assms(1,2)
proof (induction links arbitrary: sv)
  case (Cons link links)
  then obtain sv1 r where "NewNormalBfdSession e n l d p True pr sv = Some (Ok (sv1, r))"
      "new_per_link e n l d p pr links sv1 = Some (Ok sv')"
    by (auto simp: rbind_eq_Ok)
  then show ?case using NewNormalBfdSession_inv Cons assms(3) by blast
qed simp

lemma NewBfdSession_inv:
  assumes r: "NewBfdSession e DestIp ParamName Interface Protocol PerLink sv = Some (Ok (sv', r))"
    and inv: "server_inv sv" "rand_ok e"
  shows "server_inv sv'"
proof (cases "sv' = sv")
  case False
  then obtain i ip where i: "e_reach e DestIp = Some (i, ip)"
    using r by (auto simp: NewBfdSession_def Let_def split: option.splits)
  have n: "\<not> (case e_linuxName e i of None \<Rightarrow> False | Some n \<Rightarrow> (Interface \<noteq> ''None'' \<and> Interface \<noteq> []) \<and> n \<noteq> Interface)"
    using r False unfolding NewBfdSession_def Let_def i by (simp split: if_splits)
  show ?thesis
  proof (cases "e_isLag e i \<and> PerLink")
    case True
    then have "NewPerLinkBfdSessions e i ip DestIp ParamName Protocol sv = Some (Ok sv')"
      using r unfolding NewBfdSession_def Let_def i by (auto simp: n True rbind_eq_Ok)
    then show ?thesis using inv new_per_link_inv
      by (auto simp: NewPerLinkBfdSessions_def split: option.splits)
  next
    case False
    then obtain sv1 sid s where 1: "NewNormalBfdSession e Interface ip DestIp ParamName False Protocol sv = Some (Ok (sv1, Some sid))"
      "g_Sessions sv1 sid = Some s"
      "sv' = sv1\<lparr>g_Sessions := (g_Sessions sv1)(sid \<mapsto> s\<lparr>ss_InterfaceSpecific := (Interface \<noteq> ''None'' \<and> Interface \<noteq> [])\<rparr>)\<rparr>"
      using r unfolding NewBfdSession_def Let_def i
      by (auto simp: n False rbind_eq_Ok)
    then show ?thesis using NewNormalBfdSession_inv [OF 1(1) inv] server_inv_update [OF _ 1(2)] by simp
  qed
qed (use inv in simp)


lemma CreateBfdSession_inv:
  assumes r: "CreateBfdSession e ks m sv = Some (Ok (sv', r))" and inv: "server_inv sv" "rand_ok e"
  shows "server_inv sv'"
proof (cases "FindBfdSession ks (session_ip m) sv")
  case None
  then show ?thesis using r NewBfdSession_inv inv
    by (fastforce simp: CreateBfdSession_def Let_def rbind_eq_Ok split: option.splits if_splits)
next
  case (Some sid)
  then obtain s ps where s: "g_Sessions sv sid = Some s"
    "set_protocol (m_Protocol m) True (ss_RegisteredProtocols s) = Ok ps"
    "sv' = sv\<lparr>g_Sessions := (g_Sessions sv)(sid \<mapsto> s\<lparr>ss_RegisteredProtocols := ps\<rparr>)\<rparr>"
    using r by (auto simp: CreateBfdSession_def Let_def)
  have "length ps = length (ss_RegisteredProtocols s)" using set_protocol_length [OF s(2)] .
  then show ?thesis using inv(1) s(1,3) by (fastforce simp: server_inv_def)
qed

lemma cut_id_result:
  assumes "cut_id x ids = Ok ids'"
  shows "x \<in> set ids \<and> ids' = remove1 x ids"
proof -
  have *: "x \<in> set ids \<Longrightarrow> take (length (takeWhile (\<lambda>y. y \<noteq> x) ids)) ids @ drop (Suc (length (takeWhile (\<lambda>y. y \<noteq> x) ids))) ids = remove1 x ids"
    by (induction ids) auto
  have "x \<in> set ids"
  proof (rule ccontr)
    assume "x \<notin> set ids"
    then have "length (takeWhile (\<lambda>y. y \<noteq> x) ids) = length ids" by (induction ids) auto
    then show False using assms by (simp add: cut_id_def slice_from_def Let_def)
  qed
  then show ?thesis using assms * by (auto simp: cut_id_def slice_from_def Let_def split: if_splits)
qed

lemma SessionDeleteHandler_result:
  assumes "SessionDeleteHandler sid Protocol ForceDel sv = Ok sv'" "server_inv sv"
  shows "server_inv sv' \<and> (ForceDel \<longrightarrow> g_Sessions sv' = (g_Sessions sv)(sid := None))"
proof -
  obtain s0 ps b where s0: "g_Sessions sv sid = Some s0"
    and ps: "set_protocol Protocol False (ss_RegisteredProtocols s0) = Ok ps"
    and b: "CheckIfAnyProtocolRegistered (s0\<lparr>ss_RegisteredProtocols := ps\<rparr>) = Ok b"
    using assms(1) by (auto simp: SessionDeleteHandler_def Let_def)
  define s where "s = s0\<lparr>ss_RegisteredProtocols := ps\<rparr>"
  define sv1 where "sv1 = sv\<lparr>g_Sessions := (g_Sessions sv)(sid \<mapsto> s)\<rparr>"
  note handler = assms(1) [unfolded SessionDeleteHandler_def Let_def s0 option.case ps obind.simps
      s_def [symmetric] sv1_def [symmetric] b [folded s_def]]
  have len: "length ps = length (ss_RegisteredProtocols s0)" using set_protocol_length [OF ps] .
  have inv1: "server_inv sv1" using assms(2) s0 len by (fastforce simp: sv1_def s_def server_inv_def)
  have sid: "ss_SessionId s = sid" "ss_IpAddr s = ss_IpAddr s0" using assms(2) s0 by (auto simp: s_def server_inv_def)
  show ?thesis
  proof (cases "\<not> ForceDel \<and> b")
    case True
    then have "sv' = sv1" using handler by simp
    with inv1 True show ?thesis by simp
  next
    case False
    have free: "\<not> stop_blocks sid s sv1" using False handler by auto
    then have new: "sid \<notin> set (g_CreatedSessionCh sv1)" by (simp add: stop_blocks_def)
    obtain p ids where ids: "cut_id sid (g_SessionsIdSlice sv1) = Ok ids" and sv':
      "sv' = sv1\<lparr>g_SessionParams := (g_SessionParams sv1)(ss_ParamName s \<mapsto>
                p\<lparr>sp_NumSessions := to_i32 (sp_NumSessions p - 1)\<rparr>),
              g_NumSessions := g_NumSessions sv1 - 1,
              g_Sessions := (g_Sessions sv1)(sid := None),
              g_SessionsByIp := (g_SessionsByIp sv1)(ss_IpAddr s := None),
              g_SessionsIdSlice := ids, g_starting := removeAll sid (g_starting sv1)\<rparr>"
      using False free handler by (auto simp: sid split: option.splits)
    have i: "sid \<in> set (g_SessionsIdSlice sv1)" "ids = remove1 sid (g_SessionsIdSlice sv1)"
      using cut_id_result [OF ids] by simp_all
    have d: "distinct (g_SessionsIdSlice sv1)" using inv1 by (simp add: server_inv_def)
    have n: "g_NumSessions sv1 - 1 = of_nat (length ids)"
      using inv1 i by (simp add: server_inv_def length_remove1 of_nat_diff)
        (metis One_nat_def Suc_leI length_pos_if_in_set of_nat_1 of_nat_diff)
    have st: "set ids = dom (g_Sessions sv1) - {sid}" "distinct ids"
      using inv1 i d by (auto simp: server_inv_def)
    have "server_inv sv'"
      unfolding server_inv_def
    proof (intro conjI allI impI)
      fix k x assume "g_Sessions sv' k = Some x"
      then have "g_Sessions sv1 k = Some x" by (simp add: sv' split: if_splits)
      then show "ss_SessionId x = k" "0 < k" "k < 1024" "ss_LocalDiscriminator x = word_of_int k"
        "length (ss_RegisteredProtocols x) = MAX_APPS"
        using inv1 unfolding server_inv_def by blast+
    next
      fix ip k assume "g_SessionsByIp sv' ip = Some k"
      then have ip: "ip \<noteq> ss_IpAddr s" "g_SessionsByIp sv1 ip = Some k" by (simp_all add: sv' split: if_splits)
      then obtain x where x: "g_Sessions sv1 k = Some x" "ss_IpAddr x = ip" using inv1 unfolding server_inv_def by blast
      have "g_Sessions sv1 sid = Some s" by (simp add: sv1_def)
      with x ip have "k \<noteq> sid" by auto
      with x show "\<exists>x. g_Sessions sv' k = Some x \<and> ss_IpAddr x = ip" by (simp add: sv')
    next
      show "set (g_CreatedSessionCh sv') \<subseteq> dom (g_Sessions sv')" "distinct (g_CreatedSessionCh sv')"
        using inv1 new by (auto simp: sv' server_inv_def)
    qed (simp_all add: sv' n st)
    moreover have "g_Sessions sv' = (g_Sessions sv)(sid := None)" by (simp add: sv' sv1_def)
    ultimately show ?thesis by simp
  qed
qed

lemma DeleteBfdSession_inv:
  assumes "DeleteBfdSession ks m sv = Ok sv'" "server_inv sv"
  shows "server_inv sv'"
proof -
  have "server_inv sv'" if "DeletePerLinkSessions ks ip pr fd sv = Ok sv'" for ip pr fd
    using that assms(2) unfolding DeletePerLinkSessions_def
    by (rule for_sessions_inv [rotated]) (use SessionDeleteHandler_result in \<open>auto split: if_splits\<close>)
  then show ?thesis using assms SessionDeleteHandler_result
    by (auto simp: DeleteBfdSession_def Let_def split: option.splits if_splits)
qed

lemma Admin_inv:
  assumes "server_inv sv"
  shows "AdminUpBfdSession e now ks m sv = Ok sv' \<Longrightarrow> server_inv sv'"
    "AdminDownBfdSession now ks m sv = Ok sv' \<Longrightarrow> server_inv sv'"
proof -
  have up: "on_session (StartBfdSession j now) sid x = Ok x' \<Longrightarrow> server_inv x \<Longrightarrow> server_inv x'" for j sid x x'
    by (rule on_session_inv) (auto intro: StartStop_ident)
  have down: "on_session (StopBfdSession now) sid x = Ok x' \<Longrightarrow> server_inv x \<Longrightarrow> server_inv x'" for sid x x'
    by (rule on_session_inv) (auto intro: StartStop_ident)
  have pl: "AdminUpPerLinkBfdSessions e now ks ip sv = Ok sv' \<Longrightarrow> server_inv sv'"
    "AdminDownPerLinkBfdSessions now ks ip sv = Ok sv' \<Longrightarrow> server_inv sv'" for ip
    unfolding AdminUpPerLinkBfdSessions_def AdminDownPerLinkBfdSessions_def
    by (rule for_sessions_inv [rotated], assumption, rule assms, auto split: if_splits intro: up down)+
  show "AdminUpBfdSession e now ks m sv = Ok sv' \<Longrightarrow> server_inv sv'"
    using pl(1) up assms by (auto simp: AdminUpBfdSession_def split: option.splits if_splits)
  show "AdminDownBfdSession now ks m sv = Ok sv' \<Longrightarrow> server_inv sv'"
    using pl(2) down assms by (auto simp: AdminDownBfdSession_def split: option.splits if_splits)
qed


section \<open>The server as a machine\<close>

text \<open>
  The calls that the server's goroutine serves, and what its other goroutines do: \<open>Rx\<close> is a datagram of
  the UDP server, \<open>TakeCreated\<close> and \<open>TakeFailed\<close> are the cases of \<open>StartBfdSessionRxTx\<close>, \<open>ClientRuns\<close>
  is a client that was started and now opens its connection or fails to, \<open>RetryTick\<close> is the retry
  handler, \<open>Own\<close> a packet or timer that a session handles itself, \<open>PerLinkRx\<close> a frame (its addresses
  and payload) captured on the interface of a per-link session.
\<close>

datatype server_input =
    Session SessionConfig
  | Param SessionParamConfig
  | ParamDelete string
  | Global string bool
  | Reset int
  | Rx string "byte list" "byte list"
  | NextHop "string list" bool
  | TakeCreated
  | TakeFailed
  | ClientRuns int bool
  | RetryTick
  | Own int bfd_input
  | PerLinkRx string "byte list" "byte list" "byte list" "byte list"

fun server_handle ::
  "Env \<Rightarrow> int \<Rightarrow> int list \<Rightarrow> server_input \<Rightarrow> BFDServer \<Rightarrow> BFDServer bfd_call" where
  "server_handle e now ks (Session sc) sv = processSessionConfig e now ks sc sv"
| "server_handle e now ks (Param pc) sv = Some (Ok (processSessionParamConfig pc sv))"
| "server_handle e now ks (ParamDelete n) sv = Some (Ok (processSessionParamDelete n sv))"
| "server_handle e now ks (Global vrf b) sv = Some (processGlobalConfig e now vrf b sv)"
| "server_handle e now ks (Reset sid) sv = Some (ResetBfdSession sid sv)"
| "server_handle e now ks (Rx ip data spare) sv =
     Some (obind (receive_datagram ip data spare sv) (\<lambda>(sv1, _). Ok sv1))"
| "server_handle e now ks (NextHop ips b) sv = HandleNextHopChange e ks ips b sv"
| "server_handle e now ks TakeCreated sv = Some (Ok (take_created sv))"
| "server_handle e now ks TakeFailed sv = Some (Ok (take_failed sv))"
| "server_handle e now ks (ClientRuns sid up) sv = Some (Ok (client_runs sid up sv))"
| "server_handle e now ks RetryTick sv = Some (Ok (retry_tick sv))"
| "server_handle e now ks (Own sid i) sv =
     Some (if g_Sessions sv sid = None then Ok sv else on_session (own_input (e_product e) now i) sid sv)"
| "server_handle e now ks (PerLinkRx ifName src dst payload spare) sv =
     Some (per_link_packet (e_product e) now (e_mac e ifName) src dst payload spare sv)"

lemma retry_sessions_inv:
  "retry_sessions e ks ips sv = Some (Ok sv') \<Longrightarrow> server_inv sv \<Longrightarrow> rand_ok e \<Longrightarrow> server_inv sv'"
proof (induction ips arbitrary: sv)
  case (Cons ip ips)
  show ?case
  proof (cases "g_tobeCreatedSessions sv ip")
    case None
    then show ?thesis using Cons by simp
  next
    case (Some m)
    then obtain sv1 r where 1: "CreateBfdSession e ks m sv = Some (Ok (sv1, r))"
      and 2: "retry_sessions e ks ips (case r of
          Inr _ \<Rightarrow> sv1\<lparr>g_tobeCreatedSessions := (g_tobeCreatedSessions sv1)(m_DestIp m := None)\<rparr>
        | Inl _ \<Rightarrow> sv1) = Some (Ok sv')"
      using Cons.prems(1) by (auto simp: rbind_eq_Ok)
    have "server_inv sv1" using CreateBfdSession_inv [OF 1 Cons.prems(2,3)] .
    then show ?thesis by (intro Cons.IH [OF 2 _ Cons.prems(3)]) (simp split: sum.split)
  qed
qed simp

lemma processGlobalConfig_inv:
  assumes "processGlobalConfig e now vrf b sv = Ok sv'" "server_inv sv"
  shows "server_inv sv'"
proof -
  have r: "restart_all (on_session f) ks x = Ok x' \<Longrightarrow> server_inv x \<Longrightarrow>
      (\<And>s s'. f s = Ok s' \<Longrightarrow> ident s' = ident s) \<Longrightarrow> server_inv x'" for f ks x x'
    by (rule restart_all_inv [rotated]) (auto intro: on_session_inv)
  show ?thesis using assms r StartStop_ident
    by (auto simp: processGlobalConfig_def Let_def split: if_splits)
qed

lemma receive_datagram_inv:
  assumes "receive_datagram ip data spare sv = Ok (sv', r)" "server_inv sv"
  shows "server_inv sv'"
proof -
  have "on_session (session_Reset d) sid sv = Ok x \<Longrightarrow> server_inv x" for d sid x
    using assms(2) by (rule on_session_inv [rotated]) (auto dest: timer_ident)
  moreover have "DispatchReceivedBfdPacket ip p sv = Ok (sv', r) \<Longrightarrow>
      sv' = sv \<or> (\<exists>d sid. on_session (session_Reset d) sid sv = Ok sv')" for p
    by (auto simp: DispatchReceivedBfdPacket_def Let_def split: option.splits if_splits)
  moreover have "sv' = sv \<or> (\<exists>p. DispatchReceivedBfdPacket ip p sv = Ok (sv', r))"
    using assms(1) by (auto simp: receive_datagram_def split: if_splits outcome.splits)
  ultimately show ?thesis using assms(2) by metis
qed

lemma ResetBfdSession_inv:
  "ResetBfdSession sid sv = Ok sv' \<Longrightarrow> server_inv sv \<Longrightarrow> server_inv sv'"
  by (auto simp: ResetBfdSession_def ResetLocalSessionParams_def stop_client_def ident_def
      intro!: server_inv_update split: option.splits if_splits)

lemma goroutines_inv:
  assumes "server_inv sv"
  shows "server_inv (take_created sv)" "server_inv (take_failed sv)" "server_inv (client_runs sid up sv)"
    "server_inv (retry_loop i sv)"
proof -
  show "server_inv (take_created sv)"
  proof (cases "g_CreatedSessionCh sv")
    case (Cons sid sids)
    then have "server_inv (sv\<lparr>g_CreatedSessionCh := sids\<rparr>)" using assms by (simp add: server_inv_def)
    from server_inv_update [OF this] Cons this show ?thesis
      by (auto simp: take_created_def split: option.split)
  qed (use assms in \<open>simp add: take_created_def\<close>)
  show "server_inv (take_failed sv)" using assms by (simp add: take_failed_def split: list.split)
  show "server_inv (client_runs sid up sv)"
    using assms server_inv_update [of "sv\<lparr>g_starting := ids\<rparr>" sid for ids]
    by (auto simp: client_runs_def Let_def StartSessionClient_def StartPerLinkSessionClient_def split: option.split)
  show "server_inv (retry_loop i sv)"
    using assms
  proof (induction i sv rule: retry_loop.induct)
    case (1 i sv)
    then show ?case by (subst retry_loop.simps) (simp add: Let_def split: option.split)
  qed
qed

lemma own_goroutine_inv:
  "on_session (own_input j now i) sid sv = Ok sv' \<Longrightarrow> server_inv sv \<Longrightarrow> server_inv sv'"
  by (rule on_session_inv) (auto intro: own_input_ident)

lemma per_link_packet_inv:
  assumes "per_link_packet j now my src dst payload spare sv = Ok sv'" "server_inv sv"
  shows "server_inv sv'"
proof -
  have "server_inv x" if "on_session (\<lambda>s. ProcessBfdPacket j now p (h s)) sid sv = Ok x" "\<And>s. ident (h s) = ident s" for p h sid x
    using that(1) assms(2) by (rule on_session_inv) (use that(2) in \<open>auto dest: ProcessBfdPacket_ident\<close>)
  then show ?thesis
    using assms by (auto simp: per_link_packet_def Let_def split: if_splits outcome.splits)
qed

lemma server_handle_inv:
  assumes "server_handle e now ks i sv = Some (Ok sv')" "server_inv sv" "rand_ok e"
  shows "server_inv sv'"
proof (cases i)
  case (Session sc)
  show ?thesis
  proof (cases "sc_Operation sc")
    case CREATE
    then show ?thesis using assms CreateBfdSession_inv [OF _ assms(2,3)]
      by (auto simp: Session processSessionConfig_def Let_def rbind_eq_Ok)
  next
    case DELETE
    then show ?thesis using assms(1) DeleteBfdSession_inv [OF _ assms(2)]
      by (simp add: Session processSessionConfig_def Let_def)
  next
    case ADMINUP
    then show ?thesis using assms(1) Admin_inv(1) [OF assms(2)]
      by (simp add: Session processSessionConfig_def Let_def)
  next
    case ADMINDOWN
    then show ?thesis using assms(1) Admin_inv(2) [OF assms(2)]
      by (simp add: Session processSessionConfig_def Let_def)
  qed
next
  case (Param pc)
  then show ?thesis using assms
    by (auto simp: processSessionParamConfig_def Let_def UpdateBfdSessionsUsingParam_inv)
next
  case (ParamDelete n)
  then show ?thesis using assms
    by (auto simp: processSessionParamDelete_def UpdateBfdSessionsUsingParam_inv)
next
  case (Global vrf b)
  then show ?thesis using assms processGlobalConfig_inv [OF _ assms(2)] by simp
next
  case (Reset sid)
  then show ?thesis using assms ResetBfdSession_inv [OF _ assms(2)] by simp
next
  case (Rx ip data spare)
  then show ?thesis using assms(1) receive_datagram_inv [OF _ assms(2)] by auto
next
  case (NextHop ips b)
  then show ?thesis using assms retry_sessions_inv
    by (auto simp: HandleNextHopChange_def split: if_splits)
next
  case (Own sid x)
  then show ?thesis using assms own_goroutine_inv by (auto split: if_splits)
next
  case (PerLinkRx ifName src dst payload spare)
  then show ?thesis using assms(1) per_link_packet_inv [OF _ assms(2)] by simp
qed (use assms goroutines_inv [OF assms(2)] in \<open>auto simp: retry_tick_def\<close>)

definition server_step ::
  "Env \<Rightarrow> BFDServer bfd_call \<Rightarrow> int \<times> int list \<times> server_input \<Rightarrow> BFDServer bfd_call" where
  "server_step e s = (\<lambda>(now, ks, i). rbind s (server_handle e now ks i))"

definition tables_inv :: "Env \<Rightarrow> BFDServer bfd_call \<Rightarrow> bool" where
  "tables_inv e s \<longleftrightarrow> (rand_ok e \<longrightarrow> (\<forall>sv. s = Some (Ok sv) \<longrightarrow> server_inv sv))"

interpretation bfd_server: machine "server_step e" "tables_inv e"
  using server_handle_inv
  by unfold_locales (simp add: tables_inv_def server_step_def rbind_eq_Ok split: prod.splits, blast)

lemma initial_inv:
  "server_inv (createDefaultSessionParam (initBfdGlobalConfDefault NewBFDServer))"
  by (simp add: createDefaultSessionParam_def initBfdGlobalConfDefault_def UpdateBfdSessionsUsingParam_inv)
     (simp add: NewBFDServer_def server_inv_def UpdateBfdSessionsUsingParam_def)

section \<open>Properties\<close>

definition started_server :: BFDServer where
  "started_server = createDefaultSessionParam (initBfdGlobalConfDefault NewBFDServer)"

text \<open>C12: after any sequence of configuration calls, datagrams, next-hop changes and actions of the
  goroutines of the server and of the sessions (started clients that connect or fail, retries, timers,
  packets) that neither kills nor hangs the process, the session tables agree: keys are the session ids
  and local discriminators, within 1 to 1023; the id slice lists exactly the keys, once each; the counter
  is their number; every address entry leads to a session with that address; and the sessions that wait
  to be started are in the table.\<close>

theorem session_tables_consistent:
  assumes "rand_ok e" and "run (server_step e) (Some (Ok started_server)) is = Some (Ok sv)"
  shows "server_inv sv"
proof -
  have "tables_inv e (Some (Ok started_server))"
    using initial_inv by (simp add: tables_inv_def started_server_def)
  from bfd_server.run_inv [OF this, of "is"] show ?thesis using assms by (simp add: tables_inv_def)
qed

definition sample_env :: Env where
  "sample_env = \<lparr>e_reach = (\<lambda>ip. Some (3, ''10.1.1.2'')), e_isLag = (\<lambda>i. False),
     e_linuxName = (\<lambda>i. None), e_mac = (\<lambda>n. []), e_rand = (\<lambda>n. if n = 0 then 5 else 6), e_jitter = 0,
     e_product = (\<lambda>i j. i)\<rparr>"

lemma sample_rand: "rand_ok sample_env"
  by (simp add: rand_ok_def sample_env_def)

definition sample_config :: "string \<Rightarrow> BfdSessionOperation \<Rightarrow> server_input" where
  "sample_config ip op = Session \<lparr>sc_DestIp = ip, sc_ParamName = ''default'', sc_Interface = [], sc_PerLink = False,
     sc_Protocol = USER, sc_Operation = op\<rparr>"

text \<open>Two sessions are created and their clients connect; one is disabled and enabled again, the other deleted.\<close>

definition sample_calls :: "(int \<times> int list \<times> server_input) list" where
  "sample_calls =
     [(0, [], sample_config ''10.1.1.1'' CREATE), (1, [], TakeCreated), (2, [], ClientRuns 5 True),
      (3, [5], sample_config ''10.1.2.1'' CREATE), (4, [], TakeCreated), (5, [], ClientRuns 6 True),
      (6, [5, 6], sample_config ''10.1.1.1'' ADMINDOWN), (7, [5, 6], sample_config ''10.1.1.1'' ADMINUP),
      (8, [], Own 5 (TxExpiry True)), (9, [5, 6], sample_config ''10.1.2.1'' DELETE)]"

definition outcome_summary ::
  "BFDServer bfd_call \<Rightarrow> (int list \<times> u32 \<times> int option \<times> (BfdSessionState \<times> bool \<times> timer \<times> nat) option) option" where
  "outcome_summary r = (case r of
     Some (Ok sv) \<Rightarrow> Some (g_SessionsIdSlice sv, g_NumSessions sv, g_SessionsByIp sv ''10.1.1.1'',
         map_option (\<lambda>s. (ss_SessionState s, bs_isClientActive s, bs_sessionTimer s, length (bs_out s))) (g_Sessions sv 5))
   | _ \<Rightarrow> None)"

lemma sample_run:
  "outcome_summary (run (server_step sample_env) (Some (Ok started_server)) sample_calls) =
     Some ([5], 1, Some 5, Some (STATE_DOWN, True, Armed 6000, 3))"
  by code_simp

theorem session_tables_consistent_witness:
  "\<exists>sv. run (server_step sample_env) (Some (Ok started_server)) sample_calls = Some (Ok sv) \<and> server_inv sv \<and>
     g_SessionsIdSlice sv = [5] \<and> g_SessionsByIp sv ''10.1.1.1'' = Some 5"
proof -
  obtain sv where sv: "run (server_step sample_env) (Some (Ok started_server)) sample_calls = Some (Ok sv)"
    "g_SessionsIdSlice sv = [5]" "g_SessionsByIp sv ''10.1.1.1'' = Some 5"
    using sample_run by (auto simp: outcome_summary_def split: option.splits outcome.splits)
  with session_tables_consistent [OF sample_rand sv(1)] show ?thesis by blast
qed

text \<open>
  The client of a per-link session never becomes active, so its session refuses every event and stays
  Down; and its server never reads \<open>SessionStopServerCh\<close>, so deleting the session blocks the session
  handler. A session whose client has not been started yet blocks it too.
\<close>

lemma per_link_session_inert:
  "bs_isClientActive (StartPerLinkSessionClient s) = bs_isClientActive s"
  "\<not> bs_isClientActive s \<Longrightarrow> event now ev s = Ok s"
  by (simp_all add: StartPerLinkSessionClient_def event_def EventHandler_def IsSessionActive_def)

theorem delete_blocks:
  assumes "g_Sessions sv sid = Some s" "ss_PerLinkSession s \<or> sid \<in> set (g_CreatedSessionCh sv)"
    and "length (ss_RegisteredProtocols s) = MAX_APPS" "0 \<le> proto" "proto < 5"
  shows "SessionDeleteHandler sid proto True sv = Error Blocked"
proof -
  have "nat proto < 5" using assms(4,5) by linarith
  then obtain ps where ps: "set_protocol proto False (ss_RegisteredProtocols s) = (Ok ps :: bool list bfd)" "length ps = MAX_APPS"
    using assms(3,4) by (simp add: set_protocol_def set_idx_def MAX_APPS_def)
  have "\<exists>b. CheckIfAnyProtocolRegistered (s\<lparr>ss_RegisteredProtocols := ps\<rparr>) = Ok b"
    using ps(2) by (auto simp: CheckIfAnyProtocolRegistered_def MAX_APPS_def upt_rec idx_def)
  then show ?thesis using assms(1,2) ps(1) by (auto simp: SessionDeleteHandler_def stop_blocks_def Let_def)
qed

theorem delete_blocks_witness:
  "SessionDeleteHandler 5 2 True (started_server\<lparr>g_Sessions := [5 \<mapsto> sample_session STATE_DOWN], g_CreatedSessionCh := [5]\<rparr>) =
     Error Blocked"
  by (rule delete_blocks [where s = "sample_session STATE_DOWN"]) (simp_all add: sample_session_def MAX_APPS_def)

lemma new_id_loop_reaches:
  assumes "S (rnd m) = None" "rnd m \<noteq> 0"
  shows "n \<le> m \<Longrightarrow> \<exists>i. new_id_loop rnd n S = Some i"
proof (induction "m - n" arbitrary: n)
  case 0
  then have "n = m" by simp
  then show ?case using assms by (subst new_id_loop.simps) simp
next
  case (Suc k)
  then have "\<exists>i. new_id_loop rnd (n + 1) S = Some i" by (intro Suc.hyps(1)) auto
  then show ?case by (subst new_id_loop.simps) (simp add: Let_def)
qed

text \<open>a new session id is unused and within 1 to 1023, and the search for it ends as soon as
  the random source draws an unused one.\<close>

theorem GetNewSessionId_fresh:
  assumes "rand_ok e" "g_NumSessions sv < MAX_NUM_SESSIONS"
    "g_Sessions sv (e_rand e m) = None" "e_rand e m \<noteq> 0"
  shows "\<exists>sid. GetNewSessionId e sv = Some sid \<and> g_Sessions sv sid = None \<and> 0 < sid \<and> sid < 1024"
proof -
  obtain sid where sid: "new_id_loop (e_rand e) 0 (g_Sessions sv) = Some sid"
    using new_id_loop_reaches [of "g_Sessions sv" "e_rand e" m 0] assms(3,4) by auto
  from new_id_loop_free [OF this] obtain k where "g_Sessions sv sid = None" "sid \<noteq> 0" "sid = e_rand e k" by auto
  moreover have "0 \<le> e_rand e k \<and> e_rand e k < 1024" using assms(1) by (simp add: rand_ok_def)
  ultimately show ?thesis using sid assms(2) by (auto simp: GetNewSessionId_def)
qed

theorem GetNewSessionId_fresh_witness:
  "\<exists>sid. GetNewSessionId sample_env started_server = Some sid \<and> g_Sessions started_server sid = None \<and>
     0 < sid \<and> sid < 1024"
  by (rule GetNewSessionId_fresh [where m = 0])
     (rule sample_rand, simp_all add: sample_env_def started_server_def createDefaultSessionParam_def
       initBfdGlobalConfDefault_def NewBFDServer_def UpdateBfdSessionsUsingParam_def MAX_NUM_SESSIONS_def)

lemma new_id_loop_stuck:
  assumes "\<And>n. S (rnd n) \<noteq> None \<or> rnd n = 0"
  shows "new_id_loop rnd n S = None"
proof (rule ccontr)
  assume "new_id_loop rnd n S \<noteq> None"
  then obtain i where "new_id_loop rnd n S = Some i" by auto
  from new_id_loop_free [OF this] obtain m where "S (rnd m) = None" "rnd m \<noteq> 0" by auto
  then show False using assms [of m] by simp
qed

text \<open>with 1023 sessions every usable id is taken while the limit check (against 1024) still
  passes: the search for an id never ends and the session handler hangs.\<close>

theorem GetNewSessionId_hangs_when_full:
  assumes "rand_ok e" "g_NumSessions sv = 1023" "\<forall>sid. 0 < sid \<and> sid < 1024 \<longrightarrow> g_Sessions sv sid \<noteq> None"
  shows "GetNewSessionId e sv = None"
proof -
  have "new_id_loop (e_rand e) 0 (g_Sessions sv) = None"
    using assms(1,3) by (intro new_id_loop_stuck) (force simp: rand_ok_def order.order_iff_strict)
  then show ?thesis using assms(2) by (simp add: GetNewSessionId_def MAX_NUM_SESSIONS_def)
qed

theorem GetNewSessionId_hangs_when_full_witness:
  "GetNewSessionId sample_env (started_server\<lparr>g_NumSessions := 1023,
     g_Sessions := (\<lambda>sid. Some (sample_session STATE_DOWN))\<rparr>) = None"
  by (rule GetNewSessionId_hangs_when_full) (simp_all add: sample_rand)

text \<open>deleting a parameter set that a session uses kills the process when that session is
  deleted: the session keeps the name and the deletion counts down through a \<open>nil\<close> entry.\<close>

theorem delete_after_param_delete_panics:
  assumes "g_Sessions sv sid = Some s" "g_SessionParams sv (ss_ParamName s) \<noteq> None"
    "length (ss_RegisteredProtocols s) = MAX_APPS" "0 \<le> proto" "proto < 5" "\<not> stop_blocks sid s sv"
  shows "SessionDeleteHandler sid proto True (processSessionParamDelete (ss_ParamName s) sv) = Panic"
proof -
  let ?sv = "processSessionParamDelete (ss_ParamName s) sv"
  obtain s1 where s1: "g_Sessions ?sv sid = Some s1" "ident s1 = ident s"
    using assms(1,2) by (auto simp: processSessionParamDelete_def UpdateBfdSessionsUsingParam_def
        InitiatePollSequence_def ident_def)
  have n: "g_SessionParams ?sv (ss_ParamName s) = None"
    using assms(2) by (auto simp: processSessionParamDelete_def UpdateBfdSessionsUsingParam_def)
  have i: "ss_ParamName s1 = ss_ParamName s" "length (ss_RegisteredProtocols s1) = MAX_APPS"
    using s1(2) assms(3) by (simp_all add: ident_def)
  obtain ps where ps: "set_protocol proto False (ss_RegisteredProtocols s1) = (Ok ps :: bool list bfd)" "length ps = MAX_APPS"
  proof -
    have "nat proto < 5" using assms(4,5) by linarith
    then show ?thesis using i(2) assms(4) that by (simp add: set_protocol_def set_idx_def MAX_APPS_def)
  qed
  have "\<exists>b. CheckIfAnyProtocolRegistered (s1\<lparr>ss_RegisteredProtocols := ps\<rparr>) = Ok b"
    using ps(2) by (auto simp: CheckIfAnyProtocolRegistered_def MAX_APPS_def upt_rec idx_def)
  moreover have "ss_PerLinkSession s1 = ss_PerLinkSession s"
    using s1(1) assms(1,2) by (auto simp: processSessionParamDelete_def UpdateBfdSessionsUsingParam_def InitiatePollSequence_def split: if_splits)
  then have "\<not> stop_blocks sid (s1\<lparr>ss_RegisteredProtocols := ps\<rparr>) (?sv\<lparr>g_Sessions := m\<rparr>)" for m
    using assms(2,6) by (simp add: stop_blocks_def processSessionParamDelete_def UpdateBfdSessionsUsingParam_def)
  ultimately show ?thesis using s1(1) ps(1) n i(1) by (auto simp: SessionDeleteHandler_def Let_def)
qed

theorem delete_after_param_delete_panics_witness:
  "\<exists>sv s. g_Sessions sv 5 = Some s \<and> SessionDeleteHandler 5 2 True (processSessionParamDelete (ss_ParamName s) sv) = Panic"
proof -
  let ?s = "sample_session STATE_DOWN"
  let ?sv = "started_server\<lparr>g_Sessions := [5 \<mapsto> ?s]\<rparr>"
  have p: "g_SessionParams ?sv (ss_ParamName ?s) \<noteq> None"
    by (simp add: sample_session_def started_server_def createDefaultSessionParam_def
        initBfdGlobalConfDefault_def NewBFDServer_def UpdateBfdSessionsUsingParam_def)
  have "SessionDeleteHandler 5 2 True (processSessionParamDelete (ss_ParamName ?s) ?sv) = Panic"
    by (rule delete_after_param_delete_panics [OF _ p])
       (simp_all add: sample_session_def MAX_APPS_def stop_blocks_def started_server_def createDefaultSessionParam_def
          initBfdGlobalConfDefault_def NewBFDServer_def UpdateBfdSessionsUsingParam_def)
  then show ?thesis by (intro exI [of _ ?sv] exI [of _ ?s]) simp
qed

text \<open>a page of the session table that does not reach its end comes back empty, and the next
  index advances by one.\<close>

theorem GetBulk_inner_page_empty:
  assumes "start + cnt < length (g_SessionsIdSlice sv)"
  shows "GetBulkBfdSessionStates start cnt sv = Ok (int start + 1, 0, [])"
  using assms by (simp add: GetBulkBfdSessionStates_def Let_def)

theorem GetBulk_inner_page_empty_witness:
  "GetBulkBfdSessionStates 0 2 (started_server\<lparr>g_SessionsIdSlice := [4, 5, 6]\<rparr>) = Ok (1, 0, [])"
  using GetBulk_inner_page_empty [of 0 2 "started_server\<lparr>g_SessionsIdSlice := [4, 5, 6]\<rparr>"] by simp

end
