(* ===== verification/BgpOpen.thy ===== *)
theory BgpOpen
  imports GoNet Contracts
begin

text \<open>
  The session-level messages of \<open>bgp/packet/bgp.go\<close>: the message header, the capabilities and
  optional parameters of OPEN, OPEN itself, KEEPALIVE and NOTIFICATION. Decoders work on a fresh
  receiver (the code always decodes into a value that \<open>New()\<close> has just made), so a decoder here
  takes the bytes and returns the value. The text of an error is left out; its codes and data are
  what the peer is sent.
\<close>

section \<open>Errors and constants\<close>

text \<open>\<open>BGPMessageError\<close> (type code, sub-type code, data) or a plain \<open>errors.New\<close>.\<close>

datatype bgp_error = BGPMessageError u8 u8 "byte list" | plainError

definition BGPASTrans :: u16 where "BGPASTrans = 23456"
definition BGPMsgTypeOpen :: u8 where "BGPMsgTypeOpen = 1"
definition BGPMsgTypeUpdate :: u8 where "BGPMsgTypeUpdate = 2"
definition BGPMsgTypeNotification :: u8 where "BGPMsgTypeNotification = 3"
definition BGPMsgTypeKeepAlive :: u8 where "BGPMsgTypeKeepAlive = 4"
definition BGPMsgHeaderLen :: nat where "BGPMsgHeaderLen = 19"
definition BGPUpdateMsgMinLen :: nat where "BGPUpdateMsgMinLen = 23"
definition BGPMsgMaxLen :: nat where "BGPMsgMaxLen = 4096"

definition BGPMsgHeaderError :: u8 where "BGPMsgHeaderError = 1"
definition BGPOpenMsgError :: u8 where "BGPOpenMsgError = 2"
definition BGPUpdateMsgError :: u8 where "BGPUpdateMsgError = 3"
definition BGPHoldTimerExpired :: u8 where "BGPHoldTimerExpired = 4"
definition BGPFSMError :: u8 where "BGPFSMError = 5"
definition BGPCease :: u8 where "BGPCease = 6"

definition BGPConnNotSychd :: u8 where "BGPConnNotSychd = 1"
definition BGPBadMessageLen :: u8 where "BGPBadMessageLen = 2"
definition BGPBadMessageType :: u8 where "BGPBadMessageType = 3"

definition BGPUnspecific :: u8 where "BGPUnspecific = 0"
definition BGPUnsupportedVersionNumber :: u8 where "BGPUnsupportedVersionNumber = 1"
definition BGPBadPeerAS :: u8 where "BGPBadPeerAS = 2"
definition BGPBadBGPIdentifier :: u8 where "BGPBadBGPIdentifier = 3"
definition BGPUnsupportedOptionalParam :: u8 where "BGPUnsupportedOptionalParam = 4"
definition BGPUnacceptableHoldTime :: u8 where "BGPUnacceptableHoldTime = 6"
definition BGPUnsupportedCapability :: u8 where "BGPUnsupportedCapability = 7"

definition BGPOptParamTypeCapability :: u8 where "BGPOptParamTypeCapability = 2"
definition BGPCapTypeMPExt :: u8 where "BGPCapTypeMPExt = 1"
definition BGPCapTypeAS4Path :: u8 where "BGPCapTypeAS4Path = 65"
definition BGPCapTypeAddPath :: u8 where "BGPCapTypeAddPath = 69"
definition BGPCapAddPathRx :: u8 where "BGPCapAddPathRx = 1"
definition BGPCapAddPathTx :: u8 where "BGPCapAddPathTx = 2"

lemmas bgp_type_defs =
  BGPOptParamTypeCapability_def BGPCapTypeMPExt_def BGPCapTypeAS4Path_def BGPCapTypeAddPath_def

section \<open>Message header\<close>

record BGPHeader =
  bh_Marker :: "byte list"
  bh_Length :: u16
  bh_Type :: u8

definition NewBGPHeader :: BGPHeader where
  "NewBGPHeader = \<lparr>bh_Marker = replicate 16 0, bh_Length = 0, bh_Type = 0\<rparr>"

text \<open>\<open>Encode\<close> writes the all-ones marker, whatever the receiver's.\<close>

definition BGPHeader_Encode :: "BGPHeader \<Rightarrow> byte list" where
  "BGPHeader_Encode h = replicate 16 0xff @ put16 (bh_Length h) @ [bh_Type h]"

definition BGPHeader_Decode :: "BGPHeader \<Rightarrow> byte list \<Rightarrow> (bgp_error, BGPHeader) outcome" where
  "BGPHeader_Decode h pkt =
     obind (slice pkt 16 18) (\<lambda>l.
     obind (Uint16 l) (\<lambda>len.
     obind (idx pkt 18) (\<lambda>t. Ok (h\<lparr>bh_Length := len, bh_Type := t\<rparr>))))"

definition BGPHeader_Len :: "BGPHeader \<Rightarrow> u32" where
  "BGPHeader_Len h = ucast (bh_Length h)"

section \<open>Capabilities\<close>

record BGPCapabilityBase =
  cap_Type :: u8
  cap_Len :: u8

definition BGPCapabilityBase_TotalLen :: "BGPCapabilityBase \<Rightarrow> u16" where
  "BGPCapabilityBase_TotalLen b = ucast (cap_Len b) + 2"

definition BGPCapabilityBase_Encode :: "BGPCapabilityBase \<Rightarrow> byte list" where
  "BGPCapabilityBase_Encode b =
     (replicate (unat (BGPCapabilityBase_TotalLen b)) 0)[0 := cap_Type b, 1 := cap_Len b]"

definition BGPCapabilityBase_Decode ::
  "byte list \<Rightarrow> (bgp_error, BGPCapabilityBase) outcome" where
  "BGPCapabilityBase_Decode pkt =
     (if length pkt < 2 then Error (BGPMessageError BGPOpenMsgError BGPUnspecific [])
      else let b = \<lparr>cap_Type = pkt ! 0, cap_Len = pkt ! 1\<rparr> in
        if length pkt < unat (BGPCapabilityBase_TotalLen b)
        then Error (BGPMessageError BGPUpdateMsgError BGPUnspecific [])
        else Ok b)"

record AddPathAFISAFI =
  ap_AFI :: u16
  ap_SAFI :: u8
  ap_Flags :: u8

definition AddPathAFISAFI_Len :: u8 where "AddPathAFISAFI_Len = 4"

text \<open>\<open>val.Encode(pkt[off:])\<close>: the slice, the two-byte put and the two indexed writes.\<close>

definition AddPathAFISAFI_Encode ::
  "byte list \<Rightarrow> nat \<Rightarrow> AddPathAFISAFI \<Rightarrow> (bgp_error, byte list) outcome" where
  "AddPathAFISAFI_Encode pkt off a = write_at pkt off (put16 (ap_AFI a) @ [ap_SAFI a, ap_Flags a])"

definition AddPathAFISAFI_Decode :: "byte list \<Rightarrow> (bgp_error, AddPathAFISAFI) outcome" where
  "AddPathAFISAFI_Decode pkt =
     (if length pkt < 4 then Error (BGPMessageError BGPOpenMsgError BGPUnspecific [])
      else Ok \<lparr>ap_AFI = be16 (pkt ! 0) (pkt ! 1), ap_SAFI = pkt ! 2, ap_Flags = pkt ! 3\<rparr>)"

definition NewAddPathAFISAFI :: "u16 \<Rightarrow> u8 \<Rightarrow> u8 \<Rightarrow> AddPathAFISAFI" where
  "NewAddPathAFISAFI afi safi flags = \<lparr>ap_AFI = afi, ap_SAFI = safi, ap_Flags = flags\<rparr>"

text \<open>The implementations of the \<open>BGPCapability\<close> interface: the embedded base and the rest.\<close>

datatype BGPCapability =
    BGPCapMPExt BGPCapabilityBase u16 u8 u8
  | BGPCapAS4Path BGPCapabilityBase u32
  | BGPCapAddPath BGPCapabilityBase "AddPathAFISAFI list"
  | BGPCapUnknown BGPCapabilityBase "byte list"

fun cap_base :: "BGPCapability \<Rightarrow> BGPCapabilityBase" where
  "cap_base (BGPCapMPExt b _ _ _) = b"
| "cap_base (BGPCapAS4Path b _) = b"
| "cap_base (BGPCapAddPath b _) = b"
| "cap_base (BGPCapUnknown b _) = b"

definition cap_TotalLen :: "BGPCapability \<Rightarrow> u16" where
  "cap_TotalLen c = BGPCapabilityBase_TotalLen (cap_base c)"

definition cap_GetCode :: "BGPCapability \<Rightarrow> u8" where
  "cap_GetCode c = cap_Type (cap_base c)"

definition NewBGPCapMPExt :: "u16 \<Rightarrow> u8 \<Rightarrow> BGPCapability" where
  "NewBGPCapMPExt afi safi =
     BGPCapMPExt \<lparr>cap_Type = BGPCapTypeMPExt, cap_Len = 4\<rparr> afi 0 safi"

definition NewBGPCap4ByteASPath :: "u32 \<Rightarrow> BGPCapability" where
  "NewBGPCap4ByteASPath as = BGPCapAS4Path \<lparr>cap_Type = BGPCapTypeAS4Path, cap_Len = 4\<rparr> as"

definition NewBGPCapAddPath :: BGPCapability where
  "NewBGPCapAddPath = BGPCapAddPath \<lparr>cap_Type = BGPCapTypeAddPath, cap_Len = 0\<rparr> []"

fun AddAddPathAFISAFI :: "BGPCapability \<Rightarrow> AddPathAFISAFI \<Rightarrow> BGPCapability" where
  "AddAddPathAFISAFI (BGPCapAddPath b vs) a =
     BGPCapAddPath (b\<lparr>cap_Len := cap_Len b + AddPathAFISAFI_Len\<rparr>) (vs @ [a])"
| "AddAddPathAFISAFI c a = c"

text \<open>The loop of \<open>BGPCapAddPath.Encode\<close>; its offset is a \<open>uint8\<close>.\<close>

fun addpath_encode_loop ::
  "byte list \<Rightarrow> nat \<Rightarrow> AddPathAFISAFI list \<Rightarrow> (bgp_error, byte list) outcome" where
  "addpath_encode_loop pkt off [] = Ok pkt"
| "addpath_encode_loop pkt off (v # vs) =
     obind (AddPathAFISAFI_Encode pkt off v) (\<lambda>pkt.
       addpath_encode_loop pkt ((off + unat AddPathAFISAFI_Len) mod 256) vs)"

definition BGPCapMPExt_Encode :: "BGPCapabilityBase \<Rightarrow> u16 \<Rightarrow> u8 \<Rightarrow> (bgp_error, byte list) outcome" where
  [simp]: "BGPCapMPExt_Encode b afi safi =
     obind (PutUint16 (BGPCapabilityBase_Encode b) 2 afi) (\<lambda>pkt.
     obind (set_idx pkt 4 0) (\<lambda>pkt. set_idx pkt 5 safi))"

definition BGPCapAS4Path_Encode :: "BGPCapabilityBase \<Rightarrow> u32 \<Rightarrow> (bgp_error, byte list) outcome" where
  [simp]: "BGPCapAS4Path_Encode b as = PutUint32 (BGPCapabilityBase_Encode b) 2 as"

definition BGPCapAddPath_Encode :: "BGPCapabilityBase \<Rightarrow> AddPathAFISAFI list \<Rightarrow> (bgp_error, byte list) outcome" where
  [simp]: "BGPCapAddPath_Encode b vs = addpath_encode_loop (BGPCapabilityBase_Encode b) 2 vs"

definition BGPCapUnknown_Encode :: "BGPCapabilityBase \<Rightarrow> byte list \<Rightarrow> (bgp_error, byte list) outcome" where
  [simp]: "BGPCapUnknown_Encode b v = copy_at (BGPCapabilityBase_Encode b) 2 v"

fun BGPCapability_Encode :: "BGPCapability \<Rightarrow> (bgp_error, byte list) outcome" where
  "BGPCapability_Encode (BGPCapMPExt b afi r safi) = BGPCapMPExt_Encode b afi safi"
| "BGPCapability_Encode (BGPCapAS4Path b as) = BGPCapAS4Path_Encode b as"
| "BGPCapability_Encode (BGPCapAddPath b vs) = BGPCapAddPath_Encode b vs"
| "BGPCapability_Encode (BGPCapUnknown b v) = BGPCapUnknown_Encode b v"

definition BGPCapMPExt_Decode :: "byte list \<Rightarrow> (bgp_error, BGPCapability) outcome" where
  "BGPCapMPExt_Decode pkt =
     obind (BGPCapabilityBase_Decode pkt) (\<lambda>b.
     obind (slice_from pkt 2) (\<lambda>p.
     obind (Uint16 p) (\<lambda>afi.
     obind (idx pkt 5) (\<lambda>safi. Ok (BGPCapMPExt b afi 0 safi)))))"

definition BGPCapAS4Path_Decode :: "byte list \<Rightarrow> (bgp_error, BGPCapability) outcome" where
  "BGPCapAS4Path_Decode pkt =
     obind (BGPCapabilityBase_Decode pkt) (\<lambda>b.
     obind (slice_from pkt 2) (\<lambda>p.
     obind (Uint32 p) (\<lambda>as. Ok (BGPCapAS4Path b as))))"

text \<open>
  The loop of \<open>BGPCapAddPath.Decode\<close>, which returns the entries and the final offset: it runs
  while the offset, which counts from the start of the capability, is below the payload length.
\<close>

function addpath_decode_loop ::
  "byte list \<Rightarrow> nat \<Rightarrow> nat \<Rightarrow> AddPathAFISAFI list \<Rightarrow> (bgp_error, AddPathAFISAFI list \<times> nat) outcome" where
  "addpath_decode_loop pkt len off acc =
     (if off < len
      then obind (slice_from pkt off) (\<lambda>p.
           obind (AddPathAFISAFI_Decode p) (\<lambda>a.
             addpath_decode_loop pkt len (off + unat AddPathAFISAFI_Len) (acc @ [a])))
      else Ok (acc, off))"
  by pat_completeness auto
termination
  by (relation "measure (\<lambda>(pkt, len, off, acc). len - off)") (auto simp: AddPathAFISAFI_Len_def)

declare addpath_decode_loop.simps [simp del]

definition BGPCapAddPath_Decode :: "byte list \<Rightarrow> (bgp_error, BGPCapability) outcome" where
  "BGPCapAddPath_Decode pkt =
     obind (BGPCapabilityBase_Decode pkt) (\<lambda>b.
     obind (addpath_decode_loop pkt (unat (cap_Len b)) 2 []) (\<lambda>(vs, off).
       if off > unat (cap_Len b + 2) then Error (BGPMessageError BGPOpenMsgError BGPUnspecific [])
       else Ok (BGPCapAddPath b vs)))"

text \<open>\<open>BGPCapUnknown.Decode\<close> copies into a nil slice: nothing is kept.\<close>

definition BGPCapUnknown_Decode :: "byte list \<Rightarrow> (bgp_error, BGPCapability) outcome" where
  "BGPCapUnknown_Decode pkt =
     obind (BGPCapabilityBase_Decode pkt) (\<lambda>b.
     obind (slice pkt 2 (unat (BGPCapabilityBase_TotalLen b))) (\<lambda>v.
     obind (copy_at [] 0 v) (\<lambda>value. Ok (BGPCapUnknown b value))))"

text \<open>\<open>GetCapParam\<close> picks the receiver by the first byte; the receiver then decodes.\<close>

definition BGPCapability_Decode :: "byte list \<Rightarrow> (bgp_error, BGPCapability) outcome" where
  "BGPCapability_Decode pkt =
     obind (idx pkt 0) (\<lambda>t.
       if t = BGPCapTypeMPExt then BGPCapMPExt_Decode pkt
       else if t = BGPCapTypeAS4Path then BGPCapAS4Path_Decode pkt
       else if t = BGPCapTypeAddPath then BGPCapAddPath_Decode pkt
       else BGPCapUnknown_Decode pkt)"

section \<open>Optional parameters\<close>

record BGPOptParamBase =
  op_Type :: u8
  op_Len :: u8

definition BGPOptParamBase_TotalLen :: "BGPOptParamBase \<Rightarrow> u8" where
  "BGPOptParamBase_TotalLen b = op_Len b + 2"

definition BGPOptParamBase_Encode :: "BGPOptParamBase \<Rightarrow> byte list" where
  "BGPOptParamBase_Encode b = [op_Type b, op_Len b]"

definition BGPOptParamBase_Decode :: "byte list \<Rightarrow> (bgp_error, BGPOptParamBase) outcome" where
  "BGPOptParamBase_Decode pkt =
     (if length pkt < 2 then Error (BGPMessageError BGPOpenMsgError BGPUnspecific [])
      else let b = \<lparr>op_Type = pkt ! 0, op_Len = pkt ! 1\<rparr> in
        if length pkt < unat (BGPOptParamBase_TotalLen b)
        then Error (BGPMessageError BGPUpdateMsgError BGPUnspecific [])
        else Ok b)"

datatype BGPOptParam =
    BGPOptParamCapability BGPOptParamBase "BGPCapability list"
  | BGPOptParamUnknown BGPOptParamBase "byte list"

fun op_base :: "BGPOptParam \<Rightarrow> BGPOptParamBase" where
  "op_base (BGPOptParamCapability b _) = b"
| "op_base (BGPOptParamUnknown b _) = b"

definition op_TotalLen :: "BGPOptParam \<Rightarrow> u8" where
  "op_TotalLen p = BGPOptParamBase_TotalLen (op_base p)"

definition op_GetCode :: "BGPOptParam \<Rightarrow> u8" where
  "op_GetCode p = op_Type (op_base p)"

definition BGPOptParamCapability_Encode :: "BGPOptParamBase \<Rightarrow> BGPCapability list \<Rightarrow> (bgp_error, byte list) outcome" where
  [simp]: "BGPOptParamCapability_Encode b caps =
     obind (omap BGPCapability_Encode caps) (\<lambda>bss. Ok (BGPOptParamBase_Encode b @ concat bss))"

definition BGPOptParamUnknown_Encode :: "BGPOptParamBase \<Rightarrow> byte list \<Rightarrow> (bgp_error, byte list) outcome" where
  [simp]: "BGPOptParamUnknown_Encode b v = copy_at (BGPOptParamBase_Encode b) 2 v"

fun BGPOptParam_Encode :: "BGPOptParam \<Rightarrow> (bgp_error, byte list) outcome" where
  "BGPOptParam_Encode (BGPOptParamCapability b caps) = BGPOptParamCapability_Encode b caps"
| "BGPOptParam_Encode (BGPOptParamUnknown b v) = BGPOptParamUnknown_Encode b v"

definition NewBGPOptParamCapability :: "BGPCapability list \<Rightarrow> BGPOptParam" where
  "NewBGPOptParamCapability caps =
     BGPOptParamCapability
       \<lparr>op_Type = BGPOptParamTypeCapability, op_Len = ucast (\<Sum>c\<leftarrow>caps. cap_TotalLen c)\<rparr> caps"

text \<open>The capability loop: the offset is a \<open>uint16\<close>, the remaining length an \<open>int\<close>.\<close>

definition capability_at :: "byte list \<Rightarrow> nat \<Rightarrow> (bgp_error, BGPCapability) outcome option" where
  "capability_at pkt off = Some (obind (slice_from pkt off) BGPCapability_Decode)"

definition capability_adv :: "nat \<Rightarrow> BGPCapability \<Rightarrow> nat" where
  "capability_adv off c = (off + unat (cap_TotalLen c)) mod 65536"

definition BGPOptParamCapability_Decode ::
  "byte list \<Rightarrow> (bgp_error, BGPOptParam) outcome option" where
  "BGPOptParamCapability_Decode pkt =
     rbind (Some (BGPOptParamBase_Decode pkt)) (\<lambda>b.
     rbind (tlv_loop capability_at capability_adv (\<lambda>c. unat (cap_TotalLen c)) pkt 2
              (int (unat (op_Len b))) []) (\<lambda>(caps, rem).
       if rem < 0 then Some (Error (BGPMessageError BGPOpenMsgError BGPUnspecific []))
       else Some (Ok (BGPOptParamCapability b caps))))"

text \<open>\<open>BGPOptParamUnknown.Decode\<close>, which no message reaches: \<open>GetOptParam\<close> refuses the type first.\<close>

definition BGPOptParamUnknown_Decode :: "byte list \<Rightarrow> (bgp_error, BGPOptParam) outcome" where
  "BGPOptParamUnknown_Decode pkt =
     obind (BGPOptParamBase_Decode pkt) (\<lambda>b.
     obind (slice_from pkt 2) (\<lambda>p.
     obind (copy_at (replicate (unat (op_Len b)) 0) 0 p) (\<lambda>v. Ok (BGPOptParamUnknown b v))))"

text \<open>\<open>GetOptParam\<close> and the receiver's \<open>Decode\<close>, at an offset of the OPEN body.\<close>

definition optparam_at :: "byte list \<Rightarrow> nat \<Rightarrow> (bgp_error, BGPOptParam) outcome option" where
  "optparam_at pkt off =
     rbind (Some (slice_from pkt off)) (\<lambda>p.
     rbind (Some (idx p 0)) (\<lambda>t.
       if t = BGPOptParamTypeCapability then BGPOptParamCapability_Decode p
       else Some (Error (BGPMessageError BGPOpenMsgError BGPUnsupportedOptionalParam []))))"

definition optparam_adv :: "nat \<Rightarrow> BGPOptParam \<Rightarrow> nat" where
  "optparam_adv off p = (off + unat (op_TotalLen p)) mod 256"

section \<open>OPEN\<close>

record BGPOpen =
  open_Version :: u8
  open_MyAS :: u32
  open_HoldTime :: u16
  open_BGPId :: ip
  open_OptParamLen :: u8
  open_OptParams :: "BGPOptParam list"

definition BGPOpen_Encode :: "BGPOpen \<Rightarrow> (bgp_error, byte list) outcome" where
  "BGPOpen_Encode m =
     obind (copy_at (replicate 4 0) 0 (To4 (open_BGPId m))) (\<lambda>bgpid.
     obind (omap BGPOptParam_Encode (open_OptParams m)) (\<lambda>bss.
       Ok ([open_Version m] @ put16 (ucast (open_MyAS m)) @ put16 (open_HoldTime m) @ bgpid @
           [\<Sum>p\<leftarrow>open_OptParams m. op_TotalLen p] @ concat bss)))"

definition BGPOpen_Decode :: "byte list \<Rightarrow> (bgp_error, BGPOpen) outcome option" where
  "BGPOpen_Decode pkt =
     rbind (Some (idx pkt 0)) (\<lambda>version.
     rbind (Some (obind (slice pkt 1 3) Uint16)) (\<lambda>as.
     rbind (Some (obind (slice pkt 3 5) Uint16)) (\<lambda>hold.
     rbind (Some (slice pkt 5 9)) (\<lambda>bgpid.
     rbind (Some (idx pkt 9)) (\<lambda>plen.
     rbind (tlv_loop optparam_at optparam_adv (\<lambda>p. unat (op_TotalLen p)) pkt 10
              (int (unat plen)) []) (\<lambda>(params, rem).
       if rem < 0 then Some (Error (BGPMessageError BGPOpenMsgError BGPUnspecific []))
       else Some (Ok \<lparr>open_Version = version, open_MyAS = ucast as, open_HoldTime = hold,
                      open_BGPId = To4 bgpid, open_OptParamLen = plen,
                      open_OptParams = params\<rparr>)))))))"

section \<open>NOTIFICATION and KEEPALIVE\<close>

record BGPNotification =
  ntf_ErrorCode :: u8
  ntf_ErrorSubcode :: u8
  ntf_Data :: "byte list"

definition BGPNotification_Encode :: "BGPNotification \<Rightarrow> byte list" where
  "BGPNotification_Encode m = [ntf_ErrorCode m, ntf_ErrorSubcode m] @ ntf_Data m"

definition BGPNotification_Decode :: "byte list \<Rightarrow> (bgp_error, BGPNotification) outcome" where
  "BGPNotification_Decode pkt =
     obind (idx pkt 0) (\<lambda>c. obind (idx pkt 1) (\<lambda>s.
       Ok \<lparr>ntf_ErrorCode = c, ntf_ErrorSubcode = s,
           ntf_Data = (if length pkt > 2 then drop 2 pkt else [])\<rparr>))"

definition BGPKeepAlive_Encode :: "byte list" where "BGPKeepAlive_Encode = []"

end
