(* ===== verification/BgpOpenWire.thy ===== *)
theory BgpOpenWire
  imports BgpOpen
begin

text \<open>
  What \<open>bgp/packet/bgp.go\<close> promises of the session messages: every well-formed capability, optional
  parameter and OPEN is decoded to itself, at any offset and whatever follows it.
\<close>

section \<open>Capabilities survive the wire\<close>

definition addpath_bytes :: "AddPathAFISAFI \<Rightarrow> byte list" where
  "addpath_bytes a = put16 (ap_AFI a) @ [ap_SAFI a, ap_Flags a]"

lemma length_addpath_bytes [simp]: "length (addpath_bytes a) = 4"
  by (simp add: addpath_bytes_def)

lemma length_concat_addpath [simp]: "length (concat (map addpath_bytes vs)) = 4 * length vs"
  by (induction vs) simp_all

lemma addpath_encode_loop_Ok:
  assumes "length pre + 4 * length vs < 256"
  shows "addpath_encode_loop (pre @ replicate (4 * length vs) 0) (length pre) vs =
         Ok (pre @ concat (map addpath_bytes vs))"
  using assms
proof (induction vs arbitrary: pre)
  case Nil
  then show ?case by simp
next
  case (Cons v vs)
  have "AddPathAFISAFI_Encode (pre @ replicate (4 * length (v # vs)) 0) (length pre) v =
        Ok ((pre @ addpath_bytes v) @ replicate (4 * length vs) 0)"
    by (simp add: AddPathAFISAFI_Encode_def write_at_def addpath_bytes_def)
  moreover have "(length pre + 4) mod 256 = length (pre @ addpath_bytes v)"
    using Cons.prems by simp
  ultimately show ?case
    using Cons.IH [of "pre @ addpath_bytes v"] Cons.prems
    by (simp add: AddPathAFISAFI_Len_def del: replicate_Suc)
qed

lemma AddPathAFISAFI_Decode_bytes [simp]:
  "AddPathAFISAFI_Decode (addpath_bytes a @ rest) = Ok a"
  by (simp add: AddPathAFISAFI_Decode_def addpath_bytes_def put16_def)

lemma addpath_decode_loop_Ok:
  assumes "length pre + 4 * length vs = len + 2" "2 \<le> length pre"
  shows "addpath_decode_loop (pre @ concat (map addpath_bytes vs) @ rest) len (length pre) acc =
         Ok (acc @ vs, len + 2)"
  using assms
proof (induction vs arbitrary: pre acc)
  case Nil
  then show ?case by (simp add: addpath_decode_loop.simps)
next
  case (Cons v vs)
  then show ?case
    using Cons.IH [of "pre @ addpath_bytes v" "acc @ [v]"]
    by (subst addpath_decode_loop.simps) (simp add: AddPathAFISAFI_Len_def)
qed

lemma addpath_decode_loop_top:
  "addpath_decode_loop (t # l # concat (map addpath_bytes vs) @ rest) (4 * length vs) 2 [] =
   Ok (vs, 4 * length vs + 2)"
  using addpath_decode_loop_Ok [of "[t, l]" vs "4 * length vs" rest "[]"]
  by (simp add: numeral_2_eq_2)

lemma addpath_encode_loop_top:
  "length vs \<le> 63 \<Longrightarrow>
   addpath_encode_loop (t # l # replicate (4 * length vs) 0) 2 vs =
   Ok (t # l # concat (map addpath_bytes vs))"
  using addpath_encode_loop_Ok [of "[t, l]" vs] by (simp add: numeral_2_eq_2)

fun wf_cap :: "BGPCapability \<Rightarrow> bool" where
  "wf_cap (BGPCapMPExt b afi r safi) \<longleftrightarrow> b = \<lparr>cap_Type = BGPCapTypeMPExt, cap_Len = 4\<rparr> \<and> r = 0"
| "wf_cap (BGPCapAS4Path b as) \<longleftrightarrow> b = \<lparr>cap_Type = BGPCapTypeAS4Path, cap_Len = 4\<rparr>"
| "wf_cap (BGPCapAddPath b vs) \<longleftrightarrow>
     b = \<lparr>cap_Type = BGPCapTypeAddPath, cap_Len = of_nat (4 * length vs)\<rparr> \<and> length vs \<le> 63"
| "wf_cap (BGPCapUnknown b v) \<longleftrightarrow>
     cap_Type b \<notin> {BGPCapTypeMPExt, BGPCapTypeAS4Path, BGPCapTypeAddPath} \<and> v = []"

fun cap_bytes :: "BGPCapability \<Rightarrow> byte list" where
  "cap_bytes (BGPCapMPExt b afi r safi) = [cap_Type b, cap_Len b] @ put16 afi @ [r, safi]"
| "cap_bytes (BGPCapAS4Path b as) = [cap_Type b, cap_Len b] @ put32 as"
| "cap_bytes (BGPCapAddPath b vs) = [cap_Type b, cap_Len b] @ concat (map addpath_bytes vs)"
| "cap_bytes (BGPCapUnknown b v) = [cap_Type b, cap_Len b] @ replicate (unat (cap_Len b)) 0"

lemma unat_cap_base_TotalLen: "unat (BGPCapabilityBase_TotalLen b) = unat (cap_Len b) + 2"
  using unat_byte_less [of "cap_Len b"]
  by (simp add: BGPCapabilityBase_TotalLen_def unat_word_ariths)

lemma base_Encode:
  "BGPCapabilityBase_Encode b = [cap_Type b, cap_Len b] @ replicate (unat (cap_Len b)) 0"
  by (simp add: BGPCapabilityBase_Encode_def unat_cap_base_TotalLen numeral_2_eq_2)

lemma base_Decode [simp]:
  "unat l \<le> length rest \<Longrightarrow>
   BGPCapabilityBase_Decode (t # l # rest) = Ok \<lparr>cap_Type = t, cap_Len = l\<rparr>"
  by (simp add: BGPCapabilityBase_Decode_def unat_cap_base_TotalLen Let_def)

lemma unat_addpath_len:
  "n \<le> 63 \<Longrightarrow> unat (of_nat (4 * n) :: u8) = 4 * n"
  by (subst unat_of_nat) simp

lemma replicate_4: "replicate 4 x = [x, x, x, x]"
  by (simp add: numeral_eq_Suc)

lemma BGPCapability_Encode_Ok:
  "wf_cap c \<Longrightarrow> BGPCapability_Encode c = Ok (cap_bytes c)"
proof (induction c rule: cap_bytes.induct)
  case (3 b vs)
  then show ?case
    by (auto simp: base_Encode unat_addpath_len addpath_encode_loop_top simp del: of_nat_mult)
qed (auto simp: base_Encode PutUint16_def PutUint32_def write_at_def set_idx_def copy_at_def
       put16_def put32_def replicate_4)

lemma BGPCapability_Decode_bytes:
  "wf_cap c \<Longrightarrow> BGPCapability_Decode (cap_bytes c @ rest) = Ok c"
proof (induction c rule: cap_bytes.induct)
  case (1 b afi r safi)
  then show ?case
    by (simp add: BGPCapability_Decode_def BGPCapMPExt_Decode_def put16_def)
next
  case (2 b as)
  then show ?case
    by (simp add: BGPCapability_Decode_def BGPCapAS4Path_Decode_def bgp_type_defs put32_def)
next
  case (3 b vs)
  let ?pkt = "[cap_Type b, cap_Len b] @ concat (map addpath_bytes vs) @ rest"
  have len: "unat (cap_Len b) = 4 * length vs"
    using 3 by (simp add: unat_addpath_len del: of_nat_mult)
  have "unat (cap_Len b + 2) = 4 * length vs + 2"
    using 3 len by (subst unat_word_ariths) simp
  then show ?case
    using 3 len
    by (simp add: BGPCapability_Decode_def BGPCapAddPath_Decode_def bgp_type_defs
          addpath_decode_loop_top del: of_nat_mult)
next
  case (4 b v)
  then show ?case
    by (simp add: BGPCapability_Decode_def BGPCapUnknown_Decode_def unat_cap_base_TotalLen copy_at_def)
qed

lemma length_cap_bytes: "wf_cap c \<Longrightarrow> length (cap_bytes c) = unat (cap_TotalLen c)"
  by (induction c rule: cap_bytes.induct)
     (auto simp: cap_TotalLen_def unat_cap_base_TotalLen unat_addpath_len simp del: of_nat_mult)

lemma cap_TotalLen_pos [simp]: "0 < unat (cap_TotalLen c)"
  by (simp add: cap_TotalLen_def unat_cap_base_TotalLen)

interpretation capabilities: tlv capability_at capability_adv "\<lambda>c. unat (cap_TotalLen c)"
    cap_bytes wf_cap 65535 "\<lambda>_. True"
  by unfold_locales
     (simp_all add: capability_at_def capability_adv_def BGPCapability_Decode_bytes length_cap_bytes)


section \<open>Optional parameters and OPEN survive the wire\<close>

fun wf_optparam :: "BGPOptParam \<Rightarrow> bool" where
  "wf_optparam (BGPOptParamCapability b caps) \<longleftrightarrow>
     op_Type b = BGPOptParamTypeCapability \<and> (\<forall>c \<in> set caps. wf_cap c) \<and>
     unat (op_Len b) = length (concat (map cap_bytes caps)) \<and> op_Len b \<le> 253"
| "wf_optparam (BGPOptParamUnknown b v) \<longleftrightarrow> False"

fun optparam_bytes :: "BGPOptParam \<Rightarrow> byte list" where
  "optparam_bytes (BGPOptParamCapability b caps) = [op_Type b, op_Len b] @ concat (map cap_bytes caps)"
| "optparam_bytes (BGPOptParamUnknown b v) = [op_Type b, op_Len b]"

lemma unat_op_TotalLen:
  "op_Len b \<le> 253 \<Longrightarrow> unat (BGPOptParamBase_TotalLen b) = unat (op_Len b) + 2"
  by (simp add: BGPOptParamBase_TotalLen_def unat_word_ariths word_le_nat_alt)

lemma length_optparam_bytes:
  "wf_optparam p \<Longrightarrow> length (optparam_bytes p) = unat (op_TotalLen p)"
  by (cases p) (simp_all add: op_TotalLen_def unat_op_TotalLen)

lemma omap_capabilities:
  "\<forall>c \<in> set caps. wf_cap c \<Longrightarrow> omap BGPCapability_Encode caps = Ok (map cap_bytes caps)"
  by (rule omap_Ok) (simp add: BGPCapability_Encode_Ok)

lemma BGPOptParam_Encode_Ok:
  "wf_optparam p \<Longrightarrow> BGPOptParam_Encode p = Ok (optparam_bytes p)"
  by (cases p) (simp_all add: omap_capabilities BGPOptParamBase_Encode_def)

lemma omap_optparams:
  "\<forall>p \<in> set ps. wf_optparam p \<Longrightarrow> omap BGPOptParam_Encode ps = Ok (map optparam_bytes ps)"
  by (rule omap_Ok) (simp add: BGPOptParam_Encode_Ok)

lemma BGPOptParamCapability_Decode_Ok:
  assumes "wf_optparam (BGPOptParamCapability b caps)"
  shows "BGPOptParamCapability_Decode (optparam_bytes (BGPOptParamCapability b caps) @ rest) =
         Some (Ok (BGPOptParamCapability b caps))"
proof -
  let ?body = "concat (map cap_bytes caps)"
  let ?pkt = "[op_Type b, op_Len b] @ ?body @ rest"
  have len: "unat (op_Len b) = length ?body" and le: "op_Len b \<le> 253"
    and wf: "\<forall>c \<in> set caps. wf_cap c"
    using assms by simp_all
  have base: "BGPOptParamBase_Decode ?pkt = Ok b"
    using unat_op_TotalLen [OF le] len by (cases b) (simp add: BGPOptParamBase_Decode_def Let_def)
  have "length ?body \<le> 255" using unat_byte_less [of "op_Len b"] len by simp
  then have loop: "tlv_loop capability_at capability_adv (\<lambda>c. unat (cap_TotalLen c)) ?pkt 2
          (int (unat (op_Len b))) [] = Some (Ok (caps, 0))"
    using capabilities.loop_round_trip [OF wf, of "[op_Type b, op_Len b]" rest "[]"] len
    by (simp add: numeral_2_eq_2)
  show ?thesis
    using base loop by (simp add: BGPOptParamCapability_Decode_def)
qed

lemma optparam_at_Ok:
  assumes "wf_optparam p"
  shows "optparam_at (pre @ optparam_bytes p @ rest) (length pre) = Some (Ok p)"
proof (cases p)
  case (BGPOptParamCapability b caps)
  then show ?thesis
    using assms BGPOptParamCapability_Decode_Ok [of b caps rest]
    by (simp add: optparam_at_def)
qed (use assms in simp)

interpretation optparams: tlv optparam_at optparam_adv "\<lambda>p. unat (op_TotalLen p)"
    optparam_bytes wf_optparam 255 "\<lambda>_. True"
proof
  fix p and off :: nat assume wf: "wf_optparam p"
  show "0 < length (optparam_bytes p)" by (cases p) simp_all
  show "unat (op_TotalLen p) = length (optparam_bytes p)"
    using length_optparam_bytes [OF wf] by simp
  then show "off + length (optparam_bytes p) \<le> 255 \<Longrightarrow>
             optparam_adv off p = off + length (optparam_bytes p)"
    by (simp add: optparam_adv_def)
qed (rule optparam_at_Ok)

definition params_bytes :: "BGPOpen \<Rightarrow> byte list" where
  "params_bytes m = concat (map optparam_bytes (open_OptParams m))"

text \<open>
  A well-formed OPEN: a 16-bit AS number, a four-byte identifier, well-formed parameters of at
  most 245 bytes (the offset of the decoder is a \<open>uint8\<close> that starts at 10), and the length field
  the sender computes.
\<close>

definition wf_open :: "BGPOpen \<Rightarrow> bool" where
  "wf_open m \<longleftrightarrow> open_MyAS m < 65536 \<and> length (open_BGPId m) = 4 \<and>
     (\<forall>p \<in> set (open_OptParams m). wf_optparam p) \<and> length (params_bytes m) \<le> 245 \<and>
     open_OptParamLen m = of_nat (length (params_bytes m))"

lemma of_nat_params:
  "\<forall>p \<in> set ps. wf_optparam p \<Longrightarrow>
   (\<Sum>p\<leftarrow>ps. op_TotalLen p) = of_nat (length (concat (map optparam_bytes ps)))"
  by (induction ps) (simp_all add: length_optparam_bytes)

definition open_bytes :: "BGPOpen \<Rightarrow> byte list" where
  "open_bytes m = [open_Version m] @ put16 (ucast (open_MyAS m)) @ put16 (open_HoldTime m) @
     To4 (open_BGPId m) @ [open_OptParamLen m] @ params_bytes m"

lemma BGPOpen_Encode_Ok:
  assumes "\<forall>p \<in> set (open_OptParams m). wf_optparam p" "length (To4 (open_BGPId m)) = 4"
    "open_OptParamLen m = of_nat (length (params_bytes m))"
  shows "BGPOpen_Encode m = Ok (open_bytes m)"
  using assms
  by (simp add: BGPOpen_Encode_def copy_at_def omap_optparams of_nat_params params_bytes_def
        open_bytes_def)

lemma BGPOpen_Decode_bytes:
  assumes params: "\<forall>p \<in> set (open_OptParams m). wf_optparam p" and short: "length (params_bytes m) \<le> 245"
    and id4: "length (To4 (open_BGPId m)) = 4"
    and plen: "open_OptParamLen m = of_nat (length (params_bytes m))"
  shows "BGPOpen_Decode (open_bytes m) =
         Some (Ok (m\<lparr>open_MyAS := ucast (ucast (open_MyAS m) :: u16), open_BGPId := To4 (open_BGPId m)\<rparr>))"
proof -
  obtain a b c d where bgpid: "To4 (open_BGPId m) = [a, b, c, d]"
    using id4 length_4 by blast
  let ?pre = "[open_Version m] @ put16 (ucast (open_MyAS m)) @ put16 (open_HoldTime m) @
     To4 (open_BGPId m) @ [open_OptParamLen m]"
  have pkt: "open_bytes m = ?pre @ params_bytes m @ []"
    by (simp add: open_bytes_def)
  have len: "unat (open_OptParamLen m) = length (params_bytes m)"
    using short unfolding plen by (subst unat_of_nat) simp
  have "tlv_loop optparam_at optparam_adv (\<lambda>p. unat (op_TotalLen p)) (?pre @ params_bytes m @ [])
          (length ?pre) (int (length (params_bytes m))) [] = Some (Ok ([] @ open_OptParams m, 0))"
    using short params unfolding params_bytes_def
    by (intro optparams.loop_round_trip) (simp_all add: bgpid)
  then have loop: "tlv_loop optparam_at optparam_adv (\<lambda>p. unat (op_TotalLen p)) (open_bytes m)
          10 (int (unat (open_OptParamLen m))) [] = Some (Ok (open_OptParams m, 0))"
    unfolding pkt len by (simp add: bgpid numeral_eq_Suc)
  show ?thesis
    using loop bgpid by (simp add: BGPOpen_Decode_def) (simp add: open_bytes_def put16_def)
qed

lemma open_wire:
  assumes "wf_open m"
  shows "BGPOpen_Encode m = Ok (open_bytes m)" and "BGPOpen_Decode (open_bytes m) = Some (Ok m)"
    and "length (open_bytes m) \<le> 255"
proof -
  have params: "\<forall>p \<in> set (open_OptParams m). wf_optparam p" "length (params_bytes m) \<le> 245"
    "length (To4 (open_BGPId m)) = 4" "open_OptParamLen m = of_nat (length (params_bytes m))"
    "To4 (open_BGPId m) = open_BGPId m" "open_MyAS m < 65536"
    using assms by (simp_all add: wf_open_def)
  have as: "(ucast (ucast (open_MyAS m) :: u16) :: u32) = open_MyAS m"
    using bit_small [of "open_MyAS m" _ 16] params(6) by (intro bit_word_eqI) (auto simp: bit_simps)
  show "BGPOpen_Encode m = Ok (open_bytes m)" using params by (intro BGPOpen_Encode_Ok) simp_all
  show "BGPOpen_Decode (open_bytes m) = Some (Ok m)"
    using BGPOpen_Decode_bytes [of m] params as by simp
  show "length (open_bytes m) \<le> 255" using params by (simp add: open_bytes_def)
qed

end
