(* ===== verification/BgpAfi.thy ===== *)
theory BgpAfi
  imports BgpOpenWire "HOL-Library.AList"
begin

text \<open>
  Address families and capability negotiation: \<open>bgp/packet/afisafi.go\<close>, and from
  \<open>bgp/packet/helpers.go\<close> the optional parameters a speaker sends and what it reads from those of its
  peer. A Go map is an association list without repeated keys; where the code ranges over a map it
  is given, the list is in the order of that iteration.
\<close>

section \<open>Address families (\<open>afisafi.go\<close>)\<close>

definition AfiIP :: u16 where "AfiIP = 1"
definition AfiIP6 :: u16 where "AfiIP6 = 2"
definition SafiUnicast :: u8 where "SafiUnicast = 1"
definition SafiMulticast :: u8 where "SafiMulticast = 2"

lemmas afi_defs = AfiIP_def AfiIP6_def SafiUnicast_def SafiMulticast_def

text \<open>\<open>uint32(afi<<8) | uint32(safi)\<close>: the shift is done in 16 bits.\<close>

definition GetProtocolFamily :: "u16 \<Rightarrow> u8 \<Rightarrow> u32" where
  "GetProtocolFamily afi safi = ucast (push_bit 8 afi) OR ucast safi"

definition GetAfiSafi :: "u32 \<Rightarrow> u16 \<times> u8" where
  "GetAfiSafi pf = (ucast (drop_bit 8 pf), ucast (pf AND 0xFF))"

definition ProtocolFamilyMap :: "(string \<times> u32) list" where
  "ProtocolFamilyMap =
     [(''ipv4-unicast'', GetProtocolFamily AfiIP SafiUnicast),
      (''ipv6-unicast'', GetProtocolFamily AfiIP6 SafiUnicast)]"

definition AFINextHopLenMap :: "(u16 \<times> nat) list" where
  "AFINextHopLenMap = [(AfiIP, 4), (AfiIP6, 16)]"

definition IPv4zero :: ip where "IPv4zero = v4InV6Prefix @ replicate 4 0"
definition IPv6zero :: ip where "IPv6zero = replicate 16 0"

definition AFINextHop :: "(u16 \<times> ip) list" where
  "AFINextHop = [(AfiIP, IPv4zero), (AfiIP6, IPv6zero)]"

text \<open>\<open>ribdCommonDefs.IPType\<close> and \<open>config.PeerAddressType\<close> both number IPv4 as 0 and IPv6 as 1.\<close>

definition RIBdAddressTypeToAFI :: "(int \<times> u16) list" where
  "RIBdAddressTypeToAFI = [(0, AfiIP), (1, AfiIP6)]"

definition PeerAddrTypeProtoFamilyMap :: "(int \<times> u32) list" where
  "PeerAddrTypeProtoFamilyMap =
     [(0, GetProtocolFamily AfiIP SafiUnicast), (1, GetProtocolFamily AfiIP6 SafiUnicast)]"

text \<open>The loop of \<open>GetProtocolFromConfig\<close> over the configured names, until an unknown one.\<close>

fun protocol_config_loop :: "string list \<Rightarrow> (u32 \<times> bool) list \<Rightarrow> (u32 \<times> bool) list \<times> bool" where
  "protocol_config_loop [] m = (m, True)"
| "protocol_config_loop (n # ns) m =
     (case map_of ProtocolFamilyMap n of
        Some pf \<Rightarrow> protocol_config_loop ns (AList.update pf True m)
      | None \<Rightarrow> (m, False))"

definition GetProtocolFromConfig :: "string list \<Rightarrow> ip \<Rightarrow> (u32 \<times> bool) list \<times> bool" where
  "GetProtocolFromConfig afiSafis neighborAddress =
     (let (m, rv) = protocol_config_loop afiSafis [] in
      if m = []
      then if To4 neighborAddress = []
        then ([(GetProtocolFamily AfiIP6 SafiUnicast, True)], rv)
        else ([(GetProtocolFamily AfiIP SafiUnicast, True)], rv)
      else (m, rv))"

definition GetAddressLengthForFamily :: "u32 \<Rightarrow> int" where
  "GetAddressLengthForFamily pf =
     (case map_of AFINextHopLenMap (fst (GetAfiSafi pf)) of Some l \<Rightarrow> int l | None \<Rightarrow> - 1)"

definition GetProtocolFamilyFromAddressLen :: "int \<Rightarrow> u32" where
  "GetProtocolFamilyFromAddressLen bytes =
     (case find (\<lambda>(afi, l). int l = bytes) AFINextHopLenMap of
        Some (afi, _) \<Rightarrow> GetProtocolFamily afi SafiUnicast | None \<Rightarrow> 0)"

definition GetZeroNextHopForFamily :: "u32 \<Rightarrow> ip" where
  "GetZeroNextHopForFamily pf =
     (case map_of AFINextHop (fst (GetAfiSafi pf)) of Some nh \<Rightarrow> nh | None \<Rightarrow> [])"

definition GetProtocolFamilyFromAddrType :: "int \<Rightarrow> (bgp_error, u32) outcome" where
  "GetProtocolFamilyFromAddrType t =
     (case map_of RIBdAddressTypeToAFI t of
        Some afi \<Rightarrow> Ok (GetProtocolFamily afi SafiUnicast) | None \<Rightarrow> Error plainError)"

definition GetProtocolFamilyFromPeerAddrType :: "int \<Rightarrow> (bgp_error, u32) outcome" where
  "GetProtocolFamilyFromPeerAddrType t =
     (case map_of PeerAddrTypeProtoFamilyMap t of Some pf \<Rightarrow> Ok pf | None \<Rightarrow> Error plainError)"

text \<open>The families of the multiprotocol capabilities of an OPEN.\<close>

fun cap_families :: "BGPCapability list \<Rightarrow> (u32 \<times> bool) list \<Rightarrow> (u32 \<times> bool) list" where
  "cap_families [] m = m"
| "cap_families (BGPCapMPExt b afi r safi # cs) m =
     cap_families cs (AList.update (GetProtocolFamily afi safi) True m)"
| "cap_families (_ # cs) m = cap_families cs m"

fun param_families :: "BGPOptParam list \<Rightarrow> (u32 \<times> bool) list \<Rightarrow> (u32 \<times> bool) list" where
  "param_families [] m = m"
| "param_families (BGPOptParamCapability b caps # ps) m = param_families ps (cap_families caps m)"
| "param_families (_ # ps) m = param_families ps m"

definition GetProtocolFromOpenMsg :: "BGPOpen \<Rightarrow> (u32 \<times> bool) list" where
  "GetProtocolFromOpenMsg m = param_families (open_OptParams m) []"

section \<open>What a speaker offers and what it reads (\<open>helpers.go\<close>)\<close>

text \<open>One round of the loop of \<open>ConstructOptParams\<close> over the configured families.\<close>

definition offer_family ::
  "u8 \<Rightarrow> BGPCapability list \<times> BGPCapability \<Rightarrow> u32 \<Rightarrow> BGPCapability list \<times> BGPCapability" where
  "offer_family flags st pf =
     (let (caps, addPaths) = st; (afi, safi) = GetAfiSafi pf in
      (caps @ [NewBGPCapMPExt afi safi],
       AddAddPathAFISAFI addPaths (NewAddPathAFISAFI afi safi flags)))"

definition add_path_flags :: "bool \<Rightarrow> u8 \<Rightarrow> u8" where
  "add_path_flags rx maxTx =
     (if rx then BGPCapAddPathRx else 0) OR (if maxTx > 0 then BGPCapAddPathTx else 0)"

definition ConstructOptParams :: "u32 \<Rightarrow> u32 list \<Rightarrow> bool \<Rightarrow> u8 \<Rightarrow> BGPOptParam list" where
  "ConstructOptParams as families addPathsRx addPathsMaxTx =
     (let flags = add_path_flags addPathsRx addPathsMaxTx;
          (caps, addPaths) =
            foldl (offer_family flags) ([NewBGPCap4ByteASPath as], NewBGPCapAddPath) families;
          caps' = (if flags \<noteq> 0 then caps @ [addPaths] else caps)
      in [NewBGPOptParamCapability caps'])"

text \<open>The body that \<open>NewBGPOpenMessage\<close> puts in its message.\<close>

definition NewBGPOpen :: "u32 \<Rightarrow> u16 \<Rightarrow> string \<Rightarrow> BGPOptParam list \<Rightarrow> BGPOpen" where
  "NewBGPOpen myAS holdTime bgpId optParams =
     \<lparr>open_Version = 4,
      open_MyAS = (if myAS > 65535 then ucast BGPASTrans else myAS),
      open_HoldTime = holdTime,
      open_BGPId = ParseIP bgpId,
      open_OptParamLen = (\<Sum>p\<leftarrow>optParams. op_TotalLen p),
      open_OptParams = optParams\<rparr>"

text \<open>
  The readers below assert the concrete type that goes with a code; a parameter or capability whose
  code and type disagree makes them panic.
\<close>

fun GetASSize_loop :: "BGPOptParam list \<Rightarrow> (bgp_error, u8) outcome" where
  "GetASSize_loop [] = Ok 2"
| "GetASSize_loop (p # ps) =
     (if op_GetCode p = BGPOptParamTypeCapability
      then case p of
          BGPOptParamCapability b caps \<Rightarrow>
            if list_ex (\<lambda>c. cap_GetCode c = BGPCapTypeAS4Path) caps then Ok 4 else GetASSize_loop ps
        | BGPOptParamUnknown b v \<Rightarrow> Panic
      else GetASSize_loop ps)"

definition GetASSize :: "BGPOpen \<Rightarrow> (bgp_error, u8) outcome" where
  "GetASSize m = GetASSize_loop (open_OptParams m)"

fun peer_as_caps :: "BGPCapability list \<Rightarrow> u32 \<Rightarrow> (bgp_error, u32) outcome" where
  "peer_as_caps [] as = Ok as"
| "peer_as_caps (c # cs) as =
     (if cap_GetCode c = BGPCapTypeAS4Path
      then case c of BGPCapAS4Path b v \<Rightarrow> peer_as_caps cs v | _ \<Rightarrow> Panic
      else peer_as_caps cs as)"

fun peer_as_params :: "BGPOptParam list \<Rightarrow> u32 \<Rightarrow> (bgp_error, u32) outcome" where
  "peer_as_params [] as = Ok as"
| "peer_as_params (p # ps) as =
     (if op_GetCode p = BGPOptParamTypeCapability
      then case p of
          BGPOptParamCapability b caps \<Rightarrow> obind (peer_as_caps caps as) (peer_as_params ps)
        | BGPOptParamUnknown b v \<Rightarrow> Panic
      else peer_as_params ps as)"

definition GetPeerAS :: "BGPOpen \<Rightarrow> (bgp_error, u32) outcome" where
  "GetPeerAS m = peer_as_params (open_OptParams m) (open_MyAS m)"

type_synonym add_path_family = "(u16 \<times> (u8 \<times> u8) list) list"

text \<open>\<open>if _, ok := m[k]; !ok { m[k] = v }\<close>.\<close>

definition put_absent :: "'k \<Rightarrow> 'v \<Rightarrow> ('k \<times> 'v) list \<Rightarrow> ('k \<times> 'v) list" where
  "put_absent k v m = (case map_of m k of None \<Rightarrow> m @ [(k, v)] | Some _ \<Rightarrow> m)"

definition add_path_entry :: "add_path_family \<Rightarrow> AddPathAFISAFI \<Rightarrow> add_path_family" where
  "add_path_entry fam a =
     (let fam = put_absent (ap_AFI a) [] fam;
          inner = the (map_of fam (ap_AFI a))
      in AList.update (ap_AFI a) (put_absent (ap_SAFI a) (ap_Flags a) inner) fam)"

fun first_add_path :: "BGPCapability list \<Rightarrow> AddPathAFISAFI list option" where
  "first_add_path [] = None"
| "first_add_path (BGPCapAddPath b vs # cs) = Some vs"
| "first_add_path (_ # cs) = first_add_path cs"

fun add_path_params :: "BGPOptParam list \<Rightarrow> add_path_family" where
  "add_path_params [] = []"
| "add_path_params (BGPOptParamCapability b caps # ps) =
     (case first_add_path caps of
        Some vs \<Rightarrow> foldl add_path_entry [] vs
      | None \<Rightarrow> add_path_params ps)"
| "add_path_params (_ # ps) = add_path_params ps"

definition GetAddPathFamily :: "BGPOpen \<Rightarrow> add_path_family" where
  "GetAddPathFamily m = add_path_params (open_OptParams m)"

definition IsAddPathsTxEnabledForIPv4 :: "add_path_family \<Rightarrow> bool" where
  "IsAddPathsTxEnabledForIPv4 fam =
     list_ex (\<lambda>(afi, safis). list_ex (\<lambda>(safi, flags). flags AND BGPCapAddPathTx \<noteq> 0) safis) fam"

text \<open>
  \<open>ConvertIPBytesToUint\<close> shifts its middle bytes within eight bits before widening them.
\<close>

definition ConvertIPBytesToUint :: "byte list \<Rightarrow> (bgp_error, u32) outcome" where
  "ConvertIPBytesToUint bs =
     obind (idx bs 0) (\<lambda>a. obind (idx bs 1) (\<lambda>b. obind (idx bs 2) (\<lambda>c. obind (idx bs 3) (\<lambda>d.
       Ok (push_bit 24 (ucast a) OR ucast (push_bit 16 b) OR ucast (push_bit 8 c) OR ucast d)))))"

end
