(* ===== verification/BgpNlri.thy ===== *)
theory BgpNlri
  imports BgpAfi
begin

text \<open>
  Reachability information: \<open>IPPrefix\<close> and \<open>ExtNLRI\<close> of \<open>bgp/packet/bgp.go\<close>, their codec and
  \<open>decodeNLRI\<close>. Prefixes come from \<open>make\<close>, \<open>ParseIP\<close> or \<open>ParseCIDR\<close>, so their capacity, which
  \<open>Encode\<close> reads, is their length.
\<close>

definition BGPInvalidNetworkField :: u8 where "BGPInvalidNetworkField = 10"
definition BGPMalformedAttrList :: u8 where "BGPMalformedAttrList = 1"
definition BGPAttrLenError :: u8 where "BGPAttrLenError = 5"

section \<open>Prefixes\<close>

record IPPrefix =
  pfx_Length :: u8
  pfx_Prefix :: ip

definition NewIPPrefix :: "ip \<Rightarrow> u8 \<Rightarrow> IPPrefix" where
  "NewIPPrefix prefix len = \<lparr>pfx_Length = len, pfx_Prefix = prefix\<rparr>"

text \<open>The bytes a prefix length needs, and \<open>Len()\<close>, both counted in \<open>uint8\<close>.\<close>

definition prefix_bytes :: "u8 \<Rightarrow> u8" where
  "prefix_bytes l = (l + 7) div 8"

definition IPPrefix_Len :: "IPPrefix \<Rightarrow> u32" where
  "IPPrefix_Len ip = ucast (prefix_bytes (pfx_Length ip) + 1)"

definition IPPrefix_Encode :: "IPPrefix \<Rightarrow> u16 \<Rightarrow> (bgp_error, byte list) outcome" where
  "IPPrefix_Encode ip afi =
     (let pkt = (replicate (unat (IPPrefix_Len ip)) 0)[0 := pfx_Length ip];
          ipLen = (if afi = AfiIP6 then IPv6len else IPv4len);
          start = (word_of_int (int (length (pfx_Prefix ip)) - int ipLen) :: u8)
      in obind (slice (pfx_Prefix ip) (unat start) (unat (start + prefix_bytes (pfx_Length ip))))
           (\<lambda>bs. copy_at pkt 1 bs))"

text \<open>\<open>ip.Prefix[bytes-1] &= (^byte(0xff >> (ip.Length % 8)))\<close>.\<close>

definition host_mask :: "nat \<Rightarrow> byte" where
  "host_mask r = NOT (drop_bit r 0xff)"

definition mask_last :: "u8 \<Rightarrow> ip \<Rightarrow> (bgp_error, ip) outcome" where
  "mask_last len prefix =
     (let bytes = prefix_bytes len in
      if bytes > 0 \<and> len mod 8 > 0
      then obind (idx prefix (unat bytes - 1)) (\<lambda>b.
             set_idx prefix (unat bytes - 1) (b AND host_mask (unat (len mod 8))))
      else Ok prefix)"

definition IPPrefix_Decode :: "byte list \<Rightarrow> u16 \<Rightarrow> (bgp_error, IPPrefix) outcome" where
  "IPPrefix_Decode pkt afi =
     (if length pkt < 1 then Error (BGPMessageError BGPUpdateMsgError BGPInvalidNetworkField [])
      else let len = pkt ! 0 in
      if (case map_of AFINextHopLenMap afi of Some n \<Rightarrow> len > of_nat n * 8 | None \<Rightarrow> False)
      then Error (BGPMessageError BGPUpdateMsgError BGPInvalidNetworkField [])
      else let bytes = prefix_bytes len in
      if length pkt < unat bytes + 1
      then Error (BGPMessageError BGPUpdateMsgError BGPInvalidNetworkField [])
      else let ipLen = (if afi = AfiIP6 \<or> unat bytes > IPv4len then IPv6len else IPv4len) in
        obind (slice pkt 1 (unat (bytes + 1))) (\<lambda>bs.
        obind (copy_at (replicate ipLen 0) 0 bs) (\<lambda>prefix.
        obind (mask_last len prefix) (\<lambda>prefix.
          Ok \<lparr>pfx_Length = len, pfx_Prefix = prefix\<rparr>))))"

section \<open>The \<open>NLRI\<close> interface\<close>

text \<open>\<open>*IPPrefix\<close>, or \<open>*ExtNLRI\<close>, a prefix with a path identifier.\<close>

datatype NLRI = PrefixNLRI IPPrefix | ExtNLRI IPPrefix u32

fun NLRI_Encode :: "NLRI \<Rightarrow> u16 \<Rightarrow> (bgp_error, byte list) outcome" where
  "NLRI_Encode (PrefixNLRI ip) afi = IPPrefix_Encode ip afi"
| "NLRI_Encode (ExtNLRI ip pathId) afi = obind (IPPrefix_Encode ip afi) (\<lambda>bs. Ok (put32 pathId @ bs))"

definition ExtNLRI_Decode :: "byte list \<Rightarrow> u16 \<Rightarrow> (bgp_error, NLRI) outcome" where
  "ExtNLRI_Decode pkt afi =
     (if length pkt < 5 then Error (BGPMessageError BGPUpdateMsgError BGPInvalidNetworkField [])
      else obind (Uint32 pkt) (\<lambda>pathId.
           obind (slice_from pkt 4) (\<lambda>p.
           obind (IPPrefix_Decode p afi) (\<lambda>ip. Ok (ExtNLRI ip pathId)))))"

fun NLRI_Len :: "NLRI \<Rightarrow> u32" where
  "NLRI_Len (PrefixNLRI ip) = IPPrefix_Len ip"
| "NLRI_Len (ExtNLRI ip pathId) = IPPrefix_Len ip + 4"

fun GetIPPrefix :: "NLRI \<Rightarrow> IPPrefix" where
  "GetIPPrefix (PrefixNLRI ip) = ip"
| "GetIPPrefix (ExtNLRI ip _) = ip"

fun GetPathId :: "NLRI \<Rightarrow> u32" where
  "GetPathId (PrefixNLRI ip) = 0"
| "GetPathId (ExtNLRI _ pathId) = pathId"

definition GetCIDR :: "NLRI \<Rightarrow> string" where
  "GetCIDR n = ip_String (pfx_Prefix (GetIPPrefix n)) @ ''/'' @ itod (unat (pfx_Length (GetIPPrefix n)))"

fun ConstructNLRIFromPathIdAndNLRI :: "NLRI \<Rightarrow> u32 \<Rightarrow> NLRI" where
  "ConstructNLRIFromPathIdAndNLRI (PrefixNLRI ip) pathId = PrefixNLRI ip"
| "ConstructNLRIFromPathIdAndNLRI (ExtNLRI ip _) pathId = ExtNLRI ip pathId"

section \<open>\<open>decodeNLRI\<close>\<close>

text \<open>What the connection knows of its peer when it decodes.\<close>

record BGPPeerAttrs =
  peer_ASSize :: u8
  peer_AddPathFamily :: add_path_family
  peer_AddPathsRxActual :: bool

definition nlri_at ::
  "bool \<Rightarrow> u16 \<Rightarrow> byte list \<Rightarrow> nat \<Rightarrow> (bgp_error, NLRI) outcome option" where
  "nlri_at addPaths afi pkt ptr =
     Some (obind (slice_from pkt ptr) (\<lambda>p.
       if addPaths then ExtNLRI_Decode p afi
       else obind (IPPrefix_Decode p afi) (\<lambda>ip. Ok (PrefixNLRI ip))))"

definition nlri_adv :: "nat \<Rightarrow> NLRI \<Rightarrow> nat" where
  "nlri_adv ptr n = (ptr + unat (NLRI_Len n)) mod 4294967296"

definition decodeNLRI ::
  "byte list \<Rightarrow> u32 \<Rightarrow> u16 \<Rightarrow> BGPPeerAttrs \<Rightarrow> (bgp_error, NLRI list \<times> nat) outcome option" where
  "decodeNLRI pkt len afi peer =
     (if len > of_nat (length pkt)
      then Some (Error (BGPMessageError BGPUpdateMsgError BGPMalformedAttrList []))
      else rbind (ptr_loop (nlri_at (peer_AddPathsRxActual peer) afi) nlri_adv pkt (unat len) 0 [])
        (\<lambda>(nlri, ptr).
          if ptr \<noteq> unat len
          then Some (Error (BGPMessageError BGPUpdateMsgError BGPAttrLenError pkt))
          else Some (Ok (nlri, ptr))))"

section \<open>Default routes (\<open>defaultroute.go\<close>)\<close>

definition ProtocolFamilyDefaultRouteMap :: "(u32 \<times> NLRI) list" where
  "ProtocolFamilyDefaultRouteMap =
     [(GetProtocolFamily AfiIP SafiUnicast, PrefixNLRI (NewIPPrefix IPv4zero 0)),
      (GetProtocolFamily AfiIP6 SafiUnicast, PrefixNLRI (NewIPPrefix IPv6zero 0))]"

text \<open>\<open>ConstructNLRIForDefaultRoutes\<close>; nil maps and empty maps are the same list.\<close>

fun ConstructNLRIForDefaultRoutes ::
  "(u32 \<times> bool) list \<Rightarrow> (u32 \<times> NLRI list) list \<times> (u32 \<times> NLRI list) list \<Rightarrow>
   (u32 \<times> NLRI list) list \<times> (u32 \<times> NLRI list) list" where
  "ConstructNLRIForDefaultRoutes [] acc = acc"
| "ConstructNLRIForDefaultRoutes ((pf, add) # us) (valid, invalid) =
     (case map_of ProtocolFamilyDefaultRouteMap pf of
        None \<Rightarrow> ConstructNLRIForDefaultRoutes us (valid, invalid)
      | Some ip \<Rightarrow> ConstructNLRIForDefaultRoutes us
          (if add then (AList.update pf [ip] valid, invalid)
           else (valid, AList.update pf [ip] invalid)))"

end
