(* ===== verification/BgpAsPath.thy ===== *)
theory BgpAsPath
  imports BgpNlri
begin

text \<open>
  AS path segments of \<open>bgp/packet/bgp.go\<close>, with two-byte and four-byte AS numbers: the structs that
  embed \<open>BGPASPathSegmentBase\<close>, their codec, and the operations that prepend and append AS numbers.
\<close>

definition BGPASPathSegmentSet :: u8 where "BGPASPathSegmentSet = 1"
definition BGPASPathSegmentSequence :: u8 where "BGPASPathSegmentSequence = 2"

section \<open>Segments\<close>

record BGPASPathSegmentBase =
  seg_Type :: u8
  seg_Length :: u8
  seg_TotalLen :: u16

record BGPAS2PathSegment = BGPASPathSegmentBase +
  seg_AS2 :: "u16 list"

record BGPAS4PathSegment = BGPASPathSegmentBase +
  seg_AS4 :: "u32 list"

text \<open>The \<open>BGPASPathSegment\<close> interface.\<close>

datatype BGPASPathSegment = AS2Segment BGPAS2PathSegment | AS4Segment BGPAS4PathSegment

definition NewBGPAS2PathSegment :: "u8 \<Rightarrow> BGPAS2PathSegment" where
  "NewBGPAS2PathSegment t = \<lparr>seg_Type = t, seg_Length = 0, seg_TotalLen = 2, seg_AS2 = []\<rparr>"

definition NewBGPAS4PathSegment :: "u8 \<Rightarrow> BGPAS4PathSegment" where
  "NewBGPAS4PathSegment t = \<lparr>seg_Type = t, seg_Length = 0, seg_TotalLen = 2, seg_AS4 = []\<rparr>"

definition NewBGPAS2PathSegmentSeq :: BGPAS2PathSegment where
  "NewBGPAS2PathSegmentSeq = NewBGPAS2PathSegment BGPASPathSegmentSequence"

definition NewBGPAS4PathSegmentSeq :: BGPAS4PathSegment where
  "NewBGPAS4PathSegmentSeq = NewBGPAS4PathSegment BGPASPathSegmentSequence"

definition NewBGPAS4PathSegmentSet :: BGPAS4PathSegment where
  "NewBGPAS4PathSegmentSet = NewBGPAS4PathSegment BGPASPathSegmentSet"

fun seg_GetType :: "BGPASPathSegment \<Rightarrow> u8" where
  "seg_GetType (AS2Segment s) = seg_Type s"
| "seg_GetType (AS4Segment s) = seg_Type s"

fun seg_GetLen :: "BGPASPathSegment \<Rightarrow> u8" where
  "seg_GetLen (AS2Segment s) = seg_Length s"
| "seg_GetLen (AS4Segment s) = seg_Length s"

fun seg_size :: "BGPASPathSegment \<Rightarrow> u16" where
  "seg_size (AS2Segment s) = seg_TotalLen s"
| "seg_size (AS4Segment s) = seg_TotalLen s"

definition GetMaxASes :: nat where "GetMaxASes = 255"

section \<open>Wire format\<close>

definition BGPASPathSegmentBase_Decode :: "byte list \<Rightarrow> (bgp_error, u8 \<times> u8) outcome" where
  "BGPASPathSegmentBase_Decode pkt =
     (if length pkt \<le> 2 then Error (BGPMessageError BGPUpdateMsgError BGPMalformedAttrList [])
      else Ok (pkt ! 0, pkt ! 1))"

text \<open>\<open>BGPASPathSegmentLen = uint16(ps.Length*2 + 2)\<close>: the product and the sum are taken in \<open>uint8\<close>.\<close>

definition BGPAS2PathSegment_Decode :: "byte list \<Rightarrow> (bgp_error, BGPAS2PathSegment) outcome" where
  "BGPAS2PathSegment_Decode pkt =
     obind (BGPASPathSegmentBase_Decode pkt) (\<lambda>(t, l).
       if length pkt - 2 < unat l * 2
       then Error (BGPMessageError BGPUpdateMsgError BGPMalformedAttrList [])
       else Ok \<lparr>seg_Type = t, seg_Length = l, seg_TotalLen = ucast (l * 2 + 2),
                seg_AS2 = map (\<lambda>i. be16 (pkt ! (i * 2 + 2)) (pkt ! (i * 2 + 3))) [0..<unat l]\<rparr>)"

definition BGPAS4PathSegment_Decode :: "byte list \<Rightarrow> (bgp_error, BGPAS4PathSegment) outcome" where
  "BGPAS4PathSegment_Decode pkt =
     obind (BGPASPathSegmentBase_Decode pkt) (\<lambda>(t, l).
       if length pkt - 2 < unat l * 4
       then Error (BGPMessageError BGPUpdateMsgError BGPMalformedAttrList [])
       else Ok \<lparr>seg_Type = t, seg_Length = l, seg_TotalLen = ucast (l * 4 + 2),
                seg_AS4 = map (\<lambda>i. be32 (pkt ! (i * 4 + 2)) (pkt ! (i * 4 + 3))
                                        (pkt ! (i * 4 + 4)) (pkt ! (i * 4 + 5))) [0..<unat l]\<rparr>)"

text \<open>\<open>val.Encode(pkt[off:])\<close>: type, length, then the numbers; any of the writes may be out of range.\<close>

fun seg_Encode :: "byte list \<Rightarrow> nat \<Rightarrow> BGPASPathSegment \<Rightarrow> (bgp_error, byte list) outcome" where
  "seg_Encode pkt off (AS2Segment s) =
     write_at pkt off ([seg_Type s, seg_Length s] @ concat (map put16 (seg_AS2 s)))"
| "seg_Encode pkt off (AS4Segment s) =
     write_at pkt off ([seg_Type s, seg_Length s] @ concat (map put32 (seg_AS4 s)))"

section \<open>Counting, prepending, appending\<close>

fun seg_GetNumASes :: "BGPASPathSegment \<Rightarrow> u8" where
  "seg_GetNumASes (AS2Segment s) =
     (if seg_Type s = BGPASPathSegmentSet then 1 else of_nat (length (seg_AS2 s)))"
| "seg_GetNumASes (AS4Segment s) =
     (if seg_Type s = BGPASPathSegmentSet then 1 else of_nat (length (seg_AS4 s)))"

fun seg_PrependAS :: "BGPASPathSegment \<Rightarrow> u32 \<Rightarrow> BGPASPathSegment \<times> bool" where
  "seg_PrependAS (AS2Segment s) as =
     (if seg_Length s \<ge> 255 then (AS2Segment s, False)
      else (AS2Segment (s\<lparr>seg_AS2 := ucast as # seg_AS2 s, seg_Length := seg_Length s + 1,
                          seg_TotalLen := seg_TotalLen s + 2\<rparr>), True))"
| "seg_PrependAS (AS4Segment s) as =
     (if seg_Length s \<ge> 255 then (AS4Segment s, False)
      else (AS4Segment (s\<lparr>seg_AS4 := as # seg_AS4 s, seg_Length := seg_Length s + 1,
                          seg_TotalLen := seg_TotalLen s + 4\<rparr>), True))"

fun seg_PrependASList :: "BGPASPathSegment \<Rightarrow> u32 list \<Rightarrow> BGPASPathSegment \<times> bool" where
  "seg_PrependASList (AS2Segment s) asList =
     (if unat (seg_Length s) + length asList > 255 then (AS2Segment s, False)
      else (AS2Segment (s\<lparr>seg_AS2 := map ucast asList @ seg_AS2 s,
                          seg_Length := seg_Length s + of_nat (length asList),
                          seg_TotalLen := seg_TotalLen s + of_nat (2 * length asList)\<rparr>), True))"
| "seg_PrependASList (AS4Segment s) asList =
     (if asList = [] then (AS4Segment s, True)
      else if unat (seg_Length s) + length asList \<ge> 255 then (AS4Segment s, False)
      else (AS4Segment (s\<lparr>seg_AS4 := asList @ seg_AS4 s,
                          seg_Length := seg_Length s + of_nat (length asList),
                          seg_TotalLen := seg_TotalLen s + of_nat (4 * length asList)\<rparr>), True))"

fun seg_AppendAS :: "BGPASPathSegment \<Rightarrow> u32 \<Rightarrow> BGPASPathSegment \<times> bool" where
  "seg_AppendAS (AS2Segment s) as =
     (if seg_Length s \<ge> 255 then (AS2Segment s, False)
      else (AS2Segment (s\<lparr>seg_AS2 := seg_AS2 s @ [ucast as], seg_Length := seg_Length s + 1,
                          seg_TotalLen := seg_TotalLen s + 2\<rparr>), True))"
| "seg_AppendAS (AS4Segment s) as =
     (if seg_Length s \<ge> 255 then (AS4Segment s, False)
      else (AS4Segment (s\<lparr>seg_AS4 := seg_AS4 s @ [as], seg_Length := seg_Length s + 1,
                          seg_TotalLen := seg_TotalLen s + 4\<rparr>), True))"

text \<open>
  \<open>CloneAsAS2PathSegment\<close>: numbers that need four bytes become AS_TRANS; the second result says
  whether there were none. \<open>uint16(x.Length * 2)\<close> is a \<open>uint8\<close> product.
\<close>

definition CloneAsAS2PathSegment :: "BGPAS4PathSegment \<Rightarrow> BGPAS2PathSegment \<times> bool" where
  "CloneAsAS2PathSegment s =
     (let x = NewBGPAS2PathSegment (seg_Type s) in
      (x\<lparr>seg_Length := seg_Length s,
         seg_TotalLen := seg_TotalLen x + ucast (seg_Length s * 2),
         seg_AS2 := map (\<lambda>as. if as > 65535 then BGPASTrans else ucast as) (seg_AS4 s)\<rparr>,
       list_all (\<lambda>as. \<not> as > 65535) (seg_AS4 s)))"

section \<open>Iteration (\<open>aspathiter.go\<close>)\<close>

text \<open>
  An \<open>ASPathIter\<close> holds the segments and two indices. \<open>NewASPathIter\<close> returns nil when a segment is
  not a four-byte one.
\<close>

record ASPathIter =
  it_segments :: "BGPAS4PathSegment list"
  it_segmentLen :: nat
  it_segIdx :: nat
  it_asValIdx :: nat

fun as4_segments :: "BGPASPathSegment list \<Rightarrow> BGPAS4PathSegment list option" where
  "as4_segments [] = Some []"
| "as4_segments (AS4Segment s # ss) = map_option ((#) s) (as4_segments ss)"
| "as4_segments (AS2Segment s # ss) = None"

definition NewASPathIter :: "BGPASPathSegment list \<Rightarrow> ASPathIter option" where
  "NewASPathIter value =
     map_option (\<lambda>ss. \<lparr>it_segments = ss, it_segmentLen = length value, it_segIdx = 0, it_asValIdx = 0\<rparr>)
       (as4_segments value)"

text \<open>\<open>Next\<close>: the value, its segment type and the flag, and the advanced iterator.\<close>

definition ASPathIter_Next ::
  "ASPathIter \<Rightarrow> (bgp_error, (u32 \<times> u8 \<times> bool) \<times> ASPathIter) outcome" where
  "ASPathIter_Next a =
     (if it_segIdx a \<ge> it_segmentLen a then Ok ((0, 0, False), a)
      else obind (idx (it_segments a) (it_segIdx a)) (\<lambda>s.
           obind (idx (seg_AS4 s) (it_asValIdx a)) (\<lambda>val.
             let i = it_asValIdx a + 1 in
             Ok ((val, seg_Type s, True),
                 if i \<ge> length (seg_AS4 s)
                 then a\<lparr>it_segIdx := it_segIdx a + 1, it_asValIdx := 0\<rparr>
                 else a\<lparr>it_asValIdx := i\<rparr>))))"

text \<open>
  \<open>RemoveNilItemsFromList\<close>: the inner loop looks for the last item that is not nil, the outer one
  moves it into the first hole. Nil is \<open>None\<close>.
\<close>

fun last_item :: "'a option list \<Rightarrow> nat \<Rightarrow> nat \<Rightarrow> nat" where
  "last_item xs i modIdx =
     (if modIdx > i \<and> xs ! modIdx = None then last_item xs i (modIdx - 1) else modIdx)"

declare last_item.simps [simp del]

fun remove_nil_loop :: "nat \<Rightarrow> nat \<Rightarrow> nat \<Rightarrow> 'a option list \<Rightarrow> 'a option list" where
  "remove_nil_loop 0 i lastIdx xs = take i xs"
| "remove_nil_loop (Suc todo) i lastIdx xs =
     (if xs ! i = None
      then let modIdx = last_item xs i lastIdx in
        if modIdx \<le> i then take i xs
        else remove_nil_loop todo (i + 1) modIdx (xs[i := xs ! modIdx, modIdx := None])
      else remove_nil_loop todo (i + 1) lastIdx xs)"

definition RemoveNilItemsFromList :: "'a option list \<Rightarrow> 'a option list" where
  "RemoveNilItemsFromList xs = remove_nil_loop (length xs) 0 (length xs - 1) xs"

end
