(* ===== verification/BgpAttr.thy ===== *)
theory BgpAttr
  imports BgpAsPath
begin

text \<open>
  Path attributes: the attribute header and the attributes of \<open>bgp/packet/bgp.go\<close>, the
  multiprotocol attributes of \<open>mpbgp.go\<close> and the communities of \<open>community.go\<close>, with the tables that
  drive their checks. \<open>Clone\<close> is the identity on values; the peer's attributes that the code passes
  as \<open>data interface{}\<close> are always a \<open>BGPPeerAttrs\<close>.
\<close>

section \<open>Constants and tables\<close>

definition BGPAttrFlagsError :: u8 where "BGPAttrFlagsError = 4"
definition BGPUnrecognizedWellKnownAttr :: u8 where "BGPUnrecognizedWellKnownAttr = 2"
definition BGPMissingWellKnownAttr :: u8 where "BGPMissingWellKnownAttr = 3"

definition BGPPathAttrFlagExtendedLen :: u8 where "BGPPathAttrFlagExtendedLen = 0x10"
definition BGPPathAttrFlagPartial :: u8 where "BGPPathAttrFlagPartial = 0x20"
definition BGPPathAttrFlagTransitive :: u8 where "BGPPathAttrFlagTransitive = 0x40"
definition BGPPathAttrFlagOptional :: u8 where "BGPPathAttrFlagOptional = 0x80"
definition BGPPathAttrFlagAllMinusExtendedLen :: u8 where "BGPPathAttrFlagAllMinusExtendedLen = 0xE0"

lemmas pa_flag_defs = BGPPathAttrFlagExtendedLen_def BGPPathAttrFlagPartial_def
  BGPPathAttrFlagTransitive_def BGPPathAttrFlagOptional_def BGPPathAttrFlagAllMinusExtendedLen_def

definition BGPPathAttrTypeOrigin :: u8 where "BGPPathAttrTypeOrigin = 1"
definition BGPPathAttrTypeASPath :: u8 where "BGPPathAttrTypeASPath = 2"
definition BGPPathAttrTypeNextHop :: u8 where "BGPPathAttrTypeNextHop = 3"
definition BGPPathAttrTypeMultiExitDisc :: u8 where "BGPPathAttrTypeMultiExitDisc = 4"
definition BGPPathAttrTypeLocalPref :: u8 where "BGPPathAttrTypeLocalPref = 5"
definition BGPPathAttrTypeAtomicAggregate :: u8 where "BGPPathAttrTypeAtomicAggregate = 6"
definition BGPPathAttrTypeAggregator :: u8 where "BGPPathAttrTypeAggregator = 7"
definition BGPPathAttrTypeCommunity :: u8 where "BGPPathAttrTypeCommunity = 8"
definition BGPPathAttrTypeOriginatorId :: u8 where "BGPPathAttrTypeOriginatorId = 9"
definition BGPPathAttrTypeClusterList :: u8 where "BGPPathAttrTypeClusterList = 10"
definition BGPPathAttrTypeMPReachNLRI :: u8 where "BGPPathAttrTypeMPReachNLRI = 14"
definition BGPPathAttrTypeMPUnreachNLRI :: u8 where "BGPPathAttrTypeMPUnreachNLRI = 15"
definition BGPPathAttrTypeExtCommunity :: u8 where "BGPPathAttrTypeExtCommunity = 16"
definition BGPPathAttrTypeAS4Path :: u8 where "BGPPathAttrTypeAS4Path = 17"
definition BGPPathAttrTypeAS4Aggregator :: u8 where "BGPPathAttrTypeAS4Aggregator = 18"
definition BGPPathAttrTypeUnknown :: u8 where "BGPPathAttrTypeUnknown = 19"

lemmas pa_type_defs = BGPPathAttrTypeOrigin_def BGPPathAttrTypeASPath_def BGPPathAttrTypeNextHop_def
  BGPPathAttrTypeMultiExitDisc_def BGPPathAttrTypeLocalPref_def BGPPathAttrTypeAtomicAggregate_def
  BGPPathAttrTypeAggregator_def BGPPathAttrTypeCommunity_def BGPPathAttrTypeOriginatorId_def
  BGPPathAttrTypeClusterList_def BGPPathAttrTypeMPReachNLRI_def BGPPathAttrTypeMPUnreachNLRI_def
  BGPPathAttrTypeExtCommunity_def BGPPathAttrTypeAS4Path_def BGPPathAttrTypeAS4Aggregator_def
  BGPPathAttrTypeUnknown_def

definition BGPPathAttrOriginIGP :: u8 where "BGPPathAttrOriginIGP = 0"
definition BGPPathAttrOriginEGP :: u8 where "BGPPathAttrOriginEGP = 1"
definition BGPPathAttrOriginIncomplete :: u8 where "BGPPathAttrOriginIncomplete = 2"
definition BGPPathAttrOriginMax :: u8 where "BGPPathAttrOriginMax = 3"

definition BGPPathAttrOriginToStrMap :: "(u8 \<times> string) list" where
  "BGPPathAttrOriginToStrMap =
     [(BGPPathAttrOriginIGP, ''IGP''), (BGPPathAttrOriginEGP, ''EGP''),
      (BGPPathAttrOriginIncomplete, ''Incomplete''), (BGPPathAttrOriginMax, ''Unknown'')]"

definition BGPPathAttrWellKnownMandatory :: "u8 list" where
  "BGPPathAttrWellKnownMandatory =
     [BGPPathAttrTypeOrigin, BGPPathAttrTypeASPath, BGPPathAttrTypeNextHop]"

text \<open>The expected flags and the flags that are compared.\<close>

definition BGPPathAttrTypeFlagsMap :: "(u8 \<times> (u8 \<times> u8)) list" where
  "BGPPathAttrTypeFlagsMap =
     (let T = BGPPathAttrFlagTransitive; Opt = BGPPathAttrFlagOptional;
          m = BGPPathAttrFlagAllMinusExtendedLen in
     [(BGPPathAttrTypeOrigin, (T, m)), (BGPPathAttrTypeASPath, (T, m)),
      (BGPPathAttrTypeNextHop, (T, m)), (BGPPathAttrTypeMultiExitDisc, (Opt, m)),
      (BGPPathAttrTypeLocalPref, (T, m)), (BGPPathAttrTypeAtomicAggregate, (T, m)),
      (BGPPathAttrTypeAggregator, (Opt OR T, m)), (BGPPathAttrTypeOriginatorId, (Opt, m)),
      (BGPPathAttrTypeClusterList, (Opt, m)), (BGPPathAttrTypeMPReachNLRI, (Opt, m)),
      (BGPPathAttrTypeMPUnreachNLRI, (Opt, m)), (BGPPathAttrTypeAS4Path, (Opt OR T, m)),
      (BGPPathAttrTypeAS4Aggregator, (Opt OR T, m)), (BGPPathAttrTypeCommunity, (Opt OR T, m))])"

definition BGPPathAttrTypeLenMap :: "(u8 \<times> u16) list" where
  "BGPPathAttrTypeLenMap =
     [(BGPPathAttrTypeOrigin, 1), (BGPPathAttrTypeNextHop, 4), (BGPPathAttrTypeMultiExitDisc, 4),
      (BGPPathAttrTypeLocalPref, 4), (BGPPathAttrTypeAtomicAggregate, 0),
      (BGPPathAttrTypeAS4Aggregator, 8)]"

section \<open>The attribute header\<close>

text \<open>\<open>BGPPathAttrBase\<close>; \<open>pa_HdrLen\<close> is its \<open>BGPPathAttrLen\<close>, the size of the header.\<close>

record BGPPathAttrBase =
  pa_Flags :: u8
  pa_Code :: u8
  pa_Length :: u16
  pa_HdrLen :: u16

definition base_TotalLen :: "BGPPathAttrBase \<Rightarrow> u32" where
  "base_TotalLen b = ucast (pa_Length b) + ucast (pa_HdrLen b)"

definition BGPPathAttrBase_Encode :: "BGPPathAttrBase \<Rightarrow> (bgp_error, byte list) outcome" where
  "BGPPathAttrBase_Encode b =
     obind (set_idx (replicate (unat (base_TotalLen b)) 0) 0 (pa_Flags b)) (\<lambda>pkt.
     obind (set_idx pkt 1 (pa_Code b)) (\<lambda>pkt.
       if pa_Flags b AND BGPPathAttrFlagExtendedLen \<noteq> 0
       then PutUint16 pkt 2 (pa_Length b)
       else set_idx pkt 2 (ucast (pa_Length b))))"

text \<open>An error that carries the attribute, \<open>pkt[:pa.TotalLen()]\<close>.\<close>

definition attr_error :: "byte list \<Rightarrow> BGPPathAttrBase \<Rightarrow> u8 \<Rightarrow> (bgp_error, 'a) outcome" where
  "attr_error pkt b subcode =
     obind (slice pkt 0 (unat (base_TotalLen b))) (\<lambda>d.
       Error (BGPMessageError BGPUpdateMsgError subcode d))"

definition checkFlags :: "byte list \<Rightarrow> BGPPathAttrBase \<Rightarrow> (bgp_error, unit) outcome" where
  "checkFlags pkt b =
     (if pa_Flags b AND BGPPathAttrFlagOptional = 0 \<and> pa_Flags b AND BGPPathAttrFlagTransitive = 0
      then attr_error pkt b BGPAttrFlagsError
      else if pa_Flags b AND BGPPathAttrFlagPartial \<noteq> 0 \<and> pa_Flags b AND BGPPathAttrFlagOptional = 0
      then attr_error pkt b BGPAttrFlagsError
      else if pa_Flags b AND BGPPathAttrFlagPartial \<noteq> 0 \<and> pa_Flags b AND BGPPathAttrFlagOptional \<noteq> 0 \<and>
              pa_Flags b AND BGPPathAttrFlagTransitive = 0
      then attr_error pkt b BGPAttrFlagsError
      else Ok ())"

text \<open>The first part of \<open>BGPPathAttrBase.Decode\<close> reads the header, the second checks it.\<close>

definition read_attr_header :: "byte list \<Rightarrow> (bgp_error, BGPPathAttrBase) outcome" where
  "read_attr_header pkt =
     (if length pkt < 3 then Error (BGPMessageError BGPUpdateMsgError BGPMalformedAttrList [])
      else if pkt ! 0 AND BGPPathAttrFlagExtendedLen \<noteq> 0
      then if length pkt < 4 then Error (BGPMessageError BGPUpdateMsgError BGPMalformedAttrList [])
        else Ok \<lparr>pa_Flags = pkt ! 0, pa_Code = pkt ! 1, pa_Length = be16 (pkt ! 2) (pkt ! 3), pa_HdrLen = 4\<rparr>
      else Ok \<lparr>pa_Flags = pkt ! 0, pa_Code = pkt ! 1, pa_Length = ucast (pkt ! 2), pa_HdrLen = 3\<rparr>)"

definition check_attr_header :: "byte list \<Rightarrow> BGPPathAttrBase \<Rightarrow> (bgp_error, unit) outcome" where
  "check_attr_header pkt b =
     (if length pkt < unat (pa_Length b + pa_HdrLen b)
      then Error (BGPMessageError BGPUpdateMsgError BGPMalformedAttrList pkt)
      else if (case map_of BGPPathAttrTypeFlagsMap (pa_Code b) of
                 Some (want, cmp) \<Rightarrow> (want XOR pa_Flags b) AND cmp \<noteq> 0 | None \<Rightarrow> False)
      then attr_error pkt b BGPAttrFlagsError
      else obind (checkFlags pkt b) (\<lambda>_.
        if (case map_of BGPPathAttrTypeLenMap (pa_Code b) of
              Some l \<Rightarrow> l \<noteq> pa_Length b | None \<Rightarrow> False)
        then attr_error pkt b BGPAttrLenError
        else if pa_Flags b AND BGPPathAttrFlagOptional = 0 \<and> pa_Code b \<ge> BGPPathAttrTypeUnknown
        then attr_error pkt b BGPUnrecognizedWellKnownAttr
        else Ok ()))"

definition BGPPathAttrBase_Decode :: "byte list \<Rightarrow> (bgp_error, BGPPathAttrBase) outcome" where
  "BGPPathAttrBase_Decode pkt =
     obind (read_attr_header pkt) (\<lambda>b. obind (check_attr_header pkt b) (\<lambda>_. Ok b))"

section \<open>Next hops of the multiprotocol attributes (\<open>mpbgp.go\<close>)\<close>

text \<open>A nil link-local address is the empty list.\<close>

datatype MPNextHop =
    MPNextHopIP u8 ip
  | MPNextHopIP6 u8 ip ip
  | MPNextHopUnknown u8 "byte list"

fun nh_Len :: "MPNextHop \<Rightarrow> u8" where
  "nh_Len (MPNextHopIP l _) = l + 1"
| "nh_Len (MPNextHopIP6 l _ _) = l + 1"
| "nh_Len (MPNextHopUnknown l _) = l + 1"

fun nh_GetNextHop :: "MPNextHop \<Rightarrow> ip" where
  "nh_GetNextHop (MPNextHopIP _ v) = v"
| "nh_GetNextHop (MPNextHopIP6 _ v _) = v"
| "nh_GetNextHop (MPNextHopUnknown _ v) = v"

definition nh_ipLen :: "u8 \<Rightarrow> nat" where
  "nh_ipLen l = (if l = 16 \<or> l = 32 then IPv6len else IPv4len)"

text \<open>\<open>v[cap(v)-n:]\<close>.\<close>

definition suffix_of :: "nat \<Rightarrow> 'a list \<Rightarrow> ('e, 'a list) outcome" where
  "suffix_of n v = (if n \<le> length v then Ok (drop (length v - n) v) else Panic)"

text \<open>\<open>Encode(pkt[off:])\<close>.\<close>

definition MPNextHopIP_Encode ::
  "byte list \<Rightarrow> nat \<Rightarrow> u8 \<Rightarrow> ip \<Rightarrow> (bgp_error, byte list) outcome" where
  "MPNextHopIP_Encode pkt off l v =
     obind (set_idx pkt off l) (\<lambda>pkt.
       if l \<noteq> 4 \<and> l \<noteq> 16 \<and> l \<noteq> 32 then Error plainError
       else obind (suffix_of (nh_ipLen l) v) (\<lambda>bs. copy_at pkt (off + 1) bs))"

fun nh_Encode :: "byte list \<Rightarrow> nat \<Rightarrow> MPNextHop \<Rightarrow> (bgp_error, byte list) outcome" where
  "nh_Encode pkt off (MPNextHopIP l v) = MPNextHopIP_Encode pkt off l v"
| "nh_Encode pkt off (MPNextHopIP6 l v ll) =
     obind (MPNextHopIP_Encode pkt off l v) (\<lambda>pkt.
       if ll = [] then Ok pkt
       else obind (suffix_of IPv6len ll) (\<lambda>bs. copy_at pkt (off + IPv6len + 1) bs))"
| "nh_Encode pkt off (MPNextHopUnknown l v) =
     obind (set_idx pkt off l) (\<lambda>pkt. copy_at pkt (off + 1) v)"

text \<open>
  A decoder returns the receiver after the call and the error, if any: the one caller ignores the
  error and goes on with the receiver.
\<close>

definition MPNextHopIP_Decode :: "byte list \<Rightarrow> (bgp_error, MPNextHop \<times> bgp_error option) outcome" where
  "MPNextHopIP_Decode pkt =
     obind (idx pkt 0) (\<lambda>l.
       if l \<noteq> 4 \<and> l \<noteq> 16 \<and> l \<noteq> 32 then Ok (MPNextHopIP l [], Some plainError)
       else if nh_ipLen l = 4
       then obind (idx pkt 1) (\<lambda>a. obind (idx pkt 2) (\<lambda>b. obind (idx pkt 3) (\<lambda>c. obind (idx pkt 4) (\<lambda>d.
              Ok (MPNextHopIP l (v4InV6Prefix @ [a, b, c, d]), None)))))
       else obind (copy_at (replicate (nh_ipLen l) 0) 0 (drop 1 pkt)) (\<lambda>v. Ok (MPNextHopIP l v, None)))"

definition MPNextHopIP6_Decode :: "byte list \<Rightarrow> (bgp_error, MPNextHop \<times> bgp_error option) outcome" where
  "MPNextHopIP6_Decode pkt =
     obind (MPNextHopIP_Decode pkt) (\<lambda>(nh, err).
       let l = pkt ! 0 in
       if err \<noteq> None then Ok (MPNextHopIP6 l (nh_GetNextHop nh) [], err)
       else if l = 32
       then obind (slice_from pkt (IPv6len + 1)) (\<lambda>p.
            obind (copy_at (replicate IPv6len 0) 0 p) (\<lambda>ll.
              Ok (MPNextHopIP6 l (nh_GetNextHop nh) ll, None)))
       else Ok (MPNextHopIP6 l (nh_GetNextHop nh) [], None))"

definition MPNextHopUnknown_Decode :: "byte list \<Rightarrow> (bgp_error, MPNextHop \<times> bgp_error option) outcome" where
  "MPNextHopUnknown_Decode pkt =
     obind (idx pkt 0) (\<lambda>l.
     obind (copy_at (replicate (unat l) 0) 0 (drop 1 pkt)) (\<lambda>v. Ok (MPNextHopUnknown l v, None)))"

text \<open>
  \<open>BGPGetMPNextHop\<close> and the receiver's \<open>Decode\<close>. Both entries of \<open>BGPAFIToStructMap\<close> make an
  \<open>MPNextHopIP\<close>: so does \<open>MPNextHopIP6.New\<close>.
\<close>

definition BGPGetMPNextHop_Decode ::
  "u16 \<Rightarrow> byte list \<Rightarrow> (bgp_error, MPNextHop \<times> bgp_error option) outcome" where
  "BGPGetMPNextHop_Decode afi pkt =
     (if afi = AfiIP \<or> afi = AfiIP6 then MPNextHopIP_Decode pkt else MPNextHopUnknown_Decode pkt)"

definition NewMPNextHopIP :: MPNextHop where "NewMPNextHopIP = MPNextHopIP 0 []"
definition NewMPNextHopIP6 :: MPNextHop where "NewMPNextHopIP6 = MPNextHopIP6 0 [] []"

fun nh_SetNextHop :: "MPNextHop \<Rightarrow> ip \<Rightarrow> (bgp_error, MPNextHop) outcome" where
  "nh_SetNextHop (MPNextHopIP l v) ip =
     (if length ip \<noteq> 4 \<and> length ip \<noteq> 16 then Error plainError
      else if To4 ip = [] \<and> To16 ip = [] then Error plainError
      else Ok (MPNextHopIP (if To4 ip \<noteq> [] then 4 else 16) ip))"
| "nh_SetNextHop (MPNextHopUnknown l v) bs =
     obind (copy_at (replicate (unat (of_nat (length bs) :: u8)) 0) 0 bs) (\<lambda>v'.
       Ok (MPNextHopUnknown (of_nat (length bs)) v'))"
| "nh_SetNextHop (MPNextHopIP6 l v ll) ip =
     (if length ip \<noteq> 4 \<and> length ip \<noteq> 16 then Error plainError
      else if To4 ip = [] \<and> To16 ip = [] then Error plainError
      else Ok (MPNextHopIP6 (if To4 ip \<noteq> [] then 4 else 16) ip ll))"

fun SetGlobalNextHop :: "MPNextHop \<Rightarrow> ip \<Rightarrow> (bgp_error, MPNextHop) outcome" where
  "SetGlobalNextHop (MPNextHopIP6 l v ll) ip =
     (if length ip \<noteq> 16 then Error plainError
      else Ok (MPNextHopIP6 (if ll \<noteq> [] then of_nat (length ip) * 2 else of_nat (length ip)) ip ll))"
| "SetGlobalNextHop nh ip = Ok nh"

fun SetLinkLocalNextHop :: "MPNextHop \<Rightarrow> ip \<Rightarrow> (bgp_error, MPNextHop) outcome" where
  "SetLinkLocalNextHop (MPNextHopIP6 l v ll) ip =
     (if length ip \<noteq> 16 then Error plainError
      else Ok (MPNextHopIP6 (if ip \<noteq> [] then of_nat (length ip) * 2 else of_nat (length ip)) v ip))"
| "SetLinkLocalNextHop nh ip = Ok nh"

end
