(* ===== verification/BgpAttrs.thy ===== *)
theory BgpAttrs
  imports BgpAttr
begin

text \<open>
  The implementations of the \<open>BGPPathAttr\<close> interface (\<open>bgp.go\<close>, \<open>mpbgp.go\<close>, \<open>community.go\<close>), their
  encoders, decoders and the operations that keep their length fields.
\<close>

section \<open>Attributes\<close>

datatype BGPAggregatorAS = BGPAggregator2ByteAS u16 | BGPAggregator4ByteAS u32

fun agg_GetLen :: "BGPAggregatorAS \<Rightarrow> u16" where
  "agg_GetLen (BGPAggregator2ByteAS _) = 2"
| "agg_GetLen (BGPAggregator4ByteAS _) = 4"

fun agg_GetAS :: "BGPAggregatorAS \<Rightarrow> u32" where
  "agg_GetAS (BGPAggregator2ByteAS as) = ucast as"
| "agg_GetAS (BGPAggregator4ByteAS as) = as"

fun agg_Encode :: "byte list \<Rightarrow> nat \<Rightarrow> BGPAggregatorAS \<Rightarrow> (bgp_error, byte list) outcome" where
  "agg_Encode pkt off (BGPAggregator2ByteAS as) = PutUint16 pkt off as"
| "agg_Encode pkt off (BGPAggregator4ByteAS as) = PutUint32 pkt off as"

text \<open>
  The segments of \<open>AS4Path\<close> are all four-byte ones. The aggregator of a fresh \<open>Aggregator\<close> and the
  next hop of a fresh \<open>MPReachNLRI\<close> are nil.
\<close>

datatype BGPPathAttr =
    BGPPathAttrOrigin BGPPathAttrBase u8
  | BGPPathAttrASPath BGPPathAttrBase "BGPASPathSegment list" u8
  | BGPPathAttrNextHop BGPPathAttrBase ip
  | BGPPathAttrMultiExitDisc BGPPathAttrBase u32
  | BGPPathAttrLocalPref BGPPathAttrBase u32
  | BGPPathAttrAtomicAggregate BGPPathAttrBase
  | BGPPathAttrAggregator BGPPathAttrBase "BGPAggregatorAS option" ip
  | BGPPathAttrOriginatorId BGPPathAttrBase ip
  | BGPPathAttrClusterList BGPPathAttrBase "u32 list"
  | BGPPathAttrMPReachNLRI BGPPathAttrBase u16 u8 "MPNextHop option" byte "NLRI list"
  | BGPPathAttrMPUnreachNLRI BGPPathAttrBase u16 u8 "NLRI list"
  | BGPPathAttrAS4Path BGPPathAttrBase "BGPAS4PathSegment list"
  | BGPPathAttrAS4Aggregator BGPPathAttrBase u32 ip
  | BGPPathAttrCommunity BGPPathAttrBase "u32 list"
  | BGPPathAttrExtCommunity BGPPathAttrBase "64 word list"
  | BGPPathAttrUnknown BGPPathAttrBase "byte list"

fun pa_base :: "BGPPathAttr \<Rightarrow> BGPPathAttrBase" where
  "pa_base (BGPPathAttrOrigin b _) = b"
| "pa_base (BGPPathAttrASPath b _ _) = b"
| "pa_base (BGPPathAttrNextHop b _) = b"
| "pa_base (BGPPathAttrMultiExitDisc b _) = b"
| "pa_base (BGPPathAttrLocalPref b _) = b"
| "pa_base (BGPPathAttrAtomicAggregate b) = b"
| "pa_base (BGPPathAttrAggregator b _ _) = b"
| "pa_base (BGPPathAttrOriginatorId b _) = b"
| "pa_base (BGPPathAttrClusterList b _) = b"
| "pa_base (BGPPathAttrMPReachNLRI b _ _ _ _ _) = b"
| "pa_base (BGPPathAttrMPUnreachNLRI b _ _ _) = b"
| "pa_base (BGPPathAttrAS4Path b _) = b"
| "pa_base (BGPPathAttrAS4Aggregator b _ _) = b"
| "pa_base (BGPPathAttrCommunity b _) = b"
| "pa_base (BGPPathAttrExtCommunity b _) = b"
| "pa_base (BGPPathAttrUnknown b _) = b"

definition pa_GetCode :: "BGPPathAttr \<Rightarrow> u8" where
  "pa_GetCode a = pa_Code (pa_base a)"

definition pa_TotalLen :: "BGPPathAttr \<Rightarrow> u32" where
  "pa_TotalLen a = base_TotalLen (pa_base a)"

section \<open>Encoding\<close>

text \<open>The segment loop advances by what each segment says it is long, in \<open>uint16\<close>.\<close>

fun segs_Encode :: "byte list \<Rightarrow> u16 \<Rightarrow> BGPASPathSegment list \<Rightarrow> (bgp_error, byte list) outcome" where
  "segs_Encode pkt off [] = Ok pkt"
| "segs_Encode pkt off (s # ss) =
     obind (seg_Encode pkt (unat off) s) (\<lambda>pkt. segs_Encode pkt (off + seg_size s) ss)"

text \<open>\<open>PutUint32(pkt[off+4*i:], c.Value[i])\<close> with \<open>off+4*i\<close> in \<open>uint16\<close>.\<close>

fun put32s :: "byte list \<Rightarrow> u16 \<Rightarrow> u32 list \<Rightarrow> (bgp_error, byte list) outcome" where
  "put32s pkt off [] = Ok pkt"
| "put32s pkt off (v # vs) = obind (PutUint32 pkt (unat off) v) (\<lambda>pkt. put32s pkt (off + 4) vs)"

text \<open>The loops of \<open>community.go\<close> use an \<open>int\<close> index; \<open>put64\<close> is \<open>binary.BigEndian.PutUint64\<close>.\<close>

definition put64 :: "64 word \<Rightarrow> byte list" where
  "put64 w = put32 (ucast (drop_bit 32 w)) @ put32 (ucast w)"

fun put_words :: "byte list \<Rightarrow> nat \<Rightarrow> byte list list \<Rightarrow> (bgp_error, byte list) outcome" where
  "put_words pkt off [] = Ok pkt"
| "put_words pkt off (w # ws) =
     obind (write_at pkt off w) (\<lambda>pkt. put_words pkt (off + length w) ws)"

text \<open>\<open>copy(pkt[idx:], bytes); idx += len(bytes)\<close>, for every prefix.\<close>

fun copy_each :: "byte list \<Rightarrow> nat \<Rightarrow> byte list list \<Rightarrow> (bgp_error, byte list) outcome" where
  "copy_each pkt off [] = Ok pkt"
| "copy_each pkt off (bs # bss) =
     obind (copy_at pkt off bs) (\<lambda>pkt. copy_each pkt (off + length bs) bss)"

text \<open>One encoder for each struct.\<close>

definition Origin_Encode :: "BGPPathAttrBase \<Rightarrow> u8 \<Rightarrow> (bgp_error, byte list) outcome" where
  "Origin_Encode b v =
     obind (BGPPathAttrBase_Encode b) (\<lambda>pkt. set_idx pkt (unat (pa_HdrLen b)) v)"

definition ASPath_Encode :: "BGPPathAttrBase \<Rightarrow> BGPASPathSegment list \<Rightarrow> (bgp_error, byte list) outcome" where
  "ASPath_Encode b segs =
     obind (BGPPathAttrBase_Encode b) (\<lambda>pkt. segs_Encode pkt (pa_HdrLen b) segs)"

definition NextHop_Encode :: "BGPPathAttrBase \<Rightarrow> ip \<Rightarrow> (bgp_error, byte list) outcome" where
  "NextHop_Encode b v =
     obind (BGPPathAttrBase_Encode b) (\<lambda>pkt.
     obind (suffix_of (unat (pa_Length b)) v) (\<lambda>bs. copy_at pkt (unat (pa_HdrLen b)) bs))"

definition MultiExitDisc_Encode :: "BGPPathAttrBase \<Rightarrow> u32 \<Rightarrow> (bgp_error, byte list) outcome" where
  "MultiExitDisc_Encode b v =
     obind (BGPPathAttrBase_Encode b) (\<lambda>pkt. PutUint32 pkt (unat (pa_HdrLen b)) v)"

definition LocalPref_Encode :: "BGPPathAttrBase \<Rightarrow> u32 \<Rightarrow> (bgp_error, byte list) outcome" where
  "LocalPref_Encode b v =
     obind (BGPPathAttrBase_Encode b) (\<lambda>pkt. PutUint32 pkt (unat (pa_HdrLen b)) v)"

definition Aggregator_Encode :: "BGPPathAttrBase \<Rightarrow> BGPAggregatorAS option \<Rightarrow> ip \<Rightarrow> (bgp_error, byte list) outcome" where
  "Aggregator_Encode b as ip =
     obind (BGPPathAttrBase_Encode b) (\<lambda>pkt.
       case as of None \<Rightarrow> Panic
       | Some a \<Rightarrow>
         obind (agg_Encode pkt (unat (pa_HdrLen b)) a) (\<lambda>pkt.
           copy_at pkt (unat (pa_HdrLen b + agg_GetLen a)) ip))"

definition OriginatorId_Encode :: "BGPPathAttrBase \<Rightarrow> ip \<Rightarrow> (bgp_error, byte list) outcome" where
  "OriginatorId_Encode b v =
     obind (BGPPathAttrBase_Encode b) (\<lambda>pkt. copy_at pkt (unat (pa_HdrLen b)) v)"

definition ClusterList_Encode :: "BGPPathAttrBase \<Rightarrow> u32 list \<Rightarrow> (bgp_error, byte list) outcome" where
  "ClusterList_Encode b vs =
     obind (BGPPathAttrBase_Encode b) (\<lambda>pkt.
       put32s pkt (pa_HdrLen b) (take (unat (of_nat (length vs) :: u16)) vs))"

definition MPReachNLRI_Encode :: "BGPPathAttrBase \<Rightarrow> u16 \<Rightarrow> u8 \<Rightarrow> MPNextHop option \<Rightarrow> NLRI list \<Rightarrow> (bgp_error, byte list) outcome" where
  "MPReachNLRI_Encode b afi safi nh ns =
     obind (BGPPathAttrBase_Encode b) (\<lambda>pkt.
     obind (PutUint16 pkt (unat (pa_HdrLen b)) afi) (\<lambda>pkt.
     obind (set_idx pkt (unat (pa_HdrLen b) + 2) safi) (\<lambda>pkt.
       case nh of None \<Rightarrow> Panic
       | Some h \<Rightarrow>
         obind (nh_Encode pkt (unat (pa_HdrLen b) + 3) h) (\<lambda>pkt.
         obind (set_idx pkt (unat (pa_HdrLen b) + 3 + unat (nh_Len h)) 0) (\<lambda>pkt.
         obind (omap (\<lambda>n. NLRI_Encode n afi) ns) (\<lambda>bss.
           copy_each pkt (unat (pa_HdrLen b) + 4 + unat (nh_Len h)) bss))))))"

definition MPUnreachNLRI_Encode :: "BGPPathAttrBase \<Rightarrow> u16 \<Rightarrow> u8 \<Rightarrow> NLRI list \<Rightarrow> (bgp_error, byte list) outcome" where
  "MPUnreachNLRI_Encode b afi safi ns =
     obind (BGPPathAttrBase_Encode b) (\<lambda>pkt.
     obind (PutUint16 pkt (unat (pa_HdrLen b)) afi) (\<lambda>pkt.
     obind (set_idx pkt (unat (pa_HdrLen b) + 2) safi) (\<lambda>pkt.
     obind (omap (\<lambda>n. NLRI_Encode n afi) ns) (\<lambda>bss.
       copy_each pkt (unat (pa_HdrLen b) + 3) bss))))"

definition AS4Path_Encode :: "BGPPathAttrBase \<Rightarrow> BGPAS4PathSegment list \<Rightarrow> (bgp_error, byte list) outcome" where
  "AS4Path_Encode b segs =
     obind (BGPPathAttrBase_Encode b) (\<lambda>pkt. segs_Encode pkt (pa_HdrLen b) (map AS4Segment segs))"

definition AS4Aggregator_Encode :: "BGPPathAttrBase \<Rightarrow> u32 \<Rightarrow> ip \<Rightarrow> (bgp_error, byte list) outcome" where
  "AS4Aggregator_Encode b as ip =
     obind (BGPPathAttrBase_Encode b) (\<lambda>pkt.
     obind (PutUint32 pkt (unat (pa_HdrLen b)) as) (\<lambda>pkt.
       copy_at pkt (unat (pa_HdrLen b + 4)) ip))"

definition Community_Encode :: "BGPPathAttrBase \<Rightarrow> u32 list \<Rightarrow> (bgp_error, byte list) outcome" where
  "Community_Encode b vs =
     obind (BGPPathAttrBase_Encode b) (\<lambda>pkt. put_words pkt (unat (pa_HdrLen b)) (map put32 vs))"

definition ExtCommunity_Encode :: "BGPPathAttrBase \<Rightarrow> 64 word list \<Rightarrow> (bgp_error, byte list) outcome" where
  "ExtCommunity_Encode b vs =
     obind (BGPPathAttrBase_Encode b) (\<lambda>pkt. put_words pkt (unat (pa_HdrLen b)) (map put64 vs))"

definition Unknown_Encode :: "BGPPathAttrBase \<Rightarrow> byte list \<Rightarrow> (bgp_error, byte list) outcome" where
  "Unknown_Encode b v =
     obind (BGPPathAttrBase_Encode b) (\<lambda>pkt. copy_at pkt (unat (pa_HdrLen b)) v)"

lemmas pa_Encode_defs [simp] =
  Origin_Encode_def ASPath_Encode_def NextHop_Encode_def MultiExitDisc_Encode_def LocalPref_Encode_def Aggregator_Encode_def OriginatorId_Encode_def ClusterList_Encode_def MPReachNLRI_Encode_def MPUnreachNLRI_Encode_def AS4Path_Encode_def AS4Aggregator_Encode_def Community_Encode_def ExtCommunity_Encode_def Unknown_Encode_def

fun pa_Encode :: "BGPPathAttr \<Rightarrow> (bgp_error, byte list) outcome" where
  "pa_Encode (BGPPathAttrOrigin b v) = Origin_Encode b v"
| "pa_Encode (BGPPathAttrASPath b segs sz) = ASPath_Encode b segs"
| "pa_Encode (BGPPathAttrNextHop b v) = NextHop_Encode b v"
| "pa_Encode (BGPPathAttrMultiExitDisc b v) = MultiExitDisc_Encode b v"
| "pa_Encode (BGPPathAttrLocalPref b v) = LocalPref_Encode b v"
| "pa_Encode (BGPPathAttrAtomicAggregate b) = BGPPathAttrBase_Encode b"
| "pa_Encode (BGPPathAttrAggregator b as ip) = Aggregator_Encode b as ip"
| "pa_Encode (BGPPathAttrOriginatorId b v) = OriginatorId_Encode b v"
| "pa_Encode (BGPPathAttrClusterList b vs) = ClusterList_Encode b vs"
| "pa_Encode (BGPPathAttrMPReachNLRI b afi safi nh r ns) = MPReachNLRI_Encode b afi safi nh ns"
| "pa_Encode (BGPPathAttrMPUnreachNLRI b afi safi ns) = MPUnreachNLRI_Encode b afi safi ns"
| "pa_Encode (BGPPathAttrAS4Path b segs) = AS4Path_Encode b segs"
| "pa_Encode (BGPPathAttrAS4Aggregator b as ip) = AS4Aggregator_Encode b as ip"
| "pa_Encode (BGPPathAttrCommunity b vs) = Community_Encode b vs"
| "pa_Encode (BGPPathAttrExtCommunity b vs) = ExtCommunity_Encode b vs"
| "pa_Encode (BGPPathAttrUnknown b v) = Unknown_Encode b v"

section \<open>Decoding\<close>

text \<open>\<open>pkt[pa.BGPPathAttrLen : pa.BGPPathAttrLen+n]\<close>, the bound computed in \<open>uint16\<close>.\<close>

definition attr_value :: "byte list \<Rightarrow> BGPPathAttrBase \<Rightarrow> u16 \<Rightarrow> (bgp_error, byte list) outcome" where
  "attr_value pkt b n = slice pkt (unat (pa_HdrLen b)) (unat (pa_HdrLen b + n))"

definition attr_rest :: "byte list \<Rightarrow> u16 \<Rightarrow> (bgp_error, byte list) outcome" where
  "attr_rest pkt off = slice_from pkt (unat off)"

definition Origin_Decode :: "byte list \<Rightarrow> (bgp_error, BGPPathAttr) outcome" where
  "Origin_Decode pkt =
     obind (BGPPathAttrBase_Decode pkt) (\<lambda>b.
     obind (idx pkt (unat (pa_HdrLen b))) (\<lambda>v.
       if v \<ge> BGPPathAttrOriginMax then attr_error pkt b BGPMalformedAttrList
       else Ok (BGPPathAttrOrigin b v)))"

text \<open>
  The loop of the AS paths: an error of a segment ends it with success (\<open>return nil\<close>), and it
  advances by the length the segment computed for itself.
\<close>

partial_function (option) as_path_loop ::
  "(byte list \<Rightarrow> (bgp_error, 's) outcome) \<Rightarrow> ('s \<Rightarrow> u16) \<Rightarrow> byte list \<Rightarrow> nat \<Rightarrow> nat \<Rightarrow> 's list \<Rightarrow>
   (bgp_error, 's list) outcome option" where
  "as_path_loop dec seglen pkt stop ptr acc =
     (if ptr < stop
      then rbind (Some (slice_from pkt ptr)) (\<lambda>p.
        case dec p of
          Error e \<Rightarrow> Some (Ok acc)
        | Panic \<Rightarrow> Some Panic
        | Ok s \<Rightarrow>
          if (ptr + unat (seglen s)) mod 4294967296 > stop
          then Some (Error (BGPMessageError BGPUpdateMsgError BGPAttrLenError pkt))
          else as_path_loop dec seglen pkt stop ((ptr + unat (seglen s)) mod 4294967296) (acc @ [s]))
      else if ptr \<noteq> stop
      then Some (Error (BGPMessageError BGPUpdateMsgError BGPAttrLenError pkt))
      else Some (Ok acc))"

text \<open>The segment an AS path decodes: four-byte numbers when the peer's are, two-byte otherwise.\<close>

definition segment_Decode :: "u8 \<Rightarrow> byte list \<Rightarrow> (bgp_error, BGPASPathSegment) outcome" where
  "segment_Decode asSize p =
     (if asSize = 4 then obind (BGPAS4PathSegment_Decode p) (\<lambda>s. Ok (AS4Segment s))
      else obind (BGPAS2PathSegment_Decode p) (\<lambda>s. Ok (AS2Segment s)))"

definition ASPath_Decode :: "byte list \<Rightarrow> BGPPeerAttrs \<Rightarrow> (bgp_error, BGPPathAttr) outcome option" where
  "ASPath_Decode pkt peer =
     rbind (Some (BGPPathAttrBase_Decode pkt)) (\<lambda>b.
     rbind (as_path_loop (segment_Decode (peer_ASSize peer)) seg_size pkt
              (unat (base_TotalLen b)) (unat (pa_HdrLen b)) []) (\<lambda>segs.
       Some (Ok (BGPPathAttrASPath b segs (peer_ASSize peer)))))"

definition AS4Path_Decode :: "byte list \<Rightarrow> (bgp_error, BGPPathAttr) outcome option" where
  "AS4Path_Decode pkt =
     rbind (Some (BGPPathAttrBase_Decode pkt)) (\<lambda>b.
     rbind (as_path_loop BGPAS4PathSegment_Decode seg_TotalLen pkt
              (unat (base_TotalLen b)) (unat (pa_HdrLen b)) []) (\<lambda>segs.
       Some (Ok (BGPPathAttrAS4Path b segs))))"

text \<open>\<open>x = make([]byte, n); copy(x, src)\<close>.\<close>

definition copy_new :: "nat \<Rightarrow> byte list \<Rightarrow> (bgp_error, byte list) outcome" where
  "copy_new n src = copy_at (replicate n 0) 0 src"

definition NextHop_Decode :: "byte list \<Rightarrow> (bgp_error, BGPPathAttr) outcome" where
  "NextHop_Decode pkt =
     obind (BGPPathAttrBase_Decode pkt) (\<lambda>b.
     obind (attr_value pkt b (pa_Length b)) (\<lambda>v.
     obind (copy_new (unat (pa_Length b)) v) (\<lambda>v. Ok (BGPPathAttrNextHop b v))))"

definition MultiExitDisc_Decode :: "byte list \<Rightarrow> (bgp_error, BGPPathAttr) outcome" where
  "MultiExitDisc_Decode pkt =
     obind (BGPPathAttrBase_Decode pkt) (\<lambda>b.
     obind (attr_value pkt b (pa_Length b)) (\<lambda>v.
     obind (Uint32 v) (\<lambda>v. Ok (BGPPathAttrMultiExitDisc b v))))"

definition LocalPref_Decode :: "byte list \<Rightarrow> (bgp_error, BGPPathAttr) outcome" where
  "LocalPref_Decode pkt =
     obind (BGPPathAttrBase_Decode pkt) (\<lambda>b.
     obind (attr_value pkt b (pa_Length b)) (\<lambda>v.
     obind (Uint32 v) (\<lambda>v. Ok (BGPPathAttrLocalPref b v))))"

definition Aggregator_Decode :: "byte list \<Rightarrow> BGPPeerAttrs \<Rightarrow> (bgp_error, BGPPathAttr) outcome" where
  "Aggregator_Decode pkt peer =
     obind (BGPPathAttrBase_Decode pkt) (\<lambda>b.
       if pa_Length b < ucast (peer_ASSize peer + 4) then attr_error pkt b BGPAttrLenError
       else obind (attr_rest pkt (pa_HdrLen b)) (\<lambda>p.
       obind (if peer_ASSize peer = 2
              then if length p < 2 then Error (BGPMessageError BGPUpdateMsgError BGPAttrLenError [])
                   else obind (Uint16 p) (\<lambda>as. Ok (BGPAggregator2ByteAS as))
              else obind (Uint32 p) (\<lambda>as. Ok (BGPAggregator4ByteAS as))) (\<lambda>agg.
       obind (attr_rest pkt (pa_HdrLen b + agg_GetLen agg)) (\<lambda>p.
       obind (copy_new 4 p) (\<lambda>ip. Ok (BGPPathAttrAggregator b (Some agg) ip))))))"

definition AS4Aggregator_Decode :: "byte list \<Rightarrow> (bgp_error, BGPPathAttr) outcome" where
  "AS4Aggregator_Decode pkt =
     obind (BGPPathAttrBase_Decode pkt) (\<lambda>b.
     obind (attr_rest pkt (pa_HdrLen b)) (\<lambda>p.
     obind (Uint32 p) (\<lambda>as.
     obind (attr_rest pkt (pa_HdrLen b + 4)) (\<lambda>p.
     obind (copy_new 4 p) (\<lambda>ip. Ok (BGPPathAttrAS4Aggregator b as ip))))))"

definition OriginatorId_Decode :: "byte list \<Rightarrow> (bgp_error, BGPPathAttr) outcome" where
  "OriginatorId_Decode pkt =
     obind (BGPPathAttrBase_Decode pkt) (\<lambda>b.
     obind (attr_value pkt b (pa_Length b)) (\<lambda>v.
     obind (copy_new (unat (pa_Length b)) v) (\<lambda>v. Ok (BGPPathAttrOriginatorId b v))))"

definition ClusterList_Decode :: "byte list \<Rightarrow> (bgp_error, BGPPathAttr) outcome" where
  "ClusterList_Decode pkt =
     obind (BGPPathAttrBase_Decode pkt) (\<lambda>b.
     obind (omap (\<lambda>i. obind (slice pkt (unat (pa_HdrLen b + 4 * of_nat i))
                                        (unat (pa_HdrLen b + 4 * of_nat i + 4))) Uint32)
              [0..<unat (pa_Length b div 4)]) (\<lambda>vs. Ok (BGPPathAttrClusterList b vs)))"

definition Unknown_Decode :: "byte list \<Rightarrow> (bgp_error, BGPPathAttr) outcome" where
  "Unknown_Decode pkt =
     obind (BGPPathAttrBase_Decode pkt) (\<lambda>b.
     obind (attr_value pkt b (pa_Length b)) (\<lambda>v.
     obind (copy_new (unat (pa_Length b)) v) (\<lambda>v. Ok (BGPPathAttrUnknown b v))))"

definition MPReachNLRI_Decode ::
  "byte list \<Rightarrow> BGPPeerAttrs \<Rightarrow> (bgp_error, BGPPathAttr) outcome option" where
  "MPReachNLRI_Decode pkt peer =
     rbind (Some (BGPPathAttrBase_Decode pkt)) (\<lambda>b.
       let i = unat (pa_HdrLen b) in
     rbind (Some (obind (slice pkt i (i + 2)) Uint16)) (\<lambda>afi.
     rbind (Some (idx pkt (i + 2))) (\<lambda>safi.
     rbind (Some (obind (slice_from pkt (i + 3)) (BGPGetMPNextHop_Decode afi))) (\<lambda>(nh, err).
     rbind (Some (idx pkt (i + 3 + unat (nh_Len nh)))) (\<lambda>reserved.
     rbind (Some (slice_from pkt (i + 4 + unat (nh_Len nh)))) (\<lambda>p.
     rbind (decodeNLRI p (ucast (pa_Length b) - 4 - ucast (nh_Len nh)) afi peer) (\<lambda>(ns, e).
       Some (Ok (BGPPathAttrMPReachNLRI b afi safi (Some nh) reserved ns)))))))))"

definition MPUnreachNLRI_Decode ::
  "byte list \<Rightarrow> BGPPeerAttrs \<Rightarrow> (bgp_error, BGPPathAttr) outcome option" where
  "MPUnreachNLRI_Decode pkt peer =
     rbind (Some (BGPPathAttrBase_Decode pkt)) (\<lambda>b.
       let i = unat (pa_HdrLen b) in
     rbind (Some (obind (slice pkt i (i + 2)) Uint16)) (\<lambda>afi.
     rbind (Some (idx pkt (i + 2))) (\<lambda>safi.
     rbind (Some (slice_from pkt (i + 3))) (\<lambda>p.
     rbind (decodeNLRI p (ucast (pa_Length b) - 3) afi peer) (\<lambda>(ns, e).
       Some (Ok (BGPPathAttrMPUnreachNLRI b afi safi ns)))))))"

text \<open>The decoders of \<open>community.go\<close>, which \<open>BGPGetPathAttr\<close> does not select.\<close>

fun Uint64 :: "byte list \<Rightarrow> (bgp_error, 64 word) outcome" where
  "Uint64 (a # b # c # d # e # f # g # h # _) =
     Ok (push_bit 32 (ucast (be32 a b c d)) OR ucast (be32 e f g h))"
| "Uint64 _ = Panic"

definition Community_Decode :: "byte list \<Rightarrow> (bgp_error, BGPPathAttr) outcome" where
  "Community_Decode pkt =
     obind (BGPPathAttrBase_Decode pkt) (\<lambda>b.
       if pa_Length b mod 4 \<noteq> 0 then attr_error pkt b BGPAttrLenError
       else obind (omap (\<lambda>i. obind (slice_from pkt (i * 4 + unat (pa_HdrLen b))) Uint32)
                     [0..<unat (pa_Length b div 4)]) (\<lambda>vs. Ok (BGPPathAttrCommunity b vs)))"

definition ExtCommunity_Decode :: "byte list \<Rightarrow> (bgp_error, BGPPathAttr) outcome" where
  "ExtCommunity_Decode pkt =
     obind (BGPPathAttrBase_Decode pkt) (\<lambda>b.
       if pa_Length b mod 8 \<noteq> 0 then attr_error pkt b BGPAttrLenError
       else obind (omap (\<lambda>i. obind (slice_from pkt (i * 8 + unat (pa_HdrLen b))) Uint64)
                     [0..<unat (pa_Length b div 8)]) (\<lambda>vs. Ok (BGPPathAttrExtCommunity b vs)))"

text \<open>
  \<open>BGPGetPathAttr\<close> picks the receiver by the second byte, from a table without the communities;
  the receiver then decodes.
\<close>

definition pa_Decode :: "byte list \<Rightarrow> BGPPeerAttrs \<Rightarrow> (bgp_error, BGPPathAttr) outcome option" where
  "pa_Decode pkt peer =
     rbind (Some (idx pkt 1)) (\<lambda>t.
       if t = BGPPathAttrTypeOrigin then Some (Origin_Decode pkt)
       else if t = BGPPathAttrTypeASPath then ASPath_Decode pkt peer
       else if t = BGPPathAttrTypeNextHop then Some (NextHop_Decode pkt)
       else if t = BGPPathAttrTypeMultiExitDisc then Some (MultiExitDisc_Decode pkt)
       else if t = BGPPathAttrTypeLocalPref then Some (LocalPref_Decode pkt)
       else if t = BGPPathAttrTypeAtomicAggregate
       then Some (obind (BGPPathAttrBase_Decode pkt) (\<lambda>b. Ok (BGPPathAttrAtomicAggregate b)))
       else if t = BGPPathAttrTypeAggregator then Some (Aggregator_Decode pkt peer)
       else if t = BGPPathAttrTypeOriginatorId then Some (OriginatorId_Decode pkt)
       else if t = BGPPathAttrTypeClusterList then Some (ClusterList_Decode pkt)
       else if t = BGPPathAttrTypeMPReachNLRI then MPReachNLRI_Decode pkt peer
       else if t = BGPPathAttrTypeMPUnreachNLRI then MPUnreachNLRI_Decode pkt peer
       else if t = BGPPathAttrTypeAS4Path then AS4Path_Decode pkt
       else if t = BGPPathAttrTypeAS4Aggregator then Some (AS4Aggregator_Decode pkt)
       else Some (Unknown_Decode pkt))"

end
