(* ===== verification/BgpHelpers.thy ===== *)
theory BgpHelpers
  imports BgpAttrs
begin

text \<open>
  Operations on single attributes and on attribute lists: the constructors and setters of
  \<open>bgp.go\<close>, \<open>mpbgp.go\<close> and \<open>community.go\<close>, and the list functions of \<open>helpers.go\<close>. The code keeps
  pointers in its lists and updates what they point to; here the updated list is returned. Functions
  that take a message and only read or replace \<open>Body.PathAttributes\<close> work on that list.
  A type assertion that does not hold is a panic.
\<close>

section \<open>Constructors\<close>

definition mk_base :: "u8 \<Rightarrow> u8 \<Rightarrow> u16 \<Rightarrow> u16 \<Rightarrow> BGPPathAttrBase" where
  "mk_base flags code len hdr = \<lparr>pa_Flags = flags, pa_Code = code, pa_Length = len, pa_HdrLen = hdr\<rparr>"

definition NewBGPPathAttrOrigin :: "u8 \<Rightarrow> BGPPathAttr" where
  "NewBGPPathAttrOrigin v = BGPPathAttrOrigin (mk_base 0x40 BGPPathAttrTypeOrigin 1 3) v"

definition NewBGPPathAttrASPath :: BGPPathAttr where
  "NewBGPPathAttrASPath = BGPPathAttrASPath (mk_base 0x50 BGPPathAttrTypeASPath 0 4) [] 0"

text \<open>The code of a fresh AS4_PATH is the one of AS_PATH.\<close>

definition NewBGPPathAttrAS4Path :: BGPPathAttr where
  "NewBGPPathAttrAS4Path =
     BGPPathAttrAS4Path (mk_base (BGPPathAttrFlagOptional OR BGPPathAttrFlagTransitive)
       BGPPathAttrTypeASPath 0 4) []"

definition NewBGPPathAttrNextHop :: BGPPathAttr where
  "NewBGPPathAttrNextHop = BGPPathAttrNextHop (mk_base 0x40 BGPPathAttrTypeNextHop 4 3) []"

definition NewBGPPathAttrMultiExitDisc :: BGPPathAttr where
  "NewBGPPathAttrMultiExitDisc =
     BGPPathAttrMultiExitDisc (mk_base 0x80 BGPPathAttrTypeMultiExitDisc 4 3) 0"

definition NewBGPPathAttrLocalPref :: BGPPathAttr where
  "NewBGPPathAttrLocalPref =
     BGPPathAttrLocalPref (mk_base BGPPathAttrFlagTransitive BGPPathAttrTypeLocalPref 4 3) 0"

definition NewBGPPathAttrAtomicAggregate :: BGPPathAttr where
  "NewBGPPathAttrAtomicAggregate =
     BGPPathAttrAtomicAggregate (mk_base BGPPathAttrFlagTransitive BGPPathAttrTypeAtomicAggregate 0 3)"

definition NewBGPPathAttrAggregator :: BGPPathAttr where
  "NewBGPPathAttrAggregator =
     BGPPathAttrAggregator (mk_base (BGPPathAttrFlagTransitive OR BGPPathAttrFlagOptional)
       BGPPathAttrTypeAggregator 4 3) None []"

definition NewBGPPathAttrAS4Aggregator :: BGPPathAttr where
  "NewBGPPathAttrAS4Aggregator =
     BGPPathAttrAS4Aggregator (mk_base (BGPPathAttrFlagTransitive OR BGPPathAttrFlagOptional)
       BGPPathAttrTypeAS4Aggregator (agg_GetLen (BGPAggregator4ByteAS 0) + 4) 3) 0 []"

definition NewBGPPathAttrOriginatorId :: "ip \<Rightarrow> BGPPathAttr" where
  "NewBGPPathAttrOriginatorId i =
     BGPPathAttrOriginatorId (mk_base BGPPathAttrFlagOptional BGPPathAttrTypeOriginatorId 4 3) i"

definition NewBGPPathAttrClusterList :: BGPPathAttr where
  "NewBGPPathAttrClusterList =
     BGPPathAttrClusterList (mk_base BGPPathAttrFlagOptional BGPPathAttrTypeClusterList 0 3) []"

definition NewBGPPathAttrMPReachNLRI :: BGPPathAttr where
  "NewBGPPathAttrMPReachNLRI =
     BGPPathAttrMPReachNLRI (mk_base (BGPPathAttrFlagOptional OR BGPPathAttrFlagExtendedLen)
       BGPPathAttrTypeMPReachNLRI 4 4) 0 0 None 0 []"

definition NewBGPPathAttrMPUnreachNLRI :: BGPPathAttr where
  "NewBGPPathAttrMPUnreachNLRI =
     BGPPathAttrMPUnreachNLRI (mk_base (BGPPathAttrFlagOptional OR BGPPathAttrFlagExtendedLen)
       BGPPathAttrTypeMPUnreachNLRI 3 4) 0 0 []"

definition NewBGPPathAttrCommunity :: BGPPathAttr where
  "NewBGPPathAttrCommunity =
     BGPPathAttrCommunity (mk_base (BGPPathAttrFlagOptional OR BGPPathAttrFlagTransitive)
       BGPPathAttrTypeCommunity 0 3) []"

definition NewBGPPathAttrExtCommunity :: BGPPathAttr where
  "NewBGPPathAttrExtCommunity =
     BGPPathAttrExtCommunity (mk_base (BGPPathAttrFlagOptional OR BGPPathAttrFlagTransitive)
       BGPPathAttrTypeExtCommunity 0 3) []"

section \<open>Setters that keep the length field\<close>

text \<open>Methods exist only on their own struct; on another constructor they are the identity.\<close>

fun PrependASPathSegment :: "BGPPathAttr \<Rightarrow> BGPASPathSegment \<Rightarrow> BGPPathAttr" where
  "PrependASPathSegment (BGPPathAttrASPath b segs sz) s =
     BGPPathAttrASPath (b\<lparr>pa_Length := pa_Length b + seg_size s\<rparr>) (s # segs) sz"
| "PrependASPathSegment a s = a"

fun AppendASPathSegment :: "BGPPathAttr \<Rightarrow> BGPASPathSegment \<Rightarrow> BGPPathAttr" where
  "AppendASPathSegment (BGPPathAttrASPath b segs sz) s =
     BGPPathAttrASPath (b\<lparr>pa_Length := pa_Length b + seg_size s\<rparr>) (segs @ [s]) sz"
| "AppendASPathSegment a s = a"

fun AddASPathSegment :: "BGPPathAttr \<Rightarrow> BGPAS4PathSegment \<Rightarrow> BGPPathAttr" where
  "AddASPathSegment (BGPPathAttrAS4Path b segs) s =
     BGPPathAttrAS4Path (b\<lparr>pa_Length := pa_Length b + seg_TotalLen s\<rparr>) (s # segs)"
| "AddASPathSegment a s = a"

fun pa_SetBGPAggregatorAS :: "BGPPathAttr \<Rightarrow> BGPAggregatorAS \<Rightarrow> BGPPathAttr" where
  "pa_SetBGPAggregatorAS (BGPPathAttrAggregator b as ip) g =
     BGPPathAttrAggregator (b\<lparr>pa_Length := pa_Length b + agg_GetLen g\<rparr>) (Some g) ip"
| "pa_SetBGPAggregatorAS (BGPPathAttrAS4Aggregator b as ip) (BGPAggregator4ByteAS n) =
     BGPPathAttrAS4Aggregator b n ip"
| "pa_SetBGPAggregatorAS a g = a"

fun PrependId :: "BGPPathAttr \<Rightarrow> u32 \<Rightarrow> BGPPathAttr" where
  "PrependId (BGPPathAttrClusterList b vs) i =
     BGPPathAttrClusterList (b\<lparr>pa_Length := pa_Length b + 4\<rparr>) (i # vs)"
| "PrependId a i = a"

fun pa_SetNextHop :: "BGPPathAttr \<Rightarrow> MPNextHop \<Rightarrow> BGPPathAttr" where
  "pa_SetNextHop (BGPPathAttrMPReachNLRI b afi safi nh r ns) h =
     BGPPathAttrMPReachNLRI (b\<lparr>pa_Length := pa_Length b + ucast (nh_Len h)\<rparr>) afi safi (Some h) r ns"
| "pa_SetNextHop a h = a"

definition nlri_lens :: "NLRI list \<Rightarrow> u16" where
  "nlri_lens ns = (\<Sum>n\<leftarrow>ns. ucast (NLRI_Len n))"

fun SetNLRIList :: "BGPPathAttr \<Rightarrow> NLRI list \<Rightarrow> BGPPathAttr" where
  "SetNLRIList (BGPPathAttrMPReachNLRI b afi safi nh r ns) ms =
     BGPPathAttrMPReachNLRI (b\<lparr>pa_Length := pa_Length b + nlri_lens ms\<rparr>) afi safi nh r ms"
| "SetNLRIList a ms = a"

fun pa_AddNLRI :: "BGPPathAttr \<Rightarrow> NLRI \<Rightarrow> BGPPathAttr" where
  "pa_AddNLRI (BGPPathAttrMPReachNLRI b afi safi nh r ns) n =
     BGPPathAttrMPReachNLRI (b\<lparr>pa_Length := pa_Length b + ucast (NLRI_Len n)\<rparr>) afi safi nh r (ns @ [n])"
| "pa_AddNLRI (BGPPathAttrMPUnreachNLRI b afi safi ns) n =
     BGPPathAttrMPUnreachNLRI (b\<lparr>pa_Length := pa_Length b + ucast (NLRI_Len n)\<rparr>) afi safi (ns @ [n])"
| "pa_AddNLRI a n = a"

definition AddNLRIList :: "BGPPathAttr \<Rightarrow> NLRI list \<Rightarrow> BGPPathAttr" where
  "AddNLRIList a ns = foldl pa_AddNLRI a ns"

text \<open>\<open>AddCommunity\<close> switches to an extended length when the length passes 255.\<close>

definition grow_base :: "BGPPathAttrBase \<Rightarrow> u16 \<Rightarrow> BGPPathAttrBase" where
  "grow_base b n =
     (if pa_Length b \<le> 255 \<and> pa_Length b + n > 255
      then b\<lparr>pa_Flags := pa_Flags b OR BGPPathAttrFlagExtendedLen, pa_HdrLen := 4,
             pa_Length := pa_Length b + n\<rparr>
      else b\<lparr>pa_Length := pa_Length b + n\<rparr>)"

fun AddCommunity :: "BGPPathAttr \<Rightarrow> u32 \<Rightarrow> BGPPathAttr" where
  "AddCommunity (BGPPathAttrCommunity b vs) v = BGPPathAttrCommunity (grow_base b 4) (v # vs)"
| "AddCommunity a v = a"

fun AddExtCommunity :: "BGPPathAttr \<Rightarrow> 64 word \<Rightarrow> BGPPathAttr" where
  "AddExtCommunity (BGPPathAttrExtCommunity b vs) v = BGPPathAttrExtCommunity (grow_base b 8) (v # vs)"
| "AddExtCommunity a v = a"

section \<open>Lists of attributes\<close>

definition getTypeFromPathAttrs :: "BGPPathAttr list \<Rightarrow> u8 \<Rightarrow> BGPPathAttr option" where
  "getTypeFromPathAttrs pas code = find (\<lambda>pa. pa_GetCode pa = code) pas"

text \<open>\<open>removeTypeFromPathAttrs\<close>: the list without the first attribute of a code, and that attribute.\<close>

fun removeTypeFromPathAttrs :: "BGPPathAttr list \<Rightarrow> u8 \<Rightarrow> BGPPathAttr list \<times> BGPPathAttr option" where
  "removeTypeFromPathAttrs [] code = ([], None)"
| "removeTypeFromPathAttrs (pa # pas) code =
     (if pa_GetCode pa = code then (pas, Some pa)
      else let (rest, r) = removeTypeFromPathAttrs pas code in (pa # rest, r))"

text \<open>
  \<open>AddPathAttrToPathAttrsByCode\<close>: \<open>addIdx\<close> is overwritten by every attribute with a larger code, so
  it ends as the index of the last of them.
\<close>

fun last_larger :: "u8 \<Rightarrow> nat \<Rightarrow> BGPPathAttr list \<Rightarrow> nat option \<Rightarrow> nat option" where
  "last_larger code i [] r = r"
| "last_larger code i (pa # pas) r =
     last_larger code (i + 1) pas (if pa_GetCode pa > code then Some i else r)"

definition AddPathAttrToPathAttrsByCode :: "BGPPathAttr list \<Rightarrow> u8 \<Rightarrow> BGPPathAttr \<Rightarrow> BGPPathAttr list" where
  "AddPathAttrToPathAttrsByCode pas code attr =
     (let addIdx = (case last_larger code 0 pas None of Some i \<Rightarrow> i | None \<Rightarrow> length pas)
      in take addIdx pas @ [attr] @ drop addIdx pas)"

definition addPathAttrToPathAttrs :: "BGPPathAttr list \<Rightarrow> BGPPathAttr option \<Rightarrow> BGPPathAttr list" where
  "addPathAttrToPathAttrs pas attr =
     (case attr of None \<Rightarrow> pas | Some a \<Rightarrow> AddPathAttrToPathAttrsByCode pas (pa_GetCode a) a)"

text \<open>The remaining list, and the multiprotocol attributes as their concrete types.\<close>

definition as_mp_reach :: "BGPPathAttr option \<Rightarrow> (bgp_error, BGPPathAttr option) outcome" where
  "as_mp_reach pa = (case pa of None \<Rightarrow> Ok None
     | Some (BGPPathAttrMPReachNLRI b afi safi nh r ns) \<Rightarrow> Ok pa | Some _ \<Rightarrow> Panic)"

definition as_mp_unreach :: "BGPPathAttr option \<Rightarrow> (bgp_error, BGPPathAttr option) outcome" where
  "as_mp_unreach pa = (case pa of None \<Rightarrow> Ok None
     | Some (BGPPathAttrMPUnreachNLRI b afi safi ns) \<Rightarrow> Ok pa | Some _ \<Rightarrow> Panic)"

definition RemoveMPAttrs ::
  "BGPPathAttr list \<Rightarrow> (bgp_error, BGPPathAttr list \<times> BGPPathAttr option \<times> BGPPathAttr option) outcome" where
  "RemoveMPAttrs pas =
     (let (pas1, reach) = removeTypeFromPathAttrs pas BGPPathAttrTypeMPReachNLRI in
      obind (as_mp_reach reach) (\<lambda>mpReach.
        let (pas2, unreach) = removeTypeFromPathAttrs pas1 BGPPathAttrTypeMPUnreachNLRI in
        obind (as_mp_unreach unreach) (\<lambda>mpUnreach. Ok (pas2, mpReach, mpUnreach))))"

definition GetMPAttrs ::
  "BGPPathAttr list \<Rightarrow> (bgp_error, BGPPathAttr option \<times> BGPPathAttr option) outcome" where
  "GetMPAttrs pas =
     obind (as_mp_reach (getTypeFromPathAttrs pas BGPPathAttrTypeMPReachNLRI)) (\<lambda>r.
     obind (as_mp_unreach (getTypeFromPathAttrs pas BGPPathAttrTypeMPUnreachNLRI)) (\<lambda>u. Ok (r, u)))"

definition HasMPAttrs :: "BGPPathAttr list \<Rightarrow> bool" where
  "HasMPAttrs pas = list_ex (\<lambda>pa. pa_GetCode pa = BGPPathAttrTypeMPReachNLRI \<or>
                                pa_GetCode pa = BGPPathAttrTypeMPUnreachNLRI) pas"

definition HasMPReachNLRI :: "BGPPathAttr list \<Rightarrow> bool" where
  "HasMPReachNLRI pas = list_ex (\<lambda>pa. pa_GetCode pa = BGPPathAttrTypeMPReachNLRI) pas"

text \<open>
  The insertion loop of \<open>SetLocalPrefToPathAttrs\<close>, \<open>SetMEDToPathAttrs\<close> and \<open>AddOriginatorId\<close>: the index
  of the first attribute with a larger code, the length when there is none, and -1 (here \<open>None\<close>)
  for an empty list.
\<close>

definition insert_pos :: "u8 \<Rightarrow> BGPPathAttr list \<Rightarrow> nat option" where
  "insert_pos code pas =
     (if pas = [] then None else Some (length (takeWhile (\<lambda>pa. \<not> pa_GetCode pa > code) pas)))"

definition insert_attr :: "nat option \<Rightarrow> BGPPathAttr \<Rightarrow> BGPPathAttr list \<Rightarrow> BGPPathAttr list" where
  "insert_attr i pa pas = (case i of None \<Rightarrow> pas | Some k \<Rightarrow> take k pas @ [pa] @ drop k pas)"

fun overwrite_local_pref :: "BGPPathAttr list \<Rightarrow> u32 \<Rightarrow> (bgp_error, BGPPathAttr list) outcome" where
  "overwrite_local_pref [] pref = Ok []"
| "overwrite_local_pref (pa # pas) pref =
     (if pa_GetCode pa = BGPPathAttrTypeLocalPref
      then case pa of BGPPathAttrLocalPref b v \<Rightarrow> Ok (BGPPathAttrLocalPref b pref # pas) | _ \<Rightarrow> Panic
      else obind (overwrite_local_pref pas pref) (\<lambda>pas. Ok (pa # pas)))"

definition SetLocalPrefToPathAttrs ::
  "BGPPathAttr list \<Rightarrow> u32 \<Rightarrow> bool \<Rightarrow> (bgp_error, BGPPathAttr list) outcome" where
  "SetLocalPrefToPathAttrs pas pref overwrite =
     (if list_ex (\<lambda>pa. pa_GetCode pa = BGPPathAttrTypeLocalPref) pas
      then if overwrite then overwrite_local_pref pas pref else Ok pas
      else Ok (insert_attr (insert_pos BGPPathAttrTypeLocalPref pas)
                 (BGPPathAttrLocalPref (pa_base NewBGPPathAttrLocalPref) pref) pas))"

fun overwrite_med :: "BGPPathAttr list \<Rightarrow> u32 \<Rightarrow> (bgp_error, BGPPathAttr list) outcome" where
  "overwrite_med [] med = Ok []"
| "overwrite_med (pa # pas) med =
     (if pa_GetCode pa = BGPPathAttrTypeMultiExitDisc
      then case pa of BGPPathAttrMultiExitDisc b v \<Rightarrow> Ok (BGPPathAttrMultiExitDisc b med # pas) | _ \<Rightarrow> Panic
      else obind (overwrite_med pas med) (\<lambda>pas. Ok (pa # pas)))"

definition SetMEDToPathAttrs ::
  "BGPPathAttr list \<Rightarrow> u32 \<Rightarrow> bool \<Rightarrow> (bgp_error, BGPPathAttr list) outcome" where
  "SetMEDToPathAttrs pas med overwrite =
     (if list_ex (\<lambda>pa. pa_GetCode pa = BGPPathAttrTypeMultiExitDisc) pas
      then if overwrite then overwrite_med pas med else Ok pas
      else Ok (insert_attr (insert_pos BGPPathAttrTypeMultiExitDisc pas)
                 (BGPPathAttrMultiExitDisc (pa_base NewBGPPathAttrMultiExitDisc) med) pas))"

definition SetNextHopPathAttrs :: "BGPPathAttr list \<Rightarrow> ip \<Rightarrow> (bgp_error, BGPPathAttr list) outcome" where
  "SetNextHopPathAttrs pas nh =
     omap (\<lambda>pa. if pa_GetCode pa = BGPPathAttrTypeNextHop
                then case pa of BGPPathAttrNextHop b v \<Rightarrow> Ok (BGPPathAttrNextHop b nh) | _ \<Rightarrow> Panic
                else Ok pa) pas"

definition SetPathAttrAggregator :: "BGPPathAttr list \<Rightarrow> u32 \<Rightarrow> ip \<Rightarrow> (bgp_error, BGPPathAttr list) outcome" where
  "SetPathAttrAggregator pas as ip =
     omap (\<lambda>pa. if pa_GetCode pa = BGPPathAttrTypeAggregator
                then case pa of
                    BGPPathAttrAggregator b g i \<Rightarrow>
                      (case pa_SetBGPAggregatorAS pa (BGPAggregator4ByteAS as) of
                         BGPPathAttrAggregator b' g' i' \<Rightarrow> Ok (BGPPathAttrAggregator b' g' ip)
                       | _ \<Rightarrow> Panic)
                  | _ \<Rightarrow> Panic
                else Ok pa) pas"

text \<open>Readers: the first attribute of a code, asserted to be of the code's type.\<close>

definition GetOrigin :: "BGPPathAttr list \<Rightarrow> (bgp_error, u8) outcome" where
  "GetOrigin pas = (case getTypeFromPathAttrs pas BGPPathAttrTypeOrigin of
     None \<Rightarrow> Ok BGPPathAttrOriginMax | Some (BGPPathAttrOrigin b v) \<Rightarrow> Ok v | Some _ \<Rightarrow> Panic)"

definition GetOriginTypeStr :: "u8 \<Rightarrow> string" where
  "GetOriginTypeStr origin = (case map_of BGPPathAttrOriginToStrMap origin of
     Some s \<Rightarrow> s | None \<Rightarrow> the (map_of BGPPathAttrOriginToStrMap BGPPathAttrOriginMax))"

definition GetMED :: "BGPPathAttr list \<Rightarrow> (bgp_error, u32 \<times> bool) outcome" where
  "GetMED pas = (case getTypeFromPathAttrs pas BGPPathAttrTypeMultiExitDisc of
     None \<Rightarrow> Ok (0, False) | Some (BGPPathAttrMultiExitDisc b v) \<Rightarrow> Ok (v, True) | Some _ \<Rightarrow> Panic)"

definition GetLocalPref :: "BGPPathAttr list \<Rightarrow> (bgp_error, u32) outcome" where
  "GetLocalPref pas = (case getTypeFromPathAttrs pas BGPPathAttrTypeLocalPref of
     None \<Rightarrow> Error plainError | Some (BGPPathAttrLocalPref b v) \<Rightarrow> Ok v | Some _ \<Rightarrow> Panic)"

definition GetNextHop :: "BGPPathAttr list \<Rightarrow> (bgp_error, ip) outcome" where
  "GetNextHop pas = (case getTypeFromPathAttrs pas BGPPathAttrTypeNextHop of
     None \<Rightarrow> Ok IPv4zero | Some (BGPPathAttrNextHop b v) \<Rightarrow> Ok v | Some _ \<Rightarrow> Panic)"

definition GetNumClusters :: "BGPPathAttr list \<Rightarrow> (bgp_error, u16) outcome" where
  "GetNumClusters pas = (case getTypeFromPathAttrs pas BGPPathAttrTypeClusterList of
     None \<Rightarrow> Ok 0 | Some (BGPPathAttrClusterList b vs) \<Rightarrow> Ok (pa_Length b div 4) | Some _ \<Rightarrow> Panic)"

definition GetNumASes :: "BGPPathAttr list \<Rightarrow> (bgp_error, u32) outcome" where
  "GetNumASes pas = (case getTypeFromPathAttrs pas BGPPathAttrTypeASPath of
     None \<Rightarrow> Ok 0
   | Some (BGPPathAttrASPath b segs sz) \<Rightarrow> Ok (\<Sum>s\<leftarrow>segs. ucast (seg_GetNumASes s))
   | Some _ \<Rightarrow> Panic)"

text \<open>
  \<open>HasASLoop\<close> looks at the first AS path only; it asserts that every segment has the size the
  attribute records.
\<close>

fun as_loop_segs :: "u8 \<Rightarrow> u32 \<Rightarrow> BGPASPathSegment list \<Rightarrow> (bgp_error, bool) outcome" where
  "as_loop_segs asSize as [] = Ok False"
| "as_loop_segs asSize as (s # ss) =
     (if asSize = 4
      then case s of AS4Segment t \<Rightarrow>
             if as \<in> set (seg_AS4 t) then Ok True else as_loop_segs asSize as ss
           | AS2Segment t \<Rightarrow> Panic
      else case s of AS2Segment t \<Rightarrow>
             if ucast as \<in> set (seg_AS2 t) then Ok True else as_loop_segs asSize as ss
           | AS4Segment t \<Rightarrow> Panic)"

definition HasASLoop :: "BGPPathAttr list \<Rightarrow> u32 \<Rightarrow> (bgp_error, bool) outcome" where
  "HasASLoop pas as = (case getTypeFromPathAttrs pas BGPPathAttrTypeASPath of
     None \<Rightarrow> Ok False
   | Some (BGPPathAttrASPath b segs sz) \<Rightarrow> as_loop_segs sz as segs
   | Some _ \<Rightarrow> Panic)"

end
