(* ===== verification/BgpAsHelpers.thy ===== *)
theory BgpAsHelpers
  imports BgpHelpers
begin

text \<open>
  The operations of \<open>helpers.go\<close> on AS paths and on the attributes of route reflection: prepending,
  the conversions between two-byte and four-byte AS paths, the normalisation of a received update.
\<close>

section \<open>Prepending an AS number\<close>

text \<open>The receiver gets a new segment when it has none, starts with a set, or its first one is full.\<close>

definition needs_segment :: "BGPASPathSegment list \<Rightarrow> bool" where
  "needs_segment segs =
     (case segs of [] \<Rightarrow> True
      | s # _ \<Rightarrow> seg_GetType s = BGPASPathSegmentSet \<or> seg_GetLen s \<ge> 255)"

definition fresh_segment :: "u8 \<Rightarrow> BGPASPathSegment" where
  "fresh_segment asSize =
     (if asSize = 4 then AS4Segment NewBGPAS4PathSegmentSeq else AS2Segment NewBGPAS2PathSegmentSeq)"

text \<open>The header, the first segment and the others, after \<open>PrependASPathSegment\<close> if it was needed.\<close>

definition first_segment ::
  "u8 \<Rightarrow> BGPPathAttrBase \<Rightarrow> BGPASPathSegment list \<Rightarrow> BGPPathAttrBase \<times> BGPASPathSegment \<times> BGPASPathSegment list" where
  "first_segment asSize b segs =
     (if needs_segment segs
      then (b\<lparr>pa_Length := pa_Length b + seg_size (fresh_segment asSize)\<rparr>, fresh_segment asSize, segs)
      else (b, hd segs, tl segs))"

text \<open>
  One round of the loop of \<open>PrependAS\<close>. The AS number is replaced by AS_TRANS, for this and the
  following attributes, only when a two-byte segment is created. The branch of AS4_PATH ends in an
  assertion that the attribute is a \<open>BGPPathAttrASPath\<close>, which an AS4_PATH never is.
\<close>

definition PrependAS_attr :: "u8 \<Rightarrow> u32 \<Rightarrow> BGPPathAttr \<Rightarrow> (bgp_error, BGPPathAttr \<times> u32) outcome" where
  "PrependAS_attr asSize as pa =
     (if pa_GetCode pa = BGPPathAttrTypeASPath
      then case pa of
          BGPPathAttrASPath b segs sz \<Rightarrow>
            (let as1 = (if needs_segment segs \<and> asSize = 2 \<and> as > 65535 then ucast BGPASTrans else as);
                 (b1, s, ss) = first_segment asSize b segs
             in Ok (BGPPathAttrASPath (b1\<lparr>pa_Length := pa_Length b1 + ucast asSize\<rparr>)
                      (fst (seg_PrependAS s as1) # ss) sz, as1))
        | _ \<Rightarrow> Panic
      else if pa_GetCode pa = BGPPathAttrTypeAS4Path then Panic
      else Ok (pa, as))"

fun PrependAS :: "BGPPathAttr list \<Rightarrow> u32 \<Rightarrow> u8 \<Rightarrow> (bgp_error, BGPPathAttr list) outcome" where
  "PrependAS [] as asSize = Ok []"
| "PrependAS (pa # pas) as asSize =
     obind (PrependAS_attr asSize as pa) (\<lambda>(pa, as).
     obind (PrependAS pas as asSize) (\<lambda>pas. Ok (pa # pas)))"

section \<open>Prepending a list of AS numbers\<close>

definition PrependASList_attr ::
  "u8 \<Rightarrow> u32 list \<Rightarrow> nat \<Rightarrow> BGPPathAttr \<Rightarrow> (bgp_error, BGPPathAttr \<times> u32 list \<times> nat) outcome" where
  "PrependASList_attr asSize asList newASes pa =
     (if pa_GetCode pa = BGPPathAttrTypeASPath
      then case pa of
          BGPPathAttrASPath b segs sz \<Rightarrow>
            (let asList1 = (if needs_segment segs \<and> asSize = 2
                            then map (\<lambda>as. if as > 65535 then ucast BGPASTrans else as) asList else asList);
                 (b1, s, ss) = first_segment asSize b segs;
                 n = min (length asList1) (GetMaxASes - unat (seg_GetLen s))
             in Ok (BGPPathAttrASPath (b1\<lparr>pa_Length := pa_Length b1 + of_nat (unat asSize * n)\<rparr>)
                      (fst (seg_PrependASList s (take n asList1)) # ss) sz, asList1, n))
        | _ \<Rightarrow> Panic
      else if pa_GetCode pa = BGPPathAttrTypeAS4Path then Panic
      else Ok (pa, asList, newASes))"

fun PrependASList_round ::
  "BGPPathAttr list \<Rightarrow> u32 list \<Rightarrow> u8 \<Rightarrow> nat \<Rightarrow> (bgp_error, BGPPathAttr list \<times> u32 list \<times> nat) outcome" where
  "PrependASList_round [] asList asSize newASes = Ok ([], asList, newASes)"
| "PrependASList_round (pa # pas) asList asSize newASes =
     obind (PrependASList_attr asSize asList newASes pa) (\<lambda>(pa, asList, newASes).
     obind (PrependASList_round pas asList asSize newASes) (\<lambda>(pas, asList, newASes).
       Ok (pa # pas, asList, newASes)))"

lemma PrependASList_attr_length:
  "PrependASList_attr asSize asList k pa = Ok (pa', asList', n) \<Longrightarrow>
   length asList' = length asList \<and> (n \<le> length asList \<or> n = k)"
  unfolding PrependASList_attr_def
  by (cases pa) (auto simp: Let_def split_beta split: if_splits)

lemma PrependASList_round_length:
  "PrependASList_round pas asList asSize k = Ok (pas', asList', n) \<Longrightarrow>
   length asList' = length asList \<and> (n \<le> length asList \<or> n = k)"
proof (induction pas arbitrary: asList k pas')
  case (Cons pa pas)
  then obtain pa1 asList1 k1 pas1 where
    "PrependASList_attr asSize asList k pa = Ok (pa1, asList1, k1)"
    "PrependASList_round pas asList1 asSize k1 = Ok (pas1, asList', n)"
    by auto
  then show ?case using Cons.IH PrependASList_attr_length by fastforce
qed simp

text \<open>The recursion takes what did not fit into the first segment; every round takes some.\<close>

function PrependASList :: "BGPPathAttr list \<Rightarrow> u32 list \<Rightarrow> u8 \<Rightarrow> (bgp_error, BGPPathAttr list) outcome" where
  "PrependASList pas asList asSize =
     (case PrependASList_round pas asList asSize 0 of
        Ok (pas1, asList1, newASes) \<Rightarrow>
          if newASes > 0 then PrependASList pas1 (drop newASes asList1) asSize else Ok pas1
      | Error e \<Rightarrow> Error e | Panic \<Rightarrow> Panic)"
  by pat_completeness auto
termination
proof (relation "measure (\<lambda>(pas, asList, asSize). length asList)")
  fix pas :: "BGPPathAttr list" and asList :: "u32 list" and asSize :: u8 and x pas1 y asList1 and newASes :: nat
  assume "PrependASList_round pas asList asSize 0 = Ok x" "(pas1, y) = x" "(asList1, newASes) = y" "0 < newASes"
  then have "length asList1 = length asList \<and> newASes \<le> length asList"
    using PrependASList_round_length [of pas asList asSize 0 pas1 asList1 newASes] by auto
  then show "((pas1, drop newASes asList1, asSize), (pas, asList, asSize)) \<in> measure (\<lambda>(pas, asList, asSize). length asList)"
    using \<open>0 < newASes\<close> by auto
qed simp

declare PrependASList.simps [simp del]

section \<open>Route reflection\<close>

text \<open>
  \<open>AddOriginatorId\<close> and \<open>AddClusterId\<close> build \<open>append(attrs[:idx], pa)\<close>, which has \<open>idx+1\<close> elements;
  the \<open>copy\<close> that follows has no room to copy into.
\<close>

definition AddOriginatorId :: "BGPPathAttr list \<Rightarrow> ip \<Rightarrow> BGPPathAttr list \<times> bool" where
  "AddOriginatorId pas i =
     (if list_ex (\<lambda>pa. pa_GetCode pa = BGPPathAttrTypeOriginatorId) pas then (pas, False)
      else case insert_pos BGPPathAttrTypeOriginatorId pas of
          None \<Rightarrow> (pas, True)
        | Some k \<Rightarrow> (take k pas @ [NewBGPPathAttrOriginatorId i], True))"

text \<open>The index loop of \<open>AddClusterId\<close>: the cluster list if there is one, else where it would go.\<close>

fun cluster_idx :: "nat \<Rightarrow> nat \<Rightarrow> BGPPathAttr list \<Rightarrow> nat option \<Rightarrow> nat option \<times> bool" where
  "cluster_idx howmany i [] r = (r, False)"
| "cluster_idx howmany i (pa # pas) r =
     (if pa_GetCode pa = BGPPathAttrTypeClusterList then (Some i, True)
      else cluster_idx howmany (i + 1) pas
        (if r = None
         then if pa_GetCode pa > BGPPathAttrTypeClusterList then Some i
              else if i = howmany - 1 then Some (i + 1) else None
         else r))"

definition AddClusterId :: "BGPPathAttr list \<Rightarrow> u32 \<Rightarrow> (bgp_error, BGPPathAttr list \<times> bool) outcome" where
  "AddClusterId pas i =
     (let (pos, found) = cluster_idx (length pas) 0 pas None in
      case pos of
        None \<Rightarrow> Ok (pas, False)
      | Some k \<Rightarrow>
        (let pas1 = (if found then pas else take k pas @ [NewBGPPathAttrClusterList]) in
         case pas1 ! k of
           BGPPathAttrClusterList b vs \<Rightarrow> Ok (pas1[k := PrependId (pas1 ! k) i], True)
         | _ \<Rightarrow> Panic))"

section \<open>Conversions of AS paths\<close>

fun count_ases :: "BGPASPathSegment list \<Rightarrow> u32" where
  "count_ases [] = 0"
| "count_ases (s # ss) =
     (if seg_GetType s = BGPASPathSegmentSet then 1
      else if seg_GetType s = BGPASPathSegmentSequence then ucast (seg_GetLen s) else 0) + count_ases ss"

definition GetNumASesByASType :: "BGPPathAttr list \<Rightarrow> u8 \<Rightarrow> (bgp_error, u32) outcome" where
  "GetNumASesByASType pas asType =
     (if asType \<noteq> BGPPathAttrTypeASPath \<and> asType \<noteq> BGPPathAttrTypeAS4Path then Ok 0
      else case getTypeFromPathAttrs pas asType of
          None \<Rightarrow> Ok 0
        | Some pa \<Rightarrow>
          if asType = BGPPathAttrTypeASPath
          then case pa of BGPPathAttrASPath b segs sz \<Rightarrow> Ok (count_ases segs) | _ \<Rightarrow> Panic
          else case pa of BGPPathAttrAS4Path b segs \<Rightarrow> Ok (count_ases (map AS4Segment segs)) | _ \<Rightarrow> Panic)"

text \<open>One segment of \<open>ConvertAS2ToAS4\<close>; the new list is made with the length field and filled by index.\<close>

definition widen_segment :: "BGPASPathSegment \<Rightarrow> (bgp_error, BGPASPathSegment) outcome" where
  "widen_segment s = (case s of
     AS4Segment t \<Rightarrow> Panic
   | AS2Segment t \<Rightarrow>
       if length (seg_AS2 t) > unat (seg_Length t) then Panic
       else Ok (AS4Segment \<lparr>seg_Type = seg_Type t, seg_Length = seg_Length t,
              seg_TotalLen = seg_TotalLen NewBGPAS4PathSegmentSeq + ucast (seg_Length t) * 4,
              seg_AS4 = map ucast (seg_AS2 t) @ replicate (unat (seg_Length t) - length (seg_AS2 t)) 0\<rparr>))"

definition empty_as4_path :: BGPPathAttr where
  "empty_as4_path = (case NewBGPPathAttrASPath of
     BGPPathAttrASPath b segs sz \<Rightarrow> BGPPathAttrASPath b segs 4 | pa \<Rightarrow> pa)"

fun ConvertAS2ToAS4 :: "BGPPathAttr list \<Rightarrow> (bgp_error, BGPPathAttr list) outcome" where
  "ConvertAS2ToAS4 [] = Ok []"
| "ConvertAS2ToAS4 (pa # pas) =
     (if pa_GetCode pa = BGPPathAttrTypeASPath
      then case pa of
          BGPPathAttrASPath b segs sz \<Rightarrow>
            obind (omap widen_segment segs) (\<lambda>ss.
              Ok (foldl AppendASPathSegment empty_as4_path ss # pas))
        | _ \<Rightarrow> Panic
      else obind (ConvertAS2ToAS4 pas) (\<lambda>pas. Ok (pa # pas)))"

text \<open>
  The first loop of \<open>ConstructASPathFromAS4Path\<close>: the segments that fit into \<open>skip\<close>, how many AS
  numbers they count, and the index where the loop stopped.
\<close>

fun leading_segments ::
  "u16 \<Rightarrow> nat \<Rightarrow> BGPASPathSegment list \<Rightarrow> u16 \<Rightarrow> BGPPathAttr \<Rightarrow> nat \<times> u16 \<times> BGPPathAttr" where
  "leading_segments skip i [] asNum p = (i - 1, asNum, p)"
| "leading_segments skip i (s # ss) asNum p =
     (if ucast (seg_GetNumASes s) + asNum > skip then (i, asNum, p)
      else leading_segments skip (i + 1) ss (asNum + ucast (seg_GetNumASes s)) (AppendASPathSegment p s))"

definition ConstructASPathFromAS4Path ::
  "BGPASPathSegment list \<Rightarrow> BGPAS4PathSegment list \<Rightarrow> u16 \<Rightarrow> (bgp_error, BGPPathAttr) outcome" where
  "ConstructASPathFromAS4Path segs segs4 skip =
     (let (segIdx, asNum, p) = leading_segments skip 0 segs 0 empty_as4_path in
      case segs4 of
        [] \<Rightarrow> Ok p
      | s # ss \<Rightarrow>
        obind (idx segs segIdx) (\<lambda>seg.
          case seg of
            AS2Segment t \<Rightarrow> Panic
          | AS4Segment t \<Rightarrow>
            obind (slice (seg_AS4 t) 0 (unat (skip - asNum))) (\<lambda>as.
              Ok (foldl AppendASPathSegment p
                    (fst (seg_PrependASList (AS4Segment s) as) # map AS4Segment ss)))))"

text \<open>\<open>CloneAsAS4Path\<close>, with its header length, and \<open>Convert4ByteTo2ByteASPath\<close>.\<close>

definition CloneAsAS4Path :: "BGPPathAttrBase \<Rightarrow> BGPAS4PathSegment list \<Rightarrow> BGPPathAttr" where
  "CloneAsAS4Path b segs =
     (let x = pa_base NewBGPPathAttrAS4Path in
      BGPPathAttrAS4Path (x\<lparr>pa_Length := pa_Length b,
        pa_HdrLen := pa_HdrLen x + of_nat (length segs * 4)\<rparr>) segs)"

definition convert_4to2 :: "BGPPathAttr \<Rightarrow> (bgp_error, BGPPathAttr \<times> BGPPathAttr option) outcome" where
  "convert_4to2 pa = (case pa of
     BGPPathAttrASPath b segs sz \<Rightarrow>
       (case as4_segments segs of
          None \<Rightarrow> Panic
        | Some ss \<Rightarrow>
          Ok (foldl AppendASPathSegment NewBGPPathAttrASPath (map (AS2Segment \<circ> fst \<circ> CloneAsAS2PathSegment) ss),
              if list_all (snd \<circ> CloneAsAS2PathSegment) ss then None else Some (CloneAsAS4Path b ss)))
   | _ \<Rightarrow> Panic)"

definition Convert4ByteTo2ByteASPath :: "BGPPathAttr list \<Rightarrow> (bgp_error, BGPPathAttr list) outcome" where
  "Convert4ByteTo2ByteASPath pas =
     (let k = length (takeWhile (\<lambda>pa. pa_GetCode pa \<noteq> BGPPathAttrTypeASPath) pas) in
      if k < length pas
      then obind (convert_4to2 (pas ! k)) (\<lambda>(as2, as4).
        case as4 of
          None \<Rightarrow> Ok (pas[k := as2])
        | Some a \<Rightarrow> Ok (AddPathAttrToPathAttrsByCode (pas[k := as2]) BGPPathAttrTypeAS4Path a))
      else Ok pas)"

section \<open>Normalisation of a received update\<close>

text \<open>The scan that records the last attribute of each of the four kinds.\<close>

record path_scan =
  sc_asPath :: "(BGPASPathSegment list \<times> u8) option"
  sc_as4Path :: "BGPAS4PathSegment list option"
  sc_agg :: "BGPAggregatorAS option option"
  sc_as4Agg :: bool

definition scan_attr :: "path_scan \<Rightarrow> BGPPathAttr \<Rightarrow> (bgp_error, path_scan) outcome" where
  "scan_attr sc pa =
     (if pa_GetCode pa = BGPPathAttrTypeASPath
      then case pa of BGPPathAttrASPath b segs sz \<Rightarrow> Ok (sc\<lparr>sc_asPath := Some (segs, sz)\<rparr>) | _ \<Rightarrow> Panic
      else if pa_GetCode pa = BGPPathAttrTypeAS4Path
      then case pa of BGPPathAttrAS4Path b segs \<Rightarrow> Ok (sc\<lparr>sc_as4Path := Some segs\<rparr>) | _ \<Rightarrow> Panic
      else if pa_GetCode pa = BGPPathAttrTypeAggregator
      then case pa of BGPPathAttrAggregator b g ip \<Rightarrow> Ok (sc\<lparr>sc_agg := Some g\<rparr>) | _ \<Rightarrow> Panic
      else if pa_GetCode pa = BGPPathAttrTypeAS4Aggregator
      then case pa of BGPPathAttrAS4Aggregator b as ip \<Rightarrow> Ok (sc\<lparr>sc_as4Agg := True\<rparr>) | _ \<Rightarrow> Panic
      else Ok sc)"

fun scan_attrs :: "path_scan \<Rightarrow> BGPPathAttr list \<Rightarrow> (bgp_error, path_scan) outcome" where
  "scan_attrs sc [] = Ok sc"
| "scan_attrs sc (pa # pas) = obind (scan_attr sc pa) (\<lambda>sc. scan_attrs sc pas)"

definition remove_attr :: "u8 \<Rightarrow> BGPPathAttr list \<Rightarrow> BGPPathAttr list" where
  "remove_attr code pas = fst (removeTypeFromPathAttrs pas code)"

text \<open>
  The branch of a peer with two-byte AS numbers. \<open>ConvertAS2ToAS4\<close> has replaced the attribute in the
  list; \<open>segs\<close> are still the two-byte segments of the old one.
\<close>

definition normalize_as2 ::
  "BGPPathAttr list \<Rightarrow> BGPASPathSegment list \<Rightarrow> path_scan \<Rightarrow> (bgp_error, BGPPathAttr list) outcome" where
  "normalize_as2 pas segs sc =
     obind (ConvertAS2ToAS4 pas) (\<lambda>pas.
       case sc_as4Path sc of
         None \<Rightarrow> Ok pas
       | Some segs4 \<Rightarrow>
         obind (GetNumASesByASType pas BGPPathAttrTypeASPath) (\<lambda>numASes.
         obind (GetNumASesByASType pas BGPPathAttrTypeAS4Path) (\<lambda>numAS4es.
           if numASes \<ge> numAS4es
           then obind (ConstructASPathFromAS4Path segs segs4 (ucast (numASes - numAS4es))) (\<lambda>newASPath.
             Ok (AddPathAttrToPathAttrsByCode
                   (remove_attr BGPPathAttrTypeASPath (remove_attr BGPPathAttrTypeAS4Path pas))
                   BGPPathAttrTypeASPath newASPath))
           else Ok pas)))"

definition NormalizeASPath :: "BGPPathAttr list \<Rightarrow> u16 \<Rightarrow> (bgp_error, BGPPathAttr list) outcome" where
  "NormalizeASPath pas totalPathAttrLen =
     (if totalPathAttrLen = 0 then Ok pas
      else obind (scan_attrs \<lparr>sc_asPath = None, sc_as4Path = None, sc_agg = None, sc_as4Agg = False\<rparr> pas) (\<lambda>sc.
        case sc_asPath sc of
          None \<Rightarrow> Ok pas
        | Some (segs, sz) \<Rightarrow>
          if sz = 2
          then (case sc_agg sc of
              Some g \<Rightarrow>
                if sc_as4Agg sc
                then (case g of
                    None \<Rightarrow> Panic
                  | Some agg \<Rightarrow>
                    if (ucast (agg_GetAS agg) :: u16) \<noteq> BGPASTrans
                    then Ok (remove_attr BGPPathAttrTypeAS4Path (remove_attr BGPPathAttrTypeAS4Aggregator pas))
                    else normalize_as2 pas segs sc)
                else normalize_as2 pas segs sc
            | None \<Rightarrow> normalize_as2 pas segs sc)
          else if sz = 4
          then Ok (let pas1 = (if sc_as4Agg sc then remove_attr BGPPathAttrTypeAS4Aggregator pas else pas) in
                   if sc_as4Path sc \<noteq> None then remove_attr BGPPathAttrTypeAS4Path pas1 else pas1)
          else Ok pas))"

end
