(* ===== verification/BgpNegotiate.thy ===== *)
theory BgpNegotiate
  imports BgpAfi
begin

text \<open>
  What \<open>bgp/packet\<close> promises of session set-up: OPEN survives the wire, the capabilities a speaker
  offers are the ones its peer reads, and when the decoder of OPEN returns.
\<close>

section \<open>Families\<close>

lemma GetProtocolFamily_GetAfiSafi:
  assumes "pf < 65536"
  shows "GetProtocolFamily (fst (GetAfiSafi pf)) (snd (GetAfiSafi pf)) = pf"
proof (rule bit_word_eqI)
  fix n :: nat assume "n < LENGTH(32)"
  have small: "n < 16" if "bit pf n" using bit_small [OF that, of 16] assms by simp
  have m: "(0xFF :: u32) = mask 8" by (simp add: mask_eq_exp_minus_1)
  show "bit (GetProtocolFamily (fst (GetAfiSafi pf)) (snd (GetAfiSafi pf))) n = bit pf n"
    using small unfolding GetAfiSafi_def m
    by (cases "n < 8") (auto simp: GetProtocolFamily_def bit_simps)
qed

lemma GetAfiSafi_GetProtocolFamily:
  assumes "afi < 256"
  shows "GetAfiSafi (GetProtocolFamily afi safi) = (afi, safi)"
proof -
  have small: "n < 8" if "bit afi n" for n using bit_small [OF that, of 8] assms by simp
  have m: "(0xFF :: u32) = mask 8" by (simp add: mask_eq_exp_minus_1)
  have "ucast (drop_bit 8 (GetProtocolFamily afi safi)) = afi"
    using small by (intro bit_word_eqI) (auto simp: GetProtocolFamily_def bit_simps)
  moreover have "ucast (GetProtocolFamily afi safi AND 0xFF) = safi"
    unfolding m by (intro bit_word_eqI) (auto simp: GetProtocolFamily_def bit_simps)
  ultimately show ?thesis by (simp add: GetAfiSafi_def)
qed

section \<open>The offer of a speaker\<close>

definition mp_cap :: "u32 \<Rightarrow> BGPCapability" where
  "mp_cap pf = NewBGPCapMPExt (fst (GetAfiSafi pf)) (snd (GetAfiSafi pf))"

definition add_path_of :: "u8 \<Rightarrow> u32 \<Rightarrow> AddPathAFISAFI" where
  "add_path_of flags pf = NewAddPathAFISAFI (fst (GetAfiSafi pf)) (snd (GetAfiSafi pf)) flags"

definition offered :: "u32 \<Rightarrow> u32 list \<Rightarrow> u8 \<Rightarrow> BGPCapability list" where
  "offered as fs flags = NewBGPCap4ByteASPath as # map mp_cap fs @
     (if flags \<noteq> 0
      then [BGPCapAddPath \<lparr>cap_Type = BGPCapTypeAddPath, cap_Len = of_nat (4 * length fs)\<rparr>
              (map (add_path_of flags) fs)]
      else [])"

lemma foldl_offer_family:
  "foldl (offer_family flags) (caps, BGPCapAddPath \<lparr>cap_Type = t, cap_Len = l\<rparr> vs) fs =
   (caps @ map mp_cap fs,
    BGPCapAddPath \<lparr>cap_Type = t, cap_Len = l + of_nat (4 * length fs)\<rparr> (vs @ map (add_path_of flags) fs))"
  by (induction fs arbitrary: caps l vs)
     (simp_all add: offer_family_def mp_cap_def add_path_of_def AddPathAFISAFI_Len_def split_beta
        algebra_simps)

lemma ConstructOptParams_offered:
  "ConstructOptParams as fs rx tx = [NewBGPOptParamCapability (offered as fs (add_path_flags rx tx))]"
  by (simp add: ConstructOptParams_def offered_def NewBGPCapAddPath_def foldl_offer_family Let_def)

lemma wf_offered: "length fs \<le> 63 \<Longrightarrow> \<forall>c \<in> set (offered as fs flags). wf_cap c"
  by (auto simp: offered_def mp_cap_def NewBGPCapMPExt_def NewBGPCap4ByteASPath_def)

lemma length_offered: "length (concat (map cap_bytes (offered as fs flags))) \<le> 8 + 10 * length fs"
proof -
  have "length (concat (map cap_bytes (map mp_cap fs))) = 6 * length fs"
    by (induction fs) (simp_all add: mp_cap_def NewBGPCapMPExt_def)
  moreover have "length (concat (map addpath_bytes (map (add_path_of flags) fs))) = 4 * length fs"
    by (simp only: length_concat_addpath length_map)
  ultimately show ?thesis by (simp add: offered_def NewBGPCap4ByteASPath_def comp_def)
qed

lemma of_nat_caps:
  "\<forall>c \<in> set caps. wf_cap c \<Longrightarrow>
   (\<Sum>c\<leftarrow>caps. cap_TotalLen c) = of_nat (length (concat (map cap_bytes caps)))"
  by (induction caps) (simp_all add: length_cap_bytes)

lemma wf_NewBGPOptParamCapability:
  assumes wf: "\<forall>c \<in> set caps. wf_cap c" and short: "length (concat (map cap_bytes caps)) \<le> 253"
  shows "wf_optparam (NewBGPOptParamCapability caps)"
proof -
  let ?n = "length (concat (map cap_bytes caps))"
  have len: "(ucast (of_nat ?n :: u16) :: u8) = of_nat ?n"
    using short by (simp add: unsigned_of_nat take_bit_nat_eq_self del: length_concat)
  have "unat (of_nat ?n :: u8) = ?n" using short by (subst unat_of_nat) simp
  then show ?thesis
    using assms of_nat_caps [OF wf] len
    by (simp add: NewBGPOptParamCapability_def word_le_nat_alt del: length_concat)
qed

section \<open>What the peer reads\<close>

lemma peer_as_caps_skip:
  "\<forall>c \<in> set cs. cap_GetCode c \<noteq> BGPCapTypeAS4Path \<Longrightarrow> peer_as_caps cs a = Ok a"
  by (induction cs) simp_all

lemma peer_as_offered: "peer_as_caps (offered as fs flags) a = Ok as"
proof -
  have "peer_as_caps (tl (offered as fs flags)) as = Ok as"
    by (rule peer_as_caps_skip)
       (auto simp: offered_def mp_cap_def NewBGPCapMPExt_def cap_GetCode_def bgp_type_defs)
  then show ?thesis
    by (simp add: offered_def NewBGPCap4ByteASPath_def cap_GetCode_def)
qed

lemma cap_families_append: "cap_families (xs @ ys) m = cap_families ys (cap_families xs m)"
  by (induction xs m rule: cap_families.induct) simp_all

lemma cap_families_mp:
  "\<forall>pf \<in> set fs. pf < 65536 \<Longrightarrow>
   fst ` set (cap_families (map mp_cap fs) m) = fst ` set m \<union> set fs"
  by (induction fs arbitrary: m)
     (auto simp: mp_cap_def NewBGPCapMPExt_def GetProtocolFamily_GetAfiSafi dom_update)

lemma families_offered:
  assumes "\<forall>pf \<in> set fs. pf < 65536"
  shows "fst ` set (cap_families (offered as fs flags) []) = set fs"
  using cap_families_mp [OF assms, of "[]"]
  by (simp add: offered_def NewBGPCap4ByteASPath_def cap_families_append)

lemma first_add_path_offered:
  "first_add_path (offered as fs flags) =
   (if flags \<noteq> 0 then Some (map (add_path_of flags) fs) else None)"
proof -
  have "first_add_path (map mp_cap fs @ cs) = first_add_path cs" for cs
    by (induction fs) (simp_all add: mp_cap_def NewBGPCapMPExt_def)
  moreover from this [of "[]"] have "first_add_path (map mp_cap fs) = None" by simp
  ultimately show ?thesis
    by (simp add: offered_def NewBGPCap4ByteASPath_def)
qed

text \<open>Every family the peer lists carries exactly the flags that were offered.\<close>

definition all_flags :: "u8 \<Rightarrow> add_path_family \<Rightarrow> bool" where
  "all_flags f fam \<longleftrightarrow> (\<forall>y \<in> set fam. snd y \<noteq> [] \<and> (\<forall>x \<in> set (snd y). snd x = f))"

lemma set_alist_update: "set (AList.update k v xs) \<subseteq> insert (k, v) (set xs)"
  by (induction xs) auto

lemma alist_update_new:
  "map_of xs k = None \<Longrightarrow> AList.update k v (xs @ [(k, w)]) = xs @ [(k, v)]"
  by (induction xs) (auto split: if_splits)

lemma add_path_entry_cases:
  obtains ss where "set (add_path_entry fam a) \<subseteq> insert (ap_AFI a, put_absent (ap_SAFI a) (ap_Flags a) ss) (set fam)"
    and "ss = [] \<or> (ap_AFI a, ss) \<in> set fam"
proof (cases "map_of fam (ap_AFI a)")
  case None
  then have "add_path_entry fam a = fam @ [(ap_AFI a, put_absent (ap_SAFI a) (ap_Flags a) [])]"
    by (simp add: add_path_entry_def put_absent_def [of _ "[]"] alist_update_new Let_def map_add_def)
  then show ?thesis by (intro that [of "[]"]) auto
next
  case (Some ss)
  then have "add_path_entry fam a = AList.update (ap_AFI a) (put_absent (ap_SAFI a) (ap_Flags a) ss) fam"
    by (simp add: add_path_entry_def put_absent_def [of _ "[]"] Let_def)
  then have "set (add_path_entry fam a) \<subseteq> insert (ap_AFI a, put_absent (ap_SAFI a) (ap_Flags a) ss) (set fam)"
    by (simp only: set_alist_update)
  moreover have "(ap_AFI a, ss) \<in> set fam" using Some by (rule map_of_SomeD)
  ultimately show ?thesis using that by blast
qed

lemma put_absent_flags:
  "\<forall>x \<in> set ss. snd x = f \<Longrightarrow>
   put_absent s f ss \<noteq> [] \<and> (\<forall>x \<in> set (put_absent s f ss). snd x = f)"
  by (auto simp: put_absent_def split: option.splits)

lemma all_flags_entry:
  assumes "all_flags f fam" "ap_Flags a = f"
  shows "all_flags f (add_path_entry fam a) \<and> add_path_entry fam a \<noteq> []"
proof -
  obtain ss where
    sub: "set (add_path_entry fam a) \<subseteq> insert (ap_AFI a, put_absent (ap_SAFI a) f ss) (set fam)"
    and old: "ss = [] \<or> (ap_AFI a, ss) \<in> set fam"
    using add_path_entry_cases [of fam a] assms(2) by metis
  have "\<forall>x \<in> set ss. snd x = f" using old assms(1) by (fastforce simp: all_flags_def)
  then have "all_flags f (add_path_entry fam a)"
    using sub assms(1) put_absent_flags [of ss f "ap_SAFI a"] unfolding all_flags_def
    by (metis (no_types, lifting) insert_iff snd_conv subsetD)
  then show ?thesis by (simp add: add_path_entry_def Let_def update_nonempty)
qed

lemma all_flags_foldl:
  "all_flags f fam \<Longrightarrow> \<forall>a \<in> set vs. ap_Flags a = f \<Longrightarrow>
   all_flags f (foldl add_path_entry fam vs) \<and>
   (foldl add_path_entry fam vs = [] \<longleftrightarrow> fam = [] \<and> vs = [])"
proof (induction vs arbitrary: fam)
  case (Cons v vs)
  then show ?case using all_flags_entry [of f fam v] by simp
qed simp

lemma tx_enabled_all_flags:
  assumes "all_flags f fam"
  shows "IsAddPathsTxEnabledForIPv4 fam \<longleftrightarrow> fam \<noteq> [] \<and> f AND BGPCapAddPathTx \<noteq> 0"
proof (cases fam)
  case (Cons x rest)
  obtain afi ss where x: "x = (afi, ss)" by force
  then obtain s g ss' where "ss = (s, g) # ss'"
    using assms Cons by (cases ss) (auto simp: all_flags_def)
  then show ?thesis
    using assms Cons x by (fastforce simp: all_flags_def IsAddPathsTxEnabledForIPv4_def list_ex_iff)
qed (simp add: IsAddPathsTxEnabledForIPv4_def)

lemma add_path_flags_simps:
  "add_path_flags rx tx = 0 \<longleftrightarrow> \<not> rx \<and> tx = 0"
  "add_path_flags rx tx AND BGPCapAddPathTx \<noteq> 0 \<longleftrightarrow> tx \<noteq> 0"
  by (auto simp: add_path_flags_def BGPCapAddPathRx_def BGPCapAddPathTx_def word_gt_0 split: if_splits)

section \<open>Negotiation end to end\<close>

lemma negotiation:
  assumes fams: "\<forall>pf \<in> set families. pf < 65536" and few: "length families \<le> 23"
    and bgpid: "length (To4 (ParseIP bgpId)) = 4"
  shows "\<exists>bs m. BGPOpen_Encode (NewBGPOpen as hold bgpId (ConstructOptParams as families rx tx)) = Ok bs \<and>
           BGPOpen_Decode bs = Some (Ok m) \<and>
           open_HoldTime m = hold \<and> open_BGPId m = To4 (ParseIP bgpId) \<and>
           GetPeerAS m = Ok as \<and> GetASSize m = Ok 4 \<and>
           fst ` set (GetProtocolFromOpenMsg m) = set families \<and>
           (IsAddPathsTxEnabledForIPv4 (GetAddPathFamily m) \<longleftrightarrow> tx \<noteq> 0 \<and> families \<noteq> [])"
proof -
  define caps where "caps = offered as families (add_path_flags rx tx)"
  define m where "m = NewBGPOpen as hold bgpId (ConstructOptParams as families rx tx)"
  have wf: "\<forall>c \<in> set caps. wf_cap c" using wf_offered [of families] few unfolding caps_def by simp
  have len: "length (concat (map cap_bytes caps)) \<le> 238"
    using length_offered [of as families "add_path_flags rx tx"] few unfolding caps_def by linarith
  have params: "open_OptParams m = [NewBGPOptParamCapability caps]"
    by (simp add: m_def caps_def NewBGPOpen_def ConstructOptParams_offered)
  have wfp: "\<forall>p \<in> set (open_OptParams m). wf_optparam p"
    using wf_NewBGPOptParamCapability [OF wf] len params by simp
  have short: "length (params_bytes m) \<le> 245"
    using len by (simp add: params_bytes_def params NewBGPOptParamCapability_def)
  have plen: "open_OptParamLen m = of_nat (length (params_bytes m))"
    using of_nat_params [OF wfp] by (simp add: m_def NewBGPOpen_def params_bytes_def)
  have id4: "length (To4 (open_BGPId m)) = 4" using bgpid by (simp add: m_def NewBGPOpen_def)
  let ?m' = "m\<lparr>open_MyAS := ucast (ucast (open_MyAS m) :: u16), open_BGPId := To4 (open_BGPId m)\<rparr>"
  have code: "op_GetCode (NewBGPOptParamCapability caps) = BGPOptParamTypeCapability"
    by (simp add: op_GetCode_def NewBGPOptParamCapability_def)
  have "GetPeerAS ?m' = Ok as"
    using code by (simp add: GetPeerAS_def params) (simp add: NewBGPOptParamCapability_def caps_def peer_as_offered)
  moreover have "GetASSize ?m' = Ok 4"
    using code by (simp add: GetASSize_def params)
      (simp add: NewBGPOptParamCapability_def caps_def offered_def NewBGPCap4ByteASPath_def cap_GetCode_def)
  moreover have "fst ` set (GetProtocolFromOpenMsg ?m') = set families"
    using families_offered [OF fams]
    by (simp add: GetProtocolFromOpenMsg_def params NewBGPOptParamCapability_def caps_def)
  moreover have "IsAddPathsTxEnabledForIPv4 (GetAddPathFamily ?m') \<longleftrightarrow> tx \<noteq> 0 \<and> families \<noteq> []"
  proof (cases "add_path_flags rx tx = 0")
    case True
    then show ?thesis
      by (simp add: GetAddPathFamily_def params NewBGPOptParamCapability_def caps_def
            first_add_path_offered IsAddPathsTxEnabledForIPv4_def add_path_flags_simps)
  next
    case False
    let ?f = "add_path_flags rx tx"
    have "all_flags ?f (foldl add_path_entry [] (map (add_path_of ?f) families)) \<and>
          (foldl add_path_entry [] (map (add_path_of ?f) families) = [] \<longleftrightarrow> families = [])"
      using all_flags_foldl [of ?f "[]" "map (add_path_of ?f) families"]
      by (auto simp: all_flags_def add_path_of_def NewAddPathAFISAFI_def)
    then show ?thesis
      using False tx_enabled_all_flags add_path_flags_simps(2) [of rx tx]
      by (auto simp: GetAddPathFamily_def params NewBGPOptParamCapability_def caps_def
            first_add_path_offered)
  qed
  ultimately show ?thesis
    using BGPOpen_Encode_Ok [OF wfp id4 plen] BGPOpen_Decode_bytes [OF wfp short id4 plen]
    unfolding m_def [symmetric] by (intro exI conjI) (auto simp: m_def NewBGPOpen_def)
qed

section \<open>When the decoder of OPEN returns\<close>

lemma capability_at_total: "capability_at pkt off \<noteq> None"
  by (simp add: capability_at_def)

lemma BGPOptParamCapability_Decode_total: "BGPOptParamCapability_Decode pkt \<noteq> None"
proof (cases "BGPOptParamBase_Decode pkt")
  case (Ok b)
  have "tlv_loop capability_at capability_adv (\<lambda>c. unat (cap_TotalLen c)) pkt 2
          (int (unat (op_Len b))) [] \<noteq> None"
    by (rule tlv_loop_total) (simp_all add: capability_at_total del: not_None_eq)
  then show ?thesis
    using Ok by (auto simp: BGPOptParamCapability_Decode_def rbind_def split: outcome.splits)
qed (simp_all add: BGPOptParamCapability_Decode_def)

lemma BGPOptParamBase_Decode_mem:
  "BGPOptParamBase_Decode pkt = Ok b \<Longrightarrow> op_Len b \<in> set pkt"
  by (auto simp: BGPOptParamBase_Decode_def Let_def split: if_splits)

lemma optparam_at_mem:
  assumes "optparam_at pkt off = Some (Ok p)"
  shows "op_Len (op_base p) \<in> set pkt"
proof -
  have "off \<le> length pkt" "BGPOptParamCapability_Decode (drop off pkt) = Some (Ok p)"
    using assms by (auto simp: optparam_at_def rbind_eq_Ok slice_from_def split: if_splits)
  then have "op_Len (op_base p) \<in> set (drop off pkt)"
    by (auto simp: BGPOptParamCapability_Decode_def rbind_eq_Ok BGPOptParamBase_Decode_mem split: if_splits)
  then show ?thesis by (rule in_set_dropD)
qed

lemma op_TotalLen_zero: "unat (op_TotalLen p) = 0 \<longleftrightarrow> op_Len (op_base p) = 254"
proof -
  have "x + 2 = 0 \<longleftrightarrow> x = 254" for x :: u8
  proof
    assume "x + 2 = 0"
    then have "x = - 2" by (rule eq_neg_iff_add_eq_0 [THEN iffD2])
    then show "x = 254" by simp
  qed simp
  then show ?thesis by (simp add: op_TotalLen_def BGPOptParamBase_TotalLen_def unat_eq_0)
qed

lemma optparam_at_total: "optparam_at pkt off \<noteq> None"
proof (cases "slice_from pkt off :: (bgp_error, byte list) outcome")
  case (Ok p)
  then show ?thesis
    using BGPOptParamCapability_Decode_total [of p]
    by (cases "idx p 0 :: (bgp_error, byte) outcome") (auto simp: optparam_at_def)
qed (simp_all add: optparam_at_def)

lemma open_loop_total:
  assumes "254 \<notin> set pkt"
  shows "tlv_loop optparam_at optparam_adv (\<lambda>p. unat (op_TotalLen p)) pkt off rem acc \<noteq> None"
proof (rule tlv_loop_total)
  fix o' p assume "optparam_at pkt o' = Some (Ok p)"
  then have "op_Len (op_base p) \<noteq> 254" using optparam_at_mem assms by metis
  then show "0 < unat (op_TotalLen p)" using op_TotalLen_zero [of p] by simp
qed (rule optparam_at_total)

text \<open>The decoder of OPEN returns, with a message, an error or a panic, on every body without a
  length byte of 254.\<close>

theorem open_decode_returns:
  assumes "254 \<notin> set pkt"
  shows "\<exists>r. BGPOpen_Decode pkt = Some r"
proof -
  have "BGPOpen_Decode pkt \<noteq> None"
    unfolding BGPOpen_Decode_def
    by (intro rbind_returns open_loop_total assms) (auto split: if_splits)
  then show ?thesis by blast
qed

theorem open_decode_returns_witness:
  "\<exists>r. BGPOpen_Decode [4, 1, 1, 0, 180, 10, 0, 0, 1, 8, 2, 6, 1, 4, 0, 1, 0, 1] = Some r"
  by (rule open_decode_returns) simp

text \<open>An OPEN whose capability parameter is 254 bytes long never finishes decoding: the total length
  of the parameter is counted in eight bits and is 0, so the loop stays where it is.\<close>

theorem open_254_never_returns:
  assumes wf: "\<forall>c \<in> set caps. wf_cap c" and len: "length (concat (map cap_bytes caps)) = 254"
    and hdr: "length hdr = 9" and plen: "0 < plen"
  shows "BGPOpen_Decode (hdr @ [plen, 2, 254] @ concat (map cap_bytes caps) @ rest) = None"
proof -
  let ?p = "BGPOptParamCapability \<lparr>op_Type = 2, op_Len = 254\<rparr> caps"
  let ?body = "[2, 254] @ concat (map cap_bytes caps) @ rest"
  let ?pkt = "hdr @ [plen] @ ?body"
  have "tlv_loop capability_at capability_adv (\<lambda>c. unat (cap_TotalLen c)) ?body 2 254 [] = Some (Ok (caps, 0))"
    using capabilities.loop_round_trip [OF wf, of "[2, 254]" rest "[]"] len
    by (simp add: numeral_2_eq_2 del: length_concat)
  then have "BGPOptParamCapability_Decode ?body = Some (Ok ?p)"
    by (simp add: BGPOptParamCapability_Decode_def BGPOptParamBase_Decode_def BGPOptParamBase_TotalLen_def)
  then have stuck: "optparam_at ?pkt 10 = Some (Ok ?p)"
    using hdr by (simp add: optparam_at_def BGPOptParamTypeCapability_def)
  have "tlv_loop optparam_at optparam_adv (\<lambda>p. unat (op_TotalLen p)) ?pkt 10 (int (unat plen)) [] = None"
    using plen unfolding word_less_nat_alt
    by (intro tlv_loop_diverges [where dec = optparam_at and x = ?p] stuck)
       (simp_all only: of_nat_0_less_iff unsigned_0,
        simp_all add: op_TotalLen_def BGPOptParamBase_TotalLen_def optparam_adv_def)
  moreover obtain a b c d e f g h i where "hdr = [a, b, c, d, e, f, g, h, i]"
    using hdr by (auto simp: numeral_eq_Suc length_Suc_conv)
  ultimately show ?thesis by (simp add: BGPOpen_Decode_def)
qed

lemma zero_caps:
  "concat (map cap_bytes (replicate n (BGPCapUnknown \<lparr>cap_Type = 0, cap_Len = 0\<rparr> []))) = replicate (2 * n) 0"
  by (induction n) simp_all

theorem open_254_never_returns_witness:
  "BGPOpen_Decode ([4, 0, 1, 0, 180, 10, 0, 0, 1] @ [255, 2, 254] @ replicate 254 0 @ []) = None"
  using open_254_never_returns [of "replicate 127 (BGPCapUnknown \<lparr>cap_Type = 0, cap_Len = 0\<rparr> [])"
      "[4, 0, 1, 0, 180, 10, 0, 0, 1]" 255 "[]"]
  unfolding zero_caps by (simp add: bgp_type_defs)

section \<open>Properties\<close>

text \<open>C27: Every well-formed OPEN, with all its optional parameters and capabilities, is encoded, and
  the bytes are decoded to the same message.\<close>

theorem open_round_trip:
  assumes "wf_open m"
  shows "\<exists>bs. BGPOpen_Encode m = Ok bs \<and> BGPOpen_Decode bs = Some (Ok m)"
  using open_wire [OF assms] by blast

theorem open_round_trip_witness:
  "let m = \<lparr>open_Version = 4, open_MyAS = 100, open_HoldTime = 180, open_BGPId = [10, 0, 0, 1],
            open_OptParamLen = 16, open_OptParams =
              [BGPOptParamCapability \<lparr>op_Type = 2, op_Len = 14\<rparr>
                [BGPCapMPExt \<lparr>cap_Type = 1, cap_Len = 4\<rparr> 1 0 1,
                 BGPCapAS4Path \<lparr>cap_Type = 65, cap_Len = 4\<rparr> 70000,
                 BGPCapUnknown \<lparr>cap_Type = 2, cap_Len = 0\<rparr> []]]\<rparr>
   in \<exists>bs. BGPOpen_Encode m = Ok bs \<and> BGPOpen_Decode bs = Some (Ok m)"
  unfolding Let_def by (rule open_round_trip) (simp add: wf_open_def params_bytes_def bgp_type_defs)

text \<open>C13: A peer that decodes the OPEN a speaker builds from its configuration reads from it the
  speaker's AS number in full (four bytes), exactly the configured address families, and that the
  speaker sends additional paths exactly when it is configured to.\<close>

theorem capability_negotiation:
  assumes "\<forall>pf \<in> set families. pf < 65536" and "length families \<le> 23"
    and "length (To4 (ParseIP bgpId)) = 4"
  shows "\<exists>bs m. BGPOpen_Encode (NewBGPOpen as hold bgpId (ConstructOptParams as families rx tx)) = Ok bs \<and>
           BGPOpen_Decode bs = Some (Ok m) \<and>
           open_HoldTime m = hold \<and> open_BGPId m = To4 (ParseIP bgpId) \<and>
           GetPeerAS m = Ok as \<and> GetASSize m = Ok 4 \<and>
           fst ` set (GetProtocolFromOpenMsg m) = set families \<and>
           (IsAddPathsTxEnabledForIPv4 (GetAddPathFamily m) \<longleftrightarrow> tx \<noteq> 0 \<and> families \<noteq> [])"
  using assms by (rule negotiation)

theorem capability_negotiation_witness:
  "\<exists>bs m. BGPOpen_Encode (NewBGPOpen 70000 180 (ip_String [10, 0, 0, 1])
             (ConstructOptParams 70000 [257, 513] False 2)) = Ok bs \<and>
           BGPOpen_Decode bs = Some (Ok m) \<and>
           open_HoldTime m = 180 \<and> open_BGPId m = To4 (ParseIP (ip_String [10, 0, 0, 1])) \<and>
           GetPeerAS m = Ok 70000 \<and> GetASSize m = Ok 4 \<and>
           fst ` set (GetProtocolFromOpenMsg m) = set [257, 513] \<and>
           (IsAddPathsTxEnabledForIPv4 (GetAddPathFamily m) \<longleftrightarrow> (2 :: u8) \<noteq> 0 \<and> [257, 513 :: u32] \<noteq> [])"
  by (rule capability_negotiation) (simp_all add: ParseIP_String_v4)

text \<open>
  The bytes in the middle of an address do not reach \<open>ConvertIPBytesToUint\<close>.
\<close>

lemma ConvertIPBytesToUint_drops:
  "ConvertIPBytesToUint [a, b, c, d] = ConvertIPBytesToUint [a, b', c', d]"
proof -
  have "push_bit 16 b = 0" "push_bit 16 b' = 0" "push_bit 8 c = 0" "push_bit 8 c' = 0"
    for b b' c c' :: u8 by (auto intro!: bit_word_eqI simp: bit_simps)
  then show ?thesis by (simp add: ConvertIPBytesToUint_def)
qed

end
