(* ===== verification/BgpUpdate.thy ===== *)
theory BgpUpdate
  imports BgpAsHelpers BgpNegotiate
begin

text \<open>
  UPDATE and the message as a whole (\<open>bgp/packet/bgp.go\<close>), and the decoding step of a peer
  connection (\<open>bgp/fsm/conn.go\<close>), which owns the buffer that holds exactly one message body.
\<close>

section \<open>UPDATE\<close>

record BGPUpdate =
  upd_WithdrawnRoutesLen :: u16
  upd_WithdrawnRoutes :: "NLRI list"
  upd_TotalPathAttrLen :: u16
  upd_PathAttributes :: "BGPPathAttr list"
  upd_NLRI :: "NLRI list"

definition nlri_Encode_all :: "NLRI list \<Rightarrow> (bgp_error, byte list) outcome" where
  "nlri_Encode_all ns = obind (omap (\<lambda>n. NLRI_Encode n AfiIP) ns) (\<lambda>bss. Ok (concat bss))"

text \<open>The two length fields are computed, those of the receiver are not read.\<close>

definition BGPUpdate_Encode :: "BGPUpdate \<Rightarrow> (bgp_error, byte list) outcome" where
  "BGPUpdate_Encode u =
     obind (nlri_Encode_all (upd_WithdrawnRoutes u)) (\<lambda>wd.
     obind (omap pa_Encode (upd_PathAttributes u)) (\<lambda>pas.
     obind (nlri_Encode_all (upd_NLRI u)) (\<lambda>ns.
       Ok (put16 (of_nat (length wd)) @ wd @ put16 (of_nat (length (concat pas))) @ concat pas @ ns))))"

text \<open>\<open>BGPGetPathAttr(pkt[ptr:])\<close> and the receiver's \<open>Decode\<close>; \<open>ptr\<close> is a \<open>uint32\<close>.\<close>

definition attr_at :: "BGPPeerAttrs \<Rightarrow> byte list \<Rightarrow> nat \<Rightarrow> (bgp_error, BGPPathAttr) outcome option" where
  "attr_at peer pkt ptr = rbind (Some (slice_from pkt ptr)) (\<lambda>p. pa_Decode p peer)"

definition attr_adv :: "nat \<Rightarrow> BGPPathAttr \<Rightarrow> nat" where
  "attr_adv ptr a = (ptr + unat (pa_TotalLen a)) mod 4294967296"

definition malformed :: bgp_error where
  "malformed = BGPMessageError BGPUpdateMsgError BGPMalformedAttrList []"

text \<open>Whatever error \<open>decodeNLRI\<close> has with the withdrawn routes, the update is malformed.\<close>

definition withdrawn_Decode ::
  "byte list \<Rightarrow> u16 \<Rightarrow> BGPPeerAttrs \<Rightarrow> (bgp_error, NLRI list \<times> nat) outcome option" where
  "withdrawn_Decode p len peer =
     (case decodeNLRI p (ucast len) AfiIP peer of
        Some (Error e) \<Rightarrow> Some (Error malformed) | r \<Rightarrow> r)"

text \<open>
  The attribute loop ends with the remaining length 0 (or the update is malformed), so \<open>ptr\<close> has then
  moved by the total length of the attributes.
\<close>

definition BGPUpdate_Decode ::
  "BGPHeader \<Rightarrow> byte list \<Rightarrow> BGPPeerAttrs \<Rightarrow> (bgp_error, BGPUpdate) outcome option" where
  "BGPUpdate_Decode header pkt peer =
     rbind (Some (obind (slice pkt 0 2) Uint16)) (\<lambda>wlen.
     if unat wlen + 23 > unat (BGPHeader_Len header) then Some (Error malformed)
     else rbind (Some (slice_from pkt 2)) (\<lambda>p.
     rbind (withdrawn_Decode p wlen peer) (\<lambda>(wd, used).
     let ptr = 2 + used in
     rbind (Some (obind (slice pkt ptr (ptr + 2)) Uint16)) (\<lambda>plen.
     if unat plen + unat wlen + 23 > unat (BGPHeader_Len header) then Some (Error malformed)
     else rbind (tlv_loop (attr_at peer) attr_adv (\<lambda>a. unat (pa_TotalLen a)) pkt (ptr + 2)
                  (int (unat plen)) []) (\<lambda>(pas, rem).
     if rem < 0 then Some (Error malformed)
     else rbind (Some (slice_from pkt (ptr + 2 + unat plen))) (\<lambda>p.
     rbind (decodeNLRI p (of_nat (unat (BGPHeader_Len header) - 23 - unat wlen - unat plen)) AfiIP peer)
       (\<lambda>(ns, used).
       Some (Ok \<lparr>upd_WithdrawnRoutesLen = wlen, upd_WithdrawnRoutes = wd,
                 upd_TotalPathAttrLen = plen, upd_PathAttributes = pas, upd_NLRI = ns\<rparr>))))))))"

text \<open>\<open>checkPathAttributes\<close>, which no decoder calls.\<close>

fun duplicate_attr :: "u8 list \<Rightarrow> BGPPathAttr list \<Rightarrow> bool" where
  "duplicate_attr found [] = False"
| "duplicate_attr found (a # as) =
     (pa_GetCode a \<in> set found \<or> duplicate_attr (pa_GetCode a # found) as)"

definition checkPathAttributes :: "BGPPathAttr list \<Rightarrow> (bgp_error, unit) outcome" where
  "checkPathAttributes pas =
     (if duplicate_attr [] pas then Error malformed
      else case find (\<lambda>t. t \<notin> pa_GetCode ` set pas) BGPPathAttrWellKnownMandatory of
          Some t \<Rightarrow> Error (BGPMessageError BGPUpdateMsgError BGPMissingWellKnownAttr [t])
        | None \<Rightarrow> Ok ())"

section \<open>Messages\<close>

datatype BGPBody =
    OpenBody BGPOpen
  | UpdateBody BGPUpdate
  | KeepAliveBody
  | NotificationBody BGPNotification
  | NilBody

record BGPMessage =
  msg_Header :: BGPHeader
  msg_Body :: BGPBody

definition header_of :: "u16 \<Rightarrow> u8 \<Rightarrow> BGPHeader" where
  "header_of len t = NewBGPHeader\<lparr>bh_Length := len, bh_Type := t\<rparr>"

definition NewBGPOpenMessage :: "u32 \<Rightarrow> u16 \<Rightarrow> string \<Rightarrow> BGPOptParam list \<Rightarrow> BGPMessage" where
  "NewBGPOpenMessage myAS holdTime bgpId optParams =
     \<lparr>msg_Header = header_of 0 BGPMsgTypeOpen,
      msg_Body = OpenBody (NewBGPOpen myAS holdTime bgpId optParams)\<rparr>"

definition NewBGPKeepAliveMessage :: BGPMessage where
  "NewBGPKeepAliveMessage =
     \<lparr>msg_Header = header_of 19 BGPMsgTypeKeepAlive, msg_Body = KeepAliveBody\<rparr>"

definition NewBGPNotificationMessage :: "u8 \<Rightarrow> u8 \<Rightarrow> byte list \<Rightarrow> BGPMessage" where
  "NewBGPNotificationMessage code subcode bs =
     \<lparr>msg_Header = header_of (21 + of_nat (length bs)) BGPMsgTypeNotification,
      msg_Body = NotificationBody \<lparr>ntf_ErrorCode = code, ntf_ErrorSubcode = subcode, ntf_Data = bs\<rparr>\<rparr>"

definition NewBGPUpdateMessage :: "NLRI list \<Rightarrow> BGPPathAttr list \<Rightarrow> NLRI list \<Rightarrow> BGPMessage" where
  "NewBGPUpdateMessage wd pas ns =
     \<lparr>msg_Header = header_of 0 BGPMsgTypeUpdate,
      msg_Body = UpdateBody \<lparr>upd_WithdrawnRoutesLen = 0, upd_WithdrawnRoutes = wd,
        upd_TotalPathAttrLen = 0, upd_PathAttributes = pas, upd_NLRI = ns\<rparr>\<rparr>"

fun BGPBody_Encode :: "BGPBody \<Rightarrow> (bgp_error, byte list) outcome" where
  "BGPBody_Encode (OpenBody m) = BGPOpen_Encode m"
| "BGPBody_Encode (UpdateBody u) = BGPUpdate_Encode u"
| "BGPBody_Encode KeepAliveBody = Ok BGPKeepAlive_Encode"
| "BGPBody_Encode (NotificationBody m) = Ok (BGPNotification_Encode m)"
| "BGPBody_Encode NilBody = Panic"

text \<open>\<open>Encode\<close> fills in the length when it is 0; the bytes and the message after the call.\<close>

definition BGPMessage_Encode :: "BGPMessage \<Rightarrow> (bgp_error, byte list \<times> BGPMessage) outcome" where
  "BGPMessage_Encode m =
     obind (BGPBody_Encode (msg_Body m)) (\<lambda>body.
       if bh_Length (msg_Header m) = 0
       then if BGPMsgHeaderLen + length body > BGPMsgMaxLen then Error (BGPMessageError 0 0 [])
         else let m' = m\<lparr>msg_Header := (msg_Header m)\<lparr>bh_Length := of_nat BGPMsgHeaderLen + of_nat (length body)\<rparr>\<rparr>
              in Ok (BGPHeader_Encode (msg_Header m') @ body, m')
       else Ok (BGPHeader_Encode (msg_Header m) @ body, m))"

definition BGPMessage_Decode ::
  "BGPHeader \<Rightarrow> byte list \<Rightarrow> BGPPeerAttrs \<Rightarrow> (bgp_error, BGPMessage) outcome option" where
  "BGPMessage_Decode header pkt peer =
     (let msg = (\<lambda>b. \<lparr>msg_Header = header, msg_Body = b\<rparr>) in
      if bh_Type header = BGPMsgTypeOpen
      then rbind (BGPOpen_Decode pkt) (\<lambda>m. Some (Ok (msg (OpenBody m))))
      else if bh_Type header = BGPMsgTypeKeepAlive then Some (Ok (msg KeepAliveBody))
      else if bh_Type header = BGPMsgTypeUpdate
      then rbind (BGPUpdate_Decode header pkt peer) (\<lambda>u.
           rbind (Some (NormalizeASPath (upd_PathAttributes u) (upd_TotalPathAttrLen u))) (\<lambda>pas.
             Some (Ok (msg (UpdateBody (u\<lparr>upd_PathAttributes := pas\<rparr>))))))
      else if bh_Type header = BGPMsgTypeNotification
      then Some (obind (BGPNotification_Decode pkt) (\<lambda>m. Ok (msg (NotificationBody m))))
      else Some (Ok (msg NilBody)))"

section \<open>The decoding step of a connection (\<open>conn.go\<close>)\<close>

text \<open>A connection starts with two-byte AS numbers and no additional paths.\<close>

definition NewPeerConn_attrs :: BGPPeerAttrs where
  "NewPeerConn_attrs = \<lparr>peer_ASSize = 2, peer_AddPathFamily = [], peer_AddPathsRxActual = False\<rparr>"

text \<open>
  What an accepted OPEN does to the peer's attributes, which the later messages are decoded with.
\<close>

definition learn_peer :: "bool \<Rightarrow> BGPPeerAttrs \<Rightarrow> BGPOpen \<Rightarrow> (bgp_error, BGPPeerAttrs) outcome" where
  "learn_peer addPathsRx attrs m =
     obind (GetASSize m) (\<lambda>asSize.
       let fam = GetAddPathFamily m;
           attrs = attrs\<lparr>peer_ASSize := asSize, peer_AddPathFamily := fam\<rparr>
       in Ok (if IsAddPathsTxEnabledForIPv4 fam \<and> addPathsRx
              then attrs\<lparr>peer_AddPathsRxActual := True\<rparr> else attrs))"

text \<open>
  \<open>DecodeMessage\<close>: the message (none after an error), the error to notify the peer of, whether to
  go on reading, and the attributes.
\<close>

definition DecodeMessage ::
  "u32 \<Rightarrow> bool \<Rightarrow> BGPPeerAttrs \<Rightarrow> BGPHeader \<Rightarrow> byte list \<Rightarrow>
   (bgp_error, BGPMessage option \<times> bgp_error option \<times> bool \<times> BGPPeerAttrs) outcome option" where
  "DecodeMessage peerAS addPathsRx attrs header buf =
     (case BGPMessage_Decode header buf attrs of
        None \<Rightarrow> None
      | Some Panic \<Rightarrow> Some Panic
      | Some (Error plainError) \<Rightarrow> Some Panic
      | Some (Error e) \<Rightarrow> Some (Ok (None, Some e, False, attrs))
      | Some (Ok m) \<Rightarrow>
        (case msg_Body m of
           OpenBody op \<Rightarrow>
             Some (obind (GetPeerAS op) (\<lambda>as.
               if as \<noteq> peerAS
               then Ok (Some m, Some (BGPMessageError BGPOpenMsgError BGPBadPeerAS []), False, attrs)
               else obind (learn_peer addPathsRx attrs op) (\<lambda>attrs. Ok (Some m, None, True, attrs))))
         | NotificationBody _ \<Rightarrow> Some (Ok (Some m, None, False, attrs))
         | _ \<Rightarrow> Some (Ok (Some m, None, True, attrs))))"

end
