(* ===== verification/BgpNlriWire.thy ===== *)
theory BgpNlriWire
  imports BgpNlri
begin

text \<open>
  What \<open>bgp/packet/bgp.go\<close> promises of reachability information: what is decoded is canonical (the
  bits behind the prefix length are zero), canonical prefixes survive the wire, with or without
  path identifiers, and \<open>decodeNLRI\<close> returns.
\<close>

section \<open>Canonical prefixes\<close>

text \<open>\<open>clear_host l bs\<close>: the address with every bit from position \<open>l\<close> on cleared.\<close>

definition clear_host :: "nat \<Rightarrow> byte list \<Rightarrow> byte list" where
  "clear_host l bs = map (\<lambda>i. if 8 * i + 8 \<le> l then bs ! i
                              else if l \<le> 8 * i then 0
                              else bs ! i AND host_mask (l mod 8)) [0..<length bs]"

definition wf_prefix :: "u16 \<Rightarrow> IPPrefix \<Rightarrow> bool" where
  "wf_prefix afi p \<longleftrightarrow>
     (case map_of AFINextHopLenMap afi of
        Some n \<Rightarrow> length (pfx_Prefix p) = n \<and> unat (pfx_Length p) \<le> 8 * n \<and>
          clear_host (unat (pfx_Length p)) (pfx_Prefix p) = pfx_Prefix p
      | None \<Rightarrow> False)"

lemma length_clear_host [simp]: "length (clear_host l bs) = length bs"
  by (simp add: clear_host_def)

lemma nth_clear_host:
  "i < length bs \<Longrightarrow> clear_host l bs ! i =
     (if 8 * i + 8 \<le> l then bs ! i else if l \<le> 8 * i then 0 else bs ! i AND host_mask (l mod 8))"
  by (simp add: clear_host_def)

lemma clear_host_idem [simp]: "clear_host l (clear_host l bs) = clear_host l bs"
  by (rule nth_equalityI) (simp_all add: nth_clear_host and.assoc)

lemma clear_host_zeros: "clear_host l bs = bs \<Longrightarrow> i < length bs \<Longrightarrow> l \<le> 8 * i \<Longrightarrow> bs ! i = 0"
  using nth_clear_host [of i bs l] by (simp split: if_splits)

definition nbytes :: "nat \<Rightarrow> nat" where "nbytes l = (l + 7) div 8"

lemma clear_host_take_pad:
  assumes "clear_host l bs = bs" "nbytes l \<le> length bs"
  shows "take (nbytes l) bs @ replicate (length bs - nbytes l) 0 = bs"
proof (rule nth_equalityI)
  fix i assume i: "i < length (take (nbytes l) bs @ replicate (length bs - nbytes l) 0)"
  show "(take (nbytes l) bs @ replicate (length bs - nbytes l) 0) ! i = bs ! i"
  proof (cases "i < nbytes l")
    case False
    then have "l \<le> 8 * i" by (simp add: nbytes_def)
    then show ?thesis using False i clear_host_zeros [OF assms(1)] by (simp add: nth_append)
  qed (use i assms(2) in \<open>simp add: nth_append\<close>)
qed (use assms(2) in simp)

section \<open>Lengths\<close>

lemma unat_prefix_bytes: "unat l \<le> 248 \<Longrightarrow> unat (prefix_bytes l) = nbytes (unat l)"
  by (simp add: prefix_bytes_def nbytes_def unat_div unat_word_ariths)

lemma unat_prefix_bytes_le: "unat (prefix_bytes l) \<le> 31"
proof -
  have "unat (l + 7) < 256" by (rule unat_byte_less)
  then show ?thesis by (simp add: prefix_bytes_def unat_div)
qed

lemma unat_prefix_bytes_Suc: "unat (prefix_bytes l + 1) = unat (prefix_bytes l) + 1"
  using unat_prefix_bytes_le [of l] by (simp add: unat_word_ariths)

lemma unat_IPPrefix_Len: "unat (IPPrefix_Len p) = unat (prefix_bytes (pfx_Length p)) + 1"
  using unat_prefix_bytes_Suc [of "pfx_Length p"] by (simp add: IPPrefix_Len_def)

lemma nbytes_le: "l \<le> 8 * n \<Longrightarrow> nbytes l \<le> n"
  by (simp add: nbytes_def)

lemma NLRI_Len_bounds: "0 < unat (NLRI_Len n)" "unat (NLRI_Len n) \<le> 36"
  using unat_prefix_bytes_le [of "pfx_Length (GetIPPrefix n)"]
  by (cases n; simp add: unat_word_ariths unat_IPPrefix_Len)+

section \<open>Decoding a prefix\<close>

lemma afi_len_cases:
  "map_of AFINextHopLenMap afi = Some n \<longleftrightarrow> afi = AfiIP \<and> n = 4 \<or> afi = AfiIP6 \<and> n = 16"
  by (auto simp: AFINextHopLenMap_def afi_defs)

lemma mask_last_clear:
  assumes "unat l \<le> 8 * length q" "length q \<le> 16"
    and zeros: "\<And>i. i < length q \<Longrightarrow> nbytes (unat l) \<le> i \<Longrightarrow> q ! i = 0"
  shows "mask_last l q = Ok (clear_host (unat l) q)"
proof -
  let ?k = "nbytes (unat l)"
  have k: "unat (prefix_bytes l) = ?k" "?k \<le> length q"
    using assms(1,2) by (simp_all add: unat_prefix_bytes nbytes_le)
  have m: "unat (l mod 8) = unat l mod 8" by (simp add: unat_mod)
  have pos: "prefix_bytes l > 0 \<longleftrightarrow> ?k > 0" "l mod 8 > 0 \<longleftrightarrow> unat l mod 8 > 0"
    using k(1) m by (simp_all add: word_less_nat_alt)
  show ?thesis
  proof (cases "unat l mod 8 = 0")
    case True
    then have "clear_host (unat l) q = q"
      using zeros by (intro nth_equalityI) (auto simp: nth_clear_host nbytes_def)
    then show ?thesis using True pos by (simp add: mask_last_def Let_def)
  next
    case False
    then have kpos: "0 < ?k" by (simp add: nbytes_def)
    have "q[?k - 1 := q ! (?k - 1) AND host_mask (unat l mod 8)] = clear_host (unat l) q"
    proof (rule nth_equalityI)
      fix i assume i: "i < length (q[?k - 1 := q ! (?k - 1) AND host_mask (unat l mod 8)])"
      consider "i < ?k - 1" | "i = ?k - 1" | "?k \<le> i" by linarith
      then show "q[?k - 1 := q ! (?k - 1) AND host_mask (unat l mod 8)] ! i = clear_host (unat l) q ! i"
      proof cases
        case 1
        then have "8 * i + 8 \<le> unat l" by (simp add: nbytes_def)
        then show ?thesis using 1 i by (simp add: nth_clear_host)
      next
        case 2
        then have "\<not> 8 * i + 8 \<le> unat l" "\<not> unat l \<le> 8 * i"
          using False kpos by (simp_all add: nbytes_def) presburger+
        then show ?thesis using 2 i by (simp add: nth_clear_host)
      next
        case 3
        then have "unat l \<le> 8 * i" by (simp add: nbytes_def)
        then show ?thesis using 3 i zeros kpos by (simp add: nth_clear_host)
      qed
    qed simp
    then show ?thesis
      using False pos k kpos m by (simp add: mask_last_def Let_def set_idx_def)
  qed
qed

lemma IPPrefix_Decode_known:
  assumes n: "map_of AFINextHopLenMap afi = Some n" and l: "unat l \<le> 8 * n"
    and enough: "nbytes (unat l) \<le> length rest"
  shows "IPPrefix_Decode (l # rest) afi =
         Ok \<lparr>pfx_Length = l,
             pfx_Prefix = clear_host (unat l) (take (nbytes (unat l)) rest @ replicate (n - nbytes (unat l)) 0)\<rparr>"
proof -
  let ?k = "nbytes (unat l)"
  have n16: "n = 4 \<or> n = 16" using n by (auto simp: afi_len_cases)
  have k: "unat (prefix_bytes l) = ?k" using l n16 by (intro unat_prefix_bytes) auto
  have kn: "?k \<le> n" using l by (rule nbytes_le)
  have ok: "\<not> l > of_nat n * 8"
    using l n16 by (auto simp: word_less_nat_alt)
  have ipLen: "(if afi = AfiIP6 \<or> unat (prefix_bytes l) > IPv4len then IPv6len else IPv4len) = n"
    using n k kn by (auto simp: afi_len_cases IPv4len_def IPv6len_def afi_defs)
  have sl: "slice (l # rest) 1 (unat (prefix_bytes l + 1)) = Ok (take ?k rest)"
    using enough by (simp add: unat_prefix_bytes_Suc k slice_def)
  have cp: "copy_at (replicate n 0) 0 (take ?k rest) = Ok (take ?k rest @ replicate (n - ?k) 0)"
    using enough kn by (simp add: copy_at_def min_def)
  have "mask_last l (take ?k rest @ replicate (n - ?k) 0) =
        Ok (clear_host (unat l) (take ?k rest @ replicate (n - ?k) 0))"
    using l kn enough n16 by (intro mask_last_clear) (auto simp: nth_append)
  then show ?thesis
    using enough n ok unfolding IPPrefix_Decode_def Let_def nth_Cons_0 ipLen
    by (simp add: k sl cp del: One_nat_def)
qed

lemma IPPrefix_Decode_wf:
  assumes dec: "IPPrefix_Decode pkt afi = Ok p" and known: "map_of AFINextHopLenMap afi = Some n"
  shows "wf_prefix afi p"
proof -
  obtain l rest where pkt: "pkt = l # rest" using dec by (cases pkt) (auto simp: IPPrefix_Decode_def)
  have n16: "n = 4 \<or> n = 16" using known by (auto simp: afi_len_cases)
  have "\<not> l > of_nat n * 8" using dec known pkt by (auto simp: IPPrefix_Decode_def Let_def split: if_splits)
  then have l: "unat l \<le> 8 * n" using n16 by (auto simp: word_less_nat_alt not_less)
  then have k: "unat (prefix_bytes l) = nbytes (unat l)"
    using n16 by (intro unat_prefix_bytes) auto
  then have enough: "nbytes (unat l) \<le> length rest"
    using dec known pkt by (auto simp: IPPrefix_Decode_def Let_def split: if_splits)
  show ?thesis
    using dec nbytes_le [OF l] enough l
    unfolding pkt IPPrefix_Decode_known [OF known l enough] wf_prefix_def known
    by (auto simp: min_def)
qed

section \<open>Encoding a prefix\<close>

definition prefix_wire :: "IPPrefix \<Rightarrow> byte list" where
  "prefix_wire p = pfx_Length p # take (nbytes (unat (pfx_Length p))) (pfx_Prefix p)"

lemma wf_prefixE:
  assumes "wf_prefix afi p"
  obtains n where "map_of AFINextHopLenMap afi = Some n" "length (pfx_Prefix p) = n"
    "unat (pfx_Length p) \<le> 8 * n" "clear_host (unat (pfx_Length p)) (pfx_Prefix p) = pfx_Prefix p"
    "n = 4 \<or> n = 16" "unat (prefix_bytes (pfx_Length p)) = nbytes (unat (pfx_Length p))"
    "nbytes (unat (pfx_Length p)) \<le> n"
proof -
  obtain n where n: "map_of AFINextHopLenMap afi = Some n" "length (pfx_Prefix p) = n"
    "unat (pfx_Length p) \<le> 8 * n" "clear_host (unat (pfx_Length p)) (pfx_Prefix p) = pfx_Prefix p"
    using assms by (auto simp: wf_prefix_def split: option.splits)
  then have n16: "n = 4 \<or> n = 16" by (auto simp: afi_len_cases)
  then show thesis using n by (intro that [of n] unat_prefix_bytes nbytes_le) auto
qed

lemma IPPrefix_Encode_wf:
  assumes "wf_prefix afi p"
  shows "IPPrefix_Encode p afi = Ok (prefix_wire p)"
proof -
  obtain n where n: "map_of AFINextHopLenMap afi = Some n" "length (pfx_Prefix p) = n"
    and k: "unat (prefix_bytes (pfx_Length p)) = nbytes (unat (pfx_Length p))"
      "nbytes (unat (pfx_Length p)) \<le> n"
    using assms by (rule wf_prefixE)
  have ipLen: "(if afi = AfiIP6 then IPv6len else IPv4len) = n"
    using n by (auto simp: afi_len_cases IPv4len_def IPv6len_def afi_defs)
  show ?thesis
    using n k unfolding IPPrefix_Encode_def ipLen
    by (simp add: Let_def unat_IPPrefix_Len copy_at_def prefix_wire_def)
qed

lemma length_prefix_wire:
  "wf_prefix afi p \<Longrightarrow> length (prefix_wire p) = unat (IPPrefix_Len p)"
  by (erule wf_prefixE) (simp add: prefix_wire_def unat_IPPrefix_Len)

lemma IPPrefix_Decode_wire:
  assumes "wf_prefix afi p"
  shows "IPPrefix_Decode (prefix_wire p @ rest) afi = Ok p"
proof -
  obtain n where n: "map_of AFINextHopLenMap afi = Some n" "length (pfx_Prefix p) = n"
    "unat (pfx_Length p) \<le> 8 * n" "clear_host (unat (pfx_Length p)) (pfx_Prefix p) = pfx_Prefix p"
    and k: "nbytes (unat (pfx_Length p)) \<le> n"
    using assms by (rule wf_prefixE)
  let ?k = "nbytes (unat (pfx_Length p))"
  have "take ?k (take ?k (pfx_Prefix p) @ rest) @ replicate (n - ?k) 0 = pfx_Prefix p"
    using k n(2) clear_host_take_pad [OF n(4)] by simp
  then show ?thesis
    using IPPrefix_Decode_known [OF n(1,3), of "take ?k (pfx_Prefix p) @ rest"] n k
    by (simp add: prefix_wire_def)
qed

section \<open>Sequences of prefixes\<close>

fun wf_nlri :: "bool \<Rightarrow> u16 \<Rightarrow> NLRI \<Rightarrow> bool" where
  "wf_nlri addPaths afi (PrefixNLRI p) \<longleftrightarrow> \<not> addPaths \<and> wf_prefix afi p"
| "wf_nlri addPaths afi (ExtNLRI p pathId) \<longleftrightarrow> addPaths \<and> wf_prefix afi p"

fun nlri_wire :: "NLRI \<Rightarrow> byte list" where
  "nlri_wire (PrefixNLRI p) = prefix_wire p"
| "nlri_wire (ExtNLRI p pathId) = put32 pathId @ prefix_wire p"

lemma NLRI_Encode_wf: "wf_nlri ap afi n \<Longrightarrow> NLRI_Encode n afi = Ok (nlri_wire n)"
  by (cases n) (simp_all add: IPPrefix_Encode_wf)

lemma length_nlri_wire: "wf_nlri ap afi n \<Longrightarrow> length (nlri_wire n) = unat (NLRI_Len n)"
  using unat_prefix_bytes_le [of "pfx_Length (GetIPPrefix n)"]
  by (cases n) (simp_all add: length_prefix_wire [of afi] unat_word_ariths unat_IPPrefix_Len)

lemma prefix_wire_nonempty [simp]: "prefix_wire p \<noteq> []"
  by (simp add: prefix_wire_def)

lemma nlri_at_wire:
  assumes "wf_nlri ap afi n"
  shows "nlri_at ap afi (pre @ nlri_wire n @ rest) (length pre) = Some (Ok n)"
proof (cases n)
  case (PrefixNLRI p)
  then show ?thesis
    using assms by (simp add: nlri_at_def IPPrefix_Decode_wire)
next
  case (ExtNLRI p pathId)
  then have "5 \<le> length (nlri_wire n)"
    by (cases "prefix_wire p") (simp_all add: prefix_wire_def)
  then show ?thesis
    using assms ExtNLRI by (simp add: nlri_at_def ExtNLRI_Decode_def IPPrefix_Decode_wire)
qed

interpretation nlri: tlv "nlri_at ap afi" nlri_adv "\<lambda>n. unat (NLRI_Len n)" nlri_wire
    "wf_nlri ap afi" 4294967295 "\<lambda>_. True" for ap afi
proof
  fix n and off :: nat assume wf: "wf_nlri ap afi n"
  show "unat (NLRI_Len n) = length (nlri_wire n)" by (simp add: length_nlri_wire [OF wf])
  then show "off + length (nlri_wire n) \<le> 4294967295 \<Longrightarrow> nlri_adv off n = off + length (nlri_wire n)"
    by (simp add: nlri_adv_def)
  show "0 < length (nlri_wire n)" by (cases n) simp_all
qed (rule nlri_at_wire)

lemma decodeNLRI_wire:
  assumes wf: "\<forall>n \<in> set ns. wf_nlri (peer_AddPathsRxActual peer) afi n"
    and len: "len = of_nat (length (concat (map nlri_wire ns)))"
    and short: "length (concat (map nlri_wire ns) @ rest) < 4294967296"
  shows "decodeNLRI (concat (map nlri_wire ns) @ rest) len afi peer = Some (Ok (ns, unat len))"
proof -
  let ?w = "concat (map nlri_wire ns)"
  have unat: "unat len = length ?w" "unat (of_nat (length (?w @ rest)) :: u32) = length (?w @ rest)"
    unfolding len using short by (subst unat_of_nat; simp)+
  have "ptr_loop (nlri_at (peer_AddPathsRxActual peer) afi) nlri_adv (?w @ rest) (length ?w) 0 [] =
        Some (Ok (ns, length ?w))"
    using nlri.ptr_round_trip [OF wf, of "length ?w" "[]" rest "[]"] short by simp
  moreover have "\<not> len > of_nat (length (?w @ rest))"
    using unat by (simp add: word_less_nat_alt del: length_concat)
  ultimately show ?thesis
    unfolding decodeNLRI_def unat(1) by simp
qed

text \<open>
  On a buffer shorter than 4 GB (a BGP message has at most 65535 bytes) the cursor cannot wrap and
  every element moves it on: the loop returns whatever the bytes are.
\<close>

lemma nlri_at_bound: "nlri_at ap afi pkt ptr = Some (Ok n) \<Longrightarrow> ptr \<le> length pkt"
  by (auto simp: nlri_at_def slice_from_def split: if_splits)

lemma decodeNLRI_total:
  assumes "length pkt < 4294967000"
  shows "decodeNLRI pkt len afi peer \<noteq> None"
proof -
  have "ptr_loop (nlri_at (peer_AddPathsRxActual peer) afi) nlri_adv pkt (unat len) 0 [] \<noteq> None"
  proof (rule ptr_loop_total)
    fix p n assume "nlri_at (peer_AddPathsRxActual peer) afi pkt p = Some (Ok n)"
    then have "p \<le> length pkt" by (rule nlri_at_bound)
    then show "p < nlri_adv p n"
      using assms NLRI_Len_bounds [of n] by (simp add: nlri_adv_def)
  qed (simp add: nlri_at_def)
  then show ?thesis
    by (auto simp: decodeNLRI_def rbind_def split: outcome.splits if_splits)
qed

text \<open>Everything the loop collects is well-formed, when the family is known.\<close>

lemma nlri_at_wf:
  assumes "nlri_at ap afi pkt ptr = Some (Ok n)" "map_of AFINextHopLenMap afi = Some k"
  shows "wf_nlri ap afi n"
  using assms
  by (auto simp: nlri_at_def ExtNLRI_Decode_def IPPrefix_Decode_wf split: if_splits)

lemma decodeNLRI_wf:
  assumes dec: "decodeNLRI pkt len afi peer = Some (Ok (ns, e))"
    and known: "map_of AFINextHopLenMap afi = Some k"
  shows "\<forall>n \<in> set ns. wf_nlri (peer_AddPathsRxActual peer) afi n"
proof -
  obtain e' where "ptr_loop (nlri_at (peer_AddPathsRxActual peer) afi) nlri_adv pkt (unat len) 0 [] = Some (Ok (ns, e'))"
    using dec by (auto simp: decodeNLRI_def rbind_eq_Ok split: if_splits)
  then show ?thesis
    by (rule ptr_loop_forall) (auto intro: nlri_at_wf [OF _ known])
qed

text \<open>
  A family the tables do not know is decoded without the length check; the mask of the last byte
  then falls outside the sixteen bytes of the prefix.
\<close>

lemma unknown_family_prefix_panics:
  "length rest \<ge> 18 \<Longrightarrow> IPPrefix_Decode (137 # rest) 99 = Panic"
  by (simp add: IPPrefix_Decode_def AFINextHopLenMap_def afi_defs prefix_bytes_def IPv4len_def
        IPv6len_def copy_at_def mask_last_def idx_def Let_def slice_def)

section \<open>Properties\<close>

text \<open>C25: Every prefix that \<open>decodeNLRI\<close> returns for a known address family has an address of that
  family's size, a prefix length within it, and no bit set behind the prefix length; it carries a
  path identifier exactly when additional paths were negotiated.\<close>

theorem decoded_prefixes_canonical:
  assumes "decodeNLRI pkt len afi peer = Some (Ok (ns, e))"
    and "map_of AFINextHopLenMap afi = Some k"
  shows "\<forall>n \<in> set ns. wf_nlri (peer_AddPathsRxActual peer) afi n"
  using assms by (rule decodeNLRI_wf)

text \<open>C26: A sequence of canonical prefixes is encoded, and the bytes are decoded to the same sequence,
  whatever follows them in the message.\<close>

theorem nlri_round_trip:
  assumes "\<forall>n \<in> set ns. wf_nlri (peer_AddPathsRxActual peer) afi n"
    and "length (concat (map nlri_wire ns) @ rest) < 4294967296"
  shows "\<exists>bss. omap (\<lambda>n. NLRI_Encode n afi) ns = Ok bss \<and>
           decodeNLRI (concat bss @ rest) (of_nat (length (concat bss))) afi peer =
           Some (Ok (ns, length (concat bss)))"
proof -
  have "omap (\<lambda>n. NLRI_Encode n afi) ns = Ok (map nlri_wire ns)"
    using assms(1) by (intro omap_Ok) (auto intro: NLRI_Encode_wf)
  moreover have "unat (of_nat (length (concat (map nlri_wire ns))) :: u32) = length (concat (map nlri_wire ns))"
    using assms(2) by (subst unat_of_nat) simp
  ultimately show ?thesis
    using decodeNLRI_wire [OF assms(1) refl assms(2)] by simp
qed

theorem nlri_round_trip_witness:
  "let peer = \<lparr>peer_ASSize = 4, peer_AddPathFamily = [], peer_AddPathsRxActual = False\<rparr>;
       ns = [PrefixNLRI \<lparr>pfx_Length = 20, pfx_Prefix = [10, 1, 0xF0, 0]\<rparr>,
             PrefixNLRI \<lparr>pfx_Length = 0, pfx_Prefix = [0, 0, 0, 0]\<rparr>]
   in \<exists>bss. omap (\<lambda>n. NLRI_Encode n AfiIP) ns = Ok bss \<and>
           decodeNLRI (concat bss @ [24]) (of_nat (length (concat bss))) AfiIP peer =
           Some (Ok (ns, length (concat bss)))"
  unfolding Let_def
  by (rule nlri_round_trip)
     (simp_all add: wf_prefix_def AFINextHopLenMap_def clear_host_def host_mask_def nbytes_def
        upt_rec prefix_wire_def)

theorem decoded_prefixes_canonical_witness:
  "wf_nlri True AfiIP (ExtNLRI \<lparr>pfx_Length = 20, pfx_Prefix = [10, 1, 0xF0, 0]\<rparr> 7)"
proof -
  let ?peer = "\<lparr>peer_ASSize = 4, peer_AddPathFamily = [], peer_AddPathsRxActual = True\<rparr>"
  have "decodeNLRI (concat (map nlri_wire [ExtNLRI \<lparr>pfx_Length = 20, pfx_Prefix = [10, 1, 0xF0, 0]\<rparr> 7]) @ [])
          8 AfiIP ?peer = Some (Ok ([ExtNLRI \<lparr>pfx_Length = 20, pfx_Prefix = [10, 1, 0xF0, 0]\<rparr> 7], unat (8 :: u32)))"
    by (rule decodeNLRI_wire)
       (simp_all add: wf_prefix_def AFINextHopLenMap_def clear_host_def host_mask_def nbytes_def
          upt_rec prefix_wire_def)
  from decoded_prefixes_canonical [OF this, of 4] show ?thesis
    by (simp add: AFINextHopLenMap_def)
qed

end
