(* ===== verification/BgpAttrWire.thy ===== *)
theory BgpAttrWire
  imports BgpAttrs BgpNlriWire
begin

text \<open>
  What \<open>bgp/packet\<close> promises of path attributes: every well-formed attribute, of every kind the
  decoder knows, is encoded and decoded to itself. \<open>wf_attr\<close> says what well-formed means: a header
  whose flags and length the tables accept, the length of the value, and for each kind what its
  value must be.
\<close>

section \<open>The attribute header\<close>

definition hdr_bytes :: "BGPPathAttrBase \<Rightarrow> byte list" where
  "hdr_bytes b = [pa_Flags b, pa_Code b] @
     (if pa_Flags b AND BGPPathAttrFlagExtendedLen \<noteq> 0 then put16 (pa_Length b) else [ucast (pa_Length b)])"

text \<open>The flags and the length the code of the attribute calls for.\<close>

definition flags_ok :: "BGPPathAttrBase \<Rightarrow> bool" where
  "flags_ok b \<longleftrightarrow>
     (case map_of BGPPathAttrTypeFlagsMap (pa_Code b) of
        Some (want, cmp) \<Rightarrow> (want XOR pa_Flags b) AND cmp = 0 | None \<Rightarrow> True) \<and>
     (pa_Flags b AND BGPPathAttrFlagOptional \<noteq> 0 \<or> pa_Flags b AND BGPPathAttrFlagTransitive \<noteq> 0) \<and>
     (pa_Flags b AND BGPPathAttrFlagPartial \<noteq> 0 \<longrightarrow>
        pa_Flags b AND BGPPathAttrFlagOptional \<noteq> 0 \<and> pa_Flags b AND BGPPathAttrFlagTransitive \<noteq> 0) \<and>
     (pa_Flags b AND BGPPathAttrFlagOptional = 0 \<longrightarrow> pa_Code b < BGPPathAttrTypeUnknown)"

definition len_ok :: "BGPPathAttrBase \<Rightarrow> bool" where
  "len_ok b \<longleftrightarrow>
     (case map_of BGPPathAttrTypeLenMap (pa_Code b) of Some l \<Rightarrow> l = pa_Length b | None \<Rightarrow> True)"

definition hdr_len_ok :: "BGPPathAttrBase \<Rightarrow> bool" where
  "hdr_len_ok b \<longleftrightarrow>
     (if pa_Flags b AND BGPPathAttrFlagExtendedLen \<noteq> 0 then pa_HdrLen b = 4
      else pa_HdrLen b = 3 \<and> pa_Length b < 256)"

definition wf_hdr :: "BGPPathAttrBase \<Rightarrow> bool" where
  "wf_hdr b \<longleftrightarrow> hdr_len_ok b \<and> unat (pa_Length b) < 65532 \<and> flags_ok b \<and> len_ok b"

lemma hdr_len_ok_unat:
  "hdr_len_ok b \<Longrightarrow> unat (pa_HdrLen b) = length (hdr_bytes b)"
  by (auto simp: hdr_len_ok_def hdr_bytes_def split: if_splits)

lemma length_hdr_bytes: "length (hdr_bytes b) = 3 \<or> length (hdr_bytes b) = 4"
  by (simp add: hdr_bytes_def)

lemma unat_base_TotalLen: "unat (base_TotalLen b) = unat (pa_Length b) + unat (pa_HdrLen b)"
  using unat_u16_less [of "pa_Length b"] unat_u16_less [of "pa_HdrLen b"]
  by (simp add: base_TotalLen_def unat_word_ariths)

lemma base_Encode_wf:
  assumes "hdr_len_ok b"
  shows "BGPPathAttrBase_Encode b = Ok (hdr_bytes b @ replicate (unat (pa_Length b)) 0)"
proof -
  have "unat (base_TotalLen b) = length (hdr_bytes b) + unat (pa_Length b)"
    by (simp add: unat_base_TotalLen hdr_len_ok_unat [OF assms])
  then show ?thesis
    using length_hdr_bytes [of b] assms
    by (auto simp: BGPPathAttrBase_Encode_def set_idx_def PutUint16_def write_at_def hdr_bytes_def
          numeral_3_eq_3 numeral_2_eq_2 numeral_eq_Suc)
qed

lemma read_attr_header_wf:
  assumes "hdr_len_ok b"
  shows "read_attr_header (hdr_bytes b @ rest) = Ok b"
proof (cases "pa_Flags b AND BGPPathAttrFlagExtendedLen = 0")
  case False
  then show ?thesis
    using assms by (cases b) (simp add: read_attr_header_def hdr_bytes_def hdr_len_ok_def put16_def)
next
  case True
  have "(ucast (ucast (pa_Length b) :: u8) :: u16) = pa_Length b"
  proof (rule bit_word_eqI)
    fix n :: nat
    show "bit (ucast (ucast (pa_Length b) :: u8) :: u16) n = bit (pa_Length b) n"
      using bit_small [of "pa_Length b" n 8] assms True
      by (auto simp: bit_simps hdr_len_ok_def)
  qed
  then show ?thesis
    using True assms by (cases b) (simp add: read_attr_header_def hdr_bytes_def hdr_len_ok_def)
qed

lemma unat_hdr_value:
  assumes "hdr_len_ok b" "unat (pa_Length b) < 65532"
  shows "unat (pa_HdrLen b + pa_Length b) = length (hdr_bytes b) + unat (pa_Length b)"
  using assms length_hdr_bytes [of b] hdr_len_ok_unat [OF assms(1)]
  by (auto simp: unat_word_ariths)

lemma base_Decode_wf:
  assumes wf: "wf_hdr b" and enough: "unat (pa_Length b) \<le> length rest"
  shows "BGPPathAttrBase_Decode (hdr_bytes b @ rest) = Ok b"
proof -
  have hdr: "hdr_len_ok b" "unat (pa_Length b) < 65532" "flags_ok b" "len_ok b"
    using wf by (auto simp: wf_hdr_def)
  have "\<not> length (hdr_bytes b @ rest) < unat (pa_Length b + pa_HdrLen b)"
    using unat_hdr_value [OF hdr(1,2)] enough by (simp add: add.commute)
  moreover have "checkFlags (hdr_bytes b @ rest) b = Ok ()"
    using hdr(3) by (auto simp: flags_ok_def checkFlags_def)
  moreover have "\<not> (case map_of BGPPathAttrTypeFlagsMap (pa_Code b) of
                 Some (want, cmp) \<Rightarrow> (want XOR pa_Flags b) AND cmp \<noteq> 0 | None \<Rightarrow> False)"
    using hdr(3) by (auto simp: flags_ok_def split: option.splits)
  moreover have "\<not> (case map_of BGPPathAttrTypeLenMap (pa_Code b) of
              Some l \<Rightarrow> l \<noteq> pa_Length b | None \<Rightarrow> False)"
    using hdr(4) by (auto simp: len_ok_def split: option.splits)
  moreover have "\<not> (pa_Flags b AND BGPPathAttrFlagOptional = 0 \<and> pa_Code b \<ge> BGPPathAttrTypeUnknown)"
    using hdr(3) by (auto simp: flags_ok_def)
  ultimately show ?thesis
    unfolding BGPPathAttrBase_Decode_def read_attr_header_wf [OF hdr(1)] check_attr_header_def
    by (simp; blast)
qed

text \<open>What the decoders read behind the header.\<close>

lemma value_wf:
  assumes "hdr_len_ok b" "unat (pa_Length b) < 65532" "length body = unat (pa_Length b)"
  shows "attr_value (hdr_bytes b @ body @ rest) b (pa_Length b) = Ok body"
    and "attr_rest (hdr_bytes b @ body @ rest) (pa_HdrLen b) = Ok (body @ rest)"
  using assms by (simp_all add: attr_value_def attr_rest_def unat_hdr_value hdr_len_ok_unat)

lemma copy_new_id [simp]: "length v = n \<Longrightarrow> copy_new n v = Ok v"
  by (simp add: copy_new_def copy_at_def)

lemma copy_new_take: "n \<le> length v \<Longrightarrow> copy_new n v = Ok (take n v)"
  by (simp add: copy_new_def copy_at_def)

section \<open>Segments\<close>

definition wf_seg2 :: "BGPAS2PathSegment \<Rightarrow> bool" where
  "wf_seg2 s \<longleftrightarrow> seg_AS2 s \<noteq> [] \<and> length (seg_AS2 s) \<le> 126 \<and>
     seg_Length s = of_nat (length (seg_AS2 s)) \<and> seg_TotalLen s = of_nat (2 * length (seg_AS2 s) + 2)"

definition wf_seg4 :: "BGPAS4PathSegment \<Rightarrow> bool" where
  "wf_seg4 s \<longleftrightarrow> seg_AS4 s \<noteq> [] \<and> length (seg_AS4 s) \<le> 63 \<and>
     seg_Length s = of_nat (length (seg_AS4 s)) \<and> seg_TotalLen s = of_nat (4 * length (seg_AS4 s) + 2)"

fun wf_seg :: "u8 \<Rightarrow> BGPASPathSegment \<Rightarrow> bool" where
  "wf_seg asSize (AS2Segment s) \<longleftrightarrow> asSize \<noteq> 4 \<and> wf_seg2 s"
| "wf_seg asSize (AS4Segment s) \<longleftrightarrow> asSize = 4 \<and> wf_seg4 s"

definition seg2_wire :: "BGPAS2PathSegment \<Rightarrow> byte list" where
  "seg2_wire s = [seg_Type s, seg_Length s] @ concat (map put16 (seg_AS2 s))"

definition seg4_wire :: "BGPAS4PathSegment \<Rightarrow> byte list" where
  "seg4_wire s = [seg_Type s, seg_Length s] @ concat (map put32 (seg_AS4 s))"

fun seg_wire :: "BGPASPathSegment \<Rightarrow> byte list" where
  "seg_wire (AS2Segment s) = seg2_wire s"
| "seg_wire (AS4Segment s) = seg4_wire s"

lemma length_concat_put16 [simp]: "length (concat (map put16 xs)) = 2 * length xs"
  by (induction xs) simp_all

lemma length_concat_put32 [simp]: "length (concat (map put32 xs)) = 4 * length xs"
  by (induction xs) simp_all

lemma nth_concat_put16:
  "i < length xs \<Longrightarrow>
   be16 ((concat (map put16 xs) @ rest) ! (2 * i)) ((concat (map put16 xs) @ rest) ! (2 * i + 1)) = xs ! i"
proof (induction xs arbitrary: i)
  case (Cons x xs)
  then show ?case by (cases i) (simp_all add: put16_def)
qed simp

lemma nth_concat_put32:
  "i < length xs \<Longrightarrow>
   be32 ((concat (map put32 xs) @ rest) ! (4 * i)) ((concat (map put32 xs) @ rest) ! (4 * i + 1))
        ((concat (map put32 xs) @ rest) ! (4 * i + 2)) ((concat (map put32 xs) @ rest) ! (4 * i + 3)) = xs ! i"
proof (induction xs arbitrary: i)
  case (Cons x xs)
  obtain p q r s where "put32 x = [p, q, r, s]" "be32 p q r s = x"
    by (simp add: put32_def)
  then show ?case using Cons by (cases i) (simp_all add: numeral_eq_Suc)
qed simp

lemma unat_small8: "n < 256 \<Longrightarrow> unat (of_nat n :: u8) = n"
  by (subst unat_of_nat) simp

lemma unat_small16: "n < 65536 \<Longrightarrow> unat (of_nat n :: u16) = n"
  by (subst unat_of_nat) simp

lemma ucast_small8: "n < 256 \<Longrightarrow> (ucast (of_nat n :: u8) :: u16) = of_nat n"
  by (simp add: unsigned_of_nat take_bit_nat_eq_self)

lemma ucast_small16: "n < 65536 \<Longrightarrow> (ucast (of_nat n :: u16) :: u32) = of_nat n"
  by (simp add: unsigned_of_nat take_bit_nat_eq_self)

lemma ucast_unat: "(ucast (l :: u8) :: u32) = of_nat (unat l)"
  by simp

lemma AS2_Decode_wire:
  assumes "wf_seg2 s"
  shows "BGPAS2PathSegment_Decode (seg2_wire s @ rest) = Ok s"
proof -
  let ?n = "length (seg_AS2 s)"
  have n: "0 < ?n" "?n \<le> 126" "seg_Length s = of_nat ?n" "seg_TotalLen s = of_nat (2 * ?n + 2)"
    using assms by (auto simp: wf_seg2_def)
  have l: "unat (seg_Length s) = ?n" using n by (simp add: unat_small8)
  have tot: "ucast (seg_Length s * 2 + 2) = seg_TotalLen s"
    using n ucast_small8 [of "2 * ?n + 2"] by (simp add: mult.commute add.commute)
  have "map (\<lambda>i. be16 ((seg2_wire s @ rest) ! (i * 2 + 2)) ((seg2_wire s @ rest) ! (i * 2 + 3))) [0..<?n] = seg_AS2 s"
    using nth_concat_put16 [of _ "seg_AS2 s" rest]
    by (intro nth_equalityI) (simp_all add: seg2_wire_def mult.commute numeral_3_eq_3)
  then show ?thesis
    using n l tot
    by (cases s) (simp add: BGPAS2PathSegment_Decode_def BGPASPathSegmentBase_Decode_def seg2_wire_def)
qed

lemma AS4_Decode_wire:
  assumes "wf_seg4 s"
  shows "BGPAS4PathSegment_Decode (seg4_wire s @ rest) = Ok s"
proof -
  let ?n = "length (seg_AS4 s)"
  have n: "0 < ?n" "?n \<le> 63" "seg_Length s = of_nat ?n" "seg_TotalLen s = of_nat (4 * ?n + 2)"
    using assms by (auto simp: wf_seg4_def)
  have l: "unat (seg_Length s) = ?n" using n by (simp add: unat_small8)
  have tot: "ucast (seg_Length s * 4 + 2) = seg_TotalLen s"
    using n ucast_small8 [of "4 * ?n + 2"] by (simp add: mult.commute add.commute)
  have "map (\<lambda>i. be32 ((seg4_wire s @ rest) ! (i * 4 + 2)) ((seg4_wire s @ rest) ! (i * 4 + 3))
                    ((seg4_wire s @ rest) ! (i * 4 + 4)) ((seg4_wire s @ rest) ! (i * 4 + 5))) [0..<?n] = seg_AS4 s"
    using nth_concat_put32 [of _ "seg_AS4 s" rest]
    by (intro nth_equalityI) (simp_all add: seg4_wire_def mult.commute eval_nat_numeral)
  then show ?thesis
    using n l tot
    by (cases s) (simp add: BGPAS4PathSegment_Decode_def BGPASPathSegmentBase_Decode_def seg4_wire_def)
qed

lemma length_seg2_wire: "wf_seg2 s \<Longrightarrow> unat (seg_TotalLen s) = length (seg2_wire s)"
  using unat_small16 [of "2 * length (seg_AS2 s) + 2"] by (simp add: wf_seg2_def seg2_wire_def)

lemma length_seg4_wire: "wf_seg4 s \<Longrightarrow> unat (seg_TotalLen s) = length (seg4_wire s)"
  using unat_small16 [of "4 * length (seg_AS4 s) + 2"] by (simp add: wf_seg4_def seg4_wire_def)

lemma seg_Decode_wire:
  assumes "wf_seg asSize s"
  shows "segment_Decode asSize (seg_wire s @ rest) = Ok s"
proof (cases s)
  case (AS2Segment t)
  then show ?thesis using assms AS2_Decode_wire [of t rest] by (simp add: segment_Decode_def)
next
  case (AS4Segment t)
  then show ?thesis using assms AS4_Decode_wire [of t rest] by (simp add: segment_Decode_def)
qed

lemma seg_wire_facts:
  assumes "wf_seg asSize s"
  shows "unat (seg_size s) = length (seg_wire s)" and "0 < length (seg_wire s)"
  using assms
  by (cases s, simp_all add: length_seg2_wire length_seg4_wire)
     (cases s, simp_all add: seg2_wire_def seg4_wire_def)

lemma as_path_loop_wire:
  assumes dec: "\<And>s r. good s \<Longrightarrow> dec (w s @ r) = Ok s"
    and len: "\<And>s. good s \<Longrightarrow> unat (seglen s) = length (w s)"
    and pos: "\<And>s. good s \<Longrightarrow> 0 < length (w s)"
  shows "\<forall>s \<in> set ss. good s \<Longrightarrow> stop = length pre + length (concat (map w ss)) \<Longrightarrow> stop < 4294967296 \<Longrightarrow>
         as_path_loop dec seglen (pre @ concat (map w ss) @ rest) stop (length pre) acc =
         Some (Ok (acc @ ss))"
proof (induction ss arbitrary: pre acc)
  case Nil
  then show ?case by (simp add: as_path_loop.simps)
next
  case (Cons s ss)
  let ?tail = "concat (map w ss)"
  have wf: "good s" using Cons.prems by simp
  have "as_path_loop dec seglen ((pre @ w s) @ ?tail @ rest) stop (length (pre @ w s)) (acc @ [s]) =
        Some (Ok ((acc @ [s]) @ ss))"
    using Cons.prems by (intro Cons.IH) auto
  moreover have "length pre < stop" "(length pre + unat (seglen s)) mod 4294967296 = length (pre @ w s)"
    "\<not> length (pre @ w s) > stop"
    using Cons.prems pos [OF wf] len [OF wf] by auto
  ultimately show ?case
    using dec [OF wf, of "?tail @ rest"] by (subst as_path_loop.simps) simp
qed

section \<open>Filling a zeroed buffer\<close>

lemma fill:
  assumes "off = length pre" "length bs \<le> n"
  shows "copy_at (pre @ replicate n 0) off bs = Ok (pre @ bs @ replicate (n - length bs) 0)"
    and "write_at (pre @ replicate n 0) off bs = Ok (pre @ bs @ replicate (n - length bs) 0)"
  using assms by (simp_all add: copy_at_def write_at_def)

lemma fill_idx:
  assumes "off = length pre" "0 < n"
  shows "set_idx (pre @ replicate n 0) off v = Ok ((pre @ [v]) @ replicate (n - 1) 0)"
  using assms by (cases n) (simp_all add: set_idx_def)

lemma segs_Encode_wire:
  "\<forall>s \<in> set ss. wf_seg asSize s \<Longrightarrow> unat off = length pre \<Longrightarrow>
   length pre + length (concat (map seg_wire ss)) < 65536 \<Longrightarrow> n = length (concat (map seg_wire ss)) \<Longrightarrow>
   segs_Encode (pre @ replicate n 0) off ss = Ok (pre @ concat (map seg_wire ss))"
proof (induction ss arbitrary: pre off n)
  case (Cons s ss)
  have wf: "wf_seg asSize s" using Cons.prems by simp
  have "seg_Encode (pre @ replicate n 0) (unat off) s =
        Ok ((pre @ seg_wire s) @ replicate (length (concat (map seg_wire ss))) 0)"
    using Cons.prems fill(2) [of "unat off" pre "seg_wire s" n]
    by (cases s) (simp_all add: seg2_wire_def seg4_wire_def)
  moreover have "unat (off + seg_size s) = length (pre @ seg_wire s)"
    using Cons.prems seg_wire_facts(1) [OF wf] by (simp add: unat_word_ariths)
  ultimately show ?case
    using Cons.IH [of "off + seg_size s" "pre @ seg_wire s"] Cons.prems by simp
qed simp

lemma put32s_wire:
  "unat off = length pre \<Longrightarrow> length pre + 4 * length vs < 65536 \<Longrightarrow> n = 4 * length vs \<Longrightarrow>
   put32s (pre @ replicate n 0) off vs = Ok (pre @ concat (map put32 vs))"
proof (induction vs arbitrary: pre off n)
  case (Cons v vs)
  have "PutUint32 (pre @ replicate n 0) (unat off) v =
        (Ok ((pre @ put32 v) @ replicate (4 * length vs) 0) :: (bgp_error, byte list) outcome)"
    using Cons.prems fill(2) [of "unat off" pre "put32 v" n] by (simp add: PutUint32_def)
  moreover have "unat (off + 4) = length (pre @ put32 v)"
    using Cons.prems by (simp add: unat_word_ariths)
  ultimately show ?case
    using Cons.IH [of "off + 4" "pre @ put32 v"] Cons.prems by simp
qed simp

lemma copy_each_wire:
  "off = length pre \<Longrightarrow> n = length (concat bss) \<Longrightarrow>
   copy_each (pre @ replicate n 0) off bss = Ok (pre @ concat bss)"
proof (induction bss arbitrary: pre off n)
  case (Cons bs bss)
  have "copy_at (pre @ replicate n 0) off bs =
        (Ok ((pre @ bs) @ replicate (length (concat bss)) 0) :: (bgp_error, byte list) outcome)"
    using Cons.prems fill(1) [of off pre bs n] by simp
  then show ?case using Cons.IH [of "length (pre @ bs)" "pre @ bs"] Cons.prems by simp
qed simp

section \<open>Attributes\<close>

fun agg_wire :: "BGPAggregatorAS \<Rightarrow> byte list" where
  "agg_wire (BGPAggregator2ByteAS as) = put16 as"
| "agg_wire (BGPAggregator4ByteAS as) = put32 as"

fun wf_agg :: "u8 \<Rightarrow> BGPAggregatorAS \<Rightarrow> bool" where
  "wf_agg asSize (BGPAggregator2ByteAS as) \<longleftrightarrow> asSize = 2"
| "wf_agg asSize (BGPAggregator4ByteAS as) \<longleftrightarrow> asSize = 4"

fun nh_wire :: "MPNextHop \<Rightarrow> byte list" where
  "nh_wire (MPNextHopIP l v) =
     [l] @ (if l = 4 then drop 12 v else v) @ replicate (if l = 32 then 16 else 0) 0"
| "nh_wire (MPNextHopIP6 l v ll) = [l] @ v @ ll"
| "nh_wire (MPNextHopUnknown l v) = [l] @ v"

fun wf_nh :: "MPNextHop \<Rightarrow> bool" where
  "wf_nh (MPNextHopIP l v) \<longleftrightarrow>
     length v = 16 \<and> (l = 4 \<and> take 12 v = v4InV6Prefix \<or> l = 16 \<or> l = 32)"
| "wf_nh _ \<longleftrightarrow> False"

fun pa_body :: "BGPPathAttr \<Rightarrow> byte list" where
  "pa_body (BGPPathAttrOrigin b v) = [v]"
| "pa_body (BGPPathAttrASPath b segs sz) = concat (map seg_wire segs)"
| "pa_body (BGPPathAttrNextHop b v) = v"
| "pa_body (BGPPathAttrMultiExitDisc b v) = put32 v"
| "pa_body (BGPPathAttrLocalPref b v) = put32 v"
| "pa_body (BGPPathAttrAtomicAggregate b) = []"
| "pa_body (BGPPathAttrAggregator b as ip) = (case as of None \<Rightarrow> [] | Some a \<Rightarrow> agg_wire a @ ip)"
| "pa_body (BGPPathAttrOriginatorId b v) = v"
| "pa_body (BGPPathAttrClusterList b vs) = concat (map put32 vs)"
| "pa_body (BGPPathAttrMPReachNLRI b afi safi nh r ns) =
     put16 afi @ [safi] @ (case nh of None \<Rightarrow> [] | Some h \<Rightarrow> nh_wire h) @ [r] @ concat (map nlri_wire ns)"
| "pa_body (BGPPathAttrMPUnreachNLRI b afi safi ns) = put16 afi @ [safi] @ concat (map nlri_wire ns)"
| "pa_body (BGPPathAttrAS4Path b segs) = concat (map seg4_wire segs)"
| "pa_body (BGPPathAttrAS4Aggregator b as ip) = put32 as @ ip"
| "pa_body (BGPPathAttrCommunity b vs) = concat (map put32 vs)"
| "pa_body (BGPPathAttrExtCommunity b vs) = concat (map put64 vs)"
| "pa_body (BGPPathAttrUnknown b v) = v"

fun pa_code_of :: "BGPPathAttr \<Rightarrow> u8 \<Rightarrow> bool" where
  "pa_code_of (BGPPathAttrOrigin _ _) c \<longleftrightarrow> c = BGPPathAttrTypeOrigin"
| "pa_code_of (BGPPathAttrASPath _ _ _) c \<longleftrightarrow> c = BGPPathAttrTypeASPath"
| "pa_code_of (BGPPathAttrNextHop _ _) c \<longleftrightarrow> c = BGPPathAttrTypeNextHop"
| "pa_code_of (BGPPathAttrMultiExitDisc _ _) c \<longleftrightarrow> c = BGPPathAttrTypeMultiExitDisc"
| "pa_code_of (BGPPathAttrLocalPref _ _) c \<longleftrightarrow> c = BGPPathAttrTypeLocalPref"
| "pa_code_of (BGPPathAttrAtomicAggregate _) c \<longleftrightarrow> c = BGPPathAttrTypeAtomicAggregate"
| "pa_code_of (BGPPathAttrAggregator _ _ _) c \<longleftrightarrow> c = BGPPathAttrTypeAggregator"
| "pa_code_of (BGPPathAttrOriginatorId _ _) c \<longleftrightarrow> c = BGPPathAttrTypeOriginatorId"
| "pa_code_of (BGPPathAttrClusterList _ _) c \<longleftrightarrow> c = BGPPathAttrTypeClusterList"
| "pa_code_of (BGPPathAttrMPReachNLRI _ _ _ _ _ _) c \<longleftrightarrow> c = BGPPathAttrTypeMPReachNLRI"
| "pa_code_of (BGPPathAttrMPUnreachNLRI _ _ _ _) c \<longleftrightarrow> c = BGPPathAttrTypeMPUnreachNLRI"
| "pa_code_of (BGPPathAttrAS4Path _ _) c \<longleftrightarrow> c = BGPPathAttrTypeAS4Path"
| "pa_code_of (BGPPathAttrAS4Aggregator _ _ _) c \<longleftrightarrow> c = BGPPathAttrTypeAS4Aggregator"
| "pa_code_of (BGPPathAttrCommunity _ _) c \<longleftrightarrow> False"
| "pa_code_of (BGPPathAttrExtCommunity _ _) c \<longleftrightarrow> False"
| "pa_code_of (BGPPathAttrUnknown _ _) c \<longleftrightarrow> c \<notin> {1, 2, 3, 4, 5, 6, 7, 9, 10, 14, 15, 17, 18}"

text \<open>What each kind of attribute asks of its value.\<close>

fun wf_value :: "BGPPeerAttrs \<Rightarrow> BGPPathAttr \<Rightarrow> bool" where
  "wf_value peer (BGPPathAttrOrigin b v) \<longleftrightarrow> v < BGPPathAttrOriginMax"
| "wf_value peer (BGPPathAttrASPath b segs sz) \<longleftrightarrow>
     sz = peer_ASSize peer \<and> (\<forall>s \<in> set segs. wf_seg sz s)"
| "wf_value peer (BGPPathAttrAggregator b as ip) \<longleftrightarrow>
     (case as of None \<Rightarrow> False | Some a \<Rightarrow> wf_agg (peer_ASSize peer) a) \<and> length ip = 4"
| "wf_value peer (BGPPathAttrMPReachNLRI b afi safi nh r ns) \<longleftrightarrow>
     (afi = AfiIP \<or> afi = AfiIP6) \<and> (case nh of None \<Rightarrow> False | Some h \<Rightarrow> wf_nh h) \<and> r = 0 \<and>
     (\<forall>n \<in> set ns. wf_nlri (peer_AddPathsRxActual peer) afi n)"
| "wf_value peer (BGPPathAttrMPUnreachNLRI b afi safi ns) \<longleftrightarrow>
     (\<forall>n \<in> set ns. wf_nlri (peer_AddPathsRxActual peer) afi n)"
| "wf_value peer (BGPPathAttrAS4Path b segs) \<longleftrightarrow> (\<forall>s \<in> set segs. wf_seg4 s)"
| "wf_value peer (BGPPathAttrAS4Aggregator b as ip) \<longleftrightarrow> length ip = 4"
| "wf_value peer _ \<longleftrightarrow> True"

definition wf_attr :: "BGPPeerAttrs \<Rightarrow> BGPPathAttr \<Rightarrow> bool" where
  "wf_attr peer a \<longleftrightarrow> wf_hdr (pa_base a) \<and> pa_code_of a (pa_Code (pa_base a)) \<and>
     pa_Length (pa_base a) = of_nat (length (pa_body a)) \<and> length (pa_body a) < 65532 \<and> wf_value peer a"

definition pa_wire :: "BGPPathAttr \<Rightarrow> byte list" where
  "pa_wire a = hdr_bytes (pa_base a) @ pa_body a"

lemma wf_attrD:
  assumes "wf_attr peer a"
  shows "wf_hdr (pa_base a)" "hdr_len_ok (pa_base a)" "unat (pa_HdrLen (pa_base a)) = length (hdr_bytes (pa_base a))"
    "unat (pa_Length (pa_base a)) = length (pa_body a)" "unat (pa_Length (pa_base a)) < 65532"
    "pa_code_of a (pa_Code (pa_base a))" "wf_value peer a"
  using assms unat_small16 [of "length (pa_body a)"]
  by (auto simp: wf_attr_def wf_hdr_def hdr_len_ok_unat)

lemma length_pa_wire: "wf_attr peer a \<Longrightarrow> unat (pa_TotalLen a) = length (pa_wire a)"
  by (simp add: pa_TotalLen_def unat_base_TotalLen wf_attrD pa_wire_def)

lemma wf_nh_wire:
  assumes "wf_nh nh"
  obtains l v where "nh = MPNextHopIP l v" "length v = 16" "unat (nh_Len nh) = length (nh_wire nh)"
    "nh_wire nh = [l] @ drop (16 - nh_ipLen l) v @ replicate (if l = 32 then 16 else 0) 0"
    "l = 4 \<or> l = 16 \<or> l = 32" "nh_ipLen l \<le> 16" "l = 4 \<longrightarrow> v = v4InV6Prefix @ drop 12 v"
proof -
  obtain l v where nh: "nh = MPNextHopIP l v" using assms by (cases nh) auto
  then have v: "length v = 16" "l = 4 \<and> take 12 v = v4InV6Prefix \<or> l = 16 \<or> l = 32"
    using assms by auto
  have v4: "l = 4 \<longrightarrow> v = v4InV6Prefix @ drop 12 v"
  proof
    assume "l = 4"
    then have "take 12 v = v4InV6Prefix" using v by auto
    then show "v = v4InV6Prefix @ drop 12 v" using append_take_drop_id [of 12 v] by simp
  qed
  show thesis
    using v nh by (intro that [OF nh _ _ _ _ _ v4]) (auto simp: nh_ipLen_def IPv4len_def IPv6len_def)
qed

lemma nh_Encode_wire:
  assumes "wf_nh nh" "off = length pre" "length (nh_wire nh) \<le> n"
  shows "nh_Encode (pre @ replicate n 0) off nh = Ok ((pre @ nh_wire nh) @ replicate (n - length (nh_wire nh)) 0)"
proof -
  obtain l v where nh: "nh = MPNextHopIP l v" "length v = 16"
    and w: "nh_wire nh = [l] @ drop (16 - nh_ipLen l) v @ replicate (if l = 32 then 16 else 0) 0"
    and l: "l = 4 \<or> l = 16 \<or> l = 32" "nh_ipLen l \<le> 16"
    using assms(1) by (rule wf_nh_wire)
  let ?bs = "drop (16 - nh_ipLen l) v" and ?z = "if l = 32 then 16 else 0 :: nat"
  have len: "length (nh_wire nh) = 1 + nh_ipLen l + ?z" using w nh l by auto
  then have n: "0 < n" "length ?bs \<le> n - 1" using assms(3) nh by auto
  have step: "set_idx (pre @ replicate n 0) off l = (Ok ((pre @ [l]) @ replicate (n - 1) 0) :: (bgp_error, byte list) outcome)"
    using assms(2) n by (intro fill_idx)
  have copy: "copy_at ((pre @ [l]) @ replicate (n - 1) 0) (off + 1) ?bs =
        (Ok ((pre @ [l]) @ ?bs @ replicate (n - 1 - length ?bs) 0) :: (bgp_error, byte list) outcome)"
    using assms(2) n by (intro fill) simp_all
  have "replicate (n - 1 - length ?bs) (0 :: byte) = replicate ?z 0 @ replicate (n - length (nh_wire nh)) 0"
    using assms(3) len nh l by (simp add: replicate_add [symmetric])
  then have "(pre @ [l]) @ ?bs @ replicate (n - 1 - length ?bs) 0 =
             (pre @ nh_wire nh) @ replicate (n - length (nh_wire nh)) 0"
    using w by simp
  then show ?thesis
    using step copy l nh by (auto simp: MPNextHopIP_Encode_def suffix_of_def)
qed

lemma nh_Decode_wire:
  assumes "wf_nh nh" "afi = AfiIP \<or> afi = AfiIP6"
  shows "BGPGetMPNextHop_Decode afi (nh_wire nh @ rest) = Ok (nh, None)"
proof -
  obtain l v where nh: "nh = MPNextHopIP l v" "length v = 16"
    and w: "nh_wire nh = [l] @ drop (16 - nh_ipLen l) v @ replicate (if l = 32 then 16 else 0) 0"
    and l: "l = 4 \<or> l = 16 \<or> l = 32" and v4: "l = 4 \<longrightarrow> v = v4InV6Prefix @ drop 12 v"
    using assms(1) by (rule wf_nh_wire)
  have afi: "BGPGetMPNextHop_Decode afi pkt = MPNextHopIP_Decode pkt" for pkt
    using assms(2) by (auto simp: BGPGetMPNextHop_Decode_def)
  show ?thesis
  proof (cases "l = 4")
    case True
    obtain a b c d where d: "drop 12 v = [a, b, c, d]"
      using nh length_4 [of "drop 12 v"] by auto
    then have "v = v4InV6Prefix @ [a, b, c, d]" using v4 True by simp
    then show ?thesis
      unfolding afi w using True d nh by (simp add: MPNextHopIP_Decode_def nh_ipLen_def IPv4len_def)
  next
    case False
    then have "nh_ipLen l = 16" using l by (auto simp: nh_ipLen_def IPv6len_def)
    then show ?thesis
      unfolding afi w using False l nh by (auto simp: MPNextHopIP_Decode_def copy_at_def)
  qed
qed

text \<open>What every encoder of a well-formed attribute starts from.\<close>

lemma encode_facts:
  assumes wf: "wf_attr peer a"
  defines "H \<equiv> hdr_bytes (pa_base a)" and "n \<equiv> length (pa_body a)"
  shows "BGPPathAttrBase_Encode (pa_base a) = Ok (H @ replicate n 0)"
    and "unat (pa_HdrLen (pa_base a)) = length H" and "length H + n < 65536"
    and "length bs \<le> n \<Longrightarrow> copy_at (H @ replicate n 0) (length H) bs =
           (Ok (H @ bs @ replicate (n - length bs) 0) :: (bgp_error, byte list) outcome)"
    and "length bs \<le> n \<Longrightarrow> write_at (H @ replicate n 0) (length H) bs =
           (Ok (H @ bs @ replicate (n - length bs) 0) :: (bgp_error, byte list) outcome)"
proof -
  note D = wf_attrD [OF wf]
  show "BGPPathAttrBase_Encode (pa_base a) = Ok (H @ replicate n 0)"
    using base_Encode_wf [OF D(2)] D(4) by (simp add: H_def n_def)
  show "unat (pa_HdrLen (pa_base a)) = length H" using D(3) by (simp add: H_def)
  show "length H + n < 65536"
    using D(4,5) length_hdr_bytes [of "pa_base a"] by (auto simp: H_def n_def)
qed (simp_all add: fill)

lemma Aggregator_Encode_wire:
  assumes wf: "wf_attr peer a" and a: "a = BGPPathAttrAggregator b as ip"
  shows "pa_Encode a = Ok (pa_wire a)"
proof -
  let ?H = "hdr_bytes (pa_base a)" and ?n = "length (pa_body a)"
  note D = wf_attrD [OF wf]
  note base = encode_facts(1) [OF wf] and H = encode_facts(2) [OF wf] and small = encode_facts(3) [OF wf]
    and copy = encode_facts(4,5) [OF wf]
  from a obtain g where g: "as = Some g" and ip: "length ip = 4" using D(7) by (cases as) auto
  have "agg_Encode (?H @ replicate ?n 0) (length ?H) g = Ok ((?H @ agg_wire g) @ replicate (length ip) 0)"
    using copy [of "agg_wire g"] a g
    by (cases g) (simp_all add: PutUint16_def PutUint32_def)
  moreover have "unat (pa_HdrLen b + agg_GetLen g) = length (?H @ agg_wire g)"
    using H small a g by (cases g) (simp_all add: unat_word_ariths)
  ultimately show ?thesis
    using base H a g fill(1) [of "length (?H @ agg_wire g)" "?H @ agg_wire g" ip "length ip"]
    by (simp add: pa_wire_def)
qed

lemma MPReachNLRI_Encode_wire:
  assumes wf: "wf_attr peer a" and a: "a = BGPPathAttrMPReachNLRI b afi safi nh r ns"
  shows "pa_Encode a = Ok (pa_wire a)"
proof -
  let ?H = "hdr_bytes (pa_base a)" and ?n = "length (pa_body a)"
  note D = wf_attrD [OF wf]
  note base = encode_facts(1) [OF wf] and H = encode_facts(2) [OF wf] and small = encode_facts(3) [OF wf]
    and copy = encode_facts(4,5) [OF wf]
  from a obtain h where h: "nh = Some h" "wf_nh h" and r: "r = 0"
    and ns: "\<forall>n \<in> set ns. wf_nlri (peer_AddPathsRxActual peer) afi n"
    using D(7) by (cases nh) auto
  let ?w = "concat (map nlri_wire ns)" and ?k = "length (nh_wire h)"
  have n: "?n = 4 + ?k + length ?w" using a h by simp
  have nlen: "unat (nh_Len h) = ?k" using h(2) by (rule wf_nh_wire)
  have "PutUint16 (?H @ replicate ?n 0) (length ?H) afi = (Ok ((?H @ put16 afi) @ replicate (2 + ?k + length ?w) 0) :: (bgp_error, byte list) outcome)"
    using copy [of "put16 afi"] n by (simp add: PutUint16_def)
  moreover have "set_idx ((?H @ put16 afi) @ replicate (2 + ?k + length ?w) 0) (length ?H + 2) safi =
      (Ok ((?H @ put16 afi @ [safi]) @ replicate (1 + ?k + length ?w) 0) :: (bgp_error, byte list) outcome)"
    by (subst fill_idx) simp_all
  moreover have "nh_Encode ((?H @ put16 afi @ [safi]) @ replicate (1 + ?k + length ?w) 0) (length ?H + 3) h =
      Ok ((?H @ put16 afi @ [safi] @ nh_wire h) @ replicate (1 + length ?w) 0)"
    using h by (subst nh_Encode_wire) simp_all
  moreover have "set_idx ((?H @ put16 afi @ [safi] @ nh_wire h) @ replicate (1 + length ?w) 0) (length ?H + 3 + ?k) 0 =
      (Ok ((?H @ put16 afi @ [safi] @ nh_wire h @ [0]) @ replicate (length ?w) 0) :: (bgp_error, byte list) outcome)"
    by (subst fill_idx) simp_all
  moreover have "copy_each ((?H @ put16 afi @ [safi] @ nh_wire h @ [0]) @ replicate (length ?w) 0) (length ?H + 4 + ?k) (map nlri_wire ns) =
      Ok ((?H @ put16 afi @ [safi] @ nh_wire h @ [0]) @ ?w)"
    by (rule copy_each_wire) simp_all
  moreover have "omap (\<lambda>n. NLRI_Encode n afi) ns = Ok (map nlri_wire ns)"
    using ns by (intro omap_Ok) (auto intro: NLRI_Encode_wf)
  ultimately show ?thesis
    using base H a h r nlen by (simp add: pa_wire_def)
qed

lemma MPUnreachNLRI_Encode_wire:
  assumes wf: "wf_attr peer a" and a: "a = BGPPathAttrMPUnreachNLRI b afi safi ns"
  shows "pa_Encode a = Ok (pa_wire a)"
proof -
  let ?H = "hdr_bytes (pa_base a)" and ?n = "length (pa_body a)"
  note D = wf_attrD [OF wf]
  note base = encode_facts(1) [OF wf] and H = encode_facts(2) [OF wf] and small = encode_facts(3) [OF wf]
    and copy = encode_facts(4,5) [OF wf]
  from a have ns: "\<forall>n \<in> set ns. wf_nlri (peer_AddPathsRxActual peer) afi n" using D(7) by simp
  let ?w = "concat (map nlri_wire ns)"
  have n: "?n = 3 + length ?w" using a by simp
  have "PutUint16 (?H @ replicate ?n 0) (length ?H) afi = (Ok ((?H @ put16 afi) @ replicate (1 + length ?w) 0) :: (bgp_error, byte list) outcome)"
    using copy [of "put16 afi"] n by (simp add: PutUint16_def)
  moreover have "set_idx ((?H @ put16 afi) @ replicate (1 + length ?w) 0) (length ?H + 2) safi =
      (Ok ((?H @ put16 afi @ [safi]) @ replicate (length ?w) 0) :: (bgp_error, byte list) outcome)"
    by (subst fill_idx) simp_all
  moreover have "copy_each ((?H @ put16 afi @ [safi]) @ replicate (length ?w) 0) (length ?H + 3) (map nlri_wire ns) =
      Ok ((?H @ put16 afi @ [safi]) @ ?w)"
    by (rule copy_each_wire) simp_all
  moreover have "omap (\<lambda>n. NLRI_Encode n afi) ns = Ok (map nlri_wire ns)"
    using ns by (intro omap_Ok) (auto intro: NLRI_Encode_wf)
  ultimately show ?thesis
    using base H a by (simp add: pa_wire_def)
qed

lemma AS4Aggregator_Encode_wire:
  assumes wf: "wf_attr peer a" and a: "a = BGPPathAttrAS4Aggregator b as ip"
  shows "pa_Encode a = Ok (pa_wire a)"
proof -
  let ?H = "hdr_bytes (pa_base a)" and ?n = "length (pa_body a)"
  note D = wf_attrD [OF wf]
  note base = encode_facts(1) [OF wf] and H = encode_facts(2) [OF wf] and small = encode_facts(3) [OF wf]
    and copy = encode_facts(4,5) [OF wf]
  have "PutUint32 (?H @ replicate ?n 0) (length ?H) as = (Ok ((?H @ put32 as) @ replicate (length ip) 0) :: (bgp_error, byte list) outcome)"
    using copy [of "put32 as"] a by (simp add: PutUint32_def)
  moreover have "unat (pa_HdrLen b + 4) = length (?H @ put32 as)"
    using H small a by (simp add: unat_word_ariths)
  ultimately show ?thesis
    using base H a fill(1) [of "length (?H @ put32 as)" "?H @ put32 as" ip "length ip"]
    by (simp add: pa_wire_def)
qed

lemma pa_Encode_wire:
  assumes wf: "wf_attr peer a"
  shows "pa_Encode a = Ok (pa_wire a)"
proof -
  let ?H = "hdr_bytes (pa_base a)" and ?n = "length (pa_body a)"
  note D = wf_attrD [OF wf]
  note base = encode_facts(1) [OF wf] and H = encode_facts(2) [OF wf] and small = encode_facts(3) [OF wf]
    and copy = encode_facts(4,5) [OF wf]
  show ?thesis
  proof (cases a)
    case (BGPPathAttrOrigin b v)
    then show ?thesis using base H fill_idx [of "length ?H" ?H ?n v] by (simp add: pa_wire_def)
  next
    case (BGPPathAttrASPath b segs sz)
    then have "\<forall>s \<in> set segs. wf_seg sz s" using D(7) by auto
    then show ?thesis
      using BGPPathAttrASPath base H small segs_Encode_wire [of segs sz "pa_HdrLen b" ?H ?n]
      by (simp add: pa_wire_def)
  next
    case (BGPPathAttrNextHop b v)
    then show ?thesis using base H D(4) copy [of v] by (simp add: pa_wire_def suffix_of_def)
  next
    case (BGPPathAttrMultiExitDisc b v)
    then show ?thesis using base H copy [of "put32 v"] by (simp add: pa_wire_def PutUint32_def)
  next
    case (BGPPathAttrLocalPref b v)
    then show ?thesis using base H copy [of "put32 v"] by (simp add: pa_wire_def PutUint32_def)
  next
    case (BGPPathAttrAtomicAggregate b)
    then show ?thesis using base by (simp add: pa_wire_def)
  next
    case (BGPPathAttrAggregator b as ip)
    with wf show ?thesis by (rule Aggregator_Encode_wire)
  next
    case (BGPPathAttrOriginatorId b v)
    then show ?thesis using base H copy [of v] by (simp add: pa_wire_def)
  next
    case (BGPPathAttrClusterList b vs)
    then have "length vs < 65536" using small by simp
    then show ?thesis
      using BGPPathAttrClusterList base H small put32s_wire [of "pa_HdrLen b" ?H vs ?n]
      by (simp add: pa_wire_def unat_small16)
  next
    case (BGPPathAttrMPReachNLRI b afi safi nh r ns)
    with wf show ?thesis by (rule MPReachNLRI_Encode_wire)
  next
    case (BGPPathAttrMPUnreachNLRI b afi safi ns)
    with wf show ?thesis by (rule MPUnreachNLRI_Encode_wire)
  next
    case (BGPPathAttrAS4Path b segs)
    then have "\<forall>s \<in> set (map AS4Segment segs). wf_seg 4 s" using D(7) by simp
    then show ?thesis
      using BGPPathAttrAS4Path base H small segs_Encode_wire [of "map AS4Segment segs" 4 "pa_HdrLen b" ?H ?n]
      by (simp add: pa_wire_def comp_def)
  next
    case (BGPPathAttrAS4Aggregator b as ip)
    with wf show ?thesis by (rule AS4Aggregator_Encode_wire)
  next
    case (BGPPathAttrUnknown b v)
    then show ?thesis using base H copy [of v] by (simp add: pa_wire_def)
  qed (use D(6) in simp_all)
qed

text \<open>Decoding: the table of \<open>BGPGetPathAttr\<close> selects the decoder of the attribute's code.\<close>

lemma second_byte: "idx (hdr_bytes b @ rest) 1 = Ok (pa_Code b)"
  by (simp add: hdr_bytes_def)

lemma decode_facts:
  assumes wf: "wf_attr peer a"
  defines "H \<equiv> hdr_bytes (pa_base a)" and "B \<equiv> pa_body a"
  shows "BGPPathAttrBase_Decode (H @ B @ rest) = Ok (pa_base a)"
    and "(idx (H @ B @ rest) 1 :: (bgp_error, byte) outcome) = Ok (pa_Code (pa_base a))"
    and "attr_value (H @ B @ rest) (pa_base a) (pa_Length (pa_base a)) = Ok B"
    and "attr_rest (H @ B @ rest) (pa_HdrLen (pa_base a)) = Ok (B @ rest)"
    and "unat (pa_HdrLen (pa_base a)) = length H"
    and "unat (base_TotalLen (pa_base a)) = length H + length B" and "length H + length B < 65536"
proof -
  note D = wf_attrD [OF wf]
  show "BGPPathAttrBase_Decode (H @ B @ rest) = Ok (pa_base a)"
    using base_Decode_wf [OF D(1), of "B @ rest"] D(4) by (simp add: H_def B_def)
  show "(idx (H @ B @ rest) 1 :: (bgp_error, byte) outcome) = Ok (pa_Code (pa_base a))"
    unfolding H_def by (rule second_byte)
  show "attr_value (H @ B @ rest) (pa_base a) (pa_Length (pa_base a)) = Ok B"
    "attr_rest (H @ B @ rest) (pa_HdrLen (pa_base a)) = Ok (B @ rest)"
    using value_wf [OF D(2,5)] D(4) by (simp_all add: H_def B_def)
  show H: "unat (pa_HdrLen (pa_base a)) = length H" using D(3) by (simp add: H_def)
  show "unat (base_TotalLen (pa_base a)) = length H + length B"
    using D(4) H by (simp add: unat_base_TotalLen B_def)
  show "length H + length B < 65536"
    using D(4,5) length_hdr_bytes [of "pa_base a"] by (auto simp: H_def B_def)
qed

lemma ASPath_Decode_wire:
  assumes wf: "wf_attr peer a" and a: "a = BGPPathAttrASPath b segs sz"
    and fits: "length (pa_wire a @ rest) < 4294967296"
  shows "pa_Decode (hdr_bytes (pa_base a) @ pa_body a @ rest) peer = Some (Ok a)"
proof -
  let ?H = "hdr_bytes (pa_base a)" and ?B = "pa_body a"
  note D = wf_attrD [OF wf]
  note base = decode_facts(1) [OF wf, of rest] and code = decode_facts(2) [OF wf, of rest]
    and val = decode_facts(3,4) [OF wf, of rest] and H = decode_facts(5) [OF wf]
    and tot = decode_facts(6) [OF wf] and small = decode_facts(7) [OF wf]
  from a have sz: "sz = peer_ASSize peer" "\<forall>s \<in> set segs. wf_seg (peer_ASSize peer) s" using D(7) by auto
  have "as_path_loop (segment_Decode (peer_ASSize peer)) seg_size (?H @ concat (map seg_wire segs) @ rest)
          (length ?H + length ?B) (length ?H) [] = Some (Ok ([] @ segs))"
    using sz(2) small a
    by (intro as_path_loop_wire [where good = "wf_seg (peer_ASSize peer)"] seg_Decode_wire seg_wire_facts) auto
  then show ?thesis
    using base code H tot D(6) a sz by (simp add: pa_Decode_def ASPath_Decode_def pa_type_defs)
qed

lemma Aggregator_Decode_wire:
  assumes wf: "wf_attr peer a" and a: "a = BGPPathAttrAggregator b as ip"
    and fits: "length (pa_wire a @ rest) < 4294967296"
  shows "pa_Decode (hdr_bytes (pa_base a) @ pa_body a @ rest) peer = Some (Ok a)"
proof -
  let ?H = "hdr_bytes (pa_base a)" and ?B = "pa_body a"
  note D = wf_attrD [OF wf]
  note base = decode_facts(1) [OF wf, of rest] and code = decode_facts(2) [OF wf, of rest]
    and val = decode_facts(3,4) [OF wf, of rest] and H = decode_facts(5) [OF wf]
    and tot = decode_facts(6) [OF wf] and small = decode_facts(7) [OF wf]
  from a obtain g where g: "as = Some g" and ip: "length ip = 4" and wfg: "wf_agg (peer_ASSize peer) g"
    using D(7) by (cases as) auto
  have l: "pa_Length b = of_nat (length (agg_wire g) + 4)"
    using wf a g ip by (simp add: wf_attr_def)
  have u: "unat (pa_HdrLen b + agg_GetLen g) = length (?H @ agg_wire g)"
    using H small a g by (cases g) (simp_all add: unat_word_ariths)
  then have r: "attr_rest (?H @ ?B @ rest) (pa_HdrLen b + agg_GetLen g) = Ok (ip @ rest)"
    using a g by (simp add: attr_rest_def)
  show ?thesis
    using base code val D(6) a g wfg l r ip copy_new_take [of 4 "ip @ rest"]
    by (cases g) (simp_all add: pa_Decode_def Aggregator_Decode_def pa_type_defs)
qed

lemma ClusterList_Decode_wire:
  assumes wf: "wf_attr peer a" and a: "a = BGPPathAttrClusterList b vs"
    and fits: "length (pa_wire a @ rest) < 4294967296"
  shows "pa_Decode (hdr_bytes (pa_base a) @ pa_body a @ rest) peer = Some (Ok a)"
proof -
  let ?H = "hdr_bytes (pa_base a)" and ?B = "pa_body a"
  note D = wf_attrD [OF wf]
  note base = decode_facts(1) [OF wf, of rest] and code = decode_facts(2) [OF wf, of rest]
    and val = decode_facts(3,4) [OF wf, of rest] and H = decode_facts(5) [OF wf]
    and tot = decode_facts(6) [OF wf] and small = decode_facts(7) [OF wf]
  from a have l: "pa_Length b = of_nat (4 * length vs)" and n: "4 * length vs + length ?H < 65536"
    using wf small by (simp_all add: wf_attr_def)
  have d: "unat (pa_Length b div 4) = length vs"
    unfolding l using n by (simp add: unat_div unat_small16 del: of_nat_mult)
  have "omap (\<lambda>i. obind (slice (?H @ ?B @ rest) (unat (pa_HdrLen b + 4 * of_nat i))
                             (unat (pa_HdrLen b + 4 * of_nat i + 4))) Uint32) [0..<length vs] =
        (Ok (map ((!) vs) [0..<length vs]) :: (bgp_error, u32 list) outcome)"
  proof (rule omap_Ok, rule ballI)
    fix i assume "i \<in> set [0..<length vs]"
    then have i: "i < length vs" by simp
    have o1: "unat (pa_HdrLen b + 4 * of_nat i) = length ?H + 4 * i"
      using H n i a unat_small16 [of "4 * i"]
      by (simp add: unat_word_ariths)
    have o2: "unat (pa_HdrLen b + 4 * of_nat i + 4) = length ?H + 4 * i + 4"
      using o1 n i by (subst unat_word_ariths) simp
    have "take 4 (drop (4 * i) (concat (map put32 vs) @ rest)) = put32 (vs ! i)"
      using i
    proof (induction vs arbitrary: i)
      case (Cons w ws)
      then show ?case by (cases i) (simp_all add: algebra_simps)
    qed simp
    moreover have "4 * i + 4 \<le> length (concat (map put32 vs))" using i by simp
    ultimately show "obind (slice (?H @ ?B @ rest) (unat (pa_HdrLen b + 4 * of_nat i))
                             (unat (pa_HdrLen b + 4 * of_nat i + 4))) Uint32 = Ok (vs ! i)"
      unfolding o1 o2 using a by simp
  qed
  then show ?thesis
    using base code d D(6) a
    by (simp add: pa_Decode_def ClusterList_Decode_def pa_type_defs map_nth)
qed

lemma MPReachNLRI_Decode_wire:
  assumes wf: "wf_attr peer a" and a: "a = BGPPathAttrMPReachNLRI b afi safi nh r ns"
    and fits: "length (pa_wire a @ rest) < 4294967296"
  shows "pa_Decode (hdr_bytes (pa_base a) @ pa_body a @ rest) peer = Some (Ok a)"
proof -
  let ?H = "hdr_bytes (pa_base a)" and ?B = "pa_body a"
  note D = wf_attrD [OF wf]
  note base = decode_facts(1) [OF wf, of rest] and code = decode_facts(2) [OF wf, of rest]
    and val = decode_facts(3,4) [OF wf, of rest] and H = decode_facts(5) [OF wf]
    and tot = decode_facts(6) [OF wf] and small = decode_facts(7) [OF wf]
  from a obtain h where h: "nh = Some h" "wf_nh h" and r: "r = 0" and afi: "afi = AfiIP \<or> afi = AfiIP6"
    and ns: "\<forall>n \<in> set ns. wf_nlri (peer_AddPathsRxActual peer) afi n"
    using D(7) by (cases nh) auto
  let ?w = "concat (map nlri_wire ns)" and ?k = "length (nh_wire h)"
  have nlen: "unat (nh_Len h) = ?k" using h(2) by (rule wf_nh_wire)
  have "?k \<le> 255" using unat_byte_less [of "nh_Len h"] nlen by simp
  have body: "?B = put16 afi @ [safi] @ nh_wire h @ [0] @ ?w"
    using a h r by simp
  have "pa_Length b = of_nat (4 + ?k + length ?w)"
    using wf a h by (simp add: wf_attr_def add.assoc)
  then have len: "ucast (pa_Length b) - 4 - ucast (nh_Len h) = (of_nat (length ?w) :: u32)"
    using small body ucast_small16 [of "4 + ?k + length ?w"] by (simp add: ucast_unat nlen)
  have dec: "decodeNLRI (?w @ rest) (of_nat (length ?w)) afi peer = Some (Ok (ns, unat (of_nat (length ?w) :: u32)))"
    using fits by (intro decodeNLRI_wire ns) (simp_all add: pa_wire_def body)
  have parts: "slice (?H @ ?B @ rest) (length ?H) (length ?H + 2) = (Ok (put16 afi) :: (bgp_error, byte list) outcome)"
    "idx (?H @ ?B @ rest) (length ?H + 2) = (Ok safi :: (bgp_error, byte) outcome)"
    "slice_from (?H @ ?B @ rest) (length ?H + 3) = (Ok (nh_wire h @ [0] @ ?w @ rest) :: (bgp_error, byte list) outcome)"
    "idx (?H @ ?B @ rest) (length ?H + 3 + ?k) = (Ok 0 :: (bgp_error, byte) outcome)"
    "slice_from (?H @ ?B @ rest) (length ?H + 4 + ?k) = (Ok (?w @ rest) :: (bgp_error, byte list) outcome)"
    unfolding body by (simp_all add: nth_append idx_def slice_def slice_from_def)
  show ?thesis
    using base code H D(6) a h r afi parts dec len nlen
      nh_Decode_wire [OF h(2) afi, of "0 # ?w @ rest"]
    by (simp add: pa_Decode_def MPReachNLRI_Decode_def pa_type_defs Let_def)
qed

lemma MPUnreachNLRI_Decode_wire:
  assumes wf: "wf_attr peer a" and a: "a = BGPPathAttrMPUnreachNLRI b afi safi ns"
    and fits: "length (pa_wire a @ rest) < 4294967296"
  shows "pa_Decode (hdr_bytes (pa_base a) @ pa_body a @ rest) peer = Some (Ok a)"
proof -
  let ?H = "hdr_bytes (pa_base a)" and ?B = "pa_body a"
  note D = wf_attrD [OF wf]
  note base = decode_facts(1) [OF wf, of rest] and code = decode_facts(2) [OF wf, of rest]
    and val = decode_facts(3,4) [OF wf, of rest] and H = decode_facts(5) [OF wf]
    and tot = decode_facts(6) [OF wf] and small = decode_facts(7) [OF wf]
  from a have ns: "\<forall>n \<in> set ns. wf_nlri (peer_AddPathsRxActual peer) afi n" using D(7) by simp
  let ?w = "concat (map nlri_wire ns)"
  have body: "?B = put16 afi @ [safi] @ ?w" using a by simp
  have "pa_Length b = of_nat (3 + length ?w)"
    using wf a by (simp add: wf_attr_def)
  then have len: "ucast (pa_Length b) - 3 = (of_nat (length ?w) :: u32)"
    using small body ucast_small16 [of "3 + length ?w"] by simp
  have dec: "decodeNLRI (?w @ rest) (of_nat (length ?w)) afi peer = Some (Ok (ns, unat (of_nat (length ?w) :: u32)))"
    using fits by (intro decodeNLRI_wire ns) (simp_all add: pa_wire_def body)
  have parts: "slice (?H @ ?B @ rest) (length ?H) (length ?H + 2) = (Ok (put16 afi) :: (bgp_error, byte list) outcome)"
    "idx (?H @ ?B @ rest) (length ?H + 2) = (Ok safi :: (bgp_error, byte) outcome)"
    "slice_from (?H @ ?B @ rest) (length ?H + 3) = (Ok (?w @ rest) :: (bgp_error, byte list) outcome)"
    unfolding body by (simp_all add: nth_append idx_def slice_def slice_from_def)
  show ?thesis
    using base code H D(6) a parts dec len
    by (simp add: pa_Decode_def MPUnreachNLRI_Decode_def pa_type_defs Let_def)
qed

lemma AS4Path_Decode_wire:
  assumes wf: "wf_attr peer a" and a: "a = BGPPathAttrAS4Path b segs"
    and fits: "length (pa_wire a @ rest) < 4294967296"
  shows "pa_Decode (hdr_bytes (pa_base a) @ pa_body a @ rest) peer = Some (Ok a)"
proof -
  let ?H = "hdr_bytes (pa_base a)" and ?B = "pa_body a"
  note D = wf_attrD [OF wf]
  note base = decode_facts(1) [OF wf, of rest] and code = decode_facts(2) [OF wf, of rest]
    and val = decode_facts(3,4) [OF wf, of rest] and H = decode_facts(5) [OF wf]
    and tot = decode_facts(6) [OF wf] and small = decode_facts(7) [OF wf]
  from a have segs: "\<forall>s \<in> set segs. wf_seg4 s" using D(7) by simp
  have "as_path_loop BGPAS4PathSegment_Decode seg_TotalLen (?H @ concat (map seg4_wire segs) @ rest)
          (length ?H + length ?B) (length ?H) [] = Some (Ok ([] @ segs))"
    using segs small a
    by (intro as_path_loop_wire [where good = wf_seg4] AS4_Decode_wire length_seg4_wire)
       (auto simp: seg4_wire_def)
  then show ?thesis
    using base code H tot D(6) a by (simp add: pa_Decode_def AS4Path_Decode_def pa_type_defs)
qed

lemma AS4Aggregator_Decode_wire:
  assumes wf: "wf_attr peer a" and a: "a = BGPPathAttrAS4Aggregator b as ip"
    and fits: "length (pa_wire a @ rest) < 4294967296"
  shows "pa_Decode (hdr_bytes (pa_base a) @ pa_body a @ rest) peer = Some (Ok a)"
proof -
  let ?H = "hdr_bytes (pa_base a)" and ?B = "pa_body a"
  note D = wf_attrD [OF wf]
  note base = decode_facts(1) [OF wf, of rest] and code = decode_facts(2) [OF wf, of rest]
    and val = decode_facts(3,4) [OF wf, of rest] and H = decode_facts(5) [OF wf]
    and tot = decode_facts(6) [OF wf] and small = decode_facts(7) [OF wf]
  have ip: "length ip = 4" using D(7) a by simp
  have u: "unat (pa_HdrLen b + 4) = length (?H @ put32 as)"
    using H small a by (simp add: unat_word_ariths)
  then have r: "attr_rest (?H @ ?B @ rest) (pa_HdrLen b + 4) = Ok (ip @ rest)"
    using a by (simp add: attr_rest_def)
  show ?thesis
    using base code val D(6) a r ip copy_new_take [of 4 "ip @ rest"]
    by (simp add: pa_Decode_def AS4Aggregator_Decode_def pa_type_defs)
qed

lemma pa_Decode_wire:
  assumes wf: "wf_attr peer a" and fits: "length (pa_wire a @ rest) < 4294967296"
  shows "pa_Decode (pa_wire a @ rest) peer = Some (Ok a)"
proof -
  let ?H = "hdr_bytes (pa_base a)" and ?B = "pa_body a"
  note D = wf_attrD [OF wf]
  note base = decode_facts(1) [OF wf, of rest] and code = decode_facts(2) [OF wf, of rest]
    and val = decode_facts(3,4) [OF wf, of rest] and H = decode_facts(5) [OF wf]
    and tot = decode_facts(6) [OF wf] and small = decode_facts(7) [OF wf]
  have pkt: "pa_wire a @ rest = ?H @ ?B @ rest" by (simp add: pa_wire_def)
  show ?thesis
    unfolding pkt
  proof (cases a)
    case (BGPPathAttrOrigin b v)
    have "(idx (?H @ ?B @ rest) (length ?H) :: (bgp_error, byte) outcome) = Ok v"
      using BGPPathAttrOrigin by (simp add: idx_def nth_append)
    moreover have "\<not> BGPPathAttrOriginMax \<le> v" using D(7) BGPPathAttrOrigin by (simp add: not_le)
    ultimately show "pa_Decode (?H @ ?B @ rest) peer = Some (Ok a)"
      using base code H D(6) BGPPathAttrOrigin by (simp add: pa_Decode_def Origin_Decode_def pa_type_defs)
  next
    case (BGPPathAttrASPath b segs sz)
    show "pa_Decode (?H @ ?B @ rest) peer = Some (Ok a)"
      by (rule ASPath_Decode_wire [OF wf BGPPathAttrASPath fits])
  next
    case (BGPPathAttrNextHop b v)
    then show "pa_Decode (?H @ ?B @ rest) peer = Some (Ok a)"
      using base code val D(4,6) by (simp add: pa_Decode_def NextHop_Decode_def pa_type_defs)
  next
    case (BGPPathAttrMultiExitDisc b v)
    then show "pa_Decode (?H @ ?B @ rest) peer = Some (Ok a)"
      using base code val D(4,6)
      by (simp add: pa_Decode_def MultiExitDisc_Decode_def pa_type_defs)
  next
    case (BGPPathAttrLocalPref b v)
    then show "pa_Decode (?H @ ?B @ rest) peer = Some (Ok a)"
      using base code val D(4,6)
      by (simp add: pa_Decode_def LocalPref_Decode_def pa_type_defs)
  next
    case (BGPPathAttrAtomicAggregate b)
    then show "pa_Decode (?H @ ?B @ rest) peer = Some (Ok a)"
      using base code D(6) by (simp add: pa_Decode_def pa_type_defs)
  next
    case (BGPPathAttrAggregator b as ip)
    show "pa_Decode (?H @ ?B @ rest) peer = Some (Ok a)"
      by (rule Aggregator_Decode_wire [OF wf BGPPathAttrAggregator fits])
  next
    case (BGPPathAttrOriginatorId b v)
    then show "pa_Decode (?H @ ?B @ rest) peer = Some (Ok a)"
      using base code val D(4,6) by (simp add: pa_Decode_def OriginatorId_Decode_def pa_type_defs)
  next
    case (BGPPathAttrClusterList b vs)
    show "pa_Decode (?H @ ?B @ rest) peer = Some (Ok a)"
      by (rule ClusterList_Decode_wire [OF wf BGPPathAttrClusterList fits])
  next
    case (BGPPathAttrMPReachNLRI b afi safi nh r ns)
    show "pa_Decode (?H @ ?B @ rest) peer = Some (Ok a)"
      by (rule MPReachNLRI_Decode_wire [OF wf BGPPathAttrMPReachNLRI fits])
  next
    case (BGPPathAttrMPUnreachNLRI b afi safi ns)
    show "pa_Decode (?H @ ?B @ rest) peer = Some (Ok a)"
      by (rule MPUnreachNLRI_Decode_wire [OF wf BGPPathAttrMPUnreachNLRI fits])
  next
    case (BGPPathAttrAS4Path b segs)
    show "pa_Decode (?H @ ?B @ rest) peer = Some (Ok a)"
      by (rule AS4Path_Decode_wire [OF wf BGPPathAttrAS4Path fits])
  next
    case (BGPPathAttrAS4Aggregator b as ip)
    show "pa_Decode (?H @ ?B @ rest) peer = Some (Ok a)"
      by (rule AS4Aggregator_Decode_wire [OF wf BGPPathAttrAS4Aggregator fits])
  next
    case (BGPPathAttrUnknown b v)
    then show "pa_Decode (?H @ ?B @ rest) peer = Some (Ok a)"
      using base code val D(4,6) by (simp add: pa_Decode_def Unknown_Decode_def pa_type_defs)
  qed (use D(6) in simp_all)
qed

end
