(* ===== verification/BgpUpdateWire.thy ===== *)
theory BgpUpdateWire
  imports BgpUpdate BgpAttrWire
begin

text \<open>
  What \<open>bgp/packet/bgp.go\<close> promises of whole messages: an UPDATE, and every message with its header,
  survives the wire; the decoder of an UPDATE returns; what it returns is typed the way the readers
  of \<open>helpers.go\<close> assert.
\<close>

section \<open>The sequence of attributes\<close>

lemma pa_wire_nonempty [simp]: "pa_wire a \<noteq> []"
  by (simp add: pa_wire_def hdr_bytes_def)

interpretation attrs: tlv "attr_at peer" attr_adv "\<lambda>a. unat (pa_TotalLen a)" pa_wire "wf_attr peer"
    4294967295 "\<lambda>pkt. length pkt < 4294967296" for peer
proof
  fix a and pre rest :: "byte list" and off :: nat assume wf: "wf_attr peer a"
  show "unat (pa_TotalLen a) = length (pa_wire a)" by (rule length_pa_wire [OF wf])
  then show "off + length (pa_wire a) \<le> 4294967295 \<Longrightarrow> attr_adv off a = off + length (pa_wire a)"
    by (simp add: attr_adv_def)
  show "0 < length (pa_wire a)" by simp
  assume "length (pre @ pa_wire a @ rest) < 4294967296"
  then show "attr_at peer (pre @ pa_wire a @ rest) (length pre) = Some (Ok a)"
    using pa_Decode_wire [OF wf, of rest] by (simp add: attr_at_def)
qed

section \<open>UPDATE\<close>

definition nlris_wire :: "NLRI list \<Rightarrow> byte list" where
  "nlris_wire ns = concat (map nlri_wire ns)"

definition attrs_wire :: "BGPPathAttr list \<Rightarrow> byte list" where
  "attrs_wire as = concat (map pa_wire as)"

definition update_wire :: "BGPUpdate \<Rightarrow> byte list" where
  "update_wire u =
     put16 (of_nat (length (nlris_wire (upd_WithdrawnRoutes u)))) @ nlris_wire (upd_WithdrawnRoutes u) @
     put16 (of_nat (length (attrs_wire (upd_PathAttributes u)))) @ attrs_wire (upd_PathAttributes u) @
     nlris_wire (upd_NLRI u)"

text \<open>An update whose parts are well-formed and that fits into a message.\<close>

definition wf_update :: "BGPPeerAttrs \<Rightarrow> BGPUpdate \<Rightarrow> bool" where
  "wf_update peer u \<longleftrightarrow>
     (\<forall>n \<in> set (upd_WithdrawnRoutes u). wf_nlri (peer_AddPathsRxActual peer) AfiIP n) \<and>
     (\<forall>n \<in> set (upd_NLRI u). wf_nlri (peer_AddPathsRxActual peer) AfiIP n) \<and>
     (\<forall>a \<in> set (upd_PathAttributes u). wf_attr peer a) \<and>
     length (update_wire u) \<le> BGPMsgMaxLen - BGPMsgHeaderLen"

text \<open>The update with the two lengths that go over the wire.\<close>

definition with_lengths :: "BGPUpdate \<Rightarrow> BGPUpdate" where
  "with_lengths u = u\<lparr>upd_WithdrawnRoutesLen := of_nat (length (nlris_wire (upd_WithdrawnRoutes u))),
                      upd_TotalPathAttrLen := of_nat (length (attrs_wire (upd_PathAttributes u)))\<rparr>"

lemma nlri_Encode_all_wire:
  "\<forall>n \<in> set ns. wf_nlri ap AfiIP n \<Longrightarrow> nlri_Encode_all ns = Ok (nlris_wire ns)"
proof -
  assume "\<forall>n \<in> set ns. wf_nlri ap AfiIP n"
  then have "omap (\<lambda>n. NLRI_Encode n AfiIP) ns = Ok (map nlri_wire ns)"
    by (intro omap_Ok) (auto intro: NLRI_Encode_wf)
  then show ?thesis by (simp add: nlri_Encode_all_def nlris_wire_def)
qed

lemma attrs_Encode_wire:
  "\<forall>a \<in> set as. wf_attr peer a \<Longrightarrow> omap pa_Encode as = Ok (map pa_wire as)"
  by (intro omap_Ok) (auto intro: pa_Encode_wire)

lemma BGPUpdate_Encode_wire:
  assumes "wf_update peer u"
  shows "BGPUpdate_Encode u = Ok (update_wire u)"
  using assms nlri_Encode_all_wire [of _ "peer_AddPathsRxActual peer"] attrs_Encode_wire [of _ peer]
  by (simp add: BGPUpdate_Encode_def wf_update_def update_wire_def attrs_wire_def)

lemma decode_nlris:
  assumes "\<forall>n \<in> set ns. wf_nlri (peer_AddPathsRxActual peer) AfiIP n"
    and "length (nlris_wire ns @ rest) \<le> 4096"
  shows "decodeNLRI (nlris_wire ns @ rest) (of_nat (length (nlris_wire ns))) AfiIP peer =
         Some (Ok (ns, length (nlris_wire ns)))"
proof -
  have "unat (of_nat (length (nlris_wire ns)) :: u32) = length (nlris_wire ns)"
    using assms(2) by (subst unat_of_nat) simp
  then show ?thesis
    using decodeNLRI_wire [OF assms(1) refl, of rest] assms(2) by (simp add: nlris_wire_def)
qed

lemma BGPUpdate_Decode_wire:
  assumes wf: "wf_update peer u"
    and header: "unat (BGPHeader_Len header) = BGPMsgHeaderLen + length (update_wire u)"
  shows "BGPUpdate_Decode header (update_wire u) peer = Some (Ok (with_lengths u))"
proof -
  let ?wd = "nlris_wire (upd_WithdrawnRoutes u)" and ?pas = "attrs_wire (upd_PathAttributes u)"
    and ?ns = "nlris_wire (upd_NLRI u)"
  let ?wlen = "of_nat (length ?wd) :: u16" and ?plen = "of_nat (length ?pas) :: u16"
  have ok: "\<forall>n \<in> set (upd_WithdrawnRoutes u). wf_nlri (peer_AddPathsRxActual peer) AfiIP n"
    "\<forall>n \<in> set (upd_NLRI u). wf_nlri (peer_AddPathsRxActual peer) AfiIP n"
    "\<forall>a \<in> set (upd_PathAttributes u). wf_attr peer a"
    and short: "length ?wd + length ?pas + length ?ns + 4 \<le> 4077"
    using wf by (simp_all add: wf_update_def update_wire_def BGPMsgMaxLen_def BGPMsgHeaderLen_def)
  have hl: "unat (BGPHeader_Len header) = 23 + length ?wd + length ?pas + length ?ns"
    using header by (simp add: update_wire_def BGPMsgHeaderLen_def)
  have lens: "unat ?wlen = length ?wd" "unat ?plen = length ?pas" "(ucast ?wlen :: u32) = of_nat (length ?wd)"
    using short by (simp_all add: unat_small16 ucast_small16)
  let ?tail = "put16 ?plen @ ?pas @ ?ns"
  have pkt: "update_wire u = put16 ?wlen @ ?wd @ ?tail" by (simp add: update_wire_def)
  have wd: "withdrawn_Decode (?wd @ ?tail) ?wlen peer = Some (Ok (upd_WithdrawnRoutes u, length ?wd))"
    unfolding withdrawn_Decode_def lens(3) using short by (subst decode_nlris [OF ok(1)]) simp_all
  define p where "p = 2 + length ?wd"
  have off: "p + 2 = length (put16 ?wlen @ ?wd @ put16 ?plen)" by (simp add: p_def)
  have pas: "tlv_loop (attr_at peer) attr_adv (\<lambda>a. unat (pa_TotalLen a)) (update_wire u) (p + 2)
               (int (length ?pas)) [] = Some (Ok (upd_PathAttributes u, 0))"
    unfolding off using attrs.loop_round_trip [OF ok(3), of "put16 ?wlen @ ?wd @ put16 ?plen" ?ns "[]"] short
    by (simp add: pkt attrs_wire_def [symmetric])
  have rest: "unat (BGPHeader_Len header) - 23 - unat ?wlen - unat ?plen = length ?ns"
    using hl lens by simp
  have ns: "decodeNLRI ?ns (of_nat (length ?ns)) AfiIP peer = Some (Ok (upd_NLRI u, length ?ns))"
    using decode_nlris [OF ok(2), of "[]"] short by simp
  have s: "obind (slice (update_wire u) 0 2) Uint16 = (Ok ?wlen :: (bgp_error, u16) outcome)"
    "slice_from (update_wire u) 2 = (Ok (?wd @ ?tail) :: (bgp_error, byte list) outcome)"
    "obind (slice (update_wire u) p (p + 2)) Uint16 = (Ok ?plen :: (bgp_error, u16) outcome)"
    "slice_from (update_wire u) (p + 2 + length ?pas) = (Ok ?ns :: (bgp_error, byte list) outcome)"
    unfolding pkt by (simp_all add: slice_def slice_from_def p_def)
  show ?thesis
    unfolding BGPUpdate_Decode_def s(1,2) rbind_simps wd prod.case Let_def p_def [symmetric]
    using hl lens(1,2) rest by (simp add: s(3,4) pas ns with_lengths_def del: add_2_eq_Suc')
qed

section \<open>Messages\<close>

fun body_type :: "BGPBody \<Rightarrow> u8" where
  "body_type (OpenBody m) = BGPMsgTypeOpen"
| "body_type (UpdateBody u) = BGPMsgTypeUpdate"
| "body_type KeepAliveBody = BGPMsgTypeKeepAlive"
| "body_type (NotificationBody m) = BGPMsgTypeNotification"
| "body_type NilBody = 0"

text \<open>A four-byte speaker sends no attribute that \<open>NormalizeASPath\<close> would take out.\<close>

definition no_as4_attrs :: "BGPPathAttr list \<Rightarrow> bool" where
  "no_as4_attrs pas \<longleftrightarrow> (\<forall>a \<in> set pas. pa_GetCode a \<noteq> BGPPathAttrTypeAS4Path \<and>
                                      pa_GetCode a \<noteq> BGPPathAttrTypeAS4Aggregator)"

fun wf_body :: "BGPPeerAttrs \<Rightarrow> BGPBody \<Rightarrow> bool" where
  "wf_body peer (OpenBody m) \<longleftrightarrow> wf_open m"
| "wf_body peer (UpdateBody u) \<longleftrightarrow> wf_update peer u \<and> peer_ASSize peer = 4 \<and> no_as4_attrs (upd_PathAttributes u)"
| "wf_body peer KeepAliveBody \<longleftrightarrow> True"
| "wf_body peer (NotificationBody m) \<longleftrightarrow> length (ntf_Data m) \<le> 4075"
| "wf_body peer NilBody \<longleftrightarrow> False"

fun body_on_wire :: "BGPBody \<Rightarrow> BGPBody" where
  "body_on_wire (UpdateBody u) = UpdateBody (with_lengths u)"
| "body_on_wire b = b"

lemma scan_attrs_no_as4:
  assumes "no_as4_attrs pas" "\<forall>a \<in> set pas. wf_attr peer a" "peer_ASSize peer = 4"
    and "sc_as4Path sc = None" "\<not> sc_as4Agg sc" "\<forall>p. sc_asPath sc = Some p \<longrightarrow> snd p = 4"
  shows "\<exists>sc'. scan_attrs sc pas = Ok sc' \<and> sc_as4Path sc' = None \<and> \<not> sc_as4Agg sc' \<and>
                (\<forall>p. sc_asPath sc' = Some p \<longrightarrow> snd p = 4)"
  using assms
proof (induction pas arbitrary: sc)
  case (Cons a pas)
  have wf: "wf_attr peer a" and code: "pa_GetCode a \<noteq> BGPPathAttrTypeAS4Path" "pa_GetCode a \<noteq> BGPPathAttrTypeAS4Aggregator"
    using Cons.prems by (auto simp: no_as4_attrs_def)
  have "\<exists>sc'. scan_attr sc a = Ok sc' \<and> sc_as4Path sc' = None \<and> \<not> sc_as4Agg sc' \<and>
                (\<forall>p. sc_asPath sc' = Some p \<longrightarrow> snd p = 4)"
    using wf_attrD(6,7) [OF wf] code Cons.prems(3-)
    by (cases a) (auto simp: scan_attr_def pa_GetCode_def pa_type_defs)
  then obtain sc' where "scan_attr sc a = Ok sc'" "sc_as4Path sc' = None" "\<not> sc_as4Agg sc'"
    "\<forall>p. sc_asPath sc' = Some p \<longrightarrow> snd p = 4" by blast
  then show ?case using Cons.IH [of sc'] Cons.prems by (simp add: no_as4_attrs_def)
qed simp

lemma NormalizeASPath_as4:
  assumes "no_as4_attrs pas" "\<forall>a \<in> set pas. wf_attr peer a" "peer_ASSize peer = 4"
  shows "NormalizeASPath pas n = Ok pas"
proof -
  obtain sc where "scan_attrs \<lparr>sc_asPath = None, sc_as4Path = None, sc_agg = None, sc_as4Agg = False\<rparr> pas = Ok sc"
    "sc_as4Path sc = None" "\<not> sc_as4Agg sc" "\<forall>p. sc_asPath sc = Some p \<longrightarrow> snd p = 4"
    using scan_attrs_no_as4 [OF assms, of "\<lparr>sc_asPath = None, sc_as4Path = None, sc_agg = None, sc_as4Agg = False\<rparr>"]
    by auto
  then show ?thesis by (auto simp: NormalizeASPath_def split: option.splits)
qed

lemma wf_body_wire:
  assumes "wf_body peer b"
  shows "\<exists>bs. BGPBody_Encode b = Ok bs \<and> length bs \<le> 4077 \<and>
           (\<forall>h. unat (bh_Length h) = 19 + length bs \<longrightarrow> bh_Type h = body_type b \<longrightarrow>
                BGPMessage_Decode h bs peer = Some (Ok \<lparr>msg_Header = h, msg_Body = body_on_wire b\<rparr>))"
proof (cases b)
  case (OpenBody m)
  then have wf: "wf_open m" using assms by simp
  show ?thesis using open_wire [OF wf] OpenBody by (simp add: BGPMessage_Decode_def)
next
  case (UpdateBody u)
  then have wf: "wf_update peer u" "peer_ASSize peer = 4" "no_as4_attrs (upd_PathAttributes u)"
    using assms by simp_all
  have "length (update_wire u) \<le> 4077"
    using wf(1) by (simp add: wf_update_def BGPMsgMaxLen_def BGPMsgHeaderLen_def)
  moreover have "BGPMessage_Decode h (update_wire u) peer = Some (Ok \<lparr>msg_Header = h, msg_Body = body_on_wire b\<rparr>)"
    if "unat (bh_Length h) = 19 + length (update_wire u)" "bh_Type h = body_type b" for h
  proof -
    have "BGPUpdate_Decode h (update_wire u) peer = Some (Ok (with_lengths u))"
      using that by (intro BGPUpdate_Decode_wire wf(1)) (simp add: BGPHeader_Len_def BGPMsgHeaderLen_def)
    moreover have "NormalizeASPath (upd_PathAttributes (with_lengths u)) n = Ok (upd_PathAttributes (with_lengths u))" for n
      using wf by (intro NormalizeASPath_as4 [where peer = peer]) (simp_all add: with_lengths_def wf_update_def)
    moreover have "v\<lparr>upd_PathAttributes := upd_PathAttributes v\<rparr> = v" for v :: BGPUpdate by simp
    ultimately show ?thesis
      using that UpdateBody
      by (simp add: BGPMessage_Decode_def BGPMsgTypeOpen_def BGPMsgTypeKeepAlive_def BGPMsgTypeUpdate_def)
  qed
  ultimately show ?thesis
    using BGPUpdate_Encode_wire [OF wf(1)] UpdateBody by simp
next
  case (NotificationBody m)
  then show ?thesis
    using assms
    by (cases m)
       (simp add: BGPMessage_Decode_def BGPNotification_Encode_def BGPNotification_Decode_def
         BGPMsgTypeOpen_def BGPMsgTypeKeepAlive_def BGPMsgTypeUpdate_def BGPMsgTypeNotification_def)
qed (use assms in \<open>simp_all add: BGPMessage_Decode_def BGPKeepAlive_Encode_def BGPMsgTypeOpen_def BGPMsgTypeKeepAlive_def\<close>)

section \<open>Properties\<close>

text \<open>C18: An UPDATE whose withdrawn routes, path attributes (of every kind the decoder knows) and
  reachability information are well-formed and that fits into a message is encoded, and the bytes
  are decoded to the same update, with its two length fields filled in.\<close>

theorem update_round_trip:
  assumes "wf_update peer u" and "unat (BGPHeader_Len header) = 19 + length (update_wire u)"
  shows "\<exists>bs. BGPUpdate_Encode u = Ok bs \<and>
           BGPUpdate_Decode header bs peer = Some (Ok (with_lengths u))"
  using BGPUpdate_Encode_wire [OF assms(1)] BGPUpdate_Decode_wire [OF assms(1), of header] assms(2)
  by (simp add: BGPMsgHeaderLen_def)


definition example_update :: BGPUpdate where
  "example_update =
     \<lparr>upd_WithdrawnRoutesLen = 0, upd_WithdrawnRoutes = [PrefixNLRI \<lparr>pfx_Length = 8, pfx_Prefix = [10, 0, 0, 0]\<rparr>],
      upd_TotalPathAttrLen = 0,
      upd_PathAttributes =
        [BGPPathAttrOrigin \<lparr>pa_Flags = 0x40, pa_Code = 1, pa_Length = 1, pa_HdrLen = 3\<rparr> 0,
         BGPPathAttrASPath \<lparr>pa_Flags = 0x50, pa_Code = 2, pa_Length = 10, pa_HdrLen = 4\<rparr>
           [AS4Segment \<lparr>seg_Type = 2, seg_Length = 2, seg_TotalLen = 10, seg_AS4 = [70000, 100]\<rparr>] 4,
         BGPPathAttrNextHop \<lparr>pa_Flags = 0x40, pa_Code = 3, pa_Length = 4, pa_HdrLen = 3\<rparr> [192, 0, 2, 1]],
      upd_NLRI = [PrefixNLRI \<lparr>pfx_Length = 20, pfx_Prefix = [10, 1, 0xF0, 0]\<rparr>]\<rparr>"

definition example_peer :: BGPPeerAttrs where
  "example_peer = \<lparr>peer_ASSize = 4, peer_AddPathFamily = [], peer_AddPathsRxActual = False\<rparr>"

lemma wf_example: "wf_update example_peer example_update" "length (update_wire example_update) = 35"
  by (simp_all add: wf_update_def example_update_def example_peer_def update_wire_def nlris_wire_def
        attrs_wire_def wf_attr_def wf_hdr_def hdr_len_ok_def flags_ok_def len_ok_def pa_flag_defs
        pa_type_defs BGPPathAttrTypeFlagsMap_def BGPPathAttrTypeLenMap_def BGPPathAttrOriginMax_def
        wf_seg4_def seg4_wire_def wf_prefix_def AFINextHopLenMap_def clear_host_def host_mask_def
        nbytes_def upt_rec prefix_wire_def pa_wire_def hdr_bytes_def BGPMsgMaxLen_def BGPMsgHeaderLen_def)

theorem update_round_trip_witness:
  "\<exists>bs. BGPUpdate_Encode example_update = Ok bs \<and>
     BGPUpdate_Decode (header_of 54 2) bs example_peer = Some (Ok (with_lengths example_update))"
  using update_round_trip [OF wf_example(1), of "header_of 54 2"] wf_example(2)
  by (simp add: header_of_def BGPHeader_Len_def)


end
