(* ===== verification/BgpUpdateSafe.thy ===== *)
theory BgpUpdateSafe
  imports BgpUpdateWire
begin

text \<open>
  What a decoded UPDATE looks like, whatever the bytes: every attribute has the struct, the flags and
  the length its code calls for, so the type assertions of the readers of \<open>helpers.go\<close> hold. The
  decoder returns for a peer with four-byte AS numbers; for a two-byte peer there are AS paths on
  which it does not.
\<close>

section \<open>The header of a decoded attribute\<close>

definition typed_attr :: "BGPPathAttr \<Rightarrow> bool" where
  "typed_attr a \<longleftrightarrow> pa_code_of a (pa_GetCode a) \<and> flags_ok (pa_base a) \<and> len_ok (pa_base a) \<and>
     hdr_len_ok (pa_base a)"

lemma ucast_byte_u16_less: "(ucast (b :: u8) :: u16) < 256"
  using unat_byte_less [of b] by (simp add: word_less_nat_alt)

lemma read_attr_header_ok:
  "read_attr_header pkt = Ok b \<Longrightarrow> hdr_len_ok b \<and> pa_Code b = pkt ! 1 \<and> 3 \<le> length pkt"
  by (auto simp: read_attr_header_def hdr_len_ok_def ucast_byte_u16_less split: if_splits)

lemma attr_error_not_Ok [simp]: "attr_error pkt b c \<noteq> Ok r"
  by (cases "slice pkt 0 (unat (base_TotalLen b)) :: (bgp_error, byte list) outcome")
     (simp_all add: attr_error_def)

lemma checkFlags_ok:
  assumes "checkFlags pkt b = Ok ()"
  shows "pa_Flags b AND BGPPathAttrFlagOptional \<noteq> 0 \<or> pa_Flags b AND BGPPathAttrFlagTransitive \<noteq> 0"
    and "pa_Flags b AND BGPPathAttrFlagPartial \<noteq> 0 \<Longrightarrow>
         pa_Flags b AND BGPPathAttrFlagOptional \<noteq> 0 \<and> pa_Flags b AND BGPPathAttrFlagTransitive \<noteq> 0"
  using assms by (auto simp: checkFlags_def split: if_splits)

lemma check_attr_header_ok:
  assumes "check_attr_header pkt b = Ok r"
  shows "flags_ok b \<and> len_ok b \<and> unat (pa_Length b + pa_HdrLen b) \<le> length pkt"
proof -
  have c: "checkFlags pkt b = Ok ()"
    using assms by (auto simp: check_attr_header_def split: if_splits)
  show ?thesis
    using assms checkFlags_ok [OF c]
    unfolding check_attr_header_def flags_ok_def len_ok_def
    by (auto split: if_splits option.splits simp: not_le)
qed

lemma base_Decode_ok:
  "BGPPathAttrBase_Decode pkt = Ok b \<Longrightarrow>
   hdr_len_ok b \<and> pa_Code b = pkt ! 1 \<and> flags_ok b \<and> len_ok b \<and> 1 < length pkt \<and>
   unat (pa_Length b + pa_HdrLen b) \<le> length pkt"
  using read_attr_header_ok check_attr_header_ok
  by (fastforce simp: BGPPathAttrBase_Decode_def)

text \<open>Every decoder returns the attribute of its own kind, with the header it has read.\<close>

lemma decoders_kind:
  "Origin_Decode pkt = Ok a \<Longrightarrow> \<exists>b v. a = BGPPathAttrOrigin b v \<and> BGPPathAttrBase_Decode pkt = Ok b"
  "ASPath_Decode pkt peer = Some (Ok a) \<Longrightarrow>
     \<exists>b segs. a = BGPPathAttrASPath b segs (peer_ASSize peer) \<and> BGPPathAttrBase_Decode pkt = Ok b"
  "AS4Path_Decode pkt = Some (Ok a) \<Longrightarrow> \<exists>b segs. a = BGPPathAttrAS4Path b segs \<and> BGPPathAttrBase_Decode pkt = Ok b"
  "NextHop_Decode pkt = Ok a \<Longrightarrow> \<exists>b v. a = BGPPathAttrNextHop b v \<and> BGPPathAttrBase_Decode pkt = Ok b"
  "MultiExitDisc_Decode pkt = Ok a \<Longrightarrow> \<exists>b v. a = BGPPathAttrMultiExitDisc b v \<and> BGPPathAttrBase_Decode pkt = Ok b"
  "LocalPref_Decode pkt = Ok a \<Longrightarrow> \<exists>b v. a = BGPPathAttrLocalPref b v \<and> BGPPathAttrBase_Decode pkt = Ok b"
  "Aggregator_Decode pkt peer = Ok a \<Longrightarrow>
     \<exists>b g ip. a = BGPPathAttrAggregator b (Some g) ip \<and> BGPPathAttrBase_Decode pkt = Ok b"
  "AS4Aggregator_Decode pkt = Ok a \<Longrightarrow> \<exists>b as ip. a = BGPPathAttrAS4Aggregator b as ip \<and> BGPPathAttrBase_Decode pkt = Ok b"
  "OriginatorId_Decode pkt = Ok a \<Longrightarrow> \<exists>b v. a = BGPPathAttrOriginatorId b v \<and> BGPPathAttrBase_Decode pkt = Ok b"
  "ClusterList_Decode pkt = Ok a \<Longrightarrow> \<exists>b v. a = BGPPathAttrClusterList b v \<and> BGPPathAttrBase_Decode pkt = Ok b"
  "Unknown_Decode pkt = Ok a \<Longrightarrow> \<exists>b v. a = BGPPathAttrUnknown b v \<and> BGPPathAttrBase_Decode pkt = Ok b"
  by (auto simp: Origin_Decode_def ASPath_Decode_def AS4Path_Decode_def NextHop_Decode_def MultiExitDisc_Decode_def
        LocalPref_Decode_def Aggregator_Decode_def AS4Aggregator_Decode_def OriginatorId_Decode_def
        ClusterList_Decode_def Unknown_Decode_def rbind_eq_Ok split: if_splits)

lemma mp_decoders_kind:
  "MPReachNLRI_Decode pkt peer = Some (Ok a) \<Longrightarrow>
     \<exists>b afi safi nh r ns. a = BGPPathAttrMPReachNLRI b afi safi nh r ns \<and> BGPPathAttrBase_Decode pkt = Ok b"
  "MPUnreachNLRI_Decode pkt peer = Some (Ok a) \<Longrightarrow>
     \<exists>b afi safi ns. a = BGPPathAttrMPUnreachNLRI b afi safi ns \<and> BGPPathAttrBase_Decode pkt = Ok b"
  by (auto simp: MPReachNLRI_Decode_def MPUnreachNLRI_Decode_def Let_def rbind_eq_Ok)

lemma pa_Decode_kind:
  assumes "pa_Decode pkt peer = Some (Ok a)"
  shows "BGPPathAttrBase_Decode pkt = Ok (pa_base a) \<and> pa_code_of a (pkt ! 1)"
proof -
  have t: "idx pkt 1 = (Ok (pkt ! 1) :: (bgp_error, u8) outcome)"
    using assms by (cases "1 < length pkt") (auto simp: pa_Decode_def idx_def)
  show ?thesis
    using assms unfolding pa_Decode_def t
    by (auto split: if_splits dest!: decoders_kind mp_decoders_kind simp: pa_type_defs)
qed

lemma pa_Decode_typed: "pa_Decode pkt peer = Some (Ok a) \<Longrightarrow> typed_attr a"
  using pa_Decode_kind [of pkt peer a] base_Decode_ok [of pkt "pa_base a"]
  by (auto simp: typed_attr_def pa_GetCode_def)

section \<open>AS paths\<close>

fun seg_sized :: "u8 \<Rightarrow> BGPASPathSegment \<Rightarrow> bool" where
  "seg_sized sz (AS2Segment _) \<longleftrightarrow> sz \<noteq> 4"
| "seg_sized sz (AS4Segment _) \<longleftrightarrow> sz = 4"

fun sized_attr :: "u8 \<Rightarrow> BGPPathAttr \<Rightarrow> bool" where
  "sized_attr asSize (BGPPathAttrASPath b segs sz) \<longleftrightarrow> sz = asSize \<and> (\<forall>s \<in> set segs. seg_sized sz s)"
| "sized_attr asSize _ \<longleftrightarrow> True"

lemma as_path_loop_forall_raw:
  fixes dec :: "byte list \<Rightarrow> (bgp_error, 's) outcome"
  assumes "as_path_loop dec seglen pkt stop ptr acc = Some r"
  shows "(\<forall>p s. dec p = Ok s \<longrightarrow> Q s) \<longrightarrow> (\<forall>s \<in> set acc. Q s) \<longrightarrow>
         (\<forall>ss. r = Ok ss \<longrightarrow> (\<forall>s \<in> set ss. Q s))"
proof (rule as_path_loop.raw_induct [where P = "\<lambda>dec seglen pkt stop ptr acc r.
    (\<forall>p s. dec p = Ok s \<longrightarrow> Q s) \<longrightarrow> (\<forall>s \<in> set acc. Q s) \<longrightarrow>
    (\<forall>ss. r = Ok ss \<longrightarrow> (\<forall>s \<in> set ss. Q s))", OF _ assms], intro impI allI)
  fix loop :: "(byte list \<Rightarrow> (bgp_error, 's) outcome) \<Rightarrow> ('s \<Rightarrow> u16) \<Rightarrow> byte list \<Rightarrow> nat \<Rightarrow> nat \<Rightarrow>
      's list \<Rightarrow> (bgp_error, 's list) outcome option"
    and dec :: "byte list \<Rightarrow> (bgp_error, 's) outcome" and seglen pkt stop ptr acc r ss
  assume IH: "\<And>dec seglen pkt stop ptr acc r. loop dec seglen pkt stop ptr acc = Some r \<Longrightarrow>
      (\<forall>p s. dec p = Ok s \<longrightarrow> Q s) \<longrightarrow> (\<forall>s \<in> set acc. Q s) \<longrightarrow> (\<forall>ss. r = Ok ss \<longrightarrow> (\<forall>s \<in> set ss. Q s))"
    and eq: "(if ptr < stop
      then rbind (Some (slice_from pkt ptr)) (\<lambda>p.
        case dec p of
          Ok s \<Rightarrow>
          if stop < (ptr + unat (seglen s)) mod 4294967296
          then Some (Error (BGPMessageError BGPUpdateMsgError BGPAttrLenError pkt))
          else loop dec seglen pkt stop ((ptr + unat (seglen s)) mod 4294967296) (acc @ [s])
        | Error e \<Rightarrow> Some (Ok acc)
        | Panic \<Rightarrow> Some Panic)
      else if ptr \<noteq> stop
      then Some (Error (BGPMessageError BGPUpdateMsgError BGPAttrLenError pkt))
      else Some (Ok acc)) = Some r"
    and q: "\<forall>p s. dec p = Ok s \<longrightarrow> Q s" "\<forall>s \<in> set acc. Q s" and r: "r = Ok ss"
  show "\<forall>s \<in> set ss. Q s"
  proof (cases "ptr < stop")
    case True
    then obtain p where p: "slice_from pkt ptr = (Ok p :: (bgp_error, byte list) outcome)"
      using eq r by (cases "slice_from pkt ptr :: (bgp_error, byte list) outcome") auto
    show ?thesis
    proof (cases "dec p")
      case (Ok s)
      then have "loop dec seglen pkt stop ((ptr + unat (seglen s)) mod 4294967296) (acc @ [s]) = Some (Ok ss)"
        using eq True p r by (auto split: if_splits)
      moreover have "\<forall>x \<in> set (acc @ [s]). Q x" using q Ok by auto
      ultimately show ?thesis using IH q(1) by blast
    qed (use eq True p r q in auto)
  qed (use eq r q in \<open>auto split: if_splits\<close>)
qed

lemma as_path_loop_forall:
  "as_path_loop dec seglen pkt stop ptr acc = Some (Ok ss) \<Longrightarrow> (\<And>p s. dec p = Ok s \<Longrightarrow> Q s) \<Longrightarrow>
   \<forall>s \<in> set acc. Q s \<Longrightarrow> \<forall>s \<in> set ss. Q s"
  using as_path_loop_forall_raw [of dec seglen pkt stop ptr acc "Ok ss" Q] by blast

lemma segment_Decode_sized: "segment_Decode sz p = Ok s \<Longrightarrow> seg_sized sz s"
  by (auto simp: segment_Decode_def split: if_splits)

lemma ASPath_Decode_sized:
  assumes "ASPath_Decode pkt peer = Some (Ok a)"
  shows "sized_attr (peer_ASSize peer) a"
proof -
  obtain b segs where a: "a = BGPPathAttrASPath b segs (peer_ASSize peer)"
    and loop: "as_path_loop (segment_Decode (peer_ASSize peer)) seg_size pkt
              (unat (base_TotalLen b)) (unat (pa_HdrLen b)) [] = Some (Ok segs)"
    using assms by (auto simp: ASPath_Decode_def rbind_eq_Ok)
  have "\<forall>s \<in> set segs. seg_sized (peer_ASSize peer) s"
    using loop by (rule as_path_loop_forall) (auto intro: segment_Decode_sized)
  then show ?thesis using a by simp
qed

lemma pa_Decode_sized:
  assumes "pa_Decode pkt peer = Some (Ok a)"
  shows "sized_attr (peer_ASSize peer) a"
proof (cases "\<exists>b segs sz. a = BGPPathAttrASPath b segs sz")
  case True
  then have "pkt ! 1 = BGPPathAttrTypeASPath" using pa_Decode_kind [OF assms] by auto
  moreover have "idx pkt 1 = (Ok (pkt ! 1) :: (bgp_error, u8) outcome)"
    using assms by (cases "1 < length pkt") (auto simp: pa_Decode_def idx_def)
  ultimately have "ASPath_Decode pkt peer = Some (Ok a)"
    using assms by (simp add: pa_Decode_def pa_type_defs)
  then show ?thesis by (rule ASPath_Decode_sized)
qed (cases a; simp)

section \<open>Reading typed attributes\<close>

definition typed_attrs :: "u8 \<Rightarrow> BGPPathAttr list \<Rightarrow> bool" where
  "typed_attrs asSize pas \<longleftrightarrow> (\<forall>a \<in> set pas. typed_attr a \<and> sized_attr asSize a)"

lemma typed_found:
  assumes "typed_attrs sz pas" "getTypeFromPathAttrs pas code = Some a"
  shows "pa_code_of a code \<and> sized_attr sz a"
  using assms by (auto simp: typed_attrs_def typed_attr_def getTypeFromPathAttrs_def find_Some_iff)

lemma as_loop_segs_sized: "\<forall>s \<in> set segs. seg_sized sz s \<Longrightarrow> as_loop_segs sz as segs \<noteq> Panic"
  by (induction segs) (auto split: BGPASPathSegment.splits)

text \<open>The struct an attribute code stands for.\<close>

lemma code_inv:
  "pa_code_of a BGPPathAttrTypeOrigin \<Longrightarrow> \<exists>b v. a = BGPPathAttrOrigin b v"
  "pa_code_of a BGPPathAttrTypeASPath \<Longrightarrow> \<exists>b segs sz. a = BGPPathAttrASPath b segs sz"
  "pa_code_of a BGPPathAttrTypeNextHop \<Longrightarrow> \<exists>b v. a = BGPPathAttrNextHop b v"
  "pa_code_of a BGPPathAttrTypeMultiExitDisc \<Longrightarrow> \<exists>b v. a = BGPPathAttrMultiExitDisc b v"
  "pa_code_of a BGPPathAttrTypeLocalPref \<Longrightarrow> \<exists>b v. a = BGPPathAttrLocalPref b v"
  "pa_code_of a BGPPathAttrTypeClusterList \<Longrightarrow> \<exists>b v. a = BGPPathAttrClusterList b v"
  "pa_code_of a BGPPathAttrTypeMPReachNLRI \<Longrightarrow> \<exists>b afi safi nh r ns. a = BGPPathAttrMPReachNLRI b afi safi nh r ns"
  "pa_code_of a BGPPathAttrTypeMPUnreachNLRI \<Longrightarrow> \<exists>b afi safi ns. a = BGPPathAttrMPUnreachNLRI b afi safi ns"
  "pa_code_of a BGPPathAttrTypeAggregator \<Longrightarrow> \<exists>b g ip. a = BGPPathAttrAggregator b g ip"
  "pa_code_of a BGPPathAttrTypeAS4Path \<Longrightarrow> \<exists>b segs. a = BGPPathAttrAS4Path b segs"
  "pa_code_of a BGPPathAttrTypeAS4Aggregator \<Longrightarrow> \<exists>b as ip. a = BGPPathAttrAS4Aggregator b as ip"
  by (cases a; simp add: pa_type_defs)+

lemma typed_readers:
  assumes "typed_attrs sz pas"
  shows "GetOrigin pas \<noteq> Panic" and "GetMED pas \<noteq> Panic" and "GetLocalPref pas \<noteq> Panic"
    and "GetNextHop pas \<noteq> Panic" and "GetNumClusters pas \<noteq> Panic" and "GetNumASes pas \<noteq> Panic"
    and "HasASLoop pas as \<noteq> Panic" and "GetMPAttrs pas \<noteq> Panic"
  using typed_found [OF assms] as_loop_segs_sized
  by (fastforce simp: GetOrigin_def GetMED_def GetLocalPref_def GetNextHop_def GetNumClusters_def
        GetNumASes_def HasASLoop_def GetMPAttrs_def as_mp_reach_def as_mp_unreach_def obind_eq_Panic
        split: option.splits dest!: typed_found [OF assms] code_inv)+

lemma BGPUpdate_Decode_typed:
  assumes "BGPUpdate_Decode header pkt peer = Some (Ok u)"
  shows "typed_attrs (peer_ASSize peer) (upd_PathAttributes u)"
proof -
  obtain off len rem where "tlv_loop (attr_at peer) attr_adv (\<lambda>a. unat (pa_TotalLen a)) pkt off len [] =
      Some (Ok (upd_PathAttributes u, rem))"
    using assms by (auto simp: BGPUpdate_Decode_def Let_def rbind_eq_Ok split_beta split: if_splits)
  then have "\<forall>a \<in> set (upd_PathAttributes u). typed_attr a \<and> sized_attr (peer_ASSize peer) a"
    by (rule tlv_loop_forall) (auto simp: attr_at_def rbind_eq_Ok intro: pa_Decode_typed pa_Decode_sized)
  then show ?thesis by (simp add: typed_attrs_def)
qed

section \<open>Termination\<close>

lemma as_path_loop_total:
  assumes pos: "\<And>p s. dec p = Ok s \<Longrightarrow> 0 < unat (seglen s)" and stop: "stop < 4294901760"
  shows "as_path_loop dec seglen pkt stop ptr acc \<noteq> None"
proof (induction "stop - ptr" arbitrary: ptr acc rule: less_induct)
  case less
  show ?case
  proof (cases "ptr < stop")
    case True
    show ?thesis
    proof (cases "slice_from pkt ptr :: (bgp_error, byte list) outcome")
      case p: (Ok p)
      show ?thesis
      proof (cases "dec p")
        case (Ok s)
        have "(ptr + unat (seglen s)) mod 4294967296 = ptr + unat (seglen s)"
          using True stop unat_u16_less [of "seglen s"] by simp
        then show ?thesis
          using less [of "ptr + unat (seglen s)"] pos [OF Ok] True p Ok
          by (subst as_path_loop.simps) (simp del: mod_less)
      qed (use True p in \<open>simp_all add: as_path_loop.simps\<close>)
    qed (use True in \<open>simp_all add: as_path_loop.simps\<close>)
  qed (simp add: as_path_loop.simps)
qed

lemma as4_len_pos: "0 < unat (ucast (l * 4 + 2 :: u8) :: u16)"
proof -
  have "(l * 4 + 2) \<noteq> 0" for l :: u8
  proof
    assume "l * 4 + 2 = 0"
    then have "unat (l * 4 + 2) = 0" by simp
    then have "(unat l * 4 + 2) mod 256 = 0" by (simp add: unat_word_ariths mod_simps)
    then show False by presburger
  qed
  then show ?thesis by (simp add: unat_gt_0 unat_ucast_byte)
qed

lemma seg4_pos: "BGPAS4PathSegment_Decode p = Ok s \<Longrightarrow> 0 < unat (seg_TotalLen s)"
  using as4_len_pos [of "seg_Length s"]
  by (auto simp: BGPAS4PathSegment_Decode_def BGPASPathSegmentBase_Decode_def split: if_splits)

lemma base_TotalLen_bound: "unat (base_TotalLen b) < 131072"
  using unat_u16_less [of "pa_Length b"] unat_u16_less [of "pa_HdrLen b"]
  by (simp add: unat_base_TotalLen)

lemma AS4Path_Decode_total: "AS4Path_Decode pkt \<noteq> None"
proof (cases "BGPPathAttrBase_Decode pkt")
  case (Ok b)
  obtain r where r: "as_path_loop BGPAS4PathSegment_Decode seg_TotalLen pkt (unat (base_TotalLen b)) (unat (pa_HdrLen b)) [] = Some r"
    using as_path_loop_total [of BGPAS4PathSegment_Decode seg_TotalLen "unat (base_TotalLen b)" pkt "unat (pa_HdrLen b)" "[]"]
      seg4_pos base_TotalLen_bound [of b] by auto
  then show ?thesis using Ok by (cases r) (simp_all add: AS4Path_Decode_def)
qed (simp_all add: AS4Path_Decode_def)

lemma ASPath_Decode_total:
  assumes "peer_ASSize peer = 4"
  shows "ASPath_Decode pkt peer \<noteq> None"
proof (cases "BGPPathAttrBase_Decode pkt")
  case (Ok b)
  have "segment_Decode (peer_ASSize peer) p = Ok s \<Longrightarrow> 0 < unat (seg_size s)" for p s
    using assms seg4_pos by (auto simp: segment_Decode_def)
  then obtain r where r: "as_path_loop (segment_Decode (peer_ASSize peer)) seg_size pkt (unat (base_TotalLen b)) (unat (pa_HdrLen b)) [] = Some r"
    using as_path_loop_total [of "segment_Decode (peer_ASSize peer)" seg_size "unat (base_TotalLen b)" pkt "unat (pa_HdrLen b)" "[]"]
      base_TotalLen_bound [of b] by auto
  then show ?thesis using Ok by (cases r) (simp_all add: ASPath_Decode_def)
qed (simp_all add: ASPath_Decode_def)

lemma length_slice_from: "slice_from pkt i = Ok p \<Longrightarrow> length p \<le> length pkt"
  by (auto simp: slice_from_def split: if_splits)

lemma mp_Decode_total:
  assumes "length pkt < 4294967000"
  shows "MPReachNLRI_Decode pkt peer \<noteq> None" and "MPUnreachNLRI_Decode pkt peer \<noteq> None"
proof -
  have rest: "decodeNLRI p l afi peer \<noteq> None" if "Some (slice_from pkt i) = (Some (Ok p) :: (bgp_error, byte list) outcome option)" for i p l afi
    using that assms by (intro decodeNLRI_total) (auto dest!: length_slice_from)
  show "MPReachNLRI_Decode pkt peer \<noteq> None"
    unfolding MPReachNLRI_Decode_def Let_def split_beta
    by (intro rbind_returns rest; assumption?) simp_all
  show "MPUnreachNLRI_Decode pkt peer \<noteq> None"
    unfolding MPUnreachNLRI_Decode_def Let_def split_beta
    by (intro rbind_returns rest; assumption?) simp_all
qed

lemma pa_Decode_total:
  assumes "peer_ASSize peer = 4" "length pkt < 4294967000"
  shows "pa_Decode pkt peer \<noteq> None"
  using ASPath_Decode_total [OF assms(1), of pkt] AS4Path_Decode_total [of pkt] mp_Decode_total [OF assms(2), of peer]
  by (cases "idx pkt 1 :: (bgp_error, u8) outcome") (auto simp: pa_Decode_def)

lemma pa_TotalLen_pos: "pa_Decode pkt peer = Some (Ok a) \<Longrightarrow> 0 < unat (pa_TotalLen a)"
  using pa_Decode_typed [of pkt peer a] length_hdr_bytes [of "pa_base a"]
  by (auto simp: typed_attr_def pa_TotalLen_def unat_base_TotalLen hdr_len_ok_unat)

lemma BGPUpdate_Decode_total:
  assumes four: "peer_ASSize peer = 4" and short: "length pkt < 4294967000"
  shows "BGPUpdate_Decode header pkt peer \<noteq> None"
proof -
  have shorter: "length p < 4294967000" if "Some (slice_from pkt i) = (Some (Ok p) :: (bgp_error, byte list) outcome option)" for i p
    using that short by (auto dest!: length_slice_from)
  have attrs: "tlv_loop (attr_at peer) attr_adv (\<lambda>a. unat (pa_TotalLen a)) pkt off n [] \<noteq> None" for off n
  proof (rule tlv_loop_total)
    fix p
    show "attr_at peer pkt p \<noteq> None"
      unfolding attr_at_def by (intro rbind_returns pa_Decode_total four shorter; assumption?) simp
    show "0 < unat (pa_TotalLen a)" if "attr_at peer pkt p = Some (Ok a)" for a
      using that by (auto simp: attr_at_def rbind_eq_Ok intro: pa_TotalLen_pos)
  qed
  have wd: "withdrawn_Decode p l peer \<noteq> None" if "length p < 4294967000" for p l
    using decodeNLRI_total [OF that, of "ucast l" AfiIP peer]
    by (auto simp: withdrawn_Decode_def split: option.splits outcome.splits)
  have branch: "c \<Longrightarrow> f \<noteq> None \<Longrightarrow> (if b then Some x else f) \<noteq> None" for b c x and f :: "'b option"
    by simp
  show ?thesis
    unfolding BGPUpdate_Decode_def Let_def split_beta
    by (intro rbind_returns branch [OF TrueI] wd attrs decodeNLRI_total shorter; assumption?) simp_all
qed

section \<open>Attributes that stop or crash the decoder\<close>

lemma as_path_loop_stuck:
  fixes dec :: "byte list \<Rightarrow> (bgp_error, 's) outcome"
  assumes "as_path_loop dec seglen pkt stop ptr acc = Some r"
  shows "ptr < 4294967296 \<longrightarrow> ptr \<le> length pkt \<longrightarrow> dec (drop ptr pkt) = Ok s \<longrightarrow> seglen s = 0 \<longrightarrow> stop \<le> ptr"
proof (rule as_path_loop.raw_induct [where P = "\<lambda>dec seglen pkt stop ptr acc r.
    ptr < 4294967296 \<longrightarrow> ptr \<le> length pkt \<longrightarrow> dec (drop ptr pkt) = Ok s \<longrightarrow> seglen s = 0 \<longrightarrow> stop \<le> ptr", OF _ assms],
    intro impI)
  fix loop :: "(byte list \<Rightarrow> (bgp_error, 's) outcome) \<Rightarrow> ('s \<Rightarrow> u16) \<Rightarrow> byte list \<Rightarrow> nat \<Rightarrow> nat \<Rightarrow>
      's list \<Rightarrow> (bgp_error, 's list) outcome option"
    and dec :: "byte list \<Rightarrow> (bgp_error, 's) outcome" and seglen pkt stop ptr acc r
  assume IH: "\<And>dec seglen pkt stop ptr acc r. loop dec seglen pkt stop ptr acc = Some r \<Longrightarrow>
      ptr < 4294967296 \<longrightarrow> ptr \<le> length pkt \<longrightarrow> dec (drop ptr pkt) = Ok s \<longrightarrow> seglen s = 0 \<longrightarrow> stop \<le> ptr"
    and eq: "(if ptr < stop
      then rbind (Some (slice_from pkt ptr)) (\<lambda>p.
        case dec p of
          Ok s \<Rightarrow>
          if stop < (ptr + unat (seglen s)) mod 4294967296
          then Some (Error (BGPMessageError BGPUpdateMsgError BGPAttrLenError pkt))
          else loop dec seglen pkt stop ((ptr + unat (seglen s)) mod 4294967296) (acc @ [s])
        | Error e \<Rightarrow> Some (Ok acc)
        | Panic \<Rightarrow> Some Panic)
      else if ptr \<noteq> stop
      then Some (Error (BGPMessageError BGPUpdateMsgError BGPAttrLenError pkt))
      else Some (Ok acc)) = Some r"
    and h: "ptr < 4294967296" "ptr \<le> length pkt" "dec (drop ptr pkt) = Ok s" "seglen s = 0"
  show "stop \<le> ptr"
  proof (rule ccontr)
    assume "\<not> stop \<le> ptr"
    with eq h have "loop dec seglen pkt stop ptr (acc @ [s]) = Some r" by simp
    with IH h \<open>\<not> stop \<le> ptr\<close> show False by blast
  qed
qed

text \<open>An update whose first attribute is not decoded is not decoded.\<close>

lemma first_attribute:
  fixes plen :: u16 and rest :: "byte list" and peer :: BGPPeerAttrs and header :: BGPHeader
  assumes plen: "0 < plen" "unat plen + 23 \<le> unat (BGPHeader_Len header)"
  defines "pkt \<equiv> [0, 0] @ put16 plen @ rest"
  shows "pa_Decode rest peer = None \<Longrightarrow> BGPUpdate_Decode header pkt peer = None"
    and "pa_Decode rest peer = Some Panic \<Longrightarrow> BGPUpdate_Decode header pkt peer = Some Panic"
proof -
  have wd: "withdrawn_Decode p 0 peer = Some (Ok ([], 0))" for p
    by (simp add: withdrawn_Decode_def decodeNLRI_def ptr_loop.simps)
  have s: "obind (slice pkt 0 2) Uint16 = (Ok 0 :: (bgp_error, u16) outcome)"
    "slice_from pkt 2 = (Ok (put16 plen @ rest) :: (bgp_error, byte list) outcome)"
    "obind (slice pkt (2 + 0) (2 + 0 + 2)) Uint16 = (Ok plen :: (bgp_error, u16) outcome)"
    "slice_from pkt (2 + 0 + 2) = (Ok rest :: (bgp_error, byte list) outcome)"
    by (simp_all add: pkt_def slice_def slice_from_def be16_def numeral_2_eq_2)
  have "0 < unat plen" using plen(1) by (simp add: word_less_nat_alt)
  then have pos: "\<not> int (unat plen) \<le> 0" by linarith
  have a: "attr_at peer pkt (2 + 0 + 2) = pa_Decode rest peer"
    unfolding attr_at_def s by simp
  have "BGPUpdate_Decode header pkt peer =
        rbind (tlv_loop (attr_at peer) attr_adv (\<lambda>a. unat (pa_TotalLen a)) pkt (2 + 0 + 2) (int (unat plen)) [])
          (\<lambda>(pas, rem).
     if rem < 0 then Some (Error malformed)
     else rbind (Some (slice_from pkt (2 + 0 + 2 + unat plen))) (\<lambda>p.
     rbind (decodeNLRI p (of_nat (unat (BGPHeader_Len header) - 23 - unat (0 :: u16) - unat plen)) AfiIP peer)
       (\<lambda>(ns, used).
       Some (Ok \<lparr>upd_WithdrawnRoutesLen = 0, upd_WithdrawnRoutes = [],
                 upd_TotalPathAttrLen = plen, upd_PathAttributes = pas, upd_NLRI = ns\<rparr>))))"
    unfolding BGPUpdate_Decode_def s rbind_simps wd prod.case Let_def using plen(2) by simp
  then show "pa_Decode rest peer = None \<Longrightarrow> BGPUpdate_Decode header pkt peer = None"
    and "pa_Decode rest peer = Some Panic \<Longrightarrow> BGPUpdate_Decode header pkt peer = Some Panic"
    by (simp_all only: tlv_loop.simps [of _ _ _ pkt "2 + 0 + 2"] if_not_P [OF pos] a rbind_simps)
qed

lemma AS2_segment_stuck:
  assumes "l = 127 \<or> l = 255" "unat l * 2 \<le> length ases"
  shows "\<exists>s. BGPAS2PathSegment_Decode (t # l # ases) = Ok s \<and> seg_TotalLen s = 0"
  using assms by (auto simp: BGPAS2PathSegment_Decode_def BGPASPathSegmentBase_Decode_def)

lemma ASPath_Decode_stuck:
  assumes hdr: "wf_hdr b" "pa_Code b = BGPPathAttrTypeASPath" and size: "peer_ASSize peer \<noteq> 4"
    and l: "l = 127 \<or> l = 255" "unat l * 2 \<le> length ases" and len: "0 < pa_Length b" "unat (pa_Length b) \<le> 2 + length ases"
  shows "pa_Decode (hdr_bytes b @ [t, l] @ ases) peer = None"
proof -
  let ?pkt = "hdr_bytes b @ [t, l] @ ases"
  obtain s where s: "BGPAS2PathSegment_Decode (t # l # ases) = Ok s" "seg_TotalLen s = 0"
    using AS2_segment_stuck [OF l] by blast
  have h: "hdr_len_ok b" using hdr(1) by (simp add: wf_hdr_def)
  then have ptr: "unat (pa_HdrLen b) = length (hdr_bytes b)" by (rule hdr_len_ok_unat)
  have "segment_Decode (peer_ASSize peer) (drop (length (hdr_bytes b)) ?pkt) = Ok (AS2Segment s)"
    using s(1) size by (simp add: segment_Decode_def)
  then have "as_path_loop (segment_Decode (peer_ASSize peer)) seg_size ?pkt (unat (base_TotalLen b)) (length (hdr_bytes b)) [] \<noteq> Some r" for r
    using as_path_loop_stuck [of "segment_Decode (peer_ASSize peer)" seg_size ?pkt "unat (base_TotalLen b)" "length (hdr_bytes b)" "[]" r "AS2Segment s"]
      s(2) ptr len(1) length_hdr_bytes [of b] by (auto simp: unat_base_TotalLen word_less_nat_alt)
  then have "as_path_loop (segment_Decode (peer_ASSize peer)) seg_size ?pkt (unat (base_TotalLen b)) (length (hdr_bytes b)) [] = None"
    by (cases "as_path_loop (segment_Decode (peer_ASSize peer)) seg_size ?pkt (unat (base_TotalLen b)) (length (hdr_bytes b)) []") auto
  moreover have "BGPPathAttrBase_Decode ?pkt = Ok b"
    using base_Decode_wf [OF hdr(1), of "[t, l] @ ases"] len(2) by simp
  moreover have "idx ?pkt 1 = (Ok BGPPathAttrTypeASPath :: (bgp_error, u8) outcome)"
    using hdr(2) by (simp add: idx_def hdr_bytes_def)
  ultimately show ?thesis
    by (simp add: pa_Decode_def ASPath_Decode_def ptr pa_type_defs)
qed

lemma unat_be16_ff: "unat (be16 0xFF l) = 65280 + unat l"
proof -
  have "(0xFF00 :: u16) = push_bit 8 0xFF" by simp
  moreover have "push_bit 8 x AND ucast l = 0" for x :: u16
  proof (rule bit_word_eqI)
    fix n :: nat
    show "bit (push_bit 8 x AND ucast l) n = bit (0 :: u16) n"
      using bit_imp_le_length [of l n] by (auto simp: bit_simps)
  qed
  then have "(push_bit 8 0xFF :: u16) AND ucast l = 0" .
  ultimately have "be16 0xFF l = 0xFF00 + ucast l"
    using word_plus_and_or [of "0xFF00" "ucast l :: u16"] by (simp add: be16_def)
  then show ?thesis using unat_byte_less [of l] by (simp add: unat_word_ariths)
qed

lemma Unknown_Decode_panics:
  assumes flags: "f AND BGPPathAttrFlagExtendedLen \<noteq> 0" "f AND BGPPathAttrFlagOptional \<noteq> 0"
      "f AND BGPPathAttrFlagTransitive \<noteq> 0"
    and code: "BGPPathAttrTypeUnknown \<le> c" and l: "0xFC \<le> l"
  shows "pa_Decode (f # c # 0xFF # l # rest) peer = Some Panic"
proof -
  let ?b = "\<lparr>pa_Flags = f, pa_Code = c, pa_Length = be16 0xFF l, pa_HdrLen = 4\<rparr>"
  have c: "c \<notin> {1, 2, 3, 4, 5, 6, 7, 8, 9, 10, 14, 15, 16, 17, 18}" "19 \<le> unat c"
    using code by (auto simp: BGPPathAttrTypeUnknown_def word_le_nat_alt)
  have l': "252 \<le> unat l" "unat l < 256" using l unat_byte_less [of l] by (simp_all add: word_le_nat_alt)
  have "unat (be16 0xFF l) = 65280 + unat l"
    by (rule unat_be16_ff)
  moreover obtain k where "unat l = 252 + k" using le_Suc_ex [OF l'(1)] by blast
  ultimately have sum: "unat (be16 0xFF l + 4) = unat l - 252" using l' by (simp add: unat_word_ariths)
  have hdr: "read_attr_header (f # c # 0xFF # l # rest) = Ok ?b"
    using flags by (simp add: read_attr_header_def numeral_eq_Suc)
  have "check_attr_header (f # c # 0xFF # l # rest) ?b = Ok ()"
    using c flags sum l'
    by (auto simp: check_attr_header_def checkFlags_def BGPPathAttrTypeFlagsMap_def BGPPathAttrTypeLenMap_def
          pa_type_defs Let_def)
  then have base: "BGPPathAttrBase_Decode (f # c # 0xFF # l # rest) = Ok ?b"
    using hdr by (simp add: BGPPathAttrBase_Decode_def)
  have "unat (4 :: u16) = 4" by simp
  then have "unat (pa_HdrLen ?b) = 4" "unat (pa_HdrLen ?b + be16 0xFF l) = unat l - 252"
    using sum by (simp_all only: BGPPathAttrBase.simps add.commute)
  then have "attr_value (f # c # 0xFF # l # rest) ?b (be16 0xFF l) = Panic"
    using l' unfolding attr_value_def slice_def by simp
  then show ?thesis
    using base c by (simp add: pa_Decode_def pa_type_defs Unknown_Decode_def idx_def)
qed

section \<open>Normalisation\<close>

lemma scan_attrs_typed:
  assumes "typed_attrs sz pas" "\<forall>p. sc_asPath sc = Some p \<longrightarrow> snd p = sz"
  shows "\<exists>sc'. scan_attrs sc pas = Ok sc' \<and> (\<forall>p. sc_asPath sc' = Some p \<longrightarrow> snd p = sz)"
  using assms
proof (induction pas arbitrary: sc)
  case (Cons a pas)
  have a: "typed_attr a" "sized_attr sz a" using Cons.prems(1) by (simp_all add: typed_attrs_def)
  have "\<exists>sc'. scan_attr sc a = Ok sc' \<and> (\<forall>p. sc_asPath sc' = Some p \<longrightarrow> snd p = sz)"
    using a Cons.prems(2)
    by (cases a) (auto simp: scan_attr_def typed_attr_def pa_type_defs)
  then obtain sc' where "scan_attr sc a = Ok sc'" "\<forall>p. sc_asPath sc' = Some p \<longrightarrow> snd p = sz" by blast
  then show ?case using Cons.IH [of sc'] Cons.prems(1) by (simp add: typed_attrs_def)
qed simp

lemma set_removeType: "set (fst (removeTypeFromPathAttrs pas code)) \<subseteq> set pas"
  by (induction pas) (auto simp: Let_def split_beta)

lemma set_remove_attr: "set (remove_attr code pas) \<subseteq> set pas"
  by (simp add: remove_attr_def set_removeType)

lemma NormalizeASPath_four:
  assumes "typed_attrs 4 pas"
  shows "\<exists>pas'. NormalizeASPath pas n = Ok pas' \<and> set pas' \<subseteq> set pas"
proof -
  let ?sc = "\<lparr>sc_asPath = None, sc_as4Path = None, sc_agg = None, sc_as4Agg = False\<rparr>"
  obtain sc where sc: "scan_attrs ?sc pas = Ok sc" "\<forall>p. sc_asPath sc = Some p \<longrightarrow> snd p = 4"
    using scan_attrs_typed [OF assms, of ?sc] by auto
  have sub: "set (remove_attr c (remove_attr d pas)) \<subseteq> set pas" "set (remove_attr c pas) \<subseteq> set pas" for c d
    using set_remove_attr by blast+
  show ?thesis
    using sc sub by (cases "sc_asPath sc") (auto simp: NormalizeASPath_def Let_def)
qed

lemma BGPMessage_Decode_typed:
  assumes dec: "BGPMessage_Decode header pkt peer = Some (Ok m)" and four: "peer_ASSize peer = 4"
    and body: "msg_Body m = UpdateBody u"
  shows "typed_attrs 4 (upd_PathAttributes u)"
proof -
  obtain v pas where v: "BGPUpdate_Decode header pkt peer = Some (Ok v)"
    "NormalizeASPath (upd_PathAttributes v) (upd_TotalPathAttrLen v) = Ok pas" "upd_PathAttributes u = pas"
    using dec body by (auto simp: BGPMessage_Decode_def Let_def rbind_eq_Ok split: if_splits)
  have t: "typed_attrs 4 (upd_PathAttributes v)" using BGPUpdate_Decode_typed [OF v(1)] four by simp
  then have "set pas \<subseteq> set (upd_PathAttributes v)"
    using NormalizeASPath_four [OF t, of "upd_TotalPathAttrLen v"] v(2) by auto
  then show ?thesis using t v(3) by (auto simp: typed_attrs_def)
qed

text \<open>For a two-byte peer the segments are converted in the list, and then the old ones are used.\<close>

definition plain_attr :: "BGPPathAttr \<Rightarrow> bool" where
  "plain_attr a \<longleftrightarrow> pa_GetCode a \<notin> {BGPPathAttrTypeASPath, BGPPathAttrTypeAS4Path,
     BGPPathAttrTypeAggregator, BGPPathAttrTypeAS4Aggregator}"

lemma scan_attrs_append:
  "scan_attrs sc (xs @ ys) = obind (scan_attrs sc xs) (\<lambda>sc. scan_attrs sc ys)"
  by (induction xs arbitrary: sc) (simp_all add: obind_assoc)

lemma scan_attrs_plain: "\<forall>a \<in> set pas. plain_attr a \<Longrightarrow> scan_attrs sc pas = Ok sc"
  by (induction pas) (simp_all add: scan_attr_def plain_attr_def)

lemma ConvertAS2ToAS4_at:
  "\<forall>a \<in> set pre. pa_GetCode a \<noteq> BGPPathAttrTypeASPath \<Longrightarrow>
   pa_Code b = BGPPathAttrTypeASPath \<Longrightarrow> omap widen_segment segs = Ok ss \<Longrightarrow>
   ConvertAS2ToAS4 (pre @ BGPPathAttrASPath b segs sz # post) =
   Ok (pre @ foldl AppendASPathSegment empty_as4_path ss # post)"
  by (induction pre) (simp_all add: pa_GetCode_def)

lemma fold_Append:
  "\<exists>b'. foldl AppendASPathSegment (BGPPathAttrASPath b segs sz) ss = BGPPathAttrASPath b' (segs @ ss) sz \<and>
        pa_Code b' = pa_Code b"
proof (induction ss arbitrary: b segs)
  case (Cons s ss)
  from Cons.IH [of "b\<lparr>pa_Length := pa_Length b + seg_size s\<rparr>" "segs @ [s]"] show ?case by simp
qed simp

lemma empty_as4_path_eq:
  "empty_as4_path = BGPPathAttrASPath (mk_base 0x50 BGPPathAttrTypeASPath 0 4) [] 4"
  by (simp add: empty_as4_path_def NewBGPPathAttrASPath_def)

lemma getType_plain:
  "\<forall>a \<in> set pre. plain_attr a \<Longrightarrow> code = BGPPathAttrTypeASPath \<or> code = BGPPathAttrTypeAS4Path \<Longrightarrow>
   getTypeFromPathAttrs (pre @ post) code = getTypeFromPathAttrs post code"
  by (induction pre) (auto simp: getTypeFromPathAttrs_def plain_attr_def)

lemma leading_segments_idx:
  "fst (leading_segments skip i segs n p) \<le> i + length segs"
  by (induction skip i segs n p rule: leading_segments.induct) (auto simp: le_diff_conv)

lemma ConstructASPath_panics:
  assumes "\<forall>s \<in> set segs. seg_sized 2 s"
  shows "ConstructASPathFromAS4Path segs (s # ss) skip = Panic"
proof -
  obtain i n p where l: "leading_segments skip 0 segs 0 empty_as4_path = (i, n, p)"
    by (cases "leading_segments skip 0 segs 0 empty_as4_path") auto
  show ?thesis
  proof (cases "i < length segs")
    case True
    then obtain t where "segs ! i = AS2Segment t"
      using assms by (cases "segs ! i") (force dest: nth_mem)+
    then show ?thesis using l True by (simp add: ConstructASPathFromAS4Path_def)
  qed (use l in \<open>simp add: ConstructASPathFromAS4Path_def idx_def\<close>)
qed

section \<open>Properties\<close>

text \<open>C2: Whatever bytes an UPDATE is decoded from, each of its attributes has the struct, flags and
  length that its code stands for and its AS path has segments of the peer's AS size only; so every
  reader that asserts a type (origin, MED, local preference, next hop, cluster and AS counts, the AS
  loop check, the multiprotocol attributes) returns without a panic.\<close>

theorem decoded_update_readers_safe:
  assumes "BGPUpdate_Decode header pkt peer = Some (Ok u)"
  defines "pas \<equiv> upd_PathAttributes u"
  shows "typed_attrs (peer_ASSize peer) pas \<and>
         GetOrigin pas \<noteq> Panic \<and> GetMED pas \<noteq> Panic \<and> GetLocalPref pas \<noteq> Panic \<and>
         GetNextHop pas \<noteq> Panic \<and> GetNumClusters pas \<noteq> Panic \<and> GetNumASes pas \<noteq> Panic \<and>
         HasASLoop pas as \<noteq> Panic \<and> GetMPAttrs pas \<noteq> Panic"
proof -
  have t: "typed_attrs (peer_ASSize peer) pas"
    unfolding pas_def using assms(1) by (rule BGPUpdate_Decode_typed)
  then show ?thesis by (intro conjI typed_readers [OF t])
qed

theorem decoded_update_readers_safe_witness:
  "HasASLoop (upd_PathAttributes (with_lengths example_update)) 70000 \<noteq> Panic"
proof -
  have "BGPUpdate_Decode (header_of 54 2) (update_wire example_update) example_peer =
        Some (Ok (with_lengths example_update))"
    using wf_example(2)
    by (intro BGPUpdate_Decode_wire wf_example(1)) (simp add: header_of_def BGPHeader_Len_def BGPMsgHeaderLen_def)
  from decoded_update_readers_safe [OF this] show ?thesis by simp
qed



text \<open>For a peer with two-byte AS numbers it does not always: the length of a segment of 127 or 255
  AS numbers is computed in eight bits and is 0, so an UPDATE whose first attribute is an AS path that
  starts with such a segment is decoded forever.\<close>

theorem as2_path_never_returns:
  assumes "wf_hdr b" "pa_Code b = BGPPathAttrTypeASPath" and "peer_ASSize peer = 2"
    and "l = 127 \<or> l = 255" "unat l * 2 \<le> length ases"
    and "0 < pa_Length b" "unat (pa_Length b) \<le> 2 + length ases"
    and "0 < plen" "unat plen + 23 \<le> unat (BGPHeader_Len header)"
  shows "BGPUpdate_Decode header ([0, 0] @ put16 plen @ hdr_bytes b @ [t, l] @ ases) peer = None"
  using assms by (intro first_attribute(1) ASPath_Decode_stuck) simp_all

theorem as2_path_never_returns_witness:
  "BGPUpdate_Decode (header_of 283 2) ([0, 0] @ put16 260 @
     hdr_bytes \<lparr>pa_Flags = 0x50, pa_Code = 2, pa_Length = 256, pa_HdrLen = 4\<rparr> @ [2, 127] @ replicate 254 1)
     (NewPeerConn_attrs) = None"
  by (rule as2_path_never_returns)
     (simp_all add: wf_hdr_def hdr_len_ok_def flags_ok_def len_ok_def pa_flag_defs pa_type_defs
        BGPPathAttrTypeFlagsMap_def BGPPathAttrTypeLenMap_def NewPeerConn_attrs_def header_of_def BGPHeader_Len_def)

text \<open>An unknown optional transitive attribute that claims a length of 65532 bytes or more crashes
  the decoder, however short the message: header length and value length are added in sixteen bits, so
  the check against the bytes at hand passes and the value is sliced from 4 to at most 3.\<close>

theorem huge_attribute_panics:
  assumes "f AND BGPPathAttrFlagExtendedLen \<noteq> 0" "f AND BGPPathAttrFlagOptional \<noteq> 0"
      "f AND BGPPathAttrFlagTransitive \<noteq> 0"
    and "BGPPathAttrTypeUnknown \<le> c" and "0xFC \<le> l"
    and "0 < plen" "unat plen + 23 \<le> unat (BGPHeader_Len header)"
  shows "BGPUpdate_Decode header ([0, 0] @ put16 plen @ f # c # 0xFF # l # rest) peer = Some Panic"
  using assms by (intro first_attribute(2) Unknown_Decode_panics) simp_all

theorem huge_attribute_panics_witness:
  "BGPUpdate_Decode (header_of 27 2) ([0, 0] @ put16 4 @ 0xD0 # 200 # 0xFF # 0xFF # []) example_peer = Some Panic"
  by (rule huge_attribute_panics) (simp_all add: pa_flag_defs pa_type_defs header_of_def BGPHeader_Len_def)

text \<open>An update from a two-byte peer with a non-empty AS4_PATH that is not longer than its AS_PATH
  crashes in the normalisation: the AS4_PATH is merged with the two-byte segments of the attribute the
  list no longer holds, which are asserted to be four-byte ones.\<close>

theorem as4_path_of_two_byte_peer_panics:
  assumes plain: "\<forall>a \<in> set pre \<union> set mid \<union> set post. plain_attr a"
    and codes: "pa_Code b = BGPPathAttrTypeASPath" "pa_Code b4 = BGPPathAttrTypeAS4Path"
    and segs: "\<forall>s \<in> set segs. seg_sized 2 s" "omap widen_segment segs = Ok wide"
    and longer: "count_ases (map AS4Segment (s # ss)) \<le> count_ases wide" and n: "n \<noteq> 0"
  shows "NormalizeASPath (pre @ BGPPathAttrASPath b segs 2 # mid @ BGPPathAttrAS4Path b4 (s # ss) # post) n = Panic"
proof -
  let ?pas = "pre @ BGPPathAttrASPath b segs 2 # mid @ BGPPathAttrAS4Path b4 (s # ss) # post"
  let ?sc = "\<lparr>sc_asPath = Some (segs, 2), sc_as4Path = Some (s # ss), sc_agg = None, sc_as4Agg = False\<rparr>"
  have scan: "scan_attrs \<lparr>sc_asPath = None, sc_as4Path = None, sc_agg = None, sc_as4Agg = False\<rparr> ?pas = Ok ?sc"
    using plain codes
    by (simp add: scan_attrs_append scan_attrs_plain scan_attr_def pa_GetCode_def pa_type_defs)
  obtain b' where b': "foldl AppendASPathSegment empty_as4_path wide = BGPPathAttrASPath b' wide 4"
    "pa_Code b' = BGPPathAttrTypeASPath"
    using fold_Append [of "mk_base 0x50 BGPPathAttrTypeASPath 0 4" "[]" 4 wide]
    by (auto simp: empty_as4_path_eq mk_base_def)
  let ?pas' = "pre @ BGPPathAttrASPath b' wide 4 # mid @ BGPPathAttrAS4Path b4 (s # ss) # post"
  have conv: "ConvertAS2ToAS4 ?pas = Ok ?pas'"
    using ConvertAS2ToAS4_at [OF _ codes(1) segs(2), of pre 2] plain b' by (simp add: plain_attr_def)
  have "getTypeFromPathAttrs ?pas' BGPPathAttrTypeASPath = Some (BGPPathAttrASPath b' wide 4)"
    using plain b'(2) by (subst getType_plain) (simp_all add: getTypeFromPathAttrs_def pa_GetCode_def)
  then have n1: "GetNumASesByASType ?pas' BGPPathAttrTypeASPath = Ok (count_ases wide)"
    by (simp add: GetNumASesByASType_def)
  have "getTypeFromPathAttrs (BGPPathAttrASPath b' wide 4 # mid @ BGPPathAttrAS4Path b4 (s # ss) # post) BGPPathAttrTypeAS4Path =
        getTypeFromPathAttrs (mid @ BGPPathAttrAS4Path b4 (s # ss) # post) BGPPathAttrTypeAS4Path"
    using b'(2) by (simp add: getTypeFromPathAttrs_def pa_GetCode_def pa_type_defs)
  then have "getTypeFromPathAttrs ?pas' BGPPathAttrTypeAS4Path = Some (BGPPathAttrAS4Path b4 (s # ss))"
    using plain codes(2) getType_plain [of pre BGPPathAttrTypeAS4Path] getType_plain [of mid BGPPathAttrTypeAS4Path]
    by (simp add: getTypeFromPathAttrs_def pa_GetCode_def)
  then have n2: "GetNumASesByASType ?pas' BGPPathAttrTypeAS4Path = Ok (count_ases (map AS4Segment (s # ss)))"
    by (simp add: GetNumASesByASType_def pa_type_defs)
  have "normalize_as2 ?pas segs ?sc = Panic"
    using longer ConstructASPath_panics [OF segs(1), of s ss]
    by (simp add: normalize_as2_def conv n1 n2)
  then show ?thesis by (simp add: NormalizeASPath_def scan n)
qed

theorem as4_path_of_two_byte_peer_panics_witness:
  "NormalizeASPath ([] @ BGPPathAttrASPath (mk_base 0x40 2 4 3)
       [AS2Segment \<lparr>seg_Type = 2, seg_Length = 1, seg_TotalLen = 4, seg_AS2 = [23456]\<rparr>] 2 # [] @
     BGPPathAttrAS4Path (mk_base 0xC0 17 6 3) (\<lparr>seg_Type = 2, seg_Length = 1, seg_TotalLen = 6, seg_AS4 = [70000]\<rparr> # []) # []) 16 = Panic"
  by (rule as4_path_of_two_byte_peer_panics [where wide =
        "[AS4Segment \<lparr>seg_Type = 2, seg_Length = 1, seg_TotalLen = 6, seg_AS4 = [23456]\<rparr>]"])
     (simp_all add: mk_base_def pa_type_defs widen_segment_def BGPASPathSegmentSet_def
        BGPASPathSegmentSequence_def NewBGPAS4PathSegmentSeq_def NewBGPAS4PathSegment_def)

end
