(* ===== verification/BgpAttrLists.thy ===== *)
theory BgpAttrLists
  imports BgpUpdateSafe
begin

text \<open>
  What the list functions of \<open>bgp/packet/helpers.go\<close> do to the attributes of an update: the setters of
  local preference and MED, the removal of the multiprotocol attributes, the insertion by code, and
  the attributes of route reflection. The attributes of an update are to be in ascending order of
  their codes.
\<close>

definition codes :: "BGPPathAttr list \<Rightarrow> u8 list" where
  "codes pas = map pa_GetCode pas"

abbreviation ordered :: "BGPPathAttr list \<Rightarrow> bool" where
  "ordered pas \<equiv> sorted (codes pas)"

text \<open>The attributes of every other code.\<close>

abbreviation others :: "u8 \<Rightarrow> BGPPathAttr list \<Rightarrow> BGPPathAttr list" where
  "others c pas \<equiv> filter (\<lambda>a. pa_GetCode a \<noteq> c) pas"

lemma codes_simps [simp]:
  "codes [] = []" "codes (a # pas) = pa_GetCode a # codes pas" "codes (xs @ ys) = codes xs @ codes ys"
  "set (codes pas) = pa_GetCode ` set pas" "length (codes pas) = length pas"
  by (simp_all add: codes_def)

section \<open>Insertion in order\<close>

text \<open>What \<open>insert_attr (insert_pos c pas)\<close> is: insertion before the first larger code.\<close>

fun insert_in_order :: "BGPPathAttr \<Rightarrow> BGPPathAttr list \<Rightarrow> BGPPathAttr list" where
  "insert_in_order a [] = [a]"
| "insert_in_order a (p # pas) =
     (if pa_GetCode p > pa_GetCode a then a # p # pas else p # insert_in_order a pas)"

lemma insert_attr_in_order:
  "pas \<noteq> [] \<Longrightarrow> insert_attr (insert_pos (pa_GetCode a) pas) a pas = insert_in_order a pas"
proof -
  have "take (length (takeWhile (\<lambda>p. \<not> pa_GetCode p > pa_GetCode a) pas)) pas @ [a] @
        drop (length (takeWhile (\<lambda>p. \<not> pa_GetCode p > pa_GetCode a) pas)) pas = insert_in_order a pas"
    by (induction pas) simp_all
  then show "pas \<noteq> [] \<Longrightarrow> ?thesis" by (simp add: insert_pos_def insert_attr_def)
qed

lemma set_insert_in_order [simp]: "set (insert_in_order a pas) = Set.insert a (set pas)"
  by (induction pas) auto

lemma filter_insert_in_order [simp]: "\<not> P a \<Longrightarrow> filter P (insert_in_order a pas) = filter P pas"
  by (induction pas) auto

lemma ordered_insert: "ordered pas \<Longrightarrow> ordered (insert_in_order a pas)"
  by (induction pas) force+

lemma find_insert_in_order:
  "\<forall>p \<in> set pas. pa_GetCode p \<noteq> pa_GetCode a \<Longrightarrow>
   getTypeFromPathAttrs (insert_in_order a pas) (pa_GetCode a) = Some a"
  by (induction pas) (simp_all add: getTypeFromPathAttrs_def)

section \<open>Local preference and MED\<close>

lemma overwrite_local_pref_ok:
  assumes "\<forall>a \<in> set pas. typed_attr a" "\<exists>a \<in> set pas. pa_GetCode a = BGPPathAttrTypeLocalPref"
  shows "\<exists>pas'. overwrite_local_pref pas pref = Ok pas' \<and> codes pas' = codes pas \<and>
           others BGPPathAttrTypeLocalPref pas' = others BGPPathAttrTypeLocalPref pas \<and>
           (\<exists>b. getTypeFromPathAttrs pas' BGPPathAttrTypeLocalPref = Some (BGPPathAttrLocalPref b pref))"
  using assms
proof (induction pas)
  case (Cons a pas)
  show ?case
  proof (cases "pa_GetCode a = BGPPathAttrTypeLocalPref")
    case True
    then obtain b v where "a = BGPPathAttrLocalPref b v"
      using Cons.prems code_inv(5) by (fastforce simp: typed_attr_def)
    then show ?thesis using True by (simp add: getTypeFromPathAttrs_def pa_GetCode_def)
  next
    case False
    then show ?thesis using Cons by (auto simp: getTypeFromPathAttrs_def)
  qed
qed simp

lemma overwrite_med_ok:
  assumes "\<forall>a \<in> set pas. typed_attr a" "\<exists>a \<in> set pas. pa_GetCode a = BGPPathAttrTypeMultiExitDisc"
  shows "\<exists>pas'. overwrite_med pas med = Ok pas' \<and> codes pas' = codes pas \<and>
           others BGPPathAttrTypeMultiExitDisc pas' = others BGPPathAttrTypeMultiExitDisc pas \<and>
           (\<exists>b. getTypeFromPathAttrs pas' BGPPathAttrTypeMultiExitDisc = Some (BGPPathAttrMultiExitDisc b med))"
  using assms
proof (induction pas)
  case (Cons a pas)
  show ?case
  proof (cases "pa_GetCode a = BGPPathAttrTypeMultiExitDisc")
    case True
    then obtain b v where "a = BGPPathAttrMultiExitDisc b v"
      using Cons.prems code_inv(4) by (fastforce simp: typed_attr_def)
    then show ?thesis using True by (simp add: getTypeFromPathAttrs_def pa_GetCode_def)
  next
    case False
    then show ?thesis using Cons by (auto simp: getTypeFromPathAttrs_def)
  qed
qed simp

text \<open>Both setters, when they write: the value is set, the order and the other attributes are kept.\<close>

lemma SetLocalPref_ok:
  assumes typed: "\<forall>a \<in> set pas. typed_attr a" and "ordered pas" "pas \<noteq> []"
    and writes: "overwrite \<or> (\<forall>a \<in> set pas. pa_GetCode a \<noteq> BGPPathAttrTypeLocalPref)"
  shows "\<exists>pas'. SetLocalPrefToPathAttrs pas pref overwrite = Ok pas' \<and> GetLocalPref pas' = Ok pref \<and>
           ordered pas' \<and> others BGPPathAttrTypeLocalPref pas' = others BGPPathAttrTypeLocalPref pas"
proof (cases "\<exists>a \<in> set pas. pa_GetCode a = BGPPathAttrTypeLocalPref")
  case True
  then show ?thesis
    using overwrite_local_pref_ok [OF typed True, of pref] writes \<open>ordered pas\<close>
    by (auto simp: SetLocalPrefToPathAttrs_def list_ex_iff GetLocalPref_def)
next
  case False
  let ?a = "BGPPathAttrLocalPref (pa_base NewBGPPathAttrLocalPref) pref"
  have c: "pa_GetCode ?a = BGPPathAttrTypeLocalPref"
    by (simp add: pa_GetCode_def NewBGPPathAttrLocalPref_def mk_base_def)
  have "SetLocalPrefToPathAttrs pas pref overwrite = Ok (insert_in_order ?a pas)"
    using False insert_attr_in_order [OF \<open>pas \<noteq> []\<close>, of ?a] c
    by (auto simp: SetLocalPrefToPathAttrs_def list_ex_iff)
  moreover have "GetLocalPref (insert_in_order ?a pas) = Ok pref"
    using find_insert_in_order [of pas ?a] False c by (auto simp: GetLocalPref_def)
  ultimately show ?thesis using ordered_insert [OF \<open>ordered pas\<close>] c by simp
qed

lemma SetMED_ok:
  assumes typed: "\<forall>a \<in> set pas. typed_attr a" and "ordered pas" "pas \<noteq> []"
    and writes: "overwrite \<or> (\<forall>a \<in> set pas. pa_GetCode a \<noteq> BGPPathAttrTypeMultiExitDisc)"
  shows "\<exists>pas'. SetMEDToPathAttrs pas med overwrite = Ok pas' \<and> GetMED pas' = Ok (med, True) \<and>
           ordered pas' \<and> others BGPPathAttrTypeMultiExitDisc pas' = others BGPPathAttrTypeMultiExitDisc pas"
proof (cases "\<exists>a \<in> set pas. pa_GetCode a = BGPPathAttrTypeMultiExitDisc")
  case True
  then show ?thesis
    using overwrite_med_ok [OF typed True, of med] writes \<open>ordered pas\<close>
    by (auto simp: SetMEDToPathAttrs_def list_ex_iff GetMED_def)
next
  case False
  let ?a = "BGPPathAttrMultiExitDisc (pa_base NewBGPPathAttrMultiExitDisc) med"
  have c: "pa_GetCode ?a = BGPPathAttrTypeMultiExitDisc"
    by (simp add: pa_GetCode_def NewBGPPathAttrMultiExitDisc_def mk_base_def)
  have "SetMEDToPathAttrs pas med overwrite = Ok (insert_in_order ?a pas)"
    using False insert_attr_in_order [OF \<open>pas \<noteq> []\<close>, of ?a] c
    by (auto simp: SetMEDToPathAttrs_def list_ex_iff)
  moreover have "GetMED (insert_in_order ?a pas) = Ok (med, True)"
    using find_insert_in_order [of pas ?a] False c by (auto simp: GetMED_def)
  ultimately show ?thesis using ordered_insert [OF \<open>ordered pas\<close>] c by simp
qed

section \<open>Insertion by code\<close>

text \<open>In an ordered list the last attribute with a larger code is the last one, if there is any.\<close>

lemma last_larger_ordered:
  "ordered pas \<Longrightarrow> pas \<noteq> [] \<Longrightarrow> pa_GetCode (last pas) > code \<Longrightarrow>
   last_larger code i pas r = Some (i + length pas - 1)"
proof (induction pas arbitrary: i r)
  case (Cons p pas)
  then show ?case by (cases "pas = []") auto
qed simp

lemma last_larger_none: "\<forall>p \<in> set pas. \<not> pa_GetCode p > code \<Longrightarrow> last_larger code i pas r = r"
  by (induction pas arbitrary: i) simp_all

lemma AddPathAttr_eq:
  assumes "ordered pas"
  shows "AddPathAttrToPathAttrsByCode pas code a =
         (if pas \<noteq> [] \<and> pa_GetCode (last pas) > code then butlast pas @ [a, last pas] else pas @ [a])"
proof (cases "pas \<noteq> [] \<and> pa_GetCode (last pas) > code")
  case True
  then have "drop (length pas - 1) pas = [last pas]"
    by (metis append_butlast_last_id append_eq_conv_conj length_butlast)
  then show ?thesis
    using True last_larger_ordered [OF assms, of code 0 None]
    by (simp add: AddPathAttrToPathAttrsByCode_def butlast_conv_take)
next
  case False
  have "\<forall>p \<in> set pas. \<not> pa_GetCode p > code"
  proof (cases "pas = []")
    case False
    then have "pas = butlast pas @ [last pas]" by simp
    then have "\<forall>p \<in> set pas. pa_GetCode p \<le> pa_GetCode (last pas)"
      using assms by (metis (no_types, lifting) codes_simps(1-4) imageI in_set_conv_decomp_last
          order_refl set_append sorted_append Un_iff list.set_intros(1) set_ConsD empty_iff list.set(1))
    then show ?thesis using False \<open>\<not> (pas \<noteq> [] \<and> pa_GetCode (last pas) > code)\<close> by force
  qed simp
  then have "last_larger code 0 pas None = None" by (rule last_larger_none)
  then show ?thesis using False by (auto simp: AddPathAttrToPathAttrsByCode_def)
qed

lemma AddPathAttr_order:
  assumes ord: "ordered pas"
  shows "ordered (AddPathAttrToPathAttrsByCode pas (pa_GetCode a) a) \<longleftrightarrow>
         length (filter (\<lambda>p. pa_GetCode p > pa_GetCode a) pas) \<le> 1"
proof (cases "pas = []")
  case True
  then show ?thesis by (simp add: AddPathAttrToPathAttrsByCode_def)
next
  case False
  define xs where "xs = butlast pas"
  define x where "x = last pas"
  have pas: "pas = xs @ [x]" using False by (simp add: xs_def x_def)
  have ox: "ordered xs" "\<forall>p \<in> set xs. pa_GetCode p \<le> pa_GetCode x"
    using ord by (simp_all add: pas sorted_append)
  show ?thesis
  proof (cases "pa_GetCode x > pa_GetCode a")
    case True
    have "length (filter (\<lambda>p. pa_GetCode p > pa_GetCode a) xs) = 0 \<longleftrightarrow> (\<forall>p \<in> set xs. pa_GetCode p \<le> pa_GetCode a)"
      by (simp add: filter_empty_conv not_less)
    then show ?thesis
      using True ox by (auto simp: AddPathAttr_eq [OF ord, unfolded pas] pas sorted_append)
  next
    case False
    then have "filter (\<lambda>p. pa_GetCode p > pa_GetCode a) pas = []"
      using ox(2) by (auto simp: pas filter_empty_conv not_less)
    then show ?thesis
      using False ox by (auto simp: AddPathAttr_eq [OF ord, unfolded pas] pas sorted_append not_less)
  qed
qed

section \<open>Route reflection\<close>

lemma AddOriginatorId_eq:
  assumes "pas \<noteq> []" "\<forall>a \<in> set pas. pa_GetCode a \<noteq> BGPPathAttrTypeOriginatorId"
  shows "AddOriginatorId pas i =
         (takeWhile (\<lambda>a. pa_GetCode a \<le> BGPPathAttrTypeOriginatorId) pas @ [NewBGPPathAttrOriginatorId i], True)"
  using assms
  by (simp add: AddOriginatorId_def insert_pos_def list_ex_iff not_less takeWhile_eq_take [symmetric])

lemma cluster_idx_none:
  assumes "\<forall>a \<in> set pas. pa_GetCode a \<noteq> BGPPathAttrTypeClusterList" "r \<noteq> None"
  shows "cluster_idx h i pas r = (r, False)"
  using assms by (induction pas arbitrary: i) auto

lemma cluster_idx_absent:
  assumes "\<forall>a \<in> set pas. pa_GetCode a \<noteq> BGPPathAttrTypeClusterList" "pas \<noteq> []" "h = i + length pas"
  shows "cluster_idx h i pas None =
         (Some (i + length (takeWhile (\<lambda>a. pa_GetCode a \<le> BGPPathAttrTypeClusterList) pas)), False)"
  using assms
proof (induction pas arbitrary: i)
  case (Cons a pas)
  show ?case
  proof (cases "pa_GetCode a > BGPPathAttrTypeClusterList \<or> pas = []")
    case True
    then show ?thesis using Cons.prems by (auto simp: cluster_idx_none)
  next
    case False
    then show ?thesis using Cons.IH [of "i + 1"] Cons.prems by (auto simp: not_less)
  qed
qed simp

lemma AddClusterId_eq:
  assumes "pas \<noteq> []" "\<forall>a \<in> set pas. pa_GetCode a \<noteq> BGPPathAttrTypeClusterList"
  shows "AddClusterId pas i =
         Ok (takeWhile (\<lambda>a. pa_GetCode a \<le> BGPPathAttrTypeClusterList) pas @
             [PrependId NewBGPPathAttrClusterList i], True)"
proof -
  let ?k = "length (takeWhile (\<lambda>a. pa_GetCode a \<le> BGPPathAttrTypeClusterList) pas)"
  have "take ?k pas = takeWhile (\<lambda>a. pa_GetCode a \<le> BGPPathAttrTypeClusterList) pas"
    by (simp add: takeWhile_eq_take [symmetric])
  then show ?thesis
    using cluster_idx_absent [OF assms(2,1), of "length pas" 0]
    by (simp add: AddClusterId_def nth_append NewBGPPathAttrClusterList_def list_update_append)
qed

section \<open>The multiprotocol attributes\<close>

lemma removeType_eq:
  "removeTypeFromPathAttrs pas code = (fst (removeTypeFromPathAttrs pas code), getTypeFromPathAttrs pas code)"
  by (induction pas) (auto simp: getTypeFromPathAttrs_def Let_def split_beta prod_eq_iff)

lemma removeType_distinct:
  "distinct (codes pas) \<Longrightarrow> fst (removeTypeFromPathAttrs pas code) = others code pas"
proof (induction pas)
  case (Cons a pas)
  show ?case
  proof (cases "pa_GetCode a = code")
    case True
    then have "\<forall>p \<in> set pas. pa_GetCode p \<noteq> code" using Cons.prems by (auto simp: rev_image_eqI)
    then show ?thesis using True by (simp add: filter_True)
  qed (use Cons in \<open>simp add: Let_def split_beta\<close>)
qed simp

lemma getType_others: "c \<noteq> d \<Longrightarrow> getTypeFromPathAttrs (others c pas) d = getTypeFromPathAttrs pas d"
  by (induction pas) (auto simp: getTypeFromPathAttrs_def)

lemma as_mp_typed:
  assumes "\<forall>a \<in> set pas. typed_attr a"
  shows "as_mp_reach (getTypeFromPathAttrs pas BGPPathAttrTypeMPReachNLRI) =
         Ok (getTypeFromPathAttrs pas BGPPathAttrTypeMPReachNLRI)"
    and "as_mp_unreach (getTypeFromPathAttrs pas BGPPathAttrTypeMPUnreachNLRI) =
         Ok (getTypeFromPathAttrs pas BGPPathAttrTypeMPUnreachNLRI)"
proof -
  have "pa_code_of a c" if "getTypeFromPathAttrs pas c = Some a" for c a
    using that assms by (auto simp: typed_attr_def getTypeFromPathAttrs_def find_Some_iff)
  then show "as_mp_reach (getTypeFromPathAttrs pas BGPPathAttrTypeMPReachNLRI) =
         Ok (getTypeFromPathAttrs pas BGPPathAttrTypeMPReachNLRI)"
    and "as_mp_unreach (getTypeFromPathAttrs pas BGPPathAttrTypeMPUnreachNLRI) =
         Ok (getTypeFromPathAttrs pas BGPPathAttrTypeMPUnreachNLRI)"
    by (fastforce simp: as_mp_reach_def as_mp_unreach_def split: option.splits dest!: code_inv)+
qed

section \<open>The check of the mandatory attributes\<close>

lemma duplicate_attr_iff:
  "duplicate_attr found pas \<longleftrightarrow> \<not> distinct (codes pas) \<or> set found \<inter> set (codes pas) \<noteq> {}"
  by (induction found pas rule: duplicate_attr.induct) auto

lemma checkPathAttributes_iff:
  "checkPathAttributes pas = Ok () \<longleftrightarrow>
   distinct (codes pas) \<and> set BGPPathAttrWellKnownMandatory \<subseteq> set (codes pas)"
proof -
  let ?f = "find (\<lambda>t. t \<notin> pa_GetCode ` set pas) BGPPathAttrWellKnownMandatory"
  have k: "set BGPPathAttrWellKnownMandatory \<subseteq> set (codes pas) \<longleftrightarrow> ?f = None"
    by (auto simp: find_None_iff)
  have d: "distinct (codes pas) \<longleftrightarrow> \<not> duplicate_attr [] pas" by (simp add: duplicate_attr_iff)
  show ?thesis
    unfolding k d by (cases ?f) (simp_all add: checkPathAttributes_def malformed_def)
qed

section \<open>Properties\<close>

text \<open>C24: Setting the local preference of an update writes the value (also over an existing one when asked
  to), keeps the ascending order of the attributes and touches no other attribute; so does setting
  the MED.\<close>

theorem set_local_pref_and_med:
  assumes "\<forall>a \<in> set pas. typed_attr a" "ordered pas" "pas \<noteq> []"
  shows "\<exists>pas' pas''. SetLocalPrefToPathAttrs pas pref True = Ok pas' \<and> GetLocalPref pas' = Ok pref \<and>
           ordered pas' \<and> others BGPPathAttrTypeLocalPref pas' = others BGPPathAttrTypeLocalPref pas \<and>
           SetMEDToPathAttrs pas med True = Ok pas'' \<and> GetMED pas'' = Ok (med, True) \<and>
           ordered pas'' \<and> others BGPPathAttrTypeMultiExitDisc pas'' = others BGPPathAttrTypeMultiExitDisc pas"
  using SetLocalPref_ok [OF assms, of True pref] SetMED_ok [OF assms, of True med] by blast

definition example_attrs :: "BGPPathAttr list" where
  "example_attrs =
     [NewBGPPathAttrOrigin 0, NewBGPPathAttrASPath,
      BGPPathAttrMPReachNLRI (mk_base 0x90 14 0 4) 2 1 None 0 [],
      BGPPathAttrMPUnreachNLRI (mk_base 0x90 15 3 4) 2 1 []]"

lemma example_typed: "\<forall>a \<in> set example_attrs. typed_attr a"
  and example_codes: "codes example_attrs = [1, 2, 14, 15]"
  by (simp_all add: example_attrs_def NewBGPPathAttrOrigin_def NewBGPPathAttrASPath_def mk_base_def
        typed_attr_def pa_GetCode_def pa_type_defs pa_flag_defs flags_ok_def len_ok_def hdr_len_ok_def
        BGPPathAttrTypeFlagsMap_def BGPPathAttrTypeLenMap_def)

theorem set_local_pref_and_med_witness:
  "\<exists>pas' pas''. SetLocalPrefToPathAttrs example_attrs 200 True = Ok pas' \<and> GetLocalPref pas' = Ok 200 \<and>
     ordered pas' \<and> others BGPPathAttrTypeLocalPref pas' = others BGPPathAttrTypeLocalPref example_attrs \<and>
     SetMEDToPathAttrs example_attrs 7 True = Ok pas'' \<and> GetMED pas'' = Ok (7, True) \<and>
     ordered pas'' \<and> others BGPPathAttrTypeMultiExitDisc pas'' = others BGPPathAttrTypeMultiExitDisc example_attrs"
  by (rule set_local_pref_and_med) (use example_typed example_codes in \<open>auto simp: example_attrs_def\<close>)

text \<open>Adding an attribute by code to an ordered list keeps the order exactly when at most one
  attribute has a larger code: the code inserts before the last of the larger ones, not before the
  first.\<close>

theorem add_by_code_order:
  assumes "ordered pas"
  shows "ordered (AddPathAttrToPathAttrsByCode pas (pa_GetCode a) a) \<longleftrightarrow>
         length (filter (\<lambda>p. pa_GetCode p > pa_GetCode a) pas) \<le> 1"
  using assms by (rule AddPathAttr_order)

theorem add_by_code_order_witness:
  "\<not> ordered (AddPathAttrToPathAttrsByCode example_attrs 4 NewBGPPathAttrMultiExitDisc)"
  using add_by_code_order [of example_attrs NewBGPPathAttrMultiExitDisc] example_codes
  by (simp add: example_attrs_def NewBGPPathAttrOrigin_def NewBGPPathAttrASPath_def mk_base_def
        pa_GetCode_def pa_type_defs NewBGPPathAttrMultiExitDisc_def)

text \<open>Route reflection loses attributes: adding an ORIGINATOR_ID or the first CLUSTER_LIST entry to an
  ordered update keeps only the attributes with smaller codes and puts the new one behind them; an
  MP_REACH_NLRI or MP_UNREACH_NLRI of the update is gone.\<close>

theorem reflection_drops_attributes:
  assumes "pas \<noteq> []" and "\<forall>a \<in> set pas. pa_GetCode a \<noteq> BGPPathAttrTypeOriginatorId"
    and "\<forall>a \<in> set pas. pa_GetCode a \<noteq> BGPPathAttrTypeClusterList"
  shows "AddOriginatorId pas ip =
           (takeWhile (\<lambda>a. pa_GetCode a \<le> BGPPathAttrTypeOriginatorId) pas @ [NewBGPPathAttrOriginatorId ip], True) \<and>
         AddClusterId pas i =
           Ok (takeWhile (\<lambda>a. pa_GetCode a \<le> BGPPathAttrTypeClusterList) pas @
               [PrependId NewBGPPathAttrClusterList i], True)"
  using AddOriginatorId_eq [OF assms(1,2)] AddClusterId_eq [OF assms(1,3)] by simp

theorem reflection_drops_attributes_witness:
  "codes (fst (AddOriginatorId example_attrs [10, 0, 0, 1])) = [1, 2, 9]"
  using reflection_drops_attributes [of example_attrs "[10, 0, 0, 1]"] example_codes
  by (simp add: example_attrs_def NewBGPPathAttrOrigin_def NewBGPPathAttrASPath_def mk_base_def
        pa_GetCode_def pa_type_defs NewBGPPathAttrOriginatorId_def)

text \<open>Taking the multiprotocol attributes out of a typed update whose codes are distinct returns
  exactly these attributes and leaves all the others, in their order.\<close>

theorem remove_mp_attrs:
  assumes typed: "\<forall>a \<in> set pas. typed_attr a" and dist: "distinct (codes pas)"
  shows "RemoveMPAttrs pas =
         Ok (others BGPPathAttrTypeMPUnreachNLRI (others BGPPathAttrTypeMPReachNLRI pas),
             getTypeFromPathAttrs pas BGPPathAttrTypeMPReachNLRI,
             getTypeFromPathAttrs pas BGPPathAttrTypeMPUnreachNLRI)"
proof -
  let ?R = BGPPathAttrTypeMPReachNLRI and ?U = BGPPathAttrTypeMPUnreachNLRI
  have "distinct (codes (others ?R pas))" using dist by (simp add: codes_def distinct_map_filter)
  then have "removeTypeFromPathAttrs (others ?R pas) ?U = (others ?U (others ?R pas), getTypeFromPathAttrs pas ?U)"
    using removeType_eq [of "others ?R pas" ?U] removeType_distinct [of "others ?R pas" ?U]
      getType_others [of ?R ?U pas] by (simp add: pa_type_defs)
  moreover have "removeTypeFromPathAttrs pas ?R = (others ?R pas, getTypeFromPathAttrs pas ?R)"
    using removeType_eq [of pas ?R] removeType_distinct [OF dist, of ?R] by simp
  ultimately show ?thesis by (simp add: RemoveMPAttrs_def as_mp_typed [OF typed])
qed

theorem remove_mp_attrs_witness:
  "RemoveMPAttrs example_attrs =
     Ok (others BGPPathAttrTypeMPUnreachNLRI (others BGPPathAttrTypeMPReachNLRI example_attrs),
         getTypeFromPathAttrs example_attrs BGPPathAttrTypeMPReachNLRI,
         getTypeFromPathAttrs example_attrs BGPPathAttrTypeMPUnreachNLRI)"
  by (rule remove_mp_attrs) (simp_all add: example_typed example_codes)

end
