(* ===== verification/BgpPathOps.thy ===== *)
theory BgpPathOps
  imports BgpUpdateSafe "HOL-Library.Multiset"
begin

text \<open>
  What the operations on AS paths do: prepending the own AS number, the conversion to two-byte paths
  and back, the iterator over the AS numbers of a path, and the removal of nil items from a list.
\<close>

section \<open>The AS numbers of a path\<close>

fun seg_ases :: "BGPASPathSegment \<Rightarrow> u32 list" where
  "seg_ases (AS2Segment s) = map ucast (seg_AS2 s)"
| "seg_ases (AS4Segment s) = seg_AS4 s"

fun path_ases :: "BGPPathAttr \<Rightarrow> u32 list" where
  "path_ases (BGPPathAttrASPath b segs sz) = concat (map seg_ases segs)"
| "path_ases _ = []"

section \<open>Prepending\<close>

text \<open>There is room for one more AS number: in the length field, and in the segment.\<close>

definition has_room :: "BGPPathAttr \<Rightarrow> bool" where
  "has_room a \<longleftrightarrow> length (pa_body a) + 6 < 65532 \<and>
     (pa_Flags (pa_base a) AND BGPPathAttrFlagExtendedLen = 0 \<longrightarrow> length (pa_body a) + 6 < 256) \<and>
     (case a of BGPPathAttrASPath b (AS4Segment s # _) _ \<Rightarrow> length (seg_AS4 s) \<noteq> 63 | _ \<Rightarrow> True)"

lemma wf_fresh_prepended:
  "wf_seg4 (NewBGPAS4PathSegmentSeq\<lparr>seg_AS4 := [as], seg_Length := 1, seg_TotalLen := 6\<rparr>)"
  by (simp add: wf_seg4_def NewBGPAS4PathSegmentSeq_def NewBGPAS4PathSegment_def)

lemma wf_prepended:
  assumes "wf_seg4 s" "length (seg_AS4 s) \<noteq> 63"
  shows "seg_PrependAS (AS4Segment s) as =
           (AS4Segment (s\<lparr>seg_AS4 := as # seg_AS4 s, seg_Length := seg_Length s + 1, seg_TotalLen := seg_TotalLen s + 4\<rparr>), True)"
    and "wf_seg4 (s\<lparr>seg_AS4 := as # seg_AS4 s, seg_Length := seg_Length s + 1, seg_TotalLen := seg_TotalLen s + 4\<rparr>)"
proof -
  have "unat (seg_Length s) = length (seg_AS4 s)" "length (seg_AS4 s) \<le> 63"
    using assms(1) by (simp_all add: wf_seg4_def unat_small8)
  then have "\<not> seg_Length s \<ge> 255" by (simp add: word_le_nat_alt)
  then show "seg_PrependAS (AS4Segment s) as =
           (AS4Segment (s\<lparr>seg_AS4 := as # seg_AS4 s, seg_Length := seg_Length s + 1, seg_TotalLen := seg_TotalLen s + 4\<rparr>), True)"
    by simp
  show "wf_seg4 (s\<lparr>seg_AS4 := as # seg_AS4 s, seg_Length := seg_Length s + 1, seg_TotalLen := seg_TotalLen s + 4\<rparr>)"
    using assms by (auto simp: wf_seg4_def)
qed

lemma wf_attr_longer:
  assumes wf: "wf_attr peer (BGPPathAttrASPath b segs sz)" and room: "has_room (BGPPathAttrASPath b segs sz)"
    and k: "k = 4 \<or> k = 6" and body: "length (concat (map seg_wire segs')) = length (concat (map seg_wire segs)) + k"
    and segs: "\<forall>s \<in> set segs'. wf_seg sz s"
  shows "wf_attr peer (BGPPathAttrASPath (b\<lparr>pa_Length := pa_Length b + of_nat k\<rparr>) segs' sz)"
proof -
  let ?n = "length (concat (map seg_wire segs))"
  have b: "hdr_len_ok b" "flags_ok b" "pa_Code b = BGPPathAttrTypeASPath" "pa_Length b = of_nat ?n" "sz = peer_ASSize peer"
    using wf by (simp_all add: wf_attr_def wf_hdr_def)
  have n: "?n + 6 < 65532" "pa_Flags b AND BGPPathAttrFlagExtendedLen = 0 \<Longrightarrow> ?n + 6 < 256"
    using room by (simp_all add: has_room_def)
  have u: "unat (pa_Length b + of_nat k) = ?n + k"
    using n(1) k unat_small16 [of "?n + k"] unfolding b(4) by (auto simp del: length_concat)
  have "hdr_len_ok (b\<lparr>pa_Length := pa_Length b + of_nat k\<rparr>)"
    using b(1) n(2) u k by (auto simp: hdr_len_ok_def word_less_nat_alt simp del: length_concat)
  moreover have "flags_ok (b\<lparr>pa_Length := l\<rparr>)" for l
    using b(2) by (auto simp: flags_ok_def split: option.splits)
  moreover have "len_ok (b\<lparr>pa_Length := l\<rparr>)" for l
    using b(3) by (cases b) (simp add: len_ok_def BGPPathAttrTypeLenMap_def pa_type_defs)
  moreover have "pa_Length b + of_nat k = of_nat (length (concat (map seg_wire segs')))"
    unfolding b(4) body by simp
  ultimately show ?thesis
    using u n(1) k b(3,5) segs body by (auto simp: wf_attr_def wf_hdr_def simp del: length_concat)
qed

lemma PrependAS_attr_four:
  assumes wf: "wf_attr peer a" and four: "peer_ASSize peer = 4" and room: "has_room a"
    and path: "pa_GetCode a = BGPPathAttrTypeASPath"
  shows "\<exists>a'. PrependAS_attr 4 as a = Ok (a', as) \<and> wf_attr peer a' \<and> path_ases a' = as # path_ases a \<and>
              pa_GetCode a' = pa_GetCode a"
proof -
  obtain b segs sz where a: "a = BGPPathAttrASPath b segs sz"
    using code_inv(2) [of a] wf path by (auto simp: wf_attr_def pa_GetCode_def)
  have sz: "sz = 4" and segs: "\<forall>s \<in> set segs. wf_seg 4 s" using wf four by (auto simp: a wf_attr_def)
  show ?thesis
  proof (cases "needs_segment segs")
    case True
    let ?s = "NewBGPAS4PathSegmentSeq\<lparr>seg_AS4 := [as], seg_Length := 1, seg_TotalLen := 6\<rparr>"
    let ?a = "BGPPathAttrASPath (b\<lparr>pa_Length := pa_Length b + of_nat 6\<rparr>) (AS4Segment ?s # segs) sz"
    have "PrependAS_attr 4 as a = Ok (?a, as)"
      using True path
      by (simp add: PrependAS_attr_def a first_segment_def fresh_segment_def NewBGPAS4PathSegmentSeq_def
            NewBGPAS4PathSegment_def)
    moreover have "wf_attr peer ?a"
      using wf room segs sz wf_fresh_prepended [of as] unfolding a
      by (intro wf_attr_longer [where segs = segs]) (simp_all add: seg4_wire_def)
    ultimately show ?thesis using path by (auto simp: a pa_GetCode_def)
  next
    case False
    then obtain s ss where ss: "segs = AS4Segment s # ss"
      using segs by (cases segs; cases "hd segs") (auto simp: needs_segment_def)
    let ?s = "s\<lparr>seg_AS4 := as # seg_AS4 s, seg_Length := seg_Length s + 1, seg_TotalLen := seg_TotalLen s + 4\<rparr>"
    let ?a = "BGPPathAttrASPath (b\<lparr>pa_Length := pa_Length b + of_nat 4\<rparr>) (AS4Segment ?s # ss) sz"
    have s: "wf_seg4 s" "length (seg_AS4 s) \<noteq> 63" using segs room by (auto simp: ss a has_room_def)
    have "PrependAS_attr 4 as a = Ok (?a, as)"
      using False path wf_prepended(1) [OF s, of as]
      by (simp add: PrependAS_attr_def a first_segment_def ss)
    moreover have "wf_attr peer ?a"
      using wf room segs sz wf_prepended(2) [OF s, of as] unfolding a ss
      by (intro wf_attr_longer [where segs = "AS4Segment s # ss"]) (simp_all add: seg4_wire_def)
    ultimately show ?thesis using path by (auto simp: a ss pa_GetCode_def)
  qed
qed

text \<open>An attribute and what it becomes when an AS number is prepended.\<close>

definition prepended :: "u32 \<Rightarrow> BGPPathAttr \<Rightarrow> BGPPathAttr \<Rightarrow> bool" where
  "prepended as a a' \<longleftrightarrow> pa_GetCode a' = pa_GetCode a \<and>
     (if pa_GetCode a = BGPPathAttrTypeASPath then path_ases a' = as # path_ases a else a' = a)"

lemma PrependAS_four:
  assumes "\<forall>a \<in> set pas. wf_attr peer a" "peer_ASSize peer = 4" "no_as4_attrs pas"
    and "\<forall>a \<in> set pas. pa_GetCode a = BGPPathAttrTypeASPath \<longrightarrow> has_room a"
  shows "\<exists>pas'. PrependAS pas as 4 = Ok pas' \<and> (\<forall>a \<in> set pas'. wf_attr peer a) \<and>
           list_all2 (prepended as) pas pas'"
  using assms
proof (induction pas)
  case (Cons a pas)
  then obtain pas' where IH: "PrependAS pas as 4 = Ok pas'" "\<forall>a \<in> set pas'. wf_attr peer a"
    "list_all2 (prepended as) pas pas'"
    by (auto simp: no_as4_attrs_def)
  show ?case
  proof (cases "pa_GetCode a = BGPPathAttrTypeASPath")
    case True
    then obtain a' where a': "PrependAS_attr 4 as a = Ok (a', as)" "wf_attr peer a'" "prepended as a a'"
      using PrependAS_attr_four [of peer a as] Cons.prems by (auto simp: prepended_def)
    then show ?thesis using IH by auto
  next
    case False
    then have "PrependAS_attr 4 as a = Ok (a, as)"
      using Cons.prems(3) by (simp add: PrependAS_attr_def no_as4_attrs_def)
    moreover have "prepended as a a" using False by (simp add: prepended_def)
    ultimately show ?thesis using Cons.prems(1) IH by auto
  qed
qed simp

section \<open>The loop check\<close>

lemma as_loop_four:
  "\<forall>s \<in> set segs. seg_sized 4 s \<Longrightarrow> as_loop_segs 4 as segs = Ok (as \<in> set (concat (map seg_ases segs)))"
proof (induction segs)
  case (Cons s segs)
  then show ?case by (cases s) auto
qed simp

lemma HasASLoop_four:
  assumes "typed_attrs 4 pas"
  shows "HasASLoop pas as =
         Ok (case getTypeFromPathAttrs pas BGPPathAttrTypeASPath of None \<Rightarrow> False | Some a \<Rightarrow> as \<in> set (path_ases a))"
proof (cases "getTypeFromPathAttrs pas BGPPathAttrTypeASPath")
  case (Some a)
  then obtain b segs where "a = BGPPathAttrASPath b segs 4" "\<forall>s \<in> set segs. seg_sized 4 s"
    using typed_found [OF assms Some] code_inv(2) [of a] by auto
  then show ?thesis using Some by (simp add: HasASLoop_def as_loop_four)
qed (simp add: HasASLoop_def)

lemma wf_typed: "wf_attr peer a \<Longrightarrow> typed_attr a \<and> sized_attr (peer_ASSize peer) a"
proof -
  assume wf: "wf_attr peer a"
  then have "wf_value peer a" by (simp add: wf_attr_def)
  moreover have "wf_seg sz s \<Longrightarrow> seg_sized sz s" for sz s by (cases s) auto
  ultimately have "sized_attr (peer_ASSize peer) a" by (cases a) auto
  then show ?thesis using wf by (simp add: wf_attr_def wf_hdr_def typed_attr_def pa_GetCode_def)
qed

lemma getType_prepended:
  "list_all2 (prepended as) pas pas' \<Longrightarrow>
   rel_option (prepended as) (getTypeFromPathAttrs pas c) (getTypeFromPathAttrs pas' c)"
  by (induction rule: list_all2_induct) (auto simp: getTypeFromPathAttrs_def prepended_def)

section \<open>The iterator\<close>

text \<open>What an iterator still has to return.\<close>

definition seg_pairs :: "BGPAS4PathSegment \<Rightarrow> (u32 \<times> u8) list" where
  "seg_pairs s = map (\<lambda>as. (as, seg_Type s)) (seg_AS4 s)"

definition iter_view :: "ASPathIter \<Rightarrow> (u32 \<times> u8) list" where
  "iter_view it = drop (it_asValIdx it) (concat (map seg_pairs (drop (it_segIdx it) (it_segments it))))"

definition iter_inv :: "ASPathIter \<Rightarrow> bool" where
  "iter_inv it \<longleftrightarrow> it_segmentLen it = length (it_segments it) \<and> (\<forall>s \<in> set (it_segments it). seg_AS4 s \<noteq> []) \<and>
     (if it_segIdx it < length (it_segments it)
      then it_asValIdx it < length (seg_AS4 (it_segments it ! it_segIdx it)) else it_asValIdx it = 0)"

lemma iter_Next_ok:
  assumes inv: "iter_inv it"
  shows "\<exists>it'. ASPathIter_Next it =
           Ok (case iter_view it of [] \<Rightarrow> (0, 0, False) | (as, t) # _ \<Rightarrow> (as, t, True), it') \<and>
         iter_inv it' \<and> iter_view it' = tl (iter_view it)"
proof (cases "it_segIdx it < length (it_segments it)")
  case False
  then show ?thesis
    using inv by (intro exI [of _ it]) (simp add: iter_inv_def iter_view_def ASPathIter_Next_def)
next
  case True
  let ?s = "it_segments it ! it_segIdx it"
  have v: "it_asValIdx it < length (seg_AS4 ?s)" and l: "it_segmentLen it = length (it_segments it)"
    using inv True by (simp_all add: iter_inv_def)
  have seg: "drop (it_segIdx it) (it_segments it) = ?s # drop (Suc (it_segIdx it)) (it_segments it)"
    using True by (simp add: Cons_nth_drop_Suc)
  have view: "iter_view it = (seg_AS4 ?s ! it_asValIdx it, seg_Type ?s) #
      drop (Suc (it_asValIdx it)) (seg_pairs ?s) @ concat (map seg_pairs (drop (Suc (it_segIdx it)) (it_segments it)))"
    using v by (simp add: iter_view_def seg seg_pairs_def Cons_nth_drop_Suc [symmetric])
  show ?thesis
  proof (cases "Suc (it_asValIdx it) \<ge> length (seg_AS4 ?s)")
    case fin: True
    let ?it = "it\<lparr>it_segIdx := Suc (it_segIdx it), it_asValIdx := 0\<rparr>"
    have "ASPathIter_Next it = Ok ((seg_AS4 ?s ! it_asValIdx it, seg_Type ?s, True), ?it)"
      using True v l fin by (simp add: ASPathIter_Next_def)
    moreover have "iter_inv ?it"
      using inv by (auto simp: iter_inv_def)
    moreover have "iter_view ?it = concat (map seg_pairs (drop (Suc (it_segIdx it)) (it_segments it)))"
      by (simp add: iter_view_def)
    moreover have "drop (Suc (it_asValIdx it)) (seg_pairs ?s) = []" using fin by (simp add: seg_pairs_def)
    ultimately show ?thesis using view by simp
  next
    case False
    let ?it = "it\<lparr>it_asValIdx := Suc (it_asValIdx it)\<rparr>"
    have "ASPathIter_Next it = Ok ((seg_AS4 ?s ! it_asValIdx it, seg_Type ?s, True), ?it)"
      using True v l False by (simp add: ASPathIter_Next_def)
    moreover have "iter_inv ?it" using inv True False by (simp add: iter_inv_def)
    moreover have "iter_view ?it = tl (iter_view it)"
      using False by (simp add: view) (simp add: iter_view_def seg seg_pairs_def)
    ultimately show ?thesis using view by simp
  qed
qed

text \<open>Calling \<open>Next\<close> while its flag is set.\<close>

partial_function (option) iterate ::
  "ASPathIter \<Rightarrow> (u32 \<times> u8) list \<Rightarrow> (bgp_error, (u32 \<times> u8) list) outcome option" where
  "iterate it acc = rbind (Some (ASPathIter_Next it)) (\<lambda>((as, t, flag), it').
     if flag then iterate it' (acc @ [(as, t)]) else Some (Ok acc))"

lemma iterate_view: "iter_inv it \<Longrightarrow> iterate it acc = Some (Ok (acc @ iter_view it))"
proof (induction "iter_view it" arbitrary: it acc)
  case Nil
  then obtain it' where "ASPathIter_Next it = Ok ((0, 0, False), it')" using iter_Next_ok [of it] by auto
  then show ?case using Nil by (subst iterate.simps) simp
next
  case (Cons p ps)
  obtain as t where p: "p = (as, t)" by (cases p)
  obtain it' where "ASPathIter_Next it = Ok ((as, t, True), it')" "iter_inv it'" "iter_view it' = ps"
    using iter_Next_ok [OF Cons.prems] Cons.hyps(2) by (auto simp: p split: list.splits)
  then show ?case using Cons.hyps(1) [of it' "acc @ [p]"] Cons.hyps(2) by (subst iterate.simps) (simp add: p)
qed

lemma as4_segments_map: "as4_segments (map AS4Segment ss) = Some ss"
  by (induction ss) simp_all

section \<open>Removing nil items\<close>

lemma last_item_spec:
  "i \<le> m \<Longrightarrow> i \<le> last_item xs i m \<and> last_item xs i m \<le> m \<and>
     (\<forall>k. last_item xs i m < k \<longrightarrow> k \<le> m \<longrightarrow> xs ! k = None) \<and>
     (last_item xs i m = i \<or> xs ! last_item xs i m \<noteq> None)"
proof (induction xs i m rule: last_item.induct)
  case (1 xs i m)
  show ?case
  proof (cases "m > i \<and> xs ! m = None")
    case True
    then have eq: "last_item xs i m = last_item xs i (m - 1)" by (subst last_item.simps) simp
    have IH: "i \<le> last_item xs i (m - 1)" "last_item xs i (m - 1) \<le> m - 1"
      "\<forall>k. last_item xs i (m - 1) < k \<longrightarrow> k \<le> m - 1 \<longrightarrow> xs ! k = None"
      "last_item xs i (m - 1) = i \<or> xs ! last_item xs i (m - 1) \<noteq> None"
      using 1 True by auto
    have "xs ! k = None" if "last_item xs i (m - 1) < k" "k \<le> m" for k
    proof (cases "k = m")
      case False
      then have "k \<le> m - 1" using that(2) by simp
      then show ?thesis using IH(3) that(1) by blast
    qed (use True in simp)
    then show ?thesis unfolding eq using IH(1,2,4) by auto
  next
    case False
    then have "last_item xs i m = m" by (subst last_item.simps) auto
    then show ?thesis using 1 False by auto
  qed
qed

lemma filter_all_none: "\<forall>k. i \<le> k \<longrightarrow> k < length xs \<longrightarrow> xs ! k = None \<Longrightarrow>
  filter (\<lambda>x. x \<noteq> None) xs = filter (\<lambda>x. x \<noteq> None) (take i xs)"
proof -
  assume none: "\<forall>k. i \<le> k \<longrightarrow> k < length xs \<longrightarrow> xs ! k = None"
  have "filter (\<lambda>x. x \<noteq> None) (drop i xs) = []"
    using none by (auto simp: filter_empty_conv in_set_conv_nth)
  moreover have "filter (\<lambda>x. x \<noteq> None) xs = filter (\<lambda>x. x \<noteq> None) (take i xs @ drop i xs)" by simp
  ultimately show ?thesis by (simp only: filter_append append_Nil2)
qed

lemma remove_nil_loop_spec:
  "i + todo = length xs \<Longrightarrow> \<forall>k < i. xs ! k \<noteq> None \<Longrightarrow> \<forall>k. l < k \<longrightarrow> k < length xs \<longrightarrow> xs ! k = None \<Longrightarrow>
   l < length xs \<or> xs = [] \<Longrightarrow>
   None \<notin> set (remove_nil_loop todo i l xs) \<and>
   mset (remove_nil_loop todo i l xs) = mset (filter (\<lambda>x. x \<noteq> None) xs)"
proof (induction todo arbitrary: i l xs)
  case 0
  then have "\<forall>x \<in> set xs. x \<noteq> None" by (auto simp: in_set_conv_nth)
  then show ?case using 0 by (auto simp: filter_id_conv [THEN iffD2])
next
  case (Suc todo)
  have good: "\<forall>x \<in> set (take i xs). x \<noteq> None" using Suc.prems by (auto simp: in_set_conv_nth)
  show ?case
  proof (cases "xs ! i = None")
    case False
    have "\<forall>k < i + 1. xs ! k \<noteq> None" using Suc.prems(2) False by (auto simp: less_Suc_eq)
    then show ?thesis using Suc.IH [of "i + 1" xs l] Suc.prems False by (simp del: not_None_eq)
  next
    case True
    define m where "m = last_item xs i l"
    have l: "l < length xs" using Suc.prems(1,4) by auto
    have m: "m \<le> i \<and> (\<forall>k. i \<le> k \<longrightarrow> k < length xs \<longrightarrow> xs ! k = None) \<or>
             i < m \<and> m \<le> l \<and> xs ! m \<noteq> None \<and> (\<forall>k. m < k \<longrightarrow> k < length xs \<longrightarrow> xs ! k = None)"
    proof (cases "i \<le> l")
      case le: True
      have j: "i \<le> m" "m \<le> l" "\<forall>k. m < k \<longrightarrow> k \<le> l \<longrightarrow> xs ! k = None" "m = i \<or> xs ! m \<noteq> None"
        using last_item_spec [OF le, of xs] by (simp_all add: m_def)
      then have none: "\<forall>k. m < k \<longrightarrow> k < length xs \<longrightarrow> xs ! k = None"
        using Suc.prems(3) not_le by blast
      show ?thesis
      proof (cases "m = i")
        case True
        then show ?thesis using none \<open>xs ! i = None\<close> by (metis le_neq_implies_less order_refl)
      qed (use j none in auto)
    next
      case False
      then have "m = l" unfolding m_def by (subst last_item.simps) simp
      then show ?thesis using False Suc.prems(3) by auto
    qed
    then show ?thesis
    proof (elim disjE conjE)
      assume h: "m \<le> i" "\<forall>k. i \<le> k \<longrightarrow> k < length xs \<longrightarrow> xs ! k = None"
      have "remove_nil_loop (Suc todo) i l xs = take i xs"
        using True h(1) by (simp add: m_def Let_def)
      then show ?thesis using good filter_all_none [OF h(2)] by (auto simp: filter_id_conv [THEN iffD2])
    next
      assume h: "i < m" "m \<le> l" "xs ! m \<noteq> None" "\<forall>k. m < k \<longrightarrow> k < length xs \<longrightarrow> xs ! k = None"
      let ?xs = "xs[i := xs ! m, m := None]"
      have "remove_nil_loop (Suc todo) i l xs = remove_nil_loop todo (i + 1) m ?xs"
        using True h(1) by (simp add: m_def Let_def)
      moreover have "mset ?xs = mset xs"
        using mset_swap [of i xs m] h(1,2) l True by (simp add: list_update_swap)
      then have "mset (filter (\<lambda>x. x \<noteq> None) ?xs) = mset (filter (\<lambda>x. x \<noteq> None) xs)" by (metis mset_filter)
      moreover have "\<forall>k < i + 1. ?xs ! k \<noteq> None"
        using Suc.prems(1,2) h(1,3) by (auto simp: nth_list_update less_Suc_eq)
      moreover have "\<forall>k. m < k \<longrightarrow> k < length ?xs \<longrightarrow> ?xs ! k = None"
        using h(1,4) by (auto simp: nth_list_update)
      ultimately show ?thesis
        using Suc.IH [of "i + 1" ?xs m] Suc.prems(1) h(2) l by simp
    qed
  qed
qed

section \<open>Conversions\<close>

definition mappable :: "BGPAS4PathSegment \<Rightarrow> bool" where
  "mappable s \<longleftrightarrow> (\<forall>as \<in> set (seg_AS4 s). \<not> as > 65535)"

definition full_seg4 :: "BGPAS4PathSegment \<Rightarrow> bool" where
  "full_seg4 s \<longleftrightarrow> length (seg_AS4 s) \<le> 255 \<and> seg_Length s = of_nat (length (seg_AS4 s)) \<and>
     seg_TotalLen s = of_nat (4 * length (seg_AS4 s) + 2)"

lemma ucast_down_up: "\<not> as > (65535 :: u32) \<Longrightarrow> ucast (ucast as :: u16) = as"
proof -
  assume "\<not> as > (65535 :: u32)"
  then have "as < 2 ^ 16" by (simp add: word_less_nat_alt)
  then show ?thesis using bit_small [of as _ 16] by (intro bit_word_eqI) (auto simp: bit_simps)
qed

lemma widen_clone:
  assumes "full_seg4 s" "mappable s"
  shows "widen_segment (AS2Segment (fst (CloneAsAS2PathSegment s))) = Ok (AS4Segment s)"
proof -
  let ?n = "length (seg_AS4 s)"
  have l: "unat (seg_Length s) = ?n" and t: "seg_TotalLen s = of_nat (4 * ?n + 2)"
    using assms(1) unat_small8 [of ?n] by (simp_all add: full_seg4_def)
  have "map (ucast \<circ> (\<lambda>as. if as > 65535 then BGPASTrans else ucast as)) (seg_AS4 s) = seg_AS4 s"
    using assms(2) by (intro map_idI) (auto simp: mappable_def ucast_down_up)
  moreover have "2 + ucast (seg_Length s) * 4 = seg_TotalLen s"
    using assms(1) t ucast_small8 [of ?n] by (simp add: full_seg4_def mult.commute)
  ultimately show ?thesis
    using l by (cases s)
      (simp add: widen_segment_def CloneAsAS2PathSegment_def Let_def NewBGPAS4PathSegmentSeq_def
         NewBGPAS4PathSegment_def NewBGPAS2PathSegment_def)
qed

lemma clone_mappable: "snd (CloneAsAS2PathSegment s) \<longleftrightarrow> mappable s"
  by (simp add: CloneAsAS2PathSegment_def Let_def mappable_def list_all_iff)

lemma first_as_path:
  "\<forall>a \<in> set pre. pa_GetCode a \<noteq> BGPPathAttrTypeASPath \<Longrightarrow> pa_GetCode a = BGPPathAttrTypeASPath \<Longrightarrow>
   length (takeWhile (\<lambda>pa. pa_GetCode pa \<noteq> BGPPathAttrTypeASPath) (pre @ a # post)) = length pre"
  by simp

lemma Convert4To2_at:
  fixes ss :: "BGPAS4PathSegment list" and pre post :: "BGPPathAttr list"
  assumes "\<forall>a \<in> set pre. pa_GetCode a \<noteq> BGPPathAttrTypeASPath" "pa_Code b = BGPPathAttrTypeASPath"
  defines "as2 \<equiv> foldl AppendASPathSegment NewBGPPathAttrASPath (map (AS2Segment \<circ> fst \<circ> CloneAsAS2PathSegment) ss)"
  shows "Convert4ByteTo2ByteASPath (pre @ BGPPathAttrASPath b (map AS4Segment ss) sz # post) =
         Ok (if \<forall>s \<in> set ss. mappable s then pre @ as2 # post
             else AddPathAttrToPathAttrsByCode (pre @ as2 # post) BGPPathAttrTypeAS4Path (CloneAsAS4Path b ss))"
  using first_as_path [OF assms(1), of "BGPPathAttrASPath b (map AS4Segment ss) sz" post] assms(2)
  by (simp add: Convert4ByteTo2ByteASPath_def convert_4to2_def as4_segments_map pa_GetCode_def as2_def
        list_all_iff clone_mappable nth_append list_update_append)

lemma fresh_as_path_append:
  obtains b where "foldl AppendASPathSegment NewBGPPathAttrASPath ss = BGPPathAttrASPath b ss 0"
    and "pa_Code b = BGPPathAttrTypeASPath"
  using fold_Append [of "mk_base 0x50 BGPPathAttrTypeASPath 0 4" "[]" 0 ss]
  by (auto simp: NewBGPPathAttrASPath_def mk_base_def)

lemma PrependAS_mistyped:
  assumes "a \<in> set pas" "pa_GetCode a = BGPPathAttrTypeASPath" "\<nexists>b segs sz. a = BGPPathAttrASPath b segs sz"
  shows "PrependAS pas as asSize = Panic"
  using assms(1)
proof (induction pas arbitrary: as)
  case (Cons p pas)
  have bad: "PrependAS_attr asSize as a = Panic"
    using assms(2,3) by (cases a) (simp_all add: PrependAS_attr_def)
  show ?case
  proof (cases "p = a")
    case False
    then have "PrependAS pas x asSize = Panic" for x using Cons by auto
    moreover have "PrependAS_attr asSize as p = Panic \<or> (\<exists>r. PrependAS_attr asSize as p = Ok r)"
      by (cases p) (simp_all add: PrependAS_attr_def Let_def split_beta)
    ultimately show ?thesis by (auto simp: split_beta)
  qed (use bad in simp)
qed simp

lemma set_AddPathAttr: "set (AddPathAttrToPathAttrsByCode pas code a) = Set.insert a (set pas)"
proof -
  have "set (take k pas @ [a] @ drop k pas) = Set.insert a (set pas)" for k
    using arg_cong [OF append_take_drop_id [of k pas], of set] by (simp del: append_take_drop_id)
  then show ?thesis by (simp only: AddPathAttrToPathAttrsByCode_def Let_def)
qed

section \<open>Properties\<close>



text \<open>C32: The iterator over a path of non-empty segments returns the AS numbers of the segments, in
  order and each with its segment's type, then says it is done.\<close>

theorem iterator_enumerates_path:
  assumes "\<forall>s \<in> set ss. seg_AS4 s \<noteq> []"
  shows "\<exists>it. NewASPathIter (map AS4Segment ss) = Some it \<and>
           iterate it [] = Some (Ok (concat (map seg_pairs ss)))"
proof -
  let ?it = "\<lparr>it_segments = ss, it_segmentLen = length ss, it_segIdx = 0, it_asValIdx = 0\<rparr>"
  have "iter_inv ?it" using assms by (cases ss) (simp_all add: iter_inv_def)
  then have "iterate ?it [] = Some (Ok (concat (map seg_pairs ss)))"
    using iterate_view [of ?it "[]"] by (simp add: iter_view_def)
  then show ?thesis by (simp add: NewASPathIter_def as4_segments_map)
qed

theorem iterator_enumerates_path_witness:
  "\<exists>it. NewASPathIter (map AS4Segment [\<lparr>seg_Type = 2, seg_Length = 2, seg_TotalLen = 10, seg_AS4 = [70000, 100]\<rparr>]) = Some it \<and>
     iterate it [] = Some (Ok (concat (map seg_pairs [\<lparr>seg_Type = 2, seg_Length = 2, seg_TotalLen = 10, seg_AS4 = [70000, 100]\<rparr>])))"
  by (rule iterator_enumerates_path) simp

text \<open>Removing the nil items keeps exactly the other items (in a different order, maybe).\<close>

theorem remove_nil_items:
  "None \<notin> set (RemoveNilItemsFromList xs) \<and>
   mset (RemoveNilItemsFromList xs) = mset (filter (\<lambda>x. x \<noteq> None) xs)"
  unfolding RemoveNilItemsFromList_def by (rule remove_nil_loop_spec) auto

text \<open>C23: A path of AS numbers below 65536, converted for a two-byte peer and normalised by it as a
  four-byte path again, is the path it was.\<close>

theorem two_byte_round_trip:
  assumes pre: "\<forall>a \<in> set pre. pa_GetCode a \<noteq> BGPPathAttrTypeASPath" and code: "pa_Code b = BGPPathAttrTypeASPath"
    and segs: "\<forall>s \<in> set ss. full_seg4 s \<and> mappable s"
  shows "\<exists>pas2 b'. Convert4ByteTo2ByteASPath (pre @ BGPPathAttrASPath b (map AS4Segment ss) sz # post) = Ok pas2 \<and>
           ConvertAS2ToAS4 pas2 = Ok (pre @ BGPPathAttrASPath b' (map AS4Segment ss) 4 # post)"
proof -
  let ?cl = "map (AS2Segment \<circ> fst \<circ> CloneAsAS2PathSegment) ss"
  obtain b2 where b2: "foldl AppendASPathSegment NewBGPPathAttrASPath ?cl = BGPPathAttrASPath b2 ?cl 0"
    "pa_Code b2 = BGPPathAttrTypeASPath"
    by (rule fresh_as_path_append)
  obtain b' where b': "foldl AppendASPathSegment empty_as4_path (map AS4Segment ss) = BGPPathAttrASPath b' (map AS4Segment ss) 4"
    using fold_Append [of "mk_base 0x50 BGPPathAttrTypeASPath 0 4" "[]" 4 "map AS4Segment ss"]
    by (auto simp: empty_as4_path_eq)
  have "omap widen_segment ?cl = Ok (map AS4Segment ss)"
    using segs by (induction ss) (simp_all add: widen_clone)
  then have "ConvertAS2ToAS4 (pre @ BGPPathAttrASPath b2 ?cl 0 # post) =
             Ok (pre @ BGPPathAttrASPath b' (map AS4Segment ss) 4 # post)"
    using ConvertAS2ToAS4_at [OF pre b2(2)] b' by simp
  then show ?thesis using Convert4To2_at [OF pre code] segs b2 by simp
qed

theorem two_byte_round_trip_witness:
  "\<exists>pas2 b'. Convert4ByteTo2ByteASPath ([NewBGPPathAttrOrigin 0] @ BGPPathAttrASPath (mk_base 0x50 2 10 4)
       (map AS4Segment [\<lparr>seg_Type = 2, seg_Length = 2, seg_TotalLen = 10, seg_AS4 = [65001, 100]\<rparr>]) 4 # []) = Ok pas2 \<and>
     ConvertAS2ToAS4 pas2 = Ok ([NewBGPPathAttrOrigin 0] @ BGPPathAttrASPath b'
       (map AS4Segment [\<lparr>seg_Type = 2, seg_Length = 2, seg_TotalLen = 10, seg_AS4 = [65001, 100]\<rparr>]) 4 # [])"
  by (rule two_byte_round_trip)
     (simp_all add: NewBGPPathAttrOrigin_def pa_GetCode_def mk_base_def pa_type_defs full_seg4_def mappable_def)

text \<open>An AS number above 65535 in a path that is converted for a two-byte peer crashes the speaker at
  the next step, prepending its own AS number: the AS4_PATH that the conversion adds carries the code
  of AS_PATH, and is asserted to be one.\<close>

theorem unmappable_path_panics:
  assumes "\<forall>a \<in> set pre. pa_GetCode a \<noteq> BGPPathAttrTypeASPath" "pa_Code b = BGPPathAttrTypeASPath"
    and "s \<in> set ss" "as \<in> set (seg_AS4 s)" "as > 65535"
  shows "\<exists>pas2. Convert4ByteTo2ByteASPath (pre @ BGPPathAttrASPath b (map AS4Segment ss) sz # post) = Ok pas2 \<and>
           PrependAS pas2 myAS 2 = Panic"
proof -
  let ?as2 = "foldl AppendASPathSegment NewBGPPathAttrASPath (map (AS2Segment \<circ> fst \<circ> CloneAsAS2PathSegment) ss)"
  let ?pas2 = "AddPathAttrToPathAttrsByCode (pre @ ?as2 # post) BGPPathAttrTypeAS4Path (CloneAsAS4Path b ss)"
  have "\<not> (\<forall>s \<in> set ss. mappable s)" using assms(3-5) by (auto simp: mappable_def)
  then have "Convert4ByteTo2ByteASPath (pre @ BGPPathAttrASPath b (map AS4Segment ss) sz # post) = Ok ?pas2"
    using Convert4To2_at [OF assms(1,2), of ss sz post] by (simp only: if_False)
  moreover have "PrependAS ?pas2 myAS 2 = Panic"
    by (rule PrependAS_mistyped [of "CloneAsAS4Path b ss"])
       (simp_all add: set_AddPathAttr CloneAsAS4Path_def NewBGPPathAttrAS4Path_def mk_base_def pa_GetCode_def Let_def)
  ultimately show ?thesis by blast
qed

theorem unmappable_path_panics_witness:
  "\<exists>pas2. Convert4ByteTo2ByteASPath ([] @ BGPPathAttrASPath (mk_base 0x50 2 6 4)
       (map AS4Segment [\<lparr>seg_Type = 2, seg_Length = 1, seg_TotalLen = 6, seg_AS4 = [70000]\<rparr>]) 4 # []) = Ok pas2 \<and>
     PrependAS pas2 65001 2 = Panic"
  by (rule unmappable_path_panics [where s = "\<lparr>seg_Type = 2, seg_Length = 1, seg_TotalLen = 6, seg_AS4 = [70000]\<rparr>" and as = 70000])
     (simp_all add: mk_base_def pa_type_defs)

end
