(* ===== verification/BgpConf.thy ===== *)
theory BgpConf
  imports BgpUpdate
begin

text \<open>
  The configuration and the state of one BGP neighbor: \<open>bgp/config/bgp.go\<close> and
  \<open>bgp/baseobjects/neighbor.go\<close>. A neighbor's running configuration is assembled from the global
  configuration, its peer group and its own settings; its state is what the daemon reports. The
  clock is an argument; publishing the event of a state change is left out.
\<close>

section \<open>The structs of \<open>config/bgp.go\<close>\<close>

record GlobalConfig =
  gc_AS :: u32
  gc_RouterId :: ip
  gc_UseMultiplePaths :: bool
  gc_EBGPMaxPaths :: u32
  gc_EBGPAllowMultipleAS :: bool
  gc_IBGPMaxPaths :: u32
  gc_DefaultMED :: u32

datatype PeerType = PeerTypeInternal | PeerTypeExternal

record BaseConfig =
  bc_PeerAS :: u32
  bc_LocalAS :: u32
  bc_PeerAddressType :: int
  bc_UpdateSource :: string
  bc_NextHopSelf :: bool
  bc_AuthPassword :: string
  bc_Description :: string
  bc_RouteReflectorClusterId :: u32
  bc_RouteReflectorClient :: bool
  bc_MultiHopEnable :: bool
  bc_MultiHopTTL :: u8
  bc_ConnectRetryTime :: u32
  bc_HoldTime :: u32
  bc_KeepaliveTime :: u32
  bc_BfdEnable :: bool
  bc_BfdSessionParam :: string
  bc_AddPathsRx :: bool
  bc_AddPathsMaxTx :: u8
  bc_MaxPrefixes :: u32
  bc_MaxPrefixesThresholdPct :: u8
  bc_MaxPrefixesDisconnect :: bool
  bc_MaxPrefixesRestartTimer :: u8
  bc_AdjRIBInFilter :: string
  bc_AdjRIBOutFilter :: string

text \<open>The zero value of the struct.\<close>

definition zero_BaseConfig :: BaseConfig where
  "zero_BaseConfig =
     \<lparr>bc_PeerAS = 0, bc_LocalAS = 0, bc_PeerAddressType = 0, bc_UpdateSource = [], bc_NextHopSelf = False,
      bc_AuthPassword = [], bc_Description = [], bc_RouteReflectorClusterId = 0,
      bc_RouteReflectorClient = False, bc_MultiHopEnable = False, bc_MultiHopTTL = 0,
      bc_ConnectRetryTime = 0, bc_HoldTime = 0, bc_KeepaliveTime = 0, bc_BfdEnable = False,
      bc_BfdSessionParam = [], bc_AddPathsRx = False, bc_AddPathsMaxTx = 0, bc_MaxPrefixes = 0,
      bc_MaxPrefixesThresholdPct = 0, bc_MaxPrefixesDisconnect = False,
      bc_MaxPrefixesRestartTimer = 0, bc_AdjRIBInFilter = [], bc_AdjRIBOutFilter = []\<rparr>"

record NeighborConfig =
  nc_BaseConfig :: BaseConfig
  nc_NeighborAddress :: ip
  nc_IfIndex :: int
  nc_IfName :: string
  nc_PeerGroup :: string
  nc_Disabled :: bool

definition zero_NeighborConfig :: NeighborConfig where
  "zero_NeighborConfig =
     \<lparr>nc_BaseConfig = zero_BaseConfig, nc_NeighborAddress = [], nc_IfIndex = 0, nc_IfName = [],
      nc_PeerGroup = [], nc_Disabled = False\<rparr>"

record PeerGroupConfig =
  pg_BaseConfig :: BaseConfig
  pg_Name :: string

text \<open>\<open>Messages\<close> and \<open>Queues\<close> are flattened into the state.\<close>

record NeighborState =
  ns_NeighborAddress :: ip
  ns_Disabled :: bool
  ns_PeerAS :: u32
  ns_LocalAS :: u32
  ns_UpdateSource :: string
  ns_NextHopSelf :: bool
  ns_PeerType :: PeerType
  ns_AuthPassword :: string
  ns_Description :: string
  ns_SessionState :: u32
  ns_SentUpdate :: "64 word"
  ns_SentNotification :: "64 word"
  ns_ReceivedUpdate :: "64 word"
  ns_ReceivedNotification :: "64 word"
  ns_InputQueue :: u32
  ns_OutputQueue :: u32
  ns_RouteReflectorClusterId :: u32
  ns_RouteReflectorClient :: bool
  ns_MultiHopEnable :: bool
  ns_MultiHopTTL :: u8
  ns_ConnectRetryTime :: u32
  ns_HoldTime :: u32
  ns_KeepaliveTime :: u32
  ns_BfdNeighborState :: string
  ns_UseBfdState :: bool
  ns_PeerGroup :: string
  ns_AddPathsRx :: bool
  ns_AddPathsMaxTx :: u8
  ns_MaxPrefixes :: u32
  ns_MaxPrefixesThresholdPct :: u8
  ns_MaxPrefixesDisconnect :: bool
  ns_MaxPrefixesRestartTimer :: u8
  ns_TotalPrefixes :: u32
  ns_AdjRIBInFilter :: string
  ns_AdjRIBOutFilter :: string
  ns_IfIndex :: int
  ns_SessionStateUpdatedTime :: int

text \<open>\<open>Neighbor\<close>: of the transport only the local address is used, of the address families the names.\<close>

record Neighbor =
  nr_NeighborAddress :: ip
  nr_Config :: NeighborConfig
  nr_State :: NeighborState
  nr_LocalAddress :: ip
  nr_AfiSafis :: "string list"

section \<open>\<open>NeighborConf\<close>\<close>

definition BGPConnectRetryTime :: u32 where "BGPConnectRetryTime = 120"
definition BGPHoldTimeDefault :: u32 where "BGPHoldTimeDefault = 180"
definition IgnoreBfdFaultsDefaultTime :: u32 where "IgnoreBfdFaultsDefaultTime = 300"

record NeighborConf =
  nb_Global :: GlobalConfig
  nb_Group :: "PeerGroupConfig option"
  nb_Neighbor :: Neighbor
  nb_RunningConf :: NeighborConfig
  nb_BGPId :: ip
  nb_ASSize :: u8
  nb_AfiSafiMap :: "(u32 \<times> bool) list"
  nb_MaxPrefixesThreshold :: u32
  nb_ignoreBfdFaultsTimer :: "u32 option"

definition zero_NeighborState :: NeighborState where
  "zero_NeighborState =
     \<lparr>ns_NeighborAddress = [], ns_Disabled = False, ns_PeerAS = 0, ns_LocalAS = 0, ns_UpdateSource = [],
      ns_NextHopSelf = False, ns_PeerType = PeerTypeInternal, ns_AuthPassword = [],
      ns_Description = [], ns_SessionState = 0, ns_SentUpdate = 0, ns_SentNotification = 0,
      ns_ReceivedUpdate = 0, ns_ReceivedNotification = 0, ns_InputQueue = 0, ns_OutputQueue = 0,
      ns_RouteReflectorClusterId = 0, ns_RouteReflectorClient = False, ns_MultiHopEnable = False,
      ns_MultiHopTTL = 0, ns_ConnectRetryTime = 0, ns_HoldTime = 0, ns_KeepaliveTime = 0,
      ns_BfdNeighborState = [], ns_UseBfdState = False, ns_PeerGroup = [], ns_AddPathsRx = False,
      ns_AddPathsMaxTx = 0, ns_MaxPrefixes = 0, ns_MaxPrefixesThresholdPct = 0,
      ns_MaxPrefixesDisconnect = False, ns_MaxPrefixesRestartTimer = 0, ns_TotalPrefixes = 0,
      ns_AdjRIBInFilter = [], ns_AdjRIBOutFilter = [], ns_IfIndex = 0, ns_SessionStateUpdatedTime = 0\<rparr>"

subsection \<open>Assembling the running configuration\<close>

definition setDefaults :: "NeighborConfig \<Rightarrow> NeighborConfig" where
  "setDefaults n =
     (let c = nc_BaseConfig n;
          retry = (if bc_ConnectRetryTime c = 0 then BGPConnectRetryTime else bc_ConnectRetryTime c);
          hold = (if bc_HoldTime c = 0 then BGPHoldTimeDefault
                  else if bc_HoldTime c < 3 then 3 else bc_HoldTime c);
          keep = (if bc_KeepaliveTime c = 0 then hold div 3 else bc_KeepaliveTime c)
      in n\<lparr>nc_BaseConfig :=
             c\<lparr>bc_ConnectRetryTime := retry, bc_HoldTime := hold, bc_KeepaliveTime := keep\<rparr>\<rparr>)"

text \<open>The conditional copies of \<open>GetConfFromNeighbor\<close>: a set value of the neighbor wins.\<close>

definition pick :: "'a \<Rightarrow> 'a \<Rightarrow> 'a \<Rightarrow> 'a" where
  "pick zero new old = (if new \<noteq> zero then new else old)"

definition merge_base :: "BaseConfig \<Rightarrow> BaseConfig \<Rightarrow> BaseConfig" where
  "merge_base i out =
     \<lparr>bc_PeerAS = pick 0 (bc_PeerAS i) (bc_PeerAS out),
      bc_LocalAS = pick 0 (bc_LocalAS i) (bc_LocalAS out),
      bc_PeerAddressType = bc_PeerAddressType out,
      bc_UpdateSource = pick [] (bc_UpdateSource i) (bc_UpdateSource out),
      bc_NextHopSelf = pick False (bc_NextHopSelf i) (bc_NextHopSelf out),
      bc_AuthPassword = pick [] (bc_AuthPassword i) (bc_AuthPassword out),
      bc_Description = pick [] (bc_Description i) (bc_Description out),
      bc_RouteReflectorClusterId = pick 0 (bc_RouteReflectorClusterId i) (bc_RouteReflectorClusterId out),
      bc_RouteReflectorClient = pick False (bc_RouteReflectorClient i) (bc_RouteReflectorClient out),
      bc_MultiHopEnable = pick False (bc_MultiHopEnable i) (bc_MultiHopEnable out),
      bc_MultiHopTTL = pick 0 (bc_MultiHopTTL i) (bc_MultiHopTTL out),
      bc_ConnectRetryTime = pick 0 (bc_ConnectRetryTime i) (bc_ConnectRetryTime out),
      bc_HoldTime = pick 0 (bc_HoldTime i) (bc_HoldTime out),
      bc_KeepaliveTime = pick 0 (bc_KeepaliveTime i) (bc_KeepaliveTime out),
      bc_BfdEnable = pick False (bc_BfdEnable i) (bc_BfdEnable out),
      bc_BfdSessionParam = pick [] (bc_BfdSessionParam i) (bc_BfdSessionParam out),
      bc_AddPathsRx = pick False (bc_AddPathsRx i) (bc_AddPathsRx out),
      bc_AddPathsMaxTx = pick 0 (bc_AddPathsMaxTx i) (bc_AddPathsMaxTx out),
      bc_MaxPrefixes = pick 0 (bc_MaxPrefixes i) (bc_MaxPrefixes out),
      bc_MaxPrefixesThresholdPct = pick 0 (bc_MaxPrefixesThresholdPct i) (bc_MaxPrefixesThresholdPct out),
      bc_MaxPrefixesDisconnect = pick False (bc_MaxPrefixesDisconnect i) (bc_MaxPrefixesDisconnect out),
      bc_MaxPrefixesRestartTimer = pick 0 (bc_MaxPrefixesRestartTimer i) (bc_MaxPrefixesRestartTimer out),
      bc_AdjRIBInFilter = pick [] (bc_AdjRIBInFilter i) (bc_AdjRIBInFilter out),
      bc_AdjRIBOutFilter = pick [] (bc_AdjRIBOutFilter i) (bc_AdjRIBOutFilter out)\<rparr>"

definition GetConfFromNeighbor :: "NeighborConfig \<Rightarrow> NeighborConfig \<Rightarrow> NeighborConfig" where
  "GetConfFromNeighbor inConf outConf =
     (let out = setDefaults (outConf\<lparr>nc_BaseConfig :=
                  merge_base (nc_BaseConfig inConf) (nc_BaseConfig outConf)\<rparr>)
      in \<lparr>nc_BaseConfig = (nc_BaseConfig out)\<lparr>bc_PeerAddressType := bc_PeerAddressType (nc_BaseConfig inConf)\<rparr>,
          nc_NeighborAddress = nc_NeighborAddress inConf, nc_IfIndex = nc_IfIndex inConf,
          nc_IfName = nc_IfName inConf, nc_PeerGroup = nc_PeerGroup inConf,
          nc_Disabled = nc_Disabled inConf\<rparr>)"

definition GetNeighConfFromGlobal :: "NeighborConf \<Rightarrow> NeighborConfig \<Rightarrow> NeighborConfig" where
  "GetNeighConfFromGlobal n peerConf =
     peerConf\<lparr>nc_BaseConfig := (nc_BaseConfig peerConf)\<lparr>bc_LocalAS := gc_AS (nb_Global n)\<rparr>\<rparr>"

definition GetNeighConfFromPeerGroup :: "PeerGroupConfig option \<Rightarrow> NeighborConfig \<Rightarrow> NeighborConfig" where
  "GetNeighConfFromPeerGroup groupConf peerConf =
     (let globalAS = bc_LocalAS (nc_BaseConfig peerConf);
          p = (case groupConf of Some g \<Rightarrow> peerConf\<lparr>nc_BaseConfig := pg_BaseConfig g\<rparr> | None \<Rightarrow> peerConf)
      in if bc_LocalAS (nc_BaseConfig p) = 0
         then p\<lparr>nc_BaseConfig := (nc_BaseConfig p)\<lparr>bc_LocalAS := globalAS\<rparr>\<rparr> else p)"

definition SetRunningConf :: "NeighborConf \<Rightarrow> PeerGroupConfig option \<Rightarrow> NeighborConfig \<Rightarrow> NeighborConfig" where
  "SetRunningConf n peerGroup peerConf =
     GetConfFromNeighbor (nr_Config (nb_Neighbor n))
       (GetNeighConfFromPeerGroup peerGroup (GetNeighConfFromGlobal n peerConf))"

subsection \<open>The reported state\<close>

abbreviation upd_Neighbor :: "(Neighbor \<Rightarrow> Neighbor) \<Rightarrow> NeighborConf \<Rightarrow> NeighborConf" where
  "upd_Neighbor g n \<equiv> n\<lparr>nb_Neighbor := g (nb_Neighbor n)\<rparr>"

abbreviation upd_State :: "(NeighborState \<Rightarrow> NeighborState) \<Rightarrow> NeighborConf \<Rightarrow> NeighborConf" where
  "upd_State g n \<equiv> upd_Neighbor (\<lambda>r. r\<lparr>nr_State := g (nr_State r)\<rparr>) n"

text \<open>
  \<open>SetNeighborState\<close> builds a new struct, so everything it does not name falls back to zero. The
  threshold is computed by a 32-bit product and a float64 division by 100, exact below \<open>2^32\<close>.
\<close>

definition SetNeighborState :: "NeighborConfig \<Rightarrow> NeighborConf \<Rightarrow> NeighborConf" where
  "SetNeighborState p n =
     (let c = nc_BaseConfig p in
      (upd_State (\<lambda>_. zero_NeighborState\<lparr>
         ns_Disabled := nc_Disabled p, ns_PeerAS := bc_PeerAS c, ns_LocalAS := bc_LocalAS c,
         ns_UpdateSource := bc_UpdateSource c, ns_NextHopSelf := bc_NextHopSelf c,
         ns_AuthPassword := bc_AuthPassword c, ns_Description := bc_Description c,
         ns_NeighborAddress := nc_NeighborAddress p, ns_IfIndex := nc_IfIndex p,
         ns_RouteReflectorClusterId := bc_RouteReflectorClusterId c,
         ns_RouteReflectorClient := bc_RouteReflectorClient c,
         ns_MultiHopEnable := bc_MultiHopEnable c, ns_MultiHopTTL := bc_MultiHopTTL c,
         ns_ConnectRetryTime := bc_ConnectRetryTime c, ns_HoldTime := bc_HoldTime c,
         ns_KeepaliveTime := bc_KeepaliveTime c, ns_PeerGroup := nc_PeerGroup p,
         ns_MaxPrefixes := bc_MaxPrefixes c, ns_MaxPrefixesThresholdPct := bc_MaxPrefixesThresholdPct c,
         ns_MaxPrefixesDisconnect := bc_MaxPrefixesDisconnect c,
         ns_MaxPrefixesRestartTimer := bc_MaxPrefixesRestartTimer c,
         ns_AdjRIBInFilter := bc_AdjRIBInFilter c, ns_AdjRIBOutFilter := bc_AdjRIBOutFilter c\<rparr>) n)
        \<lparr>nb_MaxPrefixesThreshold := (bc_MaxPrefixes c * ucast (bc_MaxPrefixesThresholdPct c)) div 100\<rparr>)"

definition setOtherStates :: "NeighborConf \<Rightarrow> NeighborConf" where
  "setOtherStates n =
     (let c = nc_BaseConfig (nb_RunningConf n) in
      upd_State (\<lambda>s. s\<lparr>ns_PeerType := (if bc_LocalAS c = bc_PeerAS c then PeerTypeInternal else PeerTypeExternal),
                       ns_BfdNeighborState := (if bc_BfdEnable c then ''up'' else ''down'')\<rparr>) n)"

definition NewNeighborConf ::
  "GlobalConfig \<Rightarrow> PeerGroupConfig option \<Rightarrow> NeighborConfig \<Rightarrow> NeighborConf" where
  "NewNeighborConf globalConf peerGroup peerConf =
     (let conf = \<lparr>nb_Global = globalConf, nb_Group = peerGroup,
                  nb_Neighbor = \<lparr>nr_NeighborAddress = nc_NeighborAddress peerConf, nr_Config = peerConf,
                                 nr_State = zero_NeighborState, nr_LocalAddress = [], nr_AfiSafis = []\<rparr>,
                  nb_RunningConf = zero_NeighborConfig, nb_BGPId = [], nb_ASSize = 0,
                  nb_AfiSafiMap = [], nb_MaxPrefixesThreshold = 0, nb_ignoreBfdFaultsTimer = None\<rparr>;
          conf = conf\<lparr>nb_RunningConf := SetRunningConf conf peerGroup (nb_RunningConf conf)\<rparr>;
          conf = setOtherStates (SetNeighborState (nb_RunningConf conf) conf)
      in conf\<lparr>nb_AfiSafiMap := fst (GetProtocolFromConfig (nr_AfiSafis (nb_Neighbor conf))
                                       (nr_NeighborAddress (nb_Neighbor conf)))\<rparr>)"

definition SetNeighborAddress :: "ip \<Rightarrow> NeighborConf \<Rightarrow> NeighborConf" where
  "SetNeighborAddress ip n =
     (upd_Neighbor (\<lambda>r. r\<lparr>nr_NeighborAddress := ip, nr_Config := (nr_Config r)\<lparr>nc_NeighborAddress := ip\<rparr>,
                          nr_State := (nr_State r)\<lparr>ns_NeighborAddress := ip\<rparr>\<rparr>) n)
       \<lparr>nb_RunningConf := (nb_RunningConf n)\<lparr>nc_NeighborAddress := ip\<rparr>\<rparr>"

definition ResetNeighborAddress :: "NeighborConf \<Rightarrow> NeighborConf" where
  "ResetNeighborAddress n = SetNeighborAddress [] n"

subsection \<open>Changes of the configuration\<close>

definition copyNonKeyNeighConfAttrs :: "NeighborConfig \<Rightarrow> NeighborConf \<Rightarrow> NeighborConf" where
  "copyNonKeyNeighConfAttrs nConf n =
     upd_Neighbor (\<lambda>r. r\<lparr>nr_Config := (nr_Config r)\<lparr>nc_BaseConfig := nc_BaseConfig nConf,
                            nc_PeerGroup := nc_PeerGroup nConf, nc_Disabled := nc_Disabled nConf\<rparr>\<rparr>) n"

text \<open>\<open>bgp.PeerGroups\<close>: by protocol family, then by name.\<close>

type_synonym peer_groups = "u32 \<Rightarrow> (string \<Rightarrow> PeerGroupConfig option) option"

definition group_changed :: "PeerGroupConfig option \<Rightarrow> string \<Rightarrow> bool" where
  "group_changed g name = (case g of None \<Rightarrow> name \<noteq> [] | Some g \<Rightarrow> name \<noteq> pg_Name g)"

definition UpdateNeighborConf :: "NeighborConfig \<Rightarrow> peer_groups \<Rightarrow> NeighborConf \<Rightarrow> NeighborConf" where
  "UpdateNeighborConf nConf pgs n =
     (let n1 = copyNonKeyNeighConfAttrs nConf n;
          pf = (case GetProtocolFamilyFromPeerAddrType (bc_PeerAddressType (nc_BaseConfig nConf)) of
                  Ok pf \<Rightarrow> pf | _ \<Rightarrow> 0);
          rc = (if group_changed (nb_Group n1) (nc_PeerGroup nConf)
                then case pgs pf of
                    Some byName \<Rightarrow>
                      (case byName (nc_PeerGroup nConf) of
                         Some g \<Rightarrow> GetNeighConfFromPeerGroup (Some g) zero_NeighborConfig
                       | None \<Rightarrow> zero_NeighborConfig)
                  | None \<Rightarrow> zero_NeighborConfig
                else zero_NeighborConfig);
          rc = GetConfFromNeighbor (nr_Config (nb_Neighbor n1)) rc
      in SetNeighborState rc (n1\<lparr>nb_RunningConf := rc\<rparr>))"

definition UpdateGlobal :: "GlobalConfig \<Rightarrow> NeighborConf \<Rightarrow> NeighborConf" where
  "UpdateGlobal gConf n =
     (let n1 = n\<lparr>nb_Global := gConf\<rparr>;
          rc = SetRunningConf n1 (nb_Group n1) zero_NeighborConfig
      in setOtherStates (SetNeighborState rc (n1\<lparr>nb_RunningConf := rc\<rparr>)))"

definition UpdatePeerGroup :: "PeerGroupConfig option \<Rightarrow> NeighborConf \<Rightarrow> NeighborConf" where
  "UpdatePeerGroup peerGroup n =
     (let n1 = n\<lparr>nb_Group := peerGroup\<rparr>;
          rc = SetRunningConf n1 peerGroup zero_NeighborConfig
      in SetNeighborState rc (n1\<lparr>nb_RunningConf := rc\<rparr>))"

subsection \<open>Queries, counters and what the session reports\<close>

definition nb_IsInternal :: "NeighborConf \<Rightarrow> bool" where
  "nb_IsInternal n = (bc_PeerAS (nc_BaseConfig (nb_RunningConf n)) = bc_LocalAS (nc_BaseConfig (nb_RunningConf n)))"

definition nb_IsExternal :: "NeighborConf \<Rightarrow> bool" where
  "nb_IsExternal n = (bc_LocalAS (nc_BaseConfig (nb_RunningConf n)) \<noteq> bc_PeerAS (nc_BaseConfig (nb_RunningConf n)))"

definition IsRouteReflectorClient :: "NeighborConf \<Rightarrow> bool" where
  "IsRouteReflectorClient n = bc_RouteReflectorClient (nc_BaseConfig (nb_RunningConf n))"

definition IncrPrefixCount :: "NeighborConf \<Rightarrow> NeighborConf" where
  "IncrPrefixCount n = upd_State (\<lambda>s. s\<lparr>ns_TotalPrefixes := ns_TotalPrefixes s + 1\<rparr>) n"

definition DecrPrefixCount :: "NeighborConf \<Rightarrow> NeighborConf" where
  "DecrPrefixCount n = upd_State (\<lambda>s. s\<lparr>ns_TotalPrefixes := ns_TotalPrefixes s - 1\<rparr>) n"

text \<open>The argument is not used.\<close>

definition SetPrefixCount :: "u32 \<Rightarrow> NeighborConf \<Rightarrow> NeighborConf" where
  "SetPrefixCount count n = upd_State (\<lambda>s. s\<lparr>ns_TotalPrefixes := 0\<rparr>) n"

definition CanAcceptNewPrefix :: "NeighborConf \<Rightarrow> bool" where
  "CanAcceptNewPrefix n =
     (let c = nc_BaseConfig (nb_RunningConf n) in
      \<not> (bc_MaxPrefixes c > 0 \<and> ns_TotalPrefixes (nr_State (nb_Neighbor n)) \<ge> bc_MaxPrefixes c))"

definition FSMStateChange :: "int \<Rightarrow> u32 \<Rightarrow> NeighborConf \<Rightarrow> NeighborConf" where
  "FSMStateChange now state n =
     upd_State (\<lambda>s. s\<lparr>ns_SessionState := state, ns_SessionStateUpdatedTime := now\<rparr>) n"

text \<open>The loop of \<open>SetPeerAttrs\<close> over the add-path flags of one address family.\<close>

definition note_add_path :: "NeighborConf \<Rightarrow> u8 \<Rightarrow> NeighborState \<Rightarrow> NeighborState" where
  "note_add_path n val s =
     (let c = nc_BaseConfig (nb_RunningConf n);
          s = (if val AND BGPCapAddPathRx \<noteq> 0 then s\<lparr>ns_AddPathsMaxTx := bc_AddPathsMaxTx c\<rparr> else s)
      in if val AND BGPCapAddPathTx \<noteq> 0 then s\<lparr>ns_AddPathsRx := True\<rparr> else s)"

definition SetPeerAttrs :: "ip \<Rightarrow> u8 \<Rightarrow> u32 \<Rightarrow> u32 \<Rightarrow> add_path_family \<Rightarrow> NeighborConf \<Rightarrow> NeighborConf" where
  "SetPeerAttrs bgpId asSize holdTime keepaliveTime addPathFamily n =
     (let vals = concat (map (\<lambda>(afi, safis). if afi = AfiIP \<or> afi = AfiIP6 then map snd safis else []) addPathFamily)
      in upd_State (\<lambda>s. fold (note_add_path n) vals
                          (s\<lparr>ns_HoldTime := holdTime, ns_KeepaliveTime := keepaliveTime\<rparr>))
           (n\<lparr>nb_BGPId := bgpId, nb_ASSize := asSize\<rparr>))"

definition nb_BfdFaultSet :: "NeighborConf \<Rightarrow> NeighborConf" where
  "nb_BfdFaultSet n =
     (upd_State (\<lambda>s. s\<lparr>ns_BfdNeighborState := ''down''\<rparr>) n)\<lparr>nb_ignoreBfdFaultsTimer := Some IgnoreBfdFaultsDefaultTime\<rparr>"

text \<open>
  \<open>BfdFaultCleared\<close> compares the method \<open>IgnoreBfdFaultsTimerExpired\<close> with \<open>nil\<close>, which is never
  equal, so it stops the timer even when there is none, and \<open>Stop\<close> on a nil timer panics. A
  stopped timer stays in the field.
\<close>

definition nb_BfdFaultCleared :: "NeighborConf \<Rightarrow> (bgp_error, NeighborConf) outcome" where
  "nb_BfdFaultCleared n =
     (case nb_ignoreBfdFaultsTimer n of
        None \<Rightarrow> Panic
      | Some t \<Rightarrow> Ok (upd_State (\<lambda>s. s\<lparr>ns_BfdNeighborState := ''up''\<rparr>) n))"

definition IgnoreBfdFaultsTimerExpired :: "NeighborConf \<Rightarrow> NeighborConf" where
  "IgnoreBfdFaultsTimerExpired n = upd_State (\<lambda>s. s\<lparr>ns_UseBfdState := False\<rparr>) n"

definition nb_PeerConnEstablished :: "NeighborConf \<Rightarrow> NeighborConf" where
  "nb_PeerConnEstablished n = upd_State (\<lambda>s. s\<lparr>ns_UseBfdState := True\<rparr>) n"

definition nb_PeerConnBroken :: "NeighborConf \<Rightarrow> NeighborConf" where
  "nb_PeerConnBroken n =
     (let c = nc_BaseConfig (nb_RunningConf n) in
      upd_State (\<lambda>s. s\<lparr>ns_ConnectRetryTime := bc_ConnectRetryTime c, ns_HoldTime := bc_HoldTime c,
                       ns_KeepaliveTime := bc_KeepaliveTime c, ns_AddPathsRx := False,
                       ns_AddPathsMaxTx := 0, ns_TotalPrefixes := 0\<rparr>) n)"

section \<open>What a running configuration guarantees\<close>

text \<open>The timer values every running configuration has, whichever way it was assembled.\<close>

definition sane_timers :: "NeighborConfig \<Rightarrow> bool" where
  "sane_timers rc = (let c = nc_BaseConfig rc in
     3 \<le> bc_HoldTime c \<and> 0 < bc_KeepaliveTime c \<and> 0 < bc_ConnectRetryTime c)"

lemma setDefaults_sane: "sane_timers (setDefaults rc)"
proof -
  have "0 < (h :: u32) div 3" if "3 \<le> h" for h
    using that by (simp add: word_less_nat_alt word_le_nat_alt unat_div)
  moreover have "\<not> (h :: u32) < 3 \<Longrightarrow> 3 \<le> h" for h by simp
  moreover have "h \<noteq> 0 \<Longrightarrow> 0 < (h :: u32)" for h by (simp add: word_neq_0_conv)
  ultimately show ?thesis
    by (auto simp: sane_timers_def setDefaults_def Let_def BGPHoldTimeDefault_def BGPConnectRetryTime_def
        intro: word_neq_0_conv [THEN iffD1])
qed

lemma GetConfFromNeighbor_sane: "sane_timers (GetConfFromNeighbor i out)"
  using setDefaults_sane [of "out\<lparr>nc_BaseConfig := merge_base (nc_BaseConfig i) (nc_BaseConfig out)\<rparr>"]
  by (simp add: GetConfFromNeighbor_def sane_timers_def Let_def)

lemma running_sane:
  "sane_timers (nb_RunningConf (NewNeighborConf g grp pc))"
  "sane_timers (nb_RunningConf (UpdateNeighborConf nc pgs n))"
  "sane_timers (nb_RunningConf (UpdateGlobal g n))"
  "sane_timers (nb_RunningConf (UpdatePeerGroup grp n))"
  by (simp_all add: NewNeighborConf_def UpdateNeighborConf_def UpdateGlobal_def UpdatePeerGroup_def
      SetRunningConf_def SetNeighborState_def setOtherStates_def Let_def GetConfFromNeighbor_sane)

text \<open>Which of three configured values counts: the neighbor's, then the group's, then the default.\<close>

definition first_set :: "'a \<Rightarrow> 'a list \<Rightarrow> 'a" where
  "first_set zero xs = (case filter (\<lambda>x. x \<noteq> zero) xs of x # _ \<Rightarrow> x | [] \<Rightarrow> zero)"

lemma first_set_simps [simp]:
  "first_set z [] = z" "first_set z (x # xs) = (if x \<noteq> z then x else first_set z xs)"
  by (simp_all add: first_set_def)

definition clamp :: "u32 \<Rightarrow> u32" where
  "clamp h = (if h = 0 then 180 else max 3 h)"

lemma max_three: "max 3 h = (if h < 3 then 3 else h)" for h :: u32
  by (auto simp: max_def not_le not_less)

lemma GetConfFromNeighbor_fields:
  "bc_LocalAS (nc_BaseConfig (GetConfFromNeighbor i out)) = pick 0 (bc_LocalAS (nc_BaseConfig i)) (bc_LocalAS (nc_BaseConfig out))"
  "bc_PeerAS (nc_BaseConfig (GetConfFromNeighbor i out)) = pick 0 (bc_PeerAS (nc_BaseConfig i)) (bc_PeerAS (nc_BaseConfig out))"
  "bc_HoldTime (nc_BaseConfig (GetConfFromNeighbor i out)) = clamp (pick 0 (bc_HoldTime (nc_BaseConfig i)) (bc_HoldTime (nc_BaseConfig out)))"
  by (simp_all add: GetConfFromNeighbor_def setDefaults_def merge_base_def Let_def clamp_def max_three BGPHoldTimeDefault_def)

lemma running_of_new:
  "nb_RunningConf (NewNeighborConf g grp pc) =
     GetConfFromNeighbor pc (GetNeighConfFromPeerGroup grp
       (zero_NeighborConfig\<lparr>nc_BaseConfig := zero_BaseConfig\<lparr>bc_LocalAS := gc_AS g\<rparr>\<rparr>))"
  by (simp add: NewNeighborConf_def SetRunningConf_def SetNeighborState_def setOtherStates_def Let_def
      GetNeighConfFromGlobal_def zero_NeighborConfig_def)

lemma new_from_group:
  "nc_BaseConfig (GetNeighConfFromPeerGroup (Some grp)
     (zero_NeighborConfig\<lparr>nc_BaseConfig := zero_BaseConfig\<lparr>bc_LocalAS := as\<rparr>\<rparr>)) =
   (pg_BaseConfig grp)\<lparr>bc_LocalAS := pick 0 (bc_LocalAS (pg_BaseConfig grp)) as\<rparr>"
  by (simp add: GetNeighConfFromPeerGroup_def Let_def pick_def)

text \<open>A new neighbor runs with its own settings, else those of its group, else the global AS and the
  default timers; its hold time is never below three seconds, so that no timer is ever zero.\<close>

theorem running_conf_precedence:
  assumes "rc = nc_BaseConfig (nb_RunningConf (NewNeighborConf g (Some grp) pc))"
  shows "bc_LocalAS rc = first_set 0 [bc_LocalAS (nc_BaseConfig pc), bc_LocalAS (pg_BaseConfig grp), gc_AS g] \<and>
         bc_PeerAS rc = first_set 0 [bc_PeerAS (nc_BaseConfig pc), bc_PeerAS (pg_BaseConfig grp)] \<and>
         bc_HoldTime rc = max 3 (first_set 0 [bc_HoldTime (nc_BaseConfig pc), bc_HoldTime (pg_BaseConfig grp), 180]) \<and>
         0 < bc_KeepaliveTime rc \<and> 0 < bc_ConnectRetryTime rc"
  using running_sane(1) [of g "Some grp" pc] unfolding assms
  by (simp add: running_of_new new_from_group GetConfFromNeighbor_fields sane_timers_def Let_def pick_def clamp_def)

theorem running_conf_precedence_witness:
  "(let g = \<lparr>gc_AS = 65001, gc_RouterId = [10, 0, 0, 1], gc_UseMultiplePaths = False, gc_EBGPMaxPaths = 1,
             gc_EBGPAllowMultipleAS = False, gc_IBGPMaxPaths = 1, gc_DefaultMED = 0\<rparr>;
        grp = \<lparr>pg_BaseConfig = zero_BaseConfig\<lparr>bc_HoldTime := 2\<rparr>, pg_Name = ''g''\<rparr>;
        rc = nc_BaseConfig (nb_RunningConf (NewNeighborConf g (Some grp) zero_NeighborConfig))
    in bc_LocalAS rc = 65001 \<and> bc_HoldTime rc = 3)"
  unfolding Let_def
  by (subst running_conf_precedence [OF refl, THEN conjunct1],
      subst running_conf_precedence [OF refl, THEN conjunct2, THEN conjunct2, THEN conjunct1])
     (simp add: zero_NeighborConfig_def zero_BaseConfig_def)

text \<open>Changing a neighbor whose peer group stays the same assembles the running configuration from
  the neighbor's own settings alone: without an AS of its own it runs with local AS 0, whatever the
  global configuration and the group say, and an internal peer is no longer one.\<close>

theorem update_forgets_global_as:
  assumes "\<not> group_changed (nb_Group n) (nc_PeerGroup nConf)" "bc_LocalAS (nc_BaseConfig nConf) = 0"
    and "bc_PeerAS (nc_BaseConfig nConf) \<noteq> 0"
  shows "bc_LocalAS (nc_BaseConfig (nb_RunningConf (UpdateNeighborConf nConf pgs n))) = 0 \<and>
         \<not> nb_IsInternal (UpdateNeighborConf nConf pgs n)"
  using assms
  by (simp add: UpdateNeighborConf_def copyNonKeyNeighConfAttrs_def SetNeighborState_def Let_def nb_IsInternal_def
      GetConfFromNeighbor_def setDefaults_def merge_base_def pick_def zero_NeighborConfig_def zero_BaseConfig_def)

theorem update_forgets_global_as_witness:
  "(let g = \<lparr>gc_AS = 65001, gc_RouterId = [10, 0, 0, 1], gc_UseMultiplePaths = False, gc_EBGPMaxPaths = 1,
             gc_EBGPAllowMultipleAS = False, gc_IBGPMaxPaths = 1, gc_DefaultMED = 0\<rparr>;
        pc = zero_NeighborConfig\<lparr>nc_BaseConfig := zero_BaseConfig\<lparr>bc_PeerAS := 65001\<rparr>\<rparr>;
        n = NewNeighborConf g None pc
    in nb_IsInternal n \<and> \<not> nb_IsInternal (UpdateNeighborConf pc (\<lambda>_. None) n))"
  unfolding Let_def
  by (rule conjI [OF _ update_forgets_global_as [THEN conjunct2]])
     (simp_all add: NewNeighborConf_def SetRunningConf_def SetNeighborState_def setOtherStates_def Let_def nb_IsInternal_def
        GetConfFromNeighbor_def GetNeighConfFromPeerGroup_def GetNeighConfFromGlobal_def setDefaults_def
        merge_base_def pick_def zero_NeighborConfig_def zero_BaseConfig_def group_changed_def)

text \<open>A BFD session reported up for a neighbor that has not seen a BFD fault yet panics.\<close>

theorem bfd_cleared_without_fault_panics:
  "nb_BfdFaultCleared (NewNeighborConf g grp pc) = Panic"
  by (simp add: nb_BfdFaultCleared_def NewNeighborConf_def SetNeighborState_def setOtherStates_def Let_def)

end
