(* ===== verification/BgpSplit.thy ===== *)
theory BgpSplit
  imports BgpUpdateWire
begin

text \<open>
  \<open>ConstructMaxSizedUpdatePackets\<close> (\<open>bgp/packet/helpers.go\<close>): an UPDATE that may be too long for a
  message is cut into several. The function works on slices that share one array: the list of path
  attributes of the message is modelled by its contents and the capacity of its array, and an
  insertion into a slice that still shares the array is seen through the message's own slice. All
  lengths are \<open>uint32\<close>, as in the code.
\<close>

section \<open>Building multiprotocol attributes\<close>

fun set_family :: "u16 \<Rightarrow> u8 \<Rightarrow> BGPPathAttr \<Rightarrow> BGPPathAttr" where
  "set_family afi safi (BGPPathAttrMPReachNLRI b _ _ nh r ns) = BGPPathAttrMPReachNLRI b afi safi nh r ns"
| "set_family afi safi (BGPPathAttrMPUnreachNLRI b _ _ ns) = BGPPathAttrMPUnreachNLRI b afi safi ns"
| "set_family afi safi a = a"

definition ConstructMPUnreachNLRI :: "u16 \<Rightarrow> u8 \<Rightarrow> NLRI list \<Rightarrow> BGPPathAttr" where
  "ConstructMPUnreachNLRI afi safi ns = AddNLRIList (set_family afi safi NewBGPPathAttrMPUnreachNLRI) ns"

definition ConstructMPUnreachNLRIFromProtoFamily :: "u32 \<Rightarrow> NLRI list \<Rightarrow> BGPPathAttr" where
  "ConstructMPUnreachNLRIFromProtoFamily pf ns =
     (let (afi, safi) = GetAfiSafi pf in ConstructMPUnreachNLRI afi safi ns)"

text \<open>The setters of an IPv6 next hop refuse (with an error the caller drops) what is not 16 bytes.\<close>

fun SetGlobalNextHop :: "ip \<Rightarrow> MPNextHop \<Rightarrow> MPNextHop" where
  "SetGlobalNextHop ip (MPNextHopIP6 l v ll) =
     (if length ip \<noteq> 16 then MPNextHopIP6 l v ll
      else MPNextHopIP6 (if ll \<noteq> [] then 32 else 16) ip ll)"
| "SetGlobalNextHop ip h = h"

fun SetLinkLocalNextHop :: "ip \<Rightarrow> MPNextHop \<Rightarrow> MPNextHop" where
  "SetLinkLocalNextHop ip (MPNextHopIP6 l v ll) =
     (if length ip \<noteq> 16 then MPNextHopIP6 l v ll
      else MPNextHopIP6 (if ip \<noteq> [] then 32 else 16) v ip)"
| "SetLinkLocalNextHop ip h = h"

definition NewMPNextHopIP6 :: MPNextHop where
  "NewMPNextHopIP6 = MPNextHopIP6 0 [] []"

definition ConstructIPv6MPReachNLRI :: "u32 \<Rightarrow> ip \<Rightarrow> ip \<Rightarrow> NLRI list \<Rightarrow> BGPPathAttr" where
  "ConstructIPv6MPReachNLRI pf nextHop linkLocal ns =
     (let (afi, safi) = GetAfiSafi pf;
          nh = SetGlobalNextHop nextHop NewMPNextHopIP6;
          nh = (if linkLocal \<noteq> [] \<and> To16 linkLocal = [] then SetLinkLocalNextHop linkLocal nh else nh)
      in SetNLRIList (pa_SetNextHop (set_family afi safi NewBGPPathAttrMPReachNLRI) nh) ns)"

definition CloneMPReachNLRIWithNewNLRI :: "BGPPathAttr \<Rightarrow> NLRI list \<Rightarrow> (bgp_error, BGPPathAttr) outcome" where
  "CloneMPReachNLRIWithNewNLRI mpReach ns =
     (case mpReach of
        BGPPathAttrMPReachNLRI b afi safi (Some nh) r ms \<Rightarrow>
          Ok (SetNLRIList (pa_SetNextHop (set_family afi safi NewBGPPathAttrMPReachNLRI) nh) ns)
      | _ \<Rightarrow> Panic)"

section \<open>Cutting a list of routes\<close>

text \<open>
  The loop that all four stages share: routes are taken into the current message until the next one
  would pass the limit; then the message is closed and the count starts again from the fixed part.
  The result is the closed groups, the group left over and its count.
\<close>

fun split_loop :: "u32 \<Rightarrow> NLRI list \<Rightarrow> NLRI list \<Rightarrow> u32 \<Rightarrow> NLRI list list \<times> NLRI list \<times> u32" where
  "split_loop extra [] cur pktLen = ([], cur, pktLen)"
| "split_loop extra (n # ns) cur pktLen =
     (if NLRI_Len n + pktLen + extra > of_nat BGPMsgMaxLen
      then let (cs, rest, p) = split_loop extra ns [n] (of_nat BGPUpdateMsgMinLen + NLRI_Len n)
           in (cur # cs, rest, p)
      else split_loop extra ns (cur @ [n]) (pktLen + NLRI_Len n))"

definition attrs_len :: "BGPPathAttr list \<Rightarrow> u32" where
  "attrs_len pas = (\<Sum>a\<leftarrow>pas. pa_TotalLen a)"

text \<open>Messages for the closed groups: the first one also carries the withdrawn routes left over.\<close>

fun first_carries :: "('a \<Rightarrow> NLRI list \<Rightarrow> 'b) \<Rightarrow> NLRI list \<Rightarrow> 'a list \<Rightarrow> 'b list" where
  "first_carries mk wd [] = []"
| "first_carries mk wd (x # xs) = mk x wd # map (\<lambda>x. mk x []) xs"

text \<open>The withdrawn routes a stage leaves: none once it has closed a message.\<close>

definition carry :: "'b list \<Rightarrow> 'a list \<Rightarrow> 'b list" where
  "carry wd xs = (if xs = [] then wd else [])"

section \<open>The slice of path attributes\<close>

text \<open>
  \<open>add_shared\<close> is one \<open>addPathAttrToPathAttrs(pa, attr)\<close>, where \<open>pa\<close> shares its array with the
  message's slice of length \<open>n\<close> as long as the flag says so: the append stays in the array while it
  has room, and what the insertion shifts is then visible in the message's slice.
\<close>

definition add_shared ::
  "nat \<Rightarrow> BGPPathAttr \<Rightarrow> BGPPathAttr list \<times> BGPPathAttr list \<times> bool \<Rightarrow>
   BGPPathAttr list \<times> BGPPathAttr list \<times> bool" where
  "add_shared cap attr st =
     (let (view, pa, shared) = st;
          pa' = AddPathAttrToPathAttrsByCode pa (pa_GetCode attr) attr
      in if shared \<and> length pa < cap then (take (length view) pa', pa', True)
         else (view, pa', False))"

text \<open>The attributes of the message after the additions, and the message's slice.\<close>

definition add_all_shared ::
  "nat \<Rightarrow> BGPPathAttr list \<Rightarrow> BGPPathAttr list \<Rightarrow> BGPPathAttr list \<times> BGPPathAttr list" where
  "add_all_shared cap attrs view =
     (let (view', pa, sh) = fold (add_shared cap) attrs (view, view, True) in (pa, view'))"

definition add_all :: "BGPPathAttr list \<Rightarrow> BGPPathAttr list \<Rightarrow> BGPPathAttr list" where
  "add_all attrs pa = fold (\<lambda>a pa. AddPathAttrToPathAttrsByCode pa (pa_GetCode a) a) attrs pa"

section \<open>The stages\<close>

record split =
  sp_msgs :: "BGPMessage list"
  sp_wd :: "NLRI list"
  sp_pathAttrs :: "BGPPathAttr list"
  sp_pktLen :: u32
  sp_view :: "BGPPathAttr list"

definition too_long :: "u32 \<Rightarrow> bool" where
  "too_long len \<longleftrightarrow> len > of_nat BGPMsgMaxLen"

definition split_withdrawn :: "BGPUpdate \<Rightarrow> split" where
  "split_withdrawn u =
     (let (cs, rest, p) = split_loop 0 (upd_WithdrawnRoutes u) [] (of_nat BGPUpdateMsgMinLen)
      in \<lparr>sp_msgs = map (\<lambda>c. NewBGPUpdateMessage c [] []) cs, sp_wd = rest, sp_pathAttrs = [],
          sp_pktLen = p, sp_view = upd_PathAttributes u\<rparr>)"

definition split_unreach :: "BGPPathAttr \<Rightarrow> split \<Rightarrow> split" where
  "split_unreach mpUnreach s =
     (case mpUnreach of
        BGPPathAttrMPUnreachNLRI b afi safi ns \<Rightarrow>
          (let base = ucast (pa_HdrLen b) + 3;
               view = fst (removeTypeFromPathAttrs (sp_view s) BGPPathAttrTypeMPUnreachNLRI);
               (cs, rest, p) =
                 (if ns \<noteq> [] \<and> too_long (sp_pktLen s + pa_TotalLen mpUnreach)
                  then split_loop base ns [] (sp_pktLen s) else ([], [], sp_pktLen s));
               mk = (\<lambda>c wd. NewBGPUpdateMessage wd
                       (if c \<noteq> [] then [ConstructMPUnreachNLRI afi safi c] else []) [])
           in \<lparr>sp_msgs = sp_msgs s @ first_carries mk (sp_wd s) cs, sp_wd = carry (sp_wd s) cs,
               sp_pathAttrs = sp_pathAttrs s @ (if rest \<noteq> [] then [ConstructMPUnreachNLRI afi safi rest] else []),
               sp_pktLen = (if rest \<noteq> [] then p + base else p), sp_view = view\<rparr>)
      | _ \<Rightarrow> s)"

definition split_reach :: "BGPPathAttr \<Rightarrow> split \<Rightarrow> (bgp_error, split) outcome" where
  "split_reach mpReach s =
     (case mpReach of
        BGPPathAttrMPReachNLRI b afi safi nh r ns \<Rightarrow>
          (let view = fst (removeTypeFromPathAttrs (sp_view s) BGPPathAttrTypeMPReachNLRI);
               others = attrs_len view
           in if ns \<noteq> [] \<and> too_long (sp_pktLen s + others + pa_TotalLen mpReach)
              then case nh of
                  None \<Rightarrow> Panic
                | Some h \<Rightarrow>
                    (let base = ucast (pa_HdrLen b) + 4 + ucast (nh_Len h) + others;
                         (cs, rest, p) = split_loop base ns [] (sp_pktLen s);
                         reach = (\<lambda>c. SetNLRIList (pa_SetNextHop (set_family afi safi NewBGPPathAttrMPReachNLRI) h) c);
                         pa = (\<lambda>c. if c \<noteq> []
                                then AddPathAttrToPathAttrsByCode view BGPPathAttrTypeMPReachNLRI (reach c) else []);
                         mk = (\<lambda>(c, add) wd. NewBGPUpdateMessage wd (add_all add (pa c)) []);
                         adds = sp_pathAttrs s # replicate (length cs - 1) [];
                         left = carry (sp_pathAttrs s) cs
                     in Ok \<lparr>sp_msgs = sp_msgs s @ first_carries mk (sp_wd s) (zip cs adds),
                            sp_wd = carry (sp_wd s) cs,
                            sp_pathAttrs = (if rest \<noteq> []
                              then AddPathAttrToPathAttrsByCode left BGPPathAttrTypeMPReachNLRI (reach rest) else left),
                            sp_pktLen = (if rest \<noteq> [] then p + ucast (pa_HdrLen b) + 4 + ucast (nh_Len h) else p),
                            sp_view = view\<rparr>)
              else Ok (s\<lparr>sp_view := view\<rparr>))
      | _ \<Rightarrow> Panic)"

definition split_mp :: "split \<Rightarrow> (bgp_error, split) outcome" where
  "split_mp s =
     (if too_long (sp_pktLen s + attrs_len (sp_view s))
      then obind (GetMPAttrs (sp_view s)) (\<lambda>(mpReach, mpUnreach).
        let s1 = (case mpUnreach of None \<Rightarrow> s | Some a \<Rightarrow> split_unreach a s)
        in case mpReach of None \<Rightarrow> Ok s1 | Some a \<Rightarrow> split_reach a s1)
      else Ok s)"

text \<open>When what is left does not fit together with the attributes, it gets a message of its own.\<close>

definition flush_pending :: "split \<Rightarrow> split" where
  "flush_pending s =
     (if too_long (sp_pktLen s + attrs_len (sp_view s))
      then let others = (if getTypeFromPathAttrs (sp_pathAttrs s) BGPPathAttrTypeMPReachNLRI \<noteq> None
                         then sp_view s else [])
           in s\<lparr>sp_msgs := sp_msgs s @ [NewBGPUpdateMessage (sp_wd s) (add_all (sp_pathAttrs s) others) []],
                sp_wd := [], sp_pathAttrs := [], sp_pktLen := of_nat BGPUpdateMsgMinLen\<rparr>
      else s)"

text \<open>
  The last stage: the message that is built first carries the pending attributes; the messages after
  it see the slice as the insertions left it.
\<close>

definition split_nlri :: "nat \<Rightarrow> NLRI list \<Rightarrow> split \<Rightarrow> BGPMessage list" where
  "split_nlri cap ns s =
     (let paLen = attrs_len (sp_view s);
          (cs, rest, p) = split_loop paLen ns [] (sp_pktLen s);
          (pa, view) = add_all_shared cap (sp_pathAttrs s) (sp_view s);
          final = (if cs = []
                   then sp_wd s \<noteq> [] \<or> rest \<noteq> [] \<or> sp_pathAttrs s \<noteq> [] \<or> HasMPAttrs (sp_view s)
                   else rest \<noteq> []);
          groups = zip (cs @ (if final then [rest] else [])) (pa # replicate (length cs) view)
      in sp_msgs s @ first_carries (\<lambda>(c, a) wd. NewBGPUpdateMessage wd a c) (sp_wd s) groups)"

definition ConstructMaxSizedUpdatePackets :: "nat \<Rightarrow> BGPUpdate \<Rightarrow> (bgp_error, BGPMessage list) outcome" where
  "ConstructMaxSizedUpdatePackets cap u =
     obind (split_mp (split_withdrawn u)) (\<lambda>s. Ok (split_nlri cap (upd_NLRI u) (flush_pending s)))"

end
