(* ===== verification/BgpSplitProps.thy ===== *)
theory BgpSplitProps
  imports BgpSplit BgpPathOps
begin

text \<open>
  What \<open>ConstructMaxSizedUpdatePackets\<close> promises for IPv4 routes: every part fits into a message,
  is well-formed, and nothing is lost, repeated or reordered. And what it loses when an update
  announces and withdraws multiprotocol routes at once.
\<close>

section \<open>The cutting loop\<close>

definition glen :: "NLRI list \<Rightarrow> nat" where
  "glen ns = (\<Sum>n\<leftarrow>ns. unat (NLRI_Len n))"

lemma glen_simps [simp]: "glen [] = 0" "glen (n # ns) = unat (NLRI_Len n) + glen ns"
  "glen (ns @ ms) = glen ns + glen ms"
  by (simp_all add: glen_def)

text \<open>No route passes the limit on its own.\<close>

definition small_routes :: "nat \<Rightarrow> NLRI list \<Rightarrow> bool" where
  "small_routes e ns \<longleftrightarrow> (\<forall>n \<in> set ns. 23 + e + unat (NLRI_Len n) \<le> 4096)"

lemma over_limit:
  fixes a b c :: u32
  assumes "unat a \<le> 4096" "unat b \<le> 4096" "unat c \<le> 4096"
  shows "a + b + c > of_nat BGPMsgMaxLen \<longleftrightarrow> unat a + unat b + unat c > 4096"
proof -
  have "unat (a + b + c) = unat a + unat b + unat c"
    using assms by (simp add: unat_word_ariths)
  then show ?thesis by (simp add: word_less_nat_alt BGPMsgMaxLen_def)
qed

text \<open>Each group fits on top of what its message already holds: \<open>b\<close> for the first, 23 for the others.\<close>

lemma split_loop_spec:
  assumes "split_loop extra ns cur pktLen = (cs, rest, p)"
    and "small_routes (unat extra) ns" "unat extra \<le> 4096"
    and "unat pktLen = b + glen cur" "b + glen cur + unat extra \<le> 4096"
  shows "concat cs @ rest = cur @ ns \<and>
         list_all2 (\<lambda>b g. b + unat extra + glen g \<le> 4096) (b # replicate (length cs) 23) (cs @ [rest]) \<and>
         unat p = (if cs = [] then b else 23) + glen rest"
  using assms
proof (induction extra ns cur pktLen arbitrary: b cs rest p rule: split_loop.induct)
  case (1 extra cur pktLen)
  then show ?case by simp
next
  case (2 extra n ns cur pktLen)
  have small: "unat (NLRI_Len n) \<le> 4096" "23 + unat extra + unat (NLRI_Len n) \<le> 4096" "small_routes (unat extra) ns"
    using "2.prems"(2) by (simp_all add: small_routes_def)
  have over: "NLRI_Len n + pktLen + extra > of_nat BGPMsgMaxLen \<longleftrightarrow> unat (NLRI_Len n) + unat pktLen + unat extra > 4096"
    using small(1) "2.prems"(3-5) by (intro over_limit) simp_all
  show ?case
  proof (cases "NLRI_Len n + pktLen + extra > of_nat BGPMsgMaxLen")
    case True
    obtain cs' p' where r: "split_loop extra ns [n] (of_nat BGPUpdateMsgMinLen + NLRI_Len n) = (cs', rest, p')"
      "cs = cur # cs'" "p = p'"
      using "2.prems"(1) True by (auto split: prod.splits)
    have "unat (of_nat BGPUpdateMsgMinLen + NLRI_Len n) = 23 + glen [n]"
      using small(1) by (simp add: BGPUpdateMsgMinLen_def unat_word_ariths)
    from "2.IH"(1) [OF True r(1) small(3) "2.prems"(3) this] small(2)
    show ?thesis using r(2,3) "2.prems"(5) by auto
  next
    case False
    then have r: "split_loop extra ns (cur @ [n]) (pktLen + NLRI_Len n) = (cs, rest, p)"
      using "2.prems"(1) by simp
    have fits: "unat (NLRI_Len n) + unat pktLen + unat extra \<le> 4096" using False over by simp
    then have "unat (pktLen + NLRI_Len n) = b + glen (cur @ [n])"
      using "2.prems"(4) small(1) by (simp add: unat_word_ariths)
    from "2.IH"(2) [OF False r small(3) "2.prems"(3) this] fits "2.prems"(4)
    show ?thesis by simp
  qed
qed

section \<open>Lengths\<close>

lemma glen_wire:
  "\<forall>n \<in> set ns. wf_nlri ap AfiIP n \<Longrightarrow> length (nlris_wire ns) = glen ns"
  by (induction ns) (auto simp: nlris_wire_def length_nlri_wire)

lemma attrs_len_wire:
  assumes "\<forall>a \<in> set pas. wf_attr peer a" "length (attrs_wire pas) \<le> 4096"
  shows "unat (attrs_len pas) = length (attrs_wire pas)"
  using assms
proof (induction pas)
  case (Cons a pas)
  have "unat (pa_TotalLen a) = length (pa_wire a)" using Cons.prems(1) by (intro length_pa_wire [where peer = peer]) simp
  moreover have "unat (attrs_len pas) = length (attrs_wire pas)"
    using Cons by (simp add: attrs_wire_def)
  ultimately show ?case
    using Cons.prems by (simp add: attrs_len_def attrs_wire_def unat_word_ariths)
qed (simp add: attrs_len_def attrs_wire_def)

lemma small_routes_any: "e \<le> 4036 \<Longrightarrow> small_routes e ns"
proof -
  assume "e \<le> 4036"
  then have "23 + e + unat (NLRI_Len n) \<le> 4096" for n using NLRI_Len_bounds(2) [of n] by linarith
  then show ?thesis by (simp add: small_routes_def)
qed


lemma too_long_iff: "unat a \<le> 4096 \<Longrightarrow> unat b \<le> 4096 \<Longrightarrow> too_long (a + b) \<longleftrightarrow> unat a + unat b > 4096"
  using over_limit [of a b 0] by (simp add: too_long_def)

section \<open>Updates without multiprotocol attributes\<close>

lemma no_mp_attrs:
  assumes "\<not> HasMPAttrs pas"
  shows "GetMPAttrs pas = Ok (None, None)"
proof -
  have "find (\<lambda>pa. pa_GetCode pa = c) pas = None"
    if "c = BGPPathAttrTypeMPReachNLRI \<or> c = BGPPathAttrTypeMPUnreachNLRI" for c
    using assms that by (auto simp: HasMPAttrs_def list_ex_iff find_None_iff)
  then show ?thesis by (simp add: GetMPAttrs_def getTypeFromPathAttrs_def as_mp_reach_def as_mp_unreach_def)
qed

text \<open>A part of the update: withdrawn routes, attributes and routes, and the message that carries it.\<close>

type_synonym part = "NLRI list \<times> BGPPathAttr list \<times> NLRI list"

definition message_of :: "part \<Rightarrow> BGPMessage" where
  "message_of = (\<lambda>(wd, pas, ns). NewBGPUpdateMessage wd pas ns)"

definition part_fits :: "part \<Rightarrow> bool" where
  "part_fits = (\<lambda>(wd, pas, ns). 23 + glen wd + length (attrs_wire pas) + glen ns \<le> 4096)"

definition parts_cover :: "BGPPathAttr list \<Rightarrow> NLRI list \<Rightarrow> NLRI list \<Rightarrow> part list \<Rightarrow> bool" where
  "parts_cover pas wd ns ps \<longleftrightarrow>
     concat (map fst ps) = wd \<and> concat (map (snd \<circ> snd) ps) = ns \<and>
     (\<forall>p \<in> set ps. part_fits p \<and> (fst (snd p) = pas \<or> fst (snd p) = [] \<and> snd (snd p) = []))"

lemma map_zip_replicate:
  "map (\<lambda>x. (case x of (c, a) \<Rightarrow> f c a) w) (zip gs (replicate (length gs) y)) = map (\<lambda>c. f c y w) gs"
  by (induction gs) auto

lemma list_all2_replicate_left:
  "list_all2 P (replicate n x) ys \<longleftrightarrow> length ys = n \<and> (\<forall>y \<in> set ys. P x y)"
  by (induction n arbitrary: ys) (auto simp: list_all2_Cons1 length_Suc_conv)

text \<open>The parts of the last stage, with \<open>wd\<close> still to be carried by the first of them.\<close>

lemma first_carries_parts:
  assumes "list_all2 (\<lambda>b g. b + length (attrs_wire pas) + glen g \<le> 4096) ((23 + glen wd) # replicate (length cs) 23) gs"
  shows "\<exists>ps. first_carries (\<lambda>(c, a) w. NewBGPUpdateMessage w a c) wd (zip gs (replicate (length gs) pas)) = map message_of ps \<and>
           parts_cover pas wd (concat gs) ps"
proof -
  obtain g gs' where gs: "gs = g # gs'" using assms by (cases gs) simp_all
  have fit: "\<forall>x \<in> set gs'. 23 + length (attrs_wire pas) + glen x \<le> 4096"
    using assms unfolding gs by (simp add: list_all2_replicate_left)
  show ?thesis
    using assms fit
    by (intro exI [of _ "(wd, pas, g) # map (\<lambda>c. ([], pas, c)) gs'"])
       (auto simp: gs message_of_def parts_cover_def part_fits_def comp_def map_zip_replicate)
qed

lemma split_withdrawn_parts:
  assumes "split_loop 0 wd [] (of_nat BGPUpdateMsgMinLen) = (cs, rest, p)"
  shows "concat cs @ rest = wd" "unat p = 23 + glen rest" "23 + glen rest \<le> 4096"
    "\<forall>c \<in> set cs. 23 + glen c \<le> 4096"
proof -
  have "small_routes (unat (0 :: u32)) wd" by (rule small_routes_any) simp
  from split_loop_spec [OF assms this, of 23]
  have s: "concat cs @ rest = wd" "unat p = 23 + glen rest"
    "list_all2 (\<lambda>b g. b + glen g \<le> 4096) (replicate (Suc (length cs)) 23) (cs @ [rest])"
    by (simp_all add: BGPUpdateMsgMinLen_def split: if_splits)
  then show "concat cs @ rest = wd" "unat p = 23 + glen rest" by simp_all
  show "23 + glen rest \<le> 4096" "\<forall>c \<in> set cs. 23 + glen c \<le> 4096"
    using s(3) by (simp_all add: list_all2_replicate_left del: replicate_Suc)
qed

text \<open>The last stage on top of \<open>23 + glen wd\<close> bytes that carry \<open>wd\<close>.\<close>

lemma split_nlri_parts:
  assumes attrs: "unat (attrs_len pas) = length (attrs_wire pas)" "length (attrs_wire pas) \<le> 4036"
    and mp: "\<not> HasMPAttrs pas"
    and s: "sp_view s = pas" "sp_pathAttrs s = []" "unat (sp_pktLen s) = 23 + glen (sp_wd s)"
      "23 + glen (sp_wd s) + length (attrs_wire pas) \<le> 4096"
  shows "\<exists>ps. split_nlri cap ns s = sp_msgs s @ map message_of ps \<and> parts_cover pas (sp_wd s) ns ps"
proof -
  obtain cs rest p where l: "split_loop (attrs_len pas) ns [] (sp_pktLen s) = (cs, rest, p)"
    by (cases "split_loop (attrs_len pas) ns [] (sp_pktLen s)") auto
  have small: "small_routes (unat (attrs_len pas)) ns" using attrs by (intro small_routes_any) simp
  from split_loop_spec [OF l small, of "23 + glen (sp_wd s)"] attrs s(3,4)
  have sp: "concat cs @ rest = ns"
    "list_all2 (\<lambda>b g. b + length (attrs_wire pas) + glen g \<le> 4096)
       ((23 + glen (sp_wd s)) # replicate (length cs) 23) (cs @ [rest])"
    by simp_all
  let ?final = "if cs = [] then sp_wd s \<noteq> [] \<or> rest \<noteq> [] else rest \<noteq> []"
  have nlri: "split_nlri cap ns s = sp_msgs s @
      first_carries (\<lambda>(c, a) w. NewBGPUpdateMessage w a c) (sp_wd s)
        (zip (cs @ (if ?final then [rest] else [])) (pas # replicate (length cs) pas))"
    using mp by (simp add: split_nlri_def s(1,2) l add_all_shared_def)
  show ?thesis
  proof (cases ?final)
    case True
    from first_carries_parts [OF sp(2)] obtain ps where
      "first_carries (\<lambda>(c, a) w. NewBGPUpdateMessage w a c) (sp_wd s)
         (zip (cs @ [rest]) (replicate (length (cs @ [rest])) pas)) = map message_of ps"
      "parts_cover pas (sp_wd s) (concat (cs @ [rest])) ps" by blast
    then show ?thesis using sp(1) nlri [unfolded if_P [OF True]] by (intro exI [of _ ps]) simp
  next
    case False
    show ?thesis
    proof (cases cs)
      case Nil
      then show ?thesis using False sp(1) nlri
        by (intro exI [of _ "[]"]) (simp add: parts_cover_def)
    next
      case (Cons c cs')
      have "list_all2 (\<lambda>b g. b + length (attrs_wire pas) + glen g \<le> 4096)
              ((23 + glen (sp_wd s)) # replicate (length cs') 23) cs"
        using sp(2) unfolding Cons by (simp add: list_all2_replicate_left flip: replicate_Suc)
      from first_carries_parts [OF this] obtain ps where
        "first_carries (\<lambda>(c, a) w. NewBGPUpdateMessage w a c) (sp_wd s)
           (zip cs (replicate (length cs) pas)) = map message_of ps"
        "parts_cover pas (sp_wd s) (concat cs) ps" by blast
      moreover have "zip cs (pas # replicate (length cs) pas) = zip cs (replicate (length cs) pas)"
        by (simp add: Cons zip_replicate2 flip: replicate_Suc)
      ultimately show ?thesis using False Cons sp(1) nlri by (intro exI [of _ ps]) auto
    qed
  qed
qed

text \<open>The routes and attributes of an update fit its parts: every part is a body the peer decodes.\<close>

definition update_of :: "part \<Rightarrow> BGPUpdate" where
  "update_of = (\<lambda>(wd, pas, ns). \<lparr>upd_WithdrawnRoutesLen = 0, upd_WithdrawnRoutes = wd,
                    upd_TotalPathAttrLen = 0, upd_PathAttributes = pas, upd_NLRI = ns\<rparr>)"

lemma message_of_update: "message_of p = \<lparr>msg_Header = header_of 0 BGPMsgTypeUpdate, msg_Body = UpdateBody (update_of p)\<rparr>"
  by (simp add: message_of_def update_of_def NewBGPUpdateMessage_def split: prod.splits)

lemma parts_cover_mem:
  assumes "parts_cover pas wd ns ps" "p \<in> set ps"
  shows "set (fst p) \<subseteq> set wd" "set (snd (snd p)) \<subseteq> set ns" "set (fst (snd p)) \<subseteq> set pas" "part_fits p"
  using assms by (auto simp: parts_cover_def)

lemma wf_part:
  assumes "parts_cover pas wd ns ps" "p \<in> set ps"
    and wf: "\<forall>n \<in> set wd \<union> set ns. wf_nlri (peer_AddPathsRxActual peer) AfiIP n"
      "\<forall>a \<in> set pas. wf_attr peer a" "peer_ASSize peer = 4" "no_as4_attrs pas"
  shows "wf_body peer (UpdateBody (update_of p))"
proof -
  obtain w a n where p: "p = (w, a, n)" by (cases p) auto
  have sub: "set w \<subseteq> set wd" "set n \<subseteq> set ns" "set a \<subseteq> set pas" "part_fits p"
    using parts_cover_mem [OF assms(1,2)] by (simp_all add: p)
  then have "length (nlris_wire w) = glen w" "length (nlris_wire n) = glen n"
    using wf(1) by (auto intro!: glen_wire)
  then have "length (update_wire (update_of p)) \<le> 4077"
    using sub(4) by (simp add: p update_wire_def update_of_def part_fits_def)
  moreover have "no_as4_attrs a" using sub(3) wf(4) by (auto simp: no_as4_attrs_def)
  ultimately show ?thesis
    using sub wf by (auto simp: p wf_update_def update_of_def BGPMsgMaxLen_def BGPMsgHeaderLen_def)
qed

section \<open>Attributes that no message carries\<close>

definition msg_attrs :: "BGPMessage \<Rightarrow> BGPPathAttr list" where
  "msg_attrs m = (case msg_Body m of UpdateBody u \<Rightarrow> upd_PathAttributes u | _ \<Rightarrow> [])"

lemma msg_attrs_new [simp]: "msg_attrs (NewBGPUpdateMessage wd pas ns) = pas"
  by (simp add: msg_attrs_def NewBGPUpdateMessage_def)

definition free_of :: "u8 \<Rightarrow> BGPPathAttr list \<Rightarrow> bool" where
  "free_of code pas \<longleftrightarrow> (\<forall>a \<in> set pas. pa_GetCode a \<noteq> code)"

definition split_free_of :: "u8 \<Rightarrow> split \<Rightarrow> bool" where
  "split_free_of code s \<longleftrightarrow> (\<forall>m \<in> set (sp_msgs s). free_of code (msg_attrs m)) \<and>
     free_of code (sp_pathAttrs s) \<and> free_of code (sp_view s)"

lemma free_of_simps [simp]:
  "free_of c []" "free_of c (a # pas) \<longleftrightarrow> pa_GetCode a \<noteq> c \<and> free_of c pas"
  "free_of c (AddPathAttrToPathAttrsByCode pas k a) \<longleftrightarrow> pa_GetCode a \<noteq> c \<and> free_of c pas"
  by (auto simp: free_of_def set_AddPathAttr)

lemma free_of_add_all: "free_of c adds \<Longrightarrow> free_of c pas \<Longrightarrow> free_of c (add_all adds pas)"
  by (induction adds arbitrary: pas) (simp_all add: add_all_def)

lemma free_of_take: "free_of c pas \<Longrightarrow> free_of c (take n pas)"
  by (auto simp: free_of_def dest: in_set_takeD)

lemma free_of_shared:
  assumes "free_of c adds" "free_of c view"
  shows "free_of c (fst (add_all_shared cap adds view))" "free_of c (snd (add_all_shared cap adds view))"
proof -
  have "free_of c adds \<Longrightarrow> free_of c (fst st) \<Longrightarrow> free_of c (fst (snd st)) \<Longrightarrow>
        free_of c (fst (fold (add_shared cap) adds st)) \<and> free_of c (fst (snd (fold (add_shared cap) adds st)))" for st
  proof (induction adds arbitrary: st)
    case (Cons a adds)
    then show ?case
      by (cases st) (auto intro!: Cons.IH simp: add_shared_def Let_def free_of_take)
  qed simp
  from this [OF assms(1), of "(view, view, True)"] assms(2)
  show "free_of c (fst (add_all_shared cap adds view))" "free_of c (snd (add_all_shared cap adds view))"
    by (auto simp: add_all_shared_def split: prod.splits)
qed

lemma first_carries_free:
  assumes "\<forall>x \<in> set xs. \<forall>w. free_of c (msg_attrs (mk x w))"
  shows "\<forall>m \<in> set (first_carries mk wd xs). free_of c (msg_attrs m)"
  using assms by (cases xs) auto

lemma flush_free: "split_free_of c s \<Longrightarrow> split_free_of c (flush_pending s)"
  by (auto simp: flush_pending_def split_free_of_def Let_def free_of_add_all)

lemma split_nlri_free:
  assumes "split_free_of c s"
  shows "\<forall>m \<in> set (split_nlri cap ns s). free_of c (msg_attrs m)"
proof -
  obtain cs rest p where l: "split_loop (attrs_len (sp_view s)) ns [] (sp_pktLen s) = (cs, rest, p)"
    by (cases "split_loop (attrs_len (sp_view s)) ns [] (sp_pktLen s)") auto
  obtain pa view where sh: "add_all_shared cap (sp_pathAttrs s) (sp_view s) = (pa, view)"
    by (cases "add_all_shared cap (sp_pathAttrs s) (sp_view s)") auto
  have "free_of c pa" "free_of c view"
    using assms free_of_shared [of c "sp_pathAttrs s" "sp_view s" cap] by (simp_all add: sh split_free_of_def)
  then have "\<forall>x \<in> set (zip gs (pa # replicate (length cs) view)). free_of c (snd x)" for gs :: "NLRI list list"
    by (auto dest!: set_zip_rightD split: if_splits)
  then show ?thesis
    using assms unfolding split_nlri_def l sh Let_def prod.case set_append ball_Un
    by (intro conjI first_carries_free) (auto simp: split_free_of_def split_beta)
qed

lemma removed_free:
  "length (filter (\<lambda>a. pa_GetCode a = c) pas) \<le> 1 \<Longrightarrow> free_of c (fst (removeTypeFromPathAttrs pas c))"
proof (induction pas)
  case (Cons a pas)
  show ?case
  proof (cases "pa_GetCode a = c")
    case True
    then have "filter (\<lambda>a. pa_GetCode a = c) pas = []" using Cons.prems by simp
    then show ?thesis using True by (simp add: free_of_def filter_empty_conv)
  next
    case False
    then show ?thesis using Cons by (simp add: split_beta)
  qed
qed simp

lemma removed_still_free: "free_of c pas \<Longrightarrow> free_of c (fst (removeTypeFromPathAttrs pas k))"
  by (induction pas) (auto simp: split_beta)

lemma zip_adds_free:
  assumes "free_of c adds"
  shows "\<forall>x \<in> set (zip cs (adds # replicate n [])). free_of c (snd x)"
proof
  fix x assume "x \<in> set (zip cs (adds # replicate n []))"
  then have "snd x \<in> set (adds # replicate n [])"
    using set_zip_rightD [of "fst x" "snd x" cs "adds # replicate n []"] by simp
  then show "free_of c (snd x)" using assms by (auto split: if_splits)
qed

lemma split_reach_free:
  assumes free: "split_free_of c s" and c: "c \<noteq> BGPPathAttrTypeMPReachNLRI"
    and h: "mpReach = BGPPathAttrMPReachNLRI b afi safi (Some h) r ns"
  shows "\<exists>s'. split_reach mpReach s = Ok s' \<and> split_free_of c s'"
proof -
  let ?view = "fst (removeTypeFromPathAttrs (sp_view s) BGPPathAttrTypeMPReachNLRI)"
  have view: "free_of c ?view" using free by (simp add: split_free_of_def removed_still_free)
  show ?thesis
  proof (cases "ns \<noteq> [] \<and> too_long (sp_pktLen s + attrs_len ?view + pa_TotalLen mpReach)")
    case True
    let ?base = "ucast (pa_HdrLen b) + 4 + ucast (nh_Len h) + attrs_len ?view"
    define reach where "reach = (\<lambda>ms. SetNLRIList (pa_SetNextHop (set_family afi safi NewBGPPathAttrMPReachNLRI) h) ms)"
    define mk where "mk = (\<lambda>(g, add) wd. NewBGPUpdateMessage wd
        (add_all add (if g \<noteq> [] then AddPathAttrToPathAttrsByCode ?view BGPPathAttrTypeMPReachNLRI (reach g) else [])) [])"
    obtain cs rest p where l: "split_loop ?base ns [] (sp_pktLen s) = (cs, rest, p)"
      by (cases "split_loop ?base ns [] (sp_pktLen s)") auto
    define adds where "adds = zip cs (sp_pathAttrs s # replicate (length cs - 1) [])"
    have reach: "pa_GetCode (reach ms) \<noteq> c" for ms
      using c by (simp add: reach_def NewBGPPathAttrMPReachNLRI_def mk_base_def pa_GetCode_def)
    have "\<forall>x \<in> set adds. free_of c (snd x)"
      unfolding adds_def using free by (intro zip_adds_free) (simp add: split_free_of_def)
    then have msgs: "\<forall>m \<in> set (first_carries mk (sp_wd s) adds). free_of c (msg_attrs m)"
      using view reach unfolding mk_def by (intro first_carries_free) (auto simp: free_of_add_all split_beta)
    have left: "free_of c (carry (sp_pathAttrs s) cs)" using free by (simp add: carry_def split_free_of_def)
    have "split_reach mpReach s = Ok \<lparr>sp_msgs = sp_msgs s @ first_carries mk (sp_wd s) adds,
             sp_wd = carry (sp_wd s) cs,
             sp_pathAttrs = (if rest \<noteq> []
               then AddPathAttrToPathAttrsByCode (carry (sp_pathAttrs s) cs) BGPPathAttrTypeMPReachNLRI (reach rest)
               else carry (sp_pathAttrs s) cs),
             sp_pktLen = (if rest \<noteq> [] then p + ucast (pa_HdrLen b) + 4 + ucast (nh_Len h) else p),
             sp_view = ?view\<rparr>"
      unfolding split_reach_def h BGPPathAttr.case Let_def if_P [OF True [unfolded h]] option.case l prod.case
        mk_def adds_def reach_def ..
    then show ?thesis using msgs view reach free left by (auto simp: split_free_of_def)
  next
    case False
    then show ?thesis using free view
      unfolding split_reach_def h BGPPathAttr.case Let_def if_not_P [OF False [unfolded h]]
      by (simp add: split_free_of_def)
  qed
qed

section \<open>Properties\<close>

text \<open>C40: An update for IPv4 routes is cut into messages that each fit, that a peer decodes, that carry the
  withdrawn routes and the routes in their order and once each, and every route with the update's
  attributes.\<close>

theorem split_update_complete:
  assumes "\<forall>n \<in> set (upd_WithdrawnRoutes u) \<union> set (upd_NLRI u). wf_nlri (peer_AddPathsRxActual peer) AfiIP n"
    and "\<forall>a \<in> set (upd_PathAttributes u). wf_attr peer a" "no_as4_attrs (upd_PathAttributes u)"
    and "peer_ASSize peer = 4" "\<not> HasMPAttrs (upd_PathAttributes u)"
    and "length (attrs_wire (upd_PathAttributes u)) \<le> 4036"
  shows "\<exists>ps. ConstructMaxSizedUpdatePackets cap u = Ok (map message_of ps) \<and>
           parts_cover (upd_PathAttributes u) (upd_WithdrawnRoutes u) (upd_NLRI u) ps \<and>
           (\<forall>p \<in> set ps. wf_body peer (UpdateBody (update_of p)))"
proof -
  let ?pas = "upd_PathAttributes u" and ?wd = "upd_WithdrawnRoutes u"
  let ?u = "split_withdrawn u"
  obtain cs rest p where l: "split_loop 0 ?wd [] (of_nat BGPUpdateMsgMinLen) = (cs, rest, p)"
    by (cases "split_loop 0 ?wd [] (of_nat BGPUpdateMsgMinLen)") auto
  note w = split_withdrawn_parts [OF l]
  have al: "unat (attrs_len ?pas) = length (attrs_wire ?pas)"
    using assms by (intro attrs_len_wire [where peer = peer]) auto
  have u: "?u = \<lparr>sp_msgs = map (\<lambda>c. NewBGPUpdateMessage c [] []) cs, sp_wd = rest, sp_pathAttrs = [],
                 sp_pktLen = p, sp_view = ?pas\<rparr>"
    by (simp add: split_withdrawn_def l)
  have head: "map (\<lambda>c. NewBGPUpdateMessage c [] []) cs = map message_of (map (\<lambda>c. (c, [], [])) cs)"
    "parts_cover ?pas (concat cs) [] (map (\<lambda>c. (c, [], [])) cs)"
    using w(4) by (simp_all add: message_of_def parts_cover_def part_fits_def comp_def attrs_wire_def)
  have over: "too_long (p + attrs_len ?pas) \<longleftrightarrow> 23 + glen rest + length (attrs_wire ?pas) > 4096"
    using w(2,3) al assms(6) by (subst too_long_iff) simp_all
  have join: "parts_cover pas (w1 @ w2) (n1 @ n2) (p1 @ p2)"
    if "parts_cover pas w1 n1 p1" "parts_cover pas w2 n2 p2" for pas w1 w2 n1 n2 p1 p2
    using that by (auto simp: parts_cover_def)
  have "\<exists>ps. split_nlri cap (upd_NLRI u) (flush_pending ?u) = map message_of ps \<and>
          parts_cover ?pas ?wd (upd_NLRI u) ps"
  proof (cases "too_long (p + attrs_len ?pas)")
    case True
    let ?s = "flush_pending ?u"
    have s: "?s = \<lparr>sp_msgs = map message_of (map (\<lambda>c. (c, [], [])) cs @ [(rest, [], [])]), sp_wd = [],
                   sp_pathAttrs = [], sp_pktLen = of_nat BGPUpdateMsgMinLen, sp_view = ?pas\<rparr>"
      using True head(1)
      by (simp add: flush_pending_def u getTypeFromPathAttrs_def add_all_def message_of_def)
    obtain ps where ps: "split_nlri cap (upd_NLRI u) ?s = sp_msgs ?s @ map message_of ps"
      "parts_cover ?pas [] (upd_NLRI u) ps"
      using split_nlri_parts [OF al assms(6,5), of ?s cap "upd_NLRI u"] assms(6)
      by (auto simp: s BGPUpdateMsgMinLen_def)
    have "parts_cover ?pas rest [] [(rest, [], [])]"
      using w(3) by (simp add: parts_cover_def part_fits_def attrs_wire_def)
    from join [OF join [OF head(2) this] ps(2)] ps(1)
    show ?thesis using w(1)
      by (intro exI [of _ "(map (\<lambda>c. (c, [], [])) cs @ [(rest, [], [])]) @ ps"]) (simp add: s)
  next
    case False
    then have s: "flush_pending ?u = ?u" by (simp add: flush_pending_def u)
    obtain ps where "split_nlri cap (upd_NLRI u) ?u = sp_msgs ?u @ map message_of ps"
      "parts_cover ?pas rest (upd_NLRI u) ps"
      using split_nlri_parts [OF al assms(6,5), of ?u cap "upd_NLRI u"] w(2) False over
      by (auto simp: u)
    moreover from join [OF head(2) this(2)] w(1)
    have "parts_cover ?pas ?wd (upd_NLRI u) (map (\<lambda>c. (c, [], [])) cs @ ps)" by simp
    moreover have "sp_msgs ?u = map message_of (map (\<lambda>c. (c, [], [])) cs)"
      unfolding u using head(1) by simp
    ultimately show ?thesis unfolding s
      by (intro exI [of _ "map (\<lambda>c. (c, [], [])) cs @ ps"]) simp
  qed
  moreover have "split_mp ?u = Ok ?u"
    using no_mp_attrs [OF assms(5)] by (simp add: split_mp_def u)
  ultimately show ?thesis
    using wf_part [OF _ _ assms(1,2,4,3)] by (auto simp: ConstructMaxSizedUpdatePackets_def)
qed

theorem split_update_complete_witness:
  "\<exists>ps. ConstructMaxSizedUpdatePackets 8 example_update = Ok (map message_of ps) \<and>
     parts_cover (upd_PathAttributes example_update) (upd_WithdrawnRoutes example_update) (upd_NLRI example_update) ps \<and>
     list_all (\<lambda>p. wf_body example_peer (UpdateBody (update_of p))) ps"
  unfolding list_all_iff
proof (rule split_update_complete)
  show "\<forall>n \<in> set (upd_WithdrawnRoutes example_update) \<union> set (upd_NLRI example_update).
          wf_nlri (peer_AddPathsRxActual example_peer) AfiIP n"
    and "\<forall>a \<in> set (upd_PathAttributes example_update). wf_attr example_peer a"
    using wf_example(1) by (auto simp: wf_update_def)
  show "length (attrs_wire (upd_PathAttributes example_update)) \<le> 4036"
    using wf_example(2) by (simp add: update_wire_def)
qed (simp_all add: example_update_def example_peer_def no_as4_attrs_def pa_GetCode_def pa_type_defs HasMPAttrs_def)

text \<open>When an update that announces and withdraws multiprotocol routes is too long only because of what
  it announces, none of the messages it is cut into carries its withdrawals: they are lost.\<close>

theorem mp_withdrawals_lost:
  assumes "GetMPAttrs (upd_PathAttributes u) = Ok (Some (BGPPathAttrMPReachNLRI b afi safi (Some h) r ns), Some un)"
    and "length (filter (\<lambda>a. pa_GetCode a = BGPPathAttrTypeMPUnreachNLRI) (upd_PathAttributes u)) = 1"
    and "upd_WithdrawnRoutes u = []"
    and "too_long (23 + attrs_len (upd_PathAttributes u))" "\<not> too_long (23 + pa_TotalLen un)"
  shows "\<exists>ms. ConstructMaxSizedUpdatePackets cap u = Ok ms \<and>
           (\<forall>m \<in> set ms. free_of BGPPathAttrTypeMPUnreachNLRI (msg_attrs m))"
proof -
  let ?s = "split_withdrawn u" and ?s1 = "split_unreach un (split_withdrawn u)"
  have s: "?s = \<lparr>sp_msgs = [], sp_wd = [], sp_pathAttrs = [], sp_pktLen = 23, sp_view = upd_PathAttributes u\<rparr>"
    using assms(3) by (simp add: split_withdrawn_def BGPUpdateMsgMinLen_def)
  obtain ub uafi usafi uns where un: "un = BGPPathAttrMPUnreachNLRI ub uafi usafi uns"
    using assms(1) by (auto simp: GetMPAttrs_def as_mp_unreach_def obind_eq_Ok split: option.splits BGPPathAttr.splits)
  have s1: "split_free_of BGPPathAttrTypeMPUnreachNLRI ?s1"
    using assms(2,5) removed_free [of BGPPathAttrTypeMPUnreachNLRI "upd_PathAttributes u"]
    by (simp add: split_unreach_def s un split_free_of_def carry_def)
  obtain s2 where s2: "split_reach (BGPPathAttrMPReachNLRI b afi safi (Some h) r ns) ?s1 = Ok s2"
    "split_free_of BGPPathAttrTypeMPUnreachNLRI s2"
    using split_reach_free [OF s1 _ refl, of b afi safi h r ns] by (auto simp: pa_type_defs)
  have "split_mp ?s = Ok s2"
    using assms(1,4) s2(1) by (simp add: split_mp_def s)
  then show ?thesis
    using split_nlri_free [OF flush_free [OF s2(2)]]
    by (simp add: ConstructMaxSizedUpdatePackets_def)
qed

text \<open>900 IPv6 routes announced, one withdrawn.\<close>

definition example_route6 :: NLRI where
  "example_route6 = PrefixNLRI \<lparr>pfx_Length = 32, pfx_Prefix = [0x20, 1, 0xd, 0xb8] @ replicate 12 0\<rparr>"

definition example_reach6 :: BGPPathAttr where
  "example_reach6 = BGPPathAttrMPReachNLRI (mk_base 0x90 14 4521 4) 2 1
     (Some (MPNextHopIP6 16 ([0x20, 1] @ replicate 13 0 @ [1]) [])) 0 (replicate 900 example_route6)"

definition example_unreach6 :: BGPPathAttr where
  "example_unreach6 = BGPPathAttrMPUnreachNLRI (mk_base 0x90 15 8 4) 2 1 [example_route6]"

lemma example_mp_built:
  "example_reach6 = ConstructIPv6MPReachNLRI (GetProtocolFamily AfiIP6 SafiUnicast)
     ([0x20, 1] @ replicate 13 0 @ [1]) [] (replicate 900 example_route6)"
  "example_unreach6 = ConstructMPUnreachNLRI AfiIP6 SafiUnicast [example_route6]"
  by (simp_all add: example_reach6_def example_unreach6_def ConstructIPv6MPReachNLRI_def ConstructMPUnreachNLRI_def
      GetAfiSafi_def GetProtocolFamily_def afi_defs NewMPNextHopIP6_def NewBGPPathAttrMPReachNLRI_def
      NewBGPPathAttrMPUnreachNLRI_def mk_base_def pa_flag_defs pa_type_defs AddNLRIList_def nlri_lens_def
      sum_list_replicate example_route6_def IPPrefix_Len_def prefix_bytes_def)

theorem mp_withdrawals_lost_witness:
  "\<exists>ms. ConstructMaxSizedUpdatePackets 4 \<lparr>upd_WithdrawnRoutesLen = 0, upd_WithdrawnRoutes = [],
       upd_TotalPathAttrLen = 0, upd_PathAttributes = [example_reach6, example_unreach6], upd_NLRI = []\<rparr> = Ok ms \<and>
     list_all (\<lambda>m. free_of BGPPathAttrTypeMPUnreachNLRI (msg_attrs m)) ms"
  unfolding list_all_iff
  by (rule mp_withdrawals_lost [where un = example_unreach6])
     (simp_all add: example_reach6_def example_unreach6_def GetMPAttrs_def getTypeFromPathAttrs_def
        as_mp_reach_def as_mp_unreach_def pa_GetCode_def mk_base_def pa_type_defs attrs_len_def pa_TotalLen_def
        base_TotalLen_def too_long_def BGPMsgMaxLen_def)

end
