(* ===== verification/BgpFsm.thy ===== *)
theory BgpFsm
  imports BgpConf BgpSplit
begin

text \<open>
  The BGP session state machine (\<open>bgp/fsm/fsm.go\<close>) and the part of its manager
  (\<open>bgp/fsm/fsm_manager.go\<close>) that the machine calls. A neighbor has one manager and one or two
  machines: the second exists while two connections to the neighbor collide. The manager knows its
  machines by pointer, so they live in a store; the machine that runs is held beside it, and is
  written back before the manager looks at all of them.

  Each handler of the machine's \<open>select\<close> loop runs to its end as one step. Its environment gives the
  results of \<open>Write\<close> on the connection, the random numbers and the clock. What leaves the machine
  (bytes, channel sends, connections opened and closed) is appended to an output list.
\<close>

section \<open>States, events, connections\<close>

datatype BGPFSMState =
    BGPFSMNone | BGPFSMIdle | BGPFSMConnect | BGPFSMActive
  | BGPFSMOpensent | BGPFSMOpenconfirm | BGPFSMEstablished

fun state_num :: "BGPFSMState \<Rightarrow> nat" where
  "state_num BGPFSMNone = 0"
| "state_num BGPFSMIdle = 1"
| "state_num BGPFSMConnect = 2"
| "state_num BGPFSMActive = 3"
| "state_num BGPFSMOpensent = 4"
| "state_num BGPFSMOpenconfirm = 5"
| "state_num BGPFSMEstablished = 6"

text \<open>\<open>NoEvent\<close> is the zero value of \<open>BGPFSMEvent\<close>, which no state handles.\<close>

datatype BGPFSMEvent =
    NoEvent
  | BGPEventManualStart | BGPEventManualStop | BGPEventAutoStart
  | BGPEventManualStartPassTcpEst | BGPEventAutoStartPassTcpEst
  | BGPEventAutoStartDampPeerOscl | BGPEventAutoStartDampPeerOsclPassTcpEst
  | BGPEventAutoStop
  | BGPEventConnRetryTimerExp | BGPEventHoldTimerExp | BGPEventKeepAliveTimerExp
  | BGPEventDelayOpenTimerExp | BGPEventIdleHoldTimerExp
  | BGPEventTcpConnValid | BGPEventTcpCrInvalid | BGPEventTcpCrAcked
  | BGPEventTcpConnConfirmed | BGPEventTcpConnFails
  | BGPEventBGPOpen | BGPEventBGPOpenDelayOpenTimer | BGPEventHeaderErr | BGPEventOpenMsgErr
  | BGPEventOpenCollisionDump | BGPEventNotifMsgVerErr | BGPEventNotifMsg
  | BGPEventKeepAliveMsg | BGPEventUpdateMsg | BGPEventUpdateMsgErr

datatype ConnDir = ConnDirOut | ConnDirIn | ConnDirInvalid

fun dir_id :: "ConnDir \<Rightarrow> u8" where
  "dir_id ConnDirOut = 0"
| "dir_id ConnDirIn = 1"
| "dir_id ConnDirInvalid = 2"

text \<open>A TCP connection is known by a number.\<close>

type_synonym conn = nat

text \<open>The \<open>interface{}\<close> that goes with an event.\<close>

datatype event_data = NoData | ConnData ConnDir conn | MsgData BGPMessage | ErrData bgp_error | ConnErrData

definition BGPIdleHoldTimeDefault :: u16 where "BGPIdleHoldTimeDefault = 5"
definition BGPRestartTimeDefault :: u32 where "BGPRestartTimeDefault = 1"
definition BGPTimersJitterDivisor :: int where "BGPTimersJitterDivisor = 4"

definition IdleHoldTimeInterval :: "u16 \<Rightarrow> u16" where
  "IdleHoldTimeInterval t =
     (case map_of [(0, 0), (5, 10), (10, 30), (60, 120), (120, 180), (180, 300), (300, 500), (500, 0)] t of
        Some v \<Rightarrow> v | None \<Rightarrow> 0)"

definition BGPCmdReasonNone :: int where "BGPCmdReasonNone = 0"
definition BGPCmdReasonMaxPrefixExceeded :: int where "BGPCmdReasonMaxPrefixExceeded = 1"

section \<open>The structs\<close>

record PeerConn =
  pc_dir :: ConnDir
  pc_conn :: conn
  pc_id :: u32

datatype fsm_output =
    Tx conn "byte list"
  | StartReading conn u32
  | CloseConn conn
  | ConnectToPeer u32 string string
  | StopConnect
  | ToServer BGPMessage
  | NewConn u8 ConnDir conn
  | TcpConnFail u8

text \<open>
  A timer is the time it was last set to and has not been stopped since; \<open>bf_passive\<close> is the field of
  the \<open>IdleState\<close> the machine is in; \<open>bf_self\<close> is the machine's own address; \<open>bf_exited\<close> says that its
  goroutine has returned.
\<close>

record BgpFSM =
  bf_self :: nat
  bf_State :: BGPFSMState
  bf_passive :: bool
  bf_id :: u8
  bf_peerType :: PeerType
  bf_peerConn :: "PeerConn option"
  bf_outTCPConn :: "(string \<times> string) option"
  bf_connId :: u32
  bf_connectRetryCounter :: int
  bf_connectRetryTime :: u32
  bf_connectRetryTimer :: "int option"
  bf_holdTime :: u32
  bf_holdTimer :: "u32 option"
  bf_keepAliveTime :: u32
  bf_keepAliveTimer :: "int option"
  bf_restartTime :: u32
  bf_restartTimer :: "u32 option"
  bf_passiveTcpEst :: bool
  bf_dampPeerOscl :: bool
  bf_idleHoldTime :: u16
  bf_idleHoldTimer :: "u16 option"
  bf_afiSafiMap :: "(u32 \<times> bool) list"
  bf_close :: bool
  bf_exited :: bool
  bf_out :: "fsm_output list"

datatype fsm_input =
    OutConn conn
  | OutConnErr u32
  | InConn conn
  | Close
  | PassiveTcpEst bool
  | PktTx nat BGPMessage
  | PktRx "BGPMessage option" "bgp_error option"
  | FsmEvent BGPFSMEvent int
  | BfdStatus bool
  | ConnectRetryExp | HoldExp | KeepAliveExp | IdleHoldExp | RestartExp

datatype mgr_output =
    PeerFSMConn string bool "conn option"
  | FsmInput nat fsm_input
  | CloseInConn conn
  | StartFSM_go nat

text \<open>
  \<open>fm_locked\<close> and \<open>fm_sending\<close> are \<open>fsmMutex\<close>: it is held for writing, or it is held for reading by
  senders that wait until the machines listed read their \<open>pktTxCh\<close>, which has no buffer. \<open>fm_fsms\<close>
  is the map \<open>fsms\<close>, in the order a \<open>range\<close> visits it.
\<close>

record FSMManager =
  fm_neighborConf :: NeighborConf
  fm_fsms :: "(u8 \<times> nat) list"
  fm_store :: "BgpFSM list"
  fm_acceptConn :: bool
  fm_activeFSM :: u8
  fm_locked :: bool
  fm_sending :: "nat list"
  fm_out :: "mgr_output list"

text \<open>
  The environment of one step: how many of its writes succeed, the two random numbers \<open>SetPeerConn\<close>
  draws, the jitter, the clock.
\<close>

record env =
  ev_writes :: nat
  ev_rand1 :: u32
  ev_rand2 :: u32
  ev_jitter :: int
  ev_now :: int

text \<open>
  A call may panic, wait for ever for a mutex whose holder waits for the caller, or wait until
  another goroutine lets the mutex go.
\<close>

datatype stuck = Deadlock | Waiting

type_synonym op = "BgpFSM \<times> FSMManager \<Rightarrow> (stuck, BgpFSM \<times> FSMManager) outcome"

fun seq :: "op list \<Rightarrow> op" where
  "seq [] st = Ok st"
| "seq (p # ps) st = obind (p st) (seq ps)"

definition loc :: "(BgpFSM \<Rightarrow> BgpFSM) \<Rightarrow> op" where
  "loc g st = Ok (g (fst st), snd st)"

definition glob :: "(FSMManager \<Rightarrow> FSMManager) \<Rightarrow> op" where
  "glob g st = Ok (fst st, g (snd st))"

abbreviation running :: "FSMManager \<Rightarrow> BaseConfig" where
  "running m \<equiv> nc_BaseConfig (nb_RunningConf (fm_neighborConf m))"

definition emit :: "fsm_output \<Rightarrow> BgpFSM \<Rightarrow> BgpFSM" where
  "emit x f = f\<lparr>bf_out := bf_out f @ [x]\<rparr>"

text \<open>
  \<open>mgr.fsmMutex.Lock()\<close>. A writer that finds the mutex held for writing is the goroutine that
  holds it. A machine that finds it held by a sender to itself waits for ever, since it does not come
  back to its \<open>select\<close>; a sender to another machine is served by that machine.
\<close>

definition with_lock :: "nat option \<Rightarrow> FSMManager \<Rightarrow> (stuck, 'a) outcome \<Rightarrow> (stuck, 'a) outcome" where
  "with_lock self m k =
     (if fm_locked m then Error Deadlock
      else if fm_sending m = [] then k
      else if list_ex (\<lambda>ptr. self = Some ptr) (fm_sending m) then Error Deadlock
      else Error Waiting)"

section \<open>Timers and counters\<close>

text \<open>\<open>rand.Int63n\<close> panics unless its argument is positive.\<close>

definition Int63n :: "int \<Rightarrow> int \<Rightarrow> ('e, int) outcome" where
  "Int63n rnd n = (if n \<le> 0 then Panic else Ok (rnd mod n))"

text \<open>\<open>int64(seconds * 1000)\<close>: the product is a \<open>uint32\<close>.\<close>

definition millis :: "u32 \<Rightarrow> int" where
  "millis t = uint (t * 1000)"

definition jittered :: "env \<Rightarrow> u32 \<Rightarrow> ('e, int) outcome" where
  "jittered e t = obind (Int63n (ev_jitter e) (millis t div BGPTimersJitterDivisor)) (\<lambda>j. Ok (millis t - j))"

definition StartConnectRetryTimer :: "env \<Rightarrow> op" where
  "StartConnectRetryTimer e = (\<lambda>(f, m).
     obind (jittered e (bf_connectRetryTime f)) (\<lambda>t. Ok (f\<lparr>bf_connectRetryTimer := Some t\<rparr>, m)))"

definition StopConnectRetryTimer :: "BgpFSM \<Rightarrow> BgpFSM" where
  "StopConnectRetryTimer f = f\<lparr>bf_connectRetryTimer := None\<rparr>"

definition SetHoldTime :: "u32 \<Rightarrow> u32 \<Rightarrow> BgpFSM \<Rightarrow> BgpFSM" where
  "SetHoldTime holdTime keepaliveTime f =
     (if 0 < holdTime \<and> holdTime < 3 then f
      else f\<lparr>bf_holdTime := holdTime, bf_keepAliveTime := keepaliveTime\<rparr>)"

definition SetRunningHoldTime :: op where
  "SetRunningHoldTime = (\<lambda>(f, m). Ok (SetHoldTime (bc_HoldTime (running m)) (bc_KeepaliveTime (running m)) f, m))"

definition StartHoldTimer :: "BgpFSM \<Rightarrow> BgpFSM" where
  "StartHoldTimer f = f\<lparr>bf_holdTimer := (if bf_holdTime f \<noteq> 0 then Some (bf_holdTime f) else None)\<rparr>"

definition StopHoldTimer :: "BgpFSM \<Rightarrow> BgpFSM" where
  "StopHoldTimer f = f\<lparr>bf_holdTimer := None\<rparr>"

definition StartKeepAliveTimer :: "env \<Rightarrow> op" where
  "StartKeepAliveTimer e = (\<lambda>(f, m).
     if bf_keepAliveTime f \<noteq> 0
     then obind (jittered e (bf_keepAliveTime f)) (\<lambda>t. Ok (f\<lparr>bf_keepAliveTimer := Some t\<rparr>, m))
     else Ok (f\<lparr>bf_keepAliveTimer := None\<rparr>, m))"

definition StopKeepAliveTimer :: "BgpFSM \<Rightarrow> BgpFSM" where
  "StopKeepAliveTimer f = f\<lparr>bf_keepAliveTimer := None\<rparr>"

definition SetConnectRetryCounter :: "int \<Rightarrow> BgpFSM \<Rightarrow> BgpFSM" where
  "SetConnectRetryCounter v f = f\<lparr>bf_connectRetryCounter := v\<rparr>"

definition IncrConnectRetryCounter :: "BgpFSM \<Rightarrow> BgpFSM" where
  "IncrConnectRetryCounter f = f\<lparr>bf_connectRetryCounter := bf_connectRetryCounter f + 1\<rparr>"

definition SetIdleHoldTime :: "u16 \<Rightarrow> BgpFSM \<Rightarrow> BgpFSM" where
  "SetIdleHoldTime s f = f\<lparr>bf_idleHoldTime := s\<rparr>"

definition StartIdleHoldTimer :: "BgpFSM \<Rightarrow> BgpFSM" where
  "StartIdleHoldTimer f =
     f\<lparr>bf_idleHoldTimer := (if 0 < bf_idleHoldTime f \<and> bf_idleHoldTime f \<le> 300
                           then Some (bf_idleHoldTime f) else None)\<rparr>"

definition StopIdleHoldTimer :: "BgpFSM \<Rightarrow> BgpFSM" where
  "StopIdleHoldTimer f = f\<lparr>bf_idleHoldTimer := None\<rparr>"

definition StartRestartTimer :: "BgpFSM \<Rightarrow> BgpFSM" where
  "StartRestartTimer f = f\<lparr>bf_restartTimer := Some (bf_restartTime f)\<rparr>"

definition StopRestartTimer :: "BgpFSM \<Rightarrow> BgpFSM" where
  "StopRestartTimer f = f\<lparr>bf_restartTimer := None\<rparr>"

definition ApplyAutomaticStart :: "BgpFSM \<Rightarrow> BgpFSM" where
  "ApplyAutomaticStart f = StartRestartTimer f"

definition SetPassiveTcpEstablishment :: "bool \<Rightarrow> BgpFSM \<Rightarrow> BgpFSM" where
  "SetPassiveTcpEstablishment flag f = f\<lparr>bf_passiveTcpEst := flag\<rparr>"

section \<open>Connections and messages\<close>

definition StopConnToPeer :: "BgpFSM \<Rightarrow> BgpFSM" where
  "StopConnToPeer f =
     (case bf_outTCPConn f of None \<Rightarrow> f | Some _ \<Rightarrow> (emit StopConnect f)\<lparr>bf_outTCPConn := None\<rparr>)"

definition ClearPeerConn :: "BgpFSM \<Rightarrow> BgpFSM" where
  "ClearPeerConn f =
     (case bf_peerConn f of None \<Rightarrow> f
      | Some p \<Rightarrow> (emit (CloseConn (pc_conn p)) (StopHoldTimer (StopKeepAliveTimer f)))
                    \<lparr>bf_connId := 0, bf_peerConn := None\<rparr>)"

text \<open>The first number drawn is only compared with the current id.\<close>

definition SetPeerConn :: "env \<Rightarrow> event_data \<Rightarrow> op" where
  "SetPeerConn e data = (\<lambda>(f, m).
     case bf_peerConn f of
       Some _ \<Rightarrow> Ok (f, m)
     | None \<Rightarrow>
         (case data of
            ConnData dir c \<Rightarrow>
              (let i = (if ev_rand1 e = bf_connId f then bf_connId f + 1 else ev_rand2 e)
               in Ok (emit (StartReading c i)
                        (f\<lparr>bf_connId := i, bf_peerConn := Some \<lparr>pc_dir = dir, pc_conn = c, pc_id = i\<rparr>\<rparr>), m))
          | _ \<Rightarrow> Panic))"

text \<open>\<open>packet, _ := msg.Encode()\<close>: on an error there are no bytes.\<close>

definition encoded :: "BGPMessage \<Rightarrow> (stuck, byte list) outcome" where
  "encoded msg = (case BGPMessage_Encode msg of Ok (bs, _) \<Rightarrow> Ok bs | Error _ \<Rightarrow> Ok [] | Panic \<Rightarrow> Panic)"

text \<open>\<open>(*fsm.peerConn.conn).Write(packet)\<close>, with the number of writes that still succeed.\<close>

definition peer_write :: "nat \<Rightarrow> byte list \<Rightarrow> BgpFSM \<Rightarrow> (stuck, BgpFSM \<times> bool) outcome" where
  "peer_write n bs f =
     (case bf_peerConn f of
        None \<Rightarrow> Panic
      | Some p \<Rightarrow> if n > 0 then Ok (emit (Tx (pc_conn p) bs) f, True) else Ok (f, False))"

definition open_message :: "BgpFSM \<Rightarrow> FSMManager \<Rightarrow> BGPMessage" where
  "open_message f m =
     NewBGPOpenMessage (bc_LocalAS (running m)) (ucast (bf_holdTime f))
       (ip_String (To4 (gc_RouterId (nb_Global (fm_neighborConf m)))))
       (ConstructOptParams (bc_LocalAS (running m)) (map fst (nb_AfiSafiMap (fm_neighborConf m)))
          (bc_AddPathsRx (running m)) (bc_AddPathsMaxTx (running m)))"

definition sendOpenMessage :: "env \<Rightarrow> op" where
  "sendOpenMessage e = (\<lambda>(f, m).
     obind (encoded (open_message f m)) (\<lambda>bs.
     obind (peer_write (ev_writes e) bs f) (\<lambda>(f, ok). Ok (f, m))))"

definition sendKeepAliveMessage :: "env \<Rightarrow> op" where
  "sendKeepAliveMessage e = (\<lambda>(f, m).
     obind (encoded NewBGPKeepAliveMessage) (\<lambda>bs.
     obind (peer_write (ev_writes e) bs f) (\<lambda>(f, ok). StartKeepAliveTimer e (f, m))))"

definition SendNotificationMessage :: "env \<Rightarrow> u8 \<Rightarrow> u8 \<Rightarrow> byte list \<Rightarrow> op" where
  "SendNotificationMessage e code subCode data = (\<lambda>(f, m).
     obind (encoded (NewBGPNotificationMessage code subCode data)) (\<lambda>bs.
     obind (peer_write (ev_writes e) bs f) (\<lambda>(f, ok).
       Ok (f, if ok
              then m\<lparr>fm_neighborConf := upd_State (\<lambda>s. s\<lparr>ns_SentNotification := ns_SentNotification s + 1\<rparr>)
                                           (fm_neighborConf m)\<rparr>
              else m))))"

text \<open>The loop of \<open>sendUpdateMessage\<close>: a message that cannot be encoded is skipped, a failed write ends it.\<close>

fun send_updates :: "env \<Rightarrow> nat \<Rightarrow> BGPMessage list \<Rightarrow> op" where
  "send_updates e n [] st = Ok st"
| "send_updates e n (u # us) st =
     (case BGPMessage_Encode u of
        Panic \<Rightarrow> Panic
      | Error _ \<Rightarrow> send_updates e n us st
      | Ok (bs, _) \<Rightarrow>
          obind (peer_write n bs (fst st)) (\<lambda>(f, ok).
            if \<not> ok then Ok (f, snd st)
            else obind (StartKeepAliveTimer e (f, snd st)) (\<lambda>(f, m).
              send_updates e (n - 1) us
                (f, m\<lparr>fm_neighborConf := upd_State (\<lambda>s. s\<lparr>ns_SentUpdate := ns_SentUpdate s + 1\<rparr>)
                                            (fm_neighborConf m)\<rparr>))))"

definition sendUpdateMessage :: "env \<Rightarrow> nat \<Rightarrow> BGPMessage \<Rightarrow> op" where
  "sendUpdateMessage e cap msg = (\<lambda>(f, m).
     case msg_Body msg of
       UpdateBody u \<Rightarrow>
         (case ConstructMaxSizedUpdatePackets cap u of
            Ok us \<Rightarrow> send_updates e (ev_writes e) us
              (f, m\<lparr>fm_neighborConf := upd_State (\<lambda>s. s\<lparr>ns_OutputQueue := ns_OutputQueue s - 1\<rparr>)
                                          (fm_neighborConf m)\<rparr>)
          | _ \<Rightarrow> Panic)
     | _ \<Rightarrow> Panic)"

text \<open>\<open>net.JoinHostPort\<close>, \<open>strings.TrimSpace\<close> (of ASCII space) and \<open>IP.IsLinkLocalUnicast\<close>.\<close>

definition JoinHostPort :: "string \<Rightarrow> string \<Rightarrow> string" where
  "JoinHostPort host port =
     (if CHR '':'' \<in> set host \<or> CHR ''%'' \<in> set host then ''['' @ host @ '']:'' @ port
      else host @ '':'' @ port)"

definition is_space :: "char \<Rightarrow> bool" where
  "is_space c \<longleftrightarrow> c = CHR '' '' \<or> (9 \<le> (of_char c :: nat) \<and> (of_char c :: nat) \<le> 13)"

definition TrimSpace :: "string \<Rightarrow> string" where
  "TrimSpace s = rev (dropWhile is_space (rev (dropWhile is_space s)))"

definition IsLinkLocalUnicast :: "ip \<Rightarrow> bool" where
  "IsLinkLocalUnicast a \<longleftrightarrow>
     (if To4 a \<noteq> [] then take 2 (To4 a) = [169, 254]
      else length a = 16 \<and> a ! 0 = 0xfe \<and> a ! 1 AND 0xc0 = 0x80)"

definition IPv4bcast :: ip where "IPv4bcast = v4InV6Prefix @ replicate 4 255"

definition InitiateConnToPeer :: op where
  "InitiateConnToPeer = (\<lambda>(f, m).
     let rc = nb_RunningConf (fm_neighborConf m); a = nc_NeighborAddress rc in
     if a = IPv4bcast then Ok (f, m)
     else
       let ip = ip_String a @ (if IsLinkLocalUnicast a \<and> nc_IfName rc \<noteq> [] then ''%'' @ nc_IfName rc else []);
           remote = JoinHostPort ip ''179'';
           src = TrimSpace (bc_UpdateSource (nc_BaseConfig rc));
           local = (if src \<noteq> [] then JoinHostPort src ''0'' else [])
       in case bf_outTCPConn f of
            Some _ \<Rightarrow> Ok (f, m)
          | None \<Rightarrow> Ok ((emit (ConnectToPeer (bf_connectRetryTime f) remote local) f)
                          \<lparr>bf_outTCPConn := Some (remote, local)\<rparr>, m))"

section \<open>What a machine asks of its manager (\<open>fsm_manager.go\<close>)\<close>

definition AcceptPeerConn :: "FSMManager \<Rightarrow> FSMManager" where
  "AcceptPeerConn m = m\<lparr>fm_acceptConn := True\<rparr>"

definition RejectPeerConn :: "FSMManager \<Rightarrow> FSMManager" where
  "RejectPeerConn m = m\<lparr>fm_acceptConn := False\<rparr>"

definition peer_ip :: "FSMManager \<Rightarrow> string" where
  "peer_ip m = ip_String (nr_NeighborAddress (nb_Neighbor (fm_neighborConf m)))"

definition mgr_emit :: "mgr_output \<Rightarrow> FSMManager \<Rightarrow> FSMManager" where
  "mgr_emit x m = m\<lparr>fm_out := fm_out m @ [x]\<rparr>"

definition fsmEstablished :: "u8 \<Rightarrow> conn \<Rightarrow> FSMManager \<Rightarrow> FSMManager" where
  "fsmEstablished i c m =
     (case map_of (fm_fsms m) i of
        Some _ \<Rightarrow> mgr_emit (PeerFSMConn (peer_ip m) True (Some c)) (m\<lparr>fm_activeFSM := i\<rparr>)
      | None \<Rightarrow> m)"

definition fsmBroken :: "u8 \<Rightarrow> FSMManager \<Rightarrow> FSMManager" where
  "fsmBroken i m =
     (if fm_activeFSM m = i
      then mgr_emit (PeerFSMConn (peer_ip m) False None) (m\<lparr>fm_activeFSM := dir_id ConnDirInvalid\<rparr>)
      else m)"

definition fsmStateChange :: "nat option \<Rightarrow> int \<Rightarrow> u8 \<Rightarrow> BGPFSMState \<Rightarrow> FSMManager \<Rightarrow> (stuck, FSMManager) outcome" where
  "fsmStateChange self now i st m =
     with_lock self m
       (if fm_activeFSM m = i \<or> fm_activeFSM m = dir_id ConnDirInvalid
        then Ok (m\<lparr>fm_neighborConf := FSMStateChange now (of_nat (state_num st)) (fm_neighborConf m)\<rparr>)
        else Ok m)"

definition fsmClose :: "u8 \<Rightarrow> FSMManager \<Rightarrow> FSMManager" where
  "fsmClose i m =
     (case map_of (fm_fsms m) i of
        Some ptr \<Rightarrow> (let m1 = fsmBroken i (mgr_emit (FsmInput ptr Close) m)
                     in m1\<lparr>fm_fsms := AList.delete i (fm_fsms m1)\<rparr>)
      | None \<Rightarrow> m)"

definition getFSMIdByDir :: "ConnDir \<Rightarrow> FSMManager \<Rightarrow> u8" where
  "getFSMIdByDir dir m =
     (case find (\<lambda>(i, ptr). case bf_peerConn (fm_store m ! ptr) of Some p \<Rightarrow> pc_dir p = dir | None \<Rightarrow> False) (fm_fsms m) of
        Some (i, _) \<Rightarrow> i | None \<Rightarrow> dir_id ConnDirInvalid)"

text \<open>
  Which connection to close when another machine has reached OpenSent: one's own when the other is
  Established, else the one opened by the speaker with the smaller identifier.
\<close>

definition collision_dir :: "u32 \<Rightarrow> u32 \<Rightarrow> ConnDir \<Rightarrow> BGPFSMState \<Rightarrow> ConnDir" where
  "collision_dir localId remoteId own other =
     (if other = BGPFSMEstablished then own
      else if localId > remoteId then ConnDirIn else ConnDirOut)"

text \<open>The \<open>range\<close> over the machines; an entry that has been deleted meanwhile is not visited.\<close>

fun resolve_collisions ::
  "u32 \<Rightarrow> u32 \<Rightarrow> u8 \<Rightarrow> ConnDir \<Rightarrow> (u8 \<times> nat) list \<Rightarrow> FSMManager \<times> ConnDir \<Rightarrow> FSMManager \<times> ConnDir" where
  "resolve_collisions l r i dir [] st = st"
| "resolve_collisions l r i dir ((j, ptr) # es) st =
     (if j \<noteq> i \<and> map_of (fm_fsms (fst st)) j = Some ptr \<and> 4 \<le> state_num (bf_State (fm_store (fst st) ! ptr))
      then let d = collision_dir l r dir (bf_State (fm_store (fst st) ! ptr))
           in resolve_collisions l r i dir es (fsmClose (getFSMIdByDir d (fst st)) (fst st), d)
      else resolve_collisions l r i dir es st)"

text \<open>The machine's own object, brought up to date in the store.\<close>

definition sync :: "BgpFSM \<Rightarrow> FSMManager \<Rightarrow> FSMManager" where
  "sync f m = m\<lparr>fm_store := (fm_store m)[bf_self f := f]\<rparr>"

definition outcome_of :: "('e, 'a) outcome \<Rightarrow> (stuck, 'a) outcome" where
  "outcome_of r = (case r of Ok a \<Rightarrow> Ok a | _ \<Rightarrow> Panic)"

text \<open>
  \<open>receivedBGPOpenMessage\<close>. The inner \<open>closeFSMId :=\<close> declares a new variable, so the outer one keeps
  \<open>ConnDirInvalid\<close> and the peer's attributes are recorded whenever the machine is still in the map.
\<close>

definition receivedBGPOpenMessage ::
  "u8 \<Rightarrow> ConnDir \<Rightarrow> BGPOpen \<Rightarrow> BgpFSM \<Rightarrow> FSMManager \<Rightarrow> (stuck, FSMManager \<times> bool) outcome" where
  "receivedBGPOpenMessage i dir openMsg f m =
     with_lock (Some (bf_self f)) m
       (let m = sync f m in
        obind (outcome_of (ConvertIPBytesToUint (To4 (gc_RouterId (nb_Global (fm_neighborConf m)))))) (\<lambda>localId.
        obind (outcome_of (ConvertIPBytesToUint (To4 (open_BGPId openMsg)))) (\<lambda>remoteId.
          let (m, closeDir) = resolve_collisions localId remoteId i dir (fm_fsms m) (m, ConnDirInvalid)
          in obind (outcome_of (GetASSize openMsg)) (\<lambda>asSize.
               let m = (case map_of (fm_fsms m) i of
                          Some ptr \<Rightarrow> m\<lparr>fm_neighborConf := SetPeerAttrs (open_BGPId openMsg) asSize
                              (bf_holdTime (fm_store m ! ptr)) (bf_keepAliveTime (fm_store m ! ptr))
                              (GetAddPathFamily openMsg) (fm_neighborConf m)\<rparr>
                        | None \<Rightarrow> m)
               in Ok (m, closeDir \<noteq> dir)))))"

section \<open>Changing state\<close>

definition bfd_down :: "FSMManager \<Rightarrow> bool" where
  "bfd_down m \<longleftrightarrow> ns_UseBfdState (nr_State (nb_Neighbor (fm_neighborConf m))) \<and> bc_BfdEnable (running m) \<and>
     ns_BfdNeighborState (nr_State (nb_Neighbor (fm_neighborConf m))) = ''down''"

text \<open>The \<open>leave\<close> and \<open>enter\<close> methods; \<open>enter_plain\<close> has those that do not change the state again.\<close>

definition leave :: "BGPFSMState \<Rightarrow> op" where
  "leave s = (case s of
     BGPFSMIdle \<Rightarrow> loc StopIdleHoldTimer
   | BGPFSMEstablished \<Rightarrow> SetRunningHoldTime
   | _ \<Rightarrow> Ok)"

definition enter_plain :: "BGPFSMState \<Rightarrow> op" where
  "enter_plain s = (case s of
     BGPFSMIdle \<Rightarrow> seq [loc StopKeepAliveTimer, loc StopHoldTimer, glob RejectPeerConn, SetRunningHoldTime,
                       loc ApplyAutomaticStart]
   | BGPFSMActive \<Rightarrow> glob AcceptPeerConn
   | BGPFSMEstablished \<Rightarrow> loc (SetIdleHoldTime BGPIdleHoldTimeDefault)
   | _ \<Rightarrow> Ok)"

definition ConnEstablished :: op where
  "ConnEstablished = (\<lambda>(f, m).
     case bf_peerConn f of None \<Rightarrow> Panic | Some p \<Rightarrow> Ok (f, fsmEstablished (bf_id f) (pc_conn p) m))"

definition ConnBroken :: op where
  "ConnBroken = (\<lambda>(f, m). Ok (f, fsmBroken (bf_id f) m))"

definition set_state :: "BGPFSMState \<Rightarrow> BgpFSM \<Rightarrow> BgpFSM" where
  "set_state s f = f\<lparr>bf_State := s, bf_passive := False\<rparr>"

definition report_change :: "env \<Rightarrow> BGPFSMState \<Rightarrow> op" where
  "report_change e old = (\<lambda>(f, m).
     obind (if old = BGPFSMEstablished \<and> bf_State f \<noteq> BGPFSMEstablished then ConnBroken (f, m)
            else if old \<noteq> BGPFSMEstablished \<and> bf_State f = BGPFSMEstablished then ConnEstablished (f, m)
            else Ok (f, m)) (\<lambda>(f, m).
     obind (fsmStateChange (Some (bf_self f)) (ev_now e) (bf_id f) (bf_State f) m) (\<lambda>m. Ok (f, m))))"

text \<open>\<open>ChangeState\<close>, given what entering a state does.\<close>

definition change_with :: "(BGPFSMState \<Rightarrow> op) \<Rightarrow> env \<Rightarrow> BGPFSMState \<Rightarrow> op" where
  "change_with enter e new = (\<lambda>(f, m).
     if bf_close f then Ok (f, m)
     else seq [leave (bf_State f), loc (set_state new), enter new, report_change e (bf_State f)] (f, m))"

text \<open>Connect hands over to Active at once when BFD says the neighbor is down.\<close>

definition enter :: "env \<Rightarrow> BGPFSMState \<Rightarrow> op" where
  "enter e s = (\<lambda>(f, m).
     if s = BGPFSMConnect
     then if bfd_down m then change_with enter_plain e BGPFSMActive (f, m)
          else seq [glob AcceptPeerConn, InitiateConnToPeer] (f, m)
     else enter_plain s (f, m))"

definition ChangeState :: "env \<Rightarrow> BGPFSMState \<Rightarrow> op" where
  "ChangeState e new = change_with (enter e) e new"

section \<open>The states\<close>

text \<open>What most error branches end with: the connections are given up and the machine is idle.\<close>

definition give_up :: "env \<Rightarrow> (BgpFSM \<Rightarrow> BgpFSM) list \<Rightarrow> op" where
  "give_up e gs = seq (map loc gs @ [ChangeState e BGPFSMIdle])"

definition IdleState_processEvent :: "env \<Rightarrow> BGPFSMEvent \<Rightarrow> event_data \<Rightarrow> op" where
  "IdleState_processEvent e ev data = (\<lambda>(f, m).
     if ev \<in> {BGPEventManualStart, BGPEventAutoStart} then
       seq [loc (SetConnectRetryCounter 0), StartConnectRetryTimer e, ChangeState e BGPFSMConnect] (f, m)
     else if ev \<in> {BGPEventManualStartPassTcpEst, BGPEventAutoStartPassTcpEst} then
       seq [loc (SetConnectRetryCounter 0), StartConnectRetryTimer e, ChangeState e BGPFSMActive] (f, m)
     else if ev \<in> {BGPEventAutoStartDampPeerOscl, BGPEventAutoStartDampPeerOsclPassTcpEst} then
       Ok ((StartIdleHoldTimer (SetIdleHoldTime (IdleHoldTimeInterval (bf_idleHoldTime f)) f))
             \<lparr>bf_passive := (ev = BGPEventAutoStartDampPeerOsclPassTcpEst)\<rparr>, m)
     else if ev = BGPEventIdleHoldTimerExp then
       seq [StartConnectRetryTimer e, ChangeState e (if bf_passive f then BGPFSMActive else BGPFSMConnect)] (f, m)
     else Ok (f, m))"

text \<open>A connection that is ready: take it, send an OPEN and wait for the peer's.\<close>

definition connected :: "env \<Rightarrow> event_data \<Rightarrow> op" where
  "connected e data = seq [loc StopConnectRetryTimer, SetPeerConn e data, sendOpenMessage e,
     SetRunningHoldTime, loc StartHoldTimer, ChangeState e BGPFSMOpensent]"

definition ConnectState_processEvent :: "env \<Rightarrow> BGPFSMEvent \<Rightarrow> event_data \<Rightarrow> op" where
  "ConnectState_processEvent e ev data =
     (if ev = BGPEventManualStop then
        give_up e [StopConnToPeer, SetConnectRetryCounter 0, StopConnectRetryTimer]
      else if ev = BGPEventConnRetryTimerExp then
        seq [loc StopConnToPeer, StartConnectRetryTimer e, InitiateConnToPeer]
      else if ev \<in> {BGPEventTcpCrAcked, BGPEventTcpConnConfirmed} then connected e data
      else if ev = BGPEventTcpConnFails then give_up e [StopConnectRetryTimer, StopConnToPeer]
      else if ev \<in> {BGPEventHeaderErr, BGPEventOpenMsgErr, BGPEventNotifMsgVerErr,
                    BGPEventAutoStop, BGPEventHoldTimerExp, BGPEventKeepAliveTimerExp,
                    BGPEventIdleHoldTimerExp, BGPEventBGPOpen, BGPEventOpenCollisionDump,
                    BGPEventNotifMsg, BGPEventKeepAliveMsg, BGPEventUpdateMsg, BGPEventUpdateMsgErr} then
        give_up e [StopConnectRetryTimer, StopConnToPeer, IncrConnectRetryCounter]
      else Ok)"

definition ActiveState_processEvent :: "env \<Rightarrow> BGPFSMEvent \<Rightarrow> event_data \<Rightarrow> op" where
  "ActiveState_processEvent e ev data =
     (if ev = BGPEventManualStop then
        give_up e [StopConnToPeer, SetConnectRetryCounter 0, StopConnectRetryTimer]
      else if ev = BGPEventConnRetryTimerExp then
        seq [StartConnectRetryTimer e, ChangeState e BGPFSMConnect]
      else if ev \<in> {BGPEventTcpCrAcked, BGPEventTcpConnConfirmed} then connected e data
      else if ev = BGPEventTcpConnFails then
        seq [StartConnectRetryTimer e, loc StopConnToPeer, loc ClearPeerConn, loc IncrConnectRetryCounter,
             ChangeState e BGPFSMIdle]
      else if ev \<in> {BGPEventHeaderErr, BGPEventOpenMsgErr, BGPEventNotifMsgVerErr,
                    BGPEventAutoStop, BGPEventHoldTimerExp, BGPEventKeepAliveTimerExp,
                    BGPEventIdleHoldTimerExp, BGPEventBGPOpen, BGPEventOpenCollisionDump,
                    BGPEventNotifMsg, BGPEventKeepAliveMsg, BGPEventUpdateMsg, BGPEventUpdateMsgErr} then
        give_up e [StopConnectRetryTimer, ClearPeerConn, StopConnToPeer, IncrConnectRetryCounter]
      else Ok)"

definition HandleAnotherConnection :: "event_data \<Rightarrow> op" where
  "HandleAnotherConnection data = (\<lambda>(f, m).
     case data of ConnData dir c \<Rightarrow> Ok (emit (NewConn (bf_id f) dir c) f, m) | _ \<Rightarrow> Panic)"

text \<open>Families both sides have: the machine's map only grows.\<close>

definition common_families :: "(u32 \<times> bool) list \<Rightarrow> BGPOpen \<Rightarrow> (u32 \<times> bool) list \<Rightarrow> (u32 \<times> bool) list" where
  "common_families configured openMsg fam =
     fold (\<lambda>pf fam. if map_of configured pf = Some True then AList.update pf True fam else fam)
       (map fst (GetProtocolFromOpenMsg openMsg)) fam"

definition ProcessOpenMessage :: "BGPMessage \<Rightarrow> BgpFSM \<times> FSMManager \<Rightarrow> (stuck, (BgpFSM \<times> FSMManager) \<times> bool) outcome" where
  "ProcessOpenMessage msg = (\<lambda>(f, m).
     case msg_Body msg of
       OpenBody body \<Rightarrow>
         (let f = (if ucast (open_HoldTime body) < bf_holdTime f
                   then SetHoldTime (ucast (open_HoldTime body)) (ucast (open_HoldTime body div 3)) f else f);
              f = f\<lparr>bf_peerType := (if open_MyAS body = gc_AS (nb_Global (fm_neighborConf m))
                                    then PeerTypeInternal else PeerTypeExternal),
                    bf_afiSafiMap := common_families (nb_AfiSafiMap (fm_neighborConf m)) body (bf_afiSafiMap f)\<rparr>
          in case bf_peerConn f of
               None \<Rightarrow> Panic
             | Some p \<Rightarrow> obind (receivedBGPOpenMessage (bf_id f) (pc_dir p) body f m) (\<lambda>(m, go). Ok ((f, m), go)))
     | _ \<Rightarrow> Panic)"

text \<open>An UPDATE is handed to the server as it is; an unknown family is only logged.\<close>

definition ProcessUpdateMessage :: "BGPMessage \<Rightarrow> op" where
  "ProcessUpdateMessage msg = (\<lambda>(f, m).
     case msg_Body msg of
       UpdateBody u \<Rightarrow> Ok (emit (ToServer msg) f,
         m\<lparr>fm_neighborConf := upd_State (\<lambda>s. s\<lparr>ns_InputQueue := ns_InputQueue s + 1\<rparr>) (fm_neighborConf m)\<rparr>)
     | _ \<Rightarrow> Panic)"

text \<open>\<open>data.(*packet.BGPMessageError)\<close>, and the notification that reports it.\<close>

definition notify_error :: "env \<Rightarrow> event_data \<Rightarrow> op" where
  "notify_error e data =
     (case data of ErrData (BGPMessageError t s d) \<Rightarrow> SendNotificationMessage e t s d | _ \<Rightarrow> (\<lambda>_. Panic))"

definition drop_conn :: "(BgpFSM \<Rightarrow> BgpFSM) list" where
  "drop_conn = [StopConnectRetryTimer, ClearPeerConn, StopConnToPeer]"

definition notify_and_drop :: "env \<Rightarrow> u8 \<Rightarrow> (BgpFSM \<Rightarrow> BgpFSM) \<Rightarrow> op" where
  "notify_and_drop e code count = seq [SendNotificationMessage e code 0 [], give_up e (drop_conn @ [count])]"

definition OpenSentState_processEvent :: "env \<Rightarrow> BGPFSMEvent \<Rightarrow> event_data \<Rightarrow> op" where
  "OpenSentState_processEvent e ev data =
     (if ev = BGPEventManualStop then notify_and_drop e BGPCease (SetConnectRetryCounter 0)
      else if ev \<in> {BGPEventAutoStop, BGPEventOpenCollisionDump} then
        notify_and_drop e BGPCease IncrConnectRetryCounter
      else if ev = BGPEventHoldTimerExp then notify_and_drop e BGPHoldTimerExpired IncrConnectRetryCounter
      else if ev \<in> {BGPEventTcpCrAcked, BGPEventTcpConnConfirmed} then HandleAnotherConnection data
      else if ev = BGPEventTcpConnFails then
        seq [loc ClearPeerConn, loc StopConnToPeer, StartConnectRetryTimer e, ChangeState e BGPFSMActive]
      else if ev = BGPEventBGPOpen then
        (\<lambda>(f, m). case data of
           MsgData msg \<Rightarrow>
             obind (ProcessOpenMessage msg (StopConnectRetryTimer f, m)) (\<lambda>(st, go).
               if go then seq [sendKeepAliveMessage e, loc StartHoldTimer, ChangeState e BGPFSMOpenconfirm] st
               else Ok st)
         | _ \<Rightarrow> Panic)
      else if ev \<in> {BGPEventHeaderErr, BGPEventOpenMsgErr} then
        seq [notify_error e data, give_up e (drop_conn @ [IncrConnectRetryCounter])]
      else if ev = BGPEventNotifMsgVerErr then give_up e drop_conn
      else if ev \<in> {BGPEventConnRetryTimerExp, BGPEventKeepAliveTimerExp, BGPEventDelayOpenTimerExp,
                    BGPEventIdleHoldTimerExp, BGPEventBGPOpenDelayOpenTimer, BGPEventNotifMsg,
                    BGPEventKeepAliveMsg, BGPEventUpdateMsg, BGPEventUpdateMsgErr} then
        notify_and_drop e BGPFSMError IncrConnectRetryCounter
      else Ok)"

definition OpenConfirmState_processEvent :: "env \<Rightarrow> BGPFSMEvent \<Rightarrow> event_data \<Rightarrow> op" where
  "OpenConfirmState_processEvent e ev data =
     (if ev = BGPEventManualStop then
        seq [SendNotificationMessage e BGPCease 0 [],
             give_up e [ClearPeerConn, StopConnToPeer, StopConnectRetryTimer, SetConnectRetryCounter 0]]
      else if ev \<in> {BGPEventAutoStop, BGPEventOpenCollisionDump} then
        notify_and_drop e BGPCease IncrConnectRetryCounter
      else if ev = BGPEventHoldTimerExp then notify_and_drop e BGPHoldTimerExpired IncrConnectRetryCounter
      else if ev = BGPEventKeepAliveTimerExp then sendKeepAliveMessage e
      else if ev \<in> {BGPEventTcpCrAcked, BGPEventTcpConnConfirmed} then HandleAnotherConnection data
      else if ev \<in> {BGPEventTcpConnFails, BGPEventNotifMsg} then
        give_up e (drop_conn @ [IncrConnectRetryCounter])
      else if ev \<in> {BGPEventHeaderErr, BGPEventOpenMsgErr} then
        seq [notify_error e data, give_up e (drop_conn @ [IncrConnectRetryCounter])]
      else if ev = BGPEventNotifMsgVerErr then give_up e drop_conn
      else if ev = BGPEventKeepAliveMsg then
        seq [loc StartHoldTimer, ChangeState e BGPFSMEstablished]
      else if ev \<in> {BGPEventConnRetryTimerExp, BGPEventDelayOpenTimerExp, BGPEventIdleHoldTimerExp,
                    BGPEventBGPOpenDelayOpenTimer, BGPEventUpdateMsg, BGPEventUpdateMsgErr} then
        notify_and_drop e BGPCease IncrConnectRetryCounter
      else Ok)"

definition EstablishedState_processEvent :: "env \<Rightarrow> BGPFSMEvent \<Rightarrow> event_data \<Rightarrow> op" where
  "EstablishedState_processEvent e ev data =
     (if ev = BGPEventManualStop then notify_and_drop e BGPCease (SetConnectRetryCounter 0)
      else if ev \<in> {BGPEventAutoStop, BGPEventOpenCollisionDump} then
        notify_and_drop e BGPCease IncrConnectRetryCounter
      else if ev = BGPEventHoldTimerExp then notify_and_drop e BGPHoldTimerExpired IncrConnectRetryCounter
      else if ev = BGPEventKeepAliveTimerExp then sendKeepAliveMessage e
      else if ev \<in> {BGPEventTcpCrAcked, BGPEventTcpConnConfirmed} then HandleAnotherConnection data
      else if ev \<in> {BGPEventTcpConnFails, BGPEventNotifMsgVerErr, BGPEventNotifMsg} then
        give_up e (drop_conn @ [IncrConnectRetryCounter])
      else if ev = BGPEventKeepAliveMsg then loc StartHoldTimer
      else if ev = BGPEventUpdateMsg then
        seq [loc StartHoldTimer, case data of MsgData msg \<Rightarrow> ProcessUpdateMessage msg | _ \<Rightarrow> (\<lambda>_. Panic)]
      else if ev = BGPEventUpdateMsgErr then
        seq [notify_error e data, give_up e (drop_conn @ [IncrConnectRetryCounter])]
      else if ev \<in> {BGPEventConnRetryTimerExp, BGPEventDelayOpenTimerExp, BGPEventIdleHoldTimerExp,
                    BGPEventOpenMsgErr, BGPEventBGPOpenDelayOpenTimer, BGPEventHeaderErr} then
        notify_and_drop e BGPFSMError IncrConnectRetryCounter
      else Ok)"

definition ProcessEvent :: "env \<Rightarrow> BGPFSMEvent \<Rightarrow> event_data \<Rightarrow> op" where
  "ProcessEvent e ev data = (\<lambda>(f, m).
     (case bf_State f of
        BGPFSMNone \<Rightarrow> Ok
      | BGPFSMIdle \<Rightarrow> IdleState_processEvent e ev data
      | BGPFSMConnect \<Rightarrow> ConnectState_processEvent e ev data
      | BGPFSMActive \<Rightarrow> ActiveState_processEvent e ev data
      | BGPFSMOpensent \<Rightarrow> OpenSentState_processEvent e ev data
      | BGPFSMOpenconfirm \<Rightarrow> OpenConfirmState_processEvent e ev data
      | BGPFSMEstablished \<Rightarrow> EstablishedState_processEvent e ev data) (f, m))"

section \<open>The loop of a machine\<close>

definition err_event :: "bgp_error \<Rightarrow> BGPFSMEvent" where
  "err_event err = (case err of
     BGPMessageError t s d \<Rightarrow>
       (if t = BGPMsgHeaderError then BGPEventHeaderErr
        else if t = BGPOpenMsgError then BGPEventOpenMsgErr
        else if t = BGPUpdateMsgError then BGPEventUpdateMsgErr else NoEvent)
   | plainError \<Rightarrow> NoEvent)"

definition msg_event :: "BGPMessage \<Rightarrow> BGPFSMEvent" where
  "msg_event msg =
     (let t = bh_Type (msg_Header msg) in
      if t = BGPMsgTypeOpen then BGPEventBGPOpen
      else if t = BGPMsgTypeUpdate then BGPEventUpdateMsg
      else if t = BGPMsgTypeNotification then BGPEventNotifMsg
      else if t = BGPMsgTypeKeepAlive then BGPEventKeepAliveMsg else NoEvent)"

definition ProcessPacket :: "env \<Rightarrow> BGPMessage option \<Rightarrow> bgp_error option \<Rightarrow> op" where
  "ProcessPacket e msg msgErr = (\<lambda>(f, m).
     case msgErr of
       Some err \<Rightarrow> ProcessEvent e (err_event err) (ErrData err) (f, m)
     | None \<Rightarrow>
         (case msg of
            None \<Rightarrow> Panic
          | Some msg \<Rightarrow>
              if bh_Type (msg_Header msg) = BGPMsgTypeNotification
              then (case msg_Body msg of
                      NotificationBody _ \<Rightarrow>
                        ProcessEvent e BGPEventNotifMsg (MsgData msg)
                          (f, m\<lparr>fm_neighborConf := upd_State (\<lambda>s. s\<lparr>ns_ReceivedNotification := ns_ReceivedNotification s + 1\<rparr>)
                                                     (fm_neighborConf m)\<rparr>)
                    | _ \<Rightarrow> Panic)
              else ProcessEvent e (msg_event msg) (MsgData msg) (f, m)))"

definition sendAutoStartEvent :: "env \<Rightarrow> op" where
  "sendAutoStartEvent e = (\<lambda>(f, m).
     ProcessEvent e
       (if bf_passiveTcpEst f
        then if bf_dampPeerOscl f then BGPEventAutoStartDampPeerOsclPassTcpEst else BGPEventAutoStartPassTcpEst
        else if bf_dampPeerOscl f then BGPEventAutoStartDampPeerOscl else BGPEventAutoStart) NoData (f, m))"

definition set_restart_time :: "int \<Rightarrow> op" where
  "set_restart_time reason = (\<lambda>(f, m).
     Ok (if reason = BGPCmdReasonMaxPrefixExceeded
         then f\<lparr>bf_restartTime := ucast (bc_MaxPrefixesRestartTimer (running m))\<rparr> else f, m))"

text \<open>One round of the \<open>select\<close> of \<open>StartFSM\<close>; a machine whose goroutine has returned reads nothing.\<close>

definition fsm_select :: "env \<Rightarrow> fsm_input \<Rightarrow> op" where
  "fsm_select e i = (\<lambda>(f, m).
     if bf_exited f then Ok (f, m) else
     (case i of
        OutConn c \<Rightarrow>
          (case bf_outTCPConn f of
             None \<Rightarrow> loc (emit (CloseConn c))
           | Some _ \<Rightarrow> seq [loc StopConnToPeer, ProcessEvent e BGPEventTcpCrAcked (ConnData ConnDirOut c)])
      | OutConnErr i \<Rightarrow>
          seq [loc StopConnToPeer,
               if i \<noteq> 0 \<and> i \<noteq> bf_connId f then Ok
               else seq [ProcessEvent e BGPEventTcpConnFails ConnErrData,
                         loc (\<lambda>f. if bf_close f then f else emit (TcpConnFail (bf_id f)) f)]]
      | InConn c \<Rightarrow> ProcessEvent e BGPEventTcpConnConfirmed (ConnData ConnDirIn c)
      | Close \<Rightarrow> seq [loc (\<lambda>f. f\<lparr>bf_close := True\<rparr>), ProcessEvent e BGPEventManualStop NoData,
                      loc (\<lambda>f. f\<lparr>bf_exited := True\<rparr>)]
      | PassiveTcpEst b \<Rightarrow> loc (SetPassiveTcpEstablishment b)
      | PktTx cap msg \<Rightarrow> if bf_State f \<noteq> BGPFSMEstablished then Ok else sendUpdateMessage e cap msg
      | PktRx msg err \<Rightarrow> ProcessPacket e msg err
      | FsmEvent ev reason \<Rightarrow>
          seq [set_restart_time reason, ProcessEvent e ev NoData,
               loc (\<lambda>f. f\<lparr>bf_restartTime := BGPRestartTimeDefault\<rparr>), ProcessEvent e BGPEventAutoStart NoData]
      | BfdStatus up \<Rightarrow>
          seq [if \<not> up \<or> state_num (bf_State f) < 4 then ProcessEvent e BGPEventAutoStop NoData else Ok,
               ProcessEvent e BGPEventAutoStart NoData]
      | ConnectRetryExp \<Rightarrow> seq [loc StopConnectRetryTimer, ProcessEvent e BGPEventConnRetryTimerExp NoData]
      | HoldExp \<Rightarrow> seq [loc StopHoldTimer, ProcessEvent e BGPEventHoldTimerExp NoData]
      | KeepAliveExp \<Rightarrow> seq [loc StopKeepAliveTimer, ProcessEvent e BGPEventKeepAliveTimerExp NoData]
      | IdleHoldExp \<Rightarrow> seq [loc StopIdleHoldTimer, ProcessEvent e BGPEventIdleHoldTimerExp NoData]
      | RestartExp \<Rightarrow> seq [loc StopRestartTimer, sendAutoStartEvent e]) (f, m))"

text \<open>What \<open>StartFSM\<close> does before its loop.\<close>

definition StartFSM_begin :: "env \<Rightarrow> op" where
  "StartFSM_begin e = (\<lambda>(f, m).
     let f = (if bf_State f = BGPFSMNone then set_state BGPFSMIdle f else f)
     in seq [enter e (bf_State f), ProcessEvent e BGPEventAutoStart NoData] (f, m))"

definition NewFSM :: "nat \<Rightarrow> u8 \<Rightarrow> NeighborConf \<Rightarrow> BgpFSM" where
  "NewFSM ptr i n =
     (let c = nc_BaseConfig (nb_RunningConf n) in
      \<lparr>bf_self = ptr, bf_State = BGPFSMNone, bf_passive = False, bf_id = i, bf_peerType = PeerTypeInternal,
       bf_peerConn = None, bf_outTCPConn = None, bf_connId = 0, bf_connectRetryCounter = 0,
       bf_connectRetryTime = bc_ConnectRetryTime c, bf_connectRetryTimer = None,
       bf_holdTime = bc_HoldTime c, bf_holdTimer = None,
       bf_keepAliveTime = bc_KeepaliveTime c, bf_keepAliveTimer = None,
       bf_restartTime = BGPRestartTimeDefault, bf_restartTimer = None,
       bf_passiveTcpEst = False, bf_dampPeerOscl = False,
       bf_idleHoldTime = BGPIdleHoldTimeDefault, bf_idleHoldTimer = None,
       bf_afiSafiMap = [], bf_close = False, bf_exited = False, bf_out = []\<rparr>)"

text \<open>\<open>fsm.Init(state)\<close>.\<close>

definition Init :: "BGPFSMState \<Rightarrow> BgpFSM \<Rightarrow> BgpFSM" where
  "Init s f = set_state s f"

end
