(* ===== verification/BgpFsmMgr.thy ===== *)
theory BgpFsmMgr
  imports BgpFsm
begin

text \<open>
  The manager of a neighbor's state machines (\<open>bgp/fsm/fsm_manager.go\<close>) and the system it forms with
  them. What the manager sends to a machine is appended to its output list; a step of the system
  either runs one round of a machine's loop on some input or one round of the manager's loop.
\<close>

section \<open>The manager's loop\<close>

definition NewFSMManager :: "NeighborConf \<Rightarrow> FSMManager" where
  "NewFSMManager n =
     \<lparr>fm_neighborConf = n, fm_fsms = [], fm_store = [], fm_acceptConn = False,
      fm_activeFSM = dir_id ConnDirInvalid, fm_locked = False, fm_sending = [], fm_out = []\<rparr>"

definition add_fsm :: "u8 \<Rightarrow> BGPFSMState \<Rightarrow> FSMManager \<Rightarrow> FSMManager" where
  "add_fsm i s m =
     (let ptr = length (fm_store m)
      in m\<lparr>fm_store := fm_store m @ [Init s (NewFSM ptr i (fm_neighborConf m))],
           fm_fsms := AList.update i ptr (fm_fsms m)\<rparr>)"

text \<open>What \<open>FSMManager.Init\<close> does before its loop.\<close>

definition mgr_Init :: "FSMManager \<Rightarrow> FSMManager" where
  "mgr_Init m =
     (let ptr = length (fm_store m)
      in mgr_emit (FsmInput ptr (PassiveTcpEst True))
           (mgr_emit (StartFSM_go ptr) (add_fsm (dir_id ConnDirOut) BGPFSMIdle m)))"

definition has_incoming :: "FSMManager \<Rightarrow> bool" where
  "has_incoming m =
     list_ex (\<lambda>(i, ptr). case bf_peerConn (fm_store m ! ptr) of Some p \<Rightarrow> pc_dir p = ConnDirIn | None \<Rightarrow> False) (fm_fsms m)"

definition accept_conn :: "conn \<Rightarrow> FSMManager \<Rightarrow> FSMManager" where
  "accept_conn c m =
     (if \<not> fm_acceptConn m \<or> has_incoming m then mgr_emit (CloseInConn c) m
      else case fm_fsms m of [] \<Rightarrow> m | (i, ptr) # _ \<Rightarrow> mgr_emit (FsmInput ptr (InConn c)) m)"

definition fsmTcpConnFailed :: "u8 \<Rightarrow> FSMManager \<Rightarrow> (stuck, FSMManager) outcome" where
  "fsmTcpConnFailed i m =
     with_lock None m (Ok (if length (fm_fsms m) \<noteq> 1 \<and> fm_activeFSM m \<noteq> i then fsmClose i m else m))"

definition getNewId :: "u8 \<Rightarrow> u8" where
  "getNewId i = (i + 1) mod 2"

text \<open>The new machine, if there is none with that id yet, and the channel its connection goes to.\<close>

definition createFSMForNewConnection ::
  "u8 \<Rightarrow> ConnDir \<Rightarrow> FSMManager \<Rightarrow> (stuck, FSMManager \<times> (nat \<times> (conn \<Rightarrow> fsm_input)) option) outcome" where
  "createFSMForNewConnection i dir m =
     with_lock None m
       (case map_of (fm_fsms m) i of
        Some _ \<Rightarrow> Ok (m, None)
      | None \<Rightarrow>
          (let out = (dir = ConnDirOut)
           in Ok (add_fsm i (if out then BGPFSMConnect else BGPFSMActive) m,
                  Some (length (fm_store m), if out then OutConn else InConn))))"

definition handleAnotherConnection :: "u8 \<Rightarrow> ConnDir \<Rightarrow> conn \<Rightarrow> FSMManager \<Rightarrow> (stuck, FSMManager) outcome" where
  "handleAnotherConnection i dir c m =
     obind (createFSMForNewConnection i dir m) (\<lambda>(m, r).
       Ok (case r of None \<Rightarrow> m
           | Some (ptr, chan) \<Rightarrow> mgr_emit (FsmInput ptr (chan c))
               (mgr_emit (FsmInput ptr (PassiveTcpEst True)) (mgr_emit (StartFSM_go ptr) m))))"

text \<open>Sending the same input to every machine.\<close>

definition send_all :: "fsm_input \<Rightarrow> FSMManager \<Rightarrow> FSMManager" where
  "send_all x m = fold (\<lambda>(i, ptr). mgr_emit (FsmInput ptr x)) (fm_fsms m) m"

definition handleBfdStatusChange :: "bool \<Rightarrow> FSMManager \<Rightarrow> (stuck, FSMManager) outcome" where
  "handleBfdStatusChange status m =
     with_lock None m (Ok (send_all (BfdStatus status) m))"

definition StopFSM :: "FSMManager \<Rightarrow> (stuck, FSMManager) outcome" where
  "StopFSM m =
     with_lock None m
       (Ok (fold (\<lambda>(i, ptr) m. fsmBroken i (mgr_emit (FsmInput ptr (FsmEvent BGPEventTcpConnFails BGPCmdReasonNone)) m))
                 (fm_fsms m) m))"

text \<open>\<open>Cleanup\<close> holds the mutex from its first line to its end.\<close>

fun cleanup_loop :: "int \<Rightarrow> (u8 \<times> nat) list \<Rightarrow> FSMManager \<Rightarrow> (stuck, FSMManager) outcome" where
  "cleanup_loop now [] m = Ok m"
| "cleanup_loop now ((i, ptr) # es) m =
     obind (fsmStateChange None now i BGPFSMIdle (fsmBroken i (mgr_emit (FsmInput ptr Close) m))) (\<lambda>m.
       cleanup_loop now es (m\<lparr>fm_fsms := AList.delete i (fm_fsms m)\<rparr>))"

definition Cleanup :: "int \<Rightarrow> FSMManager \<Rightarrow> (stuck, FSMManager) outcome" where
  "Cleanup now m =
     with_lock None m
       (obind (cleanup_loop now (fm_fsms m) (m\<lparr>fm_locked := True\<rparr>)) (\<lambda>m. Ok (m\<lparr>fm_locked := False\<rparr>)))"

text \<open>
  The sender keeps the mutex for reading until the machine reads its \<open>pktTxCh\<close>; \<open>update_taken\<close> is that
  moment, from which on the machine handles the input \<open>PktTx\<close>.
\<close>

definition SendUpdateMsg :: "nat \<Rightarrow> BGPMessage \<Rightarrow> FSMManager \<Rightarrow> (stuck, FSMManager) outcome" where
  "SendUpdateMsg cap msg m =
     (if fm_locked m then Error Deadlock
      else if fm_activeFSM m = dir_id ConnDirInvalid then Ok m
      else case map_of (fm_fsms m) (fm_activeFSM m) of
          None \<Rightarrow> Panic
        | Some ptr \<Rightarrow> Ok (mgr_emit (FsmInput ptr (PktTx cap msg)) (m\<lparr>fm_sending := fm_sending m @ [ptr]\<rparr>)))"

definition update_taken :: "nat \<Rightarrow> FSMManager \<Rightarrow> FSMManager" where
  "update_taken ptr m = m\<lparr>fm_sending := remove1 ptr (fm_sending m)\<rparr>"

definition fsm_command :: "BGPFSMEvent \<Rightarrow> int \<Rightarrow> FSMManager \<Rightarrow> FSMManager" where
  "fsm_command ev reason m =
     (if ev \<in> {BGPEventManualStart, BGPEventManualStop, BGPEventAutoStop, BGPEventManualStartPassTcpEst}
      then send_all (FsmEvent ev reason) m else m)"

datatype mgr_input =
    Accept conn
  | TcpConnFailed u8
  | AnotherConn u8 ConnDir conn
  | StopFSMs
  | CloseMgr
  | Command BGPFSMEvent int
  | MgrBfdStatus bool
  | SendUpdate nat BGPMessage

definition mgr_select :: "int \<Rightarrow> mgr_input \<Rightarrow> FSMManager \<Rightarrow> (stuck, FSMManager) outcome" where
  "mgr_select now i m =
     (case i of
        Accept c \<Rightarrow> Ok (accept_conn c m)
      | TcpConnFailed i \<Rightarrow> fsmTcpConnFailed i m
      | AnotherConn i dir c \<Rightarrow> handleAnotherConnection (getNewId i) dir c m
      | StopFSMs \<Rightarrow> StopFSM m
      | CloseMgr \<Rightarrow> Cleanup now m
      | Command ev reason \<Rightarrow> Ok (fsm_command ev reason m)
      | MgrBfdStatus b \<Rightarrow> handleBfdStatusChange b m
      | SendUpdate cap msg \<Rightarrow> SendUpdateMsg cap msg m)"

section \<open>The system\<close>

text \<open>A machine runs on the object its pointer names, and is written back at the end.\<close>

definition run_fsm :: "nat \<Rightarrow> op \<Rightarrow> FSMManager \<Rightarrow> (stuck, FSMManager) outcome" where
  "run_fsm ptr p m = obind (p (fm_store m ! ptr, m)) (\<lambda>(f, m). Ok (sync f m))"

end
