(* ===== verification/BgpFsmLive.thy ===== *)
theory BgpFsmLive
  imports BgpFsmMgr BgpSplitProps
begin

text \<open>
  The invariant of a session state machine: it holds a connection exactly in the states that need
  one, and in every state a timer is pending that will move it on; and it never panics. The proofs
  compute weakest preconditions of the operations a handler runs in sequence.
\<close>

section \<open>Weakest preconditions\<close>

definition wp :: "op \<Rightarrow> (BgpFSM \<times> FSMManager \<Rightarrow> bool) \<Rightarrow> BgpFSM \<times> FSMManager \<Rightarrow> bool" where
  "wp p Q st \<longleftrightarrow> (\<exists>st'. p st = Ok st' \<and> Q st')"

declare seq.simps [simp del]

named_theorems wp_simps \<open>weakest preconditions of the machine's operations\<close>

lemma wp_ok [wp_simps]: "wp Ok Q st \<longleftrightarrow> Q st"
  by (simp add: wp_def)

lemma wp_seq_nil [wp_simps]: "wp (seq []) Q = Q"
  by (rule ext) (simp add: wp_def seq.simps)

lemma wp_seq_cons [wp_simps]: "wp (seq (p # ps)) Q st \<longleftrightarrow> wp p (wp (seq ps) Q) st"
  by (auto simp: wp_def obind_eq_Ok seq.simps)

lemma wp_loc [wp_simps]: "wp (loc g) Q (f, m) \<longleftrightarrow> Q (g f, m)"
  by (simp add: wp_def loc_def)

lemma wp_glob [wp_simps]: "wp (glob g) Q (f, m) \<longleftrightarrow> Q (f, g m)"
  by (simp add: wp_def glob_def)

lemma wp_panic [wp_simps]: "wp (\<lambda>_. Panic) Q st \<longleftrightarrow> False"
  by (simp add: wp_def)

lemma wp_if [wp_simps]: "wp (if b then p else q) Q st \<longleftrightarrow> (if b then wp p Q st else wp q Q st)"
  by simp

lemma wp_mono: "wp p Q st \<Longrightarrow> (\<And>st'. Q st' \<Longrightarrow> R st') \<Longrightarrow> wp p R st"
  by (auto simp: wp_def)

lemma wp_seq_append: "wp (seq (ps @ qs)) Q st \<longleftrightarrow> wp (seq ps) (wp (seq qs) Q) st"
proof (induction ps arbitrary: st)
  case (Cons p ps)
  have "wp (seq (ps @ qs)) Q = wp (seq ps) (wp (seq qs) Q)" using Cons by blast
  then show ?case unfolding append_Cons wp_seq_cons by simp
qed (simp add: wp_seq_nil)

text \<open>A run of updates of the machine alone.\<close>

lemma wp_locs: "wp (seq (map loc gs)) Q (f, m) \<longleftrightarrow> Q (fold (\<lambda>g. g) gs f, m)"
  by (induction gs arbitrary: f) (simp_all add: wp_simps)

lemma wp_give_up [wp_simps]:
  "wp (give_up e gs) Q (f, m) \<longleftrightarrow> wp (ChangeState e BGPFSMIdle) Q (fold (\<lambda>g. g) gs f, m)"
  unfolding give_up_def wp_seq_append wp_locs wp_seq_cons wp_seq_nil ..

lemma wpD: "wp p Q st \<Longrightarrow> p st = Ok st' \<Longrightarrow> Q st'"
  by (auto simp: wp_def)

section \<open>What the configuration has to satisfy\<close>

text \<open>A timer value whose jitter can be drawn.\<close>

definition timer_fits :: "u32 \<Rightarrow> bool" where
  "timer_fits t \<longleftrightarrow> 0 < millis t div 4"

lemma timer_fits_small: "0 < t \<Longrightarrow> t < 4294967 \<Longrightarrow> timer_fits t"
proof -
  assume t: "0 < t" "t < 4294967"
  then have "0 < uint t" "uint t < 4294967" by (simp_all add: word_less_def)
  then have "uint (t * 1000) = uint t * 1000"
    by (simp add: uint_word_ariths)
  then show ?thesis using t by (simp add: timer_fits_def millis_def word_less_def)
qed

definition conf_ok :: "NeighborConf \<Rightarrow> bool" where
  "conf_ok n \<longleftrightarrow>
     sane_timers (nb_RunningConf n) \<and>
     timer_fits (bc_KeepaliveTime (nc_BaseConfig (nb_RunningConf n))) \<and>
     timer_fits (bc_ConnectRetryTime (nc_BaseConfig (nb_RunningConf n))) \<and>
     length (To4 (gc_RouterId (nb_Global n))) = 4 \<and>
     (\<forall>pf \<in> set (map fst (nb_AfiSafiMap n)). pf < 65536) \<and> length (nb_AfiSafiMap n) \<le> 23"

definition mgr_ok :: "FSMManager \<Rightarrow> bool" where
  "mgr_ok m \<longleftrightarrow> \<not> fm_locked m \<and> fm_sending m = [] \<and> conf_ok (fm_neighborConf m)"

text \<open>Updates of the neighbor's state do not touch its configuration.\<close>

lemma conf_ok_state [simp]:
  "conf_ok (n\<lparr>nb_Neighbor := r\<rparr>) = conf_ok n"
  "conf_ok (n\<lparr>nb_BGPId := i, nb_ASSize := s, nb_Neighbor := r\<rparr>) = conf_ok n"
  by (simp_all add: conf_ok_def)

lemma mgr_ok_simps [simp]:
  "mgr_ok (m\<lparr>fm_acceptConn := a\<rparr>) = mgr_ok m"
  "mgr_ok (m\<lparr>fm_out := os\<rparr>) = mgr_ok m"
  "mgr_ok (m\<lparr>fm_activeFSM := i\<rparr>) = mgr_ok m"
  "mgr_ok (m\<lparr>fm_fsms := fs\<rparr>) = mgr_ok m"
  "mgr_ok (m\<lparr>fm_store := st\<rparr>) = mgr_ok m"
  by (simp_all add: mgr_ok_def)

lemma mgr_ok_conf [simp]:
  "mgr_ok (m\<lparr>fm_neighborConf := (fm_neighborConf m)\<lparr>nb_Neighbor := r\<rparr>\<rparr>) = mgr_ok m"
  by (simp add: mgr_ok_def)

lemma mgr_ok_ops [simp]:
  "mgr_ok (AcceptPeerConn m) = mgr_ok m" "mgr_ok (RejectPeerConn m) = mgr_ok m"
  "mgr_ok (mgr_emit x m) = mgr_ok m" "mgr_ok (fsmBroken i m) = mgr_ok m"
  "mgr_ok (fsmEstablished i c m) = mgr_ok m" "mgr_ok (sync f m) = mgr_ok m"
  "mgr_ok (fsmClose i m) = mgr_ok m"
  by (simp_all add: AcceptPeerConn_def RejectPeerConn_def mgr_emit_def fsmBroken_def fsmEstablished_def
      sync_def fsmClose_def Let_def split: option.splits)

section \<open>The operations that can fail\<close>

definition drawn :: "env \<Rightarrow> u32 \<Rightarrow> int" where
  "drawn e t = millis t - ev_jitter e mod (millis t div 4)"

lemma jittered_Ok: "timer_fits t \<Longrightarrow> jittered e t = Ok (drawn e t)"
  by (simp add: jittered_def Int63n_def timer_fits_def drawn_def BGPTimersJitterDivisor_def)

lemma wp_StartConnectRetryTimer [wp_simps]:
  "timer_fits (bf_connectRetryTime f) \<Longrightarrow>
   wp (StartConnectRetryTimer e) Q (f, m) \<longleftrightarrow>
   Q (f\<lparr>bf_connectRetryTimer := Some (drawn e (bf_connectRetryTime f))\<rparr>, m)"
  by (simp add: StartConnectRetryTimer_def wp_def jittered_Ok)

definition keep_fits :: "u32 \<Rightarrow> bool" where
  "keep_fits t \<longleftrightarrow> t = 0 \<or> timer_fits t"

lemma keep_fits_0 [simp]: "keep_fits 0"
  by (simp add: keep_fits_def)

lemma wp_StartKeepAliveTimer [wp_simps]:
  "keep_fits (bf_keepAliveTime f) \<Longrightarrow>
   wp (StartKeepAliveTimer e) Q (f, m) \<longleftrightarrow>
   Q (f\<lparr>bf_keepAliveTimer := if bf_keepAliveTime f \<noteq> 0 then Some (drawn e (bf_keepAliveTime f)) else None\<rparr>, m)"
  by (auto simp: StartKeepAliveTimer_def wp_def jittered_Ok keep_fits_def)

lemma wp_SetRunningHoldTime [wp_simps]:
  "mgr_ok m \<Longrightarrow> wp SetRunningHoldTime Q (f, m) \<longleftrightarrow>
     Q (f\<lparr>bf_holdTime := bc_HoldTime (running m), bf_keepAliveTime := bc_KeepaliveTime (running m)\<rparr>, m)"
proof -
  assume "mgr_ok m"
  then have "3 \<le> bc_HoldTime (running m)"
    by (simp add: mgr_ok_def conf_ok_def sane_timers_def Let_def)
  then have "\<not> bc_HoldTime (running m) < 3" by simp
  then show ?thesis by (simp add: SetRunningHoldTime_def SetHoldTime_def wp_def)
qed

lemma mgr_ok_running:
  assumes "mgr_ok m"
  shows "keep_fits (bc_KeepaliveTime (running m))" "bc_HoldTime (running m) \<noteq> 0"
proof -
  have "3 \<le> bc_HoldTime (running m)" "timer_fits (bc_KeepaliveTime (running m))"
    using assms by (simp_all add: mgr_ok_def conf_ok_def sane_timers_def Let_def)
  then show "keep_fits (bc_KeepaliveTime (running m))" "bc_HoldTime (running m) \<noteq> 0"
    by (auto simp: keep_fits_def)
qed

text \<open>The bytes a message is sent as: none when it cannot be encoded.\<close>

definition bytes_of :: "BGPMessage \<Rightarrow> byte list" where
  "bytes_of msg = (case BGPMessage_Encode msg of Ok (bs, _) \<Rightarrow> bs | _ \<Rightarrow> [])"

definition encodable :: "BGPMessage \<Rightarrow> bool" where
  "encodable msg \<longleftrightarrow> BGPMessage_Encode msg \<noteq> Panic"

lemma encoded_Ok: "encodable msg \<Longrightarrow> encoded msg = Ok (bytes_of msg)"
  by (auto simp: encodable_def encoded_def bytes_of_def split: outcome.splits)

definition sent :: "nat \<Rightarrow> byte list \<Rightarrow> BgpFSM \<Rightarrow> BgpFSM" where
  "sent n bs f = f\<lparr>bf_out := bf_out f @ (if n > 0 then [Tx (pc_conn (the (bf_peerConn f))) bs] else [])\<rparr>"

lemma peer_write_Ok: "bf_peerConn f \<noteq> None \<Longrightarrow> peer_write n bs f = Ok (sent n bs f, n > 0)"
  by (auto simp: peer_write_def sent_def emit_def)

lemma encodable_plain [simp]: "encodable NewBGPKeepAliveMessage" "encodable (NewBGPNotificationMessage c s d)"
  by (simp_all add: encodable_def NewBGPKeepAliveMessage_def NewBGPNotificationMessage_def BGPMessage_Encode_def Let_def)

lemma wp_sendKeepAliveMessage [wp_simps]:
  "bf_peerConn f \<noteq> None \<Longrightarrow> wp (sendKeepAliveMessage e) Q (f, m) \<longleftrightarrow>
   wp (StartKeepAliveTimer e) Q (sent (ev_writes e) (bytes_of NewBGPKeepAliveMessage) f, m)"
  by (simp add: sendKeepAliveMessage_def wp_def encoded_Ok peer_write_Ok del: not_None_eq)

text \<open>The count of notifications the manager keeps.\<close>

definition notified :: "nat \<Rightarrow> FSMManager \<Rightarrow> FSMManager" where
  "notified n m = (if n > 0
     then m\<lparr>fm_neighborConf := upd_State (\<lambda>s. s\<lparr>ns_SentNotification := ns_SentNotification s + 1\<rparr>) (fm_neighborConf m)\<rparr>
     else m)"

lemma wp_SendNotificationMessage [wp_simps]:
  "bf_peerConn f \<noteq> None \<Longrightarrow> wp (SendNotificationMessage e c s d) Q (f, m) \<longleftrightarrow>
   Q (sent (ev_writes e) (bytes_of (NewBGPNotificationMessage c s d)) f, notified (ev_writes e) m)"
  by (simp add: SendNotificationMessage_def wp_def encoded_Ok peer_write_Ok notified_def del: not_None_eq)

lemma mgr_ok_upd_State [simp]:
  "mgr_ok (m\<lparr>fm_neighborConf := upd_State h (fm_neighborConf m)\<rparr>) = mgr_ok m"
  by (simp add: mgr_ok_def conf_ok_def)

lemma mgr_ok_notified [simp]: "mgr_ok (notified n m) = mgr_ok m"
  by (simp add: notified_def)

definition told :: "int \<Rightarrow> u8 \<Rightarrow> BGPFSMState \<Rightarrow> FSMManager \<Rightarrow> FSMManager" where
  "told now i st m =
     (if fm_activeFSM m = i \<or> fm_activeFSM m = dir_id ConnDirInvalid
      then m\<lparr>fm_neighborConf := FSMStateChange now (of_nat (state_num st)) (fm_neighborConf m)\<rparr> else m)"

lemma with_lock_free [simp]: "mgr_ok m \<Longrightarrow> with_lock self m k = k"
  by (simp add: with_lock_def mgr_ok_def)

lemma fsmStateChange_Ok: "mgr_ok m \<Longrightarrow> fsmStateChange self now i st m = Ok (told now i st m)"
  by (simp add: fsmStateChange_def told_def)

lemma mgr_ok_told [simp]: "mgr_ok (told now i st m) = mgr_ok m"
  by (simp add: told_def FSMStateChange_def mgr_ok_def conf_ok_def Let_def)

lemma wp_report_change [wp_simps]:
  "mgr_ok m \<Longrightarrow> (bf_State f = BGPFSMEstablished \<longrightarrow> bf_peerConn f \<noteq> None) \<Longrightarrow>
   wp (report_change e old) Q (f, m) \<longleftrightarrow>
   Q (f, told (ev_now e) (bf_id f) (bf_State f)
          (if old = BGPFSMEstablished \<and> bf_State f \<noteq> BGPFSMEstablished then fsmBroken (bf_id f) m
           else if old \<noteq> BGPFSMEstablished \<and> bf_State f = BGPFSMEstablished
           then fsmEstablished (bf_id f) (pc_conn (the (bf_peerConn f))) m
           else m))"
  by (auto simp: wp_def report_change_def ConnBroken_def ConnEstablished_def fsmStateChange_Ok)

section \<open>The invariant\<close>

definition live :: "BgpFSM \<Rightarrow> bool" where
  "live f \<longleftrightarrow>
     \<not> bf_exited f \<and> \<not> bf_dampPeerOscl f \<and> bf_State f \<noteq> BGPFSMNone \<and>
     (bf_peerConn f \<noteq> None \<longleftrightarrow> 4 \<le> state_num (bf_State f)) \<and>
     (bf_State f = BGPFSMIdle \<longrightarrow> bf_restartTimer f \<noteq> None \<and> bf_outTCPConn f = None) \<and>
     (bf_State f = BGPFSMConnect \<or> bf_State f = BGPFSMActive \<longrightarrow> bf_connectRetryTimer f \<noteq> None) \<and>
     (4 \<le> state_num (bf_State f) \<longrightarrow> bf_holdTime f \<noteq> 0 \<longrightarrow> bf_holdTimer f \<noteq> None) \<and>
     (5 \<le> state_num (bf_State f) \<longrightarrow> bf_keepAliveTime f \<noteq> 0 \<longrightarrow> bf_keepAliveTimer f \<noteq> None) \<and>
     timer_fits (bf_connectRetryTime f) \<and> keep_fits (bf_keepAliveTime f)"

text \<open>After a handler: unless the machine is closing it is live again.\<close>

definition post :: "bool \<Rightarrow> BgpFSM \<times> FSMManager \<Rightarrow> bool" where
  "post c = (\<lambda>(f, m). bf_close f = c \<and> (c \<or> live f) \<and> mgr_ok m)"

lemma wp_ChangeState_closed [wp_simps]: "bf_close f \<Longrightarrow> wp (ChangeState e s) Q (f, m) \<longleftrightarrow> Q (f, m)"
  by (simp add: ChangeState_def change_with_def wp_def)

lemma wp_ChangeState_open:
  "\<not> bf_close f \<Longrightarrow> wp (ChangeState e s) Q (f, m) \<longleftrightarrow>
   wp (leave (bf_State f))
     (\<lambda>(f1, m1). wp (enter e s) (wp (report_change e (bf_State f)) Q) (set_state s f1, m1)) (f, m)"
  by (simp add: ChangeState_def change_with_def wp_def loc_def obind_eq_Ok seq.simps split_beta' cong: conj_cong) (auto simp: obind_eq_Ok)

lemma wp_enter [wp_simps]:
  "wp (enter e s) Q (f, m) \<longleftrightarrow>
     (if s = BGPFSMConnect
      then if bfd_down m then wp (change_with enter_plain e BGPFSMActive) Q (f, m)
           else wp (seq [glob AcceptPeerConn, InitiateConnToPeer]) Q (f, m)
      else wp (enter_plain s) Q (f, m))"
  by (simp add: wp_def enter_def)

text \<open>Where each change of state leads.\<close>

lemmas machine_ops = StopConnectRetryTimer_def StartHoldTimer_def StopHoldTimer_def StopKeepAliveTimer_def
  SetConnectRetryCounter_def IncrConnectRetryCounter_def SetIdleHoldTime_def StopIdleHoldTimer_def
  StartRestartTimer_def StopRestartTimer_def ApplyAutomaticStart_def set_state_def sent_def emit_def

lemmas state_ops = leave_def enter_plain_def

lemma wp_to_idle [wp_simps]:
  assumes "mgr_ok m" "bf_State f \<noteq> BGPFSMNone"
    and "bf_peerConn f = None" "bf_outTCPConn f = None" "timer_fits (bf_connectRetryTime f)" "\<not> bf_exited f" "\<not> bf_dampPeerOscl f"
  shows "wp (ChangeState e BGPFSMIdle) (post (bf_close f)) (f, m)"
proof (cases "bf_close f")
  case False
  then show ?thesis using assms
    by (cases "bf_State f")
       (simp_all add: wp_simps wp_ChangeState_open state_ops machine_ops post_def live_def mgr_ok_running)
qed (use assms in \<open>simp add: wp_simps post_def\<close>)

lemma wp_change_with_plain:
  "wp (change_with enter_plain e s) Q (f, m) \<longleftrightarrow>
   (if bf_close f then Q (f, m) else wp (leave (bf_State f))
     (\<lambda>(f1, m1). wp (enter_plain s) (wp (report_change e (bf_State f)) Q) (set_state s f1, m1)) (f, m))"
  by (simp add: change_with_def wp_def loc_def obind_eq_Ok seq.simps split_beta' cong: conj_cong) (auto simp: obind_eq_Ok)

lemma wp_InitiateConnToPeer:
  assumes "\<And>x. Q (f\<lparr>bf_outTCPConn := Some x\<rparr>, m)" "Q (f, m)"
    and "\<And>x e. Q (f\<lparr>bf_out := e, bf_outTCPConn := Some x\<rparr>, m)"
  shows "wp InitiateConnToPeer Q (f, m)"
  using assms by (simp add: InitiateConnToPeer_def wp_def Let_def emit_def split: option.splits)

lemma wp_to_active [wp_simps]:
  assumes "mgr_ok m" "bf_State f \<noteq> BGPFSMNone" "bf_State f \<noteq> BGPFSMEstablished"
    and "bf_peerConn f = None" "timer_fits (bf_connectRetryTime f)" "\<not> bf_exited f" "\<not> bf_dampPeerOscl f"
    and "keep_fits (bf_keepAliveTime f)" "bf_connectRetryTimer f \<noteq> None"
  shows "wp (ChangeState e BGPFSMActive) (post (bf_close f)) (f, m)"
proof (cases "bf_close f")
  case False
  then show ?thesis using assms
    by (cases "bf_State f")
       (simp_all add: wp_simps wp_ChangeState_open state_ops machine_ops post_def live_def)
qed (use assms in \<open>simp add: wp_simps post_def\<close>)

lemma wp_to_connect [wp_simps]:
  assumes "mgr_ok m" "bf_State f = BGPFSMIdle \<or> bf_State f = BGPFSMActive"
    and "bf_peerConn f = None" "timer_fits (bf_connectRetryTime f)" "\<not> bf_exited f" "\<not> bf_dampPeerOscl f"
    and "keep_fits (bf_keepAliveTime f)" "bf_connectRetryTimer f \<noteq> None"
  shows "wp (ChangeState e BGPFSMConnect) (post (bf_close f)) (f, m)"
proof (cases "bf_close f")
  case False
  show ?thesis
  proof (cases "bfd_down m")
    case True
    then show ?thesis using assms False
      by (auto simp: wp_simps wp_ChangeState_open wp_change_with_plain state_ops machine_ops post_def live_def)
  next
    case no_bfd: False
    then show ?thesis using assms False
      by (auto simp: wp_simps wp_ChangeState_open state_ops machine_ops post_def live_def intro!: wp_InitiateConnToPeer)
  qed
qed (use assms in \<open>simp add: wp_simps post_def\<close>)

lemma wp_to_open [wp_simps]:
  assumes "mgr_ok m" "s \<in> {BGPFSMOpensent, BGPFSMOpenconfirm, BGPFSMEstablished}"
    and "bf_State f \<notin> {BGPFSMNone, BGPFSMEstablished}"
    and "bf_peerConn f \<noteq> None" "timer_fits (bf_connectRetryTime f)" "\<not> bf_exited f" "\<not> bf_dampPeerOscl f" "keep_fits (bf_keepAliveTime f)"
    and "bf_holdTime f \<noteq> 0 \<longrightarrow> bf_holdTimer f \<noteq> None"
    and "s \<noteq> BGPFSMOpensent \<longrightarrow> bf_keepAliveTime f \<noteq> 0 \<longrightarrow> bf_keepAliveTimer f \<noteq> None"
  shows "wp (ChangeState e s) (post (bf_close f)) (f, m)"
proof (cases "bf_close f")
  case False
  then show ?thesis using assms
    by (cases "bf_State f")
       (auto simp: wp_simps wp_ChangeState_open state_ops machine_ops post_def live_def)
qed (use assms in \<open>simp add: wp_simps post_def\<close>)

section \<open>OPEN messages\<close>

definition open_ok :: "BGPOpen \<Rightarrow> bool" where
  "open_ok op \<longleftrightarrow> length (To4 (open_BGPId op)) = 4 \<and> (\<exists>z. GetASSize op = Ok z)"

lemma open_message_encodes:
  assumes "mgr_ok m"
  shows "\<exists>bs op. BGPBody_Encode (msg_Body (open_message f m)) = Ok bs \<and> BGPOpen_Decode bs = Some (Ok op) \<and>
    open_HoldTime op = ucast (bf_holdTime f) \<and> open_BGPId op = To4 (gc_RouterId (nb_Global (fm_neighborConf m))) \<and>
    GetPeerAS op = Ok (bc_LocalAS (running m)) \<and> GetASSize op = Ok 4 \<and>
    fst ` set (GetProtocolFromOpenMsg op) = set (map fst (nb_AfiSafiMap (fm_neighborConf m)))"
proof -
  let ?n = "fm_neighborConf m"
  let ?r = "To4 (gc_RouterId (nb_Global ?n))"
  have "length ?r = 4" and fams: "\<forall>pf \<in> set (map fst (nb_AfiSafiMap ?n)). pf < 65536"
    and few: "length (map fst (nb_AfiSafiMap ?n)) \<le> 23"
    using assms by (simp_all add: mgr_ok_def conf_ok_def)
  then obtain a b c d where abcd: "?r = [a, b, c, d]" using length_4 by blast
  have r: "To4 (ParseIP (ip_String ?r)) = ?r"
    unfolding abcd ParseIP_String_v4 by (rule To4_mapped) simp
  then have r4: "length (To4 (ParseIP (ip_String ?r))) = 4" using \<open>length ?r = 4\<close> by simp
  have body: "msg_Body (open_message f m) = OpenBody (NewBGPOpen (bc_LocalAS (running m)) (ucast (bf_holdTime f))
      (ip_String ?r) (ConstructOptParams (bc_LocalAS (running m)) (map fst (nb_AfiSafiMap ?n))
        (bc_AddPathsRx (running m)) (bc_AddPathsMaxTx (running m))))"
    by (simp add: open_message_def NewBGPOpenMessage_def)
  obtain bs op where "BGPOpen_Encode (NewBGPOpen (bc_LocalAS (running m)) (ucast (bf_holdTime f))
      (ip_String ?r) (ConstructOptParams (bc_LocalAS (running m)) (map fst (nb_AfiSafiMap ?n))
        (bc_AddPathsRx (running m)) (bc_AddPathsMaxTx (running m)))) = Ok bs" "BGPOpen_Decode bs = Some (Ok op)"
    "open_HoldTime op = ucast (bf_holdTime f)" "open_BGPId op = To4 (ParseIP (ip_String ?r))"
    "GetPeerAS op = Ok (bc_LocalAS (running m))" "GetASSize op = Ok 4"
    "fst ` set (GetProtocolFromOpenMsg op) = set (map fst (nb_AfiSafiMap ?n))"
    using negotiation [OF fams few r4] by blast
  then show ?thesis unfolding body BGPBody_Encode.simps r by blast
qed

lemma wp_sendOpenMessage [wp_simps]:
  assumes "mgr_ok m" "bf_peerConn f \<noteq> None"
  shows "wp (sendOpenMessage e) Q (f, m) \<longleftrightarrow> Q (sent (ev_writes e) (bytes_of (open_message f m)) f, m)"
proof -
  obtain bs where "BGPBody_Encode (msg_Body (open_message f m)) = Ok bs"
    using open_message_encodes [OF assms(1)] by blast
  then have "encodable (open_message f m)"
    by (simp add: encodable_def BGPMessage_Encode_def Let_def)
  then show ?thesis
    using assms by (simp add: sendOpenMessage_def wp_def encoded_Ok peer_write_Ok del: not_None_eq)
qed

text \<open>The machine with a connection it has taken.\<close>

definition taken :: "env \<Rightarrow> ConnDir \<Rightarrow> conn \<Rightarrow> BgpFSM \<Rightarrow> BgpFSM" where
  "taken e d c f =
     (let i = (if ev_rand1 e = bf_connId f then bf_connId f + 1 else ev_rand2 e)
      in emit (StartReading c i) (f\<lparr>bf_connId := i, bf_peerConn := Some \<lparr>pc_dir = d, pc_conn = c, pc_id = i\<rparr>\<rparr>))"

lemma taken_sel [simp]:
  "bf_State (taken e d c f) = bf_State f" "bf_peerConn (taken e d c f) \<noteq> None"
  "bf_close (taken e d c f) = bf_close f" "bf_exited (taken e d c f) = bf_exited f" "bf_dampPeerOscl (taken e d c f) = bf_dampPeerOscl f" "bf_connectRetryTime (taken e d c f) = bf_connectRetryTime f"
  "bf_id (taken e d c f) = bf_id f"
  by (simp_all add: taken_def emit_def Let_def)

lemma wp_SetPeerConn [wp_simps]:
  "bf_peerConn f = None \<Longrightarrow> wp (SetPeerConn e (ConnData d c)) Q (f, m) \<longleftrightarrow> Q (taken e d c f, m)"
  by (simp add: SetPeerConn_def wp_def Let_def taken_def)

lemma ConvertIPBytesToUint_total: "length bs = 4 \<Longrightarrow> \<exists>v. ConvertIPBytesToUint bs = Ok v"
  using length_4 [of bs] by (auto simp: ConvertIPBytesToUint_def)

lemma mgr_ok_resolve:
  "mgr_ok (fst (resolve_collisions l r i d es st)) = mgr_ok (fst st)"
  by (induction l r i d es st rule: resolve_collisions.induct) (auto simp: Let_def)

lemma conf_ok_SetPeerAttrs [simp]: "conf_ok (SetPeerAttrs a b c d g n) = conf_ok n"
  by (simp add: SetPeerAttrs_def conf_ok_def Let_def)

lemma receivedBGPOpenMessage_Ok:
  assumes "mgr_ok m" "open_ok op"
  shows "\<exists>m' go. receivedBGPOpenMessage i d op f m = Ok (m', go) \<and> mgr_ok m'"
proof -
  have "length (To4 (gc_RouterId (nb_Global (fm_neighborConf m)))) = 4"
    using assms by (simp add: mgr_ok_def conf_ok_def)
  then obtain l where l: "ConvertIPBytesToUint (To4 (gc_RouterId (nb_Global (fm_neighborConf m)))) = Ok l"
    using ConvertIPBytesToUint_total by blast
  obtain r where r: "ConvertIPBytesToUint (To4 (open_BGPId op)) = Ok r"
    using assms ConvertIPBytesToUint_total by (auto simp: open_ok_def)
  obtain z where z: "GetASSize op = Ok z" using assms by (auto simp: open_ok_def)
  define st where "st = resolve_collisions l r i d (fm_fsms (sync f m)) (sync f m, ConnDirInvalid)"
  have ok: "mgr_ok (fst st)" using assms by (simp add: st_def mgr_ok_resolve)
  have "fm_neighborConf (sync f m) = fm_neighborConf m" by (simp add: sync_def)
  then show ?thesis
    using assms l r z ok
    by (cases st) (auto simp: receivedBGPOpenMessage_def Let_def outcome_of_def mgr_ok_def st_def [symmetric]
      split: option.splits)
qed

text \<open>What the machine takes from an OPEN.\<close>

definition heard_open :: "BGPOpen \<Rightarrow> FSMManager \<Rightarrow> BgpFSM \<Rightarrow> BgpFSM" where
  "heard_open op m f =
     (let f = (if ucast (open_HoldTime op) < bf_holdTime f
               then SetHoldTime (ucast (open_HoldTime op)) (ucast (open_HoldTime op div 3)) f else f)
      in f\<lparr>bf_peerType := (if open_MyAS op = gc_AS (nb_Global (fm_neighborConf m))
                           then PeerTypeInternal else PeerTypeExternal),
           bf_afiSafiMap := common_families (nb_AfiSafiMap (fm_neighborConf m)) op (bf_afiSafiMap f)\<rparr>)"

lemma heard_open_sel [simp]:
  "bf_State (heard_open op m f) = bf_State f" "bf_peerConn (heard_open op m f) = bf_peerConn f"
  "bf_close (heard_open op m f) = bf_close f" "bf_exited (heard_open op m f) = bf_exited f" "bf_dampPeerOscl (heard_open op m f) = bf_dampPeerOscl f"
  "bf_connectRetryTime (heard_open op m f) = bf_connectRetryTime f" "bf_id (heard_open op m f) = bf_id f"
  "bf_holdTimer (heard_open op m f) = bf_holdTimer f" "bf_out (heard_open op m f) = bf_out f"
  by (simp_all add: heard_open_def SetHoldTime_def Let_def)

lemma keep_fits_third: "keep_fits (ucast ((h :: u16) div 3))"
proof (cases "h div 3 = 0")
  case False
  then have "0 < unat (h div 3)" "unat (h div 3) < 65536"
    using unat_gt_0 [of "h div 3"] unsigned_less [of "h div 3"] by simp_all
  then show ?thesis
    by (simp add: keep_fits_def timer_fits_small word_less_nat_alt)
qed (simp add: keep_fits_def)

lemma keep_fits_heard: "keep_fits (bf_keepAliveTime f) \<Longrightarrow> keep_fits (bf_keepAliveTime (heard_open op m f))"
  by (simp add: heard_open_def SetHoldTime_def Let_def keep_fits_third)

lemma heard_open_hold_pos: "bf_holdTime (heard_open op m f) \<noteq> 0 \<Longrightarrow> bf_holdTime f \<noteq> 0"
  by (auto simp: heard_open_def SetHoldTime_def Let_def split: if_splits)

lemma ProcessOpenMessage_Ok:
  assumes "mgr_ok m" "open_ok op" "bf_peerConn f \<noteq> None" "msg_Body msg = OpenBody op"
  shows "\<exists>m' go. ProcessOpenMessage msg (f, m) = Ok ((heard_open op m f, m'), go) \<and> mgr_ok m'"
proof -
  obtain p where p: "bf_peerConn f = Some p" using assms by blast
  obtain m' go where "receivedBGPOpenMessage (bf_id (heard_open op m f)) (pc_dir p) op (heard_open op m f) m = Ok (m', go)"
    "mgr_ok m'" using receivedBGPOpenMessage_Ok assms by blast
  then show ?thesis
    using assms p heard_open_sel(2) [of op m f] unfolding ProcessOpenMessage_def
    by (simp add: heard_open_def Let_def)
qed

section \<open>Every handler keeps the machine live\<close>

text \<open>The data an event comes with.\<close>

definition event_ok :: "BGPFSMEvent \<Rightarrow> event_data \<Rightarrow> bool" where
  "event_ok ev data \<longleftrightarrow>
     (ev \<in> {BGPEventTcpCrAcked, BGPEventTcpConnConfirmed} \<longrightarrow> (\<exists>d c. data = ConnData d c)) \<and>
     (ev \<in> {BGPEventHeaderErr, BGPEventOpenMsgErr, BGPEventUpdateMsgErr} \<longrightarrow>
        (\<exists>t s d. data = ErrData (BGPMessageError t s d))) \<and>
     (ev = BGPEventBGPOpen \<longrightarrow> (\<exists>msg op. data = MsgData msg \<and> msg_Body msg = OpenBody op \<and> open_ok op)) \<and>
     (ev = BGPEventUpdateMsg \<longrightarrow> (\<exists>msg u. data = MsgData msg \<and> msg_Body msg = UpdateBody u))"

lemma wp_give_up_live [wp_simps]:
  assumes "mgr_ok m" "bf_State f \<noteq> BGPFSMNone" "timer_fits (bf_connectRetryTime f)" "\<not> bf_exited f" "\<not> bf_dampPeerOscl f"
    and "let g = fold (\<lambda>g. g) gs f in bf_close g = bf_close f \<and> bf_State g = bf_State f \<and>
           bf_connectRetryTime g = bf_connectRetryTime f \<and> bf_exited g = bf_exited f \<and> bf_dampPeerOscl g = bf_dampPeerOscl f \<and> bf_peerConn g = None \<and> bf_outTCPConn g = None"
  shows "wp (give_up e gs) (post (bf_close f)) (f, m)"
  using assms wp_to_idle [of m "fold (\<lambda>g. g) gs f" e]
  by (simp add: wp_give_up Let_def)

text \<open>Giving up both connections.\<close>

lemma ClearPeerConn_sel [simp]:
  "bf_peerConn (ClearPeerConn f) = None" "bf_outTCPConn (ClearPeerConn f) = bf_outTCPConn f"
  "bf_close (ClearPeerConn f) = bf_close f" "bf_exited (ClearPeerConn f) = bf_exited f" "bf_dampPeerOscl (ClearPeerConn f) = bf_dampPeerOscl f" "bf_State (ClearPeerConn f) = bf_State f"
  "bf_connectRetryTime (ClearPeerConn f) = bf_connectRetryTime f"
  "bf_connectRetryTimer (ClearPeerConn f) = bf_connectRetryTimer f"
  "bf_keepAliveTime (ClearPeerConn f) = bf_keepAliveTime f" "bf_holdTime (ClearPeerConn f) = bf_holdTime f"
  by (simp_all add: ClearPeerConn_def machine_ops split: option.splits)

lemma StopConnToPeer_sel [simp]:
  "bf_outTCPConn (StopConnToPeer f) = None" "bf_peerConn (StopConnToPeer f) = bf_peerConn f"
  "bf_close (StopConnToPeer f) = bf_close f" "bf_exited (StopConnToPeer f) = bf_exited f" "bf_dampPeerOscl (StopConnToPeer f) = bf_dampPeerOscl f" "bf_State (StopConnToPeer f) = bf_State f"
  "bf_connectRetryTime (StopConnToPeer f) = bf_connectRetryTime f"
  "bf_connectRetryTimer (StopConnToPeer f) = bf_connectRetryTimer f"
  "bf_keepAliveTime (StopConnToPeer f) = bf_keepAliveTime f" "bf_holdTime (StopConnToPeer f) = bf_holdTime f"
  "bf_keepAliveTimer (StopConnToPeer f) = bf_keepAliveTimer f" "bf_holdTimer (StopConnToPeer f) = bf_holdTimer f"
  "bf_restartTimer (StopConnToPeer f) = bf_restartTimer f"
  by (simp_all add: StopConnToPeer_def machine_ops split: option.splits)

lemma sent_sel [simp]:
  "bf_peerConn (sent n bs f) = bf_peerConn f" "bf_outTCPConn (sent n bs f) = bf_outTCPConn f"
  "bf_close (sent n bs f) = bf_close f" "bf_exited (sent n bs f) = bf_exited f" "bf_dampPeerOscl (sent n bs f) = bf_dampPeerOscl f" "bf_State (sent n bs f) = bf_State f"
  "bf_connectRetryTime (sent n bs f) = bf_connectRetryTime f"
  "bf_connectRetryTimer (sent n bs f) = bf_connectRetryTimer f"
  "bf_keepAliveTime (sent n bs f) = bf_keepAliveTime f" "bf_holdTime (sent n bs f) = bf_holdTime f"
  "bf_keepAliveTimer (sent n bs f) = bf_keepAliveTimer f" "bf_holdTimer (sent n bs f) = bf_holdTimer f"
  by (simp_all add: sent_def)

lemma live_fits:
  "live f \<Longrightarrow> timer_fits (bf_connectRetryTime f)" "live f \<Longrightarrow> keep_fits (bf_keepAliveTime f)"
  "live f \<Longrightarrow> bf_State f \<noteq> BGPFSMNone" "live f \<Longrightarrow> \<not> bf_exited f" "live f \<Longrightarrow> \<not> bf_dampPeerOscl f"
  by (simp_all add: live_def)

lemma live_conn: "live f \<Longrightarrow> bf_peerConn f \<noteq> None \<longleftrightarrow> 4 \<le> state_num (bf_State f)"
  by (simp add: live_def)

lemma wp_stay: "live f \<Longrightarrow> mgr_ok m \<Longrightarrow> wp Ok (post (bf_close f)) (f, m)"
  by (simp add: wp_simps post_def)

lemma post_bpair: "post c (f, m) \<longleftrightarrow> bf_close f = c \<and> (c \<or> live f) \<and> mgr_ok m"
  by (simp add: post_def)

lemma wp_connected:
  assumes "live f" "mgr_ok m" "bf_peerConn f = None" "bf_State f \<in> {BGPFSMConnect, BGPFSMActive}"
  shows "wp (connected e (ConnData d c)) (post (bf_close f)) (f, m)"
proof -
  define f1 where "f1 = taken e d c (StopConnectRetryTimer f)"
  define f2 where "f2 = sent (ev_writes e) (bytes_of (open_message f1 m)) f1"
  define f3 where "f3 = StartHoldTimer (f2\<lparr>bf_holdTime := bc_HoldTime (running m), bf_keepAliveTime := bc_KeepaliveTime (running m)\<rparr>)"
  have f1: "bf_peerConn f1 \<noteq> None" by (simp add: f1_def del: not_None_eq)
  have f3: "bf_close f3 = bf_close f" "bf_exited f3 = bf_exited f" "bf_dampPeerOscl f3 = bf_dampPeerOscl f" "bf_State f3 = bf_State f" "bf_connectRetryTime f3 = bf_connectRetryTime f"
    "bf_peerConn f3 \<noteq> None" "bf_keepAliveTime f3 = bc_KeepaliveTime (running m)" "bf_holdTimer f3 \<noteq> None"
    using mgr_ok_running [OF assms(2)] f1
    by (simp_all add: f3_def f2_def StartHoldTimer_def) (simp_all add: f1_def StopConnectRetryTimer_def)
  have "wp (ChangeState e BGPFSMOpensent) (post (bf_close f3)) (f3, m)"
    using assms(2,4) f3 live_fits [OF assms(1)] mgr_ok_running [OF assms(2)]
    by (intro wp_to_open) (auto simp del: not_None_eq)
  moreover have "bf_peerConn (StopConnectRetryTimer f) = None"
    using assms(3) by (simp add: StopConnectRetryTimer_def)
  ultimately show ?thesis
    using f3(1) unfolding connected_def
    by (simp add: wp_loc wp_seq_cons wp_seq_nil wp_SetPeerConn wp_sendOpenMessage [OF assms(2)]
          wp_SetRunningHoldTime [OF assms(2)] f3_def f2_def f1_def)
qed

lemma Idle_live:
  assumes "live f" "mgr_ok m" "bf_State f = BGPFSMIdle"
  shows "wp (IdleState_processEvent e ev data) (post (bf_close f)) (f, m)"
proof -
  have *: "bf_peerConn f = None" using live_conn [OF assms(1)] assms(3) by auto
  let ?f = "\<lambda>p. (StartIdleHoldTimer (SetIdleHoldTime (IdleHoldTimeInterval (bf_idleHoldTime f)) f))\<lparr>bf_passive := p\<rparr>"
  have damp: "post (bf_close f) (?f p, m)" for p
    using assms by (simp add: post_def live_def StartIdleHoldTimer_def SetIdleHoldTime_def)
  let ?g = "\<lambda>c. f\<lparr>bf_connectRetryCounter := c, bf_connectRetryTimer := Some (drawn e (bf_connectRetryTime f))\<rparr>"
  let ?h = "f\<lparr>bf_connectRetryTimer := Some (drawn e (bf_connectRetryTime f))\<rparr>"
  have go: "wp (ChangeState e s) (post (bf_close f)) (?g c, m)" "wp (ChangeState e s) (post (bf_close f)) (?h, m)"
    if "s \<in> {BGPFSMConnect, BGPFSMActive}" for s c
    using that assms * live_fits [OF assms(1)] wp_to_connect [of m "?g c" e] wp_to_active [of m "?g c" e]
      wp_to_connect [of m ?h e] wp_to_active [of m ?h e] by auto
  have start: "wp (seq [loc (SetConnectRetryCounter 0), StartConnectRetryTimer e, ChangeState e s]) (post (bf_close f)) (f, m)"
    if "s \<in> {BGPFSMConnect, BGPFSMActive}" for s
    using go(1) [OF that, of 0] live_fits [OF assms(1)] by (simp add: wp_simps SetConnectRetryCounter_def)
  have resume: "wp (seq [StartConnectRetryTimer e, ChangeState e s]) (post (bf_close f)) (f, m)"
    if "s \<in> {BGPFSMConnect, BGPFSMActive}" for s
    using go(2) [OF that] live_fits [OF assms(1)] by (simp add: wp_simps)
  show ?thesis
    unfolding IdleState_processEvent_def wp_def
    using start [of BGPFSMConnect] start [of BGPFSMActive] resume [of "if bf_passive f then BGPFSMActive else BGPFSMConnect"]
      damp wp_stay [OF assms(1,2)] by (simp add: wp_def)
qed

lemma Connect_live:
  assumes "live f" "mgr_ok m" "bf_State f = BGPFSMConnect" "event_ok ev data"
  shows "wp (ConnectState_processEvent e ev data) (post (bf_close f)) (f, m)"
proof -
  have *: "bf_peerConn f = None" using live_conn [OF assms(1)] assms(3) by auto
  have retry: "wp (seq [loc StopConnToPeer, StartConnectRetryTimer e, InitiateConnToPeer]) (post (bf_close f)) (f, m)"
    using assms * by (simp add: wp_simps live_fits) (rule wp_InitiateConnToPeer; simp add: post_def live_def)
  have conn: "wp (connected e data) (post (bf_close f)) (f, m)" if "ev \<in> {BGPEventTcpCrAcked, BGPEventTcpConnConfirmed}"
    using that assms * wp_connected [OF assms(1,2)] by (auto simp: event_ok_def)
  show ?thesis
    using assms * live_fits [OF assms(1)] retry conn wp_stay [OF assms(1,2)] unfolding ConnectState_processEvent_def
    by (simp add: wp_if wp_give_up_live machine_ops Let_def)
qed

lemma Active_live:
  assumes "live f" "mgr_ok m" "bf_State f = BGPFSMActive" "event_ok ev data"
  shows "wp (ActiveState_processEvent e ev data) (post (bf_close f)) (f, m)"
proof -
  have *: "bf_peerConn f = None" using live_conn [OF assms(1)] assms(3) by auto
  have conn: "wp (connected e data) (post (bf_close f)) (f, m)" if "ev \<in> {BGPEventTcpCrAcked, BGPEventTcpConnConfirmed}"
    using that assms * wp_connected [OF assms(1,2)] by (auto simp: event_ok_def)
  let ?h = "f\<lparr>bf_connectRetryTimer := Some (drawn e (bf_connectRetryTime f))\<rparr>"
  have retry: "wp (seq [StartConnectRetryTimer e, ChangeState e BGPFSMConnect]) (post (bf_close f)) (f, m)"
    using assms * live_fits [OF assms(1)] wp_to_connect [of m ?h e] by (simp add: wp_simps)
  let ?g = "IncrConnectRetryCounter (ClearPeerConn (StopConnToPeer ?h))"
  have fails: "wp (seq [StartConnectRetryTimer e, loc StopConnToPeer, loc ClearPeerConn, loc IncrConnectRetryCounter,
             ChangeState e BGPFSMIdle]) (post (bf_close f)) (f, m)"
    using assms * live_fits [OF assms(1)] wp_to_idle [of m ?g e]
    by (simp add: wp_StartConnectRetryTimer wp_loc wp_seq_cons wp_seq_nil) (simp add: IncrConnectRetryCounter_def)
  show ?thesis
    using assms * live_fits [OF assms(1)] retry conn fails wp_stay [OF assms(1,2)] unfolding ActiveState_processEvent_def
    by (simp add: wp_if wp_give_up_live machine_ops Let_def)
qed

text \<open>With a connection: tell the peer, then give it up.\<close>

definition keeps_core :: "(BgpFSM \<Rightarrow> BgpFSM) \<Rightarrow> bool" where
  "keeps_core g \<longleftrightarrow> (\<forall>f. bf_peerConn (g f) = bf_peerConn f \<and> bf_outTCPConn (g f) = bf_outTCPConn f \<and>
     bf_close (g f) = bf_close f \<and> bf_State (g f) = bf_State f \<and> bf_connectRetryTime (g f) = bf_connectRetryTime f \<and>
     bf_exited (g f) = bf_exited f \<and> bf_dampPeerOscl (g f) = bf_dampPeerOscl f)"

lemma wp_drop:
  assumes "live f" "mgr_ok m" and "keeps_core cnt"
  shows "wp (give_up e (drop_conn @ [cnt])) (post (bf_close f)) (f, m)"
    and "wp (give_up e drop_conn) (post (bf_close f)) (f, m)"
  using assms live_fits [OF assms(1)] unfolding drop_conn_def keeps_core_def
  by (intro wp_give_up_live; simp add: Let_def StopConnectRetryTimer_def)+

lemma counters_keep: "keeps_core (SetConnectRetryCounter n)" "keeps_core IncrConnectRetryCounter"
  by (simp_all add: keeps_core_def SetConnectRetryCounter_def IncrConnectRetryCounter_def)

lemma live_sent: "live (sent n bs f) = live f"
  by (simp add: live_def sent_def)

lemma wp_notify_drop:
  assumes "live f" "mgr_ok m" "bf_peerConn f \<noteq> None"
    and "keeps_core cnt"
  shows "wp (seq [SendNotificationMessage e code sub data, give_up e (drop_conn @ [cnt])]) (post (bf_close f)) (f, m)"
proof -
  let ?g = "sent (ev_writes e) (bytes_of (NewBGPNotificationMessage code sub data)) f"
  have "wp (give_up e (drop_conn @ [cnt])) (post (bf_close ?g)) (?g, notified (ev_writes e) m)"
    by (rule wp_drop) (use assms in \<open>simp_all add: live_sent\<close>)
  then show ?thesis
    by (simp add: wp_seq_cons wp_seq_nil wp_SendNotificationMessage [OF assms(3)])
qed

lemmas wp_drop_counted = wp_drop(1) [OF _ _ counters_keep(1)] wp_drop(1) [OF _ _ counters_keep(2)]
  wp_drop(2) [OF _ _ counters_keep(1)]

lemmas wp_notify_counted = wp_notify_drop [OF _ _ _ counters_keep(1)] wp_notify_drop [OF _ _ _ counters_keep(2)]

lemma wp_notify_error:
  assumes "live f" "mgr_ok m" "bf_peerConn f \<noteq> None" "\<exists>t s d. data = ErrData (BGPMessageError t s d)"
  shows "wp (seq [notify_error e data, give_up e (drop_conn @ [IncrConnectRetryCounter])]) (post (bf_close f)) (f, m)"
  using assms wp_notify_counted(2) [OF assms(1-3)] by (auto simp: notify_error_def)

lemma wp_another:
  assumes "live f" "mgr_ok m" "\<exists>d c. data = ConnData d c"
  shows "wp (HandleAnotherConnection data) (post (bf_close f)) (f, m)"
  using assms by (auto simp: HandleAnotherConnection_def wp_def post_def live_def emit_def)

lemma Opensent_opened:
  assumes "live f" "mgr_ok m" "bf_State f = BGPFSMOpensent" "msg_Body msg = OpenBody op" "open_ok op"
  shows "\<exists>m' go. ProcessOpenMessage msg (StopConnectRetryTimer f, m) = Ok ((heard_open op m (StopConnectRetryTimer f), m'), go) \<and>
    mgr_ok m' \<and> post (bf_close f) (heard_open op m (StopConnectRetryTimer f), m') \<and>
    wp (seq [sendKeepAliveMessage e, loc StartHoldTimer, ChangeState e BGPFSMOpenconfirm]) (post (bf_close f))
      (heard_open op m (StopConnectRetryTimer f), m')"
proof -
  define f1 where "f1 = heard_open op m (StopConnectRetryTimer f)"
  have pc: "bf_peerConn f \<noteq> None" using live_conn [OF assms(1)] assms(3) by simp
  obtain m' go where m': "ProcessOpenMessage msg (StopConnectRetryTimer f, m) = Ok ((f1, m'), go)" "mgr_ok m'"
    using ProcessOpenMessage_Ok [of m op "StopConnectRetryTimer f" msg] assms pc unfolding f1_def
    by (auto simp: StopConnectRetryTimer_def)
  have f1: "bf_close f1 = bf_close f" "\<not> bf_exited f1" "\<not> bf_dampPeerOscl f1" "bf_State f1 = BGPFSMOpensent" "bf_peerConn f1 \<noteq> None"
    "timer_fits (bf_connectRetryTime f1)" "keep_fits (bf_keepAliveTime f1)"
    using assms pc live_fits [OF assms(1)] keep_fits_heard [of "StopConnectRetryTimer f" op m]
    by (simp_all add: f1_def) (simp_all add: StopConnectRetryTimer_def)
  have hold: "bf_holdTime f1 \<noteq> 0 \<longrightarrow> bf_holdTimer f1 \<noteq> None"
    using heard_open_hold_pos [of op m "StopConnectRetryTimer f"] assms(1,3)
    unfolding f1_def by (auto simp: live_def StopConnectRetryTimer_def)
  have still: "post (bf_close f) (f1, m')"
    using f1 hold m'(2) by (simp add: post_def live_def)
  let ?t = "if bf_keepAliveTime f1 \<noteq> 0 then Some (drawn e (bf_keepAliveTime f1)) else None"
  let ?f2 = "StartHoldTimer ((sent (ev_writes e) (bytes_of NewBGPKeepAliveMessage) f1)\<lparr>bf_keepAliveTimer := ?t\<rparr>)"
  have "wp (ChangeState e BGPFSMOpenconfirm) (post (bf_close ?f2)) (?f2, m')"
    using m'(2) f1 by (intro wp_to_open) (simp_all add: StartHoldTimer_def)
  moreover have "bf_close ?f2 = bf_close f" using f1 by (simp add: StartHoldTimer_def)
  ultimately have "wp (seq [sendKeepAliveMessage e, loc StartHoldTimer, ChangeState e BGPFSMOpenconfirm]) (post (bf_close f)) (f1, m')"
    using f1 by (simp add: wp_loc wp_seq_cons wp_seq_nil wp_sendKeepAliveMessage wp_StartKeepAliveTimer
        del: not_None_eq split del: if_split cong: if_cong)
  then show ?thesis using m' still unfolding f1_def by blast
qed

lemma Opensent_live:
  assumes "live f" "mgr_ok m" "bf_State f = BGPFSMOpensent" "event_ok ev data"
  shows "wp (OpenSentState_processEvent e ev data) (post (bf_close f)) (f, m)"
proof -
  have pc: "bf_peerConn f \<noteq> None" using live_conn [OF assms(1)] assms(3) by simp
  let ?g = "ClearPeerConn f"
  let ?h = "(StopConnToPeer ?g)\<lparr>bf_connectRetryTimer := Some (drawn e (bf_connectRetryTime f))\<rparr>"
  have fails: "wp (seq [loc ClearPeerConn, loc StopConnToPeer, StartConnectRetryTimer e, ChangeState e BGPFSMActive]) (post (bf_close f)) (f, m)"
    using assms live_fits [OF assms(1)] wp_to_active [of m ?h e] by (simp add: wp_loc wp_seq_cons wp_seq_nil wp_StartConnectRetryTimer)
  have opened: "wp (\<lambda>(f, m). case data of
           MsgData msg \<Rightarrow>
             obind (ProcessOpenMessage msg (StopConnectRetryTimer f, m)) (\<lambda>(st, go).
               if go then seq [sendKeepAliveMessage e, loc StartHoldTimer, ChangeState e BGPFSMOpenconfirm] st
               else Ok st)
         | _ \<Rightarrow> Panic) (post (bf_close f)) (f, m)" if opn: "ev = BGPEventBGPOpen"
  proof -
    obtain msg op where "data = MsgData msg" "msg_Body msg = OpenBody op" "open_ok op"
      using opn assms(4) unfolding event_ok_def by blast
    moreover from this obtain m' go where
      "ProcessOpenMessage msg (StopConnectRetryTimer f, m) = Ok ((heard_open op m (StopConnectRetryTimer f), m'), go)"
      "post (bf_close f) (heard_open op m (StopConnectRetryTimer f), m')"
      "wp (seq [sendKeepAliveMessage e, loc StartHoldTimer, ChangeState e BGPFSMOpenconfirm]) (post (bf_close f))
         (heard_open op m (StopConnectRetryTimer f), m')"
      using Opensent_opened [OF assms(1-3), of msg op e] by blast
    ultimately show ?thesis
      by (cases go) (simp_all add: wp_def)
  qed
  show ?thesis
    using assms fails opened wp_stay [OF assms(1,2)] wp_another [OF assms(1,2)] wp_notify_error [OF assms(1,2) pc]
      wp_notify_counted [OF assms(1,2) pc] wp_drop_counted [OF assms(1,2)]
    unfolding OpenSentState_processEvent_def notify_and_drop_def
    by (simp add: wp_if event_ok_def)
qed

lemma with_conn_keepalive:
  assumes "live f" "mgr_ok m" "bf_peerConn f \<noteq> None"
  shows "wp (sendKeepAliveMessage e) (post (bf_close f)) (f, m)"
  using assms live_fits [OF assms(1)]
  by (simp add: wp_sendKeepAliveMessage wp_StartKeepAliveTimer del: not_None_eq) (simp add: post_def live_def sent_def)

lemma live_StartHoldTimer: "live f \<Longrightarrow> live (StartHoldTimer f)"
  by (simp add: live_def StartHoldTimer_def)

lemma StartHoldTimer_sel [simp]:
  "bf_close (StartHoldTimer f) = bf_close f" "bf_exited (StartHoldTimer f) = bf_exited f" "bf_dampPeerOscl (StartHoldTimer f) = bf_dampPeerOscl f" "bf_State (StartHoldTimer f) = bf_State f"
  "bf_peerConn (StartHoldTimer f) = bf_peerConn f" "bf_connectRetryTime (StartHoldTimer f) = bf_connectRetryTime f"
  "bf_keepAliveTime (StartHoldTimer f) = bf_keepAliveTime f" "bf_keepAliveTimer (StartHoldTimer f) = bf_keepAliveTimer f"
  "bf_holdTime (StartHoldTimer f) = bf_holdTime f"
  by (simp_all add: StartHoldTimer_def)

lemma Openconfirm_live:
  assumes "live f" "mgr_ok m" "bf_State f = BGPFSMOpenconfirm" "event_ok ev data"
  shows "wp (OpenConfirmState_processEvent e ev data) (post (bf_close f)) (f, m)"
proof -
  have pc: "bf_peerConn f \<noteq> None" using live_conn [OF assms(1)] assms(3) by simp
  let ?g = "sent (ev_writes e) (bytes_of (NewBGPNotificationMessage BGPCease 0 [])) f"
  have stop: "wp (seq [SendNotificationMessage e BGPCease 0 [],
             give_up e [ClearPeerConn, StopConnToPeer, StopConnectRetryTimer, SetConnectRetryCounter 0]])
             (post (bf_close f)) (f, m)"
    using pc assms live_fits [OF assms(1)] wp_give_up_live [of "notified (ev_writes e) m" ?g
        "[ClearPeerConn, StopConnToPeer, StopConnectRetryTimer, SetConnectRetryCounter 0]" e]
    by (simp add: wp_seq_cons wp_seq_nil wp_SendNotificationMessage Let_def StopConnectRetryTimer_def
        SetConnectRetryCounter_def del: not_None_eq)
  have up: "wp (seq [loc StartHoldTimer, ChangeState e BGPFSMEstablished]) (post (bf_close f)) (f, m)"
    using pc assms live_fits [OF assms(1)] wp_to_open [of m BGPFSMEstablished "StartHoldTimer f" e]
      live_StartHoldTimer [OF assms(1)]
    by (auto simp: wp_seq_cons wp_seq_nil wp_loc live_def)
  show ?thesis
    using assms stop up with_conn_keepalive [OF assms(1,2) pc] wp_stay [OF assms(1,2)] wp_another [OF assms(1,2)]
      wp_notify_error [OF assms(1,2) pc] wp_notify_counted [OF assms(1,2) pc] wp_drop_counted [OF assms(1,2)]
    unfolding OpenConfirmState_processEvent_def notify_and_drop_def
    by (simp add: wp_if event_ok_def)
qed

lemma Established_live:
  assumes "live f" "mgr_ok m" "bf_State f = BGPFSMEstablished" "event_ok ev data"
  shows "wp (EstablishedState_processEvent e ev data) (post (bf_close f)) (f, m)"
proof -
  have pc: "bf_peerConn f \<noteq> None" using live_conn [OF assms(1)] assms(3) by simp
  have hold: "wp (loc StartHoldTimer) (post (bf_close f)) (f, m)"
    using assms live_StartHoldTimer [OF assms(1)] by (simp add: wp_loc post_def)
  have update: "wp (seq [loc StartHoldTimer, case data of MsgData msg \<Rightarrow> ProcessUpdateMessage msg | _ \<Rightarrow> (\<lambda>_. Panic)])
      (post (bf_close f)) (f, m)" if upd: "ev = BGPEventUpdateMsg"
  proof -
    obtain msg u where "data = MsgData msg" "msg_Body msg = UpdateBody u"
      using upd assms(4) unfolding event_ok_def by blast
    then show ?thesis
      using assms live_StartHoldTimer [OF assms(1)]
      by (simp add: wp_seq_cons wp_seq_nil wp_loc) (simp add: ProcessUpdateMessage_def wp_def post_def emit_def live_def)
  qed
  show ?thesis
    using assms hold update with_conn_keepalive [OF assms(1,2) pc] wp_stay [OF assms(1,2)] wp_another [OF assms(1,2)]
      wp_notify_error [OF assms(1,2) pc] wp_notify_counted [OF assms(1,2) pc] wp_drop_counted [OF assms(1,2)]
    unfolding EstablishedState_processEvent_def notify_and_drop_def
    by (simp add: wp_if event_ok_def)
qed

lemma ProcessEvent_live:
  assumes "live f" "mgr_ok m" "event_ok ev data"
  shows "wp (ProcessEvent e ev data) (post (bf_close f)) (f, m)"
  using assms Idle_live [OF assms(1,2)] Connect_live [OF assms(1,2) _ assms(3)] Active_live [OF assms(1,2) _ assms(3)]
    Opensent_live [OF assms(1,2) _ assms(3)] Openconfirm_live [OF assms(1,2) _ assms(3)]
    Established_live [OF assms(1,2) _ assms(3)] wp_stay [OF assms(1,2)]
  by (cases "bf_State f") (simp_all add: ProcessEvent_def wp_def)

end
