(* ===== verification/BgpFsmRun.thy ===== *)
theory BgpFsmRun
  imports BgpFsmLive
begin

text \<open>
  Whole runs of a session state machine: the inputs its loop can read, the machines it can become,
  and what holds of all of them.
\<close>

section \<open>The inputs of the loop\<close>

definition rx_ok :: "BGPMessage \<Rightarrow> bool" where
  "rx_ok msg \<longleftrightarrow>
     (let t = bh_Type (msg_Header msg) in
      case msg_Body msg of
        OpenBody op \<Rightarrow> t = BGPMsgTypeOpen \<and> open_ok op
      | UpdateBody u \<Rightarrow> t = BGPMsgTypeUpdate
      | KeepAliveBody \<Rightarrow> t = BGPMsgTypeKeepAlive
      | NotificationBody n \<Rightarrow> t = BGPMsgTypeNotification
      | NilBody \<Rightarrow> t \<notin> {BGPMsgTypeOpen, BGPMsgTypeUpdate, BGPMsgTypeKeepAlive, BGPMsgTypeNotification})"

definition tx_ok :: "nat \<Rightarrow> BGPMessage \<Rightarrow> bool" where
  "tx_ok cap msg \<longleftrightarrow>
     (case msg_Body msg of
        UpdateBody u \<Rightarrow>
          (case ConstructMaxSizedUpdatePackets cap u of Ok us \<Rightarrow> \<forall>x \<in> set us. encodable x | _ \<Rightarrow> False)
      | _ \<Rightarrow> False)"

definition input_ok :: "fsm_input \<Rightarrow> bool" where
  "input_ok i \<longleftrightarrow>
     (case i of
        PktRx msg err \<Rightarrow> (case err of Some x \<Rightarrow> True | None \<Rightarrow> (case msg of Some y \<Rightarrow> rx_ok y | None \<Rightarrow> False))
      | PktTx cap msg \<Rightarrow> tx_ok cap msg
      | FsmEvent ev r \<Rightarrow> ev \<in> {BGPEventManualStart, BGPEventManualStop, BGPEventAutoStop,
                              BGPEventManualStartPassTcpEst, BGPEventTcpConnFails}
      | _ \<Rightarrow> True)"

lemma msg_types_distinct [simp]:
  "BGPMsgTypeOpen \<noteq> BGPMsgTypeUpdate" "BGPMsgTypeOpen \<noteq> BGPMsgTypeKeepAlive"
  "BGPMsgTypeOpen \<noteq> BGPMsgTypeNotification" "BGPMsgTypeUpdate \<noteq> BGPMsgTypeKeepAlive"
  "BGPMsgTypeUpdate \<noteq> BGPMsgTypeNotification" "BGPMsgTypeKeepAlive \<noteq> BGPMsgTypeNotification"
  by (simp_all add: BGPMsgTypeOpen_def BGPMsgTypeUpdate_def BGPMsgTypeNotification_def BGPMsgTypeKeepAlive_def)

lemmas msg_types_distinct_sym [simp] = msg_types_distinct [symmetric]

text \<open>What the reader of a connection hands over is such an input.\<close>

lemma DecodeMessage_rx_ok:
  assumes "DecodeMessage as rx attrs h buf = Some (Ok (msg, err, go, attrs'))"
  shows "input_ok (PktRx msg err)"
proof (cases err)
  case None
  obtain r where r: "BGPMessage_Decode h buf attrs = Some r" using assms by (auto simp: DecodeMessage_def split: option.splits)
  then obtain y where y: "r = Ok y" "msg = Some y"
    using assms None by (auto simp: DecodeMessage_def obind_eq_Ok split: outcome.splits bgp_error.splits BGPBody.splits if_splits)
  have types: "bh_Type (msg_Header y) = bh_Type h"
    "msg_Body y = OpenBody op \<Longrightarrow> bh_Type h = BGPMsgTypeOpen \<and> BGPOpen_Decode buf = Some (Ok op)"
    "msg_Body y = UpdateBody u \<Longrightarrow> bh_Type h = BGPMsgTypeUpdate"
    "msg_Body y = KeepAliveBody \<Longrightarrow> bh_Type h = BGPMsgTypeKeepAlive"
    "msg_Body y = NotificationBody n \<Longrightarrow> bh_Type h = BGPMsgTypeNotification"
    "msg_Body y = NilBody \<Longrightarrow> bh_Type h \<notin> {BGPMsgTypeOpen, BGPMsgTypeUpdate, BGPMsgTypeKeepAlive, BGPMsgTypeNotification}"
    for op u n
    using r y(1) by (auto simp: BGPMessage_Decode_def Let_def obind_eq_Ok rbind_eq_Ok split: if_splits)
  have "open_ok op" if op: "msg_Body y = OpenBody op" for op
  proof -
    have "BGPOpen_Decode buf = Some (Ok op)" using types(2) op by blast
    then have "length (To4 (open_BGPId op)) = 4"
      by (auto simp: BGPOpen_Decode_def rbind_eq_Ok slice_def split: if_splits)
    moreover have "\<exists>z. GetASSize op = Ok z"
      using assms None r y op by (auto simp: DecodeMessage_def learn_peer_def obind_eq_Ok split: if_splits)
    ultimately show ?thesis by (simp add: open_ok_def)
  qed
  then show ?thesis using None y(2) types by (cases "msg_Body y") (auto simp: input_ok_def rx_ok_def Let_def)
qed (simp add: input_ok_def)

section \<open>One round of the loop\<close>

lemma event_ok_plain:
  "ev \<notin> {BGPEventTcpCrAcked, BGPEventTcpConnConfirmed, BGPEventHeaderErr, BGPEventOpenMsgErr,
         BGPEventUpdateMsgErr, BGPEventBGPOpen, BGPEventUpdateMsg} \<Longrightarrow> event_ok ev data"
  by (auto simp: event_ok_def)

lemma event_ok_msg: "rx_ok msg \<Longrightarrow> event_ok (msg_event msg) (MsgData msg)"
  by (auto simp: rx_ok_def event_ok_def msg_event_def Let_def split: BGPBody.splits if_splits)

lemma event_ok_err: "event_ok (err_event err) (ErrData err)"
  by (cases err) (auto simp: event_ok_def err_event_def)

lemma event_ok_conn: "ev \<in> {BGPEventTcpCrAcked, BGPEventTcpConnConfirmed} \<Longrightarrow> event_ok ev (ConnData d c)"
  by (auto simp: event_ok_def)

lemma ProcessPacket_live:
  assumes "live f" "mgr_ok m" "input_ok (PktRx msg err)"
  shows "wp (ProcessPacket e msg err) (post (bf_close f)) (f, m)"
proof (cases err)
  case (Some x)
  then show ?thesis
    using ProcessEvent_live [OF assms(1,2) event_ok_err [of x]] by (simp add: ProcessPacket_def wp_def)
next
  case None
  then obtain y where y: "msg = Some y" "rx_ok y" using assms(3) by (auto simp: input_ok_def split: option.splits)
  let ?m = "m\<lparr>fm_neighborConf := upd_State (\<lambda>s. s\<lparr>ns_ReceivedNotification := ns_ReceivedNotification s + 1\<rparr>)
                                                     (fm_neighborConf m)\<rparr>"
  have "wp (ProcessEvent e BGPEventNotifMsg (MsgData y)) (post (bf_close f)) (f, ?m)"
    using assms by (intro ProcessEvent_live) (simp_all add: event_ok_plain)
  moreover have "wp (ProcessEvent e (msg_event y) (MsgData y)) (post (bf_close f)) (f, m)"
    using assms y by (intro ProcessEvent_live event_ok_msg) simp_all
  moreover have "bh_Type (msg_Header y) = BGPMsgTypeNotification \<Longrightarrow> \<exists>n. msg_Body y = NotificationBody n"
    using y(2) by (auto simp: rx_ok_def Let_def split: BGPBody.splits)
  ultimately show ?thesis
    using None y(1) by (auto simp: ProcessPacket_def wp_def)
qed

text \<open>Two events in a row.\<close>

lemma wp_post_seq:
  assumes "wp p (post (bf_close f)) (f, m)" "\<not> bf_close f"
    and "\<And>f' m'. live f' \<Longrightarrow> \<not> bf_close f' \<Longrightarrow> mgr_ok m' \<Longrightarrow> wp (seq ps) (post False) (f', m')"
  shows "wp (seq (p # ps)) (post False) (f, m)"
  unfolding wp_seq_cons by (rule wp_mono [OF assms(1)]) (use assms(2,3) in \<open>auto simp: post_def\<close>)

lemma wp_last: "wp (seq [p]) Q st \<longleftrightarrow> wp p Q st"
  by (simp add: wp_seq_cons wp_seq_nil)

lemma live_loc [simp]:
  "live (f\<lparr>bf_restartTime := t\<rparr>) = live f" "live (f\<lparr>bf_passiveTcpEst := b\<rparr>) = live f"
  "live (f\<lparr>bf_close := b\<rparr>) = live f" "live (f\<lparr>bf_idleHoldTimer := d\<rparr>) = live f" "live (f\<lparr>bf_out := os\<rparr>) = live f"
  by (simp_all add: live_def)

lemma live_StopConnToPeer: "live f \<Longrightarrow> live (StopConnToPeer f)"
  by (simp add: live_def)

lemma event_keeps_live:
  assumes "live f" "mgr_ok m" "\<not> bf_close f" "event_ok ev data"
  shows "wp (ProcessEvent e ev data) (post False) (f, m)"
  using ProcessEvent_live [OF assms(1,2,4)] assms(3) by simp

text \<open>
  The timers that have fired: the field is cleared before the event is processed, and the handler of
  that event arms it again or leaves the state that needs it.
\<close>

lemma StopConnToPeer_commute:
  "StopConnToPeer (f\<lparr>bf_connectRetryTimer := t\<rparr>) = (StopConnToPeer f)\<lparr>bf_connectRetryTimer := t\<rparr>"
  by (simp add: StopConnToPeer_def emit_def split: option.splits)

lemma retry_expired:
  assumes "live f" "mgr_ok m" "\<not> bf_close f"
  shows "wp (ProcessEvent e BGPEventConnRetryTimerExp NoData) (post False) (StopConnectRetryTimer f, m)"
proof (cases "bf_State f = BGPFSMConnect \<or> bf_State f = BGPFSMActive")
  case True
  have "ProcessEvent e BGPEventConnRetryTimerExp NoData (StopConnectRetryTimer f, m) =
        ProcessEvent e BGPEventConnRetryTimerExp NoData (f, m)"
    using True by (auto simp: ProcessEvent_def ConnectState_processEvent_def ActiveState_processEvent_def seq.simps
        loc_def StopConnectRetryTimer_def StopConnToPeer_commute StartConnectRetryTimer_def)
  then show ?thesis
    using event_keeps_live [OF assms, of BGPEventConnRetryTimerExp NoData e] by (simp add: wp_def event_ok_plain)
next
  case False
  then have "live (StopConnectRetryTimer f)" using assms(1) by (simp add: live_def StopConnectRetryTimer_def)
  then show ?thesis using assms by (intro event_keeps_live) (simp_all add: StopConnectRetryTimer_def event_ok_plain)
qed

lemma ClearPeerConn_hold:
  "bf_peerConn f \<noteq> None \<Longrightarrow> ClearPeerConn (f\<lparr>bf_holdTimer := t\<rparr>) = ClearPeerConn f"
  by (auto simp: ClearPeerConn_def emit_def StopHoldTimer_def StopKeepAliveTimer_def)

lemma notify_hold:
  assumes "bf_peerConn f \<noteq> None"
  shows "wp (notify_and_drop e c g) Q (f\<lparr>bf_holdTimer := t\<rparr>, m) = wp (notify_and_drop e c g) Q (f, m)"
proof -
  let ?b = "bytes_of (NewBGPNotificationMessage c 0 [])"
  have 1: "sent n bs (f\<lparr>bf_holdTimer := t\<rparr>) = (sent n bs f)\<lparr>bf_holdTimer := t\<rparr>" for n bs
    by (simp add: sent_def)
  have 2: "StopConnectRetryTimer (h\<lparr>bf_holdTimer := t\<rparr>) = (StopConnectRetryTimer h)\<lparr>bf_holdTimer := t\<rparr>" for h
    by (simp add: StopConnectRetryTimer_def)
  have 3: "bf_peerConn (StopConnectRetryTimer (sent n bs f)) \<noteq> None" for n bs
    using assms by (simp add: StopConnectRetryTimer_def)
  show ?thesis
    using assms 3 unfolding notify_and_drop_def drop_conn_def
    by (simp add: wp_seq_cons wp_seq_nil wp_SendNotificationMessage wp_give_up 1 2 ClearPeerConn_hold del: not_None_eq)
qed

lemma hold_expired:
  assumes "live f" "mgr_ok m" "\<not> bf_close f"
  shows "wp (ProcessEvent e BGPEventHoldTimerExp NoData) (post False) (StopHoldTimer f, m)"
proof (cases "4 \<le> state_num (bf_State f)")
  case True
  then have pc: "bf_peerConn f \<noteq> None" using live_conn [OF assms(1)] by blast
  have eq: "wp (ProcessEvent e BGPEventHoldTimerExp NoData) (post False) (f\<lparr>bf_holdTimer := None\<rparr>, m) =
        wp (ProcessEvent e BGPEventHoldTimerExp NoData) (post False) (f, m)"
    using True notify_hold [OF pc, of e BGPHoldTimerExpired IncrConnectRetryCounter "post False" None m]
    by (cases "bf_State f") (simp_all add: wp_def ProcessEvent_def OpenSentState_processEvent_def
        OpenConfirmState_processEvent_def EstablishedState_processEvent_def)
  then show ?thesis
    using event_keeps_live [OF assms, of BGPEventHoldTimerExp NoData e] by (simp add: StopHoldTimer_def event_ok_plain)
next
  case False
  then have "live (StopHoldTimer f)" using assms(1) by (auto simp: live_def StopHoldTimer_def)
  then show ?thesis using assms by (intro event_keeps_live) (simp_all add: StopHoldTimer_def event_ok_plain)
qed

lemma keepalive_expired:
  assumes "live f" "mgr_ok m" "\<not> bf_close f"
  shows "wp (ProcessEvent e BGPEventKeepAliveTimerExp NoData) (post False) (StopKeepAliveTimer f, m)"
proof (cases "5 \<le> state_num (bf_State f)")
  case True
  then have pc: "bf_peerConn f \<noteq> None" using live_conn [OF assms(1)] by simp
  have "wp (sendKeepAliveMessage e) Q (f\<lparr>bf_keepAliveTimer := None\<rparr>, m) = wp (sendKeepAliveMessage e) Q (f, m)" for Q
    using pc live_fits [OF assms(1)]
    by (simp add: wp_sendKeepAliveMessage wp_StartKeepAliveTimer del: not_None_eq) (simp add: sent_def)
  then have "wp (ProcessEvent e BGPEventKeepAliveTimerExp NoData) (post False) (f\<lparr>bf_keepAliveTimer := None\<rparr>, m) =
        wp (ProcessEvent e BGPEventKeepAliveTimerExp NoData) (post False) (f, m)"
    using True by (cases "bf_State f") (simp_all add: wp_def ProcessEvent_def
        OpenConfirmState_processEvent_def EstablishedState_processEvent_def)
  then show ?thesis
    using event_keeps_live [OF assms, of BGPEventKeepAliveTimerExp NoData e] by (simp add: StopKeepAliveTimer_def event_ok_plain)
next
  case False
  then have "live (StopKeepAliveTimer f)" using assms(1) by (auto simp: live_def StopKeepAliveTimer_def)
  then show ?thesis using assms by (intro event_keeps_live) (simp_all add: StopKeepAliveTimer_def event_ok_plain)
qed

lemma Idle_start:
  assumes "mgr_ok m" "bf_State f = BGPFSMIdle" "bf_peerConn f = None" "timer_fits (bf_connectRetryTime f)"
    "keep_fits (bf_keepAliveTime f)" "\<not> bf_exited f" "\<not> bf_dampPeerOscl f" "\<not> bf_close f"
    and "ev \<in> {BGPEventAutoStart, BGPEventAutoStartPassTcpEst}"
  shows "wp (ProcessEvent e ev NoData) (post False) (f, m)"
proof -
  let ?g = "f\<lparr>bf_connectRetryCounter := 0, bf_connectRetryTimer := Some (drawn e (bf_connectRetryTime f))\<rparr>"
  have "wp (seq [loc (SetConnectRetryCounter 0), StartConnectRetryTimer e, ChangeState e s]) (post False) (f, m)"
    if "s \<in> {BGPFSMConnect, BGPFSMActive}" for s
    using that assms wp_to_connect [of m ?g e] wp_to_active [of m ?g e]
    by (auto simp: wp_seq_cons wp_seq_nil wp_loc wp_StartConnectRetryTimer SetConnectRetryCounter_def)
  then show ?thesis
    using assms by (auto simp: ProcessEvent_def IdleState_processEvent_def wp_def)
qed

lemma restart_expired:
  assumes "live f" "mgr_ok m" "\<not> bf_close f"
  shows "wp (sendAutoStartEvent e) (post False) (StopRestartTimer f, m)"
proof (cases "bf_State f = BGPFSMIdle")
  case True
  then have "bf_peerConn f = None" using live_conn [OF assms(1)] by auto
  then have "wp (ProcessEvent e ev NoData) (post False) (StopRestartTimer f, m)"
    if "ev \<in> {BGPEventAutoStart, BGPEventAutoStartPassTcpEst}" for ev
    using that True assms live_fits [OF assms(1)] by (intro Idle_start) (simp_all add: StopRestartTimer_def)
  then show ?thesis
    using live_fits [OF assms(1)] by (simp add: sendAutoStartEvent_def wp_def StopRestartTimer_def)
next
  case False
  then have "live (StopRestartTimer f)" using assms(1) by (simp add: live_def StopRestartTimer_def)
  then have "wp (ProcessEvent e ev NoData) (post False) (StopRestartTimer f, m)"
    if "ev \<in> {BGPEventAutoStart, BGPEventAutoStartPassTcpEst, BGPEventAutoStartDampPeerOscl,
              BGPEventAutoStartDampPeerOsclPassTcpEst}" for ev
    using that assms by (intro event_keeps_live) (auto simp: StopRestartTimer_def event_ok_def)
  then show ?thesis by (simp add: sendAutoStartEvent_def wp_def)
qed

lemma send_updates_live:
  assumes "live f" "mgr_ok m" "bf_peerConn f \<noteq> None" "\<forall>x \<in> set us. encodable x"
  shows "wp (send_updates e n us) (post (bf_close f)) (f, m)"
  using assms
proof (induction us arbitrary: n f m)
  case Nil
  then show ?case by (simp add: wp_def post_def)
next
  case (Cons u us)
  let ?m = "m\<lparr>fm_neighborConf := upd_State (\<lambda>s. s\<lparr>ns_SentUpdate := ns_SentUpdate s + 1\<rparr>) (fm_neighborConf m)\<rparr>"
  have IH: "wp (send_updates e n' us) (post (bf_close f)) (f', ?m)"
    if "live f'" "bf_peerConn f' \<noteq> None" "bf_close f' = bf_close f" for f' n'
    using Cons.IH [of f' ?m n'] that Cons.prems by simp
  show ?case
  proof (cases "BGPMessage_Encode u")
    case (Ok x)
    obtain bs u' where x: "x = (bs, u')" by fastforce
    let ?f = "sent n bs f"
    have lv: "live ?f" "bf_peerConn ?f \<noteq> None" using Cons.prems by (simp_all add: live_sent del: not_None_eq)
    show ?thesis
    proof (cases "n > 0")
      case True
      have "wp (StartKeepAliveTimer e) (\<lambda>(f', m'). live f' \<and> bf_peerConn f' \<noteq> None \<and> bf_close f' = bf_close f \<and> m' = m) (?f, m)"
        using lv live_fits [OF lv(1)] by (simp add: wp_StartKeepAliveTimer del: not_None_eq) (simp add: live_def sent_def)
      then obtain f' where f': "StartKeepAliveTimer e (?f, m) = Ok (f', m)" "live f'" "bf_peerConn f' \<noteq> None"
        "bf_close f' = bf_close f" by (auto simp: wp_def)
      show ?thesis using IH [OF f'(2-4), of "n - 1"] True Ok x f'(1) Cons.prems(3)
        by (simp add: wp_def peer_write_Ok del: not_None_eq)
    next
      case False
      then show ?thesis using Ok x lv Cons.prems by (simp add: wp_def peer_write_Ok post_def del: not_None_eq)
    qed
  next
    case (Error x)
    then show ?thesis using Cons.IH [OF Cons.prems(1-3), of n] Cons.prems(4) by (simp add: wp_def)
  next
    case Panic
    then show ?thesis using Cons.prems(4) by (simp add: encodable_def)
  qed
qed

lemma sendUpdateMessage_live:
  assumes "live f" "mgr_ok m" "bf_State f = BGPFSMEstablished" "tx_ok cap msg"
  shows "wp (sendUpdateMessage e cap msg) (post (bf_close f)) (f, m)"
proof -
  have pc: "bf_peerConn f \<noteq> None" using live_conn [OF assms(1)] assms(3) by simp
  obtain u us where u: "msg_Body msg = UpdateBody u" "ConstructMaxSizedUpdatePackets cap u = Ok us"
    "\<forall>x \<in> set us. encodable x" using assms(4) by (auto simp: tx_ok_def split: BGPBody.splits outcome.splits)
  let ?m = "m\<lparr>fm_neighborConf := upd_State (\<lambda>s. s\<lparr>ns_OutputQueue := ns_OutputQueue s - 1\<rparr>) (fm_neighborConf m)\<rparr>"
  have "wp (send_updates e (ev_writes e) us) (post (bf_close f)) (f, ?m)"
    using assms pc u(3) by (intro send_updates_live) simp_all
  then show ?thesis using u by (simp add: sendUpdateMessage_def wp_def)
qed

lemma fsm_event_live:
  assumes "live f" "mgr_ok m" "\<not> bf_close f" "input_ok (FsmEvent ev r)"
  shows "wp (seq [set_restart_time r, ProcessEvent e ev NoData,
               loc (\<lambda>f. f\<lparr>bf_restartTime := BGPRestartTimeDefault\<rparr>), ProcessEvent e BGPEventAutoStart NoData])
           (post False) (f, m)"
proof -
  have ev: "event_ok ev NoData" using assms(4) by (auto simp: input_ok_def event_ok_def)
  have last: "wp (seq [loc (\<lambda>f. f\<lparr>bf_restartTime := BGPRestartTimeDefault\<rparr>), ProcessEvent e BGPEventAutoStart NoData])
     (post False) (f', m')" if "live f'" "\<not> bf_close f'" "mgr_ok m'" for f' m'
    using that by (simp add: wp_seq_cons wp_seq_nil wp_loc event_keeps_live event_ok_plain)
  have "wp (seq [ProcessEvent e ev NoData,
               loc (\<lambda>f. f\<lparr>bf_restartTime := BGPRestartTimeDefault\<rparr>), ProcessEvent e BGPEventAutoStart NoData])
           (post False) (f\<lparr>bf_restartTime := t\<rparr>, m)" for t
  proof (rule wp_post_seq)
    show "wp (ProcessEvent e ev NoData) (post (bf_close (f\<lparr>bf_restartTime := t\<rparr>))) (f\<lparr>bf_restartTime := t\<rparr>, m)"
      using assms ev by (intro ProcessEvent_live) simp_all
  qed (use assms last in simp_all)
  from this [of "ucast (bc_MaxPrefixesRestartTimer (running m))"] this [of "bf_restartTime f"]
  show ?thesis by (simp add: wp_seq_cons [of "set_restart_time r"]) (simp add: wp_def set_restart_time_def)
qed

lemma close_exits:
  assumes "live f" "mgr_ok m"
  shows "wp (seq [loc (\<lambda>f. f\<lparr>bf_close := True\<rparr>), ProcessEvent e BGPEventManualStop NoData,
                 loc (\<lambda>f. f\<lparr>bf_exited := True\<rparr>)]) (\<lambda>(f', m'). bf_exited f' \<and> mgr_ok m') (f, m)"
proof -
  have "wp (ProcessEvent e BGPEventManualStop NoData) (post True) (f\<lparr>bf_close := True\<rparr>, m)"
    using ProcessEvent_live [of "f\<lparr>bf_close := True\<rparr>" m BGPEventManualStop NoData e] assms by (simp add: event_ok_plain)
  then have "wp (ProcessEvent e BGPEventManualStop NoData)
      (wp (seq [loc (\<lambda>f. f\<lparr>bf_exited := True\<rparr>)]) (\<lambda>(f', m'). bf_exited f' \<and> mgr_ok m')) (f\<lparr>bf_close := True\<rparr>, m)"
    by (rule wp_mono) (auto simp: post_def wp_loc wp_last)
  then show ?thesis by (simp add: wp_seq_cons wp_loc)
qed

lemma stop_conn_event:
  assumes "live f" "mgr_ok m" "\<not> bf_close f" "event_ok ev data"
  shows "wp (seq [loc StopConnToPeer, ProcessEvent e ev data]) (post False) (f, m)"
  using assms by (simp add: wp_seq_cons wp_seq_nil wp_loc event_keeps_live live_StopConnToPeer)

lemma fsm_select_wp:
  assumes "live f" "\<not> bf_close f" "mgr_ok m" "input_ok i" "i \<noteq> Close"
  shows "wp (fsm_select e i) (post False) (f, m)"
proof -
  note live = assms(1) and ok = assms(3) and op = assms(2)
  have stay: "wp Ok (post False) (f, m)" using wp_stay [OF live ok] op by simp
  have auto_start: "wp (ProcessEvent e BGPEventAutoStart NoData) (post False) (f', m')"
    if "live f'" "\<not> bf_close f'" "mgr_ok m'" for f' m'
    using that by (intro event_keeps_live) (simp_all add: event_ok_plain)
  have "wp (\<lambda>st. fsm_select e i st) (post False) (f, m)"
  proof (cases i)
    case (OutConn c)
    have "wp (loc (emit (CloseConn c))) (post False) (f, m)"
      using live ok op by (simp add: wp_loc post_def emit_def)
    then show ?thesis
      using stop_conn_event [OF live ok op event_ok_conn, of BGPEventTcpCrAcked e ConnDirOut c] live_fits [OF live] OutConn
      by (auto simp: fsm_select_def wp_def split: option.splits)
  next
    case (OutConnErr j)
    have fin: "wp (loc (\<lambda>f. if bf_close f then f else emit (TcpConnFail (bf_id f)) f)) (post False) (f', m')"
      if "live f'" "\<not> bf_close f'" "mgr_ok m'" for f' m'
      using that by (simp add: wp_loc post_def emit_def)
    have rest: "wp (seq [ProcessEvent e BGPEventTcpConnFails ConnErrData,
                         loc (\<lambda>f. if bf_close f then f else emit (TcpConnFail (bf_id f)) f)]) (post False) (StopConnToPeer f, m)"
      by (rule wp_post_seq, intro ProcessEvent_live) (use live ok op fin in \<open>simp_all add: event_ok_plain live_StopConnToPeer wp_last\<close>)
    have "wp Ok (post False) (StopConnToPeer f, m)"
      using live ok op by (simp add: wp_ok post_def live_StopConnToPeer)
    with rest show ?thesis
      using OutConnErr live_fits [OF live] by (simp add: fsm_select_def wp_def seq.simps loc_def)
  next
    case (InConn c)
    then show ?thesis using event_keeps_live [OF live ok op event_ok_conn, of BGPEventTcpConnConfirmed e ConnDirIn c] live_fits [OF live]
      by (simp add: fsm_select_def wp_def)
  next
    case (PassiveTcpEst b)
    then show ?thesis using live ok op live_fits [OF live]
      by (simp add: fsm_select_def wp_def loc_def SetPassiveTcpEstablishment_def post_def)
  next
    case (PktTx cap msg)
    then show ?thesis using sendUpdateMessage_live [OF live ok _ , of cap msg e] stay assms(4) live_fits [OF live] op
      by (simp add: fsm_select_def wp_def input_ok_def)
  next
    case (PktRx msg err)
    then show ?thesis using ProcessPacket_live [OF live ok, of msg err e] assms(4) live_fits [OF live] op
      by (simp add: fsm_select_def wp_def)
  next
    case (FsmEvent ev r)
    then show ?thesis using fsm_event_live [OF live ok op, of ev r e] assms(4) live_fits [OF live]
      by (simp add: fsm_select_def wp_def)
  next
    case (BfdStatus up)
    have "wp (seq [ProcessEvent e BGPEventAutoStop NoData, ProcessEvent e BGPEventAutoStart NoData]) (post False) (f, m)"
      by (rule wp_post_seq, intro ProcessEvent_live) (use live ok op auto_start in \<open>simp_all add: event_ok_plain wp_last\<close>)
    moreover have "wp (seq [Ok, ProcessEvent e BGPEventAutoStart NoData]) (post False) (f, m)"
      using live ok op auto_start by (simp add: wp_seq_cons wp_seq_nil wp_ok)
    ultimately show ?thesis using BfdStatus live_fits [OF live] by (simp add: fsm_select_def wp_def)
  next
    case ConnectRetryExp
    then show ?thesis using retry_expired [OF live ok op, of e] live_fits [OF live]
      by (simp add: fsm_select_def wp_def seq.simps loc_def obind_eq_Ok)
  next
    case HoldExp
    then show ?thesis using hold_expired [OF live ok op, of e] live_fits [OF live]
      by (simp add: fsm_select_def wp_def seq.simps loc_def obind_eq_Ok)
  next
    case KeepAliveExp
    then show ?thesis using keepalive_expired [OF live ok op, of e] live_fits [OF live]
      by (simp add: fsm_select_def wp_def seq.simps loc_def obind_eq_Ok)
  next
    case IdleHoldExp
    have "wp (ProcessEvent e BGPEventIdleHoldTimerExp NoData) (post False) (StopIdleHoldTimer f, m)"
      using live ok op by (intro event_keeps_live) (simp_all add: event_ok_plain StopIdleHoldTimer_def)
    then show ?thesis using IdleHoldExp live_fits [OF live]
      by (simp add: fsm_select_def wp_def seq.simps loc_def obind_eq_Ok)
  next
    case RestartExp
    then show ?thesis using restart_expired [OF live ok op, of e] live_fits [OF live]
      by (simp add: fsm_select_def wp_def seq.simps loc_def obind_eq_Ok)
  qed (use assms(5) in simp)
  then show ?thesis by simp
qed

lemma fsm_select_live:
  assumes "live f" "\<not> bf_close f" "mgr_ok m" "input_ok i"
  shows "\<exists>f' m'. fsm_select e i (f, m) = Ok (f', m') \<and> mgr_ok m' \<and>
    (if i = Close then bf_exited f' else live f' \<and> \<not> bf_close f')"
proof (cases "i = Close")
  case True
  then show ?thesis using close_exits [OF assms(1,3), of e] live_fits [OF assms(1)]
    by (auto simp: fsm_select_def wp_def)
next
  case False
  then show ?thesis using fsm_select_wp [OF assms False, of e] by (auto simp: wp_def post_def)
qed

section \<open>The machines there can be\<close>

text \<open>
  A machine is started in Idle by its manager and then runs one round of its loop after the other,
  each with an environment, the manager as it finds it (the manager and the other machine work in
  between) and an input.
\<close>

definition session_start :: "env \<Rightarrow> nat \<Rightarrow> u8 \<Rightarrow> NeighborConf \<Rightarrow> FSMManager \<Rightarrow> (stuck, BgpFSM) outcome" where
  "session_start e p i n m =
     obind (StartFSM_begin e (Init BGPFSMIdle (NewFSM p i n), m)) (\<lambda>(f, m). Ok f)"

definition session_step :: "(stuck, BgpFSM) outcome \<Rightarrow> env \<times> FSMManager \<times> fsm_input \<Rightarrow> (stuck, BgpFSM) outcome" where
  "session_step s = (\<lambda>(e, m, x). obind s (\<lambda>f. obind (fsm_select e x (f, m)) (\<lambda>(f, m). Ok f)))"

text \<open>
  What a round finds: a configuration whose timers are sane, \<open>fsmMutex\<close> free, and an input its
  senders produce.
\<close>

definition round_ok :: "env \<times> FSMManager \<times> fsm_input \<Rightarrow> bool" where
  "round_ok = (\<lambda>(e, m, x). mgr_ok m \<and> input_ok x)"

definition session_inv :: "(stuck, BgpFSM) outcome \<Rightarrow> bool" where
  "session_inv s = (case s of Ok f \<Rightarrow> bf_exited f \<or> live f \<and> \<not> bf_close f | _ \<Rightarrow> False)"

lemma StartFSM_live:
  assumes "conf_ok n" "mgr_ok m"
  shows "wp (StartFSM_begin e) (post False) (Init BGPFSMIdle (NewFSM p i n), m)"
proof -
  let ?f = "Init BGPFSMIdle (NewFSM p i n)"
  have fit: "timer_fits (bf_connectRetryTime ?f)"
    using assms(1) by (simp add: Init_def set_state_def NewFSM_def conf_ok_def Let_def)
  have "wp (seq [enter e BGPFSMIdle, ProcessEvent e BGPEventAutoStart NoData]) (post False) (?f, m)"
    using fit mgr_ok_running [OF assms(2)] assms(2)
    by (simp add: wp_seq_cons wp_seq_nil wp_enter enter_plain_def wp_loc wp_glob wp_SetRunningHoldTime)
      (intro Idle_start; simp add: machine_ops Init_def NewFSM_def Let_def mgr_ok_running)
  then show ?thesis
    by (simp add: StartFSM_begin_def wp_def Let_def Init_def set_state_def)
qed

lemma session_start_inv:
  assumes "conf_ok n" "mgr_ok m"
  shows "session_inv (session_start e p i n m)"
  using StartFSM_live [OF assms, of e p i]
  by (auto simp: wp_def post_def session_start_def session_inv_def)

interpretation session: guarded_machine session_step session_inv round_ok
proof
  fix s and i :: "env \<times> FSMManager \<times> fsm_input"
  assume "session_inv s" and ok: "round_ok i"
  then obtain f where f: "s = Ok f" "bf_exited f \<or> live f \<and> \<not> bf_close f"
    by (auto simp: session_inv_def split: outcome.splits)
  obtain e m x where i: "i = (e, m, x)" by (cases i)
  show "session_inv (session_step s i)"
  proof (cases "bf_exited f")
    case True
    then show ?thesis using f i by (simp add: session_step_def session_inv_def fsm_select_def)
  next
    case False
    then show ?thesis
      using f i ok fsm_select_live [of f m x e] by (auto simp: round_ok_def session_step_def session_inv_def split: if_splits)
  qed
qed

text \<open>A new neighbor with moderate timers has a configuration of this kind.\<close>

lemma new_conf_ok:
  assumes "length (To4 (gc_RouterId g)) = 4"
    and "bc_HoldTime (nc_BaseConfig pc) < 4294967" "bc_KeepaliveTime (nc_BaseConfig pc) < 4294967"
    and "bc_ConnectRetryTime (nc_BaseConfig pc) < 4294967"
  shows "conf_ok (NewNeighborConf g None pc)"
proof -
  let ?n = "NewNeighborConf g None pc"
  let ?c = "nc_BaseConfig (nb_RunningConf ?n)"
  have sane: "sane_timers (nb_RunningConf ?n)" by (rule running_sane)
  have third: "h div 3 < 4294967" if "h < 4294967" for h :: u32
  proof -
    have "unat (h div 3) \<le> unat h" by (simp add: unat_div)
    then show ?thesis using that by (simp add: word_less_nat_alt)
  qed
  have "bc_KeepaliveTime ?c < 4294967" "bc_ConnectRetryTime ?c < 4294967"
    using assms third by (auto simp: running_of_new GetConfFromNeighbor_def setDefaults_def merge_base_def pick_def Let_def
        GetNeighConfFromPeerGroup_def zero_NeighborConfig_def zero_BaseConfig_def BGPHoldTimeDefault_def BGPConnectRetryTime_def)
  then have "timer_fits (bc_KeepaliveTime ?c)" "timer_fits (bc_ConnectRetryTime ?c)"
    using sane by (auto simp: sane_timers_def Let_def intro: timer_fits_small)
  moreover have "nb_Global ?n = g"
    by (simp add: NewNeighborConf_def SetNeighborState_def setOtherStates_def Let_def)
  moreover have "nb_AfiSafiMap ?n = [(513, True)] \<or> nb_AfiSafiMap ?n = [(257, True)]"
    by (simp add: NewNeighborConf_def SetNeighborState_def setOtherStates_def Let_def GetProtocolFromConfig_def
        GetProtocolFamily_def AfiIP_def AfiIP6_def SafiUnicast_def)
  ultimately show ?thesis using sane assms(1) by (auto simp: conf_ok_def)
qed

section \<open>Properties\<close>


definition sample_conf :: NeighborConf where
  "sample_conf = NewNeighborConf
     \<lparr>gc_AS = 65001, gc_RouterId = [192, 0, 2, 1], gc_UseMultiplePaths = False, gc_EBGPMaxPaths = 1,
      gc_EBGPAllowMultipleAS = False, gc_IBGPMaxPaths = 1, gc_DefaultMED = 0\<rparr> None
     (zero_NeighborConfig\<lparr>nc_NeighborAddress := [192, 0, 2, 2],
        nc_BaseConfig := zero_BaseConfig\<lparr>bc_LocalAS := 65001, bc_PeerAS := 65002\<rparr>\<rparr>)"

lemma sample_conf_ok: "conf_ok sample_conf"
  unfolding sample_conf_def by (rule new_conf_ok) (simp_all add: zero_NeighborConfig_def zero_BaseConfig_def)

definition quiet_env :: env where
  "quiet_env = \<lparr>ev_writes = 100, ev_rand1 = 1, ev_rand2 = 2, ev_jitter = 0, ev_now = 0\<rparr>"

definition sample_manager :: FSMManager where "sample_manager = NewFSMManager sample_conf"

lemma sample_rounds: "mgr_ok sample_manager" "round_ok (e, sample_manager, OutConn 7)" "round_ok (e, sample_manager, HoldExp)"
  using sample_conf_ok by (simp_all add: sample_manager_def round_ok_def mgr_ok_def NewFSMManager_def input_ok_def)


text \<open>
  The bounds matter: a retry time of 4294968 seconds is 704 milliseconds to the code, one that wraps
  to less than four panics when its jitter is drawn.
\<close>

lemma retry_time_wraps: "millis 4294968 = 704"
  by (simp add: millis_def)

lemma retry_time_panics: "bf_connectRetryTime f = 0x20000000 \<Longrightarrow> StartConnectRetryTimer e (f, m) = Panic"
  by (simp add: StartConnectRetryTimer_def jittered_def Int63n_def millis_def BGPTimersJitterDivisor_def)

end
