(* ===== verification/BgpFsmDiagram.thy ===== *)
theory BgpFsmDiagram
  imports BgpFsmRun
begin

text \<open>
  The machine against its state diagram: which state each event may lead to from which, that the
  handlers keep to it, and what this says of the way to an established session.
\<close>

section \<open>The diagram\<close>

definition start_events :: "BGPFSMEvent set" where
  "start_events = {BGPEventManualStart, BGPEventAutoStart, BGPEventManualStartPassTcpEst,
     BGPEventAutoStartPassTcpEst, BGPEventAutoStartDampPeerOscl, BGPEventAutoStartDampPeerOsclPassTcpEst}"

definition conn_events :: "BGPFSMEvent set" where
  "conn_events = {BGPEventTcpCrAcked, BGPEventTcpConnConfirmed}"

text \<open>Events without an arrow in any state.\<close>

definition idle_events :: "BGPFSMEvent set" where
  "idle_events = start_events \<union> {NoEvent, BGPEventTcpConnValid, BGPEventTcpCrInvalid}"

fun next_states :: "BGPFSMState \<Rightarrow> BGPFSMEvent \<Rightarrow> BGPFSMState set" where
  "next_states BGPFSMNone ev = {}"
| "next_states BGPFSMIdle ev =
     (if ev \<in> {BGPEventManualStart, BGPEventAutoStart, BGPEventIdleHoldTimerExp} then {BGPFSMConnect, BGPFSMActive}
      else if ev \<in> {BGPEventManualStartPassTcpEst, BGPEventAutoStartPassTcpEst} then {BGPFSMActive} else {})"
| "next_states BGPFSMConnect ev =
     (if ev \<in> conn_events then {BGPFSMOpensent}
      else if ev \<in> idle_events \<union> {BGPEventConnRetryTimerExp} then {} else {BGPFSMIdle})"
| "next_states BGPFSMActive ev =
     (if ev \<in> conn_events then {BGPFSMOpensent}
      else if ev = BGPEventConnRetryTimerExp then {BGPFSMConnect, BGPFSMActive}
      else if ev \<in> idle_events then {} else {BGPFSMIdle})"
| "next_states BGPFSMOpensent ev =
     (if ev = BGPEventBGPOpen then {BGPFSMOpenconfirm}
      else if ev = BGPEventTcpConnFails then {BGPFSMActive}
      else if ev \<in> idle_events \<union> conn_events then {} else {BGPFSMIdle})"
| "next_states BGPFSMOpenconfirm ev =
     (if ev = BGPEventKeepAliveMsg then {BGPFSMEstablished}
      else if ev \<in> idle_events \<union> conn_events \<union> {BGPEventKeepAliveTimerExp, BGPEventBGPOpen} then {} else {BGPFSMIdle})"
| "next_states BGPFSMEstablished ev =
     (if ev \<in> idle_events \<union> conn_events \<union>
         {BGPEventKeepAliveTimerExp, BGPEventKeepAliveMsg, BGPEventUpdateMsg, BGPEventBGPOpen} then {} else {BGPFSMIdle})"

section \<open>Operations and the states they move to\<close>

definition moves :: "op \<Rightarrow> BGPFSMState set \<Rightarrow> bool" where
  "moves p S \<longleftrightarrow> (\<forall>f m f' m'. p (f, m) = Ok (f', m') \<longrightarrow> bf_State f' = bf_State f \<or> bf_State f' \<in> S)"

named_theorems moves_intros \<open>the states an operation moves to\<close>

lemma moves_Ok [moves_intros]: "moves Ok S"
  by (simp add: moves_def)

lemma moves_Panic [moves_intros]: "moves (\<lambda>_. Panic) S"
  by (simp add: moves_def)

lemma moves_loc: "(\<And>f. bf_State (g f) = bf_State f) \<Longrightarrow> moves (loc g) S"
  by (simp add: moves_def loc_def)

lemma moves_glob [moves_intros]: "moves (glob g) S"
  by (simp add: moves_def glob_def)

lemma moves_nil [moves_intros]: "moves (seq []) S"
  by (simp add: moves_def seq.simps)

lemma moves_cons [moves_intros]: "moves p S \<Longrightarrow> moves (seq ps) S \<Longrightarrow> moves (seq (p # ps)) S"
  by (simp add: moves_def seq.simps obind_eq_Ok) metis

lemma moves_if [moves_intros]: "(b \<Longrightarrow> moves p S) \<Longrightarrow> (\<not> b \<Longrightarrow> moves q S) \<Longrightarrow> moves (if b then p else q) S"
  by simp

lemma moves_mono: "moves p S \<Longrightarrow> S \<subseteq> T \<Longrightarrow> moves p T"
  by (auto simp: moves_def)

lemma moves_locs:
  "list_all (\<lambda>g. \<forall>f. bf_State (g f) = bf_State f) gs \<Longrightarrow> moves (seq qs) S \<Longrightarrow> moves (seq (map loc gs @ qs)) S"
  by (induction gs) (auto intro!: moves_cons moves_loc)

lemma moves_cond: "(\<And>f. moves (q f) S) \<Longrightarrow> moves (\<lambda>(f, m). if b f m then Ok (f, m) else q f (f, m)) S"
  by (simp add: moves_def)

lemma state_kept [simp]:
  "bf_State (StopConnectRetryTimer f) = bf_State f" "bf_State (SetConnectRetryCounter n f) = bf_State f"
  "bf_State (IncrConnectRetryCounter f) = bf_State f" "bf_State (StopKeepAliveTimer f) = bf_State f"
  "bf_State (StopHoldTimer f) = bf_State f" "bf_State (SetHoldTime h k f) = bf_State f"
  "bf_State (StopIdleHoldTimer f) = bf_State f" "bf_State (ApplyAutomaticStart f) = bf_State f"
  "bf_State (SetIdleHoldTime t f) = bf_State f" "bf_State (emit x f) = bf_State f"
  "bf_State (StartIdleHoldTimer f) = bf_State f"
  by (simp_all add: machine_ops SetHoldTime_def StartIdleHoldTimer_def)

lemma moves_timers [moves_intros]:
  "moves (StartConnectRetryTimer e) S" "moves (StartKeepAliveTimer e) S" "moves SetRunningHoldTime S"
  by (auto simp: moves_def StartConnectRetryTimer_def StartKeepAliveTimer_def SetRunningHoldTime_def obind_eq_Ok)

lemma peer_write_state: "peer_write n bs f = Ok (f', b) \<Longrightarrow> bf_State f' = bf_State f"
  by (auto simp: peer_write_def split: option.splits if_splits)

lemma keepalive_state: "StartKeepAliveTimer e (f, m) = Ok (f', m') \<Longrightarrow> bf_State f' = bf_State f"
  by (auto simp: StartKeepAliveTimer_def obind_eq_Ok split: if_splits)

lemma moves_writes [moves_intros]:
  "moves (SendNotificationMessage e c s d) S" "moves (sendOpenMessage e) S" "moves (sendKeepAliveMessage e) S"
  "moves (SetPeerConn e x) S" "moves InitiateConnToPeer S"
  by (auto simp: moves_def SendNotificationMessage_def sendOpenMessage_def sendKeepAliveMessage_def SetPeerConn_def
      InitiateConnToPeer_def obind_eq_Ok Let_def dest!: peer_write_state keepalive_state split: option.splits event_data.splits if_splits)

lemma moves_leave [moves_intros]: "moves (leave s) S"
  by (cases s) (auto simp: leave_def intro!: moves_intros moves_loc)

lemma moves_enter_plain [moves_intros]: "moves (enter_plain s) S"
  by (cases s) (auto simp: enter_plain_def intro!: moves_intros moves_loc)

lemma moves_report [moves_intros]: "moves (report_change e s) S"
  by (auto simp: moves_def report_change_def ConnBroken_def ConnEstablished_def obind_eq_Ok split: if_splits option.splits)

lemma moves_set_state [moves_intros]: "s \<in> S \<Longrightarrow> moves (loc (set_state s)) S"
  by (simp add: moves_def loc_def set_state_def)

lemma moves_choose: "(\<And>f. moves (q f) S) \<Longrightarrow> moves (\<lambda>(f, m). q f (f, m)) S"
  by (simp add: moves_def)

lemma moves_change_plain: "s \<in> S \<Longrightarrow> moves (change_with enter_plain e s) S"
  unfolding change_with_def by (rule moves_cond) (auto intro!: moves_intros)

lemma moves_enter [moves_intros]: "BGPFSMActive \<in> S \<Longrightarrow> moves (enter e s) S"
  using moves_change_plain [of BGPFSMActive S e] moves_enter_plain [of s S]
    moves_cons [OF moves_glob moves_cons [OF moves_writes(5) moves_nil], of AcceptPeerConn S]
  by (simp add: moves_def enter_def)

lemma moves_enter_other: "s \<noteq> BGPFSMConnect \<Longrightarrow> moves (enter e s) S"
  using moves_enter_plain [of s S] by (simp add: moves_def enter_def)

lemma moves_ChangeState [moves_intros]:
  assumes "s \<in> S" "s = BGPFSMConnect \<longrightarrow> BGPFSMActive \<in> S"
  shows "moves (ChangeState e s) S"
proof -
  have "moves (enter e s) S"
    using assms moves_enter [of S e s] moves_enter_other [of s e S] by blast
  then show ?thesis
    unfolding ChangeState_def change_with_def
    by (intro moves_cond moves_cons moves_leave moves_set_state moves_report moves_nil assms(1))
qed

lemma moves_give_up [moves_intros]:
  "list_all (\<lambda>g. \<forall>f. bf_State (g f) = bf_State f) gs \<Longrightarrow> BGPFSMIdle \<in> S \<Longrightarrow> moves (give_up e gs) S"
  unfolding give_up_def by (auto intro!: moves_locs moves_intros)

lemma moves_another [moves_intros]: "moves (HandleAnotherConnection d) S"
  by (auto simp: moves_def HandleAnotherConnection_def split: event_data.splits)

lemma moves_update [moves_intros]: "moves (ProcessUpdateMessage msg) S"
  by (auto simp: moves_def ProcessUpdateMessage_def split: BGPBody.splits)

lemma moves_notify_error [moves_intros]: "moves (notify_error e d) S"
  by (auto simp: notify_error_def split: event_data.splits bgp_error.splits intro!: moves_intros)

lemma moves_notify_drop [moves_intros]:
  "\<forall>f. bf_State (g f) = bf_State f \<Longrightarrow> BGPFSMIdle \<in> S \<Longrightarrow> moves (notify_and_drop e c g) S"
  unfolding notify_and_drop_def drop_conn_def by (intro moves_intros) simp_all

lemma open_keeps_state:
  "ProcessOpenMessage msg (f, m) = Ok ((f', m'), go) \<Longrightarrow> bf_State f' = bf_State f"
  by (auto simp: ProcessOpenMessage_def obind_eq_Ok Let_def split: BGPBody.splits option.splits if_splits)

section \<open>Every handler keeps to the diagram\<close>

lemma Idle_moves: "moves (IdleState_processEvent e ev d) (next_states BGPFSMIdle ev)"
proof -
  have "moves (seq [loc (SetConnectRetryCounter 0), StartConnectRetryTimer e, ChangeState e BGPFSMConnect]) {BGPFSMConnect, BGPFSMActive}"
    "moves (seq [loc (SetConnectRetryCounter 0), StartConnectRetryTimer e, ChangeState e BGPFSMActive]) {BGPFSMActive}"
    "moves (seq [StartConnectRetryTimer e, ChangeState e (if p then BGPFSMActive else BGPFSMConnect)]) {BGPFSMConnect, BGPFSMActive}" for p
    by (auto intro!: moves_intros moves_loc)
  then show ?thesis by (auto simp: IdleState_processEvent_def moves_def)
qed

lemma connected_moves: "moves (connected e d) {BGPFSMOpensent}"
  unfolding connected_def by (auto intro!: moves_intros moves_loc simp: StartHoldTimer_def)

lemmas event_sets = start_events_def conn_events_def idle_events_def

lemma Connect_moves: "moves (ConnectState_processEvent e ev d) (next_states BGPFSMConnect ev)"
  unfolding ConnectState_processEvent_def
  by (cases ev) (auto simp: event_sets intro!: moves_intros moves_loc connected_moves)

lemma Active_moves: "moves (ActiveState_processEvent e ev d) (next_states BGPFSMActive ev)"
  unfolding ActiveState_processEvent_def
  by (cases ev) (auto simp: event_sets intro!: moves_intros moves_loc connected_moves)

lemma opened_moves:
  "moves (\<lambda>(f, m). case d of
      MsgData msg \<Rightarrow>
        obind (ProcessOpenMessage msg (StopConnectRetryTimer f, m)) (\<lambda>(st, go).
          if go then seq [sendKeepAliveMessage e, loc StartHoldTimer, ChangeState e BGPFSMOpenconfirm] st else Ok st)
    | _ \<Rightarrow> Panic) {BGPFSMOpenconfirm}"
proof -
  have "moves (seq [sendKeepAliveMessage e, loc StartHoldTimer, ChangeState e BGPFSMOpenconfirm]) {BGPFSMOpenconfirm}"
    by (auto intro!: moves_intros moves_loc)
  then show ?thesis
    by (auto simp: moves_def obind_eq_Ok dest!: open_keeps_state split: event_data.splits if_splits) fastforce+
qed

lemma Opensent_moves: "moves (OpenSentState_processEvent e ev d) (next_states BGPFSMOpensent ev)"
  unfolding OpenSentState_processEvent_def drop_conn_def
  by (cases ev) (auto simp: event_sets intro!: moves_intros moves_loc opened_moves)

lemma Openconfirm_moves: "moves (OpenConfirmState_processEvent e ev d) (next_states BGPFSMOpenconfirm ev)"
  unfolding OpenConfirmState_processEvent_def drop_conn_def
  by (cases ev) (auto simp: event_sets intro!: moves_intros moves_loc)

lemma Established_moves: "moves (EstablishedState_processEvent e ev d) (next_states BGPFSMEstablished ev)"
  unfolding EstablishedState_processEvent_def drop_conn_def
  by (cases ev) (auto simp: event_sets intro!: moves_intros moves_loc split: event_data.split)

lemma movesD: "moves p S \<Longrightarrow> p (f, m) = Ok (f', m') \<Longrightarrow> bf_State f' = bf_State f \<or> bf_State f' \<in> S"
  unfolding moves_def by blast

lemma ProcessEvent_moves:
  assumes "ProcessEvent e ev d (f, m) = Ok (f', m')"
  shows "bf_State f' = bf_State f \<or> bf_State f' \<in> next_states (bf_State f) ev"
  using assms movesD [OF Idle_moves, of e ev d f m f' m'] movesD [OF Connect_moves, of e ev d f m f' m']
    movesD [OF Active_moves, of e ev d f m f' m'] movesD [OF Opensent_moves, of e ev d f m f' m']
    movesD [OF Openconfirm_moves, of e ev d f m f' m'] movesD [OF Established_moves, of e ev d f m f' m']
  by (cases "bf_State f") (simp_all add: ProcessEvent_def del: next_states.simps)

text \<open>Only three kinds of event lead beyond Active.\<close>

lemma early_moves [moves_intros]:
  assumes "ev \<notin> conn_events" "ev \<noteq> BGPEventBGPOpen" "ev \<noteq> BGPEventKeepAliveMsg"
  shows "moves (ProcessEvent e ev d) {BGPFSMIdle, BGPFSMConnect, BGPFSMActive}"
proof -
  have "next_states s ev \<subseteq> {BGPFSMIdle, BGPFSMConnect, BGPFSMActive}" for s
    using assms by (cases s) auto
  then show ?thesis using ProcessEvent_moves unfolding moves_def by blast
qed

lemma send_updates_state: "send_updates e n us (f, m) = Ok (f', m') \<Longrightarrow> bf_State f' = bf_State f"
proof (induction us arbitrary: n f m)
  case (Cons u us)
  then show ?case
    by (auto simp: obind_eq_Ok split: outcome.splits if_splits dest!: peer_write_state keepalive_state)
qed simp

lemma sendUpdateMessage_state: "sendUpdateMessage e cap msg (f, m) = Ok (f', m') \<Longrightarrow> bf_State f' = bf_State f"
  by (auto simp: sendUpdateMessage_def split: BGPBody.splits outcome.splits dest!: send_updates_state)

lemma moves_small [moves_intros]: "moves (set_restart_time r) S" "moves (sendAutoStartEvent e) {BGPFSMIdle, BGPFSMConnect, BGPFSMActive}"
proof -
  show "moves (set_restart_time r) S" by (auto simp: moves_def set_restart_time_def)
  show "moves (sendAutoStartEvent e) {BGPFSMIdle, BGPFSMConnect, BGPFSMActive}"
    unfolding sendAutoStartEvent_def by (rule moves_choose, rule early_moves) (auto simp: conn_events_def)
qed

definition early_input :: "fsm_input \<Rightarrow> bool" where
  "early_input x \<longleftrightarrow>
     (case x of
        OutConn c \<Rightarrow> False
      | InConn c \<Rightarrow> False
      | PktRx msg None \<Rightarrow> (case msg of Some y \<Rightarrow> msg_event y \<notin> {BGPEventBGPOpen, BGPEventKeepAliveMsg} | None \<Rightarrow> True)
      | _ \<Rightarrow> True)"

lemma msg_event_cases:
  "msg_event y \<in> {BGPEventBGPOpen, BGPEventUpdateMsg, BGPEventNotifMsg, BGPEventKeepAliveMsg, NoEvent}"
  by (simp add: msg_event_def Let_def)

lemma packet_early:
  assumes "early_input (PktRx msg err)"
  shows "moves (ProcessPacket e msg err) {BGPFSMIdle, BGPFSMConnect, BGPFSMActive}"
proof (cases err)
  case (Some x)
  have "err_event x \<notin> conn_events" "err_event x \<noteq> BGPEventBGPOpen" "err_event x \<noteq> BGPEventKeepAliveMsg"
    by (auto simp: err_event_def conn_events_def split: bgp_error.splits)
  then show ?thesis using early_moves [of "err_event x" e "ErrData x"] Some by (simp add: moves_def ProcessPacket_def)
next
  case None
  show ?thesis
  proof (cases msg)
    case (Some y)
    have "moves (ProcessEvent e (msg_event y) (MsgData y)) {BGPFSMIdle, BGPFSMConnect, BGPFSMActive}"
      "moves (ProcessEvent e BGPEventNotifMsg (MsgData y)) {BGPFSMIdle, BGPFSMConnect, BGPFSMActive}"
      using assms None Some msg_event_cases [of y]
      by (auto simp: early_input_def conn_events_def intro!: early_moves)
    then show ?thesis
      using None Some by (auto simp: ProcessPacket_def moves_def split: BGPBody.splits if_splits)
  qed (use None in \<open>simp add: moves_def ProcessPacket_def\<close>)
qed

lemma select_early:
  assumes "early_input x" "input_ok x"
  shows "moves (fsm_select e x) {BGPFSMIdle, BGPFSMConnect, BGPFSMActive}"
proof -
  let ?S = "{BGPFSMIdle, BGPFSMConnect, BGPFSMActive}"
  have ev: "moves (ProcessEvent e ev d) ?S" if "ev \<in> {BGPEventManualStart, BGPEventManualStop, BGPEventAutoStop,
      BGPEventManualStartPassTcpEst, BGPEventTcpConnFails, BGPEventAutoStart, BGPEventConnRetryTimerExp,
      BGPEventHoldTimerExp, BGPEventKeepAliveTimerExp, BGPEventIdleHoldTimerExp}" for ev d
    using that by (intro early_moves) (auto simp: conn_events_def)
  have tx: "moves (sendUpdateMessage e cap msg) ?S" for cap msg
    using sendUpdateMessage_state by (auto simp: moves_def)
  define body :: "BgpFSM \<Rightarrow> op" where "body = (\<lambda>f. case x of
        OutConnErr i \<Rightarrow>
          seq [loc StopConnToPeer,
               if i \<noteq> 0 \<and> i \<noteq> bf_connId f then Ok
               else seq [ProcessEvent e BGPEventTcpConnFails ConnErrData,
                         loc (\<lambda>f. if bf_close f then f else emit (TcpConnFail (bf_id f)) f)]]
      | Close \<Rightarrow> seq [loc (\<lambda>f. f\<lparr>bf_close := True\<rparr>), ProcessEvent e BGPEventManualStop NoData,
                      loc (\<lambda>f. f\<lparr>bf_exited := True\<rparr>)]
      | PassiveTcpEst b \<Rightarrow> loc (SetPassiveTcpEstablishment b)
      | PktTx cap msg \<Rightarrow> if bf_State f \<noteq> BGPFSMEstablished then Ok else sendUpdateMessage e cap msg
      | PktRx msg err \<Rightarrow> ProcessPacket e msg err
      | FsmEvent ev reason \<Rightarrow>
          seq [set_restart_time reason, ProcessEvent e ev NoData,
               loc (\<lambda>f. f\<lparr>bf_restartTime := BGPRestartTimeDefault\<rparr>), ProcessEvent e BGPEventAutoStart NoData]
      | BfdStatus up \<Rightarrow>
          seq [if \<not> up \<or> state_num (bf_State f) < 4 then ProcessEvent e BGPEventAutoStop NoData else Ok,
               ProcessEvent e BGPEventAutoStart NoData]
      | ConnectRetryExp \<Rightarrow> seq [loc StopConnectRetryTimer, ProcessEvent e BGPEventConnRetryTimerExp NoData]
      | HoldExp \<Rightarrow> seq [loc StopHoldTimer, ProcessEvent e BGPEventHoldTimerExp NoData]
      | KeepAliveExp \<Rightarrow> seq [loc StopKeepAliveTimer, ProcessEvent e BGPEventKeepAliveTimerExp NoData]
      | IdleHoldExp \<Rightarrow> seq [loc StopIdleHoldTimer, ProcessEvent e BGPEventIdleHoldTimerExp NoData]
      | RestartExp \<Rightarrow> seq [loc StopRestartTimer, sendAutoStartEvent e]
      | _ \<Rightarrow> Ok)"
  have "moves (body f) ?S" for f
    using assms packet_early [of "case x of PktRx msg err \<Rightarrow> msg | _ \<Rightarrow> None" "case x of PktRx msg err \<Rightarrow> err | _ \<Rightarrow> None" e] tx
    unfolding body_def
    by (cases x) (auto simp: input_ok_def StopRestartTimer_def SetPassiveTcpEstablishment_def
        intro!: moves_cons moves_nil moves_loc moves_Ok moves_small ev)
  moreover have "fsm_select e x (f, m) = (if bf_exited f then Ok (f, m) else body f (f, m))" for f m
    using assms(1) by (cases x) (simp_all add: fsm_select_def body_def early_input_def)
  ultimately show ?thesis by (auto simp: moves_def split: if_splits)
qed

section \<open>Closing a session\<close>

text \<open>The code of the NOTIFICATION with which each state answers the events that end the session.\<close>

definition stop_events :: "BGPFSMEvent set" where
  "stop_events = {BGPEventManualStop, BGPEventAutoStop, BGPEventOpenCollisionDump}"

definition reported :: "event_data \<Rightarrow> (u8 \<times> u8 \<times> byte list) option" where
  "reported d = (case d of ErrData (BGPMessageError t s x) \<Rightarrow> Some (t, s, x) | _ \<Rightarrow> None)"

definition plain :: "u8 \<Rightarrow> (u8 \<times> u8 \<times> byte list) option" where
  "plain code = Some (code, 0, [])"

fun notice :: "BGPFSMState \<Rightarrow> BGPFSMEvent \<Rightarrow> event_data \<Rightarrow> (u8 \<times> u8 \<times> byte list) option" where
  "notice BGPFSMOpensent ev d =
     (if ev \<in> stop_events then plain BGPCease
      else if ev = BGPEventHoldTimerExp then plain BGPHoldTimerExpired
      else if ev \<in> {BGPEventHeaderErr, BGPEventOpenMsgErr} then reported d
      else if ev \<in> {BGPEventConnRetryTimerExp, BGPEventKeepAliveTimerExp, BGPEventDelayOpenTimerExp,
                    BGPEventIdleHoldTimerExp, BGPEventBGPOpenDelayOpenTimer, BGPEventNotifMsg,
                    BGPEventKeepAliveMsg, BGPEventUpdateMsg, BGPEventUpdateMsgErr} then plain BGPFSMError
      else None)"
| "notice BGPFSMOpenconfirm ev d =
     (if ev \<in> stop_events then plain BGPCease
      else if ev = BGPEventHoldTimerExp then plain BGPHoldTimerExpired
      else if ev \<in> {BGPEventHeaderErr, BGPEventOpenMsgErr} then reported d
      else if ev \<in> {BGPEventConnRetryTimerExp, BGPEventDelayOpenTimerExp, BGPEventIdleHoldTimerExp,
                    BGPEventBGPOpenDelayOpenTimer, BGPEventUpdateMsg, BGPEventUpdateMsgErr} then plain BGPCease
      else None)"
| "notice BGPFSMEstablished ev d =
     (if ev \<in> stop_events then plain BGPCease
      else if ev = BGPEventHoldTimerExp then plain BGPHoldTimerExpired
      else if ev = BGPEventUpdateMsgErr then reported d
      else if ev \<in> {BGPEventConnRetryTimerExp, BGPEventDelayOpenTimerExp, BGPEventIdleHoldTimerExp,
                    BGPEventOpenMsgErr, BGPEventBGPOpenDelayOpenTimer, BGPEventHeaderErr} then plain BGPFSMError
      else None)"
| "notice s ev d = None"

text \<open>What a closed session leaves: the NOTIFICATION, the closed connection, an idle machine that will restart.\<close>

definition closed_after :: "u8 \<times> u8 \<times> byte list \<Rightarrow> BgpFSM \<Rightarrow> BgpFSM \<times> FSMManager \<Rightarrow> bool" where
  "closed_after = (\<lambda>(code, sub, x) f (f', m').
     bf_State f' = BGPFSMIdle \<and> bf_peerConn f' = None \<and> bf_outTCPConn f' = None \<and>
     bf_holdTimer f' = None \<and> bf_keepAliveTimer f' = None \<and> bf_restartTimer f' \<noteq> None \<and>
     (\<exists>p. bf_peerConn f = Some p \<and>
       bf_out f' = bf_out f @ [Tx (pc_conn p) (bytes_of (NewBGPNotificationMessage code sub x)), CloseConn (pc_conn p)] @
         (if bf_outTCPConn f = None then [] else [StopConnect])))"

lemma wp_idle_exact:
  assumes "mgr_ok m" "\<not> bf_close f" "bf_peerConn f = None"
  shows "wp (ChangeState e BGPFSMIdle) (\<lambda>(f', m'). bf_State f' = BGPFSMIdle \<and> bf_peerConn f' = None \<and>
     bf_outTCPConn f' = bf_outTCPConn f \<and> bf_holdTimer f' = None \<and> bf_keepAliveTimer f' = None \<and>
     bf_restartTimer f' \<noteq> None \<and> bf_out f' = bf_out f) (f, m)"
  using assms
  by (cases "bf_State f") (simp_all add: wp_simps wp_ChangeState_open state_ops machine_ops)

lemma notify_drop_exact:
  assumes "mgr_ok m" "\<not> bf_close f" "bf_peerConn f = Some p" "0 < ev_writes e"
    and gs: "gs = drop_conn @ [g] \<or> gs = [ClearPeerConn, StopConnToPeer, StopConnectRetryTimer, g]"
    and g: "\<And>f. bf_peerConn (g f) = bf_peerConn f \<and> bf_outTCPConn (g f) = bf_outTCPConn f \<and> bf_close (g f) = bf_close f \<and>
        bf_out (g f) = bf_out f"
  shows "wp (seq [SendNotificationMessage e code sub x, give_up e gs]) (closed_after (code, sub, x) f) (f, m)"
proof -
  define bs where "bs = bytes_of (NewBGPNotificationMessage code sub x)"
  define f1 where "f1 = sent (ev_writes e) bs f"
  define f2 where "f2 = fold (\<lambda>g. g) gs f1"
  have f1: "bf_peerConn f1 = Some p" "bf_close f1 = bf_close f" "bf_outTCPConn f1 = bf_outTCPConn f"
    "bf_out f1 = bf_out f @ [Tx (pc_conn p) bs]"
    using assms(3,4) by (simp_all add: f1_def) (simp add: sent_def)
  have clear: "bf_out (ClearPeerConn f) = bf_out f @ [CloseConn (pc_conn p)]" if "bf_peerConn f = Some p" for f
    using that by (simp add: ClearPeerConn_def emit_def StopHoldTimer_def StopKeepAliveTimer_def)
  have stop: "bf_out (StopConnToPeer f) = bf_out f @ (if bf_outTCPConn f = None then [] else [StopConnect])" for f
    by (auto simp: StopConnToPeer_def emit_def split: option.splits)
  have retry: "bf_out (StopConnectRetryTimer f) = bf_out f" "bf_peerConn (StopConnectRetryTimer f) = bf_peerConn f"
    "bf_outTCPConn (StopConnectRetryTimer f) = bf_outTCPConn f" "bf_close (StopConnectRetryTimer f) = bf_close f" for f
    by (simp_all add: StopConnectRetryTimer_def)
  have f2: "bf_peerConn f2 = None" "bf_outTCPConn f2 = None" "\<not> bf_close f2"
    "bf_out f2 = bf_out f1 @ [CloseConn (pc_conn p)] @ (if bf_outTCPConn f = None then [] else [StopConnect])"
    using gs f1 assms(2) by (auto simp: f2_def drop_conn_def g clear stop retry)
  have "wp (ChangeState e BGPFSMIdle) (closed_after (code, sub, x) f) (f2, notified (ev_writes e) m)"
    by (rule wp_mono [OF wp_idle_exact]) (use assms(1,3) f1 f2 in \<open>auto simp: closed_after_def bs_def\<close>)
  then show ?thesis
    using assms(3) by (simp add: wp_seq_cons wp_seq_nil wp_SendNotificationMessage wp_give_up f2_def f1_def bs_def)
qed

lemma counters_out:
  "bf_peerConn (SetConnectRetryCounter n f) = bf_peerConn f \<and> bf_outTCPConn (SetConnectRetryCounter n f) = bf_outTCPConn f \<and>
   bf_close (SetConnectRetryCounter n f) = bf_close f \<and> bf_out (SetConnectRetryCounter n f) = bf_out f"
  "bf_peerConn (IncrConnectRetryCounter f) = bf_peerConn f \<and> bf_outTCPConn (IncrConnectRetryCounter f) = bf_outTCPConn f \<and>
   bf_close (IncrConnectRetryCounter f) = bf_close f \<and> bf_out (IncrConnectRetryCounter f) = bf_out f"
  by (simp_all add: SetConnectRetryCounter_def IncrConnectRetryCounter_def)

lemma notice_closes:
  assumes "mgr_ok m" "\<not> bf_close f" "bf_peerConn f = Some p" "0 < ev_writes e" "notice (bf_State f) ev d = Some code"
  shows "wp (ProcessEvent e ev d) (closed_after code f) (f, m)"
proof -
  note nd = notify_drop_exact [OF assms(1-4)]
  have 1: "wp (notify_and_drop e c (SetConnectRetryCounter 0)) (closed_after (c, 0, []) f) (f, m)"
    "wp (notify_and_drop e c IncrConnectRetryCounter) (closed_after (c, 0, []) f) (f, m)" for c
    unfolding notify_and_drop_def using nd [OF disjI1 [OF refl]] counters_out by blast+
  have 2: "wp (seq [SendNotificationMessage e BGPCease 0 [],
             give_up e [ClearPeerConn, StopConnToPeer, StopConnectRetryTimer, SetConnectRetryCounter 0]])
        (closed_after (BGPCease, 0, []) f) (f, m)"
    using nd [OF disjI2 [OF refl]] counters_out by blast
  have 3: "wp (seq [notify_error e d, give_up e (drop_conn @ [IncrConnectRetryCounter])]) (closed_after code f) (f, m)"
    if "reported d = Some code"
    using that nd [OF disjI1 [OF refl], of IncrConnectRetryCounter] counters_out
    by (auto simp: reported_def notify_error_def split: event_data.splits bgp_error.splits)
  have "wp (ProcessEvent e ev d) Q (f, m) = wp (case bf_State f of
        BGPFSMNone \<Rightarrow> Ok
      | BGPFSMIdle \<Rightarrow> IdleState_processEvent e ev d
      | BGPFSMConnect \<Rightarrow> ConnectState_processEvent e ev d
      | BGPFSMActive \<Rightarrow> ActiveState_processEvent e ev d
      | BGPFSMOpensent \<Rightarrow> OpenSentState_processEvent e ev d
      | BGPFSMOpenconfirm \<Rightarrow> OpenConfirmState_processEvent e ev d
      | BGPFSMEstablished \<Rightarrow> EstablishedState_processEvent e ev d) Q (f, m)" for Q
    by (simp add: ProcessEvent_def wp_def)
  then show ?thesis
    using assms(5) 1 2 3
    by (cases "bf_State f") (auto simp: plain_def OpenSentState_processEvent_def OpenConfirmState_processEvent_def
        EstablishedState_processEvent_def stop_events_def split: if_splits)
qed

section \<open>Properties\<close>

text \<open>C38: 
  The state diagram: no handler takes the machine anywhere the diagram has no arrow for the event.
\<close>

theorem ProcessEvent_follows_diagram:
  assumes "ProcessEvent e ev d (f, m) = Ok (f', m')"
  shows "bf_State f' = bf_State f \<or> bf_State f' \<in> next_states (bf_State f) ev"
  using assms by (rule ProcessEvent_moves)

text \<open>C8: 
  The way to an established session: OpenSent is entered from Connect or Active by a new connection,
  OpenConfirm from OpenSent by the peer's OPEN, Established from OpenConfirm by its KEEPALIVE, and by
  no other input.
\<close>

theorem handshake_order:
  assumes "fsm_select e x (f, m) = Ok (f', m')" "input_ok x" "bf_State f' \<noteq> bf_State f"
  shows "case bf_State f' of
      BGPFSMOpensent \<Rightarrow> bf_State f \<in> {BGPFSMConnect, BGPFSMActive} \<and> (\<exists>c. x = OutConn c \<or> x = InConn c)
    | BGPFSMOpenconfirm \<Rightarrow> bf_State f = BGPFSMOpensent \<and> (\<exists>y op. x = PktRx (Some y) None \<and> msg_Body y = OpenBody op)
    | BGPFSMEstablished \<Rightarrow> bf_State f = BGPFSMOpenconfirm \<and> (\<exists>y. x = PktRx (Some y) None \<and> msg_Body y = KeepAliveBody)
    | _ \<Rightarrow> True"
proof (cases "early_input x")
  case True
  then show ?thesis using movesD [OF select_early [OF True assms(2)] assms(1)] assms(3) by auto
next
  case False
  have conn: "bf_State f' \<in> next_states (bf_State f) ev" if "ProcessEvent e ev d (g, m) = Ok (f', m')" "bf_State g = bf_State f"
    for g ev d using ProcessEvent_moves [OF that(1)] that(2) assms(3) by simp
  show ?thesis
  proof (cases x)
    case (OutConn c)
    then obtain g where "ProcessEvent e BGPEventTcpCrAcked (ConnData ConnDirOut c) (g, m) = Ok (f', m')" "bf_State g = bf_State f"
      using assms(1,3) by (auto simp: fsm_select_def seq.simps loc_def obind_eq_Ok split: if_splits option.splits)
    from conn [OF this] show ?thesis using OutConn by (cases "bf_State f") (auto simp: event_sets)
  next
    case (InConn c)
    then have "ProcessEvent e BGPEventTcpConnConfirmed (ConnData ConnDirIn c) (f, m) = Ok (f', m')"
      using assms(1,3) by (auto simp: fsm_select_def split: if_splits)
    from conn [OF this refl] show ?thesis using InConn by (cases "bf_State f") (auto simp: event_sets)
  next
    case (PktRx msg err)
    then obtain y where y: "msg = Some y" "err = None" "msg_event y \<in> {BGPEventBGPOpen, BGPEventKeepAliveMsg}"
      using False by (auto simp: early_input_def split: option.splits)
    have rx: "rx_ok y" using assms(2) PktRx y by (simp add: input_ok_def)
    have "bh_Type (msg_Header y) \<noteq> BGPMsgTypeNotification"
      using y(3) by (auto simp: msg_event_def Let_def split: if_splits)
    then have "ProcessEvent e (msg_event y) (MsgData y) (f, m) = Ok (f', m')"
      using assms(1,3) PktRx y by (auto simp: fsm_select_def ProcessPacket_def split: if_splits)
    from conn [OF this refl] have nxt: "bf_State f' \<in> next_states (bf_State f) (msg_event y)" .
    have body: "msg_event y = BGPEventBGPOpen \<Longrightarrow> \<exists>op. msg_Body y = OpenBody op"
      "msg_event y = BGPEventKeepAliveMsg \<Longrightarrow> msg_Body y = KeepAliveBody"
      using rx by (auto simp: rx_ok_def msg_event_def Let_def split: BGPBody.splits if_splits)
    show ?thesis using nxt body y(3) PktRx y(1,2) by (cases "bf_State f") (auto simp: event_sets)
  qed (use False in \<open>simp_all add: early_input_def\<close>)
qed


end
