(* ===== verification/BgpConn.thy ===== *)
theory BgpConn
  imports BgpFsm
begin

text \<open>
  The connections of a session (\<open>bgp/fsm/conn.go\<close>): how an outgoing connection is attempted, and how
  the messages of an established one are read from the byte stream. A socket is the list of what its
  \<open>Read\<close> calls will meet: chunks of bytes, cut anywhere, and errors; a \<open>Read\<close> takes at most as many
  bytes as the caller's buffer has room for. What the dialing code asks of other daemons (reachability,
  configured addresses, the TCP connection itself) is an argument.
\<close>

section \<open>Dialing\<close>

record NextHopInfo =
  nh_IPAddr :: string
  nh_NextHopIp :: string

text \<open>\<open>config.ReachabilityResult\<close>: an error, or the next hop if one was found.\<close>

type_synonym reachability = "NextHopInfo option option"

text \<open>
  The loop that asks again every 3 seconds, given the answers it will get: the last answer and the
  seconds that remain. It has no more answers to wait for when the list is empty.
\<close>

fun wait_reachable :: "u32 \<Rightarrow> reachability list \<Rightarrow> (reachability \<times> u32) option" where
  "wait_reachable seconds [] = None"
| "wait_reachable seconds (r # rs) =
     (let seconds = seconds - 3
      in if r \<noteq> None \<or> seconds \<le> 6 then Some (r, seconds) else wait_reachable seconds rs)"

datatype dial_result = Dialed conn | DialError

text \<open>The environment of a dial; \<open>de_dial\<close> is the result of setting up the socket and connecting with a timeout.\<close>

record dial_env =
  de_first :: reachability
  de_retries :: "reachability list"
  de_ip_configured :: "string \<Rightarrow> bool"
  de_dial :: "string \<Rightarrow> string \<Rightarrow> u32 \<Rightarrow> dial_result"

definition IPv6zero :: ip where "IPv6zero = replicate 16 0"
definition IPv4zero :: ip where "IPv4zero = v4InV6Prefix @ replicate 4 0"

text \<open>
  \<open>net.SplitHostPort\<close> of the strings \<open>JoinHostPort\<close> makes: the host, without its brackets.
\<close>

definition split_host :: "string \<Rightarrow> string" where
  "split_host s =
     (let h = rev (drop 1 (dropWhile (\<lambda>c. c \<noteq> CHR '':'') (rev s)))
      in if h \<noteq> [] \<and> hd h = CHR ''['' then butlast (tl h) else h)"

definition source_address :: "string \<Rightarrow> reachability \<Rightarrow> string" where
  "source_address local r =
     (case r of
        Some (Some nh) \<Rightarrow>
          (let ip = ParseIP (TrimSpace (nh_NextHopIp nh))
           in if local = [] \<and> ip \<noteq> [] \<and> (ip = IPv4zero \<or> ip = IPv6zero)
              then JoinHostPort (TrimSpace (nh_IPAddr nh)) ''0'' else local)
      | _ \<Rightarrow> local)"

text \<open>\<open>Connect\<close>: none when it waits for ever for an answer.\<close>

definition OutTCPConn_Connect :: "dial_env \<Rightarrow> u32 \<Rightarrow> string \<Rightarrow> string \<Rightarrow> dial_result option" where
  "OutTCPConn_Connect de seconds remote local =
     (case (if de_first de = None \<and> 3 * 2 < seconds then wait_reachable seconds (de_retries de)
            else Some (de_first de, seconds)) of
        None \<Rightarrow> None
      | Some (None, seconds) \<Rightarrow> Some DialError
      | Some (r, seconds) \<Rightarrow>
          (let local = source_address local r;
               localIP = TrimSpace (split_host local)
           in if local \<noteq> [] \<and> localIP \<noteq> [] \<and> \<not> de_ip_configured de localIP then Some DialError
              else Some (de_dial de remote (if local \<noteq> [] \<and> localIP = [] then [] else local)
                           (if 10 < seconds then seconds else 10))))"

text \<open>\<open>ConnectToPeer\<close> waits for the dial and for a request to stop, in either order.\<close>

datatype dial_event = DialDone dial_result | StopRequest

fun OutTCPConn_ConnectToPeer :: "bool \<Rightarrow> bool \<Rightarrow> dial_event list \<Rightarrow> fsm_input list" where
  "OutTCPConn_ConnectToPeer stop fin [] = []"
| "OutTCPConn_ConnectToPeer stop fin (DialDone r # es) =
     (if stop then []
      else (case r of Dialed c \<Rightarrow> OutConn c | DialError \<Rightarrow> OutConnErr 0) # OutTCPConn_ConnectToPeer stop True es)"
| "OutTCPConn_ConnectToPeer stop fin (StopRequest # es) = (if fin then [] else OutTCPConn_ConnectToPeer True fin es)"

text \<open>A dialed connection that is closed because nobody wants it any more.\<close>

fun dial_closes :: "bool \<Rightarrow> bool \<Rightarrow> dial_event list \<Rightarrow> conn list" where
  "dial_closes stop fin [] = []"
| "dial_closes stop fin (DialDone r # es) =
     (if stop then (case r of Dialed c \<Rightarrow> [c] | DialError \<Rightarrow> []) else dial_closes stop True es)"
| "dial_closes stop fin (StopRequest # es) = (if fin then [] else dial_closes True fin es)"

section \<open>Reading\<close>

datatype sock_event = Chunk "byte list" | SockTimeout | SockFail

text \<open>\<open>readPartialPkt\<close>: none when it waits for bytes that do not come; an error with the rest of the socket.\<close>

fun readPartialPkt :: "nat \<Rightarrow> byte list \<Rightarrow> sock_event list \<Rightarrow> ((sock_event, byte list) outcome \<times> sock_event list) option" where
  "readPartialPkt len buf [] = (if len \<le> length buf then Some (Ok buf, []) else None)"
| "readPartialPkt len buf (Chunk bs # s) =
     (if len \<le> length buf then Some (Ok buf, Chunk bs # s)
      else if length bs \<le> len - length buf then readPartialPkt len (buf @ bs) s
      else Some (Ok (buf @ take (len - length buf) bs), Chunk (drop (len - length buf) bs) # s))"
| "readPartialPkt len buf (x # s) =
     (if len \<le> length buf then Some (Ok buf, x # s) else Some (Error x, s))"

text \<open>
  One message read: what is sent to the machine, whether to go on, the attributes and the rest of the
  socket. After a timeout the bytes of the header that were already read are gone.
\<close>

datatype pkt_read =
    Blocked
  | Diverged
  | Panicked
  | Delivered "fsm_input option" bool BGPPeerAttrs "sock_event list"

definition ReadPkt :: "u32 \<Rightarrow> bool \<Rightarrow> u32 \<Rightarrow> BGPPeerAttrs \<Rightarrow> sock_event list \<Rightarrow> pkt_read" where
  "ReadPkt peerAS addPathsRx connId attrs s =
     (case readPartialPkt BGPMsgHeaderLen [] s of
        None \<Rightarrow> Blocked
      | Some (Panic, s) \<Rightarrow> Panicked
      | Some (Error x, s) \<Rightarrow>
          if x = SockTimeout then Delivered None True attrs s
          else Delivered (Some (OutConnErr connId)) False attrs s
      | Some (Ok buf, s) \<Rightarrow>
          (case BGPHeader_Decode NewBGPHeader buf of
             Panic \<Rightarrow> Panicked
           | Error err \<Rightarrow> Delivered (Some (PktRx None (Some err))) False attrs s
           | Ok header \<Rightarrow>
               (case (if unat (BGPHeader_Len header) > BGPMsgHeaderLen
                      then readPartialPkt (unat (BGPHeader_Len header) - BGPMsgHeaderLen) [] s
                      else Some (Ok [], s)) of
                  None \<Rightarrow> Blocked
                | Some (Panic, s) \<Rightarrow> Panicked
                | Some (Error x, s) \<Rightarrow> Delivered (Some (OutConnErr connId)) False attrs s
                | Some (Ok buf, s) \<Rightarrow>
                    (case DecodeMessage peerAS addPathsRx attrs header buf of
                       None \<Rightarrow> Diverged
                     | Some (Ok (msg, err, msgOk, attrs)) \<Rightarrow> Delivered (Some (PktRx msg err)) msgOk attrs s
                     | Some _ \<Rightarrow> Panicked))))"

text \<open>What is left to read: every message takes something from it.\<close>

fun sock_size :: "sock_event list \<Rightarrow> nat" where
  "sock_size [] = 0"
| "sock_size (Chunk bs # s) = length bs + 1 + sock_size s"
| "sock_size (x # s) = 1 + sock_size s"

lemma readPartialPkt_size:
  "readPartialPkt len buf s = Some (r, s') \<Longrightarrow> sock_size s' \<le> sock_size s"
  by (induction len buf s rule: readPartialPkt.induct) (auto split: if_splits)

lemma readPartialPkt_takes:
  "readPartialPkt len buf s = Some (r, s') \<Longrightarrow> length buf < len \<Longrightarrow> sock_size s' < sock_size s"
  by (induction len buf s rule: readPartialPkt.induct)
     (auto split: if_splits dest!: readPartialPkt_size)

lemma ReadPkt_takes:
  assumes "ReadPkt as rx c attrs s = Delivered i go attrs' s'"
  shows "sock_size s' < sock_size s"
proof -
  obtain r s1 where 1: "readPartialPkt BGPMsgHeaderLen [] s = Some (r, s1)"
    using assms by (cases "readPartialPkt BGPMsgHeaderLen [] s") (auto simp: ReadPkt_def)
  then have less: "sock_size s1 < sock_size s" by (rule readPartialPkt_takes) (simp add: BGPMsgHeaderLen_def)
  have "sock_size s' \<le> sock_size s1"
    using assms 1 by (auto simp: ReadPkt_def dest!: readPartialPkt_size
        split: outcome.splits option.splits if_splits prod.splits)
  with less show ?thesis by simp
qed

text \<open>\<open>StartReading\<close> until it stops: what the machine gets, and how the reading ended.\<close>

datatype read_end = EndBlocked | EndDiverged | EndPanicked | EndStopped

function PeerConn_StartReading :: "u32 \<Rightarrow> bool \<Rightarrow> u32 \<Rightarrow> BGPPeerAttrs \<Rightarrow> sock_event list \<Rightarrow> fsm_input list \<times> read_end" where
  "PeerConn_StartReading as rx c attrs s =
     (case ReadPkt as rx c attrs s of
        Blocked \<Rightarrow> ([], EndBlocked)
      | Diverged \<Rightarrow> ([], EndDiverged)
      | Panicked \<Rightarrow> ([], EndPanicked)
      | Delivered i go attrs' s' \<Rightarrow>
          (let here = (case i of Some x \<Rightarrow> [x] | None \<Rightarrow> [])
           in if go then (let (is, r) = PeerConn_StartReading as rx c attrs' s' in (here @ is, r))
              else (here, EndStopped)))"
  by pat_completeness auto
termination
  by (relation "measure (\<lambda>(as, rx, c, attrs, s). sock_size s)") (auto simp: ReadPkt_takes)

declare PeerConn_StartReading.simps [simp del]

end
