(* ===== verification/BgpConnProps.thy ===== *)
theory BgpConnProps
  imports BgpConn BgpFsmRun
begin

text \<open>
  What the reader of a connection delivers: the messages that were sent, however the stream was cut;
  and what becomes of a message whose header a timeout interrupts.
\<close>

section \<open>Reading a stream\<close>

lemma readPartialPkt_chunks:
  "concat cs = x @ y \<Longrightarrow> length buf + length x = len \<Longrightarrow>
   \<exists>cs'. readPartialPkt len buf (map Chunk cs) = Some (Ok (buf @ x), map Chunk cs') \<and> concat cs' = y"
proof (induction cs arbitrary: buf x)
  case Nil
  then show ?case by simp
next
  case (Cons c cs)
  show ?case
  proof (cases "x = []")
    case True
    then show ?thesis using Cons.prems by (intro exI [of _ "c # cs"]) simp
  next
    case False
    then have lt: "\<not> len \<le> length buf" using Cons.prems(2) by (cases x) auto
    show ?thesis
    proof (cases "length c \<le> length x")
      case True
      then obtain x' where x': "x = c @ x'" "concat cs = x' @ y"
        using Cons.prems(1) by (auto simp: append_eq_append_conv2)
      then show ?thesis
        using Cons.IH [of x' "buf @ c"] Cons.prems(2) lt True by auto
    next
      case less: False
      then have "c = x @ drop (length x) c" using Cons.prems(1)
        by (auto simp: append_eq_append_conv2)
      moreover have "len - length buf = length x" using Cons.prems(2) by simp
      moreover have "take (length x) c = x" by (metis calculation(1) append_eq_conv_conj)
      moreover have "drop (length x) c @ concat cs = y"
        using Cons.prems(1) calculation(1) by (metis append.assoc concat.simps(2) same_append_eq)
      ultimately show ?thesis using lt less by (intro exI [of _ "drop (length x) c # cs"]) simp
    qed
  qed
qed

text \<open>One message: its header, then its body.\<close>

lemma ReadPkt_message:
  assumes "concat cs = BGPHeader_Encode (header_of len t) @ body @ rest" "unat len = 19 + length body"
    and "DecodeMessage as rx attrs (header_of len t) body = Some (Ok (msg, err, go, attrs'))"
  shows "\<exists>cs'. ReadPkt as rx c attrs (map Chunk cs) = Delivered (Some (PktRx msg err)) go attrs' (map Chunk cs') \<and>
           concat cs' = rest"
proof -
  let ?hb = "BGPHeader_Encode (header_of len t)"
  have hb: "length ?hb = 19" by (simp add: BGPHeader_Encode_def)
  then obtain cs1 where 1: "readPartialPkt 19 [] (map Chunk cs) = Some (Ok ?hb, map Chunk cs1)" "concat cs1 = body @ rest"
    using readPartialPkt_chunks [OF assms(1), of "[]"] by auto
  have dec: "BGPHeader_Decode NewBGPHeader ?hb = Ok (header_of len t)"
    by (simp add: BGPHeader_Decode_def BGPHeader_Encode_def header_of_def slice_def idx_def nth_append NewBGPHeader_def)
  have len: "unat (BGPHeader_Len (header_of len t)) = 19 + length body"
    using assms(2) by (simp add: BGPHeader_Len_def header_of_def)
  obtain cs2 where 2: "(if length body > 0 then readPartialPkt (length body) [] (map Chunk cs1) else Some (Ok [], map Chunk cs1)) =
      Some (Ok body, map Chunk cs2)" "concat cs2 = rest"
    using readPartialPkt_chunks [OF 1(2), of "[]" "length body"] 1(2) by (cases "body = []") auto
  show ?thesis
    using 1(1) dec len 2 assms(3) by (intro exI [of _ cs2], cases "body = []") (simp_all add: ReadPkt_def BGPMsgHeaderLen_def)
qed

text \<open>Messages after which the reader goes on with the attributes it has.\<close>

fun plain_body :: "BGPBody \<Rightarrow> bool" where
  "plain_body (UpdateBody u) = True"
| "plain_body KeepAliveBody = True"
| "plain_body _ = False"

definition message_with :: "BGPBody \<Rightarrow> BGPMessage" where
  "message_with b = \<lparr>msg_Header = header_of 0 (body_type b), msg_Body = b\<rparr>"

definition received_as :: "BGPBody \<Rightarrow> BGPMessage" where
  "received_as b = \<lparr>msg_Header = header_of (of_nat (length (bytes_of (message_with b)))) (body_type b), msg_Body = body_on_wire b\<rparr>"

lemma bytes_of_wf:
  assumes "wf_body peer b"
  shows "\<exists>body. bytes_of (message_with b) = BGPHeader_Encode (header_of (of_nat (19 + length body)) (body_type b)) @ body \<and>
    unat (of_nat (19 + length body) :: u16) = 19 + length body \<and>
    BGPMessage_Decode (header_of (of_nat (19 + length body)) (body_type b)) body peer =
      Some (Ok \<lparr>msg_Header = header_of (of_nat (19 + length body)) (body_type b), msg_Body = body_on_wire b\<rparr>)"
proof -
  obtain body where body: "BGPBody_Encode b = Ok body" and short: "length body \<le> 4077"
    and dec: "\<And>h. unat (bh_Length h) = 19 + length body \<Longrightarrow> bh_Type h = body_type b \<Longrightarrow>
                BGPMessage_Decode h body peer = Some (Ok \<lparr>msg_Header = h, msg_Body = body_on_wire b\<rparr>)"
    using wf_body_wire [OF assms] by blast
  have len: "unat (of_nat (19 + length body) :: u16) = 19 + length body"
    using short unat_small16 [of "19 + length body"] by simp
  have "bytes_of (message_with b) = BGPHeader_Encode (header_of (of_nat (19 + length body)) (body_type b)) @ body"
    using body short
    by (simp add: bytes_of_def message_with_def BGPMessage_Encode_def header_of_def NewBGPHeader_def
        BGPMsgHeaderLen_def BGPMsgMaxLen_def)
  moreover have "BGPMessage_Decode (header_of (of_nat (19 + length body)) (body_type b)) body peer =
      Some (Ok \<lparr>msg_Header = header_of (of_nat (19 + length body)) (body_type b), msg_Body = body_on_wire b\<rparr>)"
    using len by (intro dec) (simp_all add: header_of_def)
  ultimately show ?thesis using len by blast
qed

lemma length_bytes_of:
  "bytes_of (message_with b) = BGPHeader_Encode h @ body \<Longrightarrow> length (bytes_of (message_with b)) = 19 + length body"
  by (simp add: BGPHeader_Encode_def)

lemma ReadPkt_body:
  assumes "wf_body peer b" "plain_body b" "concat cs = bytes_of (message_with b) @ rest"
  shows "\<exists>cs'. ReadPkt as rx c peer (map Chunk cs) =
           Delivered (Some (PktRx (Some (received_as b)) None)) True peer (map Chunk cs') \<and> concat cs' = rest"
proof -
  obtain body where b: "bytes_of (message_with b) = BGPHeader_Encode (header_of (of_nat (19 + length body)) (body_type b)) @ body"
    "unat (of_nat (19 + length body) :: u16) = 19 + length body"
    "BGPMessage_Decode (header_of (of_nat (19 + length body)) (body_type b)) body peer =
      Some (Ok \<lparr>msg_Header = header_of (of_nat (19 + length body)) (body_type b), msg_Body = body_on_wire b\<rparr>)"
    using bytes_of_wf [OF assms(1)] by blast
  have r: "received_as b = \<lparr>msg_Header = header_of (of_nat (19 + length body)) (body_type b), msg_Body = body_on_wire b\<rparr>"
    by (simp add: received_as_def length_bytes_of [OF b(1)])
  have "DecodeMessage as rx peer (header_of (of_nat (19 + length body)) (body_type b)) body =
      Some (Ok (Some (received_as b), None, True, peer))"
    using assms(2) b(3) r by (cases b) (simp_all add: DecodeMessage_def)
  then show ?thesis
    using assms(3) b(1,2) by (intro ReadPkt_message) simp_all
qed

lemma StartReading_bodies:
  "\<forall>b \<in> set bs. wf_body peer b \<and> plain_body b \<Longrightarrow> concat cs = concat (map (\<lambda>b. bytes_of (message_with b)) bs) \<Longrightarrow>
   PeerConn_StartReading as rx c peer (map Chunk cs) = (map (\<lambda>b. PktRx (Some (received_as b)) None) bs, EndBlocked)"
proof (induction bs arbitrary: cs)
  case Nil
  have "readPartialPkt 19 [] (map Chunk cs) = None"
    using Nil.prems(2) by (induction cs) simp_all
  then show ?case by (subst PeerConn_StartReading.simps) (simp add: ReadPkt_def BGPMsgHeaderLen_def)
next
  case (Cons b bs)
  then obtain cs' where cs': "ReadPkt as rx c peer (map Chunk cs) =
           Delivered (Some (PktRx (Some (received_as b)) None)) True peer (map Chunk cs')"
    "concat cs' = concat (map (\<lambda>b. bytes_of (message_with b)) bs)"
    using ReadPkt_body [of peer b cs "concat (map (\<lambda>b. bytes_of (message_with b)) bs)" as rx c] by auto
  show ?case using Cons.IH [OF _ cs'(2)] Cons.prems(1) cs'(1) by (subst PeerConn_StartReading.simps) simp
qed

section \<open>Waiting for reachability\<close>

lemma wait_reachable_answers:
  "6 < unat seconds \<Longrightarrow> unat seconds \<le> 3 * length rs \<Longrightarrow> \<exists>x. wait_reachable seconds rs = Some x"
proof (induction rs arbitrary: seconds)
  case (Cons r rs)
  have "3 \<le> seconds" using Cons.prems(1) by (simp add: word_le_nat_alt)
  then have s: "unat (seconds - 3) = unat seconds - 3" by (simp add: unat_sub)
  show ?case
  proof (cases "r \<noteq> None \<or> seconds - 3 \<le> 6")
    case True
    then show ?thesis by simp
  next
    case False
    then have "6 < unat (seconds - 3)" by (simp add: word_le_nat_alt)
    then show ?thesis using Cons.IH [of "seconds - 3"] Cons.prems s False by auto
  qed
qed simp

section \<open>Properties\<close>

text \<open>C7: 
  However TCP cuts the stream: when a peer sends well-formed UPDATE and KEEPALIVE messages and the
  socket yields their bytes in chunks of any sizes, the reader hands the machine exactly these
  messages, in their order, and then waits for more.
\<close>

theorem stream_delivers_messages:
  assumes "\<forall>b \<in> set bs. wf_body peer b \<and> plain_body b"
    and "concat chunks = concat (map (\<lambda>b. bytes_of (message_with b)) bs)"
  shows "PeerConn_StartReading as rx c peer (map Chunk chunks) =
           (map (\<lambda>b. PktRx (Some (received_as b)) None) bs, EndBlocked)"
  using assms by (rule StartReading_bodies)

lemma keepalive_bytes: "bytes_of (message_with KeepAliveBody) = replicate 16 0xff @ [0, 19, 4]"
  by (simp add: bytes_of_def message_with_def BGPMessage_Encode_def header_of_def NewBGPHeader_def BGPKeepAlive_Encode_def
      BGPMsgHeaderLen_def BGPMsgMaxLen_def BGPHeader_Encode_def put16_def BGPMsgTypeKeepAlive_def Let_def)

theorem stream_delivers_messages_witness:
  "PeerConn_StartReading 65001 False 7 example_peer
     [Chunk [0xff, 0xff], Chunk (replicate 14 0xff @ [0, 19, 4, 0xff]), Chunk [], Chunk (replicate 15 0xff @ [0, 19, 4])] =
   ([PktRx (Some (received_as KeepAliveBody)) None, PktRx (Some (received_as KeepAliveBody)) None], EndBlocked)"
  using stream_delivers_messages [of "[KeepAliveBody, KeepAliveBody]" example_peer
    "[[0xff, 0xff], replicate 14 0xff @ [0, 19, 4, 0xff], [], replicate 15 0xff @ [0, 19, 4]]" 65001 False 7]
  by (simp add: keepalive_bytes numeral_eq_Suc)

text \<open>C34: 
  The dialing code never waits for ever for a neighbor that is not reachable, if its questions are
  answered: it asks at most one time for every 3 seconds of the retry interval, and then either
  dials or reports an error.
\<close>

theorem dial_returns:
  assumes "unat seconds \<le> 3 * length (de_retries de)"
  shows "\<exists>r. OutTCPConn_Connect de seconds remote local = Some r"
proof (cases "de_first de = None \<and> 6 < seconds")
  case True
  then have "6 < unat seconds" by (simp add: word_less_nat_alt)
  then obtain x where "wait_reachable seconds (de_retries de) = Some x"
    using wait_reachable_answers assms by blast
  then show ?thesis using True by (cases x) (auto simp: OutTCPConn_Connect_def Let_def split: option.split)
qed (auto simp: OutTCPConn_Connect_def Let_def split: option.split)

definition sample_dial :: dial_env where
  "sample_dial = \<lparr>de_first = None, de_retries = [None, None, Some None, None],
     de_ip_configured = (\<lambda>_. True), de_dial = (\<lambda>_ _ _. Dialed 7)\<rparr>"

theorem dial_returns_witness: "\<exists>r. OutTCPConn_Connect sample_dial 12 ''192.0.2.1:179'' '''' = Some r"
  by (rule dial_returns) (simp add: sample_dial_def)

text \<open>
  A header that a read timeout interrupts is lost: the bytes already read are dropped, the reader
  takes the rest of the message for the start of the next one, and the message is not delivered.
\<close>

theorem partial_header_lost:
  assumes "0 < k" "k < 19"
  shows "PeerConn_StartReading as rx c peer
           [Chunk (take k (bytes_of NewBGPKeepAliveMessage)), SockTimeout, Chunk (drop k (bytes_of NewBGPKeepAliveMessage))] =
         ([], EndBlocked)"
proof -
  have len: "length (bytes_of NewBGPKeepAliveMessage) = 19"
    by (simp add: bytes_of_def NewBGPKeepAliveMessage_def BGPMessage_Encode_def header_of_def BGPKeepAlive_Encode_def
        BGPHeader_Encode_def NewBGPHeader_def)
  have "\<not> 19 \<le> 19 - k" using assms by simp
  then show ?thesis
    using assms len by (subst PeerConn_StartReading.simps, subst PeerConn_StartReading.simps)
      (simp add: ReadPkt_def BGPMsgHeaderLen_def)
qed

theorem partial_header_lost_witness:
  "PeerConn_StartReading 65001 False 7 example_peer
     [Chunk (take 10 (bytes_of NewBGPKeepAliveMessage)), SockTimeout, Chunk (drop 10 (bytes_of NewBGPKeepAliveMessage))] =
   ([], EndBlocked)"
  by (rule partial_header_lost) simp_all

text \<open>
  An OPEN whose header says that there is no body: the decoder indexes the empty body, and the
  goroutine that reads the connection panics, before the session has been authenticated in any way.
\<close>

theorem empty_open_panics:
  "PeerConn_StartReading as rx c attrs [Chunk (replicate 16 m @ [0, 19, 1])] = ([], EndPanicked)"
  by (subst PeerConn_StartReading.simps)
     (simp add: ReadPkt_def BGPMsgHeaderLen_def BGPHeader_Decode_def slice_def idx_def nth_append
       BGPHeader_Len_def DecodeMessage_def BGPMessage_Decode_def BGPMsgTypeOpen_def BGPOpen_Decode_def be16_def)

end
