(* ===== verification/BgpFsmPeers.thy ===== *)
theory BgpFsmPeers
  imports BgpFsmDiagram BgpConnProps
begin

text \<open>
  Two speakers, each with a machine, a manager and a reader, that exchange the bytes the machines
  write; and collisions of the two connections they may open to each other.
\<close>

section \<open>What a step keeps of the manager\<close>

definition kept :: "FSMManager \<Rightarrow> FSMManager \<Rightarrow> bool" where
  "kept m m' \<longleftrightarrow> mgr_ok m' \<and> fm_fsms m' = fm_fsms m \<and>
     nb_RunningConf (fm_neighborConf m') = nb_RunningConf (fm_neighborConf m) \<and>
     nb_Global (fm_neighborConf m') = nb_Global (fm_neighborConf m) \<and>
     nb_AfiSafiMap (fm_neighborConf m') = nb_AfiSafiMap (fm_neighborConf m)"

lemma kept_refl: "mgr_ok m \<Longrightarrow> kept m m"
  by (simp add: kept_def)

lemma kept_trans: "kept m m' \<Longrightarrow> kept m' m'' \<Longrightarrow> kept m m''"
  by (simp add: kept_def)

lemma kept_told: "kept m m' \<Longrightarrow> kept m (told now i s m')"
  by (simp add: kept_def told_def FSMStateChange_def)

lemma kept_established: "kept m m' \<Longrightarrow> kept m (fsmEstablished i c m')"
  by (simp add: kept_def fsmEstablished_def mgr_emit_def mgr_ok_def split: option.split)

lemma kept_SetPeerAttrs:
  "kept m m' \<Longrightarrow> kept m (m'\<lparr>fm_neighborConf := SetPeerAttrs a b c d g (fm_neighborConf m')\<rparr>)"
  by (simp add: kept_def mgr_ok_def) (simp add: SetPeerAttrs_def Let_def)

section \<open>The exact effect of the handshake\<close>

definition said :: "BgpFSM \<Rightarrow> byte list" where
  "said f = (case rev (bf_out f) of Tx c bs # _ \<Rightarrow> bs | _ \<Rightarrow> [])"

lemma wp_opensent_exact:
  assumes "mgr_ok m" "\<not> bf_close f" "bf_State f \<in> {BGPFSMConnect, BGPFSMActive}"
  shows "wp (ChangeState e BGPFSMOpensent) Q (f, m) \<longleftrightarrow>
    Q (set_state BGPFSMOpensent f, told (ev_now e) (bf_id f) BGPFSMOpensent m)"
  using assms by (auto simp: wp_simps wp_ChangeState_open state_ops set_state_def)

lemma wp_openconfirm_exact:
  assumes "mgr_ok m" "\<not> bf_close f" "bf_State f = BGPFSMOpensent"
  shows "wp (ChangeState e BGPFSMOpenconfirm) Q (f, m) \<longleftrightarrow>
    Q (set_state BGPFSMOpenconfirm f, told (ev_now e) (bf_id f) BGPFSMOpenconfirm m)"
  using assms by (auto simp: wp_simps wp_ChangeState_open state_ops set_state_def)

lemma wp_established_exact:
  assumes "mgr_ok m" "\<not> bf_close f" "bf_State f = BGPFSMOpenconfirm" "bf_peerConn f = Some p"
  shows "wp (ChangeState e BGPFSMEstablished) Q (f, m) \<longleftrightarrow>
    Q (SetIdleHoldTime BGPIdleHoldTimeDefault (set_state BGPFSMEstablished f),
       told (ev_now e) (bf_id f) BGPFSMEstablished (fsmEstablished (bf_id f) (pc_conn p) m))"
  using assms by (auto simp: wp_simps wp_ChangeState_open state_ops set_state_def SetIdleHoldTime_def)

text \<open>A machine with a connection in a given state of the handshake.\<close>

definition at_state :: "BGPFSMState \<Rightarrow> BgpFSM \<Rightarrow> BgpFSM \<Rightarrow> bool" where
  "at_state s f f' \<longleftrightarrow> bf_State f' = s \<and> bf_id f' = bf_id f \<and> \<not> bf_close f' \<and> \<not> bf_exited f' \<and>
     keep_fits (bf_keepAliveTime f') \<and> timer_fits (bf_connectRetryTime f') \<and>
     (\<exists>p. bf_peerConn f' = Some p \<and> pc_dir p \<noteq> ConnDirInvalid)"

lemma connected_exact:
  assumes "live f" "\<not> bf_close f" "mgr_ok m" "bf_State f \<in> {BGPFSMConnect, BGPFSMActive}" "0 < ev_writes e" "d \<noteq> ConnDirInvalid"
  shows "wp (connected e (ConnData d c)) (\<lambda>(f', m'). at_state BGPFSMOpensent f f' \<and>
     bf_holdTime f' = bc_HoldTime (running m) \<and> said f' = bytes_of (open_message f m) \<and> kept m m') (f, m)"
proof -
  define f1 where "f1 = taken e d c (StopConnectRetryTimer f)"
  define f2 where "f2 = sent (ev_writes e) (bytes_of (open_message f1 m)) f1"
  define f3 where "f3 = StartHoldTimer (f2\<lparr>bf_holdTime := bc_HoldTime (running m), bf_keepAliveTime := bc_KeepaliveTime (running m)\<rparr>)"
  have f1: "bf_peerConn f1 \<noteq> None" by (simp add: f1_def del: not_None_eq)
  have om: "open_message f1 m = open_message f m"
    by (simp add: open_message_def f1_def taken_def StopConnectRetryTimer_def emit_def Let_def)
  have f3: "bf_close f3 = bf_close f" "bf_exited f3 = bf_exited f" "bf_State f3 = bf_State f"
    "bf_connectRetryTime f3 = bf_connectRetryTime f" "bf_id f3 = bf_id f" "bf_keepAliveTime f3 = bc_KeepaliveTime (running m)"
    "\<exists>p. bf_peerConn f3 = Some p \<and> pc_dir p \<noteq> ConnDirInvalid" "bf_holdTime f3 = bc_HoldTime (running m)"
    "said f3 = bytes_of (open_message f m)"
    using assms(5,6) om
    by (simp_all add: f3_def f2_def StartHoldTimer_def f1_def StopConnectRetryTimer_def taken_def emit_def sent_def said_def Let_def)
  have none: "bf_peerConn (StopConnectRetryTimer f) = None"
    using live_conn [OF assms(1)] assms(4) by (auto simp: StopConnectRetryTimer_def)
  have "at_state BGPFSMOpensent f (set_state BGPFSMOpensent f3)"
    using f3 assms(2) live_fits [OF assms(1)] mgr_ok_running [OF assms(3)] by (simp add: at_state_def set_state_def)
  moreover have "said (set_state BGPFSMOpensent f3) = said f3" by (simp add: said_def set_state_def)
  moreover have "bf_holdTime (set_state BGPFSMOpensent f3) = bf_holdTime f3" by (simp add: set_state_def)
  ultimately have "wp (ChangeState e BGPFSMOpensent) (\<lambda>(f', m'). at_state BGPFSMOpensent f f' \<and>
     bf_holdTime f' = bc_HoldTime (running m) \<and> said f' = bytes_of (open_message f m) \<and> kept m m') (f3, m)"
    using f3 assms kept_told [OF kept_refl [OF assms(3)]] by (subst wp_opensent_exact) auto
  then show ?thesis
    using none f1 unfolding connected_def
    by (simp add: wp_loc wp_seq_cons wp_seq_nil wp_SetPeerConn wp_sendOpenMessage [OF assms(3)]
          wp_SetRunningHoldTime [OF assms(3)] f3_def f2_def f1_def)
qed

text \<open>The only machine of its manager: no collision to resolve.\<close>

lemma receivedBGPOpenMessage_alone:
  assumes "mgr_ok m" "open_ok op" "fm_fsms m = [(i, ptr)]" "d \<noteq> ConnDirInvalid"
  shows "\<exists>m'. receivedBGPOpenMessage i d op f m = Ok (m', True) \<and> kept m m'"
proof -
  have "length (To4 (gc_RouterId (nb_Global (fm_neighborConf m)))) = 4"
    using assms by (simp add: mgr_ok_def conf_ok_def)
  then obtain l where l: "ConvertIPBytesToUint (To4 (gc_RouterId (nb_Global (fm_neighborConf m)))) = Ok l"
    using ConvertIPBytesToUint_total by blast
  obtain r where r: "ConvertIPBytesToUint (To4 (open_BGPId op)) = Ok r"
    using assms ConvertIPBytesToUint_total by (auto simp: open_ok_def)
  obtain z where z: "GetASSize op = Ok z" using assms by (auto simp: open_ok_def)
  have kept: "kept m (sync f m)" using assms(1) by (simp add: kept_def) (simp add: sync_def)
  have locked: "fm_neighborConf (sync f m) = fm_neighborConf m" "fm_fsms (sync f m) = [(i, ptr)]"
    using assms(1,3) by (simp_all add: sync_def mgr_ok_def)
  have "resolve_collisions l r i d [(i, ptr)] (sync f m, ConnDirInvalid) = (sync f m, ConnDirInvalid)" by simp
  then show ?thesis
    using l r z assms(1,4) locked kept_SetPeerAttrs [OF kept] by (simp add: receivedBGPOpenMessage_def Let_def outcome_of_def)
qed

lemma opened_exact:
  assumes "at_state BGPFSMOpensent f0 f" "mgr_ok m" "fm_fsms m = [(bf_id f0, ptr)]" "msg_Body y = OpenBody op" "open_ok op"
    and "0 < ev_writes e"
  shows "wp (ProcessEvent e BGPEventBGPOpen (MsgData y)) (\<lambda>(f', m'). at_state BGPFSMOpenconfirm f0 f' \<and>
     bf_holdTime f' = bf_holdTime (heard_open op m f) \<and> said f' = bytes_of NewBGPKeepAliveMessage \<and> kept m m') (f, m)"
proof -
  define f1 where "f1 = heard_open op m (StopConnectRetryTimer f)"
  obtain p where p: "bf_peerConn f = Some p" "pc_dir p \<noteq> ConnDirInvalid" using assms(1) by (auto simp: at_state_def)
  have hold: "bf_holdTime f1 = bf_holdTime (heard_open op m f)"
    by (simp add: f1_def heard_open_def SetHoldTime_def StopConnectRetryTimer_def Let_def)
  have f1: "bf_State f1 = BGPFSMOpensent" "bf_id f1 = bf_id f0" "\<not> bf_close f1" "\<not> bf_exited f1"
    "keep_fits (bf_keepAliveTime f1)" "timer_fits (bf_connectRetryTime f1)" "bf_peerConn f1 = Some p"
    using assms(1) p keep_fits_heard [of "StopConnectRetryTimer f" op m] unfolding at_state_def
    by (simp_all add: f1_def) (simp_all add: StopConnectRetryTimer_def)
  obtain m' where m': "receivedBGPOpenMessage (bf_id f1) (pc_dir p) op f1 m = Ok (m', True)" "kept m m'"
    using receivedBGPOpenMessage_alone [OF assms(2,5) _ p(2), of "bf_id f1" ptr f1] assms(3) f1(2) by auto
  have pom: "ProcessOpenMessage y (StopConnectRetryTimer f, m) = Ok ((f1, m'), True)"
    using m'(1) f1(7) assms(4) unfolding ProcessOpenMessage_def f1_def heard_open_def by (simp add: Let_def)
  let ?t = "if bf_keepAliveTime f1 \<noteq> 0 then Some (drawn e (bf_keepAliveTime f1)) else None"
  define f2 where "f2 = StartHoldTimer ((sent (ev_writes e) (bytes_of NewBGPKeepAliveMessage) f1)\<lparr>bf_keepAliveTimer := ?t\<rparr>)"
  have f2: "at_state BGPFSMOpenconfirm f0 (set_state BGPFSMOpenconfirm f2)" "bf_State f2 = BGPFSMOpensent" "\<not> bf_close f2"
    "bf_holdTime (set_state BGPFSMOpenconfirm f2) = bf_holdTime f1"
    "said (set_state BGPFSMOpenconfirm f2) = bytes_of NewBGPKeepAliveMessage"
    using f1 p(2) assms(6)
    by (simp_all add: at_state_def set_state_def f2_def) (simp_all add: StartHoldTimer_def sent_def said_def)
  have "mgr_ok m'" using m'(2) by (simp add: kept_def)
  then have "wp (ChangeState e BGPFSMOpenconfirm) (\<lambda>(f', m'). at_state BGPFSMOpenconfirm f0 f' \<and>
     bf_holdTime f' = bf_holdTime (heard_open op m f) \<and> said f' = bytes_of NewBGPKeepAliveMessage \<and> kept m m') (f2, m')"
    using f2 hold kept_told [OF m'(2)] by (subst wp_openconfirm_exact) auto
  then have "wp (seq [sendKeepAliveMessage e, loc StartHoldTimer, ChangeState e BGPFSMOpenconfirm]) (\<lambda>(f', m'). at_state BGPFSMOpenconfirm f0 f' \<and>
     bf_holdTime f' = bf_holdTime (heard_open op m f) \<and> said f' = bytes_of NewBGPKeepAliveMessage \<and> kept m m') (f1, m')"
    using f1 unfolding f2_def by (simp add: wp_loc wp_seq_cons wp_seq_nil wp_sendKeepAliveMessage wp_StartKeepAliveTimer
        del: not_None_eq split del: if_split cong: if_cong)
  then show ?thesis
    using pom assms(1) by (simp add: ProcessEvent_def OpenSentState_processEvent_def wp_def at_state_def)
qed

lemma confirmed_exact:
  assumes "at_state BGPFSMOpenconfirm f0 f" "mgr_ok m"
  shows "wp (ProcessEvent e BGPEventKeepAliveMsg d) (\<lambda>(f', m'). at_state BGPFSMEstablished f0 f' \<and>
     bf_holdTime f' = bf_holdTime f \<and> kept m m') (f, m)"
proof -
  obtain p where p: "bf_peerConn f = Some p" "pc_dir p \<noteq> ConnDirInvalid" using assms(1) by (auto simp: at_state_def)
  have "wp (ChangeState e BGPFSMEstablished) (\<lambda>(f', m'). at_state BGPFSMEstablished f0 f' \<and>
     bf_holdTime f' = bf_holdTime f \<and> kept m m') (StartHoldTimer f, m)"
    using assms p kept_told [OF kept_established [OF kept_refl [OF assms(2)]]]
    by (subst wp_established_exact [of _ _ p]) (auto simp: at_state_def SetIdleHoldTime_def set_state_def StartHoldTimer_def)
  then show ?thesis
    using assms(1) by (simp add: ProcessEvent_def OpenConfirmState_processEvent_def wp_def at_state_def seq.simps loc_def obind_eq_Ok)
qed

section \<open>What each hears\<close>

lemma open_offer_short:
  assumes "length families \<le> 23" "length (To4 (ParseIP bgpId)) = 4"
    and "BGPOpen_Encode (NewBGPOpen as hold bgpId (ConstructOptParams as families rx tx)) = Ok bs"
  shows "length bs \<le> 255"
proof -
  define caps where "caps = offered as families (add_path_flags rx tx)"
  define m where "m = NewBGPOpen as hold bgpId (ConstructOptParams as families rx tx)"
  have wf: "\<forall>c \<in> set caps. wf_cap c" using wf_offered [of families] assms(1) unfolding caps_def by simp
  have len: "length (concat (map cap_bytes caps)) \<le> 238"
    using length_offered [of as families "add_path_flags rx tx"] assms(1) unfolding caps_def by linarith
  have params: "open_OptParams m = [NewBGPOptParamCapability caps]"
    by (simp add: m_def caps_def NewBGPOpen_def ConstructOptParams_offered)
  have wfp: "\<forall>p \<in> set (open_OptParams m). wf_optparam p"
    using wf_NewBGPOptParamCapability [OF wf] len params by simp
  have "length (params_bytes m) \<le> 245"
    using len by (simp add: params_bytes_def params NewBGPOptParamCapability_def)
  moreover have "open_OptParamLen m = of_nat (length (params_bytes m))"
    using of_nat_params [OF wfp] by (simp add: m_def NewBGPOpen_def params_bytes_def)
  moreover have id4: "length (To4 (open_BGPId m)) = 4" using assms(2) by (simp add: m_def NewBGPOpen_def)
  ultimately have "BGPOpen_Encode m = Ok (open_bytes m)" "length (open_bytes m) \<le> 255"
    using BGPOpen_Encode_Ok [OF wfp id4] by (simp_all add: open_bytes_def id4)
  then show ?thesis using assms(3) by (simp add: m_def)
qed

lemma ucast_hold: "h < 65536 \<Longrightarrow> (ucast (ucast (h :: u32) :: u16) :: u32) = h"
  using bit_small [of h _ 16] by (intro bit_word_eqI) (auto simp: bit_simps)

lemma heard_hold:
  assumes "bf_holdTime f = h" "3 \<le> h'" "ucast (open_HoldTime op) = h'"
  shows "bf_holdTime (heard_open op m f) = min h h'"
proof -
  have "\<not> h' < 3" using assms(2) by simp
  then show ?thesis using assms(1,3) by (auto simp: heard_open_def SetHoldTime_def Let_def min_def)
qed

lemma hear_open:
  assumes "mgr_ok m" "bf_holdTime f < 65536"
  shows "\<exists>y op attrs s. ReadPkt (bc_LocalAS (running m)) rx c NewPeerConn_attrs [Chunk (bytes_of (open_message f m))] =
      Delivered (Some (PktRx (Some y) None)) True attrs s \<and> msg_Body y = OpenBody op \<and> open_ok op \<and>
      bh_Type (msg_Header y) = BGPMsgTypeOpen \<and> ucast (open_HoldTime op) = bf_holdTime f"
proof -
  let ?n = "fm_neighborConf m"
  let ?r = "To4 (gc_RouterId (nb_Global ?n))"
  obtain bs op where bs: "BGPBody_Encode (msg_Body (open_message f m)) = Ok bs" "BGPOpen_Decode bs = Some (Ok op)"
    "open_HoldTime op = ucast (bf_holdTime f)" "open_BGPId op = ?r" "GetPeerAS op = Ok (bc_LocalAS (running m))"
    "GetASSize op = Ok 4"
    using open_message_encodes [OF assms(1), of f] by blast
  have r4: "length ?r = 4" and few: "length (map fst (nb_AfiSafiMap ?n)) \<le> 23"
    using assms(1) by (simp_all add: mgr_ok_def conf_ok_def)
  then obtain a b c' d where abcd: "?r = [a, b, c', d]" using length_4 by blast
  have id4: "length (To4 (ParseIP (ip_String ?r))) = 4"
    unfolding abcd ParseIP_String_v4 by (subst To4_mapped) simp_all
  have short: "length bs \<le> 255"
    using open_offer_short [OF few id4] bs(1) by (simp add: open_message_def NewBGPOpenMessage_def)
  have len: "unat (19 + of_nat (length bs) :: u16) = 19 + length bs"
    using unat_small16 [of "19 + length bs"] short by simp
  let ?h = "header_of (19 + of_nat (length bs)) BGPMsgTypeOpen"
  have bytes: "bytes_of (open_message f m) = BGPHeader_Encode ?h @ bs @ []"
    using bs(1) short by (simp add: bytes_of_def open_message_def NewBGPOpenMessage_def BGPMessage_Encode_def header_of_def
        NewBGPHeader_def BGPMsgHeaderLen_def BGPMsgMaxLen_def)
  have "BGPMessage_Decode ?h bs NewPeerConn_attrs = Some (Ok \<lparr>msg_Header = ?h, msg_Body = OpenBody op\<rparr>)"
    using bs(2) by (simp add: BGPMessage_Decode_def header_of_def)
  then obtain attrs where dec: "DecodeMessage (bc_LocalAS (running m)) rx NewPeerConn_attrs ?h bs =
      Some (Ok (Some \<lparr>msg_Header = ?h, msg_Body = OpenBody op\<rparr>, None, True, attrs))"
    using bs(5,6) by (simp add: DecodeMessage_def learn_peer_def Let_def)
  obtain cs where "ReadPkt (bc_LocalAS (running m)) rx c NewPeerConn_attrs (map Chunk [bytes_of (open_message f m)]) =
      Delivered (Some (PktRx (Some \<lparr>msg_Header = ?h, msg_Body = OpenBody op\<rparr>) None)) True attrs (map Chunk cs)"
    using ReadPkt_message [of "[bytes_of (open_message f m)]", OF _ len dec, of "[]" c] bytes by auto
  moreover have "open_ok op" using bs(4,6) r4 by (simp add: open_ok_def)
  moreover have "ucast (open_HoldTime op) = bf_holdTime f" using bs(3) ucast_hold [OF assms(2)] by simp
  ultimately show ?thesis by (auto simp: header_of_def)
qed

lemma hear_keepalive:
  "\<exists>y s. ReadPkt as rx c attrs [Chunk (bytes_of NewBGPKeepAliveMessage)] = Delivered (Some (PktRx (Some y) None)) True attrs s \<and>
      msg_Body y = KeepAliveBody \<and> bh_Type (msg_Header y) = BGPMsgTypeKeepAlive"
proof -
  have "bytes_of NewBGPKeepAliveMessage = BGPHeader_Encode (header_of 19 BGPMsgTypeKeepAlive) @ [] @ []"
    by (simp add: bytes_of_def NewBGPKeepAliveMessage_def BGPMessage_Encode_def header_of_def BGPKeepAlive_Encode_def NewBGPHeader_def)
  moreover have "DecodeMessage as rx attrs (header_of 19 BGPMsgTypeKeepAlive) [] =
      Some (Ok (Some \<lparr>msg_Header = header_of 19 BGPMsgTypeKeepAlive, msg_Body = KeepAliveBody\<rparr>, None, True, attrs))"
    by (simp add: DecodeMessage_def BGPMessage_Decode_def header_of_def)
  ultimately obtain cs where "ReadPkt as rx c attrs (map Chunk [bytes_of NewBGPKeepAliveMessage]) =
      Delivered (Some (PktRx (Some \<lparr>msg_Header = header_of 19 BGPMsgTypeKeepAlive, msg_Body = KeepAliveBody\<rparr>) None)) True attrs (map Chunk cs)"
    using ReadPkt_message [of "[bytes_of NewBGPKeepAliveMessage]" 19 BGPMsgTypeKeepAlive "[]" "[]" as rx attrs _ _ _ _ c] by auto
  then show ?thesis by (auto simp: header_of_def)
qed

section \<open>The exchange\<close>

text \<open>One speaker reads the bytes the other has written last, and processes the message.\<close>

definition receive :: "env \<Rightarrow> byte list \<Rightarrow> BGPPeerAttrs \<Rightarrow> BgpFSM \<times> FSMManager \<Rightarrow>
    (stuck, (BgpFSM \<times> FSMManager) \<times> BGPPeerAttrs) outcome" where
  "receive e bs attrs st =
     (case ReadPkt (bc_PeerAS (running (snd st))) (bc_AddPathsRx (running (snd st))) (bf_connId (fst st)) attrs [Chunk bs] of
        Delivered (Some x) go attrs s \<Rightarrow> obind (fsm_select e x st) (\<lambda>st. Ok (st, attrs))
      | _ \<Rightarrow> Panic)"

text \<open>
  A connection from \<open>A\<close> to \<open>B\<close>: both are told of it and send their OPEN, each reads the other's and
  answers, each reads the answer.
\<close>

definition exchange :: "env \<Rightarrow> conn \<Rightarrow> BgpFSM \<times> FSMManager \<Rightarrow> BgpFSM \<times> FSMManager \<Rightarrow>
    (stuck, (BgpFSM \<times> FSMManager) \<times> (BgpFSM \<times> FSMManager)) outcome" where
  "exchange e c A B =
     obind (fsm_select e (OutConn c) A) (\<lambda>A.
     obind (fsm_select e (InConn c) B) (\<lambda>B.
     obind (receive e (said (fst A)) NewPeerConn_attrs B) (\<lambda>(B', attrsB).
     obind (receive e (said (fst B)) NewPeerConn_attrs A) (\<lambda>(A', attrsA).
     obind (receive e (said (fst B')) attrsA A') (\<lambda>(A, attrsA).
     obind (receive e (said (fst A')) attrsB B') (\<lambda>(B, attrsB). Ok (A, B)))))))"

text \<open>A speaker that is ready for a connection and has no other.\<close>

definition ready :: "BgpFSM \<times> FSMManager \<Rightarrow> bool" where
  "ready = (\<lambda>(f, m). live f \<and> \<not> bf_close f \<and> mgr_ok m \<and> bf_State f \<in> {BGPFSMConnect, BGPFSMActive} \<and>
     fm_fsms m = [(bf_id f, bf_self f)] \<and> bf_holdTime f = bc_HoldTime (running m) \<and> bf_holdTime f < 65536)"

lemma select_conn:
  assumes "ready (f, m)" "0 < ev_writes e"
  shows "\<exists>f' m'. fsm_select e (InConn c) (f, m) = Ok (f', m') \<and> at_state BGPFSMOpensent f f' \<and>
     bf_holdTime f' = bc_HoldTime (running m) \<and> said f' = bytes_of (open_message f m) \<and> kept m m'"
    and "bf_outTCPConn f \<noteq> None \<Longrightarrow> \<exists>f' m'. fsm_select e (OutConn c) (f, m) = Ok (f', m') \<and> at_state BGPFSMOpensent f f' \<and>
     bf_holdTime f' = bc_HoldTime (running m) \<and> said f' = bytes_of (open_message f m) \<and> kept m m'"
proof -
  have f: "live f" "\<not> bf_close f" "mgr_ok m" "bf_State f \<in> {BGPFSMConnect, BGPFSMActive}" "\<not> bf_exited f"
    using assms(1) live_fits by (auto simp: ready_def)
  have ev: "ProcessEvent e ev (ConnData d c) (f', m) = connected e (ConnData d c) (f', m)"
    if "ev \<in> {BGPEventTcpCrAcked, BGPEventTcpConnConfirmed}" "bf_State f' = bf_State f" for ev d f'
    using that f(4) by (auto simp: ProcessEvent_def ConnectState_processEvent_def ActiveState_processEvent_def)
  show "\<exists>f' m'. fsm_select e (InConn c) (f, m) = Ok (f', m') \<and> at_state BGPFSMOpensent f f' \<and>
     bf_holdTime f' = bc_HoldTime (running m) \<and> said f' = bytes_of (open_message f m) \<and> kept m m'"
    using connected_exact [OF f(1-4) assms(2), of ConnDirIn c] f(5) ev [of BGPEventTcpConnConfirmed f ConnDirIn]
    by (auto simp: wp_def fsm_select_def)
  assume out: "bf_outTCPConn f \<noteq> None"
  let ?f = "StopConnToPeer f"
  have same: "open_message ?f m = open_message f m" "bf_id ?f = bf_id f"
    by (simp_all add: open_message_def) (simp add: StopConnToPeer_def emit_def split: option.split)
  have "wp (connected e (ConnData ConnDirOut c)) (\<lambda>(f', m'). at_state BGPFSMOpensent ?f f' \<and>
     bf_holdTime f' = bc_HoldTime (running m) \<and> said f' = bytes_of (open_message ?f m) \<and> kept m m') (?f, m)"
    using f assms(2) by (intro connected_exact) (simp_all add: live_StopConnToPeer)
  then show "\<exists>f' m'. fsm_select e (OutConn c) (f, m) = Ok (f', m') \<and> at_state BGPFSMOpensent f f' \<and>
     bf_holdTime f' = bc_HoldTime (running m) \<and> said f' = bytes_of (open_message f m) \<and> kept m m'"
    using out f(5) ev [of BGPEventTcpCrAcked ?f ConnDirOut] same
    by (auto simp: wp_def fsm_select_def seq.simps loc_def at_state_def)
qed

lemma receive_open:
  assumes "at_state BGPFSMOpensent f0 f" "mgr_ok m" "fm_fsms m = [(bf_id f0, ptr)]" "0 < ev_writes e"
    and "mgr_ok m2" "bf_holdTime f2 < 65536" "3 \<le> bf_holdTime f2" "bc_PeerAS (running m) = bc_LocalAS (running m2)"
  shows "\<exists>f' m' attrs. receive e (bytes_of (open_message f2 m2)) NewPeerConn_attrs (f, m) = Ok ((f', m'), attrs) \<and>
     at_state BGPFSMOpenconfirm f0 f' \<and> bf_holdTime f' = min (bf_holdTime f) (bf_holdTime f2) \<and>
     said f' = bytes_of NewBGPKeepAliveMessage \<and> kept m m'"
proof -
  obtain y op attrs s where y: "ReadPkt (bc_LocalAS (running m2)) (bc_AddPathsRx (running m)) (bf_connId f) NewPeerConn_attrs
      [Chunk (bytes_of (open_message f2 m2))] = Delivered (Some (PktRx (Some y) None)) True attrs s"
    "msg_Body y = OpenBody op" "open_ok op" "bh_Type (msg_Header y) = BGPMsgTypeOpen" "ucast (open_HoldTime op) = bf_holdTime f2"
    using hear_open [OF assms(5,6)] by blast
  have hold: "bf_holdTime (heard_open op m f) = min (bf_holdTime f) (bf_holdTime f2)"
    using heard_hold [OF refl assms(7) y(5)] .
  have "\<not> bf_exited f" using assms(1) by (simp add: at_state_def)
  then have sel: "fsm_select e (PktRx (Some y) None) (f, m) = ProcessEvent e BGPEventBGPOpen (MsgData y) (f, m)"
    using y(4) by (simp add: fsm_select_def ProcessPacket_def msg_event_def)
  show ?thesis
    using opened_exact [OF assms(1-3) y(2,3) assms(4)] y(1) assms(8) sel hold
    by (auto simp: wp_def receive_def)
qed

lemma receive_keepalive:
  assumes "at_state BGPFSMOpenconfirm f0 f" "mgr_ok m"
  shows "\<exists>f' m' a. receive e (bytes_of NewBGPKeepAliveMessage) attrs (f, m) = Ok ((f', m'), a) \<and>
     at_state BGPFSMEstablished f0 f' \<and> bf_holdTime f' = bf_holdTime f \<and> kept m m'"
proof -
  obtain y s where y: "ReadPkt (bc_PeerAS (running m)) (bc_AddPathsRx (running m)) (bf_connId f) attrs
      [Chunk (bytes_of NewBGPKeepAliveMessage)] = Delivered (Some (PktRx (Some y) None)) True attrs s"
    "bh_Type (msg_Header y) = BGPMsgTypeKeepAlive"
    using hear_keepalive by blast
  have "\<not> bf_exited f" using assms(1) by (simp add: at_state_def)
  then have "fsm_select e (PktRx (Some y) None) (f, m) = ProcessEvent e BGPEventKeepAliveMsg (MsgData y) (f, m)"
    using y(2) by (simp add: fsm_select_def ProcessPacket_def msg_event_def)
  then show ?thesis using confirmed_exact [OF assms, of e "MsgData y"] y(1) by (auto simp: wp_def receive_def)
qed

section \<open>Properties\<close>

text \<open>C3: 
  Two speakers that are ready for a connection, each configured with the other's AS number, come up:
  when the one that dials is connected to the other, and the bytes each machine writes (its OPEN, then
  its KEEPALIVE) are read and processed by the other, both sessions are established, with the same
  hold time: the smaller of the two configured ones.
\<close>

theorem two_speakers_establish:
  assumes "ready (fA, mA)" "ready (fB, mB)" "bf_outTCPConn fA \<noteq> None" "0 < ev_writes e"
    and "bc_PeerAS (running mA) = bc_LocalAS (running mB)" "bc_PeerAS (running mB) = bc_LocalAS (running mA)"
  shows "\<exists>fA' mA' fB' mB'. exchange e c (fA, mA) (fB, mB) = Ok ((fA', mA'), (fB', mB')) \<and>
    bf_State fA' = BGPFSMEstablished \<and> bf_State fB' = BGPFSMEstablished \<and>
    bf_holdTime fA' = min (bc_HoldTime (running mA)) (bc_HoldTime (running mB)) \<and> bf_holdTime fB' = bf_holdTime fA'"
proof -
  have A: "mgr_ok mA" "fm_fsms mA = [(bf_id fA, bf_self fA)]" "bf_holdTime fA = bc_HoldTime (running mA)" "bf_holdTime fA < 65536"
    and B: "mgr_ok mB" "fm_fsms mB = [(bf_id fB, bf_self fB)]" "bf_holdTime fB = bc_HoldTime (running mB)" "bf_holdTime fB < 65536"
    using assms(1,2) by (auto simp: ready_def)
  have three: "3 \<le> bf_holdTime fA" "3 \<le> bf_holdTime fB"
    using A B by (simp_all add: mgr_ok_def conf_ok_def sane_timers_def Let_def)
  obtain f1 m1 where 1: "fsm_select e (OutConn c) (fA, mA) = Ok (f1, m1)" "at_state BGPFSMOpensent fA f1"
    "bf_holdTime f1 = bf_holdTime fA" "said f1 = bytes_of (open_message fA mA)" "kept mA m1"
    using select_conn(2) [OF assms(1,4,3), of c] A(3) by auto
  obtain f2 m2 where 2: "fsm_select e (InConn c) (fB, mB) = Ok (f2, m2)" "at_state BGPFSMOpensent fB f2"
    "bf_holdTime f2 = bf_holdTime fB" "said f2 = bytes_of (open_message fB mB)" "kept mB m2"
    using select_conn(1) [OF assms(2,4), of c] B(3) by auto
  obtain f3 m3 a3 where 3: "receive e (said f1) NewPeerConn_attrs (f2, m2) = Ok ((f3, m3), a3)" "at_state BGPFSMOpenconfirm fB f3"
    "bf_holdTime f3 = min (bf_holdTime fB) (bf_holdTime fA)" "said f3 = bytes_of NewBGPKeepAliveMessage" "mgr_ok m3"
    using receive_open [OF 2(2), of m2 "bf_self fB" e mA fA] 1(4) 2(3,5) A B three assms(4,6) by (auto simp: kept_def)
  obtain f4 m4 a4 where 4: "receive e (said f2) NewPeerConn_attrs (f1, m1) = Ok ((f4, m4), a4)" "at_state BGPFSMOpenconfirm fA f4"
    "bf_holdTime f4 = min (bf_holdTime fA) (bf_holdTime fB)" "said f4 = bytes_of NewBGPKeepAliveMessage" "mgr_ok m4"
    using receive_open [OF 1(2), of m1 "bf_self fA" e mB fB] 2(4) 1(3,5) A B three assms(4,5) by (auto simp: kept_def)
  obtain f5 m5 a5 where 5: "receive e (said f3) a4 (f4, m4) = Ok ((f5, m5), a5)" "bf_State f5 = BGPFSMEstablished"
    "bf_holdTime f5 = bf_holdTime f4"
    using receive_keepalive [OF 4(2,5), of e a4] 3(4) by (auto simp: at_state_def)
  obtain f6 m6 a6 where 6: "receive e (said f4) a3 (f3, m3) = Ok ((f6, m6), a6)" "bf_State f6 = BGPFSMEstablished"
    "bf_holdTime f6 = bf_holdTime f3"
    using receive_keepalive [OF 3(2,5), of e a3] 4(4) by (auto simp: at_state_def)
  have "exchange e c (fA, mA) (fB, mB) = Ok ((f5, m5), (f6, m6))"
    by (simp add: exchange_def 1(1) 2(1) 3(1) 4(1) 5(1) 6(1))
  then show ?thesis using 3(3) 4(3) 5 6 A(3) B(3) by (auto simp: min.commute)
qed

definition speaker_conf :: "u32 \<Rightarrow> u32 \<Rightarrow> ip \<Rightarrow> u32 \<Rightarrow> NeighborConf" where
  "speaker_conf as peer router hold = NewNeighborConf
     \<lparr>gc_AS = as, gc_RouterId = router, gc_UseMultiplePaths = False, gc_EBGPMaxPaths = 1,
      gc_EBGPAllowMultipleAS = False, gc_IBGPMaxPaths = 1, gc_DefaultMED = 0\<rparr> None
     (zero_NeighborConfig\<lparr>nc_NeighborAddress := router,
        nc_BaseConfig := zero_BaseConfig\<lparr>bc_LocalAS := as, bc_PeerAS := peer, bc_HoldTime := hold\<rparr>\<rparr>)"

definition speaker :: "NeighborConf \<Rightarrow> BgpFSM \<times> FSMManager" where
  "speaker n = ((NewFSM 0 0 n)\<lparr>bf_State := BGPFSMConnect, bf_connectRetryTimer := Some 1, bf_outTCPConn := Some ([], [])\<rparr>,
     (NewFSMManager n)\<lparr>fm_fsms := [(0, 0)], fm_store := [NewFSM 0 0 n]\<rparr>)"

lemma speaker_running:
  assumes "as \<noteq> 0" "peer \<noteq> 0" "3 \<le> hold"
  shows "bc_LocalAS (nc_BaseConfig (nb_RunningConf (speaker_conf as peer r hold))) = as \<and>
   bc_PeerAS (nc_BaseConfig (nb_RunningConf (speaker_conf as peer r hold))) = peer \<and>
   bc_HoldTime (nc_BaseConfig (nb_RunningConf (speaker_conf as peer r hold))) = hold"
proof -
  have "hold \<noteq> 0" using assms(3) by auto
  then show ?thesis using assms
    by (simp add: speaker_conf_def running_of_new GetConfFromNeighbor_fields pick_def clamp_def max_def
        zero_NeighborConfig_def zero_BaseConfig_def)
qed

lemma speaker_ready:
  assumes "as \<noteq> 0" "peer \<noteq> 0" "3 \<le> hold" "hold < 65536" "length r = 4"
  shows "ready (speaker (speaker_conf as peer r hold))"
proof -
  have "conf_ok (speaker_conf as peer r hold)"
    unfolding speaker_conf_def using assms
    by (intro new_conf_ok) (simp_all add: zero_NeighborConfig_def zero_BaseConfig_def word_less_nat_alt)
  then show ?thesis
    using speaker_running [OF assms(1-3), of r] assms(4)
    by (simp add: ready_def speaker_def live_def NewFSM_def NewFSMManager_def Let_def mgr_ok_def conf_ok_def keep_fits_def)
qed

theorem two_speakers_establish_witness:
  "\<exists>fA' mA' fB' mB'. exchange quiet_env 7 (speaker (speaker_conf 65001 65002 [192, 0, 2, 1] 90))
       (speaker (speaker_conf 65002 65001 [192, 0, 2, 2] 30)) = Ok ((fA', mA'), (fB', mB')) \<and>
     bf_State fA' = BGPFSMEstablished \<and> bf_holdTime fA' = 30"
proof -
  let ?A = "speaker (speaker_conf 65001 65002 [192, 0, 2, 1] 90)" and ?B = "speaker (speaker_conf 65002 65001 [192, 0, 2, 2] 30)"
  have run: "bc_HoldTime (running (snd ?A)) = 90" "bc_HoldTime (running (snd ?B)) = 30"
    "bc_LocalAS (running (snd ?A)) = 65001" "bc_LocalAS (running (snd ?B)) = 65002"
    "bc_PeerAS (running (snd ?A)) = 65002" "bc_PeerAS (running (snd ?B)) = 65001"
    by (simp_all add: speaker_def NewFSMManager_def speaker_running)
  have "\<exists>fA' mA' fB' mB'. exchange quiet_env 7 (fst ?A, snd ?A) (fst ?B, snd ?B) = Ok ((fA', mA'), (fB', mB')) \<and>
    bf_State fA' = BGPFSMEstablished \<and> bf_State fB' = BGPFSMEstablished \<and>
    bf_holdTime fA' = min (bc_HoldTime (running (snd ?A))) (bc_HoldTime (running (snd ?B))) \<and> bf_holdTime fB' = bf_holdTime fA'"
    by (rule two_speakers_establish)
       (use speaker_ready run in \<open>simp_all\<close>, simp_all add: speaker_def quiet_env_def)
  then show ?thesis using run by (auto simp: min_def)
qed

section \<open>Samples for the diagram\<close>

abbreviation sample_speaker :: "BgpFSM \<times> FSMManager" where
  "sample_speaker \<equiv> speaker (speaker_conf 65001 65002 [192, 0, 2, 1] 90)"

lemma sample_speaker_facts:
  "ready sample_speaker" "live (fst sample_speaker)" "mgr_ok (snd sample_speaker)" "\<not> bf_close (fst sample_speaker)"
  "bf_State (fst sample_speaker) = BGPFSMConnect" "bf_outTCPConn (fst sample_speaker) \<noteq> None"
proof -
  show r: "ready sample_speaker" by (rule speaker_ready) simp_all
  then show "live (fst sample_speaker)" "mgr_ok (snd sample_speaker)" "\<not> bf_close (fst sample_speaker)"
    by (simp_all add: ready_def split_beta)
  show "bf_State (fst sample_speaker) = BGPFSMConnect" "bf_outTCPConn (fst sample_speaker) \<noteq> None"
    by (simp_all add: speaker_def)
qed

theorem ProcessEvent_follows_diagram_witness:
  "\<exists>f' m'. ProcessEvent quiet_env BGPEventManualStop NoData (fst sample_speaker, snd sample_speaker) = Ok (f', m') \<and>
    bf_State f' \<in> {BGPFSMConnect, BGPFSMIdle}"
proof -
  obtain f' m' where ok: "ProcessEvent quiet_env BGPEventManualStop NoData (fst sample_speaker, snd sample_speaker) = Ok (f', m')"
    using ProcessEvent_live [OF sample_speaker_facts(2,3) event_ok_plain, of BGPEventManualStop quiet_env NoData]
    by (auto simp: wp_def)
  show ?thesis using ProcessEvent_follows_diagram [OF ok] ok sample_speaker_facts(5) by (auto simp: event_sets)
qed

theorem handshake_order_witness:
  "\<exists>f' m'. fsm_select quiet_env (InConn 7) (fst sample_speaker, snd sample_speaker) = Ok (f', m') \<and>
    bf_State f' = BGPFSMOpensent \<and> bf_State (fst sample_speaker) \<in> {BGPFSMConnect, BGPFSMActive}"
proof -
  obtain f' m' where ok: "fsm_select quiet_env (InConn 7) (fst sample_speaker, snd sample_speaker) = Ok (f', m')"
    "bf_State f' = BGPFSMOpensent"
    using select_conn(1) [of "fst sample_speaker" "snd sample_speaker" quiet_env 7] sample_speaker_facts(1)
    by (auto simp: at_state_def quiet_env_def)
  show ?thesis using handshake_order [OF ok(1)] ok sample_speaker_facts(5) by (auto simp: input_ok_def)
qed

text \<open>A machine that has been started and given a connection.\<close>

lemma wp_Initiate_new:
  assumes "bf_outTCPConn f = None" "nc_NeighborAddress (nb_RunningConf (fm_neighborConf m)) \<noteq> IPv4bcast"
    and "\<And>x y. Q (f\<lparr>bf_out := y, bf_outTCPConn := Some x\<rparr>, m)"
  shows "wp InitiateConnToPeer Q (f, m)"
  using assms by (simp add: InitiateConnToPeer_def wp_def Let_def emit_def)

lemma start_connects:
  assumes "conf_ok n" "mgr_ok m" "\<not> bfd_down m" "nc_NeighborAddress (nb_RunningConf (fm_neighborConf m)) \<noteq> IPv4bcast"
  shows "wp (StartFSM_begin e) (\<lambda>(f, m'). bf_State f = BGPFSMConnect \<and> bf_outTCPConn f \<noteq> None) (Init BGPFSMIdle (NewFSM p i n), m)"
proof -
  have fit: "timer_fits (bf_connectRetryTime (NewFSM p i n))"
    using assms(1) by (simp add: NewFSM_def conf_ok_def Let_def)
  have "\<not> bfd_down (RejectPeerConn m)" using assms(3) by (simp add: bfd_down_def RejectPeerConn_def)
  moreover have "fm_neighborConf (RejectPeerConn m) = fm_neighborConf m" "fm_neighborConf (AcceptPeerConn m') = fm_neighborConf m'" for m'
    by (simp_all add: RejectPeerConn_def AcceptPeerConn_def)
  moreover have "wp (ProcessEvent e BGPEventAutoStart NoData) Q (f, m1) =
      wp (seq [loc (SetConnectRetryCounter 0), StartConnectRetryTimer e, ChangeState e BGPFSMConnect]) Q (f, m1)"
    if "bf_State f = BGPFSMIdle" for Q f m1
    using that by (simp add: ProcessEvent_def IdleState_processEvent_def wp_def)
  ultimately have "wp (seq [enter e BGPFSMIdle, ProcessEvent e BGPEventAutoStart NoData])
      (\<lambda>(f, m'). bf_State f = BGPFSMConnect \<and> bf_outTCPConn f \<noteq> None) (Init BGPFSMIdle (NewFSM p i n), m)"
    using assms fit
    by (simp add: wp_simps enter_plain_def leave_def machine_ops Init_def wp_ChangeState_open NewFSM_def Let_def)
       (rule wp_Initiate_new; simp add: wp_simps)
  then show ?thesis
    by (simp add: StartFSM_begin_def wp_def Let_def Init_def set_state_def)
qed

lemma sample_conf_facts:
  "mgr_ok sample_manager" "\<not> bfd_down sample_manager"
  "nc_NeighborAddress (nb_RunningConf (fm_neighborConf sample_manager)) \<noteq> IPv4bcast"
proof -
  show "mgr_ok sample_manager"
    using sample_conf_ok by (simp add: mgr_ok_def sample_manager_def NewFSMManager_def)
  show "\<not> bfd_down sample_manager"
    by (simp add: bfd_down_def sample_manager_def NewFSMManager_def sample_conf_def running_of_new GetConfFromNeighbor_def setDefaults_def
        merge_base_def pick_def Let_def GetNeighConfFromPeerGroup_def zero_NeighborConfig_def zero_BaseConfig_def)
  show "nc_NeighborAddress (nb_RunningConf (fm_neighborConf sample_manager)) \<noteq> IPv4bcast"
    by (simp add: sample_manager_def NewFSMManager_def sample_conf_def running_of_new GetConfFromNeighbor_def Let_def IPv4bcast_def v4InV6Prefix_def
        numeral_eq_Suc)
qed

lemma sample_session:
  "\<exists>f. run session_step (session_start quiet_env 0 0 sample_conf sample_manager)
         [(quiet_env, sample_manager, OutConn 7)] = Ok f \<and> bf_State f = BGPFSMOpensent \<and> \<not> bf_exited f"
proof -
  let ?m = "sample_manager" and ?f0 = "Init BGPFSMIdle (NewFSM 0 0 sample_conf)"
  obtain f m' where f: "StartFSM_begin quiet_env (?f0, ?m) = Ok (f, m')" "bf_State f = BGPFSMConnect" "bf_outTCPConn f \<noteq> None"
    using start_connects [OF sample_conf_ok sample_conf_facts, of quiet_env 0 0] by (auto simp: wp_def)
  have lv: "live f" "\<not> bf_close f"
    using StartFSM_live [OF sample_conf_ok sample_conf_facts(1), of quiet_env 0 0] f(1) by (auto simp: wp_def post_def)
  let ?g = "StopConnToPeer f"
  have "wp (connected quiet_env (ConnData ConnDirOut 7)) (\<lambda>(f', m'). at_state BGPFSMOpensent ?g f' \<and>
     bf_holdTime f' = bc_HoldTime (running ?m) \<and> said f' = bytes_of (open_message ?g ?m) \<and> kept ?m m') (?g, ?m)"
    using lv f(2) sample_conf_facts(1) by (intro connected_exact) (simp_all add: live_StopConnToPeer quiet_env_def)
  then obtain f' m2 where f': "connected quiet_env (ConnData ConnDirOut 7) (?g, ?m) = Ok (f', m2)" "at_state BGPFSMOpensent ?g f'"
    by (auto simp: wp_def)
  have "ProcessEvent quiet_env BGPEventTcpCrAcked (ConnData ConnDirOut 7) (?g, ?m) = Ok (f', m2)"
    using f(2) f'(1) by (simp add: ProcessEvent_def ConnectState_processEvent_def)
  then have sel: "fsm_select quiet_env (OutConn 7) (f, ?m) = Ok (f', m2)"
    using f(3) live_fits(4) [OF lv(1)] by (auto simp: fsm_select_def seq.simps loc_def)
  have start: "session_start quiet_env 0 0 sample_conf ?m = Ok f"
    using f(1) by (simp add: session_start_def)
  show ?thesis using sel start f'(2) by (simp add: session_step_def at_state_def)
qed


end
