(* ===== verification/BgpFsmCollide.thy ===== *)
theory BgpFsmCollide
  imports BgpFsmPeers
begin

text \<open>
  Two connections between the same two speakers, and commands to a manager: which connection each side
  closes, and what the commands to stop a session do.
\<close>

section \<open>Collisions\<close>

text \<open>
  A manager with two machines, one for the connection it has dialed and one for the connection it has
  accepted, neither established yet.
\<close>

definition pending_conn :: "FSMManager \<Rightarrow> nat \<Rightarrow> ConnDir \<Rightarrow> conn \<Rightarrow> bool" where
  "pending_conn m ptr d c \<longleftrightarrow> ptr < length (fm_store m) \<and>
     bf_State (fm_store m ! ptr) \<in> {BGPFSMOpensent, BGPFSMOpenconfirm} \<and> bf_self (fm_store m ! ptr) = ptr \<and>
     (case bf_peerConn (fm_store m ! ptr) of Some p \<Rightarrow> pc_dir p = d \<and> pc_conn p = c | None \<Rightarrow> False)"

definition two_conns :: "FSMManager \<Rightarrow> conn \<Rightarrow> conn \<Rightarrow> bool" where
  "two_conns m dialed accepted \<longleftrightarrow>
     (case fm_fsms m of
        [(i, p), (j, q)] \<Rightarrow> i \<noteq> j \<and> i < 2 \<and> j < 2 \<and> p \<noteq> q \<and> bf_id (fm_store m ! p) = i \<and> bf_id (fm_store m ! q) = j \<and>
          (pending_conn m p ConnDirOut dialed \<and> pending_conn m q ConnDirIn accepted \<or>
           pending_conn m p ConnDirIn accepted \<and> pending_conn m q ConnDirOut dialed)
      | _ \<Rightarrow> False)"

lemma two_connsE:
  assumes "two_conns m co ci"
  obtains a p b q where "fm_fsms m = [(a, p), (b, q)]" "a \<noteq> b" "a < 2" "b < 2" "p \<noteq> q"
    "pending_conn m p ConnDirOut co \<and> pending_conn m q ConnDirIn ci \<or>
     pending_conn m p ConnDirIn ci \<and> pending_conn m q ConnDirOut co"
proof -
  obtain x y where xy: "fm_fsms m = [x, y]"
    using assms by (cases "fm_fsms m"; cases "tl (fm_fsms m)"; cases "tl (tl (fm_fsms m))") (auto simp: two_conns_def)
  then show ?thesis using that assms by (cases x, cases y) (simp add: two_conns_def)
qed

lemma pending_connD:
  assumes "pending_conn m p d c"
  shows "bf_State (fm_store m ! p) \<in> {BGPFSMOpensent, BGPFSMOpenconfirm}" "bf_self (fm_store m ! p) = p"
    "\<exists>pc. bf_peerConn (fm_store m ! p) = Some pc \<and> pc_dir pc = d \<and> pc_conn pc = c"
  using assms by (auto simp: pending_conn_def split: option.splits)

text \<open>The connections whose machines the manager has told to close.\<close>

definition closing :: "FSMManager \<Rightarrow> mgr_output \<Rightarrow> conn list" where
  "closing m x = (case x of FsmInput ptr Close \<Rightarrow>
     (case bf_peerConn (fm_store m ! ptr) of Some p \<Rightarrow> [pc_conn p] | None \<Rightarrow> []) | _ \<Rightarrow> [])"

definition closed_conns :: "FSMManager \<Rightarrow> FSMManager \<Rightarrow> conn list" where
  "closed_conns m m' = concat (map (closing m) (drop (length (fm_out m)) (fm_out m')))"

lemma fsmClose_out:
  "map_of (fm_fsms m) i = Some ptr \<Longrightarrow> fm_out (fsmClose i m) = fm_out m @ FsmInput ptr Close #
     (if fm_activeFSM m = i then [PeerFSMConn (peer_ip m) False None] else []) \<and>
   fm_store (fsmClose i m) = fm_store m \<and> fm_fsms (fsmClose i m) = AList.delete i (fm_fsms m)"
  by (simp add: fsmClose_def fsmBroken_def mgr_emit_def Let_def peer_ip_def)

lemma resolve_two:
  assumes "two_conns m co ci" "(i, ptr) \<in> set (fm_fsms m)"
  shows "resolve_collisions l r i d (fm_fsms m) (m, ConnDirInvalid) =
    (let D = (if l > r then ConnDirIn else ConnDirOut) in (fsmClose (getFSMIdByDir D m) m, D))"
proof -
  obtain a p b q where fs: "fm_fsms m = [(a, p), (b, q)]" "a \<noteq> b"
    "bf_State (fm_store m ! p) \<in> {BGPFSMOpensent, BGPFSMOpenconfirm}"
    "bf_State (fm_store m ! q) \<in> {BGPFSMOpensent, BGPFSMOpenconfirm}"
    by (rule two_connsE [OF assms(1)]) (auto dest: pending_connD)
  then have "i = a \<or> i = b" using assms(2) by auto
  then show ?thesis using fs by (elim disjE) (auto simp: collision_dir_def Let_def)
qed

lemma two_conns_dir:
  assumes "two_conns m co ci" "D \<in> {ConnDirIn, ConnDirOut}"
  shows "\<exists>j q pc. (j, q) \<in> set (fm_fsms m) \<and> map_of (fm_fsms m) j = Some q \<and> getFSMIdByDir D m = j \<and> j < 2 \<and>
    bf_peerConn (fm_store m ! q) = Some pc \<and> pc_dir pc = D \<and> pc_conn pc = (if D = ConnDirIn then ci else co)"
proof -
  obtain a p b q where fs: "fm_fsms m = [(a, p), (b, q)]" "a \<noteq> b" "a < 2" "b < 2"
    "pending_conn m p ConnDirOut co \<and> pending_conn m q ConnDirIn ci \<or> pending_conn m p ConnDirIn ci \<and> pending_conn m q ConnDirOut co"
    by (rule two_connsE [OF assms(1)])
  obtain x y where xy: "bf_peerConn (fm_store m ! p) = Some x" "bf_peerConn (fm_store m ! q) = Some y"
    "pc_dir x = ConnDirOut \<and> pc_conn x = co \<and> pc_dir y = ConnDirIn \<and> pc_conn y = ci \<or>
     pc_dir x = ConnDirIn \<and> pc_conn x = ci \<and> pc_dir y = ConnDirOut \<and> pc_conn y = co"
    using fs(5) by (elim disjE conjE) (auto dest!: pending_connD(3))
  then show ?thesis
    using assms(2) fs(1-4) unfolding getFSMIdByDir_def by auto
qed

lemma collision_one_side:
  assumes "two_conns m co ci" "(i, ptr) \<in> set (fm_fsms m)" "f = fm_store m ! ptr" "bf_peerConn f = Some pc"
    and "mgr_ok m" "open_ok op"
    and "ConvertIPBytesToUint (To4 (gc_RouterId (nb_Global (fm_neighborConf m)))) = Ok l"
    and "ConvertIPBytesToUint (To4 (open_BGPId op)) = Ok r"
  shows "\<exists>m' go. receivedBGPOpenMessage i (pc_dir pc) op f m = Ok (m', go) \<and>
    closed_conns m m' = [if l > r then ci else co] \<and> (go \<longleftrightarrow> (if l > r then ConnDirIn else ConnDirOut) \<noteq> pc_dir pc)"
proof -
  let ?D = "if l > r then ConnDirIn else ConnDirOut"
  have "bf_self f = ptr"
    using assms(2,3) by (rule_tac two_connsE [OF assms(1)]) (auto dest: pending_connD(2))
  then have sync: "sync f m = m" using assms(3) by (simp add: sync_def)
  obtain z where z: "GetASSize op = Ok z" using assms(6) by (auto simp: open_ok_def)
  obtain j q c where j: "map_of (fm_fsms m) j = Some q" "getFSMIdByDir ?D m = j"
    "bf_peerConn (fm_store m ! q) = Some c" "pc_conn c = (if ?D = ConnDirIn then ci else co)"
    using two_conns_dir [OF assms(1), of ?D] by (cases "l > r") auto
  let ?m = "fsmClose j m"
  have res: "resolve_collisions l r i (pc_dir pc) (fm_fsms m) (m, ConnDirInvalid) = (?m, ?D)"
    using resolve_two [OF assms(1,2), of l r "pc_dir pc"] j(2) by (simp add: Let_def)
  have closed: "closed_conns m (?m\<lparr>fm_neighborConf := n\<rparr>) = [if l > r then ci else co]" "closed_conns m ?m = [if l > r then ci else co]" for n
    using fsmClose_out [OF j(1)] j(3,4) by (simp_all add: closed_conns_def closing_def)
  show ?thesis
    using assms(5,7,8) z res closed unfolding receivedBGPOpenMessage_def sync Let_def
    by (simp add: outcome_of_def split: option.split)
qed

text \<open>Identifiers that agree in their first and last octets are the same number to the code.\<close>

lemma ConvertIPBytesToUint_eq_iff:
  fixes a b c d a' b' c' d' :: byte
  shows
  "ConvertIPBytesToUint [a, b, c, d] = ConvertIPBytesToUint [a', b', c', d'] \<longleftrightarrow> a = a' \<and> d = d'"
proof
  let ?x = "\<lambda>(a :: byte) (d :: byte). push_bit 24 (ucast a) OR ucast d :: u32"
  have conv: "ConvertIPBytesToUint [a, b, c, d] = Ok (?x a d)" for a b c d :: byte
  proof -
    have "push_bit 16 b = 0" "push_bit 8 c = 0" by (intro bit_word_eqI; simp add: bit_simps)+
    then show ?thesis by (simp add: ConvertIPBytesToUint_def)
  qed
  have parts: "ucast (drop_bit 24 (?x a d)) = a" "ucast (?x a d) = d"
    for a d :: byte
    by (intro bit_word_eqI; auto simp: bit_simps)+
  assume "ConvertIPBytesToUint [a, b, c, d] = ConvertIPBytesToUint [a', b', c', d']"
  then have "?x a d = ?x a' d'" by (simp add: conv)
  then show "a = a' \<and> d = d'" using parts by metis
next
  assume "a = a' \<and> d = d'"
  then show "ConvertIPBytesToUint [a, b, c, d] = ConvertIPBytesToUint [a', b', c', d']"
    using ConvertIPBytesToUint_drops by simp
qed

section \<open>Commands\<close>

lemma connect_reached:
  assumes "mgr_ok m" "\<not> bf_close f" "bf_State f = BGPFSMIdle"
  shows "wp (ChangeState e BGPFSMConnect) (\<lambda>(f', m'). bf_State f' \<in> {BGPFSMConnect, BGPFSMActive}) (f, m)"
proof (cases "bfd_down m")
  case True
  then show ?thesis using assms
    by (auto simp: wp_simps wp_ChangeState_open wp_change_with_plain state_ops machine_ops)
next
  case False
  then show ?thesis using assms
    by (auto simp: wp_simps wp_ChangeState_open state_ops machine_ops intro!: wp_InitiateConnToPeer)
qed

lemma started:
  assumes "live f" "mgr_ok m" "\<not> bf_close f" "bf_State f = BGPFSMIdle"
  shows "wp (ProcessEvent e BGPEventAutoStart NoData) (\<lambda>(f', m'). bf_State f' \<in> {BGPFSMConnect, BGPFSMActive}) (f, m)"
proof -
  let ?g = "f\<lparr>bf_connectRetryCounter := 0, bf_connectRetryTimer := Some (drawn e (bf_connectRetryTime f))\<rparr>"
  have "wp (seq [loc (SetConnectRetryCounter 0), StartConnectRetryTimer e, ChangeState e BGPFSMConnect])
      (\<lambda>(f', m'). bf_State f' \<in> {BGPFSMConnect, BGPFSMActive}) (f, m)"
    using assms live_fits [OF assms(1)] connect_reached [of m ?g e]
    by (simp add: wp_seq_cons wp_seq_nil wp_loc wp_StartConnectRetryTimer SetConnectRetryCounter_def)
  then show ?thesis using assms(4) by (simp add: ProcessEvent_def IdleState_processEvent_def wp_def)
qed

lemma wp_conj: "wp p P st \<Longrightarrow> wp p Q st \<Longrightarrow> wp p (\<lambda>st'. P st' \<and> Q st') st"
  by (auto simp: wp_def)

lemma give_up_idle:
  assumes "mgr_ok m" "\<not> bf_close f" "list_all (\<lambda>g. \<forall>f. bf_close (g f) = bf_close f) gs"
    and "bf_peerConn (fold (\<lambda>g. g) gs f) = None"
  shows "wp (give_up e gs) (\<lambda>(f', m'). bf_State f' = BGPFSMIdle) (f, m)"
proof -
  have "bf_close (fold (\<lambda>g. g) gs h) = bf_close h" for h
    using assms(3) by (induction gs arbitrary: h) auto
  then show ?thesis
    unfolding wp_give_up by (intro wp_mono [OF wp_idle_exact]) (use assms in auto)
qed

lemma stopped:
  assumes "live f" "mgr_ok m" "\<not> bf_close f" "ev \<in> {BGPEventManualStop, BGPEventAutoStop}" "0 < ev_writes e"
  shows "wp (ProcessEvent e ev NoData) (\<lambda>(f', m'). bf_State f' = BGPFSMIdle) (f, m)"
proof (cases "4 \<le> state_num (bf_State f)")
  case True
  then obtain p where p: "bf_peerConn f = Some p" using live_conn [OF assms(1)] by auto
  have "notice (bf_State f) ev NoData = plain BGPCease"
    using True assms(4) by (cases "bf_State f") (auto simp: stop_events_def)
  then have "notice (bf_State f) ev NoData = Some (BGPCease, 0, [])" by (simp add: plain_def)
  from notice_closes [OF assms(2,3) p assms(5) this] show ?thesis
    by (rule wp_mono) (auto simp: closed_after_def)
next
  case False
  then have "bf_peerConn f = None" using live_conn [OF assms(1)] by auto
  then have "wp (give_up e [StopConnToPeer, SetConnectRetryCounter 0, StopConnectRetryTimer]) (\<lambda>(f', m'). bf_State f' = BGPFSMIdle) (f, m)"
    "wp (give_up e [StopConnectRetryTimer, StopConnToPeer, IncrConnectRetryCounter]) (\<lambda>(f', m'). bf_State f' = BGPFSMIdle) (f, m)"
    "wp (give_up e [StopConnectRetryTimer, ClearPeerConn, StopConnToPeer, IncrConnectRetryCounter]) (\<lambda>(f', m'). bf_State f' = BGPFSMIdle) (f, m)"
    using assms(2,3) by (auto intro!: give_up_idle simp: machine_ops)
  moreover have "bf_State f \<in> {BGPFSMIdle, BGPFSMConnect, BGPFSMActive}"
    using False live_fits(3) [OF assms(1)] by (cases "bf_State f") auto
  ultimately show ?thesis
    using assms(4) by (auto simp: ProcessEvent_def IdleState_processEvent_def ConnectState_processEvent_def
        ActiveState_processEvent_def wp_def)
qed

section \<open>Properties\<close>

text \<open>C36: 
  When two speakers have opened a connection to each other at the same time, each closes one of the
  two on the OPEN it receives, on whichever of them: the same one on both sides if their identifiers
  differ in the first or the last octet. If these octets agree, each closes the connection it has
  dialed itself, and none is left.
\<close>

theorem collision_resolution:
  assumes "two_conns mA c1 c2" "mgr_ok mA" "(i, p) \<in> set (fm_fsms mA)" "fA = fm_store mA ! p" "bf_peerConn fA = Some pA"
    and "two_conns mB c2 c1" "mgr_ok mB" "(j, q) \<in> set (fm_fsms mB)" "fB = fm_store mB ! q" "bf_peerConn fB = Some pB"
    and "open_ok opA" "To4 (gc_RouterId (nb_Global (fm_neighborConf mA))) = [a, x, y, b]" "To4 (open_BGPId opA) = [a, x, y, b]"
    and "open_ok opB" "To4 (gc_RouterId (nb_Global (fm_neighborConf mB))) = [a', x', y', b']" "To4 (open_BGPId opB) = [a', x', y', b']"
  shows "\<exists>mA' goA mB' goB. receivedBGPOpenMessage i (pc_dir pA) opB fA mA = Ok (mA', goA) \<and>
    receivedBGPOpenMessage j (pc_dir pB) opA fB mB = Ok (mB', goB) \<and>
    (if (a, b) = (a', b') then closed_conns mA mA' = [c1] \<and> closed_conns mB mB' = [c2]
     else closed_conns mA mA' = closed_conns mB mB' \<and> (closed_conns mA mA' = [c1] \<or> closed_conns mA mA' = [c2]))"
proof -
  obtain l r where lr: "ConvertIPBytesToUint [a, x, y, b] = Ok l" "ConvertIPBytesToUint [a', x', y', b'] = Ok r"
    using ConvertIPBytesToUint_total [of "[a, x, y, b]"] ConvertIPBytesToUint_total [of "[a', x', y', b']"] by auto
  have eq: "l = r \<longleftrightarrow> (a, b) = (a', b')"
    using ConvertIPBytesToUint_eq_iff [of a x y b a' x' y' b'] lr by simp
  obtain mA' goA where A: "receivedBGPOpenMessage i (pc_dir pA) opB fA mA = Ok (mA', goA)"
    "closed_conns mA mA' = [if l > r then c2 else c1]"
    using collision_one_side [OF assms(1,3,4,5,2,14), of l r] assms(12,16) lr by auto
  obtain mB' goB where B: "receivedBGPOpenMessage j (pc_dir pB) opA fB mB = Ok (mB', goB)"
    "closed_conns mB mB' = [if r > l then c1 else c2]"
    using collision_one_side [OF assms(6,8,9,10,7,11), of r l] assms(13,15) lr by auto
  show ?thesis
    using A B eq by (intro exI [of _ mA'] exI [of _ goA] exI [of _ mB'] exI [of _ goB]) auto
qed

text \<open>
  A command to stop a session ends it and begins it again in the same round: the machine that is told
  to stop, by the operator or for too many prefixes, is connecting when the command has been handled.
\<close>

theorem stop_command_restarts:
  assumes "live f" "\<not> bf_close f" "mgr_ok m" "ev \<in> {BGPEventManualStop, BGPEventAutoStop}" "0 < ev_writes e"
  shows "\<exists>f' m'. fsm_select e (FsmEvent ev reason) (f, m) = Ok (f', m') \<and> bf_State f' \<in> {BGPFSMConnect, BGPFSMActive}"
proof -
  have restart: "wp (seq [loc (\<lambda>f. f\<lparr>bf_restartTime := BGPRestartTimeDefault\<rparr>), ProcessEvent e BGPEventAutoStart NoData])
      (\<lambda>(f', m'). bf_State f' \<in> {BGPFSMConnect, BGPFSMActive}) (g, n)"
    if "live g" "mgr_ok n" "\<not> bf_close g" "bf_State g = BGPFSMIdle" for g n
    using started [of "g\<lparr>bf_restartTime := BGPRestartTimeDefault\<rparr>" n e] that by (simp add: wp_seq_cons wp_seq_nil wp_loc)
  have "wp (seq [ProcessEvent e ev NoData, loc (\<lambda>f. f\<lparr>bf_restartTime := BGPRestartTimeDefault\<rparr>), ProcessEvent e BGPEventAutoStart NoData])
      (\<lambda>(f', m'). bf_State f' \<in> {BGPFSMConnect, BGPFSMActive}) (f\<lparr>bf_restartTime := t\<rparr>, m)" for t
  proof -
    let ?f = "f\<lparr>bf_restartTime := t\<rparr>"
    have "wp (ProcessEvent e ev NoData) (post False) (?f, m)"
      using assms by (intro event_keeps_live) (auto simp: event_ok_def)
    moreover have "wp (ProcessEvent e ev NoData) (\<lambda>(f', m'). bf_State f' = BGPFSMIdle) (?f, m)"
      using assms by (intro stopped) simp_all
    ultimately show ?thesis
      unfolding wp_seq_cons [of "ProcessEvent e ev NoData"]
      by (rule wp_mono [OF wp_conj]) (use restart in \<open>auto simp: post_def\<close>)
  qed
  from this [of "ucast (bc_MaxPrefixesRestartTimer (running m))"] this [of "bf_restartTime f"] show ?thesis
    using live_fits(4) [OF assms(1)]
    by (simp add: fsm_select_def wp_seq_cons [of "set_restart_time reason"]) (simp add: wp_def seq.simps set_restart_time_def)
qed

text \<open>
  A manager that still has a machine can never be closed: \<open>Cleanup\<close> takes the mutex and then calls
  \<open>fsmStateChange\<close>, which waits for it.
\<close>

theorem Cleanup_deadlocks:
  assumes "fm_fsms m \<noteq> []" "fm_sending m = []"
  shows "Cleanup now m = Error Deadlock"
proof (cases "fm_fsms m")
  case (Cons e es)
  moreover obtain i ptr where "e = (i, ptr)" by (cases e)
  ultimately show ?thesis
    by (simp add: Cleanup_def with_lock_def fsmStateChange_def fsmBroken_def mgr_emit_def assms(2))
qed (use assms in simp)

text \<open>
  A sender of an UPDATE holds the mutex for reading until the machine it sends to reads its channel; a
  machine that meanwhile turns to an event that ends its session waits for that mutex in
  \<open>fsmStateChange\<close>, and the sender for the machine.
\<close>

lemma idle_blocks:
  assumes "\<not> bf_close f" "bf_State f = BGPFSMEstablished" "bf_self f \<in> set (fm_sending m)"
  shows "ChangeState e BGPFSMIdle (f, m) = Error Deadlock"
proof -
  have "with_lock (Some (bf_self f)) m' k = Error Deadlock" if "fm_sending m' = fm_sending m" for m' and k :: "(stuck, FSMManager) outcome"
    using assms(3) that by (auto simp: with_lock_def list_ex_iff)
  then show ?thesis
    using assms(1,2)
    by (simp add: ChangeState_def change_with_def enter_def enter_plain_def leave_def seq.simps loc_def glob_def
          SetRunningHoldTime_def report_change_def ConnBroken_def fsmStateChange_def machine_ops RejectPeerConn_def
          fsmBroken_def mgr_emit_def SetHoldTime_def set_state_def Let_def)
qed

lemma give_up_blocks:
  assumes "\<And>g f. g \<in> set gs \<Longrightarrow> bf_close (g f) = bf_close f \<and> bf_State (g f) = bf_State f \<and> bf_self (g f) = bf_self f"
    and "\<not> bf_close f" "bf_State f = BGPFSMEstablished" "bf_self f \<in> set (fm_sending m)"
  shows "give_up e gs (f, m) = Error Deadlock"
  using assms
proof (induction gs arbitrary: f)
  case Nil
  then show ?case by (simp add: give_up_def seq.simps idle_blocks)
next
  case (Cons g gs)
  then have "give_up e gs (g f, m) = Error Deadlock" by simp
  then show ?case by (simp add: give_up_def seq.simps loc_def)
qed

theorem update_deadlocks:
  assumes "\<not> bf_close f" "bf_State f = BGPFSMEstablished" "bf_peerConn f = Some p"
    and "\<not> fm_locked m" "fm_activeFSM m = bf_id f" "bf_id f \<noteq> dir_id ConnDirInvalid" "map_of (fm_fsms m) (bf_id f) = Some (bf_self f)"
    and "notice BGPFSMEstablished ev d = Some code"
  shows "\<exists>m'. SendUpdateMsg cap msg m = Ok m' \<and> ProcessEvent e ev d (f, m') = Error Deadlock"
proof -
  define m' where "m' = mgr_emit (FsmInput (bf_self f) (PktTx cap msg)) (m\<lparr>fm_sending := fm_sending m @ [bf_self f]\<rparr>)"
  have send: "SendUpdateMsg cap msg m = Ok m'"
    using assms(4-7) by (simp add: SendUpdateMsg_def m'_def)
  have sending: "bf_self f \<in> set (fm_sending (notified n m'))" for n
    by (simp add: m'_def notified_def mgr_emit_def)
  have drop: "give_up e (drop_conn @ [g]) (sent n bs f, notified n m') = Error Deadlock"
    if "g = IncrConnectRetryCounter \<or> g = SetConnectRetryCounter 0" for g n bs
    using that sending assms(1,2)
    by (intro give_up_blocks)
       (auto simp: drop_conn_def sent_def StopConnectRetryTimer_def ClearPeerConn_def StopConnToPeer_def emit_def
          StopHoldTimer_def StopKeepAliveTimer_def IncrConnectRetryCounter_def SetConnectRetryCounter_def split: option.splits)
  have conn: "SendNotificationMessage e c s x (f, m') =
      Ok (sent (ev_writes e) (bytes_of (NewBGPNotificationMessage c s x)) f, notified (ev_writes e) m')" for c s x
    using assms(3) by (simp add: SendNotificationMessage_def encoded_Ok peer_write_Ok notified_def)
  have "ProcessEvent e ev d (f, m') = Error Deadlock"
    using assms(2,8) drop conn
    by (auto simp: ProcessEvent_def EstablishedState_processEvent_def notify_and_drop_def notify_error_def reported_def
          seq.simps stop_events_def plain_def split: if_splits event_data.splits bgp_error.splits)
  with send show ?thesis by blast
qed

text \<open>Samples: two managers with two connections each, and their OPENs.\<close>

definition colliding :: "NeighborConf \<Rightarrow> conn \<Rightarrow> conn \<Rightarrow> FSMManager" where
  "colliding n dialed accepted = (NewFSMManager n)\<lparr>fm_fsms := [(0, 0), (1, 1)],
     fm_store := [(NewFSM 0 0 n)\<lparr>bf_State := BGPFSMOpensent,
                     bf_peerConn := Some \<lparr>pc_dir = ConnDirOut, pc_conn = dialed, pc_id = 1\<rparr>\<rparr>,
                  (NewFSM 1 1 n)\<lparr>bf_State := BGPFSMOpensent,
                     bf_peerConn := Some \<lparr>pc_dir = ConnDirIn, pc_conn = accepted, pc_id = 2\<rparr>\<rparr>]\<rparr>"

definition sample_open :: "ip \<Rightarrow> BGPOpen" where
  "sample_open router = \<lparr>open_Version = 4, open_MyAS = 65001, open_HoldTime = 90, open_BGPId = router,
     open_OptParamLen = 0, open_OptParams = []\<rparr>"

lemma colliding_two: "two_conns (colliding n c1 c2) c1 c2"
  by (simp add: colliding_def two_conns_def pending_conn_def NewFSM_def Let_def)

theorem collision_resolution_witness:
  "(let mA = colliding (speaker_conf 65001 65002 [10, 0, 0, 1] 90) 1 2;
        mB = colliding (speaker_conf 65002 65001 [10, 9, 0, 1] 90) 2 1
    in \<exists>mA' goA mB' goB. receivedBGPOpenMessage 0 ConnDirOut (sample_open [10, 9, 0, 1]) (fm_store mA ! 0) mA = Ok (mA', goA) \<and>
         receivedBGPOpenMessage 1 ConnDirIn (sample_open [10, 0, 0, 1]) (fm_store mB ! 1) mB = Ok (mB', goB) \<and>
         closed_conns mA mA' = [1] \<and> closed_conns mB mB' = [2])"
proof -
  let ?nA = "speaker_conf 65001 65002 [10, 0, 0, 1] 90" and ?nB = "speaker_conf 65002 65001 [10, 9, 0, 1] 90"
  let ?A = "colliding ?nA 1 2" and ?B = "colliding ?nB 2 1"
  have ok: "mgr_ok ?A" "mgr_ok ?B"
    using speaker_ready [of 65001 65002 90 "[10, 0, 0, 1]"] speaker_ready [of 65002 65001 90 "[10, 9, 0, 1]"]
    by (simp_all add: ready_def speaker_def mgr_ok_def colliding_def NewFSMManager_def)
  have ids: "To4 (gc_RouterId (nb_Global (fm_neighborConf ?A))) = [10, 0, 0, 1]" "To4 (gc_RouterId (nb_Global (fm_neighborConf ?B))) = [10, 9, 0, 1]"
    by (simp_all add: colliding_def NewFSMManager_def speaker_conf_def NewNeighborConf_def SetNeighborState_def setOtherStates_def Let_def)
  have opens: "open_ok (sample_open r) \<and> To4 (open_BGPId (sample_open r)) = r" if "length r = 4" for r
    using that by (simp add: open_ok_def sample_open_def GetASSize_def)
  have mem: "(0, 0) \<in> set (fm_fsms ?A)" "(1, 1) \<in> set (fm_fsms ?B)"
    "bf_peerConn (fm_store ?A ! 0) = Some \<lparr>pc_dir = ConnDirOut, pc_conn = 1, pc_id = 1\<rparr>"
    "bf_peerConn (fm_store ?B ! 1) = Some \<lparr>pc_dir = ConnDirIn, pc_conn = 1, pc_id = 2\<rparr>"
    by (simp_all add: colliding_def)
  show ?thesis
    using collision_resolution [OF colliding_two ok(1) mem(1) refl mem(3) colliding_two ok(2) mem(2) refl mem(4)
      conjunct1 [OF opens] ids(1) conjunct2 [OF opens] conjunct1 [OF opens] ids(2) conjunct2 [OF opens]]
    unfolding Let_def by simp
qed

theorem stop_command_restarts_witness:
  "\<exists>f' m'. fsm_select quiet_env (FsmEvent BGPEventManualStop BGPCmdReasonNone) (fst sample_speaker, snd sample_speaker) = Ok (f', m') \<and>
     bf_State f' \<in> {BGPFSMConnect, BGPFSMActive}"
  by (rule stop_command_restarts [OF sample_speaker_facts(2,4,3)]) (simp_all add: quiet_env_def)

theorem Cleanup_deadlocks_witness: "Cleanup 0 (snd sample_speaker) = Error Deadlock"
  by (rule Cleanup_deadlocks) (simp_all add: speaker_def NewFSMManager_def)

theorem update_deadlocks_witness:
  "(let f = (NewFSM 0 1 sample_conf)\<lparr>bf_State := BGPFSMEstablished,
              bf_peerConn := Some \<lparr>pc_dir = ConnDirOut, pc_conn = 7, pc_id = 1\<rparr>\<rparr>;
        m = sample_manager\<lparr>fm_fsms := [(1, 0)], fm_activeFSM := 1\<rparr>
    in \<exists>m'. SendUpdateMsg 100 NewBGPKeepAliveMessage m = Ok m' \<and>
         ProcessEvent quiet_env BGPEventHoldTimerExp NoData (f, m') = Error Deadlock)"
  unfolding Let_def
  by (rule update_deadlocks)
     (simp_all add: NewFSM_def Let_def sample_manager_def NewFSMManager_def stop_events_def plain_def)

text \<open>An OPEN with a hold time of one or two seconds is accepted, and the machine's own hold time kept.\<close>

lemma short_hold_time_kept:
  "open_HoldTime op = 1 \<or> open_HoldTime op = 2 \<Longrightarrow> bf_holdTime (heard_open op m f) = bf_holdTime f"
  by (auto simp: heard_open_def SetHoldTime_def Let_def)

end
