(* ===== verification/BgpRibPath.thy ===== *)
theory BgpRibPath
  imports BgpConf BgpAsHelpers
begin

text \<open>
  The paths of the BGP RIB (\<open>bgp/rib/path.go\<close>) and the orders of \<open>pathsort.go\<close>. A path is a pointer: it is the key of the maps of a
  destination, and two paths with the same attributes are different paths. Paths and neighbors
  therefore live in a store and are known by their position in it; neighbors are shared with the
  server, which counts the prefixes of each.
\<close>

section \<open>Route types\<close>

definition RouteTypeAgg :: u8 where "RouteTypeAgg = 1"
definition RouteTypeConnected :: u8 where "RouteTypeConnected = 2"
definition RouteTypeDefault :: u8 where "RouteTypeDefault = 4"
definition RouteTypeStatic :: u8 where "RouteTypeStatic = 8"
definition RouteTypeIGP :: u8 where "RouteTypeIGP = 16"
definition RouteTypeEGP :: u8 where "RouteTypeEGP = 32"

definition RouteSrcLocal :: u8 where "RouteSrcLocal = 1"
definition RouteSrcExternal :: u8 where "RouteSrcExternal = 2"
definition RouteSrcUnknown :: u8 where "RouteSrcUnknown = 4"

lemmas route_type_defs = RouteTypeAgg_def RouteTypeConnected_def RouteTypeDefault_def
  RouteTypeStatic_def RouteTypeIGP_def RouteTypeEGP_def
lemmas route_src_defs = RouteSrcLocal_def RouteSrcExternal_def RouteSrcUnknown_def

definition RouteTypeToSource :: "(u8 \<times> u8) list" where
  "RouteTypeToSource =
     [(RouteTypeAgg, RouteSrcLocal), (RouteTypeConnected, RouteSrcLocal), (RouteTypeDefault, RouteSrcLocal),
      (RouteTypeStatic, RouteSrcLocal), (RouteTypeIGP, RouteSrcLocal), (RouteTypeEGP, RouteSrcExternal)]"

definition getRouteSource :: "u8 \<Rightarrow> u8" where
  "getRouteSource routeType =
     (case map_of RouteTypeToSource routeType of Some src \<Rightarrow> src | None \<Rightarrow> RouteSrcUnknown)"

definition BGP_INTERNAL_PREF :: u32 where "BGP_INTERNAL_PREF = 100"
definition BGP_EXTERNAL_PREF :: u32 where "BGP_EXTERNAL_PREF = 100"

section \<open>Paths\<close>

record ReachabilityInfo =
  ri_NextHop :: string
  ri_NextHopIfType :: int
  ri_NextHopIfIdx :: int
  ri_Metric :: int

definition NewReachabilityInfo :: "string \<Rightarrow> int \<Rightarrow> int \<Rightarrow> int \<Rightarrow> ReachabilityInfo" where
  "NewReachabilityInfo nextHop ifType ifIdx metric =
     \<lparr>ri_NextHop = nextHop, ri_NextHopIfType = ifType, ri_NextHopIfIdx = ifIdx, ri_Metric = metric\<rparr>"

text \<open>A nil \<open>net.IP\<close> is the empty list.\<close>

record NHReachabilityInfo =
  nr_nextHop :: ip
  nr_reachabilityInfo :: "ReachabilityInfo option"

type_synonym nbr = nat
type_synonym path = nat

text \<open>The aggregated paths of a path are not part of the model.\<close>

record Path =
  pt_NeighborConf :: "nbr option"
  pt_PathAttrs :: "BGPPathAttr list"
  pt_Pref :: u32
  pt_nhReachabilityInfo :: "(u32 \<times> NHReachabilityInfo) list"
  pt_routeType :: u8
  pt_MED :: u32
  pt_LocalPref :: u32

record store =
  st_paths :: "Path list"
  st_neighbors :: "NeighborConf list"

abbreviation path_at :: "store \<Rightarrow> path \<Rightarrow> Path" where
  "path_at s p \<equiv> st_paths s ! p"

definition nbr_of :: "store \<Rightarrow> Path \<Rightarrow> NeighborConf option" where
  "nbr_of s pt = map_option (\<lambda>n. st_neighbors s ! n) (pt_NeighborConf pt)"

section \<open>What a path is asked\<close>

definition IsLocal :: "Path \<Rightarrow> bool" where
  "IsLocal pt \<longleftrightarrow> getRouteSource (pt_routeType pt) = RouteSrcLocal"

definition IsAggregate :: "Path \<Rightarrow> bool" where
  "IsAggregate pt \<longleftrightarrow> pt_routeType pt = RouteTypeAgg"

definition IsExternal :: "store \<Rightarrow> Path \<Rightarrow> bool" where
  "IsExternal s pt = (case nbr_of s pt of None \<Rightarrow> False | Some n \<Rightarrow> nb_IsExternal n)"

definition IsInternal :: "store \<Rightarrow> Path \<Rightarrow> bool" where
  "IsInternal s pt = (case nbr_of s pt of None \<Rightarrow> False | Some n \<Rightarrow> nb_IsInternal n)"

definition GetPeerIP :: "store \<Rightarrow> Path \<Rightarrow> string" where
  "GetPeerIP s pt =
     (case nbr_of s pt of Some n \<Rightarrow> ip_String (nr_NeighborAddress (nb_Neighbor n)) | None \<Rightarrow> [])"

definition path_HasASLoop :: "store \<Rightarrow> Path \<Rightarrow> (bgp_error, bool) outcome" where
  "path_HasASLoop s pt =
     (case nbr_of s pt of
        None \<Rightarrow> Ok False
      | Some n \<Rightarrow> HasASLoop (pt_PathAttrs pt) (bc_LocalAS (nc_BaseConfig (nb_RunningConf n))))"

definition path_GetNumASes :: "Path \<Rightarrow> (bgp_error, u32) outcome" where
  "path_GetNumASes pt = GetNumASes (pt_PathAttrs pt)"

definition path_GetOrigin :: "Path \<Rightarrow> (bgp_error, u8) outcome" where
  "path_GetOrigin pt = GetOrigin (pt_PathAttrs pt)"

definition path_GetNumClusters :: "Path \<Rightarrow> (bgp_error, u16) outcome" where
  "path_GetNumClusters pt = GetNumClusters (pt_PathAttrs pt)"

definition path_GetNextHop :: "Path \<Rightarrow> u32 \<Rightarrow> ip" where
  "path_GetNextHop pt pf =
     (case map_of (pt_nhReachabilityInfo pt) pf of Some i \<Rightarrow> nr_nextHop i | None \<Rightarrow> [])"

text \<open>\<open>GetBGPId\<close>: the originator of a reflected route, else the identifier of the neighbor.\<close>

definition GetBGPId :: "store \<Rightarrow> Path \<Rightarrow> (bgp_error, u32) outcome" where
  "GetBGPId s pt =
     (case find (\<lambda>a. pa_GetCode a = BGPPathAttrTypeOriginatorId) (pt_PathAttrs pt) of
        Some (BGPPathAttrOriginatorId b v) \<Rightarrow> Uint32 (To4 v)
      | Some _ \<Rightarrow> Panic
      | None \<Rightarrow> (case nbr_of s pt of None \<Rightarrow> Panic | Some n \<Rightarrow> Uint32 (To4 (nb_BGPId n))))"

definition GetReachability :: "Path \<Rightarrow> u32 \<Rightarrow> ReachabilityInfo option" where
  "GetReachability pt pf =
     (case map_of (pt_nhReachabilityInfo pt) pf of Some i \<Rightarrow> nr_reachabilityInfo i | None \<Rightarrow> None)"

definition IsReachable :: "Path \<Rightarrow> u32 \<Rightarrow> bool" where
  "IsReachable pt pf \<longleftrightarrow>
     pt_routeType pt \<in> {RouteTypeStatic, RouteTypeConnected, RouteTypeDefault, RouteTypeIGP} \<or>
     GetReachability pt pf \<noteq> None"

definition SetReachabilityForFamily :: "u32 \<Rightarrow> ReachabilityInfo option \<Rightarrow> Path \<Rightarrow> Path" where
  "SetReachabilityForFamily pf r pt =
     pt\<lparr>pt_nhReachabilityInfo :=
       map (\<lambda>(k, i). (k, if k = pf then i\<lparr>nr_reachabilityInfo := r\<rparr> else i)) (pt_nhReachabilityInfo pt)\<rparr>"

definition SetReachabilityForNextHop :: "string \<Rightarrow> ReachabilityInfo option \<Rightarrow> Path \<Rightarrow> Path" where
  "SetReachabilityForNextHop nextHop r pt =
     pt\<lparr>pt_nhReachabilityInfo :=
       map (\<lambda>(k, i). (k, if ip_String (nr_nextHop i) = nextHop then i\<lparr>nr_reachabilityInfo := r\<rparr> else i))
         (pt_nhReachabilityInfo pt)\<rparr>"

text \<open>\<open>net.IP.Equal\<close>.\<close>

definition ip_Equal :: "ip \<Rightarrow> ip \<Rightarrow> bool" where
  "ip_Equal a b =
     (if length a = length b then a = b
      else if length a = 4 \<and> length b = 16 then b = v4InV6Prefix @ a
      else if length a = 16 \<and> length b = 4 then a = v4InV6Prefix @ b
      else False)"

text \<open>\<open>IsValid\<close>: the path has not been through this router, nor through its cluster.\<close>

definition attr_valid :: "NeighborConf option \<Rightarrow> BGPPathAttr \<Rightarrow> (bgp_error, bool) outcome" where
  "attr_valid n attr =
     (if pa_GetCode attr = BGPPathAttrTypeOriginatorId
      then (case n of None \<Rightarrow> Panic | Some n \<Rightarrow>
             (case attr of BGPPathAttrOriginatorId b v \<Rightarrow> Ok (\<not> ip_Equal (gc_RouterId (nb_Global n)) v) | _ \<Rightarrow> Panic))
      else if pa_GetCode attr = BGPPathAttrTypeClusterList
      then (case attr of
              BGPPathAttrClusterList b clusters \<Rightarrow>
                (case n of
                   None \<Rightarrow> if clusters = [] then Ok True else Panic
                 | Some n \<Rightarrow> Ok (bc_RouteReflectorClusterId (nc_BaseConfig (nb_RunningConf n)) \<notin> set clusters))
            | _ \<Rightarrow> Panic)
      else Ok True)"

fun attrs_valid :: "NeighborConf option \<Rightarrow> BGPPathAttr list \<Rightarrow> (bgp_error, bool) outcome" where
  "attrs_valid n [] = Ok True"
| "attrs_valid n (a # as) = obind (attr_valid n a) (\<lambda>v. if v then attrs_valid n as else Ok False)"

definition IsValid :: "store \<Rightarrow> Path \<Rightarrow> (bgp_error, bool) outcome" where
  "IsValid s pt = attrs_valid (nbr_of s pt) (pt_PathAttrs pt)"

text \<open>The AS path as the RPC layer shows it.\<close>

definition as_set_string :: "string list \<Rightarrow> string" where
  "as_set_string asSetList = ''{ '' @ join '', '' asSetList @ '' }''"

definition as_strings :: "u8 \<Rightarrow> string list \<Rightarrow> string list" where
  "as_strings t nums =
     (if t = BGPASPathSegmentSet then [as_set_string nums]
      else if t = BGPASPathSegmentSequence then nums else [])"

definition segment_strings :: "u8 \<Rightarrow> BGPASPathSegment \<Rightarrow> (bgp_error, string list) outcome" where
  "segment_strings asSize seg =
     (case seg of
        AS4Segment t \<Rightarrow> if asSize = 4 then Ok (as_strings (seg_Type t) (map (itod \<circ> unat) (seg_AS4 t))) else Panic
      | AS2Segment t \<Rightarrow> if asSize = 4 then Panic else Ok (as_strings (seg_Type t) (map (itod \<circ> unat) (seg_AS2 t))))"

definition GetAS4ByteList :: "Path \<Rightarrow> (bgp_error, string list) outcome" where
  "GetAS4ByteList pt =
     (case find (\<lambda>a. pa_GetCode a = BGPPathAttrTypeASPath) (pt_PathAttrs pt) of
        None \<Rightarrow> Ok []
      | Some (BGPPathAttrASPath b segs asSize) \<Rightarrow> obind (omap (segment_strings asSize) segs) (\<lambda>ss. Ok (concat ss))
      | Some _ \<Rightarrow> Panic)"

section \<open>Making paths\<close>

fun pref_loop :: "BGPPathAttr list \<Rightarrow> u32 \<times> Path \<Rightarrow> (bgp_error, u32 \<times> Path) outcome" where
  "pref_loop [] st = Ok st"
| "pref_loop (attr # attrs) (pref, pt) =
     (if pa_GetCode attr = BGPPathAttrTypeLocalPref
      then (case attr of BGPPathAttrLocalPref b v \<Rightarrow> pref_loop attrs (v, pt\<lparr>pt_LocalPref := v\<rparr>) | _ \<Rightarrow> Panic)
      else if pa_GetCode attr = BGPPathAttrTypeMultiExitDisc
      then (case attr of BGPPathAttrMultiExitDisc b v \<Rightarrow> pref_loop attrs (pref, pt\<lparr>pt_MED := v\<rparr>) | _ \<Rightarrow> Panic)
      else pref_loop attrs (pref, pt))"

text \<open>The preference and the path with its two fields set.\<close>

definition calculatePref :: "store \<Rightarrow> Path \<Rightarrow> (bgp_error, u32 \<times> Path) outcome" where
  "calculatePref s pt =
     obind (pref_loop (pt_PathAttrs pt) (BGP_INTERNAL_PREF, pt)) (\<lambda>(pref, pt).
       Ok (if IsExternal s pt then BGP_EXTERNAL_PREF else pref, pt))"

definition put_nextHop :: "u32 \<Rightarrow> ip \<Rightarrow> Path \<Rightarrow> Path" where
  "put_nextHop pf nh pt =
     pt\<lparr>pt_nhReachabilityInfo := AList.update pf
          ((case map_of (pt_nhReachabilityInfo pt) pf of
              Some i \<Rightarrow> i | None \<Rightarrow> \<lparr>nr_nextHop = [], nr_reachabilityInfo = None\<rparr>)\<lparr>nr_nextHop := nh\<rparr>)
          (pt_nhReachabilityInfo pt)\<rparr>"

fun nextHop_loop :: "BGPPathAttr list \<Rightarrow> Path \<Rightarrow> (bgp_error, Path) outcome" where
  "nextHop_loop [] pt = Ok pt"
| "nextHop_loop (attr # attrs) pt =
     (if pa_GetCode attr = BGPPathAttrTypeNextHop
      then (case attr of
              BGPPathAttrNextHop b v \<Rightarrow> nextHop_loop attrs (put_nextHop (GetProtocolFamily AfiIP SafiUnicast) v pt)
            | _ \<Rightarrow> Panic)
      else nextHop_loop attrs pt)"

definition constructNHReachabilityInfo :: "BGPPathAttr option \<Rightarrow> Path \<Rightarrow> (bgp_error, Path) outcome" where
  "constructNHReachabilityInfo mpReach pt =
     obind (nextHop_loop (pt_PathAttrs pt) pt) (\<lambda>pt.
       case mpReach of
         None \<Rightarrow> Ok pt
       | Some (BGPPathAttrMPReachNLRI b afi safi nh r nlri) \<Rightarrow>
           (case nh of None \<Rightarrow> Panic
            | Some h \<Rightarrow> Ok (put_nextHop (GetProtocolFamily afi safi) (nh_GetNextHop h) pt))
       | Some _ \<Rightarrow> Panic)"

definition NewPath ::
  "store \<Rightarrow> nbr option \<Rightarrow> BGPPathAttr list \<Rightarrow> BGPPathAttr option \<Rightarrow> u8 \<Rightarrow> (bgp_error, Path) outcome" where
  "NewPath s peer pa mpReach routeType =
     (let pt = \<lparr>pt_NeighborConf = peer, pt_PathAttrs = pa, pt_Pref = 0, pt_nhReachabilityInfo = [],
                pt_routeType = routeType, pt_MED = 0, pt_LocalPref = 0\<rparr>
      in obind (calculatePref s pt) (\<lambda>(pref, pt). constructNHReachabilityInfo mpReach (pt\<lparr>pt_Pref := pref\<rparr>)))"

section \<open>The orders of \<open>pathsort.go\<close>\<close>

text \<open>
  What the decision process compares, as the code reads it. A comparison in a sort that panics has no
  value; the keys have already been read without a panic when a list is sorted.
\<close>

datatype path_order =
    ByRouteSrc | ByPref | BySmallestAS | ByLowestOrigin | ByIBGPOrEBGPRoutes | ByLowestBGPId
  | ByShorterClusterLen | ByLowestPeerAddress

definition ByRouteSrc_Less :: "Path \<Rightarrow> Path \<Rightarrow> bool" where
  "ByRouteSrc_Less a b \<longleftrightarrow> getRouteSource (pt_routeType a) < getRouteSource (pt_routeType b)"

definition ByPref_Less :: "Path \<Rightarrow> Path \<Rightarrow> bool" where
  "ByPref_Less a b \<longleftrightarrow> pt_Pref a > pt_Pref b"

definition less_by :: "(Path \<Rightarrow> ('e, 'k :: ord) outcome) \<Rightarrow> Path \<Rightarrow> Path \<Rightarrow> bool" where
  "less_by key a b \<longleftrightarrow> the_Ok (key a) < the_Ok (key b)"

fun address_less :: "byte list \<Rightarrow> byte list \<Rightarrow> bool" where
  "address_less (x # xs) (y # ys) = (if x < y then True else if x > y then False else address_less xs ys)"
| "address_less _ _ = False"

definition ByLowestPeerAddress_Less :: "store \<Rightarrow> Path \<Rightarrow> Path \<Rightarrow> bool" where
  "ByLowestPeerAddress_Less s a b =
     (case (nbr_of s a, nbr_of s b) of
        (None, _) \<Rightarrow> True
      | (_, None) \<Rightarrow> False
      | (Some m, Some n) \<Rightarrow>
          (let i = nr_NeighborAddress (nb_Neighbor m); j = nr_NeighborAddress (nb_Neighbor n)
           in if length i < length j then True else if length j < length i then False
              else address_less i j))"

definition Less :: "store \<Rightarrow> path_order \<Rightarrow> path \<Rightarrow> path \<Rightarrow> bool" where
  "Less s ord p q =
     (let a = path_at s p; b = path_at s q in
      case ord of
        ByRouteSrc \<Rightarrow> ByRouteSrc_Less a b
      | ByPref \<Rightarrow> ByPref_Less a b
      | BySmallestAS \<Rightarrow> less_by path_GetNumASes a b
      | ByLowestOrigin \<Rightarrow> less_by path_GetOrigin a b
      | ByIBGPOrEBGPRoutes \<Rightarrow> True
      | ByLowestBGPId \<Rightarrow> less_by (GetBGPId s) a b
      | ByShorterClusterLen \<Rightarrow> less_by path_GetNumClusters a b
      | ByLowestPeerAddress \<Rightarrow> ByLowestPeerAddress_Less s a b)"

end
