(* ===== verification/BgpDest.thy ===== *)
theory BgpDest
  imports BgpRibPath
begin

text \<open>
  A destination of the BGP RIB (\<open>bgp/rib/destination.go\<close>, \<open>route.go\<close>): the paths that neighbors and
  the router itself have for one prefix, the decision process that ranks them, and the routes that
  are installed. Routes are pointers with fields that change; they live in a store of their own in
  the destination. The order in which \<open>range\<close> visits a map made during a call, and the algorithm of
  \<open>sort.Sort\<close>, are arguments; the order of a map that is kept is the order of its association list.
\<close>

section \<open>Routes\<close>

datatype RouteAction = RouteActionNone | RouteActionAdd | RouteActionReplace | RouteActionDelete

text \<open>The text of the time of the last update is left out.\<close>

record PathInfo =
  pi_NextHop :: string
  pi_Metric :: int
  pi_LocalPref :: int
  pi_Path :: "string list"
  pi_PathId :: int
  pi_ValidPath :: bool
  pi_BestPath :: bool
  pi_MultiPath :: bool
  pi_AdditionalPath :: bool
  pi_Origin :: string

record Route =
  rt_PathInfo :: PathInfo
  rt_path :: path
  rt_routeListIdx :: int
  rt_action :: RouteAction
  rt_OutPathId :: u32

type_synonym route = nat

definition NewRoute :: "Path \<Rightarrow> path \<Rightarrow> u32 \<Rightarrow> RouteAction \<Rightarrow> u32 \<Rightarrow> u32 \<Rightarrow> (bgp_error, Route) outcome" where
  "NewRoute pt p protoFamily action inPathId outPathId =
     obind (GetAS4ByteList pt) (\<lambda>asList. obind (path_GetOrigin pt) (\<lambda>origin.
       Ok \<lparr>rt_PathInfo =
             \<lparr>pi_NextHop = ip_String (path_GetNextHop pt protoFamily), pi_Metric = sint (pt_MED pt),
              pi_LocalPref = sint (pt_LocalPref pt), pi_Path = asList, pi_PathId = sint inPathId,
              pi_ValidPath = IsReachable pt protoFamily, pi_BestPath = False, pi_MultiPath = False,
              pi_AdditionalPath = False, pi_Origin = GetOriginTypeStr origin\<rparr>,
           rt_path = p, rt_routeListIdx = - 1, rt_action = action, rt_OutPathId = outPathId\<rparr>))"

definition setAction :: "RouteAction \<Rightarrow> Route \<Rightarrow> Route" where
  "setAction a r = r\<lparr>rt_action := a\<rparr>"

definition setIdx :: "int \<Rightarrow> Route \<Rightarrow> Route" where
  "setIdx i r = r\<lparr>rt_routeListIdx := i\<rparr>"

definition upd_PathInfo :: "(PathInfo \<Rightarrow> PathInfo) \<Rightarrow> Route \<Rightarrow> Route" where
  "upd_PathInfo g r = r\<lparr>rt_PathInfo := g (rt_PathInfo r)\<rparr>"

definition SetBestPath :: "Route \<Rightarrow> Route" where "SetBestPath = upd_PathInfo (\<lambda>i. i\<lparr>pi_BestPath := True\<rparr>)"
definition ResetBestPath :: "Route \<Rightarrow> Route" where "ResetBestPath = upd_PathInfo (\<lambda>i. i\<lparr>pi_BestPath := False\<rparr>)"
definition SetMultiPath :: "Route \<Rightarrow> Route" where "SetMultiPath = upd_PathInfo (\<lambda>i. i\<lparr>pi_MultiPath := True\<rparr>)"
definition ResetMultiPath :: "Route \<Rightarrow> Route" where "ResetMultiPath = upd_PathInfo (\<lambda>i. i\<lparr>pi_MultiPath := False\<rparr>)"
definition SetAdditionalPath :: "Route \<Rightarrow> Route" where
  "SetAdditionalPath = upd_PathInfo (\<lambda>i. i\<lparr>pi_AdditionalPath := True\<rparr>)"
definition ResetAdditionalPath :: "Route \<Rightarrow> Route" where
  "ResetAdditionalPath = upd_PathInfo (\<lambda>i. i\<lparr>pi_AdditionalPath := False\<rparr>)"

lemmas route_upd_defs = setAction_def setIdx_def upd_PathInfo_def SetBestPath_def ResetBestPath_def
  SetMultiPath_def ResetMultiPath_def SetAdditionalPath_def ResetAdditionalPath_def

section \<open>Destinations\<close>

text \<open>
  \<open>ds_Paths\<close> is the list of path descriptions of the route state (\<open>ipv4Route.go\<close>): the description of
  a route is known by its route. \<open>ds_PathInfos\<close> is the domain of \<open>PathInfoRouteMap\<close>, which maps every
  description to its route. \<open>ds_routes\<close> is the store of routes.
\<close>

record Destination =
  ds_NLRI :: NLRI
  ds_protoFamily :: u32
  ds_peerPathMap :: "(string \<times> (u32 \<times> path) list) list"
  ds_LocRibPath :: "path option"
  ds_LocRibPathRoute :: "route option"
  ds_ecmpPaths :: "(path \<times> route) list"
  ds_pathRouteMap :: "(path \<times> route) list"
  ds_AddPaths :: "path list"
  ds_maxPathId :: u32
  ds_pathIds :: "u32 list"
  ds_recalculate :: bool
  ds_Paths :: "route list"
  ds_PathInfos :: "route list"
  ds_routeListIdx :: int
  ds_routes :: "Route list"

definition NewDestination :: "NLRI \<Rightarrow> u32 \<Rightarrow> Destination" where
  "NewDestination nlri protoFamily =
     \<lparr>ds_NLRI = nlri, ds_protoFamily = protoFamily, ds_peerPathMap = [], ds_LocRibPath = None,
      ds_LocRibPathRoute = None, ds_ecmpPaths = [], ds_pathRouteMap = [], ds_AddPaths = [], ds_maxPathId = 1,
      ds_pathIds = [], ds_recalculate = False, ds_Paths = [], ds_PathInfos = [], ds_routeListIdx = - 1,
      ds_routes = []\<rparr>"

definition IsEmpty :: "Destination \<Rightarrow> bool" where
  "IsEmpty d \<longleftrightarrow> ds_peerPathMap d = []"

definition route_at :: "Destination \<Rightarrow> route \<Rightarrow> Route" where
  "route_at d r = ds_routes d ! r"

definition upd_route :: "route \<Rightarrow> (Route \<Rightarrow> Route) \<Rightarrow> Destination \<Rightarrow> Destination" where
  "upd_route r g d = d\<lparr>ds_routes := (ds_routes d)[r := g (ds_routes d ! r)]\<rparr>"

text \<open>Path identifiers: the last one released is the next one used.\<close>

definition getNextPathId :: "Destination \<Rightarrow> u32 \<times> Destination" where
  "getNextPathId d =
     (if ds_pathIds d \<noteq> [] then (last (ds_pathIds d), d\<lparr>ds_pathIds := butlast (ds_pathIds d)\<rparr>)
      else (ds_maxPathId d, d\<lparr>ds_maxPathId := ds_maxPathId d + 1\<rparr>))"

definition releasePathId :: "u32 \<Rightarrow> Destination \<Rightarrow> Destination" where
  "releasePathId pathId d =
     (if pathId + 1 = ds_maxPathId d then d\<lparr>ds_maxPathId := ds_maxPathId d - 1\<rparr>
      else d\<lparr>ds_pathIds := ds_pathIds d @ [pathId]\<rparr>)"

definition mark_add_paths :: "(Route \<Rightarrow> Route) \<Rightarrow> path list \<Rightarrow> Destination \<Rightarrow> Destination" where
  "mark_add_paths g ps d =
     fold (\<lambda>p d. case map_of (ds_pathRouteMap d) p of Some r \<Rightarrow> upd_route r g d | None \<Rightarrow> d) ps d"

definition updateAddPaths :: "path list \<Rightarrow> Destination \<Rightarrow> Destination \<times> bool" where
  "updateAddPaths addPaths d =
     (if ds_AddPaths d = addPaths then (d, False)
      else (mark_add_paths SetAdditionalPath addPaths
              ((mark_add_paths ResetAdditionalPath (ds_AddPaths d) d)\<lparr>ds_AddPaths := addPaths\<rparr>), True))"

definition getPathForIP :: "string \<Rightarrow> u32 \<Rightarrow> Destination \<Rightarrow> path option" where
  "getPathForIP peerIP pathId d = Option.bind (map_of (ds_peerPathMap d) peerIP) (\<lambda>m. map_of m pathId)"

definition getPathIdForPath :: "path \<Rightarrow> Destination \<Rightarrow> u32 option" where
  "getPathIdForPath p d =
     map_option fst (find (\<lambda>(pathId, q). q = p) (concat (map snd (ds_peerPathMap d))))"

definition better_or_equal_source :: "store \<Rightarrow> path \<Rightarrow> Destination \<Rightarrow> bool" where
  "better_or_equal_source s p d \<longleftrightarrow>
     (case ds_LocRibPath d of None \<Rightarrow> True
      | Some q \<Rightarrow> getRouteSource (pt_routeType (path_at s q)) \<ge> getRouteSource (pt_routeType (path_at s p)))"

text \<open>
  \<open>AddOrUpdatePath\<close>: first the path that is replaced, if any, is unhooked, which gives the place of its
  description; then the new one is entered.
\<close>

definition unhook_path :: "path \<Rightarrow> Destination \<Rightarrow> Destination \<times> int" where
  "unhook_path old d =
     (let (d, i) = (case map_of (ds_pathRouteMap d) old of
                      Some r \<Rightarrow> (d\<lparr>ds_PathInfos := removeAll r (ds_PathInfos d)\<rparr>, rt_routeListIdx (route_at d r))
                    | None \<Rightarrow> (d, - 1))
      in (if ds_LocRibPath d = Some old then d\<lparr>ds_LocRibPath := None\<rparr> else d, i))"

definition enter_path ::
  "store \<Rightarrow> string \<Rightarrow> u32 \<Rightarrow> path \<Rightarrow> int \<Rightarrow> Destination \<Rightarrow> (bgp_error, Destination) outcome" where
  "enter_path s peerIp pathId p i d =
     (let d = (if better_or_equal_source s p d then d\<lparr>ds_recalculate := True\<rparr> else d);
          (outPathId, d) = getNextPathId d
      in obind (NewRoute (path_at s p) p (ds_protoFamily d) RouteActionNone pathId outPathId) (\<lambda>route.
         let r = length (ds_routes d); n = length (ds_Paths d);
             at = (if i \<noteq> - 1 then i else int n)
         in obind (if i \<noteq> - 1 then set_idx (ds_Paths d) (nat i) r else Ok (ds_Paths d @ [r])) (\<lambda>paths.
            Ok (d\<lparr>ds_routes := ds_routes d @ [setIdx at route],
                  ds_pathRouteMap := AList.update p r (ds_pathRouteMap d),
                  ds_Paths := paths, ds_PathInfos := r # ds_PathInfos d,
                  ds_peerPathMap := AList.update peerIp
                    (AList.update pathId p (case map_of (ds_peerPathMap d) peerIp of Some m \<Rightarrow> m | None \<Rightarrow> []))
                    (ds_peerPathMap d)\<rparr>))))"

definition AddOrUpdatePath ::
  "store \<Rightarrow> string \<Rightarrow> u32 \<Rightarrow> path \<Rightarrow> Destination \<Rightarrow> (bgp_error, Destination \<times> bool) outcome" where
  "AddOrUpdatePath s peerIp pathId p d =
     (case getPathForIP peerIp pathId d of
        Some old \<Rightarrow>
          if old = p then Ok (d, False)
          else (let (d, i) = unhook_path old d
                in obind (enter_path s peerIp pathId p i d) (\<lambda>d. Ok (d, False)))
      | None \<Rightarrow> obind (enter_path s peerIp pathId p (- 1) d) (\<lambda>d. Ok (d, True)))"

text \<open>\<open>RemovePathAndSetLast\<close> of the route state.\<close>

definition RemovePathAndSetLast :: "nat \<Rightarrow> route list \<Rightarrow> route list" where
  "RemovePathAndSetLast i paths = (if i < length paths then butlast (paths[i := last paths]) else paths)"

definition drop_description :: "route \<Rightarrow> Destination \<Rightarrow> (bgp_error, Destination) outcome" where
  "drop_description r d =
     (let i = rt_routeListIdx (route_at d r)
      in if i = - 1 then Ok d
         else if ds_Paths d = [] then Panic
         else let new = last (ds_Paths d)
           in if new \<in> set (ds_PathInfos d)
              then Ok (upd_route new (setIdx i)
                         (d\<lparr>ds_PathInfos := removeAll r (ds_PathInfos d),
                            ds_Paths := RemovePathAndSetLast (nat i) (ds_Paths d)\<rparr>))
              else Ok d)"

definition drop_peer_path :: "string \<Rightarrow> u32 \<Rightarrow> Destination \<Rightarrow> Destination" where
  "drop_peer_path peerIP pathId d =
     (case map_of (ds_peerPathMap d) peerIP of
        None \<Rightarrow> d
      | Some m \<Rightarrow>
          (let m = AList.delete pathId m
           in d\<lparr>ds_peerPathMap := (if m = [] then AList.delete peerIP (ds_peerPathMap d)
                                   else AList.update peerIP m (ds_peerPathMap d))\<rparr>))"

definition RemovePath :: "string \<Rightarrow> u32 \<Rightarrow> Destination \<Rightarrow> (bgp_error, Destination \<times> path option) outcome" where
  "RemovePath peerIP pathId d =
     (case getPathForIP peerIP pathId d of
        None \<Rightarrow> Ok (d, None)
      | Some old \<Rightarrow>
          (let d = (if old \<in> fst ` set (ds_ecmpPaths d) then d\<lparr>ds_recalculate := True\<rparr> else d);
               d = (if ds_LocRibPath d = Some old then d\<lparr>ds_recalculate := True, ds_LocRibPath := None\<rparr> else d)
           in case map_of (ds_pathRouteMap d) old of
                None \<Rightarrow> Panic
              | Some r \<Rightarrow>
                  (let d = releasePathId (rt_OutPathId (route_at d r)) d;
                       d = d\<lparr>ds_pathRouteMap := AList.delete old (ds_pathRouteMap d)\<rparr>
                   in obind (drop_description r d) (\<lambda>d. Ok (drop_peer_path peerIP pathId d, Some old)))))"

fun remove_path_ids :: "string \<Rightarrow> u32 list \<Rightarrow> Destination \<Rightarrow> (bgp_error, Destination) outcome" where
  "remove_path_ids peerIP [] d = Ok d"
| "remove_path_ids peerIP (pathId # ids) d =
     obind (RemovePath peerIP pathId d) (\<lambda>(d, old). remove_path_ids peerIP ids d)"

definition RemoveAllPaths :: "string \<Rightarrow> Destination \<Rightarrow> (bgp_error, Destination) outcome" where
  "RemoveAllPaths peerIP d =
     (case map_of (ds_peerPathMap d) peerIP of
        None \<Rightarrow> Ok d | Some m \<Rightarrow> remove_path_ids peerIP (map fst m) d)"

definition local_paths :: "store \<Rightarrow> (u32 \<times> path) list \<Rightarrow> (u32 \<times> path) list" where
  "local_paths s = filter (\<lambda>(pathId, p). pt_NeighborConf (path_at s p) = None)"

definition RemoveAllNeighborPaths :: "store \<Rightarrow> Destination \<Rightarrow> Destination" where
  "RemoveAllNeighborPaths s d =
     (let d = d\<lparr>ds_peerPathMap :=
                  map (\<lambda>(peer, m). (peer, local_paths s m))
                    (filter (\<lambda>(peer, m). m = [] \<or> local_paths s m \<noteq> []) (ds_peerPathMap d))\<rparr>
      in case ds_LocRibPath d of
           None \<Rightarrow> d
         | Some p \<Rightarrow> if pt_NeighborConf (path_at s p) = None then d
                     else d\<lparr>ds_recalculate := True, ds_LocRibPath := None\<rparr>)"

end
