(* ===== verification/BgpSelect.thy ===== *)
theory BgpSelect
  imports BgpDest
begin

text \<open>
  The decision process of a destination (\<open>bgp/rib/destination.go\<close>): the tie-breaking steps, the choice
  of equal-cost and additional paths, and \<open>SelectRouteForLocRib\<close>, which makes the installed routes
  follow. The steps rewrite one array in place and count how much of it is kept; a step hands the
  paths it rejects on, with the order to sort them in, for the choice of additional paths.
\<close>

section \<open>Tie-breaking\<close>

type_synonym pruned = "(path list \<times> path_order) list"

text \<open>
  The loop of the steps: the array, the best key so far, the rejected paths and the number of paths
  kept; \<open>reset\<close> is what the number becomes when a better path is found.
\<close>

fun keep_loop ::
  "('k \<Rightarrow> 'k \<Rightarrow> bool) \<Rightarrow> (nat \<Rightarrow> nat) \<Rightarrow> (path \<Rightarrow> (bgp_error, 'k) outcome) \<Rightarrow> nat list \<Rightarrow>
   path list \<times> 'k \<times> path list \<times> nat \<Rightarrow> (bgp_error, path list \<times> 'k \<times> path list \<times> nat) outcome" where
  "keep_loop better reset key [] st = Ok st"
| "keep_loop better reset key (i # is) (ps, best, removed, n) =
     obind (key (ps ! i)) (\<lambda>k. keep_loop better reset key is
       (if better best k then (ps, best, removed @ [ps ! i], n)
        else if better k best then (ps[0 := ps ! i], k, removed @ take n ps, reset n)
        else (ps[n := ps ! i], best, removed, n + 1)))"

definition prune :: "path list \<Rightarrow> path_order \<Rightarrow> pruned \<Rightarrow> pruned" where
  "prune removed ord pruned = (if removed = [] then pruned else pruned @ [(removed, ord)])"

definition keep_best ::
  "('k \<Rightarrow> 'k \<Rightarrow> bool) \<Rightarrow> (nat \<Rightarrow> nat) \<Rightarrow> (path \<Rightarrow> (bgp_error, 'k) outcome) \<Rightarrow> 'k \<Rightarrow> path_order \<Rightarrow>
   path list \<Rightarrow> pruned \<Rightarrow> (bgp_error, path list \<times> pruned) outcome" where
  "keep_best better reset key worst ord ps pruned =
     obind (keep_loop better reset key [0..<length ps] (ps, worst, [], 0)) (\<lambda>(ps, best, removed, n).
       Ok (if 0 < n then take n ps else ps, prune removed ord pruned))"

definition getRoutesWithHighestPref ::
  "store \<Rightarrow> path list \<Rightarrow> pruned \<Rightarrow> (bgp_error, path list \<times> pruned) outcome" where
  "getRoutesWithHighestPref s = keep_best (>) (\<lambda>_. 1) (\<lambda>p. Ok (pt_Pref (path_at s p))) 0 ByPref"

definition getRoutesWithSmallestAS ::
  "store \<Rightarrow> path list \<Rightarrow> pruned \<Rightarrow> (bgp_error, path list \<times> pruned) outcome" where
  "getRoutesWithSmallestAS s = keep_best (<) (\<lambda>_. 1) (\<lambda>p. path_GetNumASes (path_at s p)) 4096 BySmallestAS"

text \<open>Here the number of paths kept is increased, not reset, when a better origin is found.\<close>

definition getRoutesWithLowestOrigin ::
  "store \<Rightarrow> path list \<Rightarrow> pruned \<Rightarrow> (bgp_error, path list \<times> pruned) outcome" where
  "getRoutesWithLowestOrigin s =
     keep_best (<) (\<lambda>n. n + 1) (\<lambda>p. path_GetOrigin (path_at s p)) BGPPathAttrOriginMax ByLowestOrigin"

definition getRoutesWithLowestBGPId ::
  "store \<Rightarrow> path list \<Rightarrow> pruned \<Rightarrow> (bgp_error, path list \<times> pruned) outcome" where
  "getRoutesWithLowestBGPId s =
     keep_best (<) (\<lambda>_. 1) (\<lambda>p. GetBGPId s (path_at s p)) 0xFFFFFFFF ByLowestBGPId"

definition getRoutesWithShorterClusterLen ::
  "store \<Rightarrow> path list \<Rightarrow> pruned \<Rightarrow> (bgp_error, path list \<times> pruned) outcome" where
  "getRoutesWithShorterClusterLen s =
     keep_best (<) (\<lambda>_. 1) (\<lambda>p. path_GetNumClusters (path_at s p)) 0xFFFF ByShorterClusterLen"

text \<open>\<open>CompareNeighborAddress\<close>: addresses of different lengths compare as equal, with an error.\<close>

fun address_compare :: "byte list \<Rightarrow> byte list \<Rightarrow> int" where
  "address_compare (x # xs) (y # ys) = (if x < y then - 1 else if x > y then 1 else address_compare xs ys)"
| "address_compare _ _ = 0"

definition CompareNeighborAddress :: "ip \<Rightarrow> ip \<Rightarrow> int" where
  "CompareNeighborAddress a b = (if length a \<noteq> length b then 0 else address_compare a b)"

definition neighbor_address :: "store \<Rightarrow> path \<Rightarrow> (bgp_error, ip) outcome" where
  "neighbor_address s p =
     (case nbr_of s (path_at s p) of None \<Rightarrow> Panic | Some n \<Rightarrow> Ok (nr_NeighborAddress (nb_Neighbor n)))"

fun address_loop ::
  "store \<Rightarrow> nat list \<Rightarrow> path list \<times> path list \<times> nat \<Rightarrow> (bgp_error, path list \<times> path list \<times> nat) outcome" where
  "address_loop s [] st = Ok st"
| "address_loop s (i # is) (ps, removed, n) =
     obind (neighbor_address s (ps ! i)) (\<lambda>a. obind (neighbor_address s (ps ! 0)) (\<lambda>b.
       let val = CompareNeighborAddress a b
       in address_loop s is
            (if val > 0 then (ps, removed @ [ps ! i], n)
             else if val < 0 then (ps[0 := ps ! i], removed @ take n ps, 1)
             else (ps[n := ps ! i], removed, n + 1))))"

definition getRoutesWithLowestPeerAddress ::
  "store \<Rightarrow> path list \<Rightarrow> pruned \<Rightarrow> (bgp_error, path list \<times> pruned) outcome" where
  "getRoutesWithLowestPeerAddress s ps pruned =
     obind (address_loop s [0..<length ps] (ps, [], 0)) (\<lambda>(ps, removed, n).
       Ok (if 0 < n then take n ps else ps, prune removed ByLowestPeerAddress pruned))"

text \<open>\<open>deleteIBGPRoutes\<close> moves the last path into the place of one it deletes; \<open>m\<close> paths are left.\<close>

function delete_ibgp_loop ::
  "store \<Rightarrow> path list \<Rightarrow> nat \<Rightarrow> nat \<Rightarrow> path list \<Rightarrow> (bgp_error, path list \<times> path list) outcome" where
  "delete_ibgp_loop s ps i m removed =
     (if i < m
      then (case nbr_of s (path_at s (ps ! i)) of
              None \<Rightarrow> Panic
            | Some n \<Rightarrow>
                if nb_IsInternal n then delete_ibgp_loop s (ps[i := ps ! (m - 1)]) i (m - 1) (removed @ [ps ! i])
                else delete_ibgp_loop s ps (i + 1) m removed)
      else Ok (take i ps, removed))"
  by pat_completeness auto
termination
  by (relation "measure (\<lambda>(s, ps, i, m, removed). m - i)") auto

declare delete_ibgp_loop.simps [simp del]

definition deleteIBGPRoutes :: "store \<Rightarrow> path list \<Rightarrow> pruned \<Rightarrow> (bgp_error, path list \<times> pruned) outcome" where
  "deleteIBGPRoutes s ps pruned =
     obind (delete_ibgp_loop s ps 0 (length ps) []) (\<lambda>(ps, removed).
       Ok (ps, prune removed ByIBGPOrEBGPRoutes pruned))"

definition isEBGPRoute :: "store \<Rightarrow> path \<Rightarrow> bool" where
  "isEBGPRoute s p \<longleftrightarrow> IsExternal s (path_at s p)"

definition isIBGPRoute :: "store \<Rightarrow> path \<Rightarrow> bool" where
  "isIBGPRoute s p \<longleftrightarrow> IsInternal s (path_at s p)"

definition removeIBGPRoutesIfEBGPExist ::
  "store \<Rightarrow> path list \<Rightarrow> pruned \<Rightarrow> (bgp_error, path list \<times> pruned) outcome" where
  "removeIBGPRoutesIfEBGPExist s ps pruned =
     (if list_ex (isEBGPRoute s) ps then deleteIBGPRoutes s ps pruned else Ok (ps, pruned))"

section \<open>Equal-cost and additional paths\<close>

text \<open>The order of \<open>range\<close> over the keys of a map, and \<open>sort.Sort\<close>.\<close>

record go_env =
  ge_range :: "string list \<Rightarrow> string list"
  ge_sort :: "(path \<Rightarrow> path \<Rightarrow> bool) \<Rightarrow> path list \<Rightarrow> path list"

definition next_hop_of :: "store \<Rightarrow> u32 \<Rightarrow> path \<Rightarrow> (bgp_error, string) outcome" where
  "next_hop_of s pf p =
     (case GetReachability (path_at s p) pf of None \<Rightarrow> Panic | Some r \<Rightarrow> Ok (ri_NextHop r))"

fun group_by_next_hop ::
  "store \<Rightarrow> u32 \<Rightarrow> path list \<Rightarrow> (string \<times> path list) list \<Rightarrow> (bgp_error, (string \<times> path list) list) outcome" where
  "group_by_next_hop s pf [] m = Ok m"
| "group_by_next_hop s pf (p # ps) m =
     obind (next_hop_of s pf p) (\<lambda>nh. group_by_next_hop s pf ps
       (AList.update nh (case map_of m nh of None \<Rightarrow> [p] | Some qs \<Rightarrow> qs @ [p]) m))"

definition range_values :: "go_env \<Rightarrow> (string \<times> 'a) list \<Rightarrow> 'a list" where
  "range_values ge m = map (\<lambda>k. the (map_of m k)) (ge_range ge (map fst m))"

definition getECMPPaths :: "go_env \<Rightarrow> store \<Rightarrow> u32 \<Rightarrow> path list \<Rightarrow> (bgp_error, path list list) outcome" where
  "getECMPPaths ge s pf ps = obind (group_by_next_hop s pf ps []) (\<lambda>m. Ok (range_values ge m))"

text \<open>One additional path for every next hop that has none yet.\<close>

fun add_paths_loop ::
  "store \<Rightarrow> u32 \<Rightarrow> path list \<Rightarrow> (string \<times> path) list \<times> (string \<times> path) list \<Rightarrow>
   (bgp_error, (string \<times> path) list \<times> (string \<times> path) list) outcome" where
  "add_paths_loop s pf [] st = Ok st"
| "add_paths_loop s pf (p # ps) (cur, m) =
     obind (next_hop_of s pf p) (\<lambda>nh. add_paths_loop s pf ps
       (if map_of m nh = None then (AList.update nh p cur, AList.update nh p m) else (cur, m)))"

definition addAddPaths ::
  "go_env \<Rightarrow> store \<Rightarrow> u32 \<Rightarrow> path list \<Rightarrow> path list \<times> (string \<times> path) list \<Rightarrow>
   (bgp_error, path list \<times> (string \<times> path) list) outcome" where
  "addAddPaths ge s pf currPaths = (\<lambda>(addPaths, m).
     obind (add_paths_loop s pf currPaths ([], m)) (\<lambda>(cur, m). Ok (addPaths @ range_values ge cur, m)))"

text \<open>The rejected paths are visited from the last step to the first.\<close>

fun pruned_add_paths ::
  "go_env \<Rightarrow> store \<Rightarrow> u32 \<Rightarrow> int \<Rightarrow> pruned \<Rightarrow> path list \<times> (string \<times> path) list \<Rightarrow> (bgp_error, path list) outcome" where
  "pruned_add_paths ge s pf count [] (addPaths, m) = Ok addPaths"
| "pruned_add_paths ge s pf count ((ps, ord) # rest) (addPaths, m) =
     obind (addAddPaths ge s pf (ge_sort ge (Less s ord) ps) (addPaths, m)) (\<lambda>(addPaths, m).
       if int (length addPaths) \<ge> count then Ok (take (nat count) addPaths)
       else pruned_add_paths ge s pf count rest (addPaths, m))"

text \<open>A step is taken while more than one path is left.\<close>

definition if_many ::
  "(path list \<Rightarrow> pruned \<Rightarrow> (bgp_error, path list \<times> pruned) outcome) \<Rightarrow> path list \<times> pruned \<Rightarrow>
   (bgp_error, path list \<times> pruned) outcome" where
  "if_many step = (\<lambda>(ps, pruned). if 1 < length ps then step ps pruned else Ok (ps, pruned))"

definition ecmp_both ::
  "go_env \<Rightarrow> store \<Rightarrow> u32 \<Rightarrow> bool \<Rightarrow> bool \<Rightarrow> path list \<Rightarrow> (bgp_error, path list list) outcome" where
  "ecmp_both ge s pf ebgp ibgp ps =
     (if 1 < length ps \<and> ebgp \<and> ibgp then getECMPPaths ge s pf ps else Ok [])"

definition ecmp_one ::
  "go_env \<Rightarrow> store \<Rightarrow> u32 \<Rightarrow> bool \<Rightarrow> bool \<Rightarrow> path list \<Rightarrow> path list list \<Rightarrow> (bgp_error, path list list) outcome" where
  "ecmp_one ge s pf ebgp ibgp ps ecmpPaths =
     (if 1 < length ps \<and> ibgp \<noteq> ebgp \<and> (ebgp \<and> isEBGPRoute s (hd ps) \<or> ibgp \<and> isIBGPRoute s (hd ps))
      then getECMPPaths ge s pf ps else Ok ecmpPaths)"

definition choose_add_paths ::
  "go_env \<Rightarrow> store \<Rightarrow> u32 \<Rightarrow> int \<Rightarrow> path list \<Rightarrow> pruned \<Rightarrow> (bgp_error, path list) outcome" where
  "choose_add_paths ge s pf count ps pruned =
     obind (if 0 < count \<and> 1 < length ps then addAddPaths ge s pf (tl ps) ([], []) else Ok ([], []))
       (\<lambda>(addPaths, m).
         if int (length addPaths) < count then pruned_add_paths ge s pf count (rev pruned) (addPaths, m)
         else Ok addPaths)"

text \<open>From the point where preference, AS path and origin have been compared.\<close>

definition break_ties ::
  "go_env \<Rightarrow> store \<Rightarrow> u32 \<Rightarrow> bool \<Rightarrow> bool \<Rightarrow> int \<Rightarrow> path list \<times> pruned \<Rightarrow>
   (bgp_error, path list \<times> path list list \<times> path list) outcome" where
  "break_ties ge s pf ebgpMultiPath ibgpMultiPath addPathCount st =
     obind (ecmp_both ge s pf ebgpMultiPath ibgpMultiPath (fst st)) (\<lambda>ecmpPaths.
     obind (if_many (removeIBGPRoutesIfEBGPExist s) st) (\<lambda>st.
     obind (ecmp_one ge s pf ebgpMultiPath ibgpMultiPath (fst st) ecmpPaths) (\<lambda>ecmpPaths.
     obind (if_many (getRoutesWithLowestBGPId s) st) (\<lambda>st.
     obind (if_many (getRoutesWithShorterClusterLen s) st) (\<lambda>st.
     obind (if_many (getRoutesWithLowestPeerAddress s) st) (\<lambda>(ps, pruned).
     obind (choose_add_paths ge s pf addPathCount ps pruned) (\<lambda>addPaths.
       Ok (ps, ecmpPaths, addPaths))))))))"

definition calculateBestPath ::
  "go_env \<Rightarrow> store \<Rightarrow> u32 \<Rightarrow> path list \<Rightarrow> path list \<Rightarrow> bool \<Rightarrow> bool \<Rightarrow> int \<Rightarrow>
   (bgp_error, path list \<times> path list list \<times> path list) outcome" where
  "calculateBestPath ge s pf updatedPaths removedPaths ebgpMultiPath ibgpMultiPath addPathCount =
     obind (if_many (getRoutesWithHighestPref s) (updatedPaths, [(removedPaths, ByRouteSrc)])) (\<lambda>st.
     obind (if_many (getRoutesWithSmallestAS s) st) (\<lambda>st.
     obind (if_many (getRoutesWithLowestOrigin s) st)
       (break_ties ge s pf ebgpMultiPath ibgpMultiPath addPathCount)))"

end
