(* ===== verification/BgpInstall.thy ===== *)
theory BgpInstall
  imports BgpSelect
begin

text \<open>
  \<open>SelectRouteForLocRib\<close> (\<open>bgp/rib/destination.go\<close>): from the paths of a destination to its best path,
  its equal-cost paths, and the routes that are created, changed and removed in the forwarding table
  of the router. What is sent to the route manager is the list of route operations.
\<close>

section \<open>Routes for the route manager\<close>

record RouteConfig =
  rc_Cost :: int
  rc_IntfType :: int
  rc_Protocol :: string
  rc_NextHopIp :: string
  rc_NetworkMask :: string
  rc_DestinationNw :: string
  rc_OutgoingInterface :: string
  rc_IsIPv6 :: bool
  rc_NullRoute :: bool

datatype route_op = CreateRoute RouteConfig | AddNextHop RouteConfig | RemoveNextHop RouteConfig

definition route_op_cfg :: "route_op \<Rightarrow> RouteConfig" where
  "route_op_cfg x = (case x of CreateRoute c \<Rightarrow> c | AddNextHop c \<Rightarrow> c | RemoveNextHop c \<Rightarrow> c)"

text \<open>\<open>strconv.Itoa\<close>.\<close>

definition Itoa :: "int \<Rightarrow> string" where
  "Itoa i = (if i < 0 then ''-'' @ itod (nat (- i)) else itod (nat i))"

definition constructNetmaskFromLen :: "int \<Rightarrow> int \<Rightarrow> (bgp_error, ip) outcome" where
  "constructNetmaskFromLen ones bits =
     (let n = tdiv bits 8; bytes = nat (tdiv ones 8); rem = nat ones mod 8
      in if n < 0 \<or> nat n < bytes \<or> rem \<noteq> 0 \<and> nat n \<le> bytes then Panic
         else let ip = replicate bytes 255 @ replicate (nat n - bytes) 0
              in Ok (if rem \<noteq> 0 then ip[bytes := push_bit (8 - rem) 255] else ip))"

definition netmask_of :: "Destination \<Rightarrow> int \<Rightarrow> (bgp_error, ip) outcome" where
  "netmask_of d ipLength = constructNetmaskFromLen (uint (pfx_Length (GetIPPrefix (ds_NLRI d)))) (ipLength * 8)"

definition ConstructRouteConfig ::
  "store \<Rightarrow> Destination \<Rightarrow> path \<Rightarrow> ReachabilityInfo \<Rightarrow> int \<Rightarrow> (bgp_error, RouteConfig) outcome" where
  "ConstructRouteConfig s d p reachInfo ipLength =
     obind (netmask_of d ipLength) (\<lambda>mask.
       Ok \<lparr>rc_Cost = ri_Metric reachInfo, rc_IntfType = ri_NextHopIfType reachInfo,
           rc_Protocol = (if IsExternal s (path_at s p) then ''EBGP'' else ''IBGP''),
           rc_NextHopIp = ri_NextHop reachInfo, rc_NetworkMask = ip_String mask,
           rc_DestinationNw = ip_String (pfx_Prefix (GetIPPrefix (ds_NLRI d))),
           rc_OutgoingInterface = Itoa (ri_NextHopIfIdx reachInfo), rc_IsIPv6 = (ipLength = 16),
           rc_NullRoute = IsAggregate (path_at s p)\<rparr>)"

section \<open>Which paths take part\<close>

definition collect_path ::
  "store \<Rightarrow> u32 \<Rightarrow> path option \<Rightarrow> path \<Rightarrow> path list \<times> path list \<times> u8 \<Rightarrow>
   (bgp_error, path list \<times> path list \<times> u8) outcome" where
  "collect_path s pf locRib p = (\<lambda>(updated, removed, src).
     if locRib = Some p \<or> \<not> IsReachable (path_at s p) pf then Ok (updated, removed, src)
     else obind (path_HasASLoop s (path_at s p)) (\<lambda>loop.
       let cur = getRouteSource (pt_routeType (path_at s p))
       in if loop then Ok (updated, removed, src)
          else if cur > src then Ok (updated, removed @ [p], src)
          else if cur < src then Ok ([p], removed @ updated, cur)
          else Ok (updated @ [p], removed, src)))"

fun collect_paths ::
  "store \<Rightarrow> u32 \<Rightarrow> path option \<Rightarrow> path list \<Rightarrow> path list \<times> path list \<times> u8 \<Rightarrow>
   (bgp_error, path list \<times> path list \<times> u8) outcome" where
  "collect_paths s pf locRib [] st = Ok st"
| "collect_paths s pf locRib (p # ps) st = obind (collect_path s pf locRib p st) (collect_paths s pf locRib ps)"

definition all_paths :: "Destination \<Rightarrow> path list" where
  "all_paths d = concat (map (map snd \<circ> snd) (ds_peerPathMap d))"

definition candidate_paths :: "store \<Rightarrow> Destination \<Rightarrow> (bgp_error, path list \<times> path list \<times> u8) outcome" where
  "candidate_paths s d =
     collect_paths s (ds_protoFamily d) (ds_LocRibPath d) (all_paths d)
       (case ds_LocRibPath d of
          Some p \<Rightarrow> ([p], [], getRouteSource (pt_routeType (path_at s p)))
        | None \<Rightarrow> ([], [], RouteSrcUnknown))"

section \<open>The best path first\<close>

text \<open>
  \<open>removeAndPrepend\<close>: the list that holds the item comes first and the item first in it; when no list
  holds it a new one is appended and the index is still that of the last list before.
\<close>

definition removeAndPrepend :: "path list list \<Rightarrow> path \<Rightarrow> path list list" where
  "removeAndPrepend pathsList item =
     (case find (\<lambda>i. item \<in> set (pathsList ! i)) [0..<length pathsList] of
        Some i \<Rightarrow> (item # remove1 item (pathsList ! i)) # take i pathsList @ drop (i + 1) pathsList
      | None \<Rightarrow> (let i = length pathsList - 1; l = pathsList @ [[item]]
                 in [item] # take i l @ drop (i + 1) l))"

section \<open>Installing\<close>

text \<open>
  The state of the loop over the lists of equal-cost paths: the destination, the action on the best
  path, whether no route is installed yet, routes added and updated, paths to install.
\<close>

record select_state =
  ss_dest :: Destination
  ss_action :: RouteAction
  ss_first :: bool
  ss_added :: "route list"
  ss_updated :: "route list"
  ss_create :: "path list"

definition installs :: "store \<Rightarrow> path \<Rightarrow> bool" where
  "installs s p \<longleftrightarrow> \<not> IsLocal (path_at s p) \<or> IsAggregate (path_at s p)"

text \<open>An installed path of the list: only the first one counts in the list of the best path.\<close>

definition installed_path :: "Destination \<Rightarrow> nat \<Rightarrow> path list \<Rightarrow> path option" where
  "installed_path d i paths =
     find (\<lambda>p. map_of (ds_ecmpPaths d) p \<noteq> None) (if i = 0 then take 1 paths else paths)"

definition keep_installed :: "store \<Rightarrow> nat \<Rightarrow> path \<Rightarrow> route \<Rightarrow> select_state \<Rightarrow> select_state" where
  "keep_installed s i p r st =
     st\<lparr>ss_first := False,
        ss_action := (if i = 0 \<and> IsAggregate (path_at s p) then RouteActionReplace else ss_action st),
        ss_updated := ss_updated st @ [r],
        ss_dest := upd_route r (\<lambda>x. let x = setAction RouteActionReplace x in if i \<noteq> 0 then ResetBestPath x else x) (ss_dest st)\<rparr>"

definition add_route :: "store \<Rightarrow> int \<Rightarrow> nat \<Rightarrow> path \<Rightarrow> select_state \<Rightarrow> (bgp_error, select_state) outcome" where
  "add_route s ipLength i p st =
     (let d = ss_dest st in
      case map_of (ds_pathRouteMap d) p of
        None \<Rightarrow> Ok st
      | Some r \<Rightarrow>
          obind (if installs s p
                 then obind (netmask_of d ipLength) (\<lambda>_. obind (next_hop_of s (ds_protoFamily d) p) (\<lambda>_. Ok ()))
                 else Ok ()) (\<lambda>_.
            Ok (st\<lparr>ss_dest := (upd_route r (\<lambda>x. let x = SetMultiPath (setAction RouteActionAdd x)
                                                in if i = 0 then SetBestPath x else x) d)
                               \<lparr>ds_ecmpPaths := AList.update p r (ds_ecmpPaths d)\<rparr>,
                   ss_action := (if i = 0 then RouteActionAdd else ss_action st),
                   ss_added := ss_added st @ [r],
                   ss_create := (if installs s p then ss_create st @ [p] else ss_create st)\<rparr>)))"

definition install_list ::
  "store \<Rightarrow> int \<Rightarrow> nat \<times> path list \<Rightarrow> select_state \<Rightarrow> (bgp_error, select_state) outcome" where
  "install_list s ipLength = (\<lambda>(i, paths) st.
     case installed_path (ss_dest st) i paths of
       Some p \<Rightarrow> Ok (keep_installed s i p (the (map_of (ds_ecmpPaths (ss_dest st)) p)) st)
     | None \<Rightarrow> obind (idx paths 0) (\<lambda>p. add_route s ipLength i p st))"

fun install_lists ::
  "store \<Rightarrow> int \<Rightarrow> (nat \<times> path list) list \<Rightarrow> select_state \<Rightarrow> (bgp_error, select_state) outcome" where
  "install_lists s ipLength [] st = Ok st"
| "install_lists s ipLength (x # xs) st = obind (install_list s ipLength x st) (install_lists s ipLength xs)"

text \<open>What is no longer wanted is removed; the rest is marked as done.\<close>

definition sweep_route ::
  "store \<Rightarrow> int \<Rightarrow> path \<times> route \<Rightarrow> Destination \<times> route_op list \<times> route list \<Rightarrow>
   (bgp_error, Destination \<times> route_op list \<times> route list) outcome" where
  "sweep_route s ipLength = (\<lambda>(p, r) (d, ops, deleted).
     if rt_action (route_at d r) \<in> {RouteActionNone, RouteActionDelete}
     then obind (if installs s p
                 then (case GetReachability (path_at s p) (ds_protoFamily d) of
                         None \<Rightarrow> Panic
                       | Some info \<Rightarrow> obind (ConstructRouteConfig s d p info ipLength) (\<lambda>cfg. Ok [RemoveNextHop cfg]))
                 else Ok []) (\<lambda>op.
            Ok ((upd_route r (\<lambda>x. ResetMultiPath (ResetBestPath x)) d)
                  \<lparr>ds_ecmpPaths := AList.delete p (ds_ecmpPaths d)\<rparr>, ops @ op, deleted @ [r]))
     else Ok (upd_route r (setAction RouteActionNone) d, ops, deleted))"

fun sweep_routes ::
  "store \<Rightarrow> int \<Rightarrow> (path \<times> route) list \<Rightarrow> Destination \<times> route_op list \<times> route list \<Rightarrow>
   (bgp_error, Destination \<times> route_op list \<times> route list) outcome" where
  "sweep_routes s ipLength [] st = Ok st"
| "sweep_routes s ipLength (x # xs) st = obind (sweep_route s ipLength x st) (sweep_routes s ipLength xs)"

text \<open>The new routes; the first one creates the route if none was installed.\<close>

fun create_routes ::
  "store \<Rightarrow> Destination \<Rightarrow> int \<Rightarrow> bool \<Rightarrow> path list \<Rightarrow> (bgp_error, route_op list) outcome" where
  "create_routes s d ipLength first [] = Ok []"
| "create_routes s d ipLength first (p # ps) =
     (case GetReachability (path_at s p) (ds_protoFamily d) of
        None \<Rightarrow> Panic
      | Some info \<Rightarrow>
          obind (ConstructRouteConfig s d p info ipLength) (\<lambda>cfg.
          obind (create_routes s d ipLength False ps) (\<lambda>ops.
            Ok ((if first then CreateRoute cfg else AddNextHop cfg) # ops))))"

section \<open>\<open>SelectRouteForLocRib\<close>\<close>

text \<open>What it returns, with the destination and the route operations.\<close>

record selection =
  sl_dest :: Destination
  sl_ops :: "route_op list"
  sl_action :: RouteAction
  sl_addPathsUpdated :: bool
  sl_added :: "route list"
  sl_updated :: "route list"
  sl_deleted :: "route list"

text \<open>The part for a destination that has paths to choose from.\<close>

definition choose_paths ::
  "go_env \<Rightarrow> store \<Rightarrow> GlobalConfig \<Rightarrow> int \<Rightarrow> u32 \<Rightarrow> path list \<Rightarrow> path list \<Rightarrow>
   (bgp_error, path list \<times> path list list \<times> path list) outcome" where
  "choose_paths ge s g addPathCount pf updated removed =
     (if 1 < length updated \<or> 0 < addPathCount
      then calculateBestPath ge s pf updated removed (gc_UseMultiplePaths g \<and> 1 < gc_EBGPMaxPaths g)
             (gc_UseMultiplePaths g \<and> 1 < gc_IBGPMaxPaths g) addPathCount
      else Ok (updated, [], []))"

definition install_paths ::
  "store \<Rightarrow> int \<Rightarrow> path list \<times> path list list \<times> path list \<Rightarrow> Destination \<Rightarrow>
   (bgp_error, select_state \<times> bool) outcome" where
  "install_paths s ipLength = (\<lambda>(ps, ecmp, addPaths) d.
     let (d, addPathsUpdated) = updateAddPaths addPaths d
     in obind (idx ps 0) (\<lambda>best.
        let lists = removeAndPrepend ecmp best
        in obind (install_lists s ipLength (zip [0..<length lists] lists)
                   \<lparr>ss_dest = d, ss_action = RouteActionNone, ss_first = True, ss_added = [], ss_updated = [], ss_create = []\<rparr>)
             (\<lambda>st. let d = ss_dest st
                   in Ok (st\<lparr>ss_dest := d\<lparr>ds_LocRibPath := Some best,
                                           ds_LocRibPathRoute := map_of (ds_ecmpPaths d) best\<rparr>\<rparr>, addPathsUpdated))))"

definition withdraw_all :: "Destination \<Rightarrow> select_state" where
  "withdraw_all d =
     \<lparr>ss_dest = (fold (\<lambda>(p, r). upd_route r (setAction RouteActionDelete)) (ds_ecmpPaths d) d)\<lparr>ds_LocRibPath := None\<rparr>,
      ss_action = RouteActionDelete, ss_first = True, ss_added = [], ss_updated = [], ss_create = []\<rparr>"

definition SelectRouteForLocRib ::
  "go_env \<Rightarrow> store \<Rightarrow> GlobalConfig \<Rightarrow> int \<Rightarrow> Destination \<Rightarrow> (bgp_error, selection) outcome" where
  "SelectRouteForLocRib ge s g addPathCount d =
     (let ipLength = GetAddressLengthForFamily (ds_protoFamily d) in
      if \<not> ds_recalculate d
      then Ok \<lparr>sl_dest = d, sl_ops = [], sl_action = RouteActionNone, sl_addPathsUpdated = False,
               sl_added = [], sl_updated = [], sl_deleted = []\<rparr>
      else let d = d\<lparr>ds_recalculate := False\<rparr> in
        obind (candidate_paths s d) (\<lambda>(updated, removed, src).
        obind (if updated \<noteq> []
               then obind (choose_paths ge s g addPathCount (ds_protoFamily d) updated removed) (\<lambda>c. install_paths s ipLength c d)
               else Ok (withdraw_all d, False)) (\<lambda>(st, addPathsUpdated).
        obind (sweep_routes s ipLength (ds_ecmpPaths (ss_dest st)) (ss_dest st, [], [])) (\<lambda>(d, ops, deleted).
        obind (create_routes s d ipLength (ss_first st) (ss_create st)) (\<lambda>created.
          Ok \<lparr>sl_dest = d, sl_ops = ops @ created, sl_action = ss_action st, sl_addPathsUpdated = addPathsUpdated,
              sl_added = ss_added st, sl_updated = ss_updated st, sl_deleted = deleted\<rparr>)))))"

end
