(* ===== verification/BgpLocRib.thy ===== *)
theory BgpLocRib
  imports BgpInstall
begin

text \<open>
  The local RIB (\<open>bgp/rib/rib.go\<close>): destinations by family and prefix, the cache of next hops that are
  reachable, the paths that wait for theirs to become so, and the list the RPC layer pages through.
  Destinations are pointers and live in a store. What the route manager answers about a next hop is
  an argument; what is sent to it and to the state database is appended to an output list. The mutex
  is held within single calls only and has no part in the model. Aggregation is not modelled.
\<close>

section \<open>State\<close>

type_synonym dest = nat

datatype rib_output = RouteOp route_op | DbAdd dest | DbUpdate dest | DbDelete dest

record LocRib =
  lr_store :: store
  lr_gConf :: GlobalConfig
  lr_dests :: "Destination list"
  lr_destPathMap :: "(u32 \<times> (string \<times> dest) list) list"
  lr_reachabilityMap :: "(string \<times> ReachabilityInfo) list"
  lr_unreachablePaths :: "(string \<times> (path \<times> (dest \<times> u32 list) list) list) list"
  lr_routesCount :: "(u32 \<times> u32) list"
  lr_routeList :: "(u32 \<times> dest option list) list"
  lr_routeListDirty :: "(u32 \<times> bool) list"
  lr_activeGet :: "(u32 \<times> bool) list"
  lr_timer :: "(u32 \<times> bool) list"
  lr_out :: "rib_output list"

definition NewLocRib :: "store \<Rightarrow> GlobalConfig \<Rightarrow> LocRib" where
  "NewLocRib s g =
     \<lparr>lr_store = s, lr_gConf = g, lr_dests = [], lr_destPathMap = [], lr_reachabilityMap = [], lr_unreachablePaths = [],
      lr_routesCount = [], lr_routeList = [], lr_routeListDirty = [], lr_activeGet = [], lr_timer = [], lr_out = []\<rparr>"

text \<open>A missing key of a Go map reads as the zero value.\<close>

definition lookup_or :: "'v \<Rightarrow> ('k \<times> 'v) list \<Rightarrow> 'k \<Rightarrow> 'v" where
  "lookup_or z m k = (case map_of m k of Some v \<Rightarrow> v | None \<Rightarrow> z)"

definition rib_emit :: "rib_output list \<Rightarrow> LocRib \<Rightarrow> LocRib" where
  "rib_emit xs l = l\<lparr>lr_out := lr_out l @ xs\<rparr>"

definition set_dest :: "dest \<Rightarrow> Destination \<Rightarrow> LocRib \<Rightarrow> LocRib" where
  "set_dest x d l = l\<lparr>lr_dests := (lr_dests l)[x := d]\<rparr>"

definition upd_neighbor :: "nbr \<Rightarrow> (NeighborConf \<Rightarrow> NeighborConf) \<Rightarrow> LocRib \<Rightarrow> LocRib" where
  "upd_neighbor n g l =
     (let s = lr_store l
      in l\<lparr>lr_store := s\<lparr>st_neighbors := (st_neighbors s)[n := g (st_neighbors s ! n)]\<rparr>\<rparr>)"

definition upd_path :: "path \<Rightarrow> (Path \<Rightarrow> Path) \<Rightarrow> LocRib \<Rightarrow> LocRib" where
  "upd_path p g l =
     (let s = lr_store l in l\<lparr>lr_store := s\<lparr>st_paths := (st_paths s)[p := g (st_paths s ! p)]\<rparr>\<rparr>)"

section \<open>Next hops\<close>

record next_hop_reply =
  nhr_NextHopIp :: string
  nhr_NextHopIfType :: int
  nhr_NextHopIfIndex :: int
  nhr_Metric :: int

definition GetReachabilityInfo ::
  "(string \<Rightarrow> next_hop_reply option) \<Rightarrow> string \<Rightarrow> LocRib \<Rightarrow> ReachabilityInfo option \<times> LocRib" where
  "GetReachabilityInfo ask ipStr l =
     (case map_of (lr_reachabilityMap l) ipStr of
        Some r \<Rightarrow> (Some r, l)
      | None \<Rightarrow>
          (case ask ipStr of
             None \<Rightarrow> (None, l)
           | Some reply \<Rightarrow>
               (let nextHop = nhr_NextHopIp reply;
                    nextHop = (if nextHop = [] \<or> hd nextHop = CHR ''0'' \<or> nextHop = ''::'' then ipStr else nextHop);
                    r = NewReachabilityInfo nextHop (nhr_NextHopIfType reply) (nhr_NextHopIfIndex reply) (nhr_Metric reply)
                in (Some r, l\<lparr>lr_reachabilityMap := AList.update ipStr r (lr_reachabilityMap l)\<rparr>))))"

section \<open>The route list\<close>

definition addRoutesToRouteList :: "dest \<Rightarrow> u32 \<Rightarrow> LocRib \<Rightarrow> LocRib" where
  "addRoutesToRouteList x pf l =
     (let l = (if map_of (lr_timer l) pf = None then l\<lparr>lr_timer := AList.update pf False (lr_timer l)\<rparr> else l);
          rs = lookup_or [] (lr_routeList l) pf
      in set_dest x ((lr_dests l ! x)\<lparr>ds_routeListIdx := int (length rs)\<rparr>)
           (l\<lparr>lr_routeList := AList.update pf (rs @ [Some x]) (lr_routeList l)\<rparr>))"

definition set_route_list :: "u32 \<Rightarrow> dest option list \<Rightarrow> LocRib \<Rightarrow> LocRib" where
  "set_route_list pf rs l = l\<lparr>lr_routeList := AList.update pf rs (lr_routeList l)\<rparr>"

definition removeRoutesFromRouteList :: "dest \<Rightarrow> u32 \<Rightarrow> LocRib \<Rightarrow> (bgp_error, LocRib) outcome" where
  "removeRoutesFromRouteList x pf l =
     (case map_of (lr_routeList l) pf of
        None \<Rightarrow> Ok l
      | Some rs \<Rightarrow>
          (let i = ds_routeListIdx (lr_dests l ! x) in
           if i = - 1 then Ok l
           else if \<not> lookup_or False (lr_activeGet l) pf
           then if rs = [] then Panic
             else obind (set_idx rs (nat i) (last rs)) (\<lambda>rs.
               case last rs of
                 None \<Rightarrow> Panic
               | Some y \<Rightarrow> Ok (set_route_list pf (butlast rs)
                              (set_dest y ((lr_dests l ! y)\<lparr>ds_routeListIdx := i\<rparr>) l)))
           else obind (set_idx rs (nat i) None) (\<lambda>rs.
             Ok ((set_route_list pf rs l)\<lparr>lr_routeListDirty := AList.update pf True (lr_routeListDirty l)\<rparr>))))"

text \<open>
  The loop of \<open>ResetRouteList\<close>: a hole at \<open>i\<close> is filled with the last entry at or before \<open>lst\<close> that is
  none; the list is cut where there is no such entry.
\<close>

definition last_entry :: "nat \<Rightarrow> nat \<Rightarrow> dest option list \<Rightarrow> nat option" where
  "last_entry i lst rs = find (\<lambda>j. rs ! j \<noteq> None) (rev [Suc i..<Suc lst])"

function compact_loop :: "nat \<Rightarrow> nat \<Rightarrow> dest option list \<Rightarrow> Destination list \<Rightarrow> dest option list \<times> Destination list" where
  "compact_loop i lst rs ds =
     (if length rs \<le> i then (rs, ds)
      else case rs ! i of
        Some x \<Rightarrow> compact_loop (i + 1) lst rs ds
      | None \<Rightarrow>
          (case last_entry i lst rs of
             None \<Rightarrow> (take i rs, ds)
           | Some j \<Rightarrow>
               (let x = the (rs ! j)
                in compact_loop (i + 1) j (rs[i := Some x, j := None]) (ds[x := (ds ! x)\<lparr>ds_routeListIdx := int i\<rparr>]))))"
  by pat_completeness auto
termination
  by (relation "measure (\<lambda>(i, lst, rs, ds). length rs - i)") auto

declare compact_loop.simps [simp del]

definition ResetRouteList :: "u32 \<Rightarrow> LocRib \<Rightarrow> LocRib" where
  "ResetRouteList pf l =
     (let l = l\<lparr>lr_activeGet := AList.update pf False (lr_activeGet l)\<rparr> in
      if \<not> lookup_or False (lr_routeListDirty l) pf then l
      else let rs = lookup_or [] (lr_routeList l) pf;
               (rs, ds) = compact_loop 0 (length rs - 1) rs (lr_dests l)
           in (set_route_list pf rs (l\<lparr>lr_dests := ds\<rparr>))
                \<lparr>lr_routeListDirty := AList.update pf False (lr_routeListDirty l)\<rparr>)"

definition ResetAllRouteLists :: "LocRib \<Rightarrow> LocRib" where
  "ResetAllRouteLists l = fold ResetRouteList (map fst (lr_routeList l)) l"

definition GetBGPRoute :: "string \<Rightarrow> u32 \<Rightarrow> LocRib \<Rightarrow> dest option" where
  "GetBGPRoute prefix pf l = Option.bind (map_of (lr_destPathMap l) pf) (\<lambda>m. map_of m prefix)"

text \<open>A page of the route list: the index to go on from, the destinations found.\<close>

fun page_loop :: "nat \<Rightarrow> nat \<Rightarrow> dest option list \<Rightarrow> Destination list \<Rightarrow> nat \<Rightarrow> dest list \<Rightarrow> nat \<times> dest list" where
  "page_loop i n [] ds cnt acc = (i, acc)"
| "page_loop i n (r # rs) ds cnt acc =
     (if n < cnt
      then (case r of
              Some x \<Rightarrow> if ds_Paths (ds ! x) \<noteq> [] then page_loop (i + 1) (n + 1) rs ds cnt (acc @ [x])
                         else page_loop (i + 1) n rs ds cnt acc
            | None \<Rightarrow> page_loop (i + 1) n rs ds cnt acc)
      else (i, acc))"

definition BulkGetBGPRoutes :: "nat \<Rightarrow> nat \<Rightarrow> u32 \<Rightarrow> LocRib \<Rightarrow> (nat \<times> dest list) \<times> LocRib" where
  "BulkGetBGPRoutes index cnt pf l =
     (if map_of (lr_timer l) pf = None then ((0, []), l)
      else let l = (if index = 0 \<and> lookup_or False (lr_activeGet l) pf then ResetRouteList pf l else l);
               l = l\<lparr>lr_activeGet := AList.update pf True (lr_activeGet l)\<rparr>;
               rs = lookup_or [] (lr_routeList l) pf;
               (i, found) = page_loop index 0 (drop index rs) (lr_dests l) cnt []
           in ((if length rs \<le> i then 0 else i, found), l\<lparr>lr_timer := AList.update pf True (lr_timer l)\<rparr>))"

section \<open>Destinations\<close>

definition isIpInList :: "NLRI list \<Rightarrow> NLRI \<Rightarrow> bool" where
  "isIpInList prefixes ip =
     list_ex (\<lambda>n. GetPathId n = GetPathId ip \<and> ip_Equal (pfx_Prefix (GetIPPrefix n)) (pfx_Prefix (GetIPPrefix ip))) prefixes"

definition find_dest :: "NLRI \<Rightarrow> u32 \<Rightarrow> LocRib \<Rightarrow> dest option" where
  "find_dest nlri pf l = GetBGPRoute (GetCIDR nlri) pf l"

definition new_dest :: "NLRI \<Rightarrow> u32 \<Rightarrow> LocRib \<Rightarrow> LocRib" where
  "new_dest nlri pf l =
     (let x = length (lr_dests l);
          m = AList.update (GetCIDR nlri) x (lookup_or [] (lr_destPathMap l) pf);
          l = l\<lparr>lr_dests := lr_dests l @ [NewDestination nlri pf],
                lr_destPathMap := AList.update pf m (lr_destPathMap l)\<rparr>;
          l = addRoutesToRouteList x pf l
      in l\<lparr>lr_routesCount := AList.update pf (lookup_or 0 (lr_routesCount l) pf + 1) (lr_routesCount l)\<rparr>)"

text \<open>\<open>GetDest(nlri, pf, true)\<close>: the destination, whether it was there before.\<close>

definition get_or_new_dest :: "NLRI \<Rightarrow> u32 \<Rightarrow> LocRib \<Rightarrow> dest \<times> bool \<times> LocRib" where
  "get_or_new_dest nlri pf l =
     (case find_dest nlri pf l of
        Some x \<Rightarrow> (x, True, l)
      | None \<Rightarrow> (length (lr_dests l), False, new_dest nlri pf l))"

definition delete_dest :: "dest \<Rightarrow> string \<Rightarrow> u32 \<Rightarrow> LocRib \<Rightarrow> (bgp_error, LocRib) outcome" where
  "delete_dest x cidr pf l =
     obind (removeRoutesFromRouteList x pf l) (\<lambda>l.
       Ok (l\<lparr>lr_destPathMap := AList.update pf (AList.delete cidr (lookup_or [] (lr_destPathMap l) pf)) (lr_destPathMap l),
             lr_routesCount := AList.update pf (lookup_or 0 (lr_routesCount l) pf - 1) (lr_routesCount l)\<rparr>))"

section \<open>Updates for the neighbors\<close>

text \<open>What the server is to announce: destinations by family and path, those withdrawn, those whose additional paths changed.\<close>

record rib_update =
  ru_updated :: "(u32 \<times> (path option \<times> dest list) list) list"
  ru_withdrawn :: "dest list"
  ru_addPaths :: "dest list"

definition no_update :: rib_update where
  "no_update = \<lparr>ru_updated = [], ru_withdrawn = [], ru_addPaths = []\<rparr>"

definition updateRibOutInfo :: "RouteAction \<Rightarrow> bool \<Rightarrow> dest \<Rightarrow> Destination \<Rightarrow> rib_update \<Rightarrow> rib_update" where
  "updateRibOutInfo action addPathsMod x d u =
     (if action = RouteActionAdd \<or> action = RouteActionReplace
      then let m = lookup_or [] (ru_updated u) (ds_protoFamily d);
               xs = lookup_or [] m (ds_LocRibPath d)
           in u\<lparr>ru_updated := AList.update (ds_protoFamily d) (AList.update (ds_LocRibPath d) (xs @ [x]) m) (ru_updated u)\<rparr>
      else if action = RouteActionDelete then u\<lparr>ru_withdrawn := ru_withdrawn u @ [x]\<rparr>
      else if addPathsMod then u\<lparr>ru_addPaths := ru_addPaths u @ [x]\<rparr>
      else u)"

text \<open>\<open>SelectRouteForLocRib\<close> of a destination, and what follows from it.\<close>

definition reselect ::
  "go_env \<Rightarrow> int \<Rightarrow> dest \<Rightarrow> LocRib \<times> rib_update \<Rightarrow> (bgp_error, RouteAction \<times> LocRib \<times> rib_update) outcome" where
  "reselect ge addPathCount x = (\<lambda>(l, u).
     obind (SelectRouteForLocRib ge (lr_store l) (lr_gConf l) addPathCount (lr_dests l ! x)) (\<lambda>sel.
       Ok (sl_action sel, rib_emit (map RouteOp (sl_ops sel)) (set_dest x (sl_dest sel) l),
           updateRibOutInfo (sl_action sel) (sl_addPathsUpdated sel) x (sl_dest sel) u)))"

text \<open>A destination that has been reselected to nothing and has no path left is deleted.\<close>

definition drop_if_empty ::
  "RouteAction \<Rightarrow> dest \<Rightarrow> string \<Rightarrow> u32 \<Rightarrow> LocRib \<Rightarrow> (bgp_error, LocRib) outcome" where
  "drop_if_empty action x cidr pf l =
     (if action = RouteActionDelete \<and> BgpDest.IsEmpty (lr_dests l ! x)
      then obind (delete_dest x cidr pf l) (\<lambda>l. Ok (rib_emit [DbDelete x] l))
      else Ok (rib_emit [DbUpdate x] l))"

section \<open>Processing routes\<close>

text \<open>The entry of a path that waits for its next hop.\<close>

definition forget_id :: "u32 \<Rightarrow> u32 list \<Rightarrow> u32 list" where
  "forget_id pathId ids =
     (case find (\<lambda>i. ids ! i = pathId) [0..<length ids] of
        Some i \<Rightarrow> butlast (ids[i := last ids]) | None \<Rightarrow> ids)"

definition forget_dest :: "dest \<Rightarrow> u32 \<Rightarrow> (dest \<times> u32 list) list \<Rightarrow> (dest \<times> u32 list) list" where
  "forget_dest x pathId ds =
     (case map_of ds x of
        None \<Rightarrow> ds
      | Some ids \<Rightarrow> (let ids = forget_id pathId ids in if ids = [] then AList.delete x ds else AList.update x ids ds))"

definition forget_unreachable :: "string \<Rightarrow> path \<Rightarrow> dest \<Rightarrow> u32 \<Rightarrow> LocRib \<Rightarrow> LocRib" where
  "forget_unreachable nextHop p x pathId l =
     (case map_of (lr_unreachablePaths l) nextHop of
        None \<Rightarrow> l
      | Some ps \<Rightarrow>
          (let ps = (case map_of ps p of
                       None \<Rightarrow> ps
                     | Some ds \<Rightarrow> (let ds = forget_dest x pathId ds
                                    in if ds = [] then AList.delete p ps else AList.update p ds ps))
           in l\<lparr>lr_unreachablePaths := (if ps = [] then AList.delete nextHop (lr_unreachablePaths l)
                                         else AList.update nextHop ps (lr_unreachablePaths l))\<rparr>))"

definition withdraw_route ::
  "go_env \<Rightarrow> int \<Rightarrow> string \<Rightarrow> nbr option \<Rightarrow> u32 \<Rightarrow> NLRI list \<Rightarrow> NLRI \<Rightarrow> LocRib \<times> rib_update \<Rightarrow>
   (bgp_error, LocRib \<times> rib_update) outcome" where
  "withdraw_route ge addPathCount peerIP remNbr pf add nlri = (\<lambda>(l, u).
     if isIpInList add nlri then Ok (l, u)
     else case find_dest nlri pf l of
       None \<Rightarrow> Ok (l, u)
     | Some x \<Rightarrow>
         obind (RemovePath peerIP (GetPathId nlri) (lr_dests l ! x)) (\<lambda>(d, old).
         let l = set_dest x d l;
             l = (case old of
                    Some p \<Rightarrow>
                      (let nh = path_GetNextHop (path_at (lr_store l) p) (ds_protoFamily d)
                       in if \<not> IsReachable (path_at (lr_store l) p) (ds_protoFamily d) \<and> nh \<noteq> []
                          then forget_unreachable (ip_String nh) p x (GetPathId nlri) l else l)
                  | None \<Rightarrow> l)
         in obind (reselect ge addPathCount x (l, u)) (\<lambda>(action, l, u).
            let l = (case (old, remNbr) of (Some p, Some n) \<Rightarrow> upd_neighbor n DecrPrefixCount l | _ \<Rightarrow> l)
            in obind (drop_if_empty action x (GetCIDR nlri) pf l) (\<lambda>l. Ok (l, u)))))"

fun withdraw_routes ::
  "go_env \<Rightarrow> int \<Rightarrow> string \<Rightarrow> nbr option \<Rightarrow> u32 \<Rightarrow> NLRI list \<Rightarrow> NLRI list \<Rightarrow> LocRib \<times> rib_update \<Rightarrow>
   (bgp_error, LocRib \<times> rib_update) outcome" where
  "withdraw_routes ge c peerIP remNbr pf add [] st = Ok st"
| "withdraw_routes ge c peerIP remNbr pf add (n # ns) st =
     obind (withdraw_route ge c peerIP remNbr pf add n st) (withdraw_routes ge c peerIP remNbr pf add ns)"

text \<open>A path whose next hop is not reachable waits; assigning to a missing inner map panics.\<close>

definition wait_for_next_hop :: "string \<Rightarrow> path \<Rightarrow> dest \<Rightarrow> u32 \<Rightarrow> LocRib \<Rightarrow> (bgp_error, LocRib) outcome" where
  "wait_for_next_hop nextHop p x pathId l =
     (case Option.bind (map_of (lr_unreachablePaths l) nextHop) (\<lambda>ps. map_of ps p) of
        None \<Rightarrow> Panic
      | Some ds \<Rightarrow>
          (let ps = the (map_of (lr_unreachablePaths l) nextHop);
               ds = AList.update x (lookup_or [] ds x @ [pathId]) ds
           in Ok (l\<lparr>lr_unreachablePaths := AList.update nextHop (AList.update p ds ps) (lr_unreachablePaths l)\<rparr>)))"

definition announce_route ::
  "go_env \<Rightarrow> int \<Rightarrow> string \<Rightarrow> path \<Rightarrow> u32 \<Rightarrow> NLRI \<Rightarrow> (LocRib \<times> rib_update) \<times> bool \<Rightarrow>
   (bgp_error, (LocRib \<times> rib_update) \<times> bool) outcome" where
  "announce_route ge addPathCount peerIP p pf nlri = (\<lambda>((l, u), all).
     let (x, existed, l) = get_or_new_dest nlri pf l;
         new = (getPathForIP peerIP (GetPathId nlri) (lr_dests l ! x) = None);
         n = pt_NeighborConf (path_at (lr_store l) p)
     in if new \<and> n \<noteq> None \<and> \<not> CanAcceptNewPrefix (st_neighbors (lr_store l) ! the n) then Ok ((l, u), False)
        else let l = (if new \<and> n \<noteq> None then upd_neighbor (the n) IncrPrefixCount l else l)
        in obind (AddOrUpdatePath (lr_store l) peerIP (GetPathId nlri) p (lr_dests l ! x)) (\<lambda>(d, added).
           let l = set_dest x d l; nh = ip_String (path_GetNextHop (path_at (lr_store l) p) pf)
           in if \<not> IsReachable (path_at (lr_store l) p) pf
              then obind (wait_for_next_hop nh p x (GetPathId nlri) l) (\<lambda>l. Ok ((l, u), all))
              else obind (reselect ge addPathCount x (l, u)) (\<lambda>(action, l, u).
                Ok ((rib_emit [if existed then DbUpdate x else DbAdd x] l, u), all))))"

fun announce_routes ::
  "go_env \<Rightarrow> int \<Rightarrow> string \<Rightarrow> path \<Rightarrow> u32 \<Rightarrow> NLRI list \<Rightarrow> (LocRib \<times> rib_update) \<times> bool \<Rightarrow>
   (bgp_error, (LocRib \<times> rib_update) \<times> bool) outcome" where
  "announce_routes ge c peerIP p pf [] st = Ok st"
| "announce_routes ge c peerIP p pf (n # ns) st =
     obind (announce_route ge c peerIP p pf n st) (announce_routes ge c peerIP p pf ns)"

definition ProcessRoutes ::
  "go_env \<Rightarrow> string \<Rightarrow> NLRI list \<Rightarrow> NLRI list \<Rightarrow> path \<Rightarrow> nbr option \<Rightarrow> int \<Rightarrow> u32 \<Rightarrow> LocRib \<times> rib_update \<Rightarrow>
   (bgp_error, (LocRib \<times> rib_update) \<times> bool) outcome" where
  "ProcessRoutes ge peerIP add rem addPath remNbr addPathCount pf st =
     obind (withdraw_routes ge addPathCount peerIP remNbr pf add rem st) (\<lambda>st.
       announce_routes ge addPathCount peerIP addPath pf add (st, True))"

text \<open>The paths that waited for a next hop are entered again; their entries stay.\<close>

fun readd_ids :: "store \<Rightarrow> string \<Rightarrow> path \<Rightarrow> u32 list \<Rightarrow> Destination \<Rightarrow> (bgp_error, Destination) outcome" where
  "readd_ids s peerIP p [] d = Ok d"
| "readd_ids s peerIP p (i # is) d =
     obind (AddOrUpdatePath s peerIP i p d) (\<lambda>(d, added). readd_ids s peerIP p is d)"

fun readd_dests ::
  "go_env \<Rightarrow> int \<Rightarrow> string \<Rightarrow> path \<Rightarrow> (dest \<times> u32 list) list \<Rightarrow> LocRib \<times> rib_update \<Rightarrow>
   (bgp_error, LocRib \<times> rib_update) outcome" where
  "readd_dests ge c peerIP p [] st = Ok st"
| "readd_dests ge c peerIP p ((x, ids) # xs) (l, u) =
     obind (readd_ids (lr_store l) peerIP p ids (lr_dests l ! x)) (\<lambda>d.
     obind (reselect ge c x (set_dest x d l, u)) (\<lambda>(action, l, u).
       readd_dests ge c peerIP p xs (rib_emit [DbAdd x] l, u)))"

fun readd_paths ::
  "go_env \<Rightarrow> int \<Rightarrow> string \<Rightarrow> ReachabilityInfo \<Rightarrow> (path \<times> (dest \<times> u32 list) list) list \<Rightarrow> LocRib \<times> rib_update \<Rightarrow>
   (bgp_error, LocRib \<times> rib_update) outcome" where
  "readd_paths ge c nextHop r [] st = Ok st"
| "readd_paths ge c nextHop r ((p, xs) # ps) (l, u) =
     (let l = upd_path p (SetReachabilityForNextHop nextHop (Some r)) l;
          peerIP = GetPeerIP (lr_store l) (path_at (lr_store l) p)
      in if peerIP = [] then readd_paths ge c nextHop r ps (l, u)
         else obind (readd_dests ge c peerIP p xs (l, u)) (readd_paths ge c nextHop r ps))"

definition ProcessRoutesForReachableRoutes ::
  "go_env \<Rightarrow> string \<Rightarrow> ReachabilityInfo \<Rightarrow> int \<Rightarrow> LocRib \<times> rib_update \<Rightarrow> (bgp_error, LocRib \<times> rib_update) outcome" where
  "ProcessRoutesForReachableRoutes ge nextHop r addPathCount = (\<lambda>(l, u).
     readd_paths ge addPathCount nextHop r (lookup_or [] (lr_unreachablePaths l) nextHop) (l, u))"

definition note_waiting :: "string \<Rightarrow> path \<Rightarrow> LocRib \<Rightarrow> LocRib" where
  "note_waiting nextHop p l =
     (let ps = lookup_or [] (lr_unreachablePaths l) nextHop;
          ps = (if map_of ps p = None then AList.update p [] ps else ps)
      in l\<lparr>lr_unreachablePaths := AList.update nextHop ps (lr_unreachablePaths l)\<rparr>)"

definition TestNHAndProcessRoutes ::
  "go_env \<Rightarrow> (string \<Rightarrow> next_hop_reply option) \<Rightarrow> string \<Rightarrow> NLRI list \<Rightarrow> NLRI list \<Rightarrow> path \<Rightarrow> nbr option \<Rightarrow> int \<Rightarrow> u32 \<Rightarrow>
   LocRib \<times> rib_update \<Rightarrow> (bgp_error, (LocRib \<times> rib_update) \<times> bool) outcome" where
  "TestNHAndProcessRoutes ge ask peerIP add remove addPath remNbr addPathCount pf = (\<lambda>(l, u).
     if add = [] then ProcessRoutes ge peerIP add remove addPath remNbr addPathCount pf (l, u)
     else let nextHop = path_GetNextHop (path_at (lr_store l) addPath) pf in
       if nextHop = [] then Ok ((l, u), True)
       else let nh = ip_String nextHop; (r, l) = GetReachabilityInfo ask nh l;
                l = upd_path addPath (SetReachabilityForFamily pf r) l
       in obind (IsValid (lr_store l) (path_at (lr_store l) addPath)) (\<lambda>valid.
          if \<not> valid then Ok ((l, u), True)
          else let l = (if r = None then note_waiting nh addPath l else l)
          in obind (ProcessRoutes ge peerIP add remove addPath remNbr addPathCount pf (l, u)) (\<lambda>(st, all).
             case r of
               None \<Rightarrow> Ok (st, all)
             | Some r \<Rightarrow> obind (ProcessRoutesForReachableRoutes ge nh r addPathCount st) (\<lambda>st. Ok (st, all)))))"

definition neighbor_ip :: "LocRib \<Rightarrow> nbr \<Rightarrow> string" where
  "neighbor_ip l n = ip_String (nr_NeighborAddress (nb_Neighbor (st_neighbors (lr_store l) ! n)))"

definition ProcessUpdate ::
  "go_env \<Rightarrow> (string \<Rightarrow> next_hop_reply option) \<Rightarrow> nbr \<Rightarrow> path \<Rightarrow> NLRI list \<Rightarrow> NLRI list \<Rightarrow> u32 \<Rightarrow> int \<Rightarrow>
   LocRib \<times> rib_update \<Rightarrow> (bgp_error, (LocRib \<times> rib_update) \<times> bool) outcome" where
  "ProcessUpdate ge ask n p add rem pf addPathCount = (\<lambda>(l, u).
     if add \<noteq> [] \<or> rem \<noteq> []
     then TestNHAndProcessRoutes ge ask (neighbor_ip l n) add rem p (pt_NeighborConf (path_at (lr_store l) p)) addPathCount pf (l, u)
     else Ok ((l, u), True))"

section \<open>Filtered, connected and removed routes\<close>

text \<open>A pair of routes to add and to remove for every path and family; the first failure ends the loops.\<close>

fun filtered_loop ::
  "go_env \<Rightarrow> (string \<Rightarrow> next_hop_reply option) \<Rightarrow> string \<Rightarrow> int \<Rightarrow> (path \<times> u32 \<times> NLRI list \<times> NLRI list) list \<Rightarrow>
   (LocRib \<times> rib_update) \<times> bool \<Rightarrow> (bgp_error, (LocRib \<times> rib_update) \<times> bool) outcome" where
  "filtered_loop ge ask peerIP c [] st = Ok st"
| "filtered_loop ge ask peerIP c ((p, pf, add, rem) # fs) (st, all) =
     obind (TestNHAndProcessRoutes ge ask peerIP add rem p (pt_NeighborConf (path_at (lr_store (fst st)) p)) c pf st) (\<lambda>(st, all).
       if all then filtered_loop ge ask peerIP c fs (st, all) else Ok (st, all))"

definition ProcessFilteredRoutes ::
  "go_env \<Rightarrow> (string \<Rightarrow> next_hop_reply option) \<Rightarrow> nbr \<Rightarrow> (path \<times> (u32 \<times> NLRI list \<times> NLRI list) list) list \<Rightarrow> int \<Rightarrow> LocRib \<Rightarrow>
   (bgp_error, (LocRib \<times> rib_update) \<times> bool) outcome" where
  "ProcessFilteredRoutes ge ask n filteredRoutes addPathCount l =
     filtered_loop ge ask (neighbor_ip l n) addPathCount
       (concat (map (\<lambda>(p, fs). map (\<lambda>f. (p, f)) fs) filteredRoutes)) ((l, no_update), True)"

fun connected_loop ::
  "go_env \<Rightarrow> string \<Rightarrow> path \<Rightarrow> int \<Rightarrow> (u32 \<times> NLRI list \<times> NLRI list) list \<Rightarrow> LocRib \<times> rib_update \<Rightarrow>
   (bgp_error, LocRib \<times> rib_update) outcome" where
  "connected_loop ge src p c [] st = Ok st"
| "connected_loop ge src p c ((pf, add, rem) # fs) st =
     obind (ProcessRoutes ge src add rem p (pt_NeighborConf (path_at (lr_store (fst st)) p)) c pf st) (\<lambda>(st, all).
       connected_loop ge src p c fs st)"

definition ProcessConnectedRoutes ::
  "go_env \<Rightarrow> string \<Rightarrow> path \<Rightarrow> (u32 \<times> NLRI list) list \<Rightarrow> (u32 \<times> NLRI list) list \<Rightarrow> int \<Rightarrow> LocRib \<Rightarrow>
   (bgp_error, LocRib \<times> rib_update) outcome" where
  "ProcessConnectedRoutes ge src p add remove addPathCount l =
     connected_loop ge src p addPathCount
       (map (\<lambda>(pf, rem). (pf, lookup_or [] add pf, rem)) remove @
        map (\<lambda>(pf, ns). (pf, ns, [])) (filter (\<lambda>(pf, ns). pf \<notin> fst ` set remove) add)) (l, no_update)"

definition remove_neighbor_dest ::
  "go_env \<Rightarrow> int \<Rightarrow> (LocRib \<Rightarrow> Destination \<Rightarrow> (bgp_error, Destination) outcome) \<Rightarrow> u32 \<times> string \<times> dest \<Rightarrow>
   LocRib \<times> rib_update \<Rightarrow> (bgp_error, LocRib \<times> rib_update) outcome" where
  "remove_neighbor_dest ge addPathCount drop_paths = (\<lambda>(pf, cidr, x) (l, u).
     obind (drop_paths l (lr_dests l ! x)) (\<lambda>d.
     obind (reselect ge addPathCount x (set_dest x d l, u)) (\<lambda>(action, l, u).
     obind (drop_if_empty action x cidr pf l) (\<lambda>l. Ok (l, u)))))"

fun remove_neighbor_dests ::
  "go_env \<Rightarrow> int \<Rightarrow> (LocRib \<Rightarrow> Destination \<Rightarrow> (bgp_error, Destination) outcome) \<Rightarrow> (u32 \<times> string \<times> dest) list \<Rightarrow>
   LocRib \<times> rib_update \<Rightarrow> (bgp_error, LocRib \<times> rib_update) outcome" where
  "remove_neighbor_dests ge c drop_paths [] st = Ok st"
| "remove_neighbor_dests ge c drop_paths (x # xs) st =
     obind (remove_neighbor_dest ge c drop_paths x st) (remove_neighbor_dests ge c drop_paths xs)"

definition all_dests :: "LocRib \<Rightarrow> (u32 \<times> string \<times> dest) list" where
  "all_dests l = concat (map (\<lambda>(pf, m). map (\<lambda>(cidr, x). (pf, cidr, x)) m) (lr_destPathMap l))"

definition RemoveUpdatesFromNeighbor ::
  "go_env \<Rightarrow> string \<Rightarrow> nbr option \<Rightarrow> int \<Rightarrow> LocRib \<Rightarrow> (bgp_error, LocRib \<times> rib_update) outcome" where
  "RemoveUpdatesFromNeighbor ge peerIP n addPathCount l =
     obind (remove_neighbor_dests ge addPathCount (\<lambda>l. RemoveAllPaths peerIP) (all_dests l) (l, no_update)) (\<lambda>(l, u).
       Ok (case n of Some k \<Rightarrow> upd_neighbor k (SetPrefixCount 0) l | None \<Rightarrow> l, u))"

definition RemoveUpdatesFromAllNeighbors :: "go_env \<Rightarrow> int \<Rightarrow> LocRib \<Rightarrow> (bgp_error, LocRib) outcome" where
  "RemoveUpdatesFromAllNeighbors ge addPathCount l =
     obind (remove_neighbor_dests ge addPathCount (\<lambda>l d. Ok (RemoveAllNeighborPaths (lr_store l) d)) (all_dests l) (l, no_update))
       (\<lambda>(l, u). Ok l)"

definition best_by_path :: "LocRib \<Rightarrow> (string \<times> dest) list \<Rightarrow> (path \<times> dest list) list" where
  "best_by_path l m =
     fold (\<lambda>(cidr, x) acc.
       case ds_LocRibPath (lr_dests l ! x) of
         Some p \<Rightarrow> AList.update p (lookup_or [] acc p @ [x]) acc | None \<Rightarrow> acc) m []"

definition GetLocRib :: "LocRib \<Rightarrow> (u32 \<times> (path \<times> dest list) list) list" where
  "GetLocRib l = map (\<lambda>(pf, m). (pf, best_by_path l m)) (lr_destPathMap l)"

end
