(* ===== verification/BgpDestInv.thy ===== *)
theory BgpDestInv
  imports BgpDest "HOL-Library.Multiset"
begin

text \<open>
  The bookkeeping of a destination. The paths by neighbor and path identifier are the abstract state,
  a partial function; adding and removing a path are its updates. Around it the code keeps the route
  of every path, the position of every route in the list the RPC layer reads, and the identifiers
  under which paths are announced: the invariant says that these agree, and that no two paths have
  the same identifier.
\<close>

section \<open>Updates of a route\<close>

lemma upd_route_simps [simp]:
  "ds_NLRI (upd_route r g d) = ds_NLRI d" "ds_protoFamily (upd_route r g d) = ds_protoFamily d"
  "ds_peerPathMap (upd_route r g d) = ds_peerPathMap d" "ds_LocRibPath (upd_route r g d) = ds_LocRibPath d"
  "ds_LocRibPathRoute (upd_route r g d) = ds_LocRibPathRoute d" "ds_ecmpPaths (upd_route r g d) = ds_ecmpPaths d"
  "ds_pathRouteMap (upd_route r g d) = ds_pathRouteMap d" "ds_AddPaths (upd_route r g d) = ds_AddPaths d"
  "ds_maxPathId (upd_route r g d) = ds_maxPathId d" "ds_pathIds (upd_route r g d) = ds_pathIds d"
  "ds_recalculate (upd_route r g d) = ds_recalculate d" "ds_Paths (upd_route r g d) = ds_Paths d"
  "ds_PathInfos (upd_route r g d) = ds_PathInfos d" "ds_routeListIdx (upd_route r g d) = ds_routeListIdx d"
  "length (ds_routes (upd_route r g d)) = length (ds_routes d)"
  by (simp_all add: upd_route_def)

lemma route_at_upd [simp]:
  "r < length (ds_routes d) \<Longrightarrow> route_at (upd_route r g d) x = (if x = r then g (route_at d r) else route_at d x)"
  by (simp add: route_at_def upd_route_def)

lemma set_remove_set_last:
  assumes "distinct xs" "i < length xs"
  shows "set (butlast (xs[i := last xs])) = set xs - {xs ! i}" "distinct (butlast (xs[i := last xs]))"
    "length (butlast (xs[i := last xs])) = length xs - 1"
proof -
  obtain ys l where xs: "xs = ys @ [l]" using assms(2) by (cases xs rule: rev_cases) auto
  have "mset (butlast (xs[i := last xs])) = mset xs - {#xs ! i#}"
  proof (cases "i = length ys")
    case True
    then show ?thesis by (simp add: xs)
  next
    case False
    then have i: "i < length ys" using assms(2) xs by simp
    then have "mset (ys[i := l]) = add_mset l (mset ys - {#ys ! i#})" by (rule mset_update)
    then show ?thesis using i by (simp add: xs list_update_append nth_append)
  qed
  moreover have "{#xs ! i#} \<subseteq># mset xs" using assms(2) by simp
  ultimately have eq: "mset xs = add_mset (xs ! i) (mset (butlast (xs[i := last xs])))" by simp
  then have "mset xs = mset ((xs ! i) # butlast (xs[i := last xs]))" by simp
  then have d: "distinct ((xs ! i) # butlast (xs[i := last xs]))" and "set xs = set ((xs ! i) # butlast (xs[i := last xs]))"
    using assms(1) mset_eq_imp_distinct_iff mset_eq_setD by (metis, metis)
  then show "set (butlast (xs[i := last xs])) = set xs - {xs ! i}" by auto
  show "distinct (butlast (xs[i := last xs]))" using d by simp
  show "length (butlast (xs[i := last xs])) = length xs - 1" by simp
qed

section \<open>The abstract state and the invariant\<close>

definition peer_paths :: "Destination \<Rightarrow> string \<times> u32 \<Rightarrow> path option" where
  "peer_paths d = (\<lambda>(k, i). getPathForIP k i d)"

definition live :: "Destination \<Rightarrow> path set" where
  "live d = ran (peer_paths d)"

definition peers_ok :: "Destination \<Rightarrow> bool" where
  "peers_ok d \<longleftrightarrow> distinct (map fst (ds_peerPathMap d)) \<and>
     (\<forall>(k, m) \<in> set (ds_peerPathMap d). distinct (map fst m) \<and> m \<noteq> []) \<and> inj_on (peer_paths d) (dom (peer_paths d))"

definition routes_ok :: "Destination \<Rightarrow> bool" where
  "routes_ok d \<longleftrightarrow> distinct (map fst (ds_ecmpPaths d)) \<and>
     (\<forall>p r. map_of (ds_pathRouteMap d) p = Some r \<or> map_of (ds_ecmpPaths d) p = Some r \<longrightarrow>
        r < length (ds_routes d) \<and> rt_path (route_at d r) = p) \<and>
     (\<forall>p r. map_of (ds_ecmpPaths d) p = Some r \<longrightarrow> rt_action (route_at d r) = RouteActionNone)"

definition listing_ok :: "Destination \<Rightarrow> bool" where
  "listing_ok d \<longleftrightarrow> distinct (ds_Paths d) \<and> set (ds_PathInfos d) = set (ds_Paths d) \<and>
     (\<forall>j < length (ds_Paths d). rt_routeListIdx (route_at d (ds_Paths d ! j)) = int j) \<and>
     (\<forall>p \<in> live d. map_of (ds_pathRouteMap d) p \<noteq> None) \<and>
     set (ds_Paths d) = {r. \<exists>p \<in> live d. map_of (ds_pathRouteMap d) p = Some r}"

definition out_ids :: "Destination \<Rightarrow> u32 list" where
  "out_ids d = map (\<lambda>r. rt_OutPathId (route_at d r)) (ds_Paths d)"

definition ids_ok :: "Destination \<Rightarrow> bool" where
  "ids_ok d \<longleftrightarrow> distinct (out_ids d @ ds_pathIds d) \<and> (\<forall>x \<in> set (out_ids d @ ds_pathIds d). x < ds_maxPathId d)"

definition locrib_ok :: "Destination \<Rightarrow> bool" where
  "locrib_ok d \<longleftrightarrow> (\<forall>p. ds_LocRibPath d = Some p \<longrightarrow> p \<in> live d)"

definition dest_inv :: "Destination \<Rightarrow> bool" where
  "dest_inv d \<longleftrightarrow> peers_ok d \<and> routes_ok d \<and> listing_ok d \<and> ids_ok d \<and> locrib_ok d"

lemma dest_inv_new: "dest_inv (NewDestination nlri pf)"
  by (auto simp: dest_inv_def peers_ok_def routes_ok_def listing_ok_def ids_ok_def locrib_ok_def NewDestination_def
      peer_paths_def live_def getPathForIP_def out_ids_def ran_def inj_on_def dom_def)

section \<open>The map of paths\<close>

lemma all_in_live:
  assumes "peers_ok d"
  shows "set (concat (map (map snd \<circ> snd) (ds_peerPathMap d))) = live d"
proof -
  have "(\<exists>k m i. (k, m) \<in> set (ds_peerPathMap d) \<and> (i, p) \<in> set m) \<longleftrightarrow> (\<exists>k i. getPathForIP k i d = Some p)" for p
  proof -
    have "(k, m) \<in> set (ds_peerPathMap d) \<Longrightarrow> (i, p) \<in> set m \<Longrightarrow> getPathForIP k i d = Some p" for k m i
      using assms by (auto simp: peers_ok_def getPathForIP_def map_of_eq_Some_iff)
    moreover have "getPathForIP k i d = Some p \<Longrightarrow> \<exists>m. (k, m) \<in> set (ds_peerPathMap d) \<and> (i, p) \<in> set m" for k i
      by (auto simp: getPathForIP_def bind_eq_Some_conv dest!: map_of_SomeD)
    ultimately show ?thesis by blast
  qed
  moreover have "p \<in> live d \<longleftrightarrow> (\<exists>k i. getPathForIP k i d = Some p)" for p
    by (simp add: live_def ran_def peer_paths_def)
  moreover have "p \<in> set (concat (map (map snd \<circ> snd) (ds_peerPathMap d))) \<longleftrightarrow>
      (\<exists>k m i. (k, m) \<in> set (ds_peerPathMap d) \<and> (i, p) \<in> set m)" for p
    by (auto simp: image_iff) force+
  ultimately show ?thesis by blast
qed

lemma drop_peer_path_paths: "peer_paths (drop_peer_path k i d) = (peer_paths d)((k, i) := None)"
proof (cases "map_of (ds_peerPathMap d) k")
  case None
  then show ?thesis by (auto simp: drop_peer_path_def peer_paths_def getPathForIP_def fun_eq_iff)
next
  case (Some m)
  have "AList.delete i m = [] \<Longrightarrow> map_of m j = None" if "j \<noteq> i" for j
    using delete_conv' [of i m] that by (metis fun_upd_other map_of.simps(1))
  with Some show ?thesis
    by (auto simp: drop_peer_path_def peer_paths_def getPathForIP_def fun_eq_iff Let_def delete_conv' update_conv')
qed

lemma drop_peer_path_simps [simp]:
  "ds_NLRI (drop_peer_path k i d) = ds_NLRI d" "ds_protoFamily (drop_peer_path k i d) = ds_protoFamily d"
  "ds_LocRibPath (drop_peer_path k i d) = ds_LocRibPath d" "ds_ecmpPaths (drop_peer_path k i d) = ds_ecmpPaths d"
  "ds_pathRouteMap (drop_peer_path k i d) = ds_pathRouteMap d" "ds_maxPathId (drop_peer_path k i d) = ds_maxPathId d"
  "ds_pathIds (drop_peer_path k i d) = ds_pathIds d" "ds_Paths (drop_peer_path k i d) = ds_Paths d"
  "ds_PathInfos (drop_peer_path k i d) = ds_PathInfos d" "ds_routes (drop_peer_path k i d) = ds_routes d"
  "route_at (drop_peer_path k i d) = route_at d" "ds_recalculate (drop_peer_path k i d) = ds_recalculate d"
  by (simp_all add: drop_peer_path_def Let_def route_at_def [abs_def] split: option.split)

lemma set_AList_delete: "set (AList.delete k xs) \<subseteq> set xs"
  by (auto simp: AList.delete_eq)

lemma set_AList_update: "set (AList.update k v xs) \<subseteq> insert (k, v) (set xs)"
  by (induction xs) auto

lemma drop_peer_path_ok:
  assumes "peers_ok d"
  shows "peers_ok (drop_peer_path k i d)"
proof -
  have inj: "inj_on (peer_paths (drop_peer_path k i d)) (dom (peer_paths (drop_peer_path k i d)))"
    using assms by (auto simp: peers_ok_def drop_peer_path_paths inj_on_def)
  show ?thesis
  proof (cases "map_of (ds_peerPathMap d) k")
    case None
    then show ?thesis using assms by (simp add: drop_peer_path_def)
  next
    case (Some m)
    then have "distinct (map fst m)" using assms by (auto simp: peers_ok_def dest!: map_of_SomeD)
    then show ?thesis
      using inj Some assms set_AList_delete [of k "ds_peerPathMap d"]
        set_AList_update [of k "AList.delete i m" "ds_peerPathMap d"]
      by (fastforce simp: peers_ok_def drop_peer_path_def Let_def distinct_delete distinct_update)
  qed
qed

section \<open>Path identifiers\<close>

lemma release_ok:
  assumes "distinct (x # xs @ ds_pathIds d)" "\<forall>y \<in> set (x # xs @ ds_pathIds d). y < ds_maxPathId d"
  shows "distinct (xs @ ds_pathIds (releasePathId x d))"
    "\<forall>y \<in> set (xs @ ds_pathIds (releasePathId x d)). y < ds_maxPathId (releasePathId x d)"
proof -
  have "y < ds_maxPathId d - 1" if "x + 1 = ds_maxPathId d" "y < ds_maxPathId d" "y \<noteq> x" "x < ds_maxPathId d" for y
  proof -
    have "y < x + 1" "x < x + 1" using that by auto
    then have "y \<le> x" using word_less_eq_iff_unsigned [of y x] by unat_arith
    then show ?thesis using that by (simp add: that(1) [symmetric] order.strict_iff_order)
  qed
  then show "distinct (xs @ ds_pathIds (releasePathId x d))"
    "\<forall>y \<in> set (xs @ ds_pathIds (releasePathId x d)). y < ds_maxPathId (releasePathId x d)"
    using assms by (auto simp: releasePathId_def)
qed

lemma release_max: "x < ds_maxPathId d \<Longrightarrow> ds_maxPathId (releasePathId x d) \<le> ds_maxPathId d"
  unfolding releasePathId_def by simp unat_arith

lemma next_id_max: "getNextPathId d = (x, d') \<Longrightarrow> unat (ds_maxPathId d') \<le> Suc (unat (ds_maxPathId d))"
  by (auto simp: getNextPathId_def unat_word_ariths split: if_splits)

lemma releasePathId_simps [simp]:
  "ds_NLRI (releasePathId x d) = ds_NLRI d" "ds_protoFamily (releasePathId x d) = ds_protoFamily d"
  "ds_peerPathMap (releasePathId x d) = ds_peerPathMap d" "ds_LocRibPath (releasePathId x d) = ds_LocRibPath d"
  "ds_ecmpPaths (releasePathId x d) = ds_ecmpPaths d" "ds_pathRouteMap (releasePathId x d) = ds_pathRouteMap d"
  "ds_Paths (releasePathId x d) = ds_Paths d" "ds_PathInfos (releasePathId x d) = ds_PathInfos d"
  "ds_routes (releasePathId x d) = ds_routes d" "route_at (releasePathId x d) = route_at d"
  by (simp_all add: releasePathId_def route_at_def [abs_def])

lemma next_id_ok:
  assumes "getNextPathId d = (x, d')" "distinct (xs @ ds_pathIds d)" "\<forall>y \<in> set (xs @ ds_pathIds d). y < ds_maxPathId d"
    and "ds_maxPathId d + 1 \<noteq> 0"
  shows "distinct (x # xs @ ds_pathIds d')" "\<forall>y \<in> set (x # xs @ ds_pathIds d'). y < ds_maxPathId d'"
proof -
  have inc: "ds_maxPathId d < ds_maxPathId d + 1" using assms(4) by unat_arith
  have "distinct (x # xs @ ds_pathIds d') \<and> (\<forall>y \<in> set (x # xs @ ds_pathIds d'). y < ds_maxPathId d')"
  proof (cases "ds_pathIds d" rule: rev_cases)
    case Nil
    then show ?thesis using assms(1-3) inc by (auto simp: getNextPathId_def)
  next
    case (snoc ys y)
    then show ?thesis using assms(1-3) by (auto simp: getNextPathId_def)
  qed
  then show "distinct (x # xs @ ds_pathIds d')" "\<forall>y \<in> set (x # xs @ ds_pathIds d'). y < ds_maxPathId d'" by blast+
qed

lemma getNextPathId_simps:
  assumes "getNextPathId d = (x, d')"
  shows "ds_NLRI d' = ds_NLRI d" "ds_protoFamily d' = ds_protoFamily d" "ds_peerPathMap d' = ds_peerPathMap d"
    "ds_LocRibPath d' = ds_LocRibPath d" "ds_ecmpPaths d' = ds_ecmpPaths d" "ds_pathRouteMap d' = ds_pathRouteMap d"
    "ds_Paths d' = ds_Paths d" "ds_PathInfos d' = ds_PathInfos d" "ds_routes d' = ds_routes d" "route_at d' = route_at d"
  using assms by (auto simp: getNextPathId_def route_at_def [abs_def] split: if_splits)

section \<open>Removing a path\<close>

text \<open>What the invariant says of the route of a path that is held.\<close>

lemma held_route:
  assumes "dest_inv d" "p \<in> live d"
  obtains r j where "map_of (ds_pathRouteMap d) p = Some r" "r < length (ds_routes d)" "rt_path (route_at d r) = p"
    "j < length (ds_Paths d)" "ds_Paths d ! j = r" "rt_routeListIdx (route_at d r) = int j"
proof -
  obtain r where r: "map_of (ds_pathRouteMap d) p = Some r"
    using assms by (auto simp: dest_inv_def listing_ok_def)
  then have "r \<in> set (ds_Paths d)" using assms by (auto simp: dest_inv_def listing_ok_def)
  then obtain j where "j < length (ds_Paths d)" "ds_Paths d ! j = r" by (auto simp: in_set_conv_nth)
  then show thesis using that r assms(1) by (auto simp: dest_inv_def listing_ok_def routes_ok_def)
qed

lemma RemovePath_fields:
  assumes inv: "dest_inv d" and old: "peer_paths d (k, i) = Some old"
    and r: "map_of (ds_pathRouteMap d) old = Some r" "r < length (ds_routes d)"
    and j: "j < length (ds_Paths d)" "ds_Paths d ! j = r" "rt_routeListIdx (route_at d r) = int j"
  shows "\<exists>d'. RemovePath k i d = Ok (d', Some old) \<and> peer_paths d' = (peer_paths d)((k, i) := None) \<and> peers_ok d' \<and>
    ds_LocRibPath d' = (if ds_LocRibPath d = Some old then None else ds_LocRibPath d) \<and>
    ds_ecmpPaths d' = ds_ecmpPaths d \<and> ds_pathRouteMap d' = AList.delete old (ds_pathRouteMap d) \<and>
    ds_Paths d' = butlast ((ds_Paths d)[j := last (ds_Paths d)]) \<and> ds_PathInfos d' = removeAll r (ds_PathInfos d) \<and>
    length (ds_routes d') = length (ds_routes d) \<and>
    route_at d' = (\<lambda>x. if x = last (ds_Paths d) then setIdx (int j) (route_at d x) else route_at d x) \<and>
    ds_pathIds d' = ds_pathIds (releasePathId (rt_OutPathId (route_at d r)) d) \<and>
    ds_NLRI d' = ds_NLRI d \<and> ds_protoFamily d' = ds_protoFamily d \<and>
    ds_maxPathId d' = ds_maxPathId (releasePathId (rt_OutPathId (route_at d r)) d)"
proof -
  have ne: "ds_Paths d \<noteq> []" using j by auto
  have lst: "last (ds_Paths d) \<in> set (ds_PathInfos d)" "last (ds_Paths d) < length (ds_routes d)"
  proof -
    have "last (ds_Paths d) \<in> set (ds_Paths d)" using ne by simp
    then show "last (ds_Paths d) \<in> set (ds_PathInfos d)" "last (ds_Paths d) < length (ds_routes d)"
      using inv by (auto simp: dest_inv_def listing_ok_def routes_ok_def)
  qed
  have get: "getPathForIP k i d = Some old" using old by (simp add: peer_paths_def)
  let ?dr = "(if old \<in> fst ` set (ds_ecmpPaths d) then d\<lparr>ds_recalculate := True\<rparr> else d)"
  let ?dl = "(if ds_LocRibPath ?dr = Some old then ?dr\<lparr>ds_recalculate := True, ds_LocRibPath := None\<rparr> else ?dr)"
  let ?d3 = "(releasePathId (rt_OutPathId (route_at ?dl r)) ?dl)\<lparr>ds_pathRouteMap := AList.delete old (ds_pathRouteMap ?dl)\<rparr>"
  have at: "route_at ?dl = route_at d" by (simp add: route_at_def [abs_def])
  have pm: "ds_peerPathMap ?dl = ds_peerPathMap d" "ds_pathRouteMap ?dl = ds_pathRouteMap d" "ds_Paths ?dl = ds_Paths d"
    "ds_PathInfos ?dl = ds_PathInfos d" "ds_routes ?dl = ds_routes d" "ds_ecmpPaths ?dl = ds_ecmpPaths d"
    "ds_LocRibPath ?dl = (if ds_LocRibPath d = Some old then None else ds_LocRibPath d)"
    "ds_pathIds ?dl = ds_pathIds d" "ds_maxPathId ?dl = ds_maxPathId d" by simp_all
  have rel: "ds_pathIds (releasePathId x ?dl) = ds_pathIds (releasePathId x d)"
    "ds_maxPathId (releasePathId x ?dl) = ds_maxPathId (releasePathId x d)" for x
    by (simp_all add: releasePathId_def)
  let ?d4 = "upd_route (last (ds_Paths d)) (setIdx (int j))
               (?d3\<lparr>ds_PathInfos := removeAll r (ds_PathInfos d), ds_Paths := RemovePathAndSetLast j (ds_Paths d)\<rparr>)"
  have d3: "route_at ?d3 = route_at d" using at by (simp add: route_at_def [abs_def])
  have "drop_description r ?d3 = Ok ?d4"
    unfolding drop_description_def d3 j(3) using ne lst by simp
  then have "RemovePath k i d = Ok (drop_peer_path k i ?d4, Some old)"
    using get pm(2) r(1) by (simp add: RemovePath_def Let_def del: obind_eq_Ok)
  moreover have "peer_paths ?d4 = peer_paths d" by (simp add: peer_paths_def getPathForIP_def)
  then have "peer_paths (drop_peer_path k i ?d4) = (peer_paths d)((k, i) := None)" by (simp add: drop_peer_path_paths)
  moreover have "peers_ok ?d4" using inv by (simp add: dest_inv_def peers_ok_def peer_paths_def getPathForIP_def)
  then have "peers_ok (drop_peer_path k i ?d4)" by (rule drop_peer_path_ok)
  moreover have "route_at ?d4 = (\<lambda>x. if x = last (ds_Paths d) then setIdx (int j) (route_at d x) else route_at d x)"
    using lst(2) by (auto simp: fun_eq_iff route_at_def upd_route_def)
  ultimately show ?thesis
    using pm rel j(1) by (simp add: at RemovePathAndSetLast_def)
qed

lemma live_removed:
  assumes "peers_ok d" "peer_paths d x = Some p"
  shows "ran ((peer_paths d)(x := None)) = live d - {p}"
proof -
  have inj: "inj_on (peer_paths d) (dom (peer_paths d))" using assms(1) by (simp add: peers_ok_def)
  have eq: "y = x" if "peer_paths d y = Some p" for y
    by (rule inj_onD [OF inj]) (use assms(2) that in \<open>simp_all add: domI\<close>)
  have "q \<in> ran ((peer_paths d)(x := None)) \<longleftrightarrow> q \<in> ran (peer_paths d) \<and> q \<noteq> p" for q
  proof
    assume "q \<in> ran ((peer_paths d)(x := None))"
    then obtain y where "y \<noteq> x" "peer_paths d y = Some q" by (auto simp: ran_def split: if_splits)
    then show "q \<in> ran (peer_paths d) \<and> q \<noteq> p" using eq by (metis ranI)
  next
    assume q: "q \<in> ran (peer_paths d) \<and> q \<noteq> p"
    then obtain y where y: "peer_paths d y = Some q" by (auto simp: ran_def)
    then have "y \<noteq> x" using q assms(2) by auto
    then have "((peer_paths d)(x := None)) y = Some q" using y by simp
    then show "q \<in> ran ((peer_paths d)(x := None))" by (rule ranI)
  qed
  then show ?thesis by (simp only: live_def set_eq_iff Diff_iff singleton_iff) blast
qed

lemma mset_remove_set_last:
  assumes "distinct xs" "i < length xs"
  shows "mset xs = add_mset (xs ! i) (mset (butlast (xs[i := last xs])))"
proof -
  let ?ys = "xs ! i # butlast (xs[i := last xs])"
  have "distinct ?ys" "set ?ys = set xs"
    using set_remove_set_last (1,2) [OF assms] assms(2) by (simp_all add: insert_absorb)
  then have "mset xs = mset ?ys" using set_eq_iff_mset_eq_distinct [OF assms(1), of ?ys] by simp
  then show ?thesis by simp
qed

lemma nth_remove_set_last:
  assumes "i < length xs" "j < length xs - 1"
  shows "butlast (xs[i := last xs]) ! j = (if j = i then last xs else xs ! j)"
  using assms by (simp add: nth_butlast nth_list_update)

lemma RemovePath_ok:
  assumes inv: "dest_inv d"
  shows "\<exists>d'. RemovePath k i d = Ok (d', peer_paths d (k, i)) \<and> dest_inv d' \<and> peer_paths d' = (peer_paths d)((k, i) := None) \<and>
    unat (ds_maxPathId d') \<le> unat (ds_maxPathId d) \<and> ds_ecmpPaths d' = ds_ecmpPaths d \<and> ds_NLRI d' = ds_NLRI d \<and> ds_protoFamily d' = ds_protoFamily d \<and>
    (ds_LocRibPath d' = ds_LocRibPath d \<or> ds_LocRibPath d' = None)"
proof (cases "peer_paths d (k, i)")
  case None
  then have "RemovePath k i d = Ok (d, None)" by (simp add: RemovePath_def peer_paths_def)
  then show ?thesis using None inv by (simp add: fun_upd_idem)
next
  case (Some old)
  then have "old \<in> live d" by (auto simp: live_def ran_def)
  then obtain r j where r: "map_of (ds_pathRouteMap d) old = Some r" "r < length (ds_routes d)" "rt_path (route_at d r) = old"
    and j: "j < length (ds_Paths d)" "ds_Paths d ! j = r" "rt_routeListIdx (route_at d r) = int j"
    using held_route [OF inv] by metis
  obtain d' where d': "RemovePath k i d = Ok (d', Some old)" "peer_paths d' = (peer_paths d)((k, i) := None)" "peers_ok d'"
    "ds_LocRibPath d' = (if ds_LocRibPath d = Some old then None else ds_LocRibPath d)"
    "ds_ecmpPaths d' = ds_ecmpPaths d" "ds_pathRouteMap d' = AList.delete old (ds_pathRouteMap d)"
    "ds_Paths d' = butlast ((ds_Paths d)[j := last (ds_Paths d)])" "ds_PathInfos d' = removeAll r (ds_PathInfos d)"
    "length (ds_routes d') = length (ds_routes d)"
    "route_at d' = (\<lambda>x. if x = last (ds_Paths d) then setIdx (int j) (route_at d x) else route_at d x)"
    "ds_pathIds d' = ds_pathIds (releasePathId (rt_OutPathId (route_at d r)) d)" "ds_NLRI d' = ds_NLRI d" "ds_protoFamily d' = ds_protoFamily d"
    "ds_maxPathId d' = ds_maxPathId (releasePathId (rt_OutPathId (route_at d r)) d)"
    using RemovePath_fields [OF inv Some r(1,2) j] by blast
  have ds: "distinct (ds_Paths d)" using inv by (simp add: dest_inv_def listing_ok_def)
  note cut = set_remove_set_last [OF ds j(1), unfolded j(2), folded d'(7)]
  have lv: "live d' = live d - {old}" using live_removed [of d "(k, i)" old] inv Some d'(2) by (simp add: dest_inv_def live_def)
  have at: "rt_path (route_at d' x) = rt_path (route_at d x)" "rt_OutPathId (route_at d' x) = rt_OutPathId (route_at d x)"
    "rt_action (route_at d' x) = rt_action (route_at d x)" for x by (simp_all add: d'(10) setIdx_def)
  have prm: "map_of (ds_pathRouteMap d') p = (if p = old then None else map_of (ds_pathRouteMap d) p)" for p
    by (simp add: d'(6) delete_conv')
  have "routes_ok d'" using inv by (auto simp: dest_inv_def routes_ok_def d'(5,9) prm at split: if_splits)
  moreover have "listing_ok d'"
  proof -
    have "rt_routeListIdx (route_at d' (ds_Paths d' ! m)) = int m" if m: "m < length (ds_Paths d')" for m
    proof (cases "m = j")
      case True
      then show ?thesis using m cut(3) nth_remove_set_last [OF j(1), of m] by (simp add: d'(7,10) setIdx_def)
    next
      case False
      then have "ds_Paths d' ! m = ds_Paths d ! m" "m < length (ds_Paths d) - 1"
        using m cut(3) nth_remove_set_last [OF j(1), of m] by (simp_all add: d'(7))
      moreover from this have "ds_Paths d ! m \<noteq> last (ds_Paths d)"
        using nth_eq_iff_index_eq [OF ds, of m "length (ds_Paths d) - 1"] last_conv_nth [of "ds_Paths d"] j(1) by fastforce
      ultimately show ?thesis using inv by (auto simp: d'(10) dest_inv_def listing_ok_def)
    qed
    moreover have "set (ds_Paths d') = {r. \<exists>p \<in> live d'. map_of (ds_pathRouteMap d') p = Some r}"
    proof -
      have "set (ds_Paths d) = {r. \<exists>p \<in> live d. map_of (ds_pathRouteMap d) p = Some r}"
        using inv by (simp add: dest_inv_def listing_ok_def)
      moreover have only: "p = old" if "map_of (ds_pathRouteMap d) p = Some r" for p
        using inv r(3) that by (auto simp: dest_inv_def routes_ok_def)
      have "(\<exists>p \<in> live d. p \<noteq> old \<and> map_of (ds_pathRouteMap d) p = Some x) \<longleftrightarrow>
          (\<exists>p \<in> live d. map_of (ds_pathRouteMap d) p = Some x) \<and> x \<noteq> r" for x
        using r(1) only by (metis option.inject)
      moreover have "(\<exists>p \<in> live d'. map_of (ds_pathRouteMap d') p = Some x) \<longleftrightarrow>
          (\<exists>p \<in> live d. p \<noteq> old \<and> map_of (ds_pathRouteMap d) p = Some x)" for x
        by (simp add: lv prm) blast
      ultimately show ?thesis by (simp only: cut(1) set_eq_iff Diff_iff mem_Collect_eq singleton_iff) blast
    qed
    moreover have "set (ds_PathInfos d) = set (ds_Paths d)" "\<forall>p \<in> live d. map_of (ds_pathRouteMap d) p \<noteq> None"
      using inv by (simp_all add: dest_inv_def listing_ok_def)
    ultimately show ?thesis using cut(1,2) by (auto simp: listing_ok_def d'(8) lv prm)
  qed
  moreover have "ids_ok d'"
  proof -
    have out: "mset (out_ids d) = add_mset (rt_OutPathId (route_at d r)) (mset (out_ids d'))"
      using mset_remove_set_last [OF ds j(1)] by (simp add: out_ids_def d'(7) at j(2) flip: mset_map) (simp add: at)
    then have m: "mset (out_ids d @ ds_pathIds d) = mset (rt_OutPathId (route_at d r) # out_ids d' @ ds_pathIds d)" by simp
    have "ids_ok d" using inv by (simp add: dest_inv_def)
    then have "distinct (rt_OutPathId (route_at d r) # out_ids d' @ ds_pathIds d)"
      "\<forall>x \<in> set (rt_OutPathId (route_at d r) # out_ids d' @ ds_pathIds d). x < ds_maxPathId d"
      unfolding ids_ok_def mset_eq_imp_distinct_iff [OF m] mset_eq_setD [OF m] by (rule conjunct1, rule conjunct2)
    from release_ok [OF this] show ?thesis by (simp add: ids_ok_def d'(11,14))
  qed
  moreover have "rt_OutPathId (route_at d r) < ds_maxPathId d"
    using inv r(2) j(1,2) nth_mem [OF j(1)] by (auto simp: dest_inv_def ids_ok_def out_ids_def)
  then have "unat (ds_maxPathId d') \<le> unat (ds_maxPathId d)"
    using release_max unfolding d'(14) word_le_nat_alt by blast
  moreover have "locrib_ok d'" using inv by (auto simp: dest_inv_def locrib_ok_def d'(4) lv)
  ultimately show ?thesis using d'(1,2,3,4,5,12,13) Some by (auto simp: dest_inv_def)
qed

section \<open>Adding a path\<close>

definition describable :: "store \<Rightarrow> path \<Rightarrow> bool" where
  "describable s p \<longleftrightarrow> (\<exists>as. GetAS4ByteList (path_at s p) = Ok as) \<and> (\<exists>g. path_GetOrigin (path_at s p) = Ok g)"

lemma NewRoute_Ok:
  assumes "describable s p"
  obtains rt where "NewRoute (path_at s p) p pf a i j = Ok rt" "rt_path rt = p" "rt_action rt = a" "rt_OutPathId rt = j"
  using assms by (auto simp: describable_def NewRoute_def)

lemma enter_path_fields:
  assumes "describable s p" "getNextPathId d = (x, d1)" "i = - 1 \<or> 0 \<le> i \<and> nat i < length (ds_Paths d)"
  shows "\<exists>d' rt. enter_path s k a p i d = Ok d' \<and>
    ds_peerPathMap d' = AList.update k (AList.update a p (case map_of (ds_peerPathMap d) k of Some m \<Rightarrow> m | None \<Rightarrow> [])) (ds_peerPathMap d) \<and>
    ds_LocRibPath d' = ds_LocRibPath d \<and> ds_ecmpPaths d' = ds_ecmpPaths d \<and>
    ds_pathRouteMap d' = AList.update p (length (ds_routes d)) (ds_pathRouteMap d) \<and>
    ds_Paths d' = (if i = - 1 then ds_Paths d @ [length (ds_routes d)] else (ds_Paths d)[nat i := length (ds_routes d)]) \<and>
    ds_PathInfos d' = length (ds_routes d) # ds_PathInfos d \<and> ds_routes d' = ds_routes d @ [rt] \<and>
    rt_path rt = p \<and> rt_action rt = RouteActionNone \<and> rt_OutPathId rt = x \<and>
    rt_routeListIdx rt = (if i = - 1 then int (length (ds_Paths d)) else i) \<and>
    ds_pathIds d' = ds_pathIds d1 \<and> ds_maxPathId d' = ds_maxPathId d1 \<and> ds_NLRI d' = ds_NLRI d \<and> ds_protoFamily d' = ds_protoFamily d"
proof -
  let ?d = "if better_or_equal_source s p d then d\<lparr>ds_recalculate := True\<rparr> else d"
  have same: "ds_peerPathMap ?d = ds_peerPathMap d" "ds_LocRibPath ?d = ds_LocRibPath d" "ds_ecmpPaths ?d = ds_ecmpPaths d"
    "ds_pathRouteMap ?d = ds_pathRouteMap d" "ds_Paths ?d = ds_Paths d" "ds_PathInfos ?d = ds_PathInfos d"
    "ds_routes ?d = ds_routes d" "ds_pathIds ?d = ds_pathIds d" "ds_maxPathId ?d = ds_maxPathId d"
    "ds_protoFamily ?d = ds_protoFamily d" "ds_NLRI ?d = ds_NLRI d" by simp_all
  obtain x' d2 where n: "getNextPathId ?d = (x', d2)" by (metis surj_pair)
  have d2: "x' = x" "ds_pathIds d2 = ds_pathIds d1" "ds_maxPathId d2 = ds_maxPathId d1"
    using n assms(2) by (auto simp: getNextPathId_def split: if_splits)
  note d2' = getNextPathId_simps [OF n, unfolded same]
  obtain rt where rt: "NewRoute (path_at s p) p (ds_protoFamily d2) RouteActionNone a x' = Ok rt" "rt_path rt = p"
    "rt_action rt = RouteActionNone" "rt_OutPathId rt = x'"
    using NewRoute_Ok [OF assms(1)] by metis
  let ?at = "if i \<noteq> - 1 then i else int (length (ds_Paths d))"
  have "rt_path (setIdx ?at rt) = p" "rt_action (setIdx ?at rt) = RouteActionNone" "rt_OutPathId (setIdx ?at rt) = x"
    "rt_routeListIdx (setIdx ?at rt) = ?at"
    using rt d2 by (simp_all add: setIdx_def)
  moreover have "enter_path s k a p i d = Ok
     (d2\<lparr>ds_routes := ds_routes d @ [setIdx ?at rt], ds_pathRouteMap := AList.update p (length (ds_routes d)) (ds_pathRouteMap d),
         ds_Paths := (if i = - 1 then ds_Paths d @ [length (ds_routes d)] else (ds_Paths d)[nat i := length (ds_routes d)]),
         ds_PathInfos := length (ds_routes d) # ds_PathInfos d,
         ds_peerPathMap := AList.update k (AList.update a p (case map_of (ds_peerPathMap d) k of Some m \<Rightarrow> m | None \<Rightarrow> []))
           (ds_peerPathMap d)\<rparr>)"
    using assms(3) by (auto simp: enter_path_def n rt(1) [unfolded d2'] d2' set_idx_def Let_def simp del: obind_eq_Ok)
  ultimately show ?thesis using d2 d2' by auto
qed

text \<open>
  The new route at position \<open>j\<close> of the list; the routes of the paths that are gone have left it.
\<close>

lemma entered_ok:
  assumes inv: "routes_ok d" "listing_ok d" and gone: "gone \<subseteq> live d" "p \<notin> live d"
    and lv: "live d' = insert p (live d - gone)"
    and prm: "ds_pathRouteMap d' = AList.update p (length (ds_routes d)) (ds_pathRouteMap d)"
    and rts: "ds_routes d' = ds_routes d @ [rt]" "rt_path rt = p" "rt_routeListIdx rt = int j"
    and ecmp: "ds_ecmpPaths d' = ds_ecmpPaths d"
    and out: "out = {r. \<exists>q \<in> gone. map_of (ds_pathRouteMap d) q = Some r}"
    and paths: "set (ds_Paths d') = insert (length (ds_routes d)) (set (ds_Paths d) - out)" "distinct (ds_Paths d')"
      "set (ds_PathInfos d') = insert (length (ds_routes d)) (set (ds_PathInfos d) - out)"
      "\<forall>m < length (ds_Paths d'). ds_Paths d' ! m = (if m = j then length (ds_routes d) else ds_Paths d ! m) \<and>
         (m \<noteq> j \<longrightarrow> m < length (ds_Paths d))"
  shows "routes_ok d' \<and> listing_ok d'"
proof -
  let ?n = "length (ds_routes d)"
  have at: "route_at d' x = (if x = ?n then rt else route_at d x)" if "x \<le> ?n" for x
    using that by (auto simp: route_at_def rts nth_append)
  have pm: "map_of (ds_pathRouteMap d') = (map_of (ds_pathRouteMap d))(p \<mapsto> ?n)" by (simp add: prm update_conv')
  have len: "length (ds_routes d') = Suc ?n" by (simp add: rts)
  have known: "r < ?n \<and> rt_path (route_at d r) = q" if "map_of (ds_pathRouteMap d) q = Some r \<or> map_of (ds_ecmpPaths d) q = Some r" for q r
    using inv(1) that unfolding routes_ok_def by blast
  have "routes_ok d'"
  proof -
    have "r < length (ds_routes d') \<and> rt_path (route_at d' r) = q"
      if "map_of (ds_pathRouteMap d') q = Some r \<or> map_of (ds_ecmpPaths d') q = Some r" for q r
      using that known [of q r] by (auto simp: pm ecmp len at rts(2) split: if_splits)
    moreover have "rt_action (route_at d' r) = RouteActionNone" if "map_of (ds_ecmpPaths d') q = Some r" for q r
    proof -
      have "map_of (ds_ecmpPaths d) q = Some r" using that by (simp only: ecmp)
      then have "r < ?n" "rt_action (route_at d r) = RouteActionNone"
        using known inv(1) unfolding routes_ok_def by blast+
      then show ?thesis by (simp add: at)
    qed
    ultimately show ?thesis using inv(1) by (simp add: routes_ok_def ecmp)
  qed
  moreover have "listing_ok d'"
  proof -
    have listed: "r < ?n" if "r \<in> set (ds_Paths d)" for r using that inv(2) known by (auto simp: listing_ok_def)
    have "rt_routeListIdx (route_at d' (ds_Paths d' ! m)) = int m" if "m < length (ds_Paths d')" for m
    proof (cases "m = j")
      case True
      then show ?thesis using that paths(4) by (simp add: at rts(3))
    next
      case False
      then have m: "ds_Paths d' ! m = ds_Paths d ! m" "m < length (ds_Paths d)" using that paths(4) by auto
      then have "ds_Paths d ! m < ?n" using listed nth_mem by blast
      then show ?thesis using m inv(2) by (simp add: at listing_ok_def)
    qed
    moreover have "(\<exists>q \<in> live d'. map_of (ds_pathRouteMap d') q = Some x) \<longleftrightarrow> x = ?n \<or> x \<in> set (ds_Paths d) \<and> x \<notin> out" for x
    proof -
      have one: "q = q'" if "map_of (ds_pathRouteMap d) q = Some r" "map_of (ds_pathRouteMap d) q' = Some r" for q q' r
        using that known by metis
      have "(\<exists>q \<in> live d'. map_of (ds_pathRouteMap d') q = Some x) \<longleftrightarrow>
          x = ?n \<or> (\<exists>q \<in> live d - gone. map_of (ds_pathRouteMap d) q = Some x)"
        using gone(2) by (auto simp: lv pm)
      also have "(\<exists>q \<in> live d - gone. map_of (ds_pathRouteMap d) q = Some x) \<longleftrightarrow> x \<in> set (ds_Paths d) \<and> x \<notin> out"
      proof -
        have "x \<in> set (ds_Paths d) \<longleftrightarrow> (\<exists>q \<in> live d. map_of (ds_pathRouteMap d) q = Some x)"
          using inv(2) by (simp add: listing_ok_def)
        moreover have "x \<in> out \<longleftrightarrow> (\<exists>q \<in> gone. map_of (ds_pathRouteMap d) q = Some x)" by (simp add: out)
        ultimately show ?thesis using one by blast
      qed
      finally show ?thesis .
    qed
    moreover have "\<forall>q \<in> live d'. map_of (ds_pathRouteMap d') q \<noteq> None" using inv(2) by (auto simp: lv pm listing_ok_def)
    moreover have "set (ds_PathInfos d) = set (ds_Paths d)" using inv(2) by (simp add: listing_ok_def)
    ultimately show ?thesis using paths(1,2,3) by (auto simp: listing_ok_def)
  qed
  ultimately show ?thesis ..
qed

lemma peer_paths_entered:
  assumes "ds_peerPathMap d' = AList.update k (AList.update a p (case map_of (ds_peerPathMap d) k of Some m \<Rightarrow> m | None \<Rightarrow> [])) (ds_peerPathMap d)"
  shows "peer_paths d' = (peer_paths d)((k, a) \<mapsto> p)"
  by (auto simp: peer_paths_def getPathForIP_def assms update_conv' fun_eq_iff split: option.splits)

lemma update_neq_Nil: "AList.update k v m \<noteq> []"
  by (cases m) auto

lemma peers_ok_entered:
  assumes "peers_ok d" "p \<notin> live d"
    and "ds_peerPathMap d' = AList.update k (AList.update a p (case map_of (ds_peerPathMap d) k of Some m \<Rightarrow> m | None \<Rightarrow> [])) (ds_peerPathMap d)"
  shows "peers_ok d'"
proof -
  let ?m = "case map_of (ds_peerPathMap d) k of Some m \<Rightarrow> m | None \<Rightarrow> []"
  have m: "distinct (map fst ?m)" using assms(1) by (auto simp: peers_ok_def split: option.split dest!: map_of_SomeD)
  have "inj_on (peer_paths d') (dom (peer_paths d'))"
  proof (rule inj_onI)
    fix x y assume xy: "x \<in> dom (peer_paths d')" "y \<in> dom (peer_paths d')" "peer_paths d' x = peer_paths d' y"
    have inj: "inj_on (peer_paths d) (dom (peer_paths d))" using assms(1) by (simp add: peers_ok_def)
    have "peer_paths d z \<noteq> Some p" for z using assms(2) ranI [of "peer_paths d" z p] unfolding live_def by blast
    moreover have "z \<in> dom (peer_paths d') \<Longrightarrow> z \<noteq> (k, a) \<Longrightarrow> z \<in> dom (peer_paths d)" for z
      by (simp add: peer_paths_entered [OF assms(3)] dom_def)
    ultimately show "x = y"
      using inj_onD [OF inj, of x y] by (metis peer_paths_entered [OF assms(3)] fun_upd_apply xy)
  qed
  moreover have "distinct (map fst (ds_peerPathMap d'))" using assms(1) by (simp add: assms(3) peers_ok_def distinct_update)
  moreover have "distinct (map fst m') \<and> m' \<noteq> []" if "(k', m') \<in> set (ds_peerPathMap d')" for k' m'
  proof -
    have "(k', m') = (k, AList.update a p ?m) \<or> (k', m') \<in> set (ds_peerPathMap d)"
      using that set_AList_update [of k "AList.update a p ?m" "ds_peerPathMap d"] by (auto simp: assms(3))
    then show ?thesis using assms(1) m by (auto simp: peers_ok_def distinct_update update_neq_Nil)
  qed
  ultimately show ?thesis by (auto simp: peers_ok_def)
qed

text \<open>A path for a peer and an identifier that has none.\<close>

lemma enter_new_ok:
  assumes inv: "dest_inv d" and p: "describable s p" "p \<notin> live d" and ids: "ds_maxPathId d + 1 \<noteq> 0"
    and new: "peer_paths d (k, a) = None"
  shows "\<exists>d'. enter_path s k a p (- 1) d = Ok d' \<and> dest_inv d' \<and> peer_paths d' = (peer_paths d)((k, a) \<mapsto> p) \<and>
    unat (ds_maxPathId d') \<le> Suc (unat (ds_maxPathId d)) \<and> ds_ecmpPaths d' = ds_ecmpPaths d \<and> ds_NLRI d' = ds_NLRI d \<and>
    ds_protoFamily d' = ds_protoFamily d \<and> (ds_LocRibPath d' = ds_LocRibPath d \<or> ds_LocRibPath d' = None)"
proof -
  obtain x d1 where n: "getNextPathId d = (x, d1)" by (metis surj_pair)
  obtain d' rt where d': "enter_path s k a p (- 1) d = Ok d'"
    "ds_peerPathMap d' = AList.update k (AList.update a p (case map_of (ds_peerPathMap d) k of Some m \<Rightarrow> m | None \<Rightarrow> [])) (ds_peerPathMap d)"
    "ds_LocRibPath d' = ds_LocRibPath d" "ds_ecmpPaths d' = ds_ecmpPaths d"
    "ds_pathRouteMap d' = AList.update p (length (ds_routes d)) (ds_pathRouteMap d)"
    "ds_Paths d' = ds_Paths d @ [length (ds_routes d)]" "ds_PathInfos d' = length (ds_routes d) # ds_PathInfos d"
    "ds_routes d' = ds_routes d @ [rt]" "rt_path rt = p" "rt_OutPathId rt = x" "rt_routeListIdx rt = int (length (ds_Paths d))"
    "ds_pathIds d' = ds_pathIds d1" "ds_maxPathId d' = ds_maxPathId d1" "ds_NLRI d' = ds_NLRI d" "ds_protoFamily d' = ds_protoFamily d"
    using enter_path_fields [OF p(1) n, of "- 1" k a] by auto
  have parts: "peers_ok d" "routes_ok d" "listing_ok d" "ids_ok d" "locrib_ok d" using inv by (simp_all add: dest_inv_def)
  have pp: "peer_paths d' = (peer_paths d)((k, a) \<mapsto> p)" by (rule peer_paths_entered [OF d'(2)])
  have lv: "live d' = insert p (live d)" using new by (simp add: live_def pp)
  have lt: "r < length (ds_routes d)" if "r \<in> set (ds_Paths d)" for r
    using that parts(2,3) unfolding listing_ok_def routes_ok_def by blast
  then have fresh: "length (ds_routes d) \<notin> set (ds_Paths d)" by blast
  have "routes_ok d' \<and> listing_ok d'"
    by (rule entered_ok [where gone = "{}" and p = p and rt = rt and j = "length (ds_Paths d)" and out = "{}", OF parts(2,3)])
       (use parts(3) fresh p(2) in \<open>simp_all add: lv d' nth_append less_Suc_eq listing_ok_def\<close>)
  moreover have "out_ids d' = out_ids d @ [x]" using lt by (simp add: out_ids_def d' route_at_def nth_append)
  then have "ids_ok d'"
    using next_id_ok [OF n, of "out_ids d"] parts(4) ids by (auto simp: ids_ok_def d')
  moreover have "locrib_ok d'" using parts(5) by (simp add: locrib_ok_def d' lv)
  ultimately show ?thesis using d'(1,3,4,13,14,15) pp next_id_max [OF n] peers_ok_entered [OF parts(1) p(2) d'(2)] by (auto simp: dest_inv_def)
qed

text \<open>A path in the place of another.\<close>

lemma list_update_distinct:
  assumes "distinct xs" "j < length xs" "n \<notin> set xs"
  shows "set (xs[j := n]) = insert n (set xs - {xs ! j})" "distinct (xs[j := n])"
  using assms by (auto simp: set_update_distinct distinct_list_update)

lemma live_replaced:
  assumes "peers_ok d" "peer_paths d x = Some old"
  shows "ran ((peer_paths d)(x \<mapsto> p)) = insert p (live d - {old})"
proof -
  have "((peer_paths d)(x := None)) x = None" by simp
  then have "ran (((peer_paths d)(x := None))(x \<mapsto> p)) = insert p (ran ((peer_paths d)(x := None)))" by (rule ran_map_upd)
  then show ?thesis by (simp add: live_removed [OF assms])
qed

lemma unhook_fields:
  assumes "unhook_path old d = (d0, i)" "map_of (ds_pathRouteMap d) old = Some r" "rt_routeListIdx (route_at d r) = int j"
  shows "i = int j" "ds_peerPathMap d0 = ds_peerPathMap d" "ds_ecmpPaths d0 = ds_ecmpPaths d" "ds_pathRouteMap d0 = ds_pathRouteMap d"
    "ds_Paths d0 = ds_Paths d" "ds_PathInfos d0 = removeAll r (ds_PathInfos d)" "ds_routes d0 = ds_routes d"
    "ds_pathIds d0 = ds_pathIds d" "ds_maxPathId d0 = ds_maxPathId d" "route_at d0 = route_at d"
    "ds_NLRI d0 = ds_NLRI d" "ds_protoFamily d0 = ds_protoFamily d"
    "ds_LocRibPath d0 = (if ds_LocRibPath d = Some old then None else ds_LocRibPath d)"
  using assms by (auto simp: unhook_path_def Let_def route_at_def [abs_def] split: if_splits)

lemma enter_replacing_ok:
  assumes inv: "dest_inv d" and p: "describable s p" "p \<notin> live d" and ids: "ds_maxPathId d + 1 \<noteq> 0"
    and old: "peer_paths d (k, a) = Some old" and un: "unhook_path old d = (d0, i)"
  shows "\<exists>d'. enter_path s k a p i d0 = Ok d' \<and> dest_inv d' \<and> peer_paths d' = (peer_paths d)((k, a) \<mapsto> p) \<and>
    unat (ds_maxPathId d') \<le> Suc (unat (ds_maxPathId d)) \<and> ds_ecmpPaths d' = ds_ecmpPaths d \<and> ds_NLRI d' = ds_NLRI d \<and>
    ds_protoFamily d' = ds_protoFamily d \<and> (ds_LocRibPath d' = ds_LocRibPath d \<or> ds_LocRibPath d' = None)"
proof -
  have "old \<in> live d" using old by (auto simp: live_def ran_def)
  then obtain r j where r: "map_of (ds_pathRouteMap d) old = Some r" "r < length (ds_routes d)" "rt_path (route_at d r) = old"
    and j: "j < length (ds_Paths d)" "ds_Paths d ! j = r" "rt_routeListIdx (route_at d r) = int j"
    using held_route [OF inv] by metis
  note d0 = unhook_fields [OF un r(1) j(3)]
  obtain x d1 where n: "getNextPathId d0 = (x, d1)" by (metis surj_pair)
  obtain d' rt where d': "enter_path s k a p i d0 = Ok d'"
    "ds_peerPathMap d' = AList.update k (AList.update a p (case map_of (ds_peerPathMap d) k of Some m \<Rightarrow> m | None \<Rightarrow> [])) (ds_peerPathMap d)"
    "ds_LocRibPath d' = ds_LocRibPath d0" "ds_ecmpPaths d' = ds_ecmpPaths d"
    "ds_pathRouteMap d' = AList.update p (length (ds_routes d)) (ds_pathRouteMap d)"
    "ds_Paths d' = (ds_Paths d)[j := length (ds_routes d)]" "ds_PathInfos d' = length (ds_routes d) # removeAll r (ds_PathInfos d)"
    "ds_routes d' = ds_routes d @ [rt]" "rt_path rt = p" "rt_OutPathId rt = x" "rt_routeListIdx rt = int j"
    "ds_pathIds d' = ds_pathIds d1" "ds_maxPathId d' = ds_maxPathId d1" "ds_NLRI d' = ds_NLRI d" "ds_protoFamily d' = ds_protoFamily d"
    using enter_path_fields [OF p(1) n, of i k a] j(1) unfolding d0(1-12) by auto
  have parts: "peers_ok d" "routes_ok d" "listing_ok d" "ids_ok d" "locrib_ok d" using inv by (simp_all add: dest_inv_def)
  have pp: "peer_paths d' = (peer_paths d)((k, a) \<mapsto> p)" by (rule peer_paths_entered [OF d'(2)])
  have lv: "live d' = insert p (live d - {old})" using live_replaced [OF parts(1) old] by (simp add: live_def pp)
  have lt: "r < length (ds_routes d)" if "r \<in> set (ds_Paths d)" for r
    using that parts(2,3) unfolding listing_ok_def routes_ok_def by blast
  then have fresh: "length (ds_routes d) \<notin> set (ds_Paths d)" by blast
  have ds: "distinct (ds_Paths d)" using parts(3) by (simp add: listing_ok_def)
  note put = list_update_distinct [OF ds j(1) fresh, unfolded j(2)]
  have "routes_ok d' \<and> listing_ok d'"
    by (rule entered_ok [where gone = "{old}" and p = p and rt = rt and j = j and out = "{r}", OF parts(2,3)])
       (use parts(3) \<open>old \<in> live d\<close> p(2) put r(1) in \<open>simp_all add: lv d' nth_list_update listing_ok_def\<close>)
  moreover have "ids_ok d'"
  proof -
    have eq: "out_ids d' = (out_ids d)[j := x]"
    proof (rule nth_equalityI)
      show "out_ids d' ! m = (out_ids d)[j := x] ! m" if "m < length (out_ids d')" for m
        using that lt [of "ds_Paths d ! m"] j(1) by (simp add: out_ids_def d' route_at_def nth_append nth_list_update)
    qed (simp add: out_ids_def d')
    have new: "distinct (x # out_ids d @ ds_pathIds d1)" "\<forall>y \<in> set (x # out_ids d @ ds_pathIds d1). y < ds_maxPathId d1"
      using next_id_ok [OF n, of "out_ids d"] parts(4) ids by (simp_all add: ids_ok_def d0)
    have "set ((out_ids d)[j := x]) \<subseteq> insert x (set (out_ids d))" by (rule set_update_subset_insert)
    moreover have "distinct ((out_ids d)[j := x])"
      using new(1) j(1) list_update_distinct(2) [of "out_ids d" j x] by (simp add: out_ids_def)
    ultimately show ?thesis using new unfolding ids_ok_def eq d'(12,13) by auto
  qed
  moreover have "locrib_ok d'" using parts(5) by (auto simp: locrib_ok_def d' d0 lv)
  ultimately show ?thesis
    using d'(1,3,4,13,14,15) d0 pp next_id_max [OF n] peers_ok_entered [OF parts(1) p(2) d'(2)] by (auto simp: dest_inv_def)
qed

lemma AddOrUpdatePath_ok:
  assumes inv: "dest_inv d" and p: "describable s p" "p \<notin> live d \<or> peer_paths d (k, a) = Some p" and ids: "ds_maxPathId d + 1 \<noteq> 0"
  shows "\<exists>d'. AddOrUpdatePath s k a p d = Ok (d', peer_paths d (k, a) = None) \<and> dest_inv d' \<and>
    peer_paths d' = (peer_paths d)((k, a) \<mapsto> p) \<and>
    unat (ds_maxPathId d') \<le> Suc (unat (ds_maxPathId d)) \<and> ds_ecmpPaths d' = ds_ecmpPaths d \<and> ds_NLRI d' = ds_NLRI d \<and>
    ds_protoFamily d' = ds_protoFamily d \<and> (ds_LocRibPath d' = ds_LocRibPath d \<or> ds_LocRibPath d' = None)"
proof (cases "peer_paths d (k, a)")
  case None
  then have "p \<notin> live d" using p(2) by simp
  from enter_new_ok [OF inv p(1) this ids None] show ?thesis
    using None by (auto simp: AddOrUpdatePath_def peer_paths_def)
next
  case (Some old)
  show ?thesis
  proof (cases "old = p")
    case True
    then have "AddOrUpdatePath s k a p d = Ok (d, False)" using Some by (simp add: AddOrUpdatePath_def peer_paths_def)
    then show ?thesis using inv Some True by (simp add: fun_upd_idem)
  next
    case False
    then have "p \<notin> live d" using p(2) Some by simp
    moreover obtain d0 i where un: "unhook_path old d = (d0, i)" by (metis surj_pair)
    ultimately have "\<exists>d'. enter_path s k a p i d0 = Ok d' \<and> dest_inv d' \<and> peer_paths d' = (peer_paths d)((k, a) \<mapsto> p) \<and>
      unat (ds_maxPathId d') \<le> Suc (unat (ds_maxPathId d)) \<and> ds_ecmpPaths d' = ds_ecmpPaths d \<and> ds_NLRI d' = ds_NLRI d \<and>
      ds_protoFamily d' = ds_protoFamily d \<and> (ds_LocRibPath d' = ds_LocRibPath d \<or> ds_LocRibPath d' = None)"
      by (intro enter_replacing_ok [OF inv p(1) _ ids Some])
    then show ?thesis using Some False un by (auto simp: AddOrUpdatePath_def peer_paths_def)
  qed
qed

end
