(* ===== verification/BgpDecision.thy ===== *)
theory BgpDecision
  imports BgpSelect "HOL-Library.Product_Lexorder" "HOL-Library.List_Lexorder" "HOL-Library.Multiset"
begin

text \<open>
  The decision process against its reference: the best paths are those whose rank is least in the
  lexicographic order of preference, length of the AS path, origin, kind of the session, router
  identifier, length of the cluster list and neighbor address. The loops that rewrite the array are
  shown to compute a filter; a sequence of filters is one filter on the pair of their keys.
\<close>

section \<open>The reference\<close>

definition keep_min :: "('a \<Rightarrow> 'k :: linorder) \<Rightarrow> 'a list \<Rightarrow> 'a list" where
  "keep_min f xs = filter (\<lambda>x. \<forall>y \<in> set xs. f x \<le> f y) xs"

lemma keep_min_single [simp]: "length xs \<le> 1 \<Longrightarrow> keep_min f xs = xs"
  by (cases xs) (auto simp: keep_min_def)

lemma set_keep_min: "set (keep_min f xs) \<subseteq> set xs"
  by (auto simp: keep_min_def)

lemma set_keep_minD: "x \<in> set (keep_min f xs) \<Longrightarrow> x \<in> set xs"
  by (auto simp: keep_min_def)

lemma mset_keep_min: "mset xs = mset ys \<Longrightarrow> mset (keep_min f xs) = mset (keep_min f ys)"
  using mset_eq_setD [of xs ys] by (simp add: keep_min_def)

lemma keep_min_nonempty:
  fixes f :: "'a \<Rightarrow> 'k :: linorder"
  assumes "xs \<noteq> []"
  shows "\<exists>x \<in> set xs. \<forall>y \<in> set xs. f x \<le> f y"
proof -
  have "Min (f ` set xs) \<in> f ` set xs" using assms by (intro Min_in) auto
  then obtain x where "x \<in> set xs" "f x = Min (f ` set xs)" by force
  then show ?thesis by (intro bexI [of _ x]) auto
qed

lemma keep_min_neq_Nil: "xs \<noteq> [] \<Longrightarrow> keep_min f xs \<noteq> []"
  using keep_min_nonempty [of xs f] by (auto simp: keep_min_def filter_empty_conv)

lemma keep_min_pair: "keep_min g (keep_min f xs) = keep_min (\<lambda>x. (f x, g x)) xs"
proof (cases "xs = []")
  case False
  then obtain m where m: "m \<in> set xs" "\<forall>y \<in> set xs. f m \<le> f y" using keep_min_nonempty [of xs f] by blast
  have min: "(\<forall>y \<in> set xs. f x \<le> f y) \<longleftrightarrow> f x = f m" if "x \<in> set xs" for x
    using m that by (metis order_antisym order_refl order_trans)
  have 1: "keep_min f xs = filter (\<lambda>x. f x = f m) xs"
    unfolding keep_min_def by (rule filter_cong) (simp_all add: min)
  have "(\<forall>y \<in> set (keep_min f xs). g x \<le> g y) \<and> f x = f m \<longleftrightarrow> (\<forall>y \<in> set xs. (f x, g x) \<le> (f y, g y))"
    if "x \<in> set xs" for x
  proof
    assume L: "(\<forall>y \<in> set (keep_min f xs). g x \<le> g y) \<and> f x = f m"
    show "\<forall>y \<in> set xs. (f x, g x) \<le> (f y, g y)"
    proof
      fix y assume y: "y \<in> set xs"
      show "(f x, g x) \<le> (f y, g y)"
      proof (cases "f y = f m")
        case True
        then show ?thesis using L y by (auto simp: 1)
      next
        case False
        then have "f m < f y" using m(2) y by (metis order_le_imp_less_or_eq)
        then show ?thesis using L by auto
      qed
    qed
  next
    assume R: "\<forall>y \<in> set xs. (f x, g x) \<le> (f y, g y)"
    then have "(f x, g x) \<le> (f m, g m)" using m(1) by blast
    then have "f x \<le> f m" by auto
    then have fx: "f x = f m" using m(2) that by (simp add: order_antisym)
    moreover have "g x \<le> g y" if "y \<in> set (keep_min f xs)" for y
      using R that fx by (auto simp: 1)
    ultimately show "(\<forall>y \<in> set (keep_min f xs). g x \<le> g y) \<and> f x = f m" by blast
  qed
  then have 2: "filter (\<lambda>x. \<forall>y \<in> set xs. (f x, g x) \<le> (f y, g y)) xs =
      filter (\<lambda>x. (\<forall>y \<in> set (keep_min f xs). g x \<le> g y) \<and> f x = f m) xs"
    by (intro filter_cong) blast+
  have "keep_min g (keep_min f xs) = filter (\<lambda>x. \<forall>y \<in> set (keep_min f xs). g x \<le> g y) (keep_min f xs)"
    by (rule keep_min_def)
  also have "\<dots> = filter (\<lambda>x. \<forall>y \<in> set (keep_min f xs). g x \<le> g y) (filter (\<lambda>x. f x = f m) xs)"
    by (simp only: 1)
  also have "\<dots> = filter (\<lambda>x. (\<forall>y \<in> set (keep_min f xs). g x \<le> g y) \<and> f x = f m) xs"
    by (simp add: conj_commute)
  finally show ?thesis unfolding 2 [symmetric] keep_min_def [of "\<lambda>x. (f x, g x)"] .
qed (simp add: keep_min_def)

lemma keep_min_cong: "(\<And>x. x \<in> set xs \<Longrightarrow> f x = g x) \<Longrightarrow> keep_min f xs = keep_min g xs"
  unfolding keep_min_def by (rule filter_cong) auto

section \<open>The loop of a step\<close>

text \<open>
  The invariant of the loop at place \<open>j\<close> of the array \<open>xs\<close>: the first \<open>n\<close> places hold the paths seen
  with the best key, what lies at and behind \<open>j\<close> is untouched.
\<close>

definition loop_inv ::
  "path list \<Rightarrow> (path \<Rightarrow> 'k :: linorder) \<Rightarrow> 'k \<Rightarrow> nat \<Rightarrow> path list \<times> 'k \<times> path list \<times> nat \<Rightarrow> bool" where
  "loop_inv xs k worst j = (\<lambda>(ps, best, removed, n).
     n \<le> j \<and> length ps = length xs \<and> (\<forall>i. j \<le> i \<longrightarrow> i < length xs \<longrightarrow> ps ! i = xs ! i) \<and>
     take n ps = filter (\<lambda>x. k x = best) (take j xs) \<and> (\<forall>x \<in> set (take j xs). best \<le> k x) \<and>
     set removed \<subseteq> set xs \<and> (n = 0 \<longrightarrow> ps = xs \<and> best = worst))"

lemma loop_inv_start: "loop_inv xs k worst 0 (xs, worst, [], 0)"
  by (simp add: loop_inv_def)

lemma take_Suc_snoc: "j < length xs \<Longrightarrow> take (Suc j) xs = take j xs @ [xs ! j]"
  by (rule take_Suc_conv_app_nth)

lemma loop_inv_worse:
  assumes "loop_inv xs k worst j (ps, best, removed, n)" "j < length xs" "best < k (xs ! j)"
  shows "loop_inv xs k worst (Suc j) (ps, best, removed @ [xs ! j], n)"
  using assms by (auto simp: loop_inv_def take_Suc_snoc)

lemma loop_inv_better:
  assumes "loop_inv xs k worst j (ps, best, removed, n)" "j < length xs" "k (xs ! j) < best"
  shows "loop_inv xs k worst (Suc j) (ps[0 := xs ! j], k (xs ! j), removed @ take n ps, 1)"
proof -
  have len: "length ps = length xs" and all: "\<forall>x \<in> set (take j xs). best \<le> k x"
    and tk: "take n ps = filter (\<lambda>x. k x = best) (take j xs)" and rem: "set removed \<subseteq> set xs"
    and rest: "\<forall>i. j \<le> i \<longrightarrow> i < length xs \<longrightarrow> ps ! i = xs ! i"
    using assms(1) by (auto simp: loop_inv_def)
  have "filter (\<lambda>x. k x = k (xs ! j)) (take j xs) = []"
    using all assms(3) by (auto simp: filter_empty_conv)
  moreover have "take 1 (ps[0 := xs ! j]) = [xs ! j]" using len assms(2) by (cases ps) auto
  moreover have "\<forall>x \<in> set (take (Suc j) xs). k (xs ! j) \<le> k x"
    using all assms(2,3) by (auto simp: take_Suc_snoc intro: order_trans less_imp_le)
  moreover have "set (removed @ take n ps) \<subseteq> set xs" using rem by (auto simp: tk dest: in_set_takeD)
  ultimately show ?thesis using len rest assms(2) by (simp add: loop_inv_def take_Suc_snoc nth_list_update)
qed

lemma loop_inv_same:
  assumes "loop_inv xs k worst j (ps, best, removed, n)" "j < length xs" "k (xs ! j) = best"
  shows "loop_inv xs k worst (Suc j) (ps[n := xs ! j], best, removed, n + 1)"
proof -
  have n: "n < length ps" "n \<le> j" using assms(1,2) by (auto simp: loop_inv_def)
  then have "take (Suc n) (ps[n := xs ! j]) = take n ps @ [xs ! j]" by (simp add: take_Suc_conv_app_nth)
  then show ?thesis using assms n by (auto simp: loop_inv_def take_Suc_snoc nth_list_update)
qed

text \<open>
  The reset of the origin step is the wrong one, but a better path is never found once some are kept
  when the array is sorted.
\<close>

definition resets :: "(nat \<Rightarrow> nat) \<Rightarrow> path list \<Rightarrow> (path \<Rightarrow> 'k :: linorder) \<Rightarrow> bool" where
  "resets reset xs k \<longleftrightarrow> reset = (\<lambda>_. 1) \<or> reset = (\<lambda>n. n + 1) \<and> sorted (map k xs)"

lemma resets_one:
  assumes "resets reset xs k" "loop_inv xs k worst j (ps, best, removed, n)" "j < length xs" "k (xs ! j) < best"
  shows "reset n = 1"
proof (cases "n = 0 \<or> reset = (\<lambda>_. 1)")
  case True
  then show ?thesis using assms(1) by (auto simp: resets_def)
next
  case False
  then have "take n ps \<noteq> []" using assms(2,3) by (auto simp: loop_inv_def)
  moreover have eq: "take n ps = filter (\<lambda>x. k x = best) (take j xs)" using assms(2) by (simp add: loop_inv_def)
  ultimately have "filter (\<lambda>x. k x = best) (take j xs) \<noteq> []" by argo
  then obtain x where x: "x \<in> set (take j xs)" "k x = best" by (auto simp: filter_empty_conv)
  then obtain i where "i < j" "x = xs ! i" using assms(3) by (auto simp: in_set_conv_nth)
  moreover have "sorted (map k xs)" using False assms(1) by (auto simp: resets_def)
  ultimately have "best \<le> k (xs ! j)" using x assms(3) sorted_nth_mono [of "map k xs" i j] by simp
  then show ?thesis using assms(4) by simp
qed

lemma keep_loop_inv:
  assumes "loop_inv xs k worst j st" "j \<le> length xs" "\<forall>x \<in> set xs. key x = Ok (k x)" "resets reset xs k"
  shows "\<exists>st'. keep_loop (<) reset key [j..<length xs] st = Ok st' \<and> loop_inv xs k worst (length xs) st'"
  using assms(1,2,3)
proof (induction "length xs - j" arbitrary: j st)
  case 0
  then show ?case by simp
next
  case (Suc d)
  obtain ps best removed n where st: "st = (ps, best, removed, n)" by (cases st)
  have j: "j < length xs" using Suc.hyps(2) by simp
  have upt: "[j..<length xs] = j # [Suc j..<length xs]" using j by (simp add: upt_conv_Cons)
  have psj: "ps ! j = xs ! j" "key (ps ! j) = Ok (k (xs ! j))" using Suc.prems(1,3) j by (auto simp: st loop_inv_def)
  have less: "d = length xs - Suc j" "Suc j \<le> length xs" using Suc.hyps(2) j by simp_all
  consider "best < k (xs ! j)" | "k (xs ! j) < best" | "k (xs ! j) = best" by (meson neqE)
  then show ?case
  proof cases
    case 1
    then show ?thesis
      using Suc.hyps(1) [OF less(1) loop_inv_worse [OF Suc.prems(1) [unfolded st] j 1] less(2) Suc.prems(3)] psj
      by (simp add: st upt)
  next
    case 2
    have "reset n = 1" by (rule resets_one [OF assms(4) Suc.prems(1) [unfolded st] j 2])
    moreover have "\<not> best < k (xs ! j)" using 2 by simp
    ultimately show ?thesis
      using Suc.hyps(1) [OF less(1) loop_inv_better [OF Suc.prems(1) [unfolded st] j 2] less(2) Suc.prems(3)] psj 2
      by (simp add: st upt)
  next
    case 3
    then show ?thesis
      using Suc.hyps(1) [OF less(1) loop_inv_same [OF Suc.prems(1) [unfolded st] j 3] less(2) Suc.prems(3)] psj
      by (simp add: st upt)
  qed
qed

lemma loop_inv_end:
  assumes "loop_inv xs k worst (length xs) (ps, best, removed, n)" "\<exists>x \<in> set xs. k x \<le> worst"
  shows "0 < n" "take n ps = keep_min k xs" "set removed \<subseteq> set xs"
proof -
  have tk: "take n ps = filter (\<lambda>x. k x = best) xs" and all: "\<forall>x \<in> set xs. best \<le> k x"
    and n0: "n = 0 \<longrightarrow> best = worst" and "set removed \<subseteq> set xs" using assms(1) by (auto simp: loop_inv_def)
  then show "set removed \<subseteq> set xs" by blast
  have "n \<noteq> 0"
  proof
    assume "n = 0"
    then have "filter (\<lambda>x. k x = worst) xs = []" "best = worst" using tk n0 by auto
    then show False using assms(2) all by (auto simp: filter_empty_conv)
  qed
  then show "0 < n" by simp
  have "take n ps \<noteq> []" using \<open>n \<noteq> 0\<close> assms(1,2) by (auto simp: loop_inv_def)
  then obtain x where x: "x \<in> set xs" "k x = best" by (auto simp: tk filter_empty_conv)
  show "take n ps = keep_min k xs"
    unfolding tk keep_min_def using all x by (intro filter_cong) (auto intro: order_antisym)
qed

text \<open>Rejected paths are paths of the destination.\<close>

definition pruned_in :: "path set \<Rightarrow> pruned \<Rightarrow> bool" where
  "pruned_in U pruned \<longleftrightarrow> (\<forall>x \<in> set pruned. set (fst x) \<subseteq> U)"

lemma pruned_in_prune: "pruned_in U pruned \<Longrightarrow> set removed \<subseteq> U \<Longrightarrow> pruned_in U (prune removed ord pruned)"
  by (auto simp: pruned_in_def prune_def)

lemma keep_best_min:
  assumes "\<forall>x \<in> set xs. key x = Ok (k x)" "\<exists>x \<in> set xs. k x \<le> worst" "resets reset xs k"
    and "pruned_in U pruned" "set xs \<subseteq> U"
  shows "\<exists>pruned'. keep_best (<) reset key worst ord xs pruned = Ok (keep_min k xs, pruned') \<and> pruned_in U pruned'"
proof -
  obtain st where st: "keep_loop (<) reset key [0..<length xs] (xs, worst, [], 0) = Ok st" "loop_inv xs k worst (length xs) st"
    using keep_loop_inv [OF loop_inv_start _ assms(1,3), of worst] by auto
  obtain ps best removed n where eq: "st = (ps, best, removed, n)" by (cases st)
  have "0 < n" "take n ps = keep_min k xs" "set removed \<subseteq> set xs"
    using loop_inv_end [OF st(2) [unfolded eq] assms(2)] by blast+
  then show ?thesis using st(1) pruned_in_prune [OF assms(4), of removed ord] assms(5) by (simp add: keep_best_def eq)
qed

text \<open>The preference step looks for the largest key.\<close>

lemma keep_loop_image:
  assumes "\<And>a b. better a b \<longleftrightarrow> \<phi> a < (\<phi> b :: 'm :: linorder)" "\<And>p. key' p = obind (key p) (\<lambda>k. Ok (\<phi> k))"
  shows "keep_loop (<) reset key' is (ps, \<phi> best, removed, n) =
    obind (keep_loop better reset key is (ps, best, removed, n)) (\<lambda>(ps, best, removed, n). Ok (ps, \<phi> best, removed, n))"
proof -
  have better: "better = (\<lambda>a b. \<phi> a < \<phi> b)" using assms(1) by blast
  show ?thesis
  proof (induction "is" arbitrary: ps best removed n)
    case (Cons i "is")
    show ?case
    proof (cases "key (ps ! i)")
      case (Ok k)
      consider "\<phi> best < \<phi> k" | "\<phi> k < \<phi> best" | "\<phi> k = \<phi> best" by (meson neqE)
      then show ?thesis by cases (use Cons.IH [of ps] Cons.IH [of "_ [_ := _]"] in \<open>simp_all add: Ok assms(2) better\<close>)
    qed (simp_all add: assms(2))
  qed simp
qed

lemma keep_best_image:
  assumes "\<And>a b. better a b \<longleftrightarrow> \<phi> a < (\<phi> b :: 'm :: linorder)"
  shows "keep_best better reset key worst ord xs pruned =
    keep_best (<) reset (\<lambda>p. obind (key p) (\<lambda>k. Ok (\<phi> k))) (\<phi> worst) ord xs pruned"
  unfolding keep_best_def
  by (subst keep_loop_image [OF assms, where key = key]) (auto simp: obind_assoc split: prod.splits intro!: arg_cong [of _ _ "obind _"])

section \<open>The steps\<close>

text \<open>
  What a path must have for all its keys to be read: a neighbor, a next hop that is reachable, an
  identifier, and attributes within their ranges.
\<close>

definition readable :: "store \<Rightarrow> u32 \<Rightarrow> nat \<Rightarrow> path \<Rightarrow> bool" where
  "readable s pf len p \<longleftrightarrow>
     (\<exists>n. nbr_of s (path_at s p) = Some n \<and> length (nr_NeighborAddress (nb_Neighbor n)) = len) \<and>
     GetReachability (path_at s p) pf \<noteq> None \<and>
     (\<exists>k \<le> 4096. path_GetNumASes (path_at s p) = Ok k) \<and>
     (\<exists>k \<le> BGPPathAttrOriginMax. path_GetOrigin (path_at s p) = Ok k) \<and>
     (\<exists>k. GetBGPId s (path_at s p) = Ok k) \<and> (\<exists>k. path_GetNumClusters (path_at s p) = Ok k)"

definition pref_rank :: "store \<Rightarrow> path \<Rightarrow> int" where
  "pref_rank s p = - int (unat (pt_Pref (path_at s p)))"

definition as_rank :: "store \<Rightarrow> path \<Rightarrow> u32" where "as_rank s p = the_Ok (path_GetNumASes (path_at s p))"
definition origin_rank :: "store \<Rightarrow> path \<Rightarrow> u8" where "origin_rank s p = the_Ok (path_GetOrigin (path_at s p))"
definition id_rank :: "store \<Rightarrow> path \<Rightarrow> u32" where "id_rank s p = the_Ok (GetBGPId s (path_at s p))"
definition cluster_rank :: "store \<Rightarrow> path \<Rightarrow> u16" where
  "cluster_rank s p = the_Ok (path_GetNumClusters (path_at s p))"
definition address_rank :: "store \<Rightarrow> path \<Rightarrow> byte list" where
  "address_rank s p = the_Ok (neighbor_address s p)"

text \<open>What the steps after the origin compare, and the whole rank.\<close>

definition tie_rank :: "store \<Rightarrow> path \<Rightarrow> ((bool \<times> u32) \<times> u16) \<times> byte list" where
  "tie_rank s p = (((isIBGPRoute s p, id_rank s p), cluster_rank s p), address_rank s p)"

definition rank :: "store \<Rightarrow> path \<Rightarrow> ((int \<times> u32) \<times> u8) \<times> ((bool \<times> u32) \<times> u16) \<times> byte list" where
  "rank s p = (((pref_rank s p, as_rank s p), origin_rank s p), tie_rank s p)"

lemma readable_keys:
  assumes "readable s pf len p"
  shows "path_GetNumASes (path_at s p) = Ok (as_rank s p)" "as_rank s p \<le> 4096"
    "path_GetOrigin (path_at s p) = Ok (origin_rank s p)" "origin_rank s p \<le> BGPPathAttrOriginMax"
    "GetBGPId s (path_at s p) = Ok (id_rank s p)" "path_GetNumClusters (path_at s p) = Ok (cluster_rank s p)"
    "neighbor_address s p = Ok (address_rank s p)" "length (address_rank s p) = len"
    "isEBGPRoute s p \<longleftrightarrow> \<not> isIBGPRoute s p"
    "\<exists>n. nbr_of s (path_at s p) = Some n \<and> nb_IsInternal n = isIBGPRoute s p"
    "\<exists>nh. next_hop_of s pf p = Ok nh"
  using assms
  by (auto simp: readable_def as_rank_def origin_rank_def id_rank_def cluster_rank_def address_rank_def neighbor_address_def
      isEBGPRoute_def isIBGPRoute_def IsExternal_def IsInternal_def nb_IsExternal_def nb_IsInternal_def next_hop_of_def)

text \<open>A step that keeps the paths with the least key.\<close>

definition steps_to ::
  "path set \<Rightarrow> (path \<Rightarrow> 'k :: linorder) \<Rightarrow> (path list \<Rightarrow> pruned \<Rightarrow> (bgp_error, path list \<times> pruned) outcome) \<Rightarrow> bool" where
  "steps_to U k step \<longleftrightarrow>
     (\<forall>xs pruned. xs \<noteq> [] \<and> set xs \<subseteq> U \<and> pruned_in U pruned \<longrightarrow>
        (\<exists>ys pruned'. step xs pruned = Ok (ys, pruned') \<and> mset ys = mset (keep_min k xs) \<and> pruned_in U pruned'))"

lemma steps_toI:
  assumes "\<And>xs pruned. xs \<noteq> [] \<Longrightarrow> set xs \<subseteq> U \<Longrightarrow> pruned_in U pruned \<Longrightarrow>
      \<exists>ys pruned'. step xs pruned = Ok (ys, pruned') \<and> mset ys = mset (keep_min k xs) \<and> pruned_in U pruned'"
  shows "steps_to U k step"
  using assms by (auto simp: steps_to_def)

lemma keep_best_steps:
  assumes "\<forall>x \<in> U. key x = Ok (k x) \<and> k x \<le> worst"
    and "xs \<noteq> []" "set xs \<subseteq> U" "pruned_in U pruned" "resets reset xs k"
  shows "\<exists>pruned'. keep_best (<) reset key worst ord xs pruned = Ok (keep_min k xs, pruned') \<and> pruned_in U pruned'"
proof -
  have "\<exists>x \<in> set xs. k x \<le> worst" using assms(1,2,3) by (cases xs) auto
  then show ?thesis using assms by (intro keep_best_min) auto
qed

lemma one_resets: "resets (\<lambda>_. 1) xs k" "resets (\<lambda>_. Suc 0) xs k"
  by (simp_all add: resets_def)

lemma pref_exact:
  assumes "xs \<noteq> []" "set xs \<subseteq> U" "pruned_in U pruned"
  shows "\<exists>pruned'. getRoutesWithHighestPref s xs pruned = Ok (keep_min (pref_rank s) xs, pruned') \<and> pruned_in U pruned'"
proof -
  have order: "b < a \<longleftrightarrow> - int (unat a) < - int (unat b)" for a b :: u32 by (simp only: word_less_nat_alt neg_less_iff_less of_nat_less_iff)
  show ?thesis
    unfolding getRoutesWithHighestPref_def
    by (subst keep_best_image [where \<phi> = "\<lambda>a :: u32. - int (unat a)"])
       (use assms in \<open>auto simp: order pref_rank_def intro!: keep_best_steps one_resets\<close>)
qed

lemma as_exact:
  assumes "xs \<noteq> []" "set xs \<subseteq> U" "pruned_in U pruned" "\<forall>p \<in> U. readable s pf len p"
  shows "\<exists>pruned'. getRoutesWithSmallestAS s xs pruned = Ok (keep_min (as_rank s) xs, pruned') \<and> pruned_in U pruned'"
  unfolding getRoutesWithSmallestAS_def using assms readable_keys by (intro keep_best_steps one_resets) blast+

lemma origin_exact:
  assumes "xs \<noteq> []" "set xs \<subseteq> U" "pruned_in U pruned" "\<forall>p \<in> U. readable s pf len p" "sorted (map (origin_rank s) xs)"
  shows "\<exists>pruned'. getRoutesWithLowestOrigin s xs pruned = Ok (keep_min (origin_rank s) xs, pruned') \<and> pruned_in U pruned'"
  unfolding getRoutesWithLowestOrigin_def using assms readable_keys
  by (intro keep_best_steps) (auto simp: resets_def)

lemma word_le_max: "(x :: 'a :: len word) \<le> 2 ^ LENGTH('a) - 1"
  using word_order.extremum [of x] by simp

lemma id_steps:
  assumes "\<forall>p \<in> U. readable s pf len p"
  shows "steps_to U (id_rank s) (getRoutesWithLowestBGPId s)"
proof (rule steps_toI)
  fix xs pruned assume "xs \<noteq> []" "set xs \<subseteq> U" "pruned_in U pruned"
  moreover have "\<forall>p \<in> U. GetBGPId s (path_at s p) = Ok (id_rank s p) \<and> id_rank s p \<le> 0xFFFFFFFF"
    using readable_keys(5) assms word_le_max [where 'a = 32] by auto
  ultimately show "\<exists>ys pruned'. getRoutesWithLowestBGPId s xs pruned = Ok (ys, pruned') \<and>
      mset ys = mset (keep_min (id_rank s) xs) \<and> pruned_in U pruned'"
    using keep_best_steps [of U "\<lambda>p. GetBGPId s (path_at s p)" "id_rank s" "0xFFFFFFFF" xs pruned "\<lambda>_. 1" ByLowestBGPId]
    by (auto simp: getRoutesWithLowestBGPId_def one_resets)
qed

lemma cluster_steps:
  assumes "\<forall>p \<in> U. readable s pf len p"
  shows "steps_to U (cluster_rank s) (getRoutesWithShorterClusterLen s)"
proof (rule steps_toI)
  fix xs pruned assume "xs \<noteq> []" "set xs \<subseteq> U" "pruned_in U pruned"
  moreover have "\<forall>p \<in> U. path_GetNumClusters (path_at s p) = Ok (cluster_rank s p) \<and> cluster_rank s p \<le> 0xFFFF"
    using readable_keys(6) assms word_le_max [where 'a = 16] by auto
  ultimately show "\<exists>ys pruned'. getRoutesWithShorterClusterLen s xs pruned = Ok (ys, pruned') \<and>
      mset ys = mset (keep_min (cluster_rank s) xs) \<and> pruned_in U pruned'"
    using keep_best_steps [of U "\<lambda>p. path_GetNumClusters (path_at s p)" "cluster_rank s" "0xFFFF" xs pruned "\<lambda>_. 1" ByShorterClusterLen]
    by (auto simp: getRoutesWithShorterClusterLen_def one_resets)
qed

text \<open>The address step is the same loop: the best address is that of the first place.\<close>

lemma address_compare_sign:
  "length a = length b \<Longrightarrow> (address_compare a b < 0 \<longleftrightarrow> a < b) \<and> (address_compare a b > 0 \<longleftrightarrow> b < a)"
proof (induction a b rule: address_compare.induct)
  case (1 x xs y ys)
  consider "x < y" | "y < x" | "x = y" by (meson neqE)
  then show ?case using 1 by cases auto
qed auto

lemma address_loop_keeps:
  assumes "\<forall>p \<in> U. neighbor_address s p = Ok (address_rank s p) \<and> length (address_rank s p) = len"
    and "set ps \<subseteq> U" "\<forall>i \<in> set is. i < length ps" "n \<le> length ps - length is" "length is \<le> length ps" "0 < length ps" "n = 0 \<longrightarrow> hd (is @ [0]) = 0"
  shows "address_loop s is (ps, removed, n) =
    obind (keep_loop (<) (\<lambda>_. 1) (neighbor_address s) is (ps, address_rank s (ps ! 0), removed, n))
      (\<lambda>(ps, best, removed, n). Ok (ps, removed, n))"
  using assms(2-)
proof (induction "is" arbitrary: ps removed n)
  case (Cons i "is")
  have in_U: "ps ! i \<in> U" "ps ! 0 \<in> U" using Cons.prems by (auto dest: nth_mem)
  then have addr: "neighbor_address s (ps ! i) = Ok (address_rank s (ps ! i))" "neighbor_address s (ps ! 0) = Ok (address_rank s (ps ! 0))"
    "length (address_rank s (ps ! i)) = length (address_rank s (ps ! 0))" using assms(1) by auto
  let ?a = "address_rank s (ps ! i)" and ?b = "address_rank s (ps ! 0)"
  have upd: "set (ps[j := ps ! i]) \<subseteq> U" for j using Cons.prems(1) in_U set_update_subset_insert [of ps j "ps ! i"] by auto
  consider "?b < ?a" | "?a < ?b" | "?a = ?b" by (meson neqE)
  then show ?case
  proof cases
    case 1
    then have "n \<noteq> 0" using Cons.prems(6) by auto
    then show ?thesis using 1 Cons.prems Cons.IH [where ps = ps and removed = "removed @ [ps ! i]" and n = n] address_compare_sign [of ?a ?b]
      by (simp add: addr CompareNeighborAddress_def Let_def)
  next
    case 2
    then have "\<not> ?b < ?a" by (rule less_not_sym)
    with 2 show ?thesis using Cons.prems Cons.IH [where ps = "ps[0 := ps ! i]" and removed = "removed @ take n ps" and n = 1] address_compare_sign [of ?a ?b] upd [of 0]
      by (simp add: addr CompareNeighborAddress_def Let_def)
  next
    case 3
    then have "address_rank s (ps[n := ps ! i] ! 0) = ?b" using Cons.prems by (cases n) auto
    then show ?thesis using 3 Cons.prems Cons.IH [where ps = "ps[n := ps ! i]" and removed = removed and n = "Suc n"] address_compare_sign [of ?a ?b] upd [of n]
      by (simp add: addr CompareNeighborAddress_def Let_def)
  qed
qed simp

lemma address_steps:
  assumes "\<forall>p \<in> U. readable s pf len p"
  shows "steps_to U (address_rank s) (getRoutesWithLowestPeerAddress s)"
proof (rule steps_toI)
  fix xs pruned assume xs: "xs \<noteq> []" "set xs \<subseteq> U" and pr: "pruned_in U pruned"
  have keys: "\<forall>p \<in> U. neighbor_address s p = Ok (address_rank s p) \<and> length (address_rank s p) = len"
    using readable_keys(7,8) assms by blast
  let ?w = "address_rank s (xs ! 0)"
  have loop: "address_loop s [0..<length xs] (xs, [], 0) =
      obind (keep_loop (<) (\<lambda>_. 1) (neighbor_address s) [0..<length xs] (xs, ?w, [], 0)) (\<lambda>(ps, best, removed, n). Ok (ps, removed, n))"
    using xs by (intro address_loop_keeps [OF keys]) (auto simp: upt_conv_Cons)
  obtain st where st: "keep_loop (<) (\<lambda>_. 1) (neighbor_address s) [0..<length xs] (xs, ?w, [], 0) = Ok st"
    "loop_inv xs (address_rank s) ?w (length xs) st"
    using keep_loop_inv [OF loop_inv_start _ _ one_resets(1), of xs "neighbor_address s" "address_rank s" ?w] keys xs by blast
  obtain ps best removed n where eq: "st = (ps, best, removed, n)" by (cases st)
  have looped: "address_loop s [0..<length xs] (xs, [], 0) = Ok (ps, removed, n)"
    by (simp only: loop st(1) eq obind.simps prod.case)
  have "\<exists>x \<in> set xs. address_rank s x \<le> ?w" using xs(1) by (intro bexI [of _ "xs ! 0"]) auto
  then have "0 < n" "take n ps = keep_min (address_rank s) xs" "set removed \<subseteq> set xs"
    using loop_inv_end [OF st(2) [unfolded eq]] by blast+
  then show "\<exists>ys pruned'. getRoutesWithLowestPeerAddress s xs pruned = Ok (ys, pruned') \<and>
      mset ys = mset (keep_min (address_rank s) xs) \<and> pruned_in U pruned'"
    using pruned_in_prune [OF pr, of removed ByLowestPeerAddress] xs looped
    by (simp add: getRoutesWithLowestPeerAddress_def looped)
qed

text \<open>Deleting the internal paths.\<close>

lemma delete_ibgp_loop_spec:
  assumes "i \<le> m" "m \<le> length ps" "\<forall>p \<in> set (take m ps). \<exists>n. nbr_of s (path_at s p) = Some n \<and> nb_IsInternal n = isIBGPRoute s p"
  shows "\<exists>ys removed'. delete_ibgp_loop s ps i m removed = Ok (ys, removed') \<and>
    mset ys = mset (take i ps) + mset (filter (\<lambda>p. \<not> isIBGPRoute s p) (drop i (take m ps))) \<and>
    set removed' \<subseteq> set removed \<union> set (take m ps)"
  using assms
proof (induction s ps i m removed rule: delete_ibgp_loop.induct)
  case (1 s ps i m removed)
  show ?case
  proof (cases "i < m")
    case False
    then show ?thesis using 1 by (simp add: delete_ibgp_loop.simps)
  next
    case True
    have dm: "drop i (take m ps) = ps ! i # drop (Suc i) (take m ps)"
      using True 1(4) by (simp add: Cons_nth_drop_Suc [symmetric])
    have "ps ! i \<in> set (take m ps)" using True 1(4) by (auto simp: in_set_conv_nth)
    then obtain n where n: "nbr_of s (path_at s (ps ! i)) = Some n" "nb_IsInternal n = isIBGPRoute s (ps ! i)" using 1(5) by blast
    show ?thesis
    proof (cases "nb_IsInternal n")
      case False
      then show ?thesis
        using 1(2) [OF True n(1) False] 1(4,5) True n dm
        by (subst delete_ibgp_loop.simps) (auto simp: take_Suc_conv_app_nth)
    next
      case int: True
      let ?ps = "ps[i := ps ! (m - 1)]"
      have drop: "mset (drop i (take (m - 1) ?ps)) = mset (drop (Suc i) (take m ps))"
      proof -
        obtain k where k: "m = Suc k" using True by (cases m) auto
        show ?thesis
        proof (cases "i = k")
          case False
          then have "i < k" using True k by simp
          then have "drop i (take k ?ps) = ps ! k # drop (Suc i) (take k ps)"
            using 1(4) k by (simp add: Cons_nth_drop_Suc [symmetric] take_update_swap)
          moreover have "drop (Suc i) (take m ps) = drop (Suc i) (take k ps) @ [ps ! k]"
            using \<open>i < k\<close> 1(4) k by (simp add: take_Suc_conv_app_nth)
          ultimately show ?thesis by (simp add: k)
        qed (simp add: k)
      qed
      have sub: "set (take (m - 1) ?ps) \<subseteq> set (take m ps)"
      proof
        fix x assume "x \<in> set (take (m - 1) ?ps)"
        then obtain j where j: "j < m - 1" "x = ?ps ! j" by (auto simp: in_set_conv_nth)
        then have "x = take m ps ! (if j = i then m - 1 else j)" using True 1(4) by auto
        then show "x \<in> set (take m ps)" using j True 1(4) by (simp del: nth_take)
      qed
      have take_i: "take i ?ps = take i ps" by simp
      have "mset (filter P (drop i (take (m - 1) ?ps))) = mset (filter P (drop (Suc i) (take m ps)))" for P
        using drop by simp
      note facts = this
      have "\<exists>ys removed'. delete_ibgp_loop s ?ps i (m - 1) (removed @ [ps ! i]) = Ok (ys, removed') \<and>
          mset ys = mset (take i ?ps) + mset (filter (\<lambda>p. \<not> isIBGPRoute s p) (drop i (take (m - 1) ?ps))) \<and>
          set removed' \<subseteq> set (removed @ [ps ! i]) \<union> set (take (m - 1) ?ps)"
      proof (rule 1(1) [OF True n(1) int])
        show "i \<le> m - 1" "m - 1 \<le> length ?ps" using True 1(4) by simp_all
        show "\<forall>p \<in> set (take (m - 1) ?ps). \<exists>n. nbr_of s (path_at s p) = Some n \<and> nb_IsInternal n = isIBGPRoute s p"
          using sub 1(5) by blast
      qed
      then obtain ys removed' where ys: "delete_ibgp_loop s ?ps i (m - 1) (removed @ [ps ! i]) = Ok (ys, removed')"
        "mset ys = mset (take i ps) + mset (filter (\<lambda>p. \<not> isIBGPRoute s p) (drop (Suc i) (take m ps)))"
        "set removed' \<subseteq> set (removed @ [ps ! i]) \<union> set (take (m - 1) ?ps)"
        unfolding facts take_i by blast
      have "set removed' \<subseteq> set removed \<union> set (take m ps)"
        using ys(3) sub \<open>ps ! i \<in> set (take m ps)\<close> by auto
      moreover have "delete_ibgp_loop s ps i m removed = Ok (ys, removed')"
        using ys(1) True n(1) int by (subst delete_ibgp_loop.simps) simp
      moreover have "isIBGPRoute s (ps ! i)" using int n(2) by simp
      ultimately show ?thesis using ys(2) by (simp add: dm)
    qed
  qed
qed

lemma ibgp_steps:
  assumes "\<forall>p \<in> U. readable s pf len p"
  shows "steps_to U (isIBGPRoute s) (removeIBGPRoutesIfEBGPExist s)"
proof (rule steps_toI)
  fix xs pruned assume xs: "xs \<noteq> []" "set xs \<subseteq> U" and pr: "pruned_in U pruned"
  have ext: "isEBGPRoute s p \<longleftrightarrow> \<not> isIBGPRoute s p" if "p \<in> set xs" for p
    using readable_keys(9) assms xs that by blast
  show "\<exists>ys pruned'. removeIBGPRoutesIfEBGPExist s xs pruned = Ok (ys, pruned') \<and>
      mset ys = mset (keep_min (isIBGPRoute s) xs) \<and> pruned_in U pruned'"
  proof (cases "list_ex (isEBGPRoute s) xs")
    case True
    then have "\<exists>y \<in> set xs. \<not> isIBGPRoute s y" using ext by (auto simp: list_ex_iff)
    then have km: "keep_min (isIBGPRoute s) xs = filter (\<lambda>p. \<not> isIBGPRoute s p) xs"
      unfolding keep_min_def by (intro filter_cong) auto
    have "\<forall>p \<in> set (take (length xs) xs). \<exists>n. nbr_of s (path_at s p) = Some n \<and> nb_IsInternal n = isIBGPRoute s p"
      using readable_keys(10) assms xs by fastforce
    then obtain ys removed where "delete_ibgp_loop s xs 0 (length xs) [] = Ok (ys, removed)"
      "mset ys = mset (filter (\<lambda>p. \<not> isIBGPRoute s p) xs)" "set removed \<subseteq> set xs"
      using delete_ibgp_loop_spec [of 0 "length xs" xs s "[]"] by auto
    then show ?thesis
      using True pruned_in_prune [OF pr, of removed ByIBGPOrEBGPRoutes] xs
      by (simp add: removeIBGPRoutesIfEBGPExist_def deleteIBGPRoutes_def km)
  next
    case False
    then have "\<forall>y \<in> set xs. isIBGPRoute s y" using ext by (auto simp: list_ex_iff)
    then have "keep_min (isIBGPRoute s) xs = xs" by (auto simp: keep_min_def)
    then show ?thesis using False pr by (simp add: removeIBGPRoutesIfEBGPExist_def)
  qed
qed

section \<open>The whole process\<close>

lemma if_many_steps:
  assumes "steps_to U k step" "xs \<noteq> []" "set xs \<subseteq> U" "pruned_in U pruned"
  shows "\<exists>ys pruned'. if_many step (xs, pruned) = Ok (ys, pruned') \<and> mset ys = mset (keep_min k xs) \<and> pruned_in U pruned' \<and>
    ys \<noteq> [] \<and> set ys \<subseteq> U"
proof -
  obtain ys pruned' where ys: "if_many step (xs, pruned) = Ok (ys, pruned')" "mset ys = mset (keep_min k xs)" "pruned_in U pruned'"
  proof (cases "1 < length xs")
    case True
    have "\<exists>ys pruned'. step xs pruned = Ok (ys, pruned') \<and> mset ys = mset (keep_min k xs) \<and> pruned_in U pruned'"
      using assms unfolding steps_to_def by blast
    then obtain ys pruned' where "step xs pruned = Ok (ys, pruned')" "mset ys = mset (keep_min k xs)" "pruned_in U pruned'" by blast
    then show ?thesis using True by (intro that [of ys pruned']) (simp_all add: if_many_def)
  next
    case False
    then show ?thesis using that [of xs pruned] assms(4) by (simp add: if_many_def)
  qed
  have "keep_min k xs \<noteq> []" by (rule keep_min_neq_Nil [OF assms(2)])
  then have "ys \<noteq> []" using ys(2) by auto
  moreover have "set ys \<subseteq> U" using mset_eq_setD [OF ys(2)] set_keep_min [of k xs] assms(3) by blast
  ultimately show ?thesis using ys by blast
qed

lemma if_many_exact:
  assumes "\<And>pruned. pruned_in U pruned \<Longrightarrow> \<exists>pruned'. step xs pruned = Ok (keep_min k xs, pruned') \<and> pruned_in U pruned'"
    and "xs \<noteq> []" "set xs \<subseteq> U" "pruned_in U pruned"
  shows "\<exists>pruned'. if_many step (xs, pruned) = Ok (keep_min k xs, pruned') \<and> pruned_in U pruned' \<and> keep_min k xs \<noteq> [] \<and>
    set (keep_min k xs) \<subseteq> U"
proof -
  have "keep_min k xs \<noteq> []" by (rule keep_min_neq_Nil [OF assms(2)])
  moreover have "set (keep_min k xs) \<subseteq> U" using set_keep_min [of k xs] assms(3) by blast
  ultimately show ?thesis using assms(1) [OF assms(4)] assms(4) by (auto simp: if_many_def)
qed

text \<open>What the decision process needs of the map order and the sort: they lose nothing and invent nothing.\<close>

definition env_ok :: "go_env \<Rightarrow> bool" where
  "env_ok ge \<longleftrightarrow> (\<forall>ks. mset (ge_range ge ks) = mset ks) \<and> (\<forall>less ps. mset (ge_sort ge less ps) = mset ps)"

lemma env_okD:
  assumes "env_ok ge"
  shows "set (ge_range ge ks) = set ks" "set (ge_sort ge lt ps) = set ps" "distinct ks \<Longrightarrow> distinct (ge_range ge ks)"
  using assms mset_eq_setD mset_eq_imp_distinct_iff unfolding env_ok_def by blast+

text \<open>
  Lists of equal-cost paths of \<open>U\<close>: none is empty, no path is in two of them, and those of \<open>V\<close> are in one
  when there are lists at all.
\<close>

definition lists_ok :: "path set \<Rightarrow> path set \<Rightarrow> path list list \<Rightarrow> bool" where
  "lists_ok U V ls \<longleftrightarrow> (\<forall>l \<in> set ls. l \<noteq> [] \<and> set l \<subseteq> U) \<and> sorted_wrt (\<lambda>a b. set a \<inter> set b = {}) ls \<and>
     (ls = [] \<or> V \<subseteq> \<Union> (set ` set ls))"

lemma lists_ok_mono: "lists_ok U V ls \<Longrightarrow> U \<subseteq> U' \<Longrightarrow> V' \<subseteq> V \<Longrightarrow> lists_ok U' V' ls"
  by (auto simp: lists_ok_def)

definition grouped :: "store \<Rightarrow> u32 \<Rightarrow> path set \<Rightarrow> (string \<times> path list) list \<Rightarrow> bool" where
  "grouped s pf U m \<longleftrightarrow> distinct (map fst m) \<and>
     (\<forall>k l. map_of m k = Some l \<longrightarrow> l \<noteq> [] \<and> set l \<subseteq> U \<and> (\<forall>p \<in> set l. next_hop_of s pf p = Ok k))"

lemma group_by_next_hop_Ok:
  "\<forall>p \<in> set ps. readable s pf len p \<Longrightarrow> \<exists>m'. group_by_next_hop s pf ps m = Ok m'"
proof (induction ps arbitrary: m)
  case (Cons p ps)
  then show ?case using readable_keys(11) [of s pf len p] by auto
qed simp

lemma group_by_next_hop_grouped:
  "group_by_next_hop s pf ps m = Ok m' \<Longrightarrow> grouped s pf U m \<Longrightarrow> set ps \<subseteq> U \<Longrightarrow> grouped s pf U m'"
proof (induction ps arbitrary: m)
  case (Cons p ps)
  from Cons.prems(1) obtain nh where nh: "next_hop_of s pf p = Ok nh"
    and rest: "group_by_next_hop s pf ps (AList.update nh (case map_of m nh of None \<Rightarrow> [p] | Some qs \<Rightarrow> qs @ [p]) m) = Ok m'"
    by auto
  have "grouped s pf U (AList.update nh (case map_of m nh of None \<Rightarrow> [p] | Some qs \<Rightarrow> qs @ [p]) m)"
    using Cons.prems(2,3) nh by (auto simp: grouped_def distinct_update update_conv' split: option.splits if_splits)
  then show ?case using Cons.IH [OF rest] Cons.prems(3) by simp
qed simp

lemma group_by_next_hop_covers:
  "group_by_next_hop s pf ps m = Ok m' \<Longrightarrow>
     (\<forall>k l. map_of m k = Some l \<longrightarrow> (\<exists>l'. map_of m' k = Some l' \<and> set l \<subseteq> set l')) \<and>
     (\<forall>p \<in> set ps. \<exists>k l. map_of m' k = Some l \<and> p \<in> set l)"
proof (induction ps arbitrary: m)
  case (Cons p ps)
  from Cons.prems obtain nh where nh: "next_hop_of s pf p = Ok nh"
    and rest: "group_by_next_hop s pf ps (AList.update nh (case map_of m nh of None \<Rightarrow> [p] | Some qs \<Rightarrow> qs @ [p]) m) = Ok m'"
    by auto
  let ?m = "AList.update nh (case map_of m nh of None \<Rightarrow> [p] | Some qs \<Rightarrow> qs @ [p]) m"
  have "\<exists>l. map_of ?m nh = Some l \<and> p \<in> set l" by (auto simp: update_conv' split: option.split)
  moreover have "\<exists>l'. map_of ?m k = Some l' \<and> set l \<subseteq> set l'" if "map_of m k = Some l" for k l
    using that by (auto simp: update_conv' split: option.split)
  ultimately show ?case using Cons.IH [OF rest] by (auto 0 3) (meson subset_iff subset_trans)+
qed simp

lemma range_values_lists_ok:
  assumes "env_ok ge" "grouped s pf U m" "\<forall>p \<in> V. \<exists>k l. map_of m k = Some l \<and> p \<in> set l"
  shows "lists_ok U V (range_values ge m)"
proof -
  let ?ks = "ge_range ge (map fst m)"
  have dist: "distinct ?ks" using env_okD(3) [OF assms(1)] assms(2) by (simp add: grouped_def)
  have val: "\<exists>l. map_of m k = Some l \<and> l \<noteq> [] \<and> set l \<subseteq> U \<and> (\<forall>p \<in> set l. next_hop_of s pf p = Ok k)" if "k \<in> set ?ks" for k
  proof -
    have "k \<in> fst ` set m" using that env_okD(1) [OF assms(1)] by simp
    then obtain l where "map_of m k = Some l" using map_of_eq_None_iff [of m k] by auto
    then show ?thesis using assms(2) by (auto simp: grouped_def)
  qed
  have "set (the (map_of m k)) \<inter> set (the (map_of m k')) = {}" if "k \<in> set ?ks" "k' \<in> set ?ks" "k \<noteq> k'" for k k'
    using val [OF that(1)] val [OF that(2)] that(3) by fastforce
  then have "sorted_wrt (\<lambda>a b. set a \<inter> set b = {}) (range_values ge m)"
    using nth_eq_iff_index_eq [OF dist] by (auto simp: range_values_def sorted_wrt_iff_nth_less)
  moreover have "\<forall>l \<in> set (range_values ge m). l \<noteq> [] \<and> set l \<subseteq> U" using val by (fastforce simp: range_values_def)
  moreover have "V \<subseteq> \<Union> (set ` set (range_values ge m))"
  proof
    fix p assume "p \<in> V"
    then obtain k l where k: "map_of m k = Some l" "p \<in> set l" using assms(3) by blast
    then have "k \<in> set ?ks" using env_okD(1) [OF assms(1)] map_of_SomeD [OF k(1)] by force
    then have "l \<in> set (range_values ge m)" using k(1) by (force simp: range_values_def)
    then show "p \<in> \<Union> (set ` set (range_values ge m))" using k(2) by blast
  qed
  ultimately show ?thesis by (simp add: lists_ok_def)
qed

lemma getECMPPaths_Ok:
  assumes "env_ok ge" "\<forall>p \<in> set ps. readable s pf len p"
  shows "\<exists>e. getECMPPaths ge s pf ps = Ok e \<and> lists_ok (set ps) (set ps) e"
proof -
  obtain m where m: "group_by_next_hop s pf ps [] = Ok m" using group_by_next_hop_Ok [OF assms(2)] by blast
  have "grouped s pf (set ps) m" by (rule group_by_next_hop_grouped [OF m]) (simp_all add: grouped_def)
  then have "lists_ok (set ps) (set ps) (range_values ge m)"
    using range_values_lists_ok [OF assms(1)] group_by_next_hop_covers [OF m] by blast
  then show ?thesis using m by (auto simp: getECMPPaths_def)
qed

lemma ecmp_Ok:
  assumes "env_ok ge" "\<forall>p \<in> set ps. readable s pf len p" "set ps \<subseteq> U"
  shows "\<exists>e'. ecmp_both ge s pf ebgp ibgp ps = Ok e' \<and> lists_ok U (set ps) e'"
    "lists_ok U (set ps) e \<Longrightarrow> \<exists>e'. ecmp_one ge s pf ebgp ibgp ps e = Ok e' \<and> lists_ok U (set ps) e'"
  using getECMPPaths_Ok [OF assms(1,2)] lists_ok_mono [OF _ assms(3) order_refl]
  by (auto simp: ecmp_both_def ecmp_one_def) (auto simp: lists_ok_def)

lemma addAddPaths_Ok:
  assumes "\<forall>p \<in> set ps. readable s pf len p"
  shows "\<exists>r. addAddPaths ge s pf ps st = Ok r"
proof -
  have "\<exists>r. add_paths_loop s pf ps (cur, m) = Ok r" for cur m
    using assms
  proof (induction ps arbitrary: cur m)
    case (Cons p ps)
    then show ?case using readable_keys(11) [of s pf len p] by fastforce
  qed simp
  then obtain r where "add_paths_loop s pf ps ([], snd st) = Ok r" by blast
  then show ?thesis by (cases st; cases r) (simp add: addAddPaths_def)
qed

lemma pruned_add_paths_Ok:
  assumes "env_ok ge" "\<forall>p \<in> U. readable s pf len p" "pruned_in U pruned"
  shows "\<exists>r. pruned_add_paths ge s pf cnt pruned st = Ok r"
  using assms(3)
proof (induction pruned arbitrary: st)
  case Nil
  then show ?case by (cases st) simp
next
  case (Cons x xs)
  obtain ps ord where x: "x = (ps, ord)" by (cases x)
  have "\<forall>p \<in> set (ge_sort ge (Less s ord) ps). readable s pf len p"
    using assms(2) Cons.prems by (auto simp: env_okD [OF assms(1)] pruned_in_def x)
  then obtain r where r: "addAddPaths ge s pf (ge_sort ge (Less s ord) ps) st = Ok r"
    using addAddPaths_Ok by blast
  have "\<exists>r'. pruned_add_paths ge s pf cnt xs r = Ok r'" using Cons by (simp add: pruned_in_def)
  then show ?case using r by (cases st; cases r) (auto simp: x)
qed

lemma choose_add_paths_Ok:
  assumes "env_ok ge" "\<forall>p \<in> U. readable s pf len p" "pruned_in U pruned" "set ps \<subseteq> U"
  shows "\<exists>r. choose_add_paths ge s pf cnt ps pruned = Ok r"
proof -
  have "\<forall>p \<in> set (tl ps). readable s pf len p" using assms(2,4) by (cases ps) auto
  then obtain r where r: "(if 0 < cnt \<and> 1 < length ps then addAddPaths ge s pf (tl ps) ([], []) else Ok ([], [])) = Ok r"
    using addAddPaths_Ok [of "tl ps" s pf len ge "([], [])"] by (cases "0 < cnt \<and> 1 < length ps") auto
  have "pruned_in U (rev pruned)" using assms(3) by (simp add: pruned_in_def)
  then have "\<exists>r'. pruned_add_paths ge s pf cnt (rev pruned) r = Ok r'"
    using pruned_add_paths_Ok [OF assms(1,2)] by blast
  then show ?thesis unfolding choose_add_paths_def r by (cases r) auto
qed

text \<open>The reference is one filter.\<close>

lemma mset_chain: "mset ys = mset (keep_min f xs) \<Longrightarrow> mset zs = mset (keep_min g ys) \<Longrightarrow> mset zs = mset (keep_min (\<lambda>x. (f x, g x)) xs)"
  using mset_keep_min [of ys "keep_min f xs" g] by (simp add: keep_min_pair)

lemma sorted_keep_min: "sorted (map f xs) \<Longrightarrow> sorted (map f (keep_min g xs))"
  unfolding keep_min_def by (rule sorted_filter)

lemma break_ties_ranks:
  assumes env: "env_ok ge" and read: "\<forall>p \<in> U. readable s pf len p"
    and c: "c \<noteq> []" "set c \<subseteq> U" "pruned_in U p3"
  shows "\<exists>g ecmp addPaths. break_ties ge s pf ebgp ibgp cnt (c, p3) = Ok (g, ecmp, addPaths) \<and>
    mset g = mset (keep_min (tie_rank s) c) \<and> g \<noteq> [] \<and> lists_ok (set c) (set g) ecmp"
proof -
  have sub: "\<forall>p \<in> set xs. readable s pf len p" if "set xs \<subseteq> U" for xs using read that by blast
  obtain e1 where e1: "ecmp_both ge s pf ebgp ibgp c = Ok e1" "lists_ok (set c) (set c) e1"
    using ecmp_Ok(1) [OF env sub [OF c(2)] order_refl] by blast
  obtain d p4 where 4: "if_many (removeIBGPRoutesIfEBGPExist s) (c, p3) = Ok (d, p4)" "mset d = mset (keep_min (isIBGPRoute s) c)"
    "pruned_in U p4" "d \<noteq> []" "set d \<subseteq> U"
    using if_many_steps [OF ibgp_steps [OF read] c] by blast
  have "set d \<subseteq> set c" unfolding mset_eq_setD [OF 4(2)] by (rule set_keep_min)
  then obtain e2 where e2: "ecmp_one ge s pf ebgp ibgp d e1 = Ok e2" "lists_ok (set c) (set d) e2"
    using ecmp_Ok(2) [OF env sub [OF 4(5)]] lists_ok_mono [OF e1(2) order_refl] by blast
  obtain e p5 where 5: "if_many (getRoutesWithLowestBGPId s) (d, p4) = Ok (e, p5)" "mset e = mset (keep_min (id_rank s) d)"
    "pruned_in U p5" "e \<noteq> []" "set e \<subseteq> U"
    using if_many_steps [OF id_steps [OF read] 4(4,5,3)] by blast
  obtain f p6 where 6: "if_many (getRoutesWithShorterClusterLen s) (e, p5) = Ok (f, p6)" "mset f = mset (keep_min (cluster_rank s) e)"
    "pruned_in U p6" "f \<noteq> []" "set f \<subseteq> U"
    using if_many_steps [OF cluster_steps [OF read] 5(4,5,3)] by blast
  obtain g p7 where 7: "if_many (getRoutesWithLowestPeerAddress s) (f, p6) = Ok (g, p7)" "mset g = mset (keep_min (address_rank s) f)"
    "pruned_in U p7" "g \<noteq> []" "set g \<subseteq> U"
    using if_many_steps [OF address_steps [OF read] 6(4,5,3)] by blast
  obtain ap where ap: "choose_add_paths ge s pf cnt g p7 = Ok ap" using choose_add_paths_Ok [OF env read 7(3,5)] by blast
  have "break_ties ge s pf ebgp ibgp cnt (c, p3) = Ok (g, e2, ap)"
    by (simp add: break_ties_def e1(1) 4(1) e2(1) 5(1) 6(1) 7(1) ap del: obind_eq_Ok)
  moreover have "mset g = mset (keep_min (tie_rank s) c)"
    using mset_chain [OF mset_chain [OF mset_chain [OF 4(2) 5(2)] 6(2)] 7(2)] by (simp add: tie_rank_def [abs_def])
  moreover have "set g \<subseteq> set d"
    using mset_eq_setD [OF 7(2)] mset_eq_setD [OF 6(2)] mset_eq_setD [OF 5(2)] set_keep_min by (metis order_trans)
  ultimately show ?thesis using 7(4) lists_ok_mono [OF e2(2) order_refl] by blast
qed

lemma first_steps:
  assumes "\<forall>p \<in> U. readable s pf len p" "ps \<noteq> []" "set ps \<subseteq> U" "pruned_in U p0"
  shows "\<exists>p1 p2. if_many (getRoutesWithHighestPref s) (ps, p0) = Ok (keep_min (pref_rank s) ps, p1) \<and>
    if_many (getRoutesWithSmallestAS s) (keep_min (pref_rank s) ps, p1) = Ok (keep_min (as_rank s) (keep_min (pref_rank s) ps), p2) \<and>
    pruned_in U p2 \<and> keep_min (as_rank s) (keep_min (pref_rank s) ps) \<noteq> [] \<and>
    set (keep_min (as_rank s) (keep_min (pref_rank s) ps)) \<subseteq> U"
proof -
  let ?a = "keep_min (pref_rank s) ps"
  obtain p1 where 1: "if_many (getRoutesWithHighestPref s) (ps, p0) = Ok (?a, p1)" "pruned_in U p1" "?a \<noteq> []" "set ?a \<subseteq> U"
    using if_many_exact [of U "getRoutesWithHighestPref s" ps "pref_rank s", OF pref_exact [OF assms(2,3)] assms(2,3,4)] by blast
  then show ?thesis
    using if_many_exact [of U "getRoutesWithSmallestAS s" ?a "as_rank s", OF as_exact [OF 1(3,4) _ assms(1)] 1(3,4,2)] by blast
qed

lemma calculateBestPath_ranks:
  assumes env: "env_ok ge" and read: "\<forall>p \<in> set ps \<union> set removed. readable s pf len p"
    and ps: "ps \<noteq> []" and srt: "sorted (map (origin_rank s) ps)"
  shows "\<exists>best ecmp addPaths. calculateBestPath ge s pf ps removed ebgp ibgp cnt = Ok (best, ecmp, addPaths) \<and>
    mset best = mset (keep_min (rank s) ps) \<and> best \<noteq> [] \<and> lists_ok (set ps) (set best) ecmp"
proof -
  let ?U = "set ps \<union> set removed" and ?b = "keep_min (as_rank s) (keep_min (pref_rank s) ps)"
  have "set ps \<subseteq> ?U" "pruned_in ?U [(removed, ByRouteSrc)]" by (auto simp: pruned_in_def)
  then obtain p1 p2 where 2: "if_many (getRoutesWithHighestPref s) (ps, [(removed, ByRouteSrc)]) = Ok (keep_min (pref_rank s) ps, p1)"
    "if_many (getRoutesWithSmallestAS s) (keep_min (pref_rank s) ps, p1) = Ok (?b, p2)"
    "pruned_in ?U p2" "?b \<noteq> []" "set ?b \<subseteq> ?U"
    using first_steps [OF read ps] by blast
  have srt_b: "sorted (map (origin_rank s) ?b)" by (intro sorted_keep_min srt)
  let ?c = "keep_min (origin_rank s) ?b"
  obtain p3 where 3: "if_many (getRoutesWithLowestOrigin s) (?b, p2) = Ok (?c, p3)" "pruned_in ?U p3" "?c \<noteq> []" "set ?c \<subseteq> ?U"
    using if_many_exact [of ?U "getRoutesWithLowestOrigin s" ?b "origin_rank s", OF origin_exact [OF 2(4,5) _ read srt_b] 2(4,5,3)] by blast
  obtain g ecmp ap where 4: "break_ties ge s pf ebgp ibgp cnt (?c, p3) = Ok (g, ecmp, ap)" "mset g = mset (keep_min (tie_rank s) ?c)" "g \<noteq> []" "lists_ok (set ?c) (set g) ecmp"
    using break_ties_ranks [OF env read 3(3,4,2)] by blast
  have "calculateBestPath ge s pf ps removed ebgp ibgp cnt = Ok (g, ecmp, ap)"
    by (simp add: calculateBestPath_def 2(1,2) 3(1) 4(1) del: obind_eq_Ok)
  moreover have "keep_min (tie_rank s) ?c = keep_min (\<lambda>x. (((pref_rank s x, as_rank s x), origin_rank s x), tie_rank s x)) ps"
    by (simp only: keep_min_pair)
  then have "keep_min (tie_rank s) ?c = keep_min (rank s) ps" by (simp add: rank_def [abs_def])
  moreover have "set ?c \<subseteq> set ps" by (rule order_trans [OF set_keep_min order_trans [OF set_keep_min set_keep_min]])
  ultimately show ?thesis using 4(2,3) lists_ok_mono [OF 4(4) _ order_refl] by simp
qed

text \<open>Whatever the order of the paths, the process returns some of the paths it is given.\<close>

lemma keep_loop_within:
  assumes "\<forall>p \<in> U. \<exists>k. key p = Ok k" "\<forall>n. reset n \<le> n + 1"
    and "set ps \<subseteq> U" "set removed \<subseteq> U" "n \<le> i" "j \<le> length ps" "i \<le> j"
  shows "\<exists>ps' b removed' n'. keep_loop better reset key [i..<j] (ps, best, removed, n) = Ok (ps', b, removed', n') \<and>
    set ps' \<subseteq> U \<and> set removed' \<subseteq> U \<and> n' \<le> j \<and> length ps' = length ps"
  using assms(3-7)
proof (induction "j - i" arbitrary: i ps best removed n)
  case 0
  then show ?case by simp
next
  case (Suc m)
  then have i: "i < j" "i < length ps" "ps ! i \<in> U" by auto
  then obtain k where k: "key (ps ! i) = Ok k" using assms(1) by blast
  have up: "set (ps[x := ps ! i]) \<subseteq> U" for x using set_update_subset_insert [of ps x "ps ! i"] Suc.prems(1) i(3) by blast
  have tk: "set (take n ps) \<subseteq> U" using set_take_subset [of n ps] Suc.prems(1) by blast
  have r: "reset n \<le> Suc i" using assms(2) Suc.prems(3) by (metis Suc_eq_plus1 Suc_le_mono order_trans)
  note IH = Suc.hyps(1) [of "Suc i"]
  show ?case
    using IH [of ps "removed @ [ps ! i]" n best] IH [of "ps[0 := ps ! i]" "removed @ take n ps" "reset n" k]
      IH [of "ps[n := ps ! i]" removed "Suc n" best] Suc.hyps(2) Suc.prems i up tk r
    by (simp add: upt_conv_Cons k)
qed

lemma origin_within:
  assumes "\<forall>p \<in> U. readable s pf len p" "xs \<noteq> []" "set xs \<subseteq> U" "pruned_in U p0"
  shows "\<exists>ys p1. if_many (getRoutesWithLowestOrigin s) (xs, p0) = Ok (ys, p1) \<and> ys \<noteq> [] \<and> set ys \<subseteq> set xs \<and> pruned_in U p1"
proof (cases "1 < length xs")
  case False
  then show ?thesis using assms by (simp add: if_many_def)
next
  case True
  have key: "\<forall>p \<in> set xs. \<exists>k. path_GetOrigin (path_at s p) = Ok k" using readable_keys(3) assms(1,3) by blast
  obtain ps' b removed' n' where k: "keep_loop (<) (\<lambda>n. n + 1) (\<lambda>p. path_GetOrigin (path_at s p)) [0..<length xs] (xs, BGPPathAttrOriginMax, [], 0) =
      Ok (ps', b, removed', n')" "set ps' \<subseteq> set xs" "set removed' \<subseteq> set xs" "length ps' = length xs"
    using keep_loop_within [OF key, of "\<lambda>n. n + 1" xs "[]" 0 0 "length xs" "(<)" BGPPathAttrOriginMax] by auto
  let ?ys = "if 0 < n' then take n' ps' else ps'"
  have "?ys \<noteq> []" "set ?ys \<subseteq> set xs" using k(2,4) assms(2) set_take_subset [of n' ps'] by auto
  moreover have "pruned_in U (prune removed' ByLowestOrigin p0)" using assms(3,4) k(3) by (intro pruned_in_prune) auto
  ultimately show ?thesis
    using True k(1) by (simp add: if_many_def getRoutesWithLowestOrigin_def keep_best_def del: obind_eq_Ok)
qed

lemma calculateBestPath_within:
  assumes env: "env_ok ge" and read: "\<forall>p \<in> set ps \<union> set removed. readable s pf len p" and ps: "ps \<noteq> []"
  shows "\<exists>best ecmp addPaths. calculateBestPath ge s pf ps removed ebgp ibgp cnt = Ok (best, ecmp, addPaths) \<and>
    set best \<subseteq> set ps \<and> best \<noteq> [] \<and> lists_ok (set ps) (set best) ecmp"
proof -
  let ?U = "set ps \<union> set removed" and ?b = "keep_min (as_rank s) (keep_min (pref_rank s) ps)"
  have "set ps \<subseteq> ?U" "pruned_in ?U [(removed, ByRouteSrc)]" by (auto simp: pruned_in_def)
  then obtain p1 p2 where 2: "if_many (getRoutesWithHighestPref s) (ps, [(removed, ByRouteSrc)]) = Ok (keep_min (pref_rank s) ps, p1)"
    "if_many (getRoutesWithSmallestAS s) (keep_min (pref_rank s) ps, p1) = Ok (?b, p2)"
    "pruned_in ?U p2" "?b \<noteq> []" "set ?b \<subseteq> ?U"
    using first_steps [OF read ps] by blast
  obtain c p3 where 3: "if_many (getRoutesWithLowestOrigin s) (?b, p2) = Ok (c, p3)" "c \<noteq> []" "set c \<subseteq> set ?b" "pruned_in ?U p3"
    using origin_within [OF read 2(4,5,3)] by blast
  have "set ?b \<subseteq> set ps" by (rule order_trans [OF set_keep_min set_keep_min])
  then have c: "set c \<subseteq> ?U" "set c \<subseteq> set ps" using 3(3) 2(5) by blast+
  obtain g ecmp ap where 4: "break_ties ge s pf ebgp ibgp cnt (c, p3) = Ok (g, ecmp, ap)" "mset g = mset (keep_min (tie_rank s) c)"
    "g \<noteq> []" "lists_ok (set c) (set g) ecmp"
    using break_ties_ranks [OF env read 3(2) c(1) 3(4)] by blast
  have "calculateBestPath ge s pf ps removed ebgp ibgp cnt = Ok (g, ecmp, ap)"
    by (simp add: calculateBestPath_def 2(1,2) 3(1) 4(1) del: obind_eq_Ok)
  moreover have "set g \<subseteq> set ps" unfolding mset_eq_setD [OF 4(2)] by (rule order_trans [OF set_keep_min c(2)])
  ultimately show ?thesis using 4(3) lists_ok_mono [OF 4(4) c(2) order_refl] by blast
qed

text \<open>A single path is returned as it is.\<close>

lemma calculateBestPath_single:
  assumes "env_ok ge" "0 < cnt \<Longrightarrow> \<forall>q \<in> set removed. readable s pf len q"
  shows "\<exists>addPaths. calculateBestPath ge s pf [p] removed ebgp ibgp cnt = Ok ([p], [], addPaths)"
proof -
  have "\<exists>ap. choose_add_paths ge s pf cnt [p] [(removed, ByRouteSrc)] = Ok ap"
  proof (cases "0 < cnt")
    case True
    have "pruned_in (set removed) [(removed, ByRouteSrc)]" by (simp add: pruned_in_def)
    then obtain r where "pruned_add_paths ge s pf cnt [(removed, ByRouteSrc)] ([], []) = Ok r"
      using pruned_add_paths_Ok [OF assms(1) assms(2) [OF True]] by blast
    then show ?thesis using True by (simp add: choose_add_paths_def del: pruned_add_paths.simps)
  qed (simp add: choose_add_paths_def)
  then show ?thesis
    by (auto simp: calculateBestPath_def break_ties_def if_many_def ecmp_both_def ecmp_one_def)
qed

section \<open>Properties\<close>


text \<open>C33: 
  When a path with a better origin follows two that tie, the second of the two stays in the race, and
  its lower identifier makes it the best path although its origin is worse.
\<close>

theorem worse_origin_wins:
  assumes "env_ok ge" "\<forall>p \<in> {a, b, c} \<union> set removed. readable s pf len p"
    and "pref_rank s a = pref_rank s c" "pref_rank s b = pref_rank s c" "as_rank s a = as_rank s c" "as_rank s b = as_rank s c"
    and "origin_rank s a = origin_rank s b" "origin_rank s c < origin_rank s b" "origin_rank s b < BGPPathAttrOriginMax"
    and "isEBGPRoute s b" "isEBGPRoute s c" "id_rank s b < id_rank s c"
  shows "\<exists>ecmp addPaths. calculateBestPath ge s pf [a, b, c] removed ebgp ibgp cnt = Ok ([b], ecmp, addPaths) \<and> rank s c < rank s b"
proof -
  let ?U = "{a, b, c} \<union> set removed" and ?ps = "[a, b, c]"
  have "set ?ps \<subseteq> ?U" "pruned_in ?U [(removed, ByRouteSrc)]" by (auto simp: pruned_in_def)
  moreover have "keep_min (pref_rank s) ?ps = ?ps" "keep_min (as_rank s) ?ps = ?ps" using assms(3-6) by (simp_all add: keep_min_def)
  ultimately obtain p1 p2 where 2: "if_many (getRoutesWithHighestPref s) (?ps, [(removed, ByRouteSrc)]) = Ok (?ps, p1)"
    "if_many (getRoutesWithSmallestAS s) (?ps, p1) = Ok (?ps, p2)" "pruned_in ?U p2"
    using first_steps [OF assms(2), of ?ps "[(removed, ByRouteSrc)]"] by auto
  have origins: "path_GetOrigin (path_at s p) = Ok (origin_rank s p)" if "p \<in> {a, b, c}" for p
    using readable_keys(3) assms(2) that by blast
  let ?p3 = "prune [a, b] ByLowestOrigin p2"
  have "c \<noteq> b" using assms(8) by auto
  have "\<not> BGPPathAttrOriginMax < origin_rank s b" "\<not> BGPPathAttrOriginMax < origin_rank s c" "\<not> origin_rank s b < origin_rank s c"
    using assms(8,9) by auto
  then have "if_many (getRoutesWithLowestOrigin s) (?ps, p2) = Ok ([c, b, c], ?p3)"
    using assms(7,8,9)
    by (simp add: if_many_def getRoutesWithLowestOrigin_def keep_best_def origins upt_rec numeral_eq_Suc)
  moreover have p3: "pruned_in ?U ?p3" using 2(3) by (intro pruned_in_prune) auto
  have "\<exists>g ecmp ap. break_ties ge s pf ebgp ibgp cnt ([c, b, c], ?p3) = Ok (g, ecmp, ap) \<and>
      mset g = mset (keep_min (tie_rank s) [c, b, c]) \<and> g \<noteq> [] \<and> lists_ok (set [c, b, c]) (set g) ecmp"
    by (rule break_ties_ranks [OF assms(1,2) _ _ p3]) simp_all
  then obtain g ecmp ap where 4: "break_ties ge s pf ebgp ibgp cnt ([c, b, c], ?p3) = Ok (g, ecmp, ap)"
    "mset g = mset (keep_min (tie_rank s) [c, b, c])" by blast
  have "isIBGPRoute s b = isIBGPRoute s c" using readable_keys(9) assms(2,10,11) by blast
  then have "tie_rank s b < tie_rank s c" using assms(12) by (simp add: tie_rank_def)
  then have "keep_min (tie_rank s) [c, b, c] = [b]" by (auto simp: keep_min_def)
  then have "g = [b]" using 4(2) by simp
  moreover have "rank s c < rank s b" using assms(3-8) by (simp add: rank_def)
  ultimately show ?thesis using 2 4(1) by (simp add: calculateBestPath_def del: obind_eq_Ok)
qed

section \<open>Samples\<close>

text \<open>A sort for the samples: insertion.\<close>

fun insert_by :: "(path \<Rightarrow> path \<Rightarrow> bool) \<Rightarrow> path \<Rightarrow> path list \<Rightarrow> path list" where
  "insert_by lt p [] = [p]"
| "insert_by lt p (q # qs) = (if lt q p then q # insert_by lt p qs else p # q # qs)"

definition sample_env :: go_env where
  "sample_env = \<lparr>ge_range = (\<lambda>ks. ks), ge_sort = (\<lambda>lt ps. foldr (insert_by lt) ps [])\<rparr>"

lemma sample_env_ok: "env_ok sample_env"
proof -
  have ins: "mset (insert_by lt p qs) = add_mset p (mset qs)" for lt p qs
    by (induction qs) auto
  have "mset (foldr (insert_by lt) ps []) = mset ps" for lt ps
    by (induction ps) (simp_all add: ins)
  then show ?thesis by (simp add: env_ok_def sample_env_def)
qed

text \<open>
  A router of AS 65001 and its neighbors; a path of a neighbor with an origin, the numbers of its AS
  path and a next hop that is reachable.
\<close>

definition sample_global :: GlobalConfig where
  "sample_global = \<lparr>gc_AS = 65001, gc_RouterId = [10, 0, 0, 1], gc_UseMultiplePaths = False, gc_EBGPMaxPaths = 1,
     gc_EBGPAllowMultipleAS = False, gc_IBGPMaxPaths = 1, gc_DefaultMED = 0\<rparr>"

definition sample_neighbor :: "u32 \<Rightarrow> byte \<Rightarrow> NeighborConf" where
  "sample_neighbor peerAS n =
     \<lparr>nb_Global = sample_global, nb_Group = None,
      nb_Neighbor = \<lparr>nr_NeighborAddress = [192, 0, 2, n], nr_Config = zero_NeighborConfig, nr_State = zero_NeighborState,
                     nr_LocalAddress = [], nr_AfiSafis = []\<rparr>,
      nb_RunningConf = zero_NeighborConfig\<lparr>nc_BaseConfig := zero_BaseConfig\<lparr>bc_LocalAS := 65001, bc_PeerAS := peerAS\<rparr>\<rparr>,
      nb_BGPId = [10, 0, 0, n], nb_ASSize = 4, nb_AfiSafiMap = [], nb_MaxPrefixesThreshold = 0, nb_ignoreBfdFaultsTimer = None\<rparr>"

definition sample_reach :: "string \<Rightarrow> ReachabilityInfo" where
  "sample_reach nh = NewReachabilityInfo nh 0 1 10"

definition sample_attrs :: "u8 \<Rightarrow> u32 list \<Rightarrow> ip \<Rightarrow> BGPPathAttr list" where
  "sample_attrs origin as nh =
     [BGPPathAttrOrigin \<lparr>pa_Flags = 0x40, pa_Code = 1, pa_Length = 1, pa_HdrLen = 3\<rparr> origin,
      BGPPathAttrASPath \<lparr>pa_Flags = 0x40, pa_Code = 2, pa_Length = 2 + 4 * of_nat (length as), pa_HdrLen = 3\<rparr>
        [AS4Segment \<lparr>seg_Type = 2, seg_Length = of_nat (length as), seg_TotalLen = 2 + 4 * of_nat (length as), seg_AS4 = as\<rparr>] 4,
      BGPPathAttrNextHop \<lparr>pa_Flags = 0x40, pa_Code = 3, pa_Length = 4, pa_HdrLen = 3\<rparr> nh]"

definition sample_family :: u32 where "sample_family = GetProtocolFamily AfiIP SafiUnicast"

definition sample_path :: "nbr \<Rightarrow> u8 \<Rightarrow> u32 list \<Rightarrow> ip \<Rightarrow> Path" where
  "sample_path n origin as nh =
     \<lparr>pt_NeighborConf = Some n, pt_PathAttrs = sample_attrs origin as nh, pt_Pref = 100,
      pt_nhReachabilityInfo = [(sample_family, \<lparr>nr_nextHop = nh, nr_reachabilityInfo = Some (sample_reach (ip_String nh))\<rparr>)],
      pt_routeType = RouteTypeEGP, pt_MED = 0, pt_LocalPref = 0\<rparr>"

text \<open>Three neighbors of AS 65002, with one path each: the first two are incomplete, the third is internal.\<close>

definition sample_store :: store where
  "sample_store =
     \<lparr>st_paths = [sample_path 0 2 [65002] [192, 0, 2, 3], sample_path 1 2 [65002] [192, 0, 2, 2],
                  sample_path 2 0 [65002] [192, 0, 2, 9]],
      st_neighbors = [sample_neighbor 65002 3, sample_neighbor 65002 2, sample_neighbor 65002 9]\<rparr>"

lemmas sample_defs = sample_store_def sample_path_def sample_attrs_def sample_neighbor_def sample_reach_def
  NewReachabilityInfo_def sample_family_def zero_NeighborConfig_def zero_BaseConfig_def

lemmas path_reads = path_GetNumASes_def GetNumASes_def path_GetOrigin_def GetOrigin_def GetBGPId_def path_GetNumClusters_def
  GetNumClusters_def nbr_of_def GetReachability_def getTypeFromPathAttrs_def pa_GetCode_def

lemma sample_readable: "\<forall>p \<in> {0, 1, 2}. readable sample_store sample_family 4 p"
  by (simp add: readable_def path_reads sample_defs pa_type_defs BGPPathAttrOriginMax_def BGPASPathSegmentSet_def To4_def)

lemma sample_keys:
  "p \<in> {0, 1, 2} \<Longrightarrow> pref_rank sample_store p = - 100"
  "p \<in> {0, 1, 2} \<Longrightarrow> as_rank sample_store p = 1"
  "origin_rank sample_store 0 = 2" "origin_rank sample_store 1 = 2" "origin_rank sample_store 2 = 0"
  "p \<in> {0, 1, 2} \<Longrightarrow> isEBGPRoute sample_store p"
  "id_rank sample_store 0 = 0xA000003" "id_rank sample_store 1 = 0xA000002" "id_rank sample_store 2 = 0xA000009"
  by (auto simp: pref_rank_def as_rank_def origin_rank_def id_rank_def isEBGPRoute_def IsExternal_def nb_IsExternal_def path_reads
      sample_defs pa_type_defs BGPASPathSegmentSet_def To4_def be32_def)


theorem worse_origin_wins_witness:
  "\<exists>ecmp addPaths. calculateBestPath sample_env sample_store sample_family [0, 1, 2] [] False False 1 = Ok ([1], ecmp, addPaths) \<and>
     rank sample_store 2 < rank sample_store 1"
  by (rule worse_origin_wins [OF sample_env_ok, where len = 4])
     (use sample_readable in \<open>simp_all add: sample_keys sample_keys [simplified] BGPPathAttrOriginMax_def\<close>)

end
