(* ===== verification/BgpForward.thy ===== *)
theory BgpForward
  imports BgpDestInv BgpInstall BgpDecision
begin

text \<open>
  Selecting a route keeps the bookkeeping of a destination and makes the forwarding table follow: the
  operations sent to the route manager turn the next hops that were installed for the prefix into
  those that are installed now. A create is only sent when the prefix has no next hop, an add only
  when it has one, and a removal only of a next hop that is there.
\<close>

section \<open>What selecting leaves alone\<close>

definition route_key :: "Route \<Rightarrow> path \<times> int \<times> u32" where
  "route_key r = (rt_path r, rt_routeListIdx r, rt_OutPathId r)"

definition core :: "Destination \<Rightarrow> _" where
  "core d = (ds_NLRI d, ds_protoFamily d, ds_peerPathMap d, ds_pathRouteMap d, ds_maxPathId d, ds_pathIds d,
     ds_Paths d, ds_PathInfos d, map route_key (ds_routes d))"

lemma coreD:
  assumes "core d' = core d"
  shows "ds_NLRI d' = ds_NLRI d" "ds_protoFamily d' = ds_protoFamily d" "ds_peerPathMap d' = ds_peerPathMap d"
    "ds_pathRouteMap d' = ds_pathRouteMap d" "ds_maxPathId d' = ds_maxPathId d" "ds_pathIds d' = ds_pathIds d"
    "ds_Paths d' = ds_Paths d" "ds_PathInfos d' = ds_PathInfos d" "length (ds_routes d') = length (ds_routes d)"
    "peer_paths d' = peer_paths d" "live d' = live d"
proof -
  show "ds_NLRI d' = ds_NLRI d" "ds_protoFamily d' = ds_protoFamily d" "ds_peerPathMap d' = ds_peerPathMap d"
    "ds_pathRouteMap d' = ds_pathRouteMap d" "ds_maxPathId d' = ds_maxPathId d" "ds_pathIds d' = ds_pathIds d"
    "ds_Paths d' = ds_Paths d" "ds_PathInfos d' = ds_PathInfos d"
    using assms by (simp_all add: core_def)
  have "map route_key (ds_routes d') = map route_key (ds_routes d)" using assms by (simp add: core_def)
  then show "length (ds_routes d') = length (ds_routes d)" using map_eq_imp_length_eq by blast
  show "peer_paths d' = peer_paths d" using assms by (simp add: core_def peer_paths_def getPathForIP_def)
  then show "live d' = live d" by (simp add: live_def)
qed

lemma core_route:
  assumes "core d' = core d" "r < length (ds_routes d)"
  shows "rt_path (route_at d' r) = rt_path (route_at d r)" "rt_routeListIdx (route_at d' r) = rt_routeListIdx (route_at d r)"
    "rt_OutPathId (route_at d' r) = rt_OutPathId (route_at d r)"
proof -
  have "map route_key (ds_routes d') ! r = map route_key (ds_routes d) ! r" using assms(1) by (simp add: core_def)
  then have "route_key (route_at d' r) = route_key (route_at d r)"
    using assms(2) coreD(9) [OF assms(1)] by (simp add: route_at_def)
  then show "rt_path (route_at d' r) = rt_path (route_at d r)" "rt_routeListIdx (route_at d' r) = rt_routeListIdx (route_at d r)"
    "rt_OutPathId (route_at d' r) = rt_OutPathId (route_at d r)" by (simp_all add: route_key_def)
qed

lemma core_upd:
  assumes "\<And>x. route_key (g x) = route_key x"
  shows "core (upd_route r g d) = core d"
proof (cases "r < length (ds_routes d)")
  case True
  then have "(map route_key (ds_routes d))[r := route_key (ds_routes d ! r)] = map route_key (ds_routes d)"
    by (metis list_update_id nth_map)
  then show ?thesis by (simp add: core_def upd_route_def map_update assms)
next
  case False
  then show ?thesis by (simp add: core_def upd_route_def list_update_beyond)
qed

lemma core_fields [simp]:
  "core (d\<lparr>ds_ecmpPaths := e\<rparr>) = core d" "core (d\<lparr>ds_LocRibPath := l\<rparr>) = core d" "core (d\<lparr>ds_LocRibPathRoute := l'\<rparr>) = core d"
  "core (d\<lparr>ds_AddPaths := a\<rparr>) = core d" "core (d\<lparr>ds_recalculate := b\<rparr>) = core d"
  by (simp_all add: core_def)

lemma route_at_fields [simp]:
  "route_at (d\<lparr>ds_ecmpPaths := e\<rparr>) = route_at d" "route_at (d\<lparr>ds_LocRibPath := l\<rparr>) = route_at d"
  "route_at (d\<lparr>ds_LocRibPathRoute := l'\<rparr>) = route_at d" "route_at (d\<lparr>ds_AddPaths := a\<rparr>) = route_at d"
  "route_at (d\<lparr>ds_recalculate := b\<rparr>) = route_at d"
  by (simp_all add: route_at_def [abs_def])

lemma update_fresh: "k \<notin> fst ` set xs \<Longrightarrow> AList.update k v xs = xs @ [(k, v)]"
  by (induction xs) auto

lemma dest_inv_core:
  assumes inv: "dest_inv d" and eq: "core d' = core d" and ecmp: "distinct (map fst (ds_ecmpPaths d'))"
    and installed: "\<And>p r. map_of (ds_ecmpPaths d') p = Some r \<Longrightarrow>
      (map_of (ds_ecmpPaths d) p = Some r \<or> map_of (ds_pathRouteMap d) p = Some r) \<and> rt_action (route_at d' r) = RouteActionNone"
    and best: "locrib_ok d'"
  shows "dest_inv d'"
proof -
  have rts: "r < length (ds_routes d) \<and> rt_path (route_at d r) = p"
    if "map_of (ds_pathRouteMap d) p = Some r \<or> map_of (ds_ecmpPaths d) p = Some r" for p r
    using inv that unfolding dest_inv_def routes_ok_def by blast
  have lt: "r < length (ds_routes d)" if "r \<in> set (ds_Paths d)" for r
    using that inv rts unfolding dest_inv_def listing_ok_def by blast
  have "routes_ok d'"
    unfolding routes_ok_def coreD [OF eq] using ecmp installed rts core_route(1) [OF eq] by metis
  moreover have "listing_ok d'"
    using inv core_route(2) [OF eq lt [OF nth_mem]] by (simp add: dest_inv_def listing_ok_def coreD [OF eq])
  moreover have "out_ids d' = out_ids d" using core_route(3) [OF eq lt] by (simp add: out_ids_def coreD [OF eq])
  then have "ids_ok d'" using inv by (simp add: dest_inv_def ids_ok_def coreD [OF eq])
  moreover have "peers_ok d'" using inv by (simp add: dest_inv_def peers_ok_def coreD [OF eq])
  ultimately show ?thesis using best by (simp add: dest_inv_def)
qed

section \<open>The loop over the lists\<close>

text \<open>
  \<open>d\<close> is the destination when the loop starts, \<open>D\<close> the paths of the lists done and \<open>new\<close> the paths that
  were added: an installed route is marked as replaced or still unmarked.
\<close>

definition install_inv :: "store \<Rightarrow> Destination \<Rightarrow> path set \<Rightarrow> path list \<Rightarrow> select_state \<Rightarrow> bool" where
  "install_inv s d D new st \<longleftrightarrow>
     core (ss_dest st) = core d \<and>
     ds_ecmpPaths (ss_dest st) = ds_ecmpPaths d @ map (\<lambda>p. (p, the (map_of (ds_pathRouteMap d) p))) new \<and>
     distinct (map fst (ds_ecmpPaths d) @ new) \<and> set new \<subseteq> D \<and>
     (\<forall>p \<in> set new. \<exists>r. map_of (ds_pathRouteMap d) p = Some r \<and> rt_action (route_at (ss_dest st) r) = RouteActionAdd) \<and>
     (\<forall>p r. (p, r) \<in> set (ds_ecmpPaths d) \<longrightarrow>
        rt_action (route_at (ss_dest st) r) = RouteActionNone \<or> rt_action (route_at (ss_dest st) r) = RouteActionReplace \<and> p \<in> D) \<and>
     ss_create st = filter (installs s) new \<and>
     (ss_first st \<longleftrightarrow> (\<forall>p r. (p, r) \<in> set (ds_ecmpPaths d) \<longrightarrow> rt_action (route_at (ss_dest st) r) = RouteActionNone))"

text \<open>A path is wanted when its route is marked to be kept or added.\<close>

definition wanted :: "path \<Rightarrow> select_state \<Rightarrow> bool" where
  "wanted p st \<longleftrightarrow> (\<exists>r. map_of (ds_ecmpPaths (ss_dest st)) p = Some r \<and>
     rt_action (route_at (ss_dest st) r) \<in> {RouteActionAdd, RouteActionReplace})"

definition reach_ok :: "store \<Rightarrow> Destination \<Rightarrow> path \<Rightarrow> bool" where
  "reach_ok s d p \<longleftrightarrow> (installs s p \<longrightarrow> GetReachability (path_at s p) (ds_protoFamily d) \<noteq> None)"

lemma known_route:
  assumes "routes_ok d" "map_of (ds_pathRouteMap d) p = Some r \<or> map_of (ds_ecmpPaths d) p = Some r"
  shows "r < length (ds_routes d)" "rt_path (route_at d r) = p"
  using assms unfolding routes_ok_def by blast+

lemma install_invD:
  assumes "install_inv s d D new st"
  shows "core (ss_dest st) = core d"
    "ds_ecmpPaths (ss_dest st) = ds_ecmpPaths d @ map (\<lambda>p. (p, the (map_of (ds_pathRouteMap d) p))) new"
    "distinct (map fst (ds_ecmpPaths d) @ new)" "set new \<subseteq> D"
    "p \<in> set new \<Longrightarrow> \<exists>r. map_of (ds_pathRouteMap d) p = Some r \<and> rt_action (route_at (ss_dest st) r) = RouteActionAdd"
    "(p, r) \<in> set (ds_ecmpPaths d) \<Longrightarrow>
       rt_action (route_at (ss_dest st) r) = RouteActionNone \<or> rt_action (route_at (ss_dest st) r) = RouteActionReplace \<and> p \<in> D"
    "ss_create st = filter (installs s) new"
    "ss_first st \<longleftrightarrow> (\<forall>p r. (p, r) \<in> set (ds_ecmpPaths d) \<longrightarrow> rt_action (route_at (ss_dest st) r) = RouteActionNone)"
  using assms unfolding install_inv_def by blast+

lemma install_invI:
  assumes "core (ss_dest st) = core d"
    "ds_ecmpPaths (ss_dest st) = ds_ecmpPaths d @ map (\<lambda>p. (p, the (map_of (ds_pathRouteMap d) p))) new"
    "distinct (map fst (ds_ecmpPaths d) @ new)" "set new \<subseteq> D"
    "\<And>p. p \<in> set new \<Longrightarrow> \<exists>r. map_of (ds_pathRouteMap d) p = Some r \<and> rt_action (route_at (ss_dest st) r) = RouteActionAdd"
    "\<And>p r. (p, r) \<in> set (ds_ecmpPaths d) \<Longrightarrow>
       rt_action (route_at (ss_dest st) r) = RouteActionNone \<or> rt_action (route_at (ss_dest st) r) = RouteActionReplace \<and> p \<in> D"
    "ss_create st = filter (installs s) new"
    "ss_first st \<longleftrightarrow> (\<forall>p r. (p, r) \<in> set (ds_ecmpPaths d) \<longrightarrow> rt_action (route_at (ss_dest st) r) = RouteActionNone)"
  shows "install_inv s d D new st"
  using assms unfolding install_inv_def by blast

lemma keep_installed_inv:
  assumes rts: "routes_ok d" and st: "install_inv s d D new st" and p: "(p, r) \<in> set (ds_ecmpPaths d)"
  shows "install_inv s d (insert p D) new (keep_installed s i p r st)" "wanted p (keep_installed s i p r st)"
    "wanted q st \<Longrightarrow> wanted q (keep_installed s i p r st)"
proof -
  let ?g = "\<lambda>x. let x = setAction RouteActionReplace x in if i \<noteq> 0 then ResetBestPath x else x"
  have c: "core (ss_dest st) = core d" using st by (simp add: install_inv_def)
  have ks: "route_key (?g x) = route_key x" for x by (simp add: route_key_def route_upd_defs Let_def)
  have pr: "map_of (ds_ecmpPaths d) p = Some r" using rts p by (simp add: routes_ok_def)
  then have lt: "r < length (ds_routes (ss_dest st))" using known_route(1) [OF rts, of p r] coreD(9) [OF c] by simp
  have act: "rt_action (route_at (upd_route r ?g (ss_dest st)) x) = (if x = r then RouteActionReplace else rt_action (route_at (ss_dest st) x))" for x
    using lt by (simp add: route_upd_defs Let_def)
  note act = act act [unfolded neq0_conv]
  have one: "q = p" if "map_of (ds_pathRouteMap d) q = Some r" for q
    using known_route(2) [OF rts] that pr by metis
  have "p \<in> fst ` set (ds_ecmpPaths d)" using p by force
  then have "p \<notin> set new" using install_invD(3) [OF st] by auto
  then show "install_inv s d (insert p D) new (keep_installed s i p r st)"
    unfolding keep_installed_def
  proof (intro install_invI, goal_cases)
    case (5 q)
    then obtain x where "map_of (ds_pathRouteMap d) q = Some x" "rt_action (route_at (ss_dest st) x) = RouteActionAdd"
      using install_invD(5) [OF st] by blast
    moreover from this 5 have "x \<noteq> r" using one \<open>p \<notin> set new\<close> by blast
    ultimately show ?case by (simp add: act)
  next
    case (6 q x)
    have "q = p" if "x = r"
      using 6 that pr rts known_route(2) [OF rts, of q x] known_route(2) [OF rts, of p r] by (simp add: routes_ok_def)
    then show ?case using 6 install_invD(6) [OF st, of q x] by (auto simp: act)
  next
    case 8
    then show ?case using p by (simp add: act) blast
  qed (use install_invD [OF st] in \<open>auto simp: core_upd [OF ks] core_upd [OF ks, unfolded neq0_conv]\<close>)
  show "wanted p (keep_installed s i p r st)"
    using st pr by (simp add: wanted_def keep_installed_def act install_inv_def)
  show "wanted q st \<Longrightarrow> wanted q (keep_installed s i p r st)"
    by (auto simp: wanted_def keep_installed_def act)
qed

lemma add_route_inv:
  assumes rts: "routes_ok d" and st: "install_inv s d D new st" and p: "p \<notin> D" "p \<notin> fst ` set (ds_ecmpPaths d)"
    and r: "map_of (ds_pathRouteMap d) p = Some r" and ok: "reach_ok s d p" "netmask_of d ipLength = Ok mk"
  shows "\<exists>st'. add_route s ipLength i p st = Ok st' \<and> install_inv s d (insert p D) (new @ [p]) st' \<and> wanted p st' \<and>
    (\<forall>q. wanted q st \<longrightarrow> wanted q st')"
proof -
  let ?g = "\<lambda>x. let x = SetMultiPath (setAction RouteActionAdd x) in if i = 0 then SetBestPath x else x" and ?d = "ss_dest st"
  have c: "core ?d = core d" using st by (simp add: install_inv_def)
  have ks: "route_key (?g x) = route_key x" for x by (simp add: route_key_def route_upd_defs Let_def)
  have lt: "r < length (ds_routes ?d)" using known_route(1) [OF rts, of p r] r coreD(9) [OF c] by simp
  have act: "rt_action (route_at (upd_route r ?g ?d) x) = (if x = r then RouteActionAdd else rt_action (route_at ?d x))" for x
    using lt by (simp add: route_upd_defs Let_def)
  have new: "p \<notin> set new" "p \<notin> fst ` set (ds_ecmpPaths ?d)"
    using st p by (auto simp: install_inv_def image_iff)
  have upd: "AList.update p r (ds_ecmpPaths ?d) = ds_ecmpPaths ?d @ [(p, r)]"
    by (rule update_fresh) (rule new(2))
  have mk: "netmask_of ?d ipLength = Ok mk" using ok(2) by (simp add: netmask_of_def coreD [OF c])
  have nh: "installs s p \<Longrightarrow> \<exists>nh. next_hop_of s (ds_protoFamily ?d) p = Ok nh"
    using ok(1) by (auto simp: reach_ok_def next_hop_of_def coreD [OF c])
  let ?st = "st\<lparr>ss_dest := (upd_route r ?g ?d)\<lparr>ds_ecmpPaths := ds_ecmpPaths ?d @ [(p, r)]\<rparr>,
      ss_action := (if i = 0 then RouteActionAdd else ss_action st), ss_added := ss_added st @ [r],
      ss_create := (if installs s p then ss_create st @ [p] else ss_create st)\<rparr>"
  have "add_route s ipLength i p st = Ok ?st"
    using r nh mk by (cases "installs s p") (auto simp: add_route_def Let_def coreD [OF c] upd)
  moreover have "install_inv s d (insert p D) (new @ [p]) ?st"
  proof -
    have only: "q = p" if "map_of (ds_pathRouteMap d) q = Some r" for q
      using known_route(2) [OF rts] that r by metis
    have none: "(q, r) \<notin> set (ds_ecmpPaths d)" for q
    proof
      assume "(q, r) \<in> set (ds_ecmpPaths d)"
      moreover from this have "map_of (ds_ecmpPaths d) q = Some r" using rts by (simp add: routes_ok_def)
      ultimately show False using p(2) known_route(2) [OF rts] r by (metis fst_conv image_eqI)
    qed
    note only = only none
    show ?thesis
    proof (rule install_invI, goal_cases)
      case (5 q)
      show ?case
      proof (cases "q = p")
        case True
        then show ?thesis using r by (simp add: act)
      next
        case False
        then obtain x where x: "map_of (ds_pathRouteMap d) q = Some x" "rt_action (route_at ?d x) = RouteActionAdd"
          using 5 install_invD(5) [OF st, of q] by auto
        then have "x \<noteq> r" using only(1) False by blast
        then show ?thesis using x by (simp add: act)
      qed
    next
      case (6 q x)
      then show ?case using install_invD(6) [OF st, of q x] only(2) by (auto simp: act)
    next
      case 8
      have "rt_action (route_at (upd_route r ?g ?d) x) = rt_action (route_at ?d x)" if "(q, x) \<in> set (ds_ecmpPaths d)" for q x
        using that only(2) by (auto simp: act)
      then show ?case using install_invD(8) [OF st] by simp
    qed (use install_invD [OF st] p new(1) r in \<open>auto simp: core_upd [OF ks] c\<close>)
  qed
  moreover have none: "map_of (ds_ecmpPaths ?d) p = None" using new(2) by (simp add: map_of_eq_None_iff)
  then have "wanted p ?st" by (simp add: wanted_def act map_add_def)
  moreover have "wanted q ?st" if w: "wanted q st" for q
  proof -
    obtain x where x: "map_of (ds_ecmpPaths ?d) q = Some x" "rt_action (route_at ?d x) \<in> {RouteActionAdd, RouteActionReplace}"
      using w unfolding wanted_def by blast
    then have "q \<noteq> p" using none by auto
    then show ?thesis using x by (auto simp: wanted_def act map_add_def)
  qed
  ultimately show ?thesis by blast
qed

lemma find_SomeD: "find P xs = Some x \<Longrightarrow> P x \<and> x \<in> set xs"
  by (induction xs) (auto split: if_splits)

text \<open>One list: a path of it that is installed is kept, or its first path is added.\<close>

lemma install_list_inv:
  assumes rts: "routes_ok d" and st: "install_inv s d D new st" and paths: "paths \<noteq> []" "set paths \<inter> D = {}"
    and ok: "\<forall>p \<in> set paths. reach_ok s d p" "netmask_of d ipLength = Ok mk"
  shows "\<exists>st' new'. install_list s ipLength (i, paths) st = Ok st' \<and> install_inv s d (D \<union> set paths) new' st' \<and>
    (\<forall>q. wanted q st \<longrightarrow> wanted q st') \<and> set new' \<subseteq> set new \<union> set paths \<and>
    (i = 0 \<and> map_of (ds_pathRouteMap d) (hd paths) \<noteq> None \<longrightarrow> wanted (hd paths) st')"
proof -
  note eq = install_invD(2) [OF st]
  have mono: "install_inv s d (D \<union> set paths) new st'" if "install_inv s d D' new st'" "D' \<subseteq> D \<union> set paths" for D' new st'
    using that unfolding install_inv_def by blast
  have here: "map_of (ds_ecmpPaths (ss_dest st)) p = map_of (ds_ecmpPaths d) p" if "p \<in> set paths" for p
  proof -
    have "p \<notin> set new" using that paths(2) install_invD(4) [OF st] by blast
    then have "map_of (map (\<lambda>p. (p, the (map_of (ds_pathRouteMap d) p))) new) p = None"
      by (simp add: map_of_eq_None_iff image_image)
    then show ?thesis by (simp add: eq map_add_def split: option.split)
  qed
  let ?seen = "if i = 0 then take 1 paths else paths"
  have seen: "set ?seen \<subseteq> set paths" by (simp add: set_take_subset)
  show ?thesis
  proof (cases "installed_path (ss_dest st) i paths")
    case (Some p)
    then have p: "map_of (ds_ecmpPaths (ss_dest st)) p \<noteq> None" "p \<in> set ?seen"
      using find_SomeD [OF Some [unfolded installed_path_def]] by blast+
    then obtain r where r: "map_of (ds_ecmpPaths d) p = Some r" using here seen by auto
    then have "(p, r) \<in> set (ds_ecmpPaths d)" by (rule map_of_SomeD)
    note kept = keep_installed_inv [OF rts st this]
    have "i = 0 \<Longrightarrow> p = hd paths" using p(2) paths(1) by (cases paths) auto
    moreover have "install_list s ipLength (i, paths) st = Ok (keep_installed s i p r st)"
      using Some here seen p(2) r by (auto simp: install_list_def)
    ultimately show ?thesis using kept mono [OF kept(1)] subsetD [OF seen p(2)] by (intro exI [of _ "keep_installed s i p r st"] exI [of _ new]) auto
  next
    case None
    let ?p = "hd paths"
    have hd: "?p \<in> set paths" using paths(1) by simp
    have out: "?p \<notin> fst ` set (ds_ecmpPaths d)"
    proof -
      have "?p \<in> set ?seen" using paths(1) by (cases paths) auto
      then have "map_of (ds_ecmpPaths (ss_dest st)) ?p = None"
        using None by (auto simp: installed_path_def find_None_iff)
      then show ?thesis using here [OF hd] by (simp add: map_of_eq_None_iff)
    qed
    have il: "install_list s ipLength (i, paths) st = add_route s ipLength i ?p st"
      using None paths(1) by (simp add: install_list_def hd_conv_nth)
    show ?thesis
    proof (cases "map_of (ds_pathRouteMap d) ?p")
      case None
      then have "add_route s ipLength i ?p st = Ok st"
        by (simp add: add_route_def coreD(4) [OF install_invD(1) [OF st]])
      then show ?thesis using il None mono [OF st] by (intro exI [of _ st] exI [of _ new]) auto
    next
      case (Some r)
      have "?p \<notin> D" using hd paths(2) by blast
      then obtain st' where "add_route s ipLength i ?p st = Ok st'" "install_inv s d (insert ?p D) (new @ [?p]) st'"
        "wanted ?p st'" "\<forall>q. wanted q st \<longrightarrow> wanted q st'"
        using add_route_inv [OF rts st _ out Some _ ok(2)] ok(1) hd by blast
      then show ?thesis using il hd mono [of "insert ?p D"] by (intro exI [of _ st'] exI [of _ "new @ [?p]"]) auto
    qed
  qed
qed

lemma install_lists_inv:
  assumes rts: "routes_ok d" and ok: "netmask_of d ipLength = Ok mk"
    and "install_inv s d D new st" "sorted_wrt (\<lambda>a b. set a \<inter> set b = {}) (map snd xs)"
    "\<forall>l \<in> set (map snd xs). l \<noteq> [] \<and> set l \<inter> D = {} \<and> (\<forall>p \<in> set l. reach_ok s d p)"
  shows "\<exists>st' new'. install_lists s ipLength xs st = Ok st' \<and> install_inv s d (D \<union> \<Union> (set ` set (map snd xs))) new' st' \<and>
    (\<forall>q. wanted q st \<longrightarrow> wanted q st') \<and> set new' \<subseteq> set new \<union> \<Union> (set ` set (map snd xs))"
  using assms(3-5)
proof (induction xs arbitrary: D new st)
  case Nil
  then show ?case by auto
next
  case (Cons x xs)
  obtain i l where x: "x = (i, l)" by (cases x)
  obtain st1 new1 where 1: "install_list s ipLength (i, l) st = Ok st1" "install_inv s d (D \<union> set l) new1 st1"
    "\<forall>q. wanted q st \<longrightarrow> wanted q st1" "set new1 \<subseteq> set new \<union> set l"
    using install_list_inv [OF rts Cons.prems(1), of l ipLength mk i] Cons.prems(3) ok by (auto simp: x)
  have "\<forall>k \<in> set (map snd xs). k \<noteq> [] \<and> set k \<inter> (D \<union> set l) = {} \<and> (\<forall>p \<in> set k. reach_ok s d p)"
    using Cons.prems(2,3) by (fastforce simp: x)
  then obtain st2 new2 where 2: "install_lists s ipLength xs st1 = Ok st2"
    "install_inv s d (D \<union> set l \<union> \<Union> (set ` set (map snd xs))) new2 st2" "\<forall>q. wanted q st1 \<longrightarrow> wanted q st2"
    "set new2 \<subseteq> set new1 \<union> \<Union> (set ` set (map snd xs))"
    using Cons.IH [OF 1(2)] Cons.prems(2) by auto
  have "D \<union> \<Union> (set ` set (map snd (x # xs))) = D \<union> set l \<union> \<Union> (set ` set (map snd xs))" by (auto simp: x)
  then show ?case using 1 2 by (intro exI [of _ st2] exI [of _ new2]) (auto simp: x)
qed

section \<open>The best path and its lists\<close>

lemma removeAndPrepend_ok:
  assumes "lists_ok U V ls" "item \<in> V" "V \<subseteq> U"
  shows "\<exists>l rest. removeAndPrepend ls item = (item # l) # rest \<and> lists_ok U {} ((item # l) # rest) \<and> (ls = [] \<longrightarrow> l = [] \<and> rest = [])"
proof (cases "ls = []")
  case True
  then show ?thesis using assms by (auto simp: removeAndPrepend_def lists_ok_def)
next
  case False
  then obtain l where "l \<in> set ls" "item \<in> set l" using assms by (auto simp: lists_ok_def)
  then have "\<exists>i. find (\<lambda>i. item \<in> set (ls ! i)) [0..<length ls] = Some i"
    by (auto simp: find_None_iff in_set_conv_nth simp flip: not_None_eq)
  then obtain i where f: "find (\<lambda>i. item \<in> set (ls ! i)) [0..<length ls] = Some i" by blast
  then have i: "i < length ls" "item \<in> set (ls ! i)" using find_SomeD by fastforce+
  have "set (ls ! i) \<subseteq> U" using assms(1) nth_mem [OF i(1)] by (auto simp: lists_ok_def)
  have ls: "ls = take i ls @ ls ! i # drop (Suc i) ls" using i(1) by (rule id_take_nth_drop)
  have "set (item # remove1 item (ls ! i)) \<subseteq> set (ls ! i)" using i(2) by (simp add: set_remove1_subset)
  moreover have "sorted_wrt (\<lambda>a b. set a \<inter> set b = {}) (take i ls @ ls ! i # drop (Suc i) ls)"
    using assms(1) by (simp add: lists_ok_def flip: ls)
  ultimately have "sorted_wrt (\<lambda>a b. set a \<inter> set b = {}) ((item # remove1 item (ls ! i)) # take i ls @ drop (Suc i) ls)"
    by (auto simp: sorted_wrt_append dest: in_set_takeD)
  moreover have "\<forall>l \<in> set ((item # remove1 item (ls ! i)) # take i ls @ drop (Suc i) ls). l \<noteq> [] \<and> set l \<subseteq> U"
    using assms(1) i order_trans [OF set_remove1_subset \<open>set (ls ! i) \<subseteq> U\<close>]
    by (auto simp: lists_ok_def dest!: in_set_takeD in_set_dropD)
  ultimately show ?thesis using f False by (auto simp: removeAndPrepend_def lists_ok_def)
qed

lemma mark_add_paths_same:
  assumes "\<And>x. route_key (g x) = route_key x" "\<And>x. rt_action (g x) = rt_action x"
  shows "core (mark_add_paths g ps d) = core d \<and> ds_ecmpPaths (mark_add_paths g ps d) = ds_ecmpPaths d \<and>
    ds_LocRibPath (mark_add_paths g ps d) = ds_LocRibPath d \<and>
    rt_action (route_at (mark_add_paths g ps d) r) = rt_action (route_at d r)"
proof (induction ps arbitrary: d)
  case Nil
  then show ?case by (simp add: mark_add_paths_def)
next
  case (Cons p ps)
  let ?d = "case map_of (ds_pathRouteMap d) p of Some r \<Rightarrow> upd_route r g d | None \<Rightarrow> d"
  have "rt_action (route_at (upd_route x g d) r) = rt_action (route_at d r)" for x
    by (cases "x < length (ds_routes d)") (simp_all add: assms(2) route_at_def upd_route_def list_update_beyond nth_list_update)
  then have "core ?d = core d \<and> ds_ecmpPaths ?d = ds_ecmpPaths d \<and> ds_LocRibPath ?d = ds_LocRibPath d \<and>
      rt_action (route_at ?d r) = rt_action (route_at d r)"
    by (simp add: core_upd [OF assms(1)] split: option.split)
  then show ?case using Cons.IH [of ?d] by (simp add: mark_add_paths_def)
qed

lemma updateAddPaths_same:
  assumes "updateAddPaths ps d = (d', b)"
  shows "core d' = core d" "ds_ecmpPaths d' = ds_ecmpPaths d" "ds_LocRibPath d' = ds_LocRibPath d"
    "rt_action (route_at d' r) = rt_action (route_at d r)"
proof -
  have s: "route_key (SetAdditionalPath x) = route_key x" "rt_action (SetAdditionalPath x) = rt_action x"
    "route_key (ResetAdditionalPath x) = route_key x" "rt_action (ResetAdditionalPath x) = rt_action x" for x
    by (simp_all add: route_key_def route_upd_defs)
  show "core d' = core d" "ds_ecmpPaths d' = ds_ecmpPaths d" "ds_LocRibPath d' = ds_LocRibPath d"
    "rt_action (route_at d' r) = rt_action (route_at d r)"
    using assms mark_add_paths_same [OF s(1,2)] mark_add_paths_same [OF s(3,4)] by (auto simp: updateAddPaths_def split: if_splits)
qed

lemma install_inv_same:
  assumes "core d' = core d" "ds_ecmpPaths d' = ds_ecmpPaths d" "install_inv s d' D new st"
  shows "install_inv s d D new st"
  using assms(3) unfolding install_inv_def assms(1,2) coreD(4) [OF assms(1)] .

lemma install_inv_start:
  assumes "routes_ok d"
  shows "install_inv s d {} [] \<lparr>ss_dest = d, ss_action = a, ss_first = True, ss_added = [], ss_updated = [], ss_create = []\<rparr>"
  using assms by (auto simp: install_inv_def routes_ok_def)

lemma routes_ok_same:
  assumes "routes_ok d" "core d' = core d" "ds_ecmpPaths d' = ds_ecmpPaths d"
    "\<And>r. rt_action (route_at d' r) = rt_action (route_at d r)"
  shows "routes_ok d'"
  using assms(1) known_route(1) [OF assms(1)] core_route(1) [OF assms(2)]
  unfolding routes_ok_def assms(3,4) coreD [OF assms(2)] by metis

lemma install_paths_ok:
  assumes rts: "routes_ok d" and ok: "netmask_of d ipLength = Ok mk" "\<forall>p \<in> U. reach_ok s d p"
    and ls: "lists_ok U (set ps) ecmp" "ps \<noteq> []" "set ps \<subseteq> U"
  shows "\<exists>st new b D. install_paths s ipLength (ps, ecmp, addPaths) d = Ok (st, b) \<and> install_inv s d D new st \<and> D \<subseteq> U \<and>
    ds_LocRibPath (ss_dest st) = Some (hd ps) \<and> (ecmp = [] \<longrightarrow> D \<subseteq> {hd ps}) \<and>
    ds_LocRibPathRoute (ss_dest st) = map_of (ds_ecmpPaths (ss_dest st)) (hd ps) \<and>
    (map_of (ds_pathRouteMap d) (hd ps) \<noteq> None \<longrightarrow> wanted (hd ps) st)"
proof -
  obtain d1 b where u: "updateAddPaths addPaths d = (d1, b)" by (metis surj_pair)
  note same = updateAddPaths_same [OF u]
  have rts1: "routes_ok d1" by (rule routes_ok_same [OF rts same(1,2,4)])
  have ok1: "netmask_of d1 ipLength = Ok mk" "reach_ok s d1 p = reach_ok s d p" for p
    using ok(1) by (simp_all add: netmask_of_def reach_ok_def coreD [OF same(1)])
  obtain l rest where lists: "removeAndPrepend ecmp (hd ps) = (hd ps # l) # rest" "lists_ok U {} ((hd ps # l) # rest)"
    "ecmp = [] \<longrightarrow> l = [] \<and> rest = []"
    using removeAndPrepend_ok [OF ls(1), of "hd ps"] ls(2,3) by auto
  let ?st0 = "\<lparr>ss_dest = d1, ss_action = RouteActionNone, ss_first = True, ss_added = [], ss_updated = [], ss_create = []\<rparr>"
  have rch: "\<forall>p \<in> set (hd ps # l). reach_ok s d1 p" using lists(2) ok(2) by (auto simp: lists_ok_def ok1(2))
  obtain st1 new1 where 1: "install_list s ipLength (0, hd ps # l) ?st0 = Ok st1" "install_inv s d1 (set (hd ps # l)) new1 st1"
    "map_of (ds_pathRouteMap d1) (hd ps) \<noteq> None \<longrightarrow> wanted (hd ps) st1"
    using install_list_inv [OF rts1 install_inv_start [OF rts1], of "hd ps # l" s ipLength mk 0 RouteActionNone, OF _ _ rch ok1(1)]
    by auto
  let ?xs = "zip [1..<Suc (length rest)] rest"
  have snd: "map snd ?xs = rest" by (rule map_snd_zip) (simp only: length_upt diff_Suc_1)
  have "\<forall>k \<in> set rest. k \<noteq> [] \<and> set k \<inter> set (hd ps # l) = {} \<and> (\<forall>p \<in> set k. reach_ok s d1 p)"
  proof
    fix k assume k: "k \<in> set rest"
    then have "set k \<subseteq> U" "k \<noteq> []" "set k \<inter> set (hd ps # l) = {}" using lists(2) by (auto simp: lists_ok_def)
    then show "k \<noteq> [] \<and> set k \<inter> set (hd ps # l) = {} \<and> (\<forall>p \<in> set k. reach_ok s d1 p)"
      using ok(2) ok1(2) by blast
  qed
  then obtain st2 new2 where 2: "install_lists s ipLength ?xs st1 = Ok st2"
    "install_inv s d1 (set (hd ps # l) \<union> \<Union> (set ` set rest)) new2 st2" "\<forall>q. wanted q st1 \<longrightarrow> wanted q st2"
    using install_lists_inv [OF rts1 ok1(1) 1(2), of ?xs] lists(2) unfolding snd by (auto simp: lists_ok_def)
  let ?D = "set (hd ps # l) \<union> \<Union> (set ` set rest)"
  let ?d = "(ss_dest st2)\<lparr>ds_LocRibPath := Some (hd ps), ds_LocRibPathRoute := map_of (ds_ecmpPaths (ss_dest st2)) (hd ps)\<rparr>"
  have "zip [0..<length ((hd ps # l) # rest)] ((hd ps # l) # rest) = (0, hd ps # l) # ?xs"
    by (simp add: upt_conv_Cons del: upt_Suc)
  then have "install_paths s ipLength (ps, ecmp, addPaths) d = Ok (st2\<lparr>ss_dest := ?d\<rparr>, b)"
    using ls(2) 1(1) 2(1) by (simp add: install_paths_def u idx_def hd_conv_nth [symmetric] lists(1) Let_def del: upt_Suc)
  moreover have "install_inv s d ?D new2 (st2\<lparr>ss_dest := ?d\<rparr>)"
    using install_inv_same [OF same(1,2) 2(2)] by (simp add: install_inv_def)
  moreover have "?D \<subseteq> U" using lists(2) by (auto simp: lists_ok_def)
  moreover have "wanted q (st2\<lparr>ss_dest := ?d\<rparr>) = wanted q st2" for q by (simp add: wanted_def)
  ultimately show ?thesis
    using 1(3) 2(3) lists(3) by (intro exI [of _ "st2\<lparr>ss_dest := ?d\<rparr>"] exI [of _ new2] exI [of _ b] exI [of _ ?D])
      (auto simp: coreD [OF same(1)])
qed

section \<open>The forwarding table\<close>

text \<open>The next hops of the prefix in the forwarding table, and what the operations do to them.\<close>

fun apply_ops :: "route_op list \<Rightarrow> RouteConfig multiset \<Rightarrow> RouteConfig multiset option" where
  "apply_ops [] M = Some M"
| "apply_ops (CreateRoute c # ops) M = (if M = {#} then apply_ops ops {#c#} else None)"
| "apply_ops (AddNextHop c # ops) M = (if M = {#} then None else apply_ops ops (add_mset c M))"
| "apply_ops (RemoveNextHop c # ops) M = (if c \<in># M then apply_ops ops (M - {#c#}) else None)"

definition route_cfg :: "store \<Rightarrow> Destination \<Rightarrow> path \<Rightarrow> RouteConfig" where
  "route_cfg s d p = the_Ok (ConstructRouteConfig s d p (the (GetReachability (path_at s p) (ds_protoFamily d)))
     (GetAddressLengthForFamily (ds_protoFamily d)))"

definition next_hops :: "store \<Rightarrow> Destination \<Rightarrow> RouteConfig multiset" where
  "next_hops s d = mset (map (route_cfg s d) (filter (installs s) (map fst (ds_ecmpPaths d))))"

lemma route_cfg_core:
  assumes "core d' = core d"
  shows "route_cfg s d' = route_cfg s d"
  by (simp add: route_cfg_def [abs_def] ConstructRouteConfig_def netmask_of_def coreD [OF assms])

lemma route_cfg_Ok:
  assumes "netmask_of d (GetAddressLengthForFamily (ds_protoFamily d)) = Ok mk"
    "GetReachability (path_at s p) (ds_protoFamily d) = Some info"
  shows "ConstructRouteConfig s d p info (GetAddressLengthForFamily (ds_protoFamily d)) = Ok (route_cfg s d p)"
  using assms by (simp add: route_cfg_def ConstructRouteConfig_def)

lemma apply_removes:
  "apply_ops (map RemoveNextHop cs @ ops) (M + mset cs) = apply_ops ops M"
  by (induction cs arbitrary: M) (simp_all add: union_mset_add_mset_right)

lemma apply_adds: "M \<noteq> {#} \<Longrightarrow> apply_ops (map AddNextHop cs) M = Some (M + mset cs)"
  by (induction cs arbitrary: M) simp_all

definition gone :: "Destination \<Rightarrow> (path \<times> route) list \<Rightarrow> (path \<times> route) list" where
  "gone d L = filter (\<lambda>(p, r). rt_action (route_at d r) \<in> {RouteActionNone, RouteActionDelete}) L"

lemma gone_cong: "(\<And>p r. (p, r) \<in> set L \<Longrightarrow> rt_action (route_at d' r) = rt_action (route_at d r)) \<Longrightarrow> gone d' L = gone d L"
  by (auto simp: gone_def intro!: filter_cong)

lemma sweep_routes_spec:
  fixes d :: Destination
  defines "len \<equiv> GetAddressLengthForFamily (ds_protoFamily d)"
  assumes "netmask_of d len = Ok mk" "distinct (map fst L)" "distinct (map snd L)"
    "\<forall>(p, r) \<in> set L. r < length (ds_routes d) \<and> reach_ok s d p"
  shows "\<exists>d' del. sweep_routes s len L (d, ops, del0) =
      Ok (d', ops @ map (\<lambda>p. RemoveNextHop (route_cfg s d p)) (filter (installs s) (map fst (gone d L))), del) \<and>
    core d' = core d \<and> ds_LocRibPath d' = ds_LocRibPath d \<and> ds_LocRibPathRoute d' = ds_LocRibPathRoute d \<and>
    ds_recalculate d' = ds_recalculate d \<and>
    ds_ecmpPaths d' = filter (\<lambda>(p, r). p \<notin> fst ` set (gone d L)) (ds_ecmpPaths d) \<and>
    (\<forall>(p, r) \<in> set L - set (gone d L). rt_action (route_at d' r) = RouteActionNone) \<and>
    (\<forall>r. r \<notin> snd ` set L \<longrightarrow> rt_action (route_at d' r) = rt_action (route_at d r))"
  using assms(2-5) unfolding len_def
proof (induction L arbitrary: d ops del0)
  case Nil
  then show ?case by (simp add: gone_def)
next
  case (Cons x L)
  obtain p r where x: "x = (p, r)" by (cases x)
  let ?len = "GetAddressLengthForFamily (ds_protoFamily d)"
  have lt: "r < length (ds_routes d)" and reach: "reach_ok s d p" using Cons.prems(4) by (simp_all add: x)
  have rest: "distinct (map fst L)" "distinct (map snd L)" "r \<notin> snd ` set L" "p \<notin> fst ` set L"
    using Cons.prems(2,3) by (simp_all add: x)
  define out where "out \<longleftrightarrow> rt_action (route_at d r) \<in> {RouteActionNone, RouteActionDelete}"
  define d1 where "d1 = (if out then (upd_route r (\<lambda>x. ResetMultiPath (ResetBestPath x)) d)\<lparr>ds_ecmpPaths := AList.delete p (ds_ecmpPaths d)\<rparr>
    else upd_route r (setAction RouteActionNone) d)"
  define op where "op = (if out \<and> installs s p then [RemoveNextHop (route_cfg s d p)] else [])"
  have step: "sweep_route s ?len (p, r) (d, ops, del0) = Ok (d1, ops @ op, if out then del0 @ [r] else del0)"
    using reach route_cfg_Ok [OF Cons.prems(1)]
    by (auto simp: sweep_route_def out_def d1_def op_def reach_ok_def split: option.split)
  have c: "core d1 = core d"
    by (auto simp: d1_def core_upd route_key_def route_upd_defs)
  have act: "rt_action (route_at d1 y) = (if y = r \<and> \<not> out then RouteActionNone else rt_action (route_at d y))" for y
    using lt by (simp add: d1_def route_upd_defs)
  have keep: "gone d1 L = gone d L" by (rule gone_cong) (use rest(3) in \<open>force simp: act\<close>)
  have "netmask_of d1 ?len = Ok mk" "\<forall>(p, r) \<in> set L. r < length (ds_routes d1) \<and> reach_ok s d1 p"
    using Cons.prems(1,4) by (auto simp: netmask_of_def reach_ok_def coreD [OF c])
  from Cons.IH [of d1, unfolded coreD(2) [OF c], OF this(1) rest(1,2) this(2), of "ops @ op" "if out then del0 @ [r] else del0"]
  obtain d2 del where 2: "sweep_routes s ?len L (d1, ops @ op, if out then del0 @ [r] else del0) =
      Ok (d2, (ops @ op) @ map (\<lambda>p. RemoveNextHop (route_cfg s d1 p)) (filter (installs s) (map fst (gone d1 L))), del)"
    "core d2 = core d1" "ds_LocRibPath d2 = ds_LocRibPath d1" "ds_LocRibPathRoute d2 = ds_LocRibPathRoute d1"
    "ds_recalculate d2 = ds_recalculate d1"
    "ds_ecmpPaths d2 = filter (\<lambda>(p, r). p \<notin> fst ` set (gone d1 L)) (ds_ecmpPaths d1)"
    "\<forall>(p, r) \<in> set L - set (gone d1 L). rt_action (route_at d2 r) = RouteActionNone"
    "\<forall>r. r \<notin> snd ` set L \<longrightarrow> rt_action (route_at d2 r) = rt_action (route_at d1 r)"
    by blast
  have g: "gone d ((p, r) # L) = (if out then (p, r) # gone d L else gone d L)" by (simp add: gone_def out_def)
  have "sweep_routes s ?len (x # L) (d, ops, del0) = sweep_routes s ?len L (d1, ops @ op, if out then del0 @ [r] else del0)"
    by (simp add: x step del: obind_eq_Ok)
  moreover have "(ops @ op) @ map (\<lambda>p. RemoveNextHop (route_cfg s d1 p)) (filter (installs s) (map fst (gone d1 L))) =
      ops @ map (\<lambda>p. RemoveNextHop (route_cfg s d p)) (filter (installs s) (map fst (gone d (x # L))))"
    by (simp add: x g keep route_cfg_core [OF c] op_def)
  ultimately have "sweep_routes s ?len (x # L) (d, ops, del0) =
      Ok (d2, ops @ map (\<lambda>p. RemoveNextHop (route_cfg s d p)) (filter (installs s) (map fst (gone d (x # L)))), del)"
    using 2(1) by simp
  moreover have "ds_ecmpPaths d2 = filter (\<lambda>(q, y). q \<notin> fst ` set (gone d (x # L))) (ds_ecmpPaths d)"
    unfolding 2(6) x g keep by (auto simp: d1_def AList.delete_eq intro!: filter_cong)
  moreover have "\<forall>(q, y) \<in> set (x # L) - set (gone d (x # L)). rt_action (route_at d2 y) = RouteActionNone"
    using 2(7,8) rest(3) unfolding x g keep by (auto simp: act out_def)
  moreover have "\<forall>y. y \<notin> snd ` set (x # L) \<longrightarrow> rt_action (route_at d2 y) = rt_action (route_at d y)"
    using 2(8) by (auto simp: x act)
  moreover have "ds_LocRibPath d1 = ds_LocRibPath d" "ds_LocRibPathRoute d1 = ds_LocRibPathRoute d"
    "ds_recalculate d1 = ds_recalculate d" by (simp_all add: d1_def)
  ultimately show ?case using 2(2-5) c by (intro exI [of _ d2] exI [of _ del]) (simp del: sweep_routes.simps)
qed

lemma create_routes_Ok:
  assumes "netmask_of d (GetAddressLengthForFamily (ds_protoFamily d)) = Ok mk"
    "\<forall>p \<in> set ps. GetReachability (path_at s p) (ds_protoFamily d) \<noteq> None"
  shows "\<exists>ops. create_routes s d (GetAddressLengthForFamily (ds_protoFamily d)) first ps = Ok ops \<and>
    (\<forall>M. (if first then M = {#} else ps = [] \<or> M \<noteq> {#}) \<longrightarrow> apply_ops ops M = Some (M + mset (map (route_cfg s d) ps)))"
  using assms(2)
proof (induction ps arbitrary: first)
  case (Cons p ps)
  then obtain info where info: "GetReachability (path_at s p) (ds_protoFamily d) = Some info" by auto
  obtain ops where ops: "create_routes s d (GetAddressLengthForFamily (ds_protoFamily d)) False ps = Ok ops"
    "\<forall>M. ps = [] \<or> M \<noteq> {#} \<longrightarrow> apply_ops ops M = Some (M + mset (map (route_cfg s d) ps))"
    using Cons.IH [of False] Cons.prems by auto
  then show ?case using info route_cfg_Ok [OF assms(1) info] by auto
qed simp

text \<open>The end of a selection, from the state the loop leaves.\<close>

lemma finish_ok:
  fixes d :: Destination
  defines "len \<equiv> GetAddressLengthForFamily (ds_protoFamily d)"
  assumes rts: "routes_ok d" and st: "install_inv s d D new st" and mk: "netmask_of d len = Ok mk"
    and reach: "\<forall>p \<in> fst ` set (ds_ecmpPaths d) \<union> D. reach_ok s d p"
    and one: "(\<forall>p \<in> D. installs s p) \<or> D \<subseteq> {b}"
  shows "\<exists>d' ops del crt. sweep_routes s len (ds_ecmpPaths (ss_dest st)) (ss_dest st, [], []) = Ok (d', ops, del) \<and>
    create_routes s d' len (ss_first st) (ss_create st) = Ok crt \<and> core d' = core d \<and>
    ds_LocRibPath d' = ds_LocRibPath (ss_dest st) \<and> ds_LocRibPathRoute d' = ds_LocRibPathRoute (ss_dest st) \<and>
    ds_recalculate d' = ds_recalculate (ss_dest st) \<and>
    distinct (map fst (ds_ecmpPaths d')) \<and>
    (\<forall>p r. map_of (ds_ecmpPaths d') p = Some r \<longrightarrow>
       p \<in> D \<and> map_of (ds_ecmpPaths (ss_dest st)) p = Some r \<and> rt_action (route_at d' r) = RouteActionNone) \<and>
    (\<forall>p. wanted p st \<longrightarrow> map_of (ds_ecmpPaths d') p = map_of (ds_ecmpPaths (ss_dest st)) p) \<and>
    apply_ops (ops @ crt) (next_hops s d) = Some (next_hops s d')"
proof -
  let ?d = "ss_dest st" and ?E = "ds_ecmpPaths d" and ?new = "map (\<lambda>p. (p, the (map_of (ds_pathRouteMap d) p))) new"
  let ?L = "ds_ecmpPaths ?d"
  note inv = install_invD [OF st]
  note c = inv(1)
  have L: "?L = ?E @ ?new" by (rule inv(2))
  have keys: "distinct (map fst ?L)" using inv(3) by (simp add: L comp_def)
  have known: "r < length (ds_routes d) \<and> rt_path (route_at d r) = p" if "(p, r) \<in> set ?L" for p r
  proof -
    have "map_of ?E p = Some r \<or> map_of (ds_pathRouteMap d) p = Some r"
    proof (cases "(p, r) \<in> set ?E")
      case True
      then show ?thesis using rts by (simp add: routes_ok_def)
    next
      case False
      then have "p \<in> set new" "r = the (map_of (ds_pathRouteMap d) p)" using that by (auto simp: L)
      then show ?thesis using inv(5) by fastforce
    qed
    then show ?thesis using known_route [OF rts] by blast
  qed
  have vals: "distinct (map snd ?L)"
  proof -
    have "inj_on snd (set ?L)" using known by (auto simp: inj_on_def) metis+
    then show ?thesis using keys by (simp add: distinct_map)
  qed
  have reach': "\<forall>(p, r) \<in> set ?L. r < length (ds_routes ?d) \<and> reach_ok s ?d p"
  proof -
    have "reach_ok s d p" if "(p, r) \<in> set ?L" for p r
      using that reach inv(4) by (force simp: L)
    then show ?thesis using known by (auto simp: coreD [OF c] reach_ok_def)
  qed
  have mk': "netmask_of ?d (GetAddressLengthForFamily (ds_protoFamily ?d)) = Ok mk"
    using mk by (simp add: len_def netmask_of_def coreD [OF c])
  let ?G = "gone ?d ?L"
  obtain d' del where sw: "sweep_routes s len ?L (?d, [], []) =
      Ok (d', map (\<lambda>p. RemoveNextHop (route_cfg s ?d p)) (filter (installs s) (map fst ?G)), del)"
    "core d' = core ?d" "ds_LocRibPath d' = ds_LocRibPath ?d" "ds_LocRibPathRoute d' = ds_LocRibPathRoute ?d"
    "ds_recalculate d' = ds_recalculate ?d"
    "ds_ecmpPaths d' = filter (\<lambda>(p, r). p \<notin> fst ` set ?G) ?L"
    "\<forall>(p, r) \<in> set ?L - set ?G. rt_action (route_at d' r) = RouteActionNone"
    using sweep_routes_spec [OF mk' keys vals reach', of "[]" "[]"] by (auto simp: len_def coreD [OF c])
  have c': "core d' = core d" using sw(2) c by simp
  have act: "rt_action (route_at ?d r) = RouteActionAdd" if "(p, r) \<in> set ?new" for p r using that inv(5) by force
  let ?K = "filter (\<lambda>(p, r). rt_action (route_at ?d r) = RouteActionReplace) ?E"
  have split: "filter (\<lambda>(p, r). p \<notin> fst ` set ?G) ?L = ?K @ ?new"
  proof -
    have "p \<in> fst ` set ?G \<longleftrightarrow> rt_action (route_at ?d r) \<in> {RouteActionNone, RouteActionDelete}" if pr: "(p, r) \<in> set ?L" for p r
    proof
      assume "p \<in> fst ` set ?G"
      then obtain r' where r': "(p, r') \<in> set ?L" "rt_action (route_at ?d r') \<in> {RouteActionNone, RouteActionDelete}"
        by (auto simp: gone_def)
      then show "rt_action (route_at ?d r) \<in> {RouteActionNone, RouteActionDelete}"
        using eq_key_imp_eq_value [OF keys pr r'(1)] by simp
    next
      assume "rt_action (route_at ?d r) \<in> {RouteActionNone, RouteActionDelete}"
      then have "(p, r) \<in> set ?G" using pr by (simp add: gone_def)
      then show "p \<in> fst ` set ?G" by (rule image_eqI [rotated]) simp
    qed
    then have "filter (\<lambda>(p, r). p \<notin> fst ` set ?G) ?L =
        filter (\<lambda>(p, r). rt_action (route_at ?d r) \<notin> {RouteActionNone, RouteActionDelete}) ?L"
      by (intro filter_cong) auto
    also have "\<dots> = filter (\<lambda>(p, r). rt_action (route_at ?d r) \<notin> {RouteActionNone, RouteActionDelete}) ?E @ ?new"
      unfolding L filter_append using act by (simp add: filter_id_conv) force
    also have "filter (\<lambda>(p, r). rt_action (route_at ?d r) \<notin> {RouteActionNone, RouteActionDelete}) ?E = ?K"
    proof (rule filter_cong [OF refl])
      fix x assume "x \<in> set ?E"
      then show "(case x of (p, r) \<Rightarrow> rt_action (route_at ?d r) \<notin> {RouteActionNone, RouteActionDelete}) =
          (case x of (p, r) \<Rightarrow> rt_action (route_at ?d r) = RouteActionReplace)"
        using inv(6) [of "fst x" "snd x"] by (cases x) auto
    qed
    finally show ?thesis .
  qed
  have G: "?G = filter (\<lambda>(p, r). rt_action (route_at ?d r) \<noteq> RouteActionReplace) ?E"
  proof -
    have "gone ?d ?new = []" unfolding gone_def filter_empty_conv using act by fastforce
    moreover have "gone ?d ?E = filter (\<lambda>(p, r). rt_action (route_at ?d r) \<noteq> RouteActionReplace) ?E"
      unfolding gone_def
    proof (rule filter_cong [OF refl])
      fix x assume "x \<in> set ?E"
      then show "(case x of (p, r) \<Rightarrow> rt_action (route_at ?d r) \<in> {RouteActionNone, RouteActionDelete}) =
          (case x of (p, r) \<Rightarrow> rt_action (route_at ?d r) \<noteq> RouteActionReplace)"
        using inv(6) [of "fst x" "snd x"] by (cases x) auto
    qed
    ultimately show ?thesis by (simp add: L gone_def)
  qed
  have "\<forall>p \<in> set (ss_create st). GetReachability (path_at s p) (ds_protoFamily d') \<noteq> None"
    using reach inv(4) unfolding inv(7) by (auto simp: reach_ok_def coreD [OF c'])
  moreover have "netmask_of d' (GetAddressLengthForFamily (ds_protoFamily d')) = Ok mk"
    using mk by (simp add: len_def netmask_of_def coreD [OF c'])
  ultimately obtain crt where crt: "create_routes s d' len (ss_first st) (ss_create st) = Ok crt"
    "\<forall>M. (if ss_first st then M = {#} else ss_create st = [] \<or> M \<noteq> {#}) \<longrightarrow>
       apply_ops crt M = Some (M + mset (map (route_cfg s d') (ss_create st)))"
    using create_routes_Ok [of d' mk "ss_create st" s "ss_first st"] by (auto simp: len_def coreD [OF c'])
  let ?h = "\<lambda>xs. mset (map (route_cfg s d) (filter (installs s) (map fst xs)))"
  have "?h E = ?h (filter P E) + ?h (filter (\<lambda>x. \<not> P x) E)" for E and P :: "path \<times> route \<Rightarrow> bool"
    by (induction E) auto
  from this [of ?E "\<lambda>(p, r). rt_action (route_at ?d r) = RouteActionReplace"]
  have old: "next_hops s d = ?h ?K + ?h ?G" unfolding next_hops_def G by (simp add: case_prod_unfold)
  have new: "next_hops s d' = ?h ?K + mset (map (route_cfg s d') (ss_create st))"
    unfolding next_hops_def sw(6) split inv(7) route_cfg_core [OF c'] by (simp add: comp_def)
  have "if ss_first st then ?h ?K = {#} else ss_create st = [] \<or> ?h ?K \<noteq> {#}"
  proof (cases "ss_first st")
    case True
    then have "?K = []" using inv(8) by (auto simp: filter_empty_conv)
    then show ?thesis using True by simp
  next
    case False
    then obtain p r where pr: "(p, r) \<in> set ?E" "rt_action (route_at ?d r) \<noteq> RouteActionNone" using inv(8) by blast
    then have p: "rt_action (route_at ?d r) = RouteActionReplace" "p \<in> D" using inv(6) by blast+
    then have K: "(p, r) \<in> set ?K" using pr(1) by simp
    from one show ?thesis
    proof
      assume "\<forall>p \<in> D. installs s p"
      then have "p \<in> set (filter (installs s) (map fst ?K))" using K p(2) by force
      then show ?thesis using False by auto
    next
      assume b: "D \<subseteq> {b}"
      have "q = p" if "q \<in> set new" for q using b that inv(4) p(2) by blast
      moreover have "p \<notin> set new" using inv(3) pr(1) by force
      ultimately have "new = []" by (cases new) auto
      then show ?thesis using False inv(7) by simp
    qed
  qed
  from crt(2) [THEN spec, THEN mp, OF this]
  have "apply_ops crt (?h ?K) = Some (next_hops s d')" by (simp only: new)
  then have "apply_ops (map (\<lambda>p. RemoveNextHop (route_cfg s ?d p)) (filter (installs s) (map fst ?G)) @ crt) (next_hops s d) =
      Some (next_hops s d')"
    using apply_removes [of "map (route_cfg s d) (filter (installs s) (map fst ?G))" crt "?h ?K"]
    by (simp add: old route_cfg_core [OF c] comp_def)
  moreover have fin: "p \<in> D \<and> map_of ?L p = Some r \<and> rt_action (route_at d' r) = RouteActionNone"
    if "map_of (ds_ecmpPaths d') p = Some r" for p r
  proof -
    have "(p, r) \<in> set (ds_ecmpPaths d')" using that by (rule map_of_SomeD)
    then have m: "(p, r) \<in> set ?L" "p \<notin> fst ` set ?G" "(p, r) \<in> set (?K @ ?new)" unfolding sw(6) split [symmetric] by auto
    have "(p, r) \<notin> set ?G" using m(2) by force
    moreover have "p \<in> D" using m(3) inv(4,6) by fastforce
    ultimately show ?thesis using m(1) keys sw(7) by auto
  qed
  moreover have "map_of (ds_ecmpPaths d') p = map_of ?L p" if w: "wanted p st" for p
  proof -
    obtain r where r: "map_of ?L p = Some r" "rt_action (route_at ?d r) \<in> {RouteActionAdd, RouteActionReplace}"
      using w unfolding wanted_def by blast
    have "p \<notin> fst ` set ?G"
    proof
      assume "p \<in> fst ` set ?G"
      then obtain r' where "(p, r') \<in> set ?L" "rt_action (route_at ?d r') \<in> {RouteActionNone, RouteActionDelete}"
        by (auto simp: gone_def)
      then show False using r keys by auto
    qed
    then have "(p, r) \<in> set (ds_ecmpPaths d')" using map_of_SomeD [OF r(1)] by (simp add: sw(6))
    moreover have "distinct (map fst (ds_ecmpPaths d'))" using keys by (simp add: sw(6) distinct_map_filter)
    ultimately show ?thesis using r(1) by simp
  qed
  moreover have "distinct (map fst (ds_ecmpPaths d'))" using keys by (simp add: sw(6) distinct_map_filter)
  ultimately show ?thesis
    using sw(1,3-5) crt(1) c' by (intro exI [of _ d'] exI [of _ del] exI [of _ crt] exI conjI) auto
qed

section \<open>A whole selection\<close>

text \<open>
  What a selection needs: a prefix length in range, next hops that can be named, and among several
  candidates only paths whose keys can be read and that are to be installed.
\<close>

definition selectable :: "store \<Rightarrow> int \<Rightarrow> nat \<Rightarrow> Destination \<Rightarrow> bool" where
  "selectable s cnt len d \<longleftrightarrow>
     (\<exists>mk. netmask_of d (GetAddressLengthForFamily (ds_protoFamily d)) = Ok mk) \<and>
     (\<forall>p \<in> fst ` set (ds_ecmpPaths d). reach_ok s d p) \<and>
     (\<exists>upd rem src. candidate_paths s d = Ok (upd, rem, src) \<and> (\<forall>p \<in> set upd. reach_ok s d p) \<and>
        (1 < length upd \<longrightarrow> (\<forall>p \<in> set upd \<union> set rem. readable s (ds_protoFamily d) len p) \<and> (\<forall>p \<in> set upd. installs s p)) \<and>
        (0 < cnt \<longrightarrow> (\<forall>p \<in> set rem. readable s (ds_protoFamily d) len p)))"

lemma collect_paths_within:
  "collect_paths s pf l ps (upd, rem, src) = Ok (upd', rem', src') \<Longrightarrow> set upd' \<union> set rem' \<subseteq> set upd \<union> set rem \<union> set ps"
proof (induction ps arbitrary: upd rem src)
  case (Cons p ps)
  then obtain st where 1: "collect_path s pf l p (upd, rem, src) = Ok st" "collect_paths s pf l ps st = Ok (upd', rem', src')" by auto
  obtain u r c where st: "st = (u, r, c)" by (cases st)
  have "set u \<union> set r \<subseteq> set upd \<union> set rem \<union> {p}"
    using 1(1) by (auto simp: collect_path_def st Let_def split: if_splits)
  then show ?case using Cons.IH [OF 1(2) [unfolded st]] by auto
qed simp

lemma candidates_live:
  assumes "dest_inv d" "candidate_paths s d = Ok (upd, rem, src)"
  shows "set upd \<union> set rem \<subseteq> live d"
proof -
  have all: "set (all_paths d) = live d" using assms(1) all_in_live [of d] by (simp add: dest_inv_def all_paths_def)
  have loc: "ds_LocRibPath d = Some p \<Longrightarrow> p \<in> live d" for p using assms(1) by (simp add: dest_inv_def locrib_ok_def)
  show ?thesis
    using assms(2) loc by (cases "ds_LocRibPath d") (auto simp: candidate_paths_def all dest!: collect_paths_within)
qed

lemma choose_paths_ok:
  assumes env: "env_ok ge" and ne: "upd \<noteq> []"
    and many: "1 < length upd \<Longrightarrow> \<forall>p \<in> set upd \<union> set rem. readable s pf len p"
    and cnt: "0 < cnt \<Longrightarrow> \<forall>p \<in> set rem. readable s pf len p"
  shows "\<exists>best ecmp addPaths. choose_paths ge s g cnt pf upd rem = Ok (best, ecmp, addPaths) \<and> best \<noteq> [] \<and> set best \<subseteq> set upd \<and>
    lists_ok (set upd) (set best) ecmp \<and>
    (sorted (map (origin_rank s) upd) \<longrightarrow> (\<forall>p \<in> set best. \<forall>q \<in> set upd. rank s p \<le> rank s q))"
proof (cases "1 < length upd")
  case True
  note read = many [OF True]
  let ?e = "gc_UseMultiplePaths g \<and> 1 < gc_EBGPMaxPaths g" and ?i = "gc_UseMultiplePaths g \<and> 1 < gc_IBGPMaxPaths g"
  obtain best ecmp ap where b: "calculateBestPath ge s pf upd rem ?e ?i cnt = Ok (best, ecmp, ap)" "set best \<subseteq> set upd"
    "best \<noteq> []" "lists_ok (set upd) (set best) ecmp"
    using calculateBestPath_within [OF env read ne] by blast
  have "\<forall>p \<in> set best. \<forall>q \<in> set upd. rank s p \<le> rank s q" if "sorted (map (origin_rank s) upd)"
  proof -
    have "mset best = mset (keep_min (rank s) upd)"
      using calculateBestPath_ranks [OF env read ne that, of ?e ?i cnt] b(1) by auto
    then have "set best = set (keep_min (rank s) upd)" by (rule mset_eq_setD)
    then show ?thesis by (auto simp: keep_min_def)
  qed
  then show ?thesis using True b by (simp add: choose_paths_def)
next
  case False
  then obtain p where p: "upd = [p]" using ne by (cases upd) auto
  have l: "lists_ok {p} {p} []" by (simp add: lists_ok_def)
  show ?thesis
  proof (cases "0 < cnt")
    case True
    have "\<exists>ap. calculateBestPath ge s pf [p] rem (gc_UseMultiplePaths g \<and> 1 < gc_EBGPMaxPaths g)
        (gc_UseMultiplePaths g \<and> 1 < gc_IBGPMaxPaths g) cnt = Ok ([p], [], ap)"
      by (rule calculateBestPath_single [OF env cnt])
    then show ?thesis using l p True by (auto simp: choose_paths_def)
  next
    case False
    then show ?thesis using l p by (simp add: choose_paths_def)
  qed
qed

lemma mark_all:
  assumes "\<forall>(p, r) \<in> set L. r < length (ds_routes d)"
  shows "core (fold (\<lambda>(p, r). upd_route r (setAction a)) L d) = core d \<and>
    ds_ecmpPaths (fold (\<lambda>(p, r). upd_route r (setAction a)) L d) = ds_ecmpPaths d \<and>
    (\<forall>x. rt_action (route_at (fold (\<lambda>(p, r). upd_route r (setAction a)) L d) x) =
      (if x \<in> snd ` set L then a else rt_action (route_at d x)))"
  using assms
proof (induction L arbitrary: d)
  case (Cons y L)
  obtain p r where y: "y = (p, r)" by (cases y)
  let ?d = "upd_route r (setAction a) d"
  have "core ?d = core d" by (rule core_upd) (simp add: route_key_def route_upd_defs)
  moreover have "r < length (ds_routes d)" using Cons.prems by (simp add: y)
  moreover have "rt_action (setAction a x) = a" for x by (simp add: setAction_def)
  ultimately show ?case using Cons.IH [of ?d] Cons.prems by (auto simp: y)
qed simp

lemma SelectRoute_ok:
  assumes env: "env_ok ge" and inv: "dest_inv d" and sel: "selectable s cnt len d" and rec: "ds_recalculate d"
    and cand: "candidate_paths s d = Ok (upd, rem, src)"
  shows "\<exists>sl. SelectRouteForLocRib ge s g cnt d = Ok sl \<and> dest_inv (sl_dest sl) \<and> peer_paths (sl_dest sl) = peer_paths d \<and>
    core (sl_dest sl) = core d \<and> fst ` set (ds_ecmpPaths (sl_dest sl)) \<subseteq> set upd \<and>
    apply_ops (sl_ops sl) (next_hops s d) = Some (next_hops s (sl_dest sl)) \<and>
    (upd = [] \<longrightarrow> ds_LocRibPath (sl_dest sl) = None \<and> ds_ecmpPaths (sl_dest sl) = [] \<and> sl_action sl = RouteActionDelete) \<and>
    (upd \<noteq> [] \<longrightarrow> (\<exists>best r. best \<in> set upd \<and> ds_LocRibPath (sl_dest sl) = Some best \<and>
       map_of (ds_ecmpPaths (sl_dest sl)) best = Some r \<and> ds_LocRibPathRoute (sl_dest sl) = Some r \<and>
       (sorted (map (origin_rank s) upd) \<longrightarrow> (\<forall>q \<in> set upd. rank s best \<le> rank s q))))"
proof -
  let ?len = "GetAddressLengthForFamily (ds_protoFamily d)" and ?d = "d\<lparr>ds_recalculate := False\<rparr>"
  obtain mk where mk: "netmask_of d ?len = Ok mk" using sel unfolding selectable_def by blast
  have c: "core ?d = core d" by simp
  have inv': "dest_inv ?d"
    by (rule dest_inv_core [OF inv c]) (use inv in \<open>auto simp: dest_inv_def routes_ok_def locrib_ok_def coreD [OF c]\<close>)
  have rts: "routes_ok ?d" using inv' by (simp add: dest_inv_def)
  have mk': "netmask_of ?d ?len = Ok mk" using mk by (simp add: netmask_of_def)
  have reach: "\<forall>p \<in> fst ` set (ds_ecmpPaths d). reach_ok s ?d p"
    using sel by (auto simp: selectable_def reach_ok_def)
  have nh: "next_hops s ?d = next_hops s d" by (simp add: next_hops_def route_cfg_core [OF c])
  have cand': "candidate_paths s ?d = Ok (upd, rem, src)" using cand by (simp add: candidate_paths_def all_paths_def)
  have upd: "\<forall>p \<in> set upd. reach_ok s ?d p" "1 < length upd \<Longrightarrow> \<forall>p \<in> set upd \<union> set rem. readable s (ds_protoFamily d) len p"
    "1 < length upd \<Longrightarrow> \<forall>p \<in> set upd. installs s p" "0 < cnt \<Longrightarrow> \<forall>p \<in> set rem. readable s (ds_protoFamily d) len p"
    using sel cand by (auto simp: selectable_def reach_ok_def)
  have lv: "set upd \<subseteq> live d" using candidates_live [OF inv cand] by blast
  show ?thesis
  proof (cases "upd = []")
    case True
    let ?f = "fold (\<lambda>(p, r). upd_route r (setAction RouteActionDelete)) (ds_ecmpPaths d) ?d"
    let ?w = "?f\<lparr>ds_LocRibPath := None\<rparr>"
    have E: "\<forall>(p, r) \<in> set (ds_ecmpPaths d). r < length (ds_routes ?d) \<and> rt_path (route_at ?d r) = p"
      using rts by (auto simp: routes_ok_def)
    have E2: "\<forall>(p, r) \<in> set (ds_ecmpPaths d). r < length (ds_routes ?d)" using E by auto
    have m: "core ?f = core d" "ds_ecmpPaths ?f = ds_ecmpPaths d"
      "\<And>x. rt_action (route_at ?f x) = (if x \<in> snd ` set (ds_ecmpPaths d) then RouteActionDelete else rt_action (route_at ?d x))"
      using mark_all [OF E2, of RouteActionDelete] by simp_all
    have cw: "core ?w = core d" using m(1) by simp
    have G: "gone ?w (ds_ecmpPaths d) = ds_ecmpPaths d" by (force simp: gone_def m(3) filter_id_conv)
    have keys: "distinct (map fst (ds_ecmpPaths d))" using rts by (simp add: routes_ok_def)
    have vals: "distinct (map snd (ds_ecmpPaths d))"
    proof -
      have "fst x = rt_path (route_at ?d (snd x))" if "x \<in> set (ds_ecmpPaths d)" for x using E that by (cases x) auto
      then have "inj_on snd (set (ds_ecmpPaths d))" by (intro inj_onI) (simp add: prod_eq_iff)
      then show ?thesis using keys by (simp add: distinct_map)
    qed
    have rw: "\<forall>(p, r) \<in> set (ds_ecmpPaths d). r < length (ds_routes ?w) \<and> reach_ok s ?w p"
      using E reach by (force simp: coreD [OF cw] reach_ok_def coreD [OF m(1)])
    have mkw: "netmask_of ?w (GetAddressLengthForFamily (ds_protoFamily ?w)) = Ok mk"
      using mk by (simp add: netmask_of_def coreD [OF cw] coreD [OF m(1)])
    obtain d' del where sw: "sweep_routes s ?len (ds_ecmpPaths d) (?w, [], []) =
        Ok (d', map (\<lambda>p. RemoveNextHop (route_cfg s ?w p)) (filter (installs s) (map fst (ds_ecmpPaths d))), del)"
      "core d' = core ?w" "ds_LocRibPath d' = ds_LocRibPath ?w" "ds_ecmpPaths d' = filter (\<lambda>(p, r). p \<notin> fst ` set (ds_ecmpPaths d)) (ds_ecmpPaths ?w)"
      using sweep_routes_spec [OF mkw keys vals rw, of "[]" "[]"] unfolding G by (auto simp: coreD [OF m(1)] simp del: sweep_routes.simps)
    have none: "ds_ecmpPaths d' = []" using sw(4) m(2) by (auto simp: filter_empty_conv intro: rev_image_eqI)
    have "SelectRouteForLocRib ge s g cnt d =
        Ok \<lparr>sl_dest = d', sl_ops = map (\<lambda>p. RemoveNextHop (route_cfg s ?w p)) (filter (installs s) (map fst (ds_ecmpPaths d))),
            sl_action = RouteActionDelete, sl_addPathsUpdated = False, sl_added = [], sl_updated = [], sl_deleted = del\<rparr>"
      using True rec cand' sw(1) m(2)
      by (simp add: SelectRouteForLocRib_def withdraw_all_def Let_def del: obind_eq_Ok sweep_routes.simps)
    moreover have "apply_ops (map (\<lambda>p. RemoveNextHop (route_cfg s ?w p)) (filter (installs s) (map fst (ds_ecmpPaths d)))) (next_hops s d) = Some {#}"
      using apply_removes [of "map (route_cfg s d) (filter (installs s) (map fst (ds_ecmpPaths d)))" "[]" "{#}"]
      by (simp add: next_hops_def route_cfg_core [OF cw] comp_def)
    moreover have "next_hops s d' = {#}" by (simp add: next_hops_def none)
    moreover have "dest_inv d'"
      by (rule dest_inv_core [OF inv]) (use sw(2,3) m(1) in \<open>simp_all add: none locrib_ok_def\<close>)
    moreover have "peer_paths d' = peer_paths d" by (rule coreD) (use sw(2) m(1) in simp)
    ultimately show ?thesis using sw(2,3) m(1) none True by simp
  next
    case False
    obtain ps ecmp ap where ch: "choose_paths ge s g cnt (ds_protoFamily d) upd rem = Ok (ps, ecmp, ap)" "ps \<noteq> []" "set ps \<subseteq> set upd"
      "lists_ok (set upd) (set ps) ecmp" "sorted (map (origin_rank s) upd) \<longrightarrow> (\<forall>p \<in> set ps. \<forall>q \<in> set upd. rank s p \<le> rank s q)"
      using choose_paths_ok [OF env False upd(2,4)] by blast
    obtain st new b D where st: "install_paths s ?len (ps, ecmp, ap) ?d = Ok (st, b)" "install_inv s ?d D new st" "D \<subseteq> set upd"
      "ds_LocRibPath (ss_dest st) = Some (hd ps)"
      "ds_LocRibPathRoute (ss_dest st) = map_of (ds_ecmpPaths (ss_dest st)) (hd ps)"
      "map_of (ds_pathRouteMap ?d) (hd ps) \<noteq> None \<longrightarrow> wanted (hd ps) st"
      using install_paths_ok [OF rts mk' upd(1) ch(4,2,3)] by blast
    have one: "(\<forall>p \<in> D. installs s p) \<or> D \<subseteq> {hd upd}"
    proof (cases "1 < length upd")
      case True
      then show ?thesis using upd(3) st(3) by blast
    next
      case False
      then have "upd = [hd upd]" using \<open>upd \<noteq> []\<close> by (cases upd) auto
      then have "set upd = {hd upd}" by (metis list.set(1,2))
      then show ?thesis using st(3) by simp
    qed
    have rD: "\<forall>p \<in> fst ` set (ds_ecmpPaths ?d) \<union> D. reach_ok s ?d p" using reach upd(1) st(3) by auto
    obtain d' ops del crt where fin: "sweep_routes s ?len (ds_ecmpPaths (ss_dest st)) (ss_dest st, [], []) = Ok (d', ops, del)"
      "create_routes s d' ?len (ss_first st) (ss_create st) = Ok crt" "core d' = core ?d"
      "ds_LocRibPath d' = ds_LocRibPath (ss_dest st)" "ds_LocRibPathRoute d' = ds_LocRibPathRoute (ss_dest st)"
      "distinct (map fst (ds_ecmpPaths d'))"
      "\<forall>p r. map_of (ds_ecmpPaths d') p = Some r \<longrightarrow>
         p \<in> D \<and> map_of (ds_ecmpPaths (ss_dest st)) p = Some r \<and> rt_action (route_at d' r) = RouteActionNone"
      "\<forall>p. wanted p st \<longrightarrow> map_of (ds_ecmpPaths d') p = map_of (ds_ecmpPaths (ss_dest st)) p"
      "apply_ops (ops @ crt) (next_hops s ?d) = Some (next_hops s d')"
      using finish_ok [OF rts st(2) _ rD one] mk' by auto
    let ?sl = "\<lparr>sl_dest = d', sl_ops = ops @ crt, sl_action = ss_action st, sl_addPathsUpdated = b,
        sl_added = ss_added st, sl_updated = ss_updated st, sl_deleted = del\<rparr>"
    have "SelectRouteForLocRib ge s g cnt d = Ok ?sl"
      using False rec cand' ch(1) st(1) fin(1,2) by (simp add: SelectRouteForLocRib_def Let_def del: obind_eq_Ok)
    moreover have best: "hd ps \<in> set upd" "hd ps \<in> live d" using ch(2,3) lv by (auto simp: subset_iff)
    moreover have "wanted (hd ps) st"
      using st(6) best(2) inv by (simp add: dest_inv_def listing_ok_def)
    then obtain r where "map_of (ds_ecmpPaths d') (hd ps) = Some r" "ds_LocRibPathRoute d' = Some r"
      using fin(5,8) st(5) by (auto simp: wanted_def)
    moreover have "dest_inv d'"
    proof (rule dest_inv_core [OF inv' fin(3,6)])
      show "locrib_ok d'" using best(2) fin(3,4) st(4) coreD(11) [OF fin(3)] coreD(11) [OF c] by (simp add: locrib_ok_def)
    next
      fix p r assume "map_of (ds_ecmpPaths d') p = Some r"
      then have a: "map_of (ds_ecmpPaths (ss_dest st)) p = Some r" "rt_action (route_at d' r) = RouteActionNone" using fin(7) by blast+
      have "map_of (ds_ecmpPaths ?d) p = Some r \<or> map_of (ds_pathRouteMap ?d) p = Some r"
        using map_of_SomeD [OF a(1)] install_invD(5) [OF st(2), of p] rts unfolding install_invD(2) [OF st(2)]
        by (auto simp: routes_ok_def)
      then show "(map_of (ds_ecmpPaths ?d) p = Some r \<or> map_of (ds_pathRouteMap ?d) p = Some r) \<and> rt_action (route_at d' r) = RouteActionNone"
        using a(2) by blast
    qed
    moreover have "peer_paths d' = peer_paths d" using coreD(10) [OF fin(3)] coreD(10) [OF c] by simp
    moreover have "sorted (map (origin_rank s) upd) \<longrightarrow> (\<forall>q \<in> set upd. rank s (hd ps) \<le> rank s q)" using ch(2,5) by auto
    moreover have "fst ` set (ds_ecmpPaths d') \<subseteq> set upd" using fin(6,7) st(3) by fastforce
    moreover have "core d' = core d" using fin(3) c by simp
    ultimately show ?thesis using fin(4,9) st(4) False nh by (intro exI [of _ ?sl]) auto
  qed
qed

end
