(* ===== verification/BgpDestLife.thy ===== *)
theory BgpDestLife
  imports BgpForward
begin

text \<open>
  The life of a destination: paths of neighbors come, are replaced and go, and routes are selected in
  between, in any order. The abstract state is the map of paths; what the route manager was told is
  the table of next hops.
\<close>

section \<open>Paths of neighbors\<close>

text \<open>A path learned from a neighbor, whose keys can be read once its next hop is reachable.\<close>

definition neighbor_path :: "store \<Rightarrow> u32 \<Rightarrow> nat \<Rightarrow> path \<Rightarrow> bool" where
  "neighbor_path s pf len p \<longleftrightarrow>
     describable s p \<and> pt_routeType (path_at s p) = RouteTypeEGP \<and> (\<exists>b. path_HasASLoop s (path_at s p) = Ok b) \<and>
     (GetReachability (path_at s p) pf \<noteq> None \<longrightarrow> readable s pf len p)"

lemma neighbor_path_source:
  assumes "neighbor_path s pf len p"
  shows "getRouteSource (pt_routeType (path_at s p)) = RouteSrcExternal" "installs s p"
    "IsReachable (path_at s p) pf \<longleftrightarrow> GetReachability (path_at s p) pf \<noteq> None"
proof -
  have e: "pt_routeType (path_at s p) = RouteTypeEGP" using assms by (simp add: neighbor_path_def)
  show "getRouteSource (pt_routeType (path_at s p)) = RouteSrcExternal" "installs s p"
    "IsReachable (path_at s p) pf \<longleftrightarrow> GetReachability (path_at s p) pf \<noteq> None"
    by (simp_all add: e getRouteSource_def RouteTypeToSource_def route_type_defs route_src_defs installs_def IsLocal_def IsReachable_def)
qed

lemma collect_neighbor_paths:
  assumes "\<forall>p \<in> set ps. neighbor_path s pf len p" "src = (if upd = [] then RouteSrcUnknown else RouteSrcExternal)"
  shows "\<exists>upd' src'. collect_paths s pf l ps (upd, [], src) = Ok (upd', [], src') \<and>
    (\<forall>p \<in> set upd'. p \<in> set upd \<or> GetReachability (path_at s p) pf \<noteq> None)"
  using assms
proof (induction ps arbitrary: upd src)
  case (Cons p ps)
  have p: "neighbor_path s pf len p" using Cons.prems(1) by simp
  note src = neighbor_path_source [OF p]
  obtain b where b: "path_HasASLoop s (path_at s p) = Ok b" using p by (auto simp: neighbor_path_def)
  show ?case
  proof (cases "l = Some p \<or> GetReachability (path_at s p) pf = None \<or> b")
    case True
    then have "collect_path s pf l p (upd, [], src) = Ok (upd, [], src)"
      using b src(3) by (auto simp: collect_path_def Let_def)
    then show ?thesis using Cons.IH [of src upd] Cons.prems by simp
  next
    case False
    have "collect_path s pf l p (upd, [], src) = Ok (upd @ [p], [], RouteSrcExternal)"
      using False b src(1,3) Cons.prems(2) by (auto simp: collect_path_def Let_def route_src_defs)
    then show ?thesis using Cons.IH [of RouteSrcExternal "upd @ [p]"] Cons.prems(1) False by fastforce
  qed
qed simp

definition neighbor_dest :: "store \<Rightarrow> nat \<Rightarrow> Destination \<Rightarrow> bool" where
  "neighbor_dest s len d \<longleftrightarrow>
     (\<forall>p \<in> live d. neighbor_path s (ds_protoFamily d) len p) \<and>
     (\<forall>p. p \<in> fst ` set (ds_ecmpPaths d) \<or> ds_LocRibPath d = Some p \<longrightarrow> GetReachability (path_at s p) (ds_protoFamily d) \<noteq> None)"

lemma neighbor_dest_candidates:
  assumes inv: "dest_inv d" and nd: "neighbor_dest s len d"
  shows "\<exists>upd src. candidate_paths s d = Ok (upd, [], src) \<and> set upd \<subseteq> live d \<and>
    (\<forall>p \<in> set upd. GetReachability (path_at s p) (ds_protoFamily d) \<noteq> None)"
proof -
  have all: "set (all_paths d) = live d" using inv all_in_live [of d] by (simp add: dest_inv_def all_paths_def)
  have loc: "neighbor_path s (ds_protoFamily d) len p" if "ds_LocRibPath d = Some p" for p
    using inv nd that by (simp add: dest_inv_def locrib_ok_def neighbor_dest_def)
  have ps: "\<forall>p \<in> set (all_paths d). neighbor_path s (ds_protoFamily d) len p" using nd all by (simp add: neighbor_dest_def)
  let ?upd = "case ds_LocRibPath d of Some p \<Rightarrow> [p] | None \<Rightarrow> []"
  let ?src = "if ?upd = [] then RouteSrcUnknown else RouteSrcExternal"
  have "candidate_paths s d = collect_paths s (ds_protoFamily d) (ds_LocRibPath d) (all_paths d) (?upd, [], ?src)"
    using neighbor_path_source(1) [OF loc] by (simp add: candidate_paths_def split: option.split)
  moreover obtain upd src where "collect_paths s (ds_protoFamily d) (ds_LocRibPath d) (all_paths d) (?upd, [], ?src) = Ok (upd, [], src)"
    "\<forall>p \<in> set upd. p \<in> set ?upd \<or> GetReachability (path_at s p) (ds_protoFamily d) \<noteq> None"
    using collect_neighbor_paths [OF ps refl, of "ds_LocRibPath d"] by blast
  moreover have "GetReachability (path_at s p) (ds_protoFamily d) \<noteq> None" if "p \<in> set ?upd" for p
    using nd that by (auto simp: neighbor_dest_def split: option.splits)
  ultimately show ?thesis using candidates_live [OF inv, of s upd "[]" src] by auto
qed

lemma neighbor_dest_selectable:
  assumes inv: "dest_inv d" and nd: "neighbor_dest s len d"
    and mk: "netmask_of d (GetAddressLengthForFamily (ds_protoFamily d)) = Ok mk"
  shows "selectable s cnt len d"
proof -
  obtain upd src where c: "candidate_paths s d = Ok (upd, [], src)" "set upd \<subseteq> live d"
    "\<forall>p \<in> set upd. GetReachability (path_at s p) (ds_protoFamily d) \<noteq> None"
    using neighbor_dest_candidates [OF inv nd] by blast
  have "readable s (ds_protoFamily d) len p \<and> installs s p" if "p \<in> set upd" for p
  proof -
    have np: "neighbor_path s (ds_protoFamily d) len p" using nd c(2) that by (auto simp: neighbor_dest_def)
    then have "readable s (ds_protoFamily d) len p" using c(3) that by (simp add: neighbor_path_def)
    then show ?thesis using neighbor_path_source(2) [OF np] by blast
  qed
  then show ?thesis using c mk nd by (auto simp: selectable_def reach_ok_def neighbor_dest_def)
qed

section \<open>Operations\<close>

datatype dest_op = AddPath string u32 path | DropPath string u32 | Reselect

fun dest_step :: "go_env \<Rightarrow> store \<Rightarrow> GlobalConfig \<Rightarrow> int \<Rightarrow> dest_op \<Rightarrow> Destination \<times> route_op list \<Rightarrow>
    (bgp_error, Destination \<times> route_op list) outcome" where
  "dest_step ge s g cnt (AddPath k i p) (d, ops) = obind (AddOrUpdatePath s k i p d) (\<lambda>(d, new). Ok (d, ops))"
| "dest_step ge s g cnt (DropPath k i) (d, ops) = obind (RemovePath k i d) (\<lambda>(d, old). Ok (d, ops))"
| "dest_step ge s g cnt Reselect (d, ops) = obind (SelectRouteForLocRib ge s g cnt d) (\<lambda>sl. Ok (sl_dest sl, ops @ sl_ops sl))"

fun dest_run :: "go_env \<Rightarrow> store \<Rightarrow> GlobalConfig \<Rightarrow> int \<Rightarrow> dest_op list \<Rightarrow> Destination \<times> route_op list \<Rightarrow>
    (bgp_error, Destination \<times> route_op list) outcome" where
  "dest_run ge s g cnt [] st = Ok st"
| "dest_run ge s g cnt (x # xs) st = obind (dest_step ge s g cnt x st) (dest_run ge s g cnt xs)"

text \<open>The same on the map of paths; a path is added under one key only.\<close>

fun path_step :: "dest_op \<Rightarrow> (string \<times> u32 \<Rightarrow> path option) \<Rightarrow> string \<times> u32 \<Rightarrow> path option" where
  "path_step (AddPath k i p) m = m((k, i) \<mapsto> p)"
| "path_step (DropPath k i) m = m((k, i) := None)"
| "path_step Reselect m = m"

fun path_run :: "dest_op list \<Rightarrow> (string \<times> u32 \<Rightarrow> path option) \<Rightarrow> string \<times> u32 \<Rightarrow> path option" where
  "path_run [] m = m"
| "path_run (x # xs) m = path_run xs (path_step x m)"

fun allowed :: "store \<Rightarrow> u32 \<Rightarrow> nat \<Rightarrow> dest_op list \<Rightarrow> (string \<times> u32 \<Rightarrow> path option) \<Rightarrow> bool" where
  "allowed s pf len [] m \<longleftrightarrow> True"
| "allowed s pf len (AddPath k i p # xs) m \<longleftrightarrow>
     neighbor_path s pf len p \<and> (p \<notin> ran m \<or> m (k, i) = Some p) \<and> allowed s pf len xs (m((k, i) \<mapsto> p))"
| "allowed s pf len (DropPath k i # xs) m \<longleftrightarrow> allowed s pf len xs (m((k, i) := None))"
| "allowed s pf len (Reselect # xs) m \<longleftrightarrow> allowed s pf len xs m"

lemma apply_ops_append: "apply_ops (xs @ ys) M = Option.bind (apply_ops xs M) (apply_ops ys)"
  by (induction xs M rule: apply_ops.induct) auto

lemma next_hops_same:
  assumes "ds_ecmpPaths d' = ds_ecmpPaths d" "ds_NLRI d' = ds_NLRI d" "ds_protoFamily d' = ds_protoFamily d"
  shows "next_hops s d' = next_hops s d"
  using assms by (simp add: next_hops_def route_cfg_def [abs_def] ConstructRouteConfig_def netmask_of_def)

definition life_inv :: "store \<Rightarrow> nat \<Rightarrow> NLRI \<Rightarrow> u32 \<Rightarrow> nat \<Rightarrow> Destination \<times> route_op list \<Rightarrow> bool" where
  "life_inv s len nlri pf n = (\<lambda>(d, ops). dest_inv d \<and> neighbor_dest s len d \<and> ds_NLRI d = nlri \<and> ds_protoFamily d = pf \<and>
     unat (ds_maxPathId d) \<le> Suc n \<and> apply_ops ops {#} = Some (next_hops s d))"

lemma small_max:
  assumes "unat (x :: u32) \<le> Suc n" "n + 1 < 2 ^ 32 - 1"
  shows "x + 1 \<noteq> 0"
proof
  assume "x + 1 = 0"
  then have "x = - 1" by (simp add: eq_neg_iff_add_eq_0)
  then have "unat x = 2 ^ 32 - 1" by (simp add: unsigned_minus_1_eq_mask mask_eq_exp_minus_1)
  then show False using assms by simp
qed

lemma dest_step_ok:
  assumes env: "env_ok ge" and mk: "netmask_of (NewDestination nlri pf) (GetAddressLengthForFamily pf) = Ok mk"
    and inv: "life_inv s len nlri pf n (d, ops)" and ok: "allowed s pf len [x] (peer_paths d)" and n: "n + 1 < 2 ^ 32 - 1"
  shows "\<exists>d' ops'. dest_step ge s g cnt x (d, ops) = Ok (d', ops') \<and> life_inv s len nlri pf (Suc n) (d', ops') \<and>
    peer_paths d' = path_step x (peer_paths d)"
proof -
  have i: "dest_inv d" "neighbor_dest s len d" "ds_NLRI d = nlri" "ds_protoFamily d = pf" "unat (ds_maxPathId d) \<le> Suc n"
    "apply_ops ops {#} = Some (next_hops s d)" using inv by (simp_all add: life_inv_def)
  show ?thesis
  proof (cases x)
    case (AddPath k i p)
    have p: "describable s p" "p \<notin> live d \<or> peer_paths d (k, i) = Some p" "neighbor_path s pf len p"
      using ok by (auto simp: AddPath neighbor_path_def live_def)
    obtain d' where d': "AddOrUpdatePath s k i p d = Ok (d', peer_paths d (k, i) = None)" "dest_inv d'"
      "peer_paths d' = (peer_paths d)((k, i) \<mapsto> p)" "unat (ds_maxPathId d') \<le> Suc (unat (ds_maxPathId d))"
      "ds_ecmpPaths d' = ds_ecmpPaths d" "ds_NLRI d' = ds_NLRI d" "ds_protoFamily d' = ds_protoFamily d"
      "ds_LocRibPath d' = ds_LocRibPath d \<or> ds_LocRibPath d' = None"
      using AddOrUpdatePath_ok [OF i(1) p(1,2) small_max [OF i(5) n]] by blast
    have "live d' \<subseteq> insert p (live d)" by (auto simp: live_def d'(3) ran_def split: if_splits)
    then have "neighbor_dest s len d'" using i(2,4) p(3) d'(5,7,8) by (auto simp: neighbor_dest_def)
    then show ?thesis using d' i next_hops_same [OF d'(5,6,7), of s] by (simp add: AddPath life_inv_def)
  next
    case (DropPath k i)
    obtain d' where d': "RemovePath k i d = Ok (d', peer_paths d (k, i))" "dest_inv d'"
      "peer_paths d' = (peer_paths d)((k, i) := None)" "unat (ds_maxPathId d') \<le> unat (ds_maxPathId d)"
      "ds_ecmpPaths d' = ds_ecmpPaths d" "ds_NLRI d' = ds_NLRI d" "ds_protoFamily d' = ds_protoFamily d"
      "ds_LocRibPath d' = ds_LocRibPath d \<or> ds_LocRibPath d' = None"
      using RemovePath_ok [OF i(1)] by blast
    have "live d' \<subseteq> live d" by (auto simp: live_def d'(3) ran_def split: if_splits)
    then have "neighbor_dest s len d'" using i(2,4) d'(5,7,8) by (auto simp: neighbor_dest_def)
    then show ?thesis using d' i next_hops_same [OF d'(5,6,7), of s] by (simp add: DropPath life_inv_def)
  next
    case Reselect
    show ?thesis
    proof (cases "ds_recalculate d")
      case False
      then show ?thesis using i by (simp add: Reselect SelectRouteForLocRib_def life_inv_def)
    next
      case True
      have "netmask_of d (GetAddressLengthForFamily (ds_protoFamily d)) = Ok mk"
        using mk i(3,4) by (simp add: netmask_of_def NewDestination_def)
      note sel = neighbor_dest_selectable [OF i(1,2) this]
      obtain upd src where c: "candidate_paths s d = Ok (upd, [], src)" "set upd \<subseteq> live d"
        "\<forall>p \<in> set upd. GetReachability (path_at s p) (ds_protoFamily d) \<noteq> None"
        using neighbor_dest_candidates [OF i(1,2)] by blast
      obtain sl where sl: "SelectRouteForLocRib ge s g cnt d = Ok sl" "dest_inv (sl_dest sl)" "peer_paths (sl_dest sl) = peer_paths d"
        "core (sl_dest sl) = core d" "fst ` set (ds_ecmpPaths (sl_dest sl)) \<subseteq> set upd"
        "apply_ops (sl_ops sl) (next_hops s d) = Some (next_hops s (sl_dest sl))"
        "ds_LocRibPath (sl_dest sl) = None \<or> (\<exists>b \<in> set upd. ds_LocRibPath (sl_dest sl) = Some b)"
        using SelectRoute_ok [OF env i(1) sel True c(1), of g cnt] by blast
      have "neighbor_dest s len (sl_dest sl)"
        using i(2) c(3) sl(5,7) by (auto simp: neighbor_dest_def coreD [OF sl(4)])
      then show ?thesis
        using sl i by (simp add: Reselect life_inv_def apply_ops_append coreD [OF sl(4)])
    qed
  qed
qed

lemma allowed_Cons: "allowed s pf len (x # xs) m \<longleftrightarrow> allowed s pf len [x] m \<and> allowed s pf len xs (path_step x m)"
  by (cases x) auto

lemma dest_run_ok:
  assumes env: "env_ok ge" and mk: "netmask_of (NewDestination nlri pf) (GetAddressLengthForFamily pf) = Ok mk"
    and "life_inv s len nlri pf n (d, ops)" "allowed s pf len xs (peer_paths d)" "n + length xs < 2 ^ 32 - 1"
  shows "\<exists>d' ops'. dest_run ge s g cnt xs (d, ops) = Ok (d', ops') \<and> life_inv s len nlri pf (n + length xs) (d', ops') \<and>
    peer_paths d' = path_run xs (peer_paths d)"
  using assms(3-5)
proof (induction xs arbitrary: n d ops)
  case Nil
  then show ?case by simp
next
  case (Cons x xs)
  have x: "allowed s pf len [x] (peer_paths d)" "allowed s pf len xs (path_step x (peer_paths d))"
    using Cons.prems(2) allowed_Cons by blast+
  obtain d1 ops1 where 1: "dest_step ge s g cnt x (d, ops) = Ok (d1, ops1)" "life_inv s len nlri pf (Suc n) (d1, ops1)"
    "peer_paths d1 = path_step x (peer_paths d)"
    using dest_step_ok [OF env mk Cons.prems(1) x(1)] Cons.prems(3) by fastforce
  then show ?case using Cons.IH [OF 1(2)] x(2) Cons.prems(3) by simp
qed

lemma life_inv_new: "life_inv s len nlri pf 0 (NewDestination nlri pf, [])"
proof -
  have "live (NewDestination nlri pf) = {}"
    by (auto simp: live_def peer_paths_def getPathForIP_def NewDestination_def ran_def)
  then show ?thesis
    using dest_inv_new by (simp add: life_inv_def neighbor_dest_def next_hops_def) (simp add: NewDestination_def)
qed

section \<open>Properties\<close>


text \<open>C35: 
  Selecting a route, with local and aggregated paths among the candidates too, keeps the bookkeeping
  and the paths, and its operations turn the next hops installed before into those installed after.
\<close>

theorem forwarding_follows:
  assumes "env_ok ge" "dest_inv d" "selectable s cnt len d"
  shows "\<exists>sl. SelectRouteForLocRib ge s g cnt d = Ok sl \<and> dest_inv (sl_dest sl) \<and> peer_paths (sl_dest sl) = peer_paths d \<and>
    apply_ops (sl_ops sl) (next_hops s d) = Some (next_hops s (sl_dest sl))"
proof (cases "ds_recalculate d")
  case False
  then show ?thesis using assms(2) by (simp add: SelectRouteForLocRib_def)
next
  case True
  obtain upd rem src where "candidate_paths s d = Ok (upd, rem, src)" using assms(3) unfolding selectable_def by blast
  from SelectRoute_ok [OF assms True this] show ?thesis by blast
qed


section \<open>Samples\<close>

definition sample_nlri :: NLRI where
  "sample_nlri = PrefixNLRI \<lparr>pfx_Length = 24, pfx_Prefix = [198, 51, 100, 0]\<rparr>"

lemma sample_netmask: "netmask_of (NewDestination sample_nlri sample_family) (GetAddressLengthForFamily sample_family) = Ok [255, 255, 255, 0]"
proof -
  have "GetAddressLengthForFamily sample_family = 4"
    by (simp add: sample_family_def GetAddressLengthForFamily_def GetAfiSafi_def GetProtocolFamily_def AFINextHopLenMap_def
        AfiIP_def AfiIP6_def SafiUnicast_def)
  then show ?thesis
    by (simp add: netmask_of_def NewDestination_def sample_nlri_def constructNetmaskFromLen_def tdiv_def numeral_3_eq_3)
qed

lemma sample_neighbor_path: "p \<in> {0, 1, 2} \<Longrightarrow> neighbor_path sample_store sample_family 4 p"
proof -
  assume p: "p \<in> {0, 1, 2}"
  have "pt_routeType (path_at sample_store p) = RouteTypeEGP" using p by (auto simp: sample_store_def sample_path_def)
  moreover have "\<exists>as. GetAS4ByteList (path_at sample_store p) = Ok as"
    using p by (auto simp: GetAS4ByteList_def segment_strings_def pa_GetCode_def sample_store_def sample_path_def sample_attrs_def pa_type_defs)
  moreover have "readable sample_store sample_family 4 p" using p sample_readable by blast
  moreover have "\<exists>b. path_HasASLoop sample_store (path_at sample_store p) = Ok b"
  proof -
    have "\<exists>b. HasASLoop (sample_attrs g [65002] nh) as = Ok b" for g nh as
      by (auto simp: HasASLoop_def getTypeFromPathAttrs_def pa_GetCode_def sample_attrs_def pa_type_defs)
    moreover have "\<exists>g nh. pt_PathAttrs (path_at sample_store p) = sample_attrs g [65002] nh"
      using p by (auto simp: sample_store_def sample_path_def) blast+
    ultimately show ?thesis by (auto simp: path_HasASLoop_def split: option.split)
  qed
  ultimately show ?thesis using readable_keys(3) by (auto simp: neighbor_path_def describable_def)
qed


text \<open>A destination that holds the first and the third path and has none selected yet.\<close>

definition sample_route :: "path \<Rightarrow> int \<Rightarrow> u32 \<Rightarrow> Route" where
  "sample_route p i out = setIdx i (the_Ok (NewRoute (path_at sample_store p) p sample_family RouteActionNone 0 out))"

definition sample_dest :: Destination where
  "sample_dest = (NewDestination sample_nlri sample_family)
     \<lparr>ds_peerPathMap := [(''192.0.2.9'', [(0, 2)]), (''192.0.2.3'', [(0, 0)])], ds_pathRouteMap := [(2, 0), (0, 1)],
      ds_maxPathId := 3, ds_recalculate := True, ds_Paths := [0, 1], ds_PathInfos := [1, 0],
      ds_routes := [sample_route 2 0 1, sample_route 0 1 2]\<rparr>"

lemma sample_route:
  assumes "p \<in> {0, 1, 2}"
  shows "rt_path (sample_route p i n) = p" "rt_routeListIdx (sample_route p i n) = i" "rt_OutPathId (sample_route p i n) = n"
proof -
  have "describable sample_store p" using sample_neighbor_path [OF assms] by (simp add: neighbor_path_def)
  then obtain rt where "NewRoute (path_at sample_store p) p sample_family RouteActionNone 0 n = Ok rt" "rt_path rt = p" "rt_OutPathId rt = n"
    by (rule NewRoute_Ok)
  then show "rt_path (sample_route p i n) = p" "rt_routeListIdx (sample_route p i n) = i" "rt_OutPathId (sample_route p i n) = n"
    by (simp_all add: sample_route_def setIdx_def)
qed

lemma sample_dest_fields [simp]:
  "ds_NLRI sample_dest = sample_nlri" "ds_protoFamily sample_dest = sample_family" "ds_ecmpPaths sample_dest = []"
  "ds_peerPathMap sample_dest = [(''192.0.2.9'', [(0, 2)]), (''192.0.2.3'', [(0, 0)])]" "ds_LocRibPath sample_dest = None"
  "ds_pathRouteMap sample_dest = [(2, 0), (0, 1)]" "ds_maxPathId sample_dest = 3" "ds_pathIds sample_dest = []"
  "ds_recalculate sample_dest = True" "ds_Paths sample_dest = [0, 1]" "ds_PathInfos sample_dest = [1, 0]"
  "route_at sample_dest 0 = sample_route 2 0 1" "route_at sample_dest 1 = sample_route 0 1 2"
  "route_at sample_dest (Suc 0) = sample_route 0 1 2" "length (ds_routes sample_dest) = 2"
  by (simp_all add: sample_dest_def NewDestination_def route_at_def)

lemma sample_dest_paths:
  "peer_paths sample_dest = [(''192.0.2.9'', 0) \<mapsto> 2, (''192.0.2.3'', 0) \<mapsto> 0]" "live sample_dest = {0, 2}"
proof -
  show p: "peer_paths sample_dest = [(''192.0.2.9'', 0) \<mapsto> 2, (''192.0.2.3'', 0) \<mapsto> 0]"
    by (auto simp: peer_paths_def getPathForIP_def fun_eq_iff)
  show "live sample_dest = {0, 2}" by (simp add: live_def p)
qed

lemma sample_dest_inv: "dest_inv sample_dest"
proof -
  have "inj_on (peer_paths sample_dest) {(''192.0.2.3'', 0), (''192.0.2.9'', 0)}"
    by (simp add: inj_on_def sample_dest_paths)
  moreover have "dom (peer_paths sample_dest) = {(''192.0.2.3'', 0), (''192.0.2.9'', 0)}"
    unfolding sample_dest_paths by simp
  ultimately have "peers_ok sample_dest" by (simp add: peers_ok_def)
  moreover have "routes_ok sample_dest" by (simp add: routes_ok_def sample_route)
  moreover have "listing_ok sample_dest" by (auto simp: listing_ok_def sample_dest_paths sample_route less_Suc_eq)
  moreover have "ids_ok sample_dest" by (simp add: ids_ok_def out_ids_def sample_route)
  moreover have "locrib_ok sample_dest" by (simp add: locrib_ok_def)
  ultimately show ?thesis by (simp add: dest_inv_def)
qed

lemma sample_dest_neighbors: "neighbor_dest sample_store 4 sample_dest"
  using sample_neighbor_path by (simp add: neighbor_dest_def sample_dest_paths)

lemma sample_dest_selectable: "selectable sample_store cnt 4 sample_dest"
  by (rule neighbor_dest_selectable [OF sample_dest_inv sample_dest_neighbors, of "[255, 255, 255, 0]"])
     (use sample_netmask in \<open>simp add: netmask_of_def NewDestination_def\<close>)

lemma sample_candidates: "candidate_paths sample_store sample_dest = Ok ([2, 0], [], RouteSrcExternal)"
proof -
  have "path_HasASLoop sample_store (path_at sample_store p) = Ok False" if "p \<in> {0, 2}" for p
    using that by (auto simp: path_HasASLoop_def nbr_of_def HasASLoop_def getTypeFromPathAttrs_def pa_GetCode_def sample_defs pa_type_defs)
  moreover have "IsReachable (path_at sample_store p) sample_family" if "p \<in> {0, 2}" for p
    using that neighbor_path_source(3) [OF sample_neighbor_path, of p] sample_readable by (auto simp: readable_def)
  moreover have "getRouteSource (pt_routeType (path_at sample_store p)) = RouteSrcExternal" if "p \<in> {0, 2}" for p
    using that neighbor_path_source(1) [OF sample_neighbor_path, of p] by auto
  ultimately show ?thesis
    by (simp add: candidate_paths_def all_paths_def collect_path_def Let_def) (simp add: route_src_defs)
qed

theorem forwarding_follows_witness:
  "\<exists>sl. SelectRouteForLocRib sample_env sample_store sample_global 0 sample_dest = Ok sl \<and> dest_inv (sl_dest sl) \<and>
     peer_paths (sl_dest sl) = [(''192.0.2.9'', 0) \<mapsto> 2, (''192.0.2.3'', 0) \<mapsto> 0] \<and>
     apply_ops (sl_ops sl) {#} = Some (next_hops sample_store (sl_dest sl))"
  using forwarding_follows [OF sample_env_ok sample_dest_inv sample_dest_selectable, of sample_global 0]
  by (simp add: sample_dest_paths next_hops_def)


end
