(* ===== verification/Spec2Isabelle.thy ===== *)
theory Spec2Isabelle
  imports VrrpElection BfdTables BgpAttrLists BgpPathOps BgpConf BgpSplitProps BgpFsmCollide BgpLocRib BgpDestLife
begin

text \<open>
  A verification development for the SnapRoute layer-3 protocol stack (package \<open>l3\<close>, in Go).

  The repository holds one daemon per protocol: VRRP, BFD, BGP, OSPF (two versions), the RIB, ARP, NDP,
  DHCP and its relay, VXLAN. Each daemon is a set of goroutines around a few pieces of state: packet
  codecs, per-session state machines driven by packets, timers and configuration, and tables the RPC
  layer reads. The development models VRRP and BFD and the core of BGP; each handler of a goroutine's
  \<open>select\<close> loop is a function from the state (and the input, the clock, the random numbers and the
  results of system calls it uses) to the state and the outputs.

  \<^bold>\<open>Conventions\<close> (\<open>Prelude\<close>, \<open>GoNet\<close>, \<open>Contracts\<close>). A Go call returns \<open>Ok v\<close>, \<open>Error e\<close> or \<open>Panic\<close>; a
  call that may never return has an \<open>option\<close> around it and \<open>None\<close> is divergence. Structs are records
  with a prefix per type, machine integers are words, slices are lists with Go's bounds checks written
  out, maps are partial functions, or association lists where the order of a \<open>range\<close> matters.
  \<open>GoNet\<close> is the part of \<open>net\<close>, \<open>bytes\<close> and \<open>strconv\<close> the code calls. \<open>Contracts\<close> holds the interfaces:
  \<open>codec\<close> (encode and decode), \<open>tlv\<close> (self-delimiting elements and the loop that decodes them) and
  \<open>machine\<close> (a step function with an inductive invariant); every one is interpreted on the
  definitions of the components.

  \<^bold>\<open>VRRP\<close> (\<open>src/vrrp/packet\<close>, \<open>src/vrrp/fsm\<close>). \<open>VrrpPacket\<close>: header codec, both checksums, validation and
  frames; round trip, equivalence with RFC 1071, acceptance of what is sent. \<open>VrrpFsm\<close>: the state machine
  with its timers; invariants over all reachable states. \<open>VrrpElection\<close>: two machines that exchange
  frames; the election is decisive, a backup is kept alive, bounds of the master-down interval.

  \<^bold>\<open>BFD\<close> (\<open>src/bfd/server\<close>). \<open>Digest\<close>: MD5 and SHA-1 as executable functions. \<open>BfdControl\<close>: control
  packets and their authentication section. \<open>BfdSession\<close>: the handlers of a session; \<open>BfdLive\<close>: three
  packets bring two sessions up, sessions survive any input, they refine the diagram of the source.
  \<open>BfdServer\<close>: sessions, parameters, dispatch and queries; \<open>BfdTables\<close>: the tables stay consistent, the
  search for a session id ends.

  \<^bold>\<open>BGP messages\<close> (\<open>src/bgp/packet\<close>). \<open>BgpOpen\<close> and \<open>BgpOpenWire\<close>: header, OPEN with capabilities,
  NOTIFICATION, KEEPALIVE. \<open>BgpAfi\<close> and \<open>BgpNegotiate\<close>: address families and what two speakers agree
  on. \<open>BgpNlri\<close>, \<open>BgpNlriWire\<close>: prefixes. \<open>BgpAsPath\<close>, \<open>BgpAttr\<close>, \<open>BgpAttrs\<close>, \<open>BgpAttrWire\<close>: path attributes.
  \<open>BgpUpdate\<close>, \<open>BgpUpdateWire\<close>, \<open>BgpUpdateSafe\<close>: UPDATE and whole messages; round trips, termination of
  the decoder, the types of what it returns. \<open>BgpHelpers\<close>, \<open>BgpAsHelpers\<close>, \<open>BgpAttrLists\<close>, \<open>BgpPathOps\<close>:
  the operations on attribute lists and AS paths. \<open>BgpSplit\<close>, \<open>BgpSplitProps\<close>: cutting an UPDATE into
  messages that fit.

  \<^bold>\<open>BGP neighbors\<close> (\<open>src/bgp/baseobjects\<close>). \<open>BgpConf\<close>: the running configuration and the reported state.

  \<^bold>\<open>BGP sessions\<close> (\<open>src/bgp/fsm\<close>). \<open>BgpFsm\<close> is the state machine (\<open>fsm.go\<close>) with what it asks of its
  manager, \<open>BgpFsmMgr\<close> the manager's loop (\<open>fsm_manager.go\<close>), \<open>BgpConn\<close> dialing and reading (\<open>conn.go\<close>).
  A handler is a function on the pair of the machine and its manager; its environment says which
  writes succeed and what the random numbers are. \<open>BgpConnProps\<close>: the messages of a byte stream are
  delivered however it is cut. \<open>BgpFsmLive\<close> is a calculus of preconditions for handlers, \<open>BgpFsmRun\<close>
  the invariant of a session under every sequence of inputs. \<open>BgpFsmDiagram\<close>: the transitions are
  those of the diagram, the handshake has its order, closing a session notifies the peer.
  \<open>BgpFsmPeers\<close>: two speakers that exchange their encoded messages establish a session with the same
  hold time. \<open>BgpFsmCollide\<close>: connection collisions, commands, the manager's mutex. Socket options
  (authentication, TTL), the signals between a reader and its machine when a connection is given up,
  and the strings for logging are not modelled.

  \<^bold>\<open>BGP RIB\<close> (\<open>src/bgp/rib\<close>). \<open>BgpRibPath\<close>: paths (\<open>path.go\<close>) and their orders (\<open>pathsort.go\<close>). \<open>BgpDest\<close>: the
  paths and routes of a destination. \<open>BgpSelect\<close>: the decision process; \<open>BgpDecision\<close>: it returns the paths of
  least rank, and where it does not. \<open>BgpInstall\<close>: \<open>SelectRouteForLocRib\<close> and the routes sent to the
  route manager. \<open>BgpDestInv\<close>: the bookkeeping of a destination; \<open>BgpForward\<close>: a selection keeps it, and the
  forwarding table follows; \<open>BgpDestLife\<close>: every sequence of operations on a destination. \<open>BgpLocRib\<close> (\<open>rib.go\<close>): updates, withdrawals, next hops, the route list. Paths, routes,
  neighbors and destinations are pointers in the code and positions in stores here; the order of maps
  and the algorithm of \<open>sort.Sort\<close> are parameters. Aggregation and RPC objects are not modelled.

  \<^bold>\<open>Bounds and fuel\<close>. No definition uses fuel: loops of the code are structural recursion, \<open>function\<close>
  with a measure, or \<open>partial_function (option)\<close> where the code may really loop for ever (decoder
  loops, the search for a session id), and then termination or its failure is a theorem.

  \<^bold>\<open>Not modelled\<close>. Sockets, pcap, gopacket, RPC, databases and logging are input and output: their results
  are arguments. Goroutine scheduling is not modelled beyond the order of the inputs a handler
  receives: invariants are proved for every sequence of inputs. The remaining daemons (OSPF, RIB, ARP,
  NDP, DHCP, VXLAN, IS-IS) and the policy engine, the RPC layers and the hardware glue of the modelled
  ones are listed in the manifest as not modelled.
\<close>

end
